(* ===== verification/Prelude.thy ===== *)
theory Prelude
  imports Main "HOL-Library.Multiset" "HOL-Library.AList" "HOL-Library.List_Lexorder"
    "HOL-Library.Char_ord" "HOL-Library.Product_Lexorder"
begin

text \<open>
  Shared vocabulary of the development.

  \<^item> A Python call that may raise is a value of \<open>'e + 'a\<close>: \<open>Inl\<close> holds the exception,
    \<open>Inr\<close> the returned value. \<open>bindR\<close> sequences two calls, \<open>requireR\<close> is a guard that
    raises, \<open>foldR\<close> is a loop over a tuple whose body may raise.
  \<^item> A Python \<open>str\<close> is the list of its code points, restricted to the range 0 to 255 of
    \<open>char\<close>; its order is Python's, the lexicographic order of code points.
  \<^item> A Python \<open>dict\<close> is an association list in insertion order. Assignment is
    \<open>AList.update\<close> (in place for a known key, at the end for a new one), deletion is
    \<open>AList.delete\<close>, lookup is \<open>map_of\<close>.
  \<^item> \<open>sorted(xs, key=f)\<close> is \<open>sort_key f xs\<close>, which is stable as Python's sort is.
\<close>

named_theorems result_simps "Inversion of results of calls that may raise"

section \<open>Calls that may raise\<close>

fun bindR :: "'e + 'a \<Rightarrow> ('a \<Rightarrow> 'e + 'b) \<Rightarrow> 'e + 'b" where
  "bindR (Inl e) f = Inl e"
| "bindR (Inr a) f = f a"

definition requireR :: "bool \<Rightarrow> 'e \<Rightarrow> 'e + unit" where
  "requireR b e = (if b then Inr () else Inl e)"

fun foldR :: "('s \<Rightarrow> 'x \<Rightarrow> 'e + 's) \<Rightarrow> 's \<Rightarrow> 'x list \<Rightarrow> 'e + 's" where
  "foldR f s [] = Inr s"
| "foldR f s (x # xs) = bindR (f s x) (\<lambda>s'. foldR f s' xs)"

fun mapR :: "('x \<Rightarrow> 'e + 'y) \<Rightarrow> 'x list \<Rightarrow> 'e + 'y list" where
  "mapR f [] = Inr []"
| "mapR f (x # xs) = bindR (f x) (\<lambda>y. bindR (mapR f xs) (\<lambda>ys. Inr (y # ys)))"

definition is_ok :: "'e + 'a \<Rightarrow> bool" where
  "is_ok r = (case r of Inl _ \<Rightarrow> False | Inr _ \<Rightarrow> True)"

lemma is_ok_simps [simp]: "\<not> is_ok (Inl e)" "is_ok (Inr a)"
  by (simp_all add: is_ok_def)

lemma is_ok_iff: "is_ok r \<longleftrightarrow> (\<exists>a. r = Inr a)"
  by (cases r) auto

lemma bindR_cong [fundef_cong]:
  "r = r' \<Longrightarrow> (\<And>a. r' = Inr a \<Longrightarrow> f a = g a) \<Longrightarrow> bindR r f = bindR r' g"
  by (cases r') auto

lemma bindR_Inr_iff [result_simps]:
  "bindR r f = Inr b \<longleftrightarrow> (\<exists>a. r = Inr a \<and> f a = Inr b)"
  by (cases r) auto

lemma bindR_Inl_iff [result_simps]:
  "bindR r f = Inl e \<longleftrightarrow> r = Inl e \<or> (\<exists>a. r = Inr a \<and> f a = Inl e)"
  by (cases r) auto

lemma requireR_Inr_iff [result_simps]: "requireR b e = Inr u \<longleftrightarrow> b"
  by (simp add: requireR_def)

lemma requireR_Inl_iff [result_simps]: "requireR b e = Inl e' \<longleftrightarrow> \<not> b \<and> e' = e"
  by (auto simp: requireR_def)

lemma bindR_require [simp]:
  "bindR (requireR b e) f = (if b then f () else Inl e)"
  by (simp add: requireR_def)

lemma bindR_Inr_right [simp]: "bindR r Inr = r"
  by (cases r) auto

lemma bindR_assoc: "bindR (bindR r f) g = bindR r (\<lambda>a. bindR (f a) g)"
  by (cases r) auto

lemma foldR_append: "foldR f s (xs @ ys) = bindR (foldR f s xs) (\<lambda>s'. foldR f s' ys)"
  by (induction xs arbitrary: s) (simp_all add: bindR_assoc)

lemma foldR_append_Inr [result_simps]:
  "foldR f s (xs @ ys) = Inr t \<longleftrightarrow> (\<exists>s'. foldR f s xs = Inr s' \<and> foldR f s' ys = Inr t)"
  by (simp add: foldR_append bindR_Inr_iff)

lemma foldR_invariant:
  assumes "\<And>s x s'. I s \<Longrightarrow> f s x = Inr s' \<Longrightarrow> I s'"
    and "I s" and "foldR f s xs = Inr t"
  shows "I t"
  using assms(2,3) by (induction xs arbitrary: s) (auto simp: bindR_Inr_iff dest: assms(1))

lemma mapR_length: "mapR f xs = Inr ys \<Longrightarrow> length ys = length xs"
  by (induction xs arbitrary: ys) (auto simp: bindR_Inr_iff)

lemma mapR_inverse:
  assumes "\<And>x. x \<in> set xs \<Longrightarrow> g (f x) = Inr x"
  shows "mapR g (map f xs) = Inr xs"
  using assms by (induction xs) auto

lemma mapR_set:
  "mapR f xs = Inr ys \<Longrightarrow> y \<in> set ys \<Longrightarrow> \<exists>x\<in>set xs. f x = Inr y"
  by (induction xs arbitrary: ys) (auto simp: bindR_Inr_iff)

section \<open>Text\<close>

definition char_code :: "char \<Rightarrow> nat" where
  "char_code c = of_char c"

text \<open>\<open>str.isspace\<close> on one code point below 256.\<close>

definition py_space :: "char \<Rightarrow> bool" where
  "py_space c \<longleftrightarrow> (let n = char_code c in
     (9 \<le> n \<and> n \<le> 13) \<or> (28 \<le> n \<and> n \<le> 32) \<or> n = 133 \<or> n = 160)"

text \<open>\<open>bool(s.strip())\<close>: some code point of the text is not white space.\<close>

definition non_blank :: "string \<Rightarrow> bool" where
  "non_blank s = list_ex (\<lambda>c. \<not> py_space c) s"

text \<open>Code points as binary integers and the order of characters on their bits, for evaluation.\<close>

fun bits_below :: "bool \<Rightarrow> bool list \<Rightarrow> bool list \<Rightarrow> bool" where
  "bits_below e (a # as) (b # bs) = bits_below (if a = b then e else b) as bs"
| "bits_below e as bs = e"

lemma bit_step:
  fixes m n :: nat
  shows "of_bool a + 2 * m < of_bool b + 2 * n \<longleftrightarrow> m < n \<or> (m = n \<and> \<not> a \<and> b)"
    "of_bool a + 2 * m = of_bool b + 2 * n \<longleftrightarrow> a = b \<and> m = n"
  by (cases a; cases b; simp; presburger)+

lemma bits_below_horner:
  fixes as bs :: "bool list"
  assumes "length as = length bs"
  shows "bits_below e as bs \<longleftrightarrow> horner_sum of_bool 2 as < (horner_sum of_bool 2 bs :: nat) \<or>
    (horner_sum of_bool 2 as = (horner_sum of_bool 2 bs :: nat) \<and> e)"
  using assms
proof (induction as bs arbitrary: e rule: list_induct2)
  case (Cons a as b bs)
  then show ?case by (auto simp only: bits_below.simps horner_sum_simps bit_step split: if_splits)
qed simp

lemma char_order_code [code]:
  "Char a0 a1 a2 a3 a4 a5 a6 a7 \<le> Char b0 b1 b2 b3 b4 b5 b6 b7 \<longleftrightarrow>
     bits_below True [a0, a1, a2, a3, a4, a5, a6, a7] [b0, b1, b2, b3, b4, b5, b6, b7]"
  "Char a0 a1 a2 a3 a4 a5 a6 a7 < Char b0 b1 b2 b3 b4 b5 b6 b7 \<longleftrightarrow>
     bits_below False [a0, a1, a2, a3, a4, a5, a6, a7] [b0, b1, b2, b3, b4, b5, b6, b7]"
  by (simp_all only: less_eq_char_def less_char_def of_char_Char bits_below_horner list.size le_less simp_thms)

lemma char_code_int: "int (char_code c) = of_char c"
  by (simp add: char_code_def of_nat_of_char)

lemma char_code_less: "char_code c < numeral k \<longleftrightarrow> (of_char c :: int) < numeral k"
  "numeral k < char_code c \<longleftrightarrow> numeral k < (of_char c :: int)"
  "char_code c \<le> numeral k \<longleftrightarrow> (of_char c :: int) \<le> numeral k"
  "numeral k \<le> char_code c \<longleftrightarrow> numeral k \<le> (of_char c :: int)"
  "char_code c = numeral k \<longleftrightarrow> (of_char c :: int) = numeral k"
  by (simp_all flip: char_code_int)

definition longer_than :: "int \<Rightarrow> 'a list \<Rightarrow> bool" where
  "longer_than n xs \<longleftrightarrow> n < int (length xs)"

lemma longer_than_code [code]:
  "longer_than n [] \<longleftrightarrow> n < 0"
  "longer_than n (x # xs) \<longleftrightarrow> n \<le> 0 \<or> longer_than (n - 1) xs"
  by (auto simp: longer_than_def)

lemma length_less: "numeral k < length xs \<longleftrightarrow> longer_than (numeral k) xs"
  "length xs \<le> numeral k \<longleftrightarrow> \<not> longer_than (numeral k) xs"
  by (auto simp: longer_than_def)

lemma py_space_code [code]: "py_space c \<longleftrightarrow> (let n = (of_char c :: int) in
     (9 \<le> n \<and> n \<le> 13) \<or> (28 \<le> n \<and> n \<le> 32) \<or> n = 133 \<or> n = 160)"
  by (simp add: py_space_def Let_def char_code_less)

definition is_alnum :: "char \<Rightarrow> bool" where
  "is_alnum c \<longleftrightarrow> (let n = char_code c in
     (48 \<le> n \<and> n \<le> 57) \<or> (65 \<le> n \<and> n \<le> 90) \<or> (97 \<le> n \<and> n \<le> 122))"

lemma is_alnum_code [code]:
  "is_alnum (Char b0 b1 b2 b3 b4 b5 b6 b7) \<longleftrightarrow> \<not> b7 \<and>
    (if b6 then (b0 \<or> b1 \<or> b2 \<or> b3 \<or> b4) \<and> \<not> (b4 \<and> b3 \<and> (b2 \<or> b1 \<and> b0))
     else b5 \<and> b4 \<and> \<not> (b3 \<and> (b2 \<or> b1)))"
  by (cases b0; cases b1; cases b2; cases b3; cases b4; cases b5; cases b6; cases b7)
    (simp_all add: is_alnum_def char_code_def)

text \<open>\<open>repr\<close> of a text without quotes, backslashes and unprintable code points.\<close>

definition py_repr :: "string \<Rightarrow> string" where
  "py_repr s = CHR 39 # s @ [CHR 39]"

lemma py_space_witness [simp]: "py_space CHR '' ''" "\<not> py_space CHR ''a''"
  by (simp_all add: py_space_def char_code_def)

lemma non_blank_not_Nil: "non_blank s \<Longrightarrow> s \<noteq> []"
  by (auto simp: non_blank_def)

section \<open>Sorting and duplicate checks\<close>

text \<open>The idiom \<open>len(set(xs)) != len(xs)\<close>.\<close>

definition has_duplicates :: "'a list \<Rightarrow> bool" where
  "has_duplicates xs = (\<not> distinct xs)"

locale keyed_canonical =
  fixes key :: "'a \<Rightarrow> 'k::linorder"
  assumes key_inj: "key x = key y \<Longrightarrow> x = y"
begin

lemma sort_key_mset_eq:
  assumes "mset xs = mset ys"
  shows "sort_key key xs = sort_key key ys"
proof (rule sort_key_inj_key_eq)
  show "mset xs = mset (sort_key key ys)" by (simp add: assms)
  show "inj_on key (set xs)" by (auto intro: inj_onI key_inj)
  show "sorted (map key (sort_key key ys))" by simp
qed

lemma sort_key_idem: "sort_key key (sort_key key xs) = sort_key key xs"
  by (rule sort_key_mset_eq) simp

end

lemma sort_key_mset_eq_on:
  assumes "mset xs = mset ys" and "inj_on key (set xs)"
  shows "sort_key key xs = sort_key key ys"
  by (rule sort_key_inj_key_eq) (use assms in simp_all)

section \<open>Dictionaries\<close>

lemma map_of_rev_distinct: "distinct (map fst kvs) \<Longrightarrow> map_of (rev kvs) = map_of kvs"
  by (rule map_of_inject_set [THEN iffD2]) (simp_all add: rev_map [symmetric])

lemma map_of_map_pair: "map_of (map (\<lambda>x. (f x, g x)) xs) k = map_option g (find (\<lambda>x. f x = k) xs)"
  by (induction xs) auto

text \<open>A dictionary comprehension \<open>{f(x): g(x) for x in xs}\<close>: the last entry of a key wins.\<close>

definition dict_of :: "('x \<Rightarrow> 'k) \<Rightarrow> ('x \<Rightarrow> 'v) \<Rightarrow> 'x list \<Rightarrow> 'k \<Rightarrow> 'v option" where
  "dict_of f g xs = map_of (rev (map (\<lambda>x. (f x, g x)) xs))"

lemma dict_of_distinct:
  "distinct (map f xs) \<Longrightarrow> dict_of f g xs = map_of (map (\<lambda>x. (f x, g x)) xs)"
  unfolding dict_of_def by (rule map_of_rev_distinct) (simp add: comp_def)

lemma dict_of_dom: "dict_of f g xs k \<noteq> None \<longleftrightarrow> k \<in> f ` set xs"
  by (auto simp: dict_of_def map_of_eq_None_iff image_iff)

lemma dict_of_in:
  assumes "distinct (map f xs)" and "x \<in> set xs"
  shows "dict_of f g xs (f x) = Some (g x)"
  unfolding dict_of_distinct [OF assms(1)]
  by (rule map_of_is_SomeI) (use assms in \<open>auto simp: comp_def\<close>)

lemma dict_of_Some: "dict_of f g xs k = Some v \<Longrightarrow> \<exists>x\<in>set xs. f x = k \<and> g x = v"
  by (auto simp: dict_of_def dest!: map_of_SomeD)

section \<open>Python values in descriptors, and exceptions of the language\<close>

text \<open>
  A descriptor is a JSON-shaped Python value. \<open>PDict\<close> keeps insertion order; two
  dictionaries are compared through their keys and lookups. A float is its shortest decimal text.
\<close>

datatype py = PNone | PBool bool | PInt int | PFloat string | PStr string | PList "py list"
  | PDict "(string \<times> py) list"

datatype py_exn = TypeError string | ValueError string | KeyError string | RuntimeError string

text \<open>\<open>set(value) != expected\<close>, for the keys of a mapping.\<close>

definition same_keys :: "(string \<times> py) list \<Rightarrow> string list \<Rightarrow> bool" where
  "same_keys d ks \<longleftrightarrow> set (map fst d) = set ks"

text \<open>
  Closed \<open>StrEnum\<close> classes. \<open>enum_of\<close> is the call \<open>Enum(text)\<close>, which looks the text up
  among the members' values and raises when there is none.
\<close>

definition enum_of :: "'a list \<Rightarrow> ('a \<Rightarrow> string) \<Rightarrow> string \<Rightarrow> 'a option" where
  "enum_of members value s = find (\<lambda>m. value m = s) members"

locale closed_enum =
  fixes members :: "'a list" and value_of :: "'a \<Rightarrow> string"
  assumes values_distinct: "distinct (map value_of members)"
    and members_complete: "m \<in> set members"
begin

lemma value_inject: "value_of m = value_of m' \<longleftrightarrow> m = m'"
  using values_distinct members_complete by (auto simp: distinct_map dest: inj_onD)

lemma enum_of_value [simp]: "enum_of members value_of (value_of m) = Some m"
proof -
  have "find (\<lambda>x. value_of x = value_of m) members = Some m"
    using members_complete [of m] value_inject
    by (induction members) auto
  then show ?thesis by (simp add: enum_of_def)
qed

lemma enum_of_Some: "enum_of members value_of s = Some m \<longleftrightarrow> s = value_of m"
proof
  assume "enum_of members value_of s = Some m"
  then show "s = value_of m" by (auto simp: enum_of_def find_Some_iff)
qed simp

lemma enum_of_None: "enum_of members value_of s = None \<longleftrightarrow> s \<notin> range value_of"
  using enum_of_Some by (metis not_None_eq rangeE rangeI)

end

end
