(* ===== verification/Primitives.thy ===== *)
theory Primitives
  imports Prelude
begin

text \<open>
  The closed primitive types of the core package: \<open>types.py\<close> (transports, connection
  protocols, socket bindings, runtime kinds), \<open>lifecycle.py\<close> (ownership and retention of
  a resource), the purposes of delegation keys (\<open>delegation_keys.py\<close>) and the canonical identity grammar of \<open>_activity_identity.py\<close> and
  \<open>_run_identity.py\<close>.
\<close>

section \<open>Transports and protocols\<close>

datatype transport = TCP | UDP

datatype application_protocol = RAW | HTTP | POSTGRES | DNS | REDIS | SMTP | OTLP_HTTP
  | OTLP_GRPC | NATS | AMQP | KAFKA | S3 | MCP_STREAMABLE_HTTP

fun transport_value :: "transport \<Rightarrow> string" where
  "transport_value TCP = ''tcp''"
| "transport_value UDP = ''udp''"

primrec application_value :: "application_protocol \<Rightarrow> string" where
  "application_value RAW = ''raw''"
| "application_value HTTP = ''http''"
| "application_value POSTGRES = ''postgres''"
| "application_value DNS = ''dns''"
| "application_value REDIS = ''redis''"
| "application_value SMTP = ''smtp''"
| "application_value OTLP_HTTP = ''otlp-http''"
| "application_value OTLP_GRPC = ''otlp-grpc''"
| "application_value NATS = ''nats''"
| "application_value AMQP = ''amqp''"
| "application_value KAFKA = ''kafka''"
| "application_value S3 = ''s3''"
| "application_value MCP_STREAMABLE_HTTP = ''mcp-streamable-http''"

definition transports :: "transport list" where
  "transports = [TCP, UDP]"

definition applications :: "application_protocol list" where
  "applications = [RAW, HTTP, POSTGRES, DNS, REDIS, SMTP, OTLP_HTTP, OTLP_GRPC, NATS, AMQP,
     KAFKA, S3, MCP_STREAMABLE_HTTP]"

interpretation transport: closed_enum transports transport_value
proof
  show "m \<in> set transports" for m by (cases m) (simp_all add: transports_def)
qed (simp add: transports_def)

interpretation application: closed_enum applications application_value
proof
  show "m \<in> set applications" for m by (cases m) (simp_all add: applications_def)
qed (simp add: applications_def)

definition allowed_transports :: "application_protocol \<Rightarrow> transport set" where
  "allowed_transports a = (if a \<in> {RAW, DNS} then {TCP, UDP} else {TCP})"

record protocol =
  proto_transport :: transport
  proto_application :: application_protocol

definition make_protocol :: "transport \<Rightarrow> application_protocol \<Rightarrow> py_exn + protocol" where
  "make_protocol t a =
     (if t \<notin> allowed_transports a
      then Inl (ValueError (application_value a @ '' does not support '' @ transport_value t))
      else Inr \<lparr>proto_transport = t, proto_application = a\<rparr>)"

definition valid_protocol :: "protocol \<Rightarrow> bool" where
  "valid_protocol p \<longleftrightarrow> proto_transport p \<in> allowed_transports (proto_application p)"

definition protocol_value :: "protocol \<Rightarrow> string" where
  "protocol_value p =
     (if proto_application p = RAW then transport_value (proto_transport p)
      else if card (allowed_transports (proto_application p)) = 1
      then application_value (proto_application p)
      else application_value (proto_application p) @ ''+'' @ transport_value (proto_transport p))"

abbreviation proto :: "transport \<Rightarrow> application_protocol \<Rightarrow> protocol" where
  "proto t a \<equiv> \<lparr>proto_transport = t, proto_application = a\<rparr>"

definition canonical_protocols :: "protocol list" where
  "canonical_protocols =
     [proto TCP RAW, proto UDP RAW, proto TCP HTTP, proto TCP POSTGRES, proto TCP DNS,
      proto UDP DNS, proto TCP REDIS, proto TCP SMTP, proto TCP OTLP_HTTP, proto TCP OTLP_GRPC,
      proto TCP NATS, proto TCP AMQP, proto TCP KAFKA, proto TCP S3,
      proto TCP MCP_STREAMABLE_HTTP]"

definition protocol_by_value :: "string \<Rightarrow> protocol option" where
  "protocol_by_value = dict_of protocol_value (\<lambda>p. p) canonical_protocols"

definition parse_protocol :: "string \<Rightarrow> py_exn + protocol" where
  "parse_protocol v = (case protocol_by_value v of
     Some p \<Rightarrow> Inr p
   | None \<Rightarrow> Inl (ValueError (''unknown connection protocol '' @ py_repr v)))"

definition compatible_with :: "protocol \<Rightarrow> protocol \<Rightarrow> bool" where
  "compatible_with p q \<longleftrightarrow> p = q"

text \<open>The table \<open>_ENDPOINT_SCHEMES\<close>; a key that is absent raises \<open>KeyError\<close>.\<close>

definition endpoint_schemes :: "protocol \<Rightarrow> py_exn + string list" where
  "endpoint_schemes p = (case map_of
     [(proto TCP HTTP, [''http'', ''https'']),
      (proto TCP POSTGRES, [''postgres'', ''postgresql'', ''postgresql+psycopg'']),
      (proto TCP RAW, [''tcp'']), (proto UDP RAW, [''udp'']),
      (proto TCP DNS, [''dns+tcp'']), (proto UDP DNS, [''dns+udp'']),
      (proto TCP REDIS, [''redis'', ''rediss'']), (proto TCP SMTP, [''smtp'', ''smtps'']),
      (proto TCP OTLP_HTTP, [''http'', ''https'']), (proto TCP OTLP_GRPC, [''grpc'', ''grpcs'']),
      (proto TCP NATS, [''nats'']), (proto TCP AMQP, [''amqp'', ''amqps'']),
      (proto TCP KAFKA, [''kafka'']), (proto TCP S3, [''s3'', ''http'', ''https'']),
      (proto TCP MCP_STREAMABLE_HTTP, [''http'', ''https''])] p of
     None \<Rightarrow> Inl (KeyError (protocol_value p)) | Some ss \<Rightarrow> Inr ss)"

definition protocol_descriptor :: "protocol \<Rightarrow> (string \<times> py) list" where
  "protocol_descriptor p =
     [(''transport'', PStr (transport_value (proto_transport p))),
      (''application'', PStr (application_value (proto_application p)))]"

definition protocol_from_descriptor :: "(string \<times> py) list \<Rightarrow> py_exn + protocol" where
  "protocol_from_descriptor d =
     (if \<not> same_keys d [''transport'', ''application'']
      then Inl (ValueError ''protocol descriptor requires exactly transport and application'')
      else case (map_of d ''transport'', map_of d ''application'') of
        (Some (PStr t), Some (PStr a)) \<Rightarrow>
          (case (enum_of transports transport_value t, enum_of applications application_value a) of
             (Some t', Some a') \<Rightarrow>
               bindR (make_protocol t' a') (\<lambda>c. case protocol_by_value (protocol_value c) of
                 Some p \<Rightarrow> Inr p
               | None \<Rightarrow> Inl (ValueError ''protocol descriptor has no canonical value''))
           | _ \<Rightarrow> Inl (ValueError ''unknown protocol descriptor value''))
      | (Some (PStr t), _) \<Rightarrow> Inl (ValueError ''protocol application must be a string'')
      | _ \<Rightarrow> Inl (ValueError ''protocol transport must be a string''))"

lemma valid_protocol_iff: "valid_protocol p \<longleftrightarrow> p \<in> set canonical_protocols"
proof (cases p)
  case (fields t a)
  then show ?thesis
    by (cases t; cases a)
      (simp_all add: valid_protocol_def allowed_transports_def canonical_protocols_def)
qed

lemma canonical_values_distinct: "distinct (map protocol_value canonical_protocols)"
  by (simp add: canonical_protocols_def protocol_value_def allowed_transports_def)

lemma protocol_by_value_of: "valid_protocol p \<Longrightarrow> protocol_by_value (protocol_value p) = Some p"
  unfolding protocol_by_value_def valid_protocol_iff
  by (rule dict_of_in [OF canonical_values_distinct])

lemma make_protocol_Inr: "make_protocol t a = Inr p \<longleftrightarrow> p = proto t a \<and> valid_protocol p"
  by (auto simp: make_protocol_def valid_protocol_def)

lemma parse_protocol_value: "valid_protocol p \<Longrightarrow> parse_protocol (protocol_value p) = Inr p"
  by (simp add: parse_protocol_def protocol_by_value_of)

lemma parse_protocol_sound:
  "parse_protocol v = Inr p \<Longrightarrow> valid_protocol p \<and> protocol_value p = v"
  by (auto simp: parse_protocol_def protocol_by_value_def valid_protocol_iff
      split: option.splits dest!: dict_of_Some)

lemma protocol_descriptor_roundtrip:
  "valid_protocol p \<Longrightarrow> protocol_from_descriptor (protocol_descriptor p) = Inr p"
  by (simp add: protocol_from_descriptor_def protocol_descriptor_def same_keys_def
      protocol_by_value_of insert_commute make_protocol_def valid_protocol_def bindR_Inr_iff)

lemma protocol_from_descriptor_Inr:
  "protocol_from_descriptor d = Inr p \<longleftrightarrow>
     valid_protocol p \<and> same_keys d [''transport'', ''application''] \<and>
     map_of d ''transport'' = Some (PStr (transport_value (proto_transport p))) \<and>
     map_of d ''application'' = Some (PStr (application_value (proto_application p)))"
  (is "?l \<longleftrightarrow> ?r")
proof
  assume ?l
  then show ?r
    by (auto simp: protocol_from_descriptor_def bindR_Inr_iff make_protocol_Inr
        protocol_by_value_of transport.enum_of_Some application.enum_of_Some
        split: option.splits py.splits if_splits)
next
  assume ?r
  then show ?l
    by (simp add: protocol_from_descriptor_def protocol_by_value_of make_protocol_def
        valid_protocol_def)
qed

lemma endpoint_schemes_total:
  "valid_protocol p \<Longrightarrow> \<exists>ss. endpoint_schemes p = Inr ss \<and> ss \<noteq> []"
proof -
  have "list_all (\<lambda>p. is_ok (endpoint_schemes p) \<and> endpoint_schemes p \<noteq> Inr []) canonical_protocols"
    by (simp add: canonical_protocols_def endpoint_schemes_def)
  moreover assume "valid_protocol p"
  ultimately show ?thesis by (auto simp: valid_protocol_iff list_all_iff is_ok_iff)
qed

section \<open>Bindings, runtimes and block families\<close>

datatype socket_binding = ENVIRONMENT | RUNTIME_CONTROL

datatype endpoint_scope = LOCAL | PRIVATE | PUBLIC

datatype runtime_kind = DOCKER | EXTERNAL_KIND | DRY_RUN | AWS | KUBERNETES

datatype workspace_lifecycle = CREATED | WS_RUNNING | WS_PAUSED | STOPPED | ARCHIVED
  | DECONSTRUCTED | DELETED | WS_FAILED

datatype block_family = APPLICATION | DATA | PROXY

fun socket_binding_value :: "socket_binding \<Rightarrow> string" where
  "socket_binding_value ENVIRONMENT = ''environment''"
| "socket_binding_value RUNTIME_CONTROL = ''runtime-control''"

primrec endpoint_scope_value :: "endpoint_scope \<Rightarrow> string" where
  "endpoint_scope_value LOCAL = ''local''"
| "endpoint_scope_value PRIVATE = ''private''"
| "endpoint_scope_value PUBLIC = ''public''"

primrec block_family_value :: "block_family \<Rightarrow> string" where
  "block_family_value APPLICATION = ''application''"
| "block_family_value DATA = ''data''"
| "block_family_value PROXY = ''proxy''"

primrec runtime_kind_value :: "runtime_kind \<Rightarrow> string" where
  "runtime_kind_value DOCKER = ''docker''"
| "runtime_kind_value EXTERNAL_KIND = ''external''"
| "runtime_kind_value DRY_RUN = ''dry-run''"
| "runtime_kind_value AWS = ''aws''"
| "runtime_kind_value KUBERNETES = ''kubernetes''"

section \<open>Purposes of delegation keys\<close>

datatype delegation_key_purpose = KeyForGatewayProbe | KeyForNodeControl
  | KeyForNodeControlSurfaceRead | KeyForGatewayTransit

primrec delegation_key_purpose_value :: "delegation_key_purpose \<Rightarrow> string" where
  "delegation_key_purpose_value KeyForGatewayProbe = ''gateway-probe''"
| "delegation_key_purpose_value KeyForNodeControl = ''workload-node-control''"
| "delegation_key_purpose_value KeyForNodeControlSurfaceRead = ''workload-node-control-surface-read''"
| "delegation_key_purpose_value KeyForGatewayTransit = ''gateway-node-control-transit''"

definition delegation_key_purposes :: "delegation_key_purpose list" where
  "delegation_key_purposes = [KeyForGatewayProbe, KeyForNodeControl, KeyForNodeControlSurfaceRead,
     KeyForGatewayTransit]"

interpretation key_purpose: closed_enum delegation_key_purposes delegation_key_purpose_value
proof
  show "distinct (map delegation_key_purpose_value delegation_key_purposes)" by code_simp
  show "m \<in> set delegation_key_purposes" for m by (cases m) (simp_all add: delegation_key_purposes_def)
qed

section \<open>Canonical identities\<close>

text \<open>
  The regular expression \<open>[A-Za-z0-9][A-Za-z0-9._:-]{0,199}\<close> of the activity and run
  identity grammars.
\<close>

definition identity_char :: "char \<Rightarrow> bool" where
  "identity_char c \<longleftrightarrow> is_alnum c \<or> c \<in> set ''._:-''"

definition is_canonical_activity_identity :: "string \<Rightarrow> bool" where
  "is_canonical_activity_identity s = (case s of
     [] \<Rightarrow> False
   | c # cs \<Rightarrow> is_alnum c \<and> list_all identity_char cs \<and> length cs \<le> 199)"

definition is_canonical_run_identity :: "string \<Rightarrow> bool" where
  "is_canonical_run_identity s = (case s of
     [] \<Rightarrow> False
   | c # cs \<Rightarrow> is_alnum c \<and> list_all identity_char cs \<and> length cs \<le> 199)"

datatype run_id = RunId (run_id_value: string)

definition make_run_id :: "string \<Rightarrow> py_exn + run_id" where
  "make_run_id s =
     (if \<not> is_canonical_run_identity s then Inl (ValueError ''run id is malformed'')
      else Inr (RunId s))"

lemma canonical_identity_code [code]:
  "is_canonical_activity_identity s = (case s of
     [] \<Rightarrow> False | c # cs \<Rightarrow> is_alnum c \<and> list_all identity_char cs \<and> \<not> longer_than 199 cs)"
  "is_canonical_run_identity s = (case s of
     [] \<Rightarrow> False | c # cs \<Rightarrow> is_alnum c \<and> list_all identity_char cs \<and> \<not> longer_than 199 cs)"
  by (simp_all add: is_canonical_activity_identity_def is_canonical_run_identity_def length_less split: list.splits)

lemma identity_not_space: "identity_char c \<Longrightarrow> \<not> py_space c"
  by (auto simp: identity_char_def is_alnum_def py_space_def Let_def char_code_def)

lemma alnum_identity_char: "is_alnum c \<Longrightarrow> identity_char c"
  by (simp add: identity_char_def)

lemma activity_identity_non_blank: "is_canonical_activity_identity s \<Longrightarrow> non_blank s"
  by (auto simp: is_canonical_activity_identity_def non_blank_def
      dest: alnum_identity_char identity_not_space split: list.splits)

lemma run_identity_non_blank: "is_canonical_run_identity s \<Longrightarrow> non_blank s"
  by (auto simp: is_canonical_run_identity_def non_blank_def
      dest: alnum_identity_char identity_not_space split: list.splits)

lemma activity_identity_length:
  "is_canonical_activity_identity s \<Longrightarrow> 1 \<le> length s \<and> length s \<le> 200"
  by (auto simp: is_canonical_activity_identity_def split: list.splits)

text \<open>
  No quote, backslash or unprintable code point occurs in an identity, so \<open>py_repr\<close> is
  exact on identities.
\<close>

lemma activity_identity_printable:
  assumes "is_canonical_activity_identity s" and "c \<in> set s"
  shows "32 < char_code c \<and> char_code c < 127 \<and> char_code c \<noteq> 39 \<and> char_code c \<noteq> 92"
proof -
  have "identity_char c"
    using assms
    by (auto simp: is_canonical_activity_identity_def list_all_iff
        intro: alnum_identity_char split: list.splits)
  then show ?thesis
    by (auto simp: identity_char_def is_alnum_def char_code_def Let_def)
qed

end
