(* ===== verification/Saga_Program.thy ===== *)
theory Saga_Program
  imports Primitives
begin

text \<open>
  Saga syntax of \<open>planning/saga.py\<close>: steps, sequential and parallel composition, and the
  flattening that rejects a repeated identity. An effect of type \<open>'e\<close> is never \<open>None\<close>,
  which is the check of the \<open>SagaStep\<close> constructor.
\<close>

datatype saga_exn = SagaProgramError string | SagaStateError string | SagaKeyError string

datatype saga_step_id = SagaStepId (step_id_value: string)

definition make_step_id :: "string \<Rightarrow> saga_exn + saga_step_id" where
  "make_step_id s = (if \<not> non_blank s then Inl (SagaProgramError ''saga step id must not be empty'')
     else Inr (SagaStepId s))"

record 'e saga_step =
  step_id :: saga_step_id
  effect :: 'e
  step_compensation :: "'e option"

datatype 'e saga_program = End
  | StepNode "'e saga_step" "'e saga_program"
  | ParallelNode "'e saga_program list" "'e saga_program"

text \<open>The constructor checks of \<open>ParallelNode\<close>.\<close>

definition make_parallel_node ::
  "'e saga_program list \<Rightarrow> 'e saga_program \<Rightarrow> saga_exn + 'e saga_program" where
  "make_parallel_node branches nxt =
     (if length branches < 2
      then Inl (SagaProgramError ''parallel saga nodes require at least two branches'')
      else if End \<in> set branches
      then Inl (SagaProgramError ''parallel saga branches must not be empty'')
      else Inr (ParallelNode branches nxt))"

definition step_program :: "'e saga_step \<Rightarrow> 'e saga_program" where
  "step_program v = StepNode v End"

definition chain :: "'e saga_step list \<Rightarrow> 'e saga_program" where
  "chain vs = foldr StepNode vs End"

fun coerce_program :: "'e saga_step + 'e saga_program \<Rightarrow> 'e saga_program" where
  "coerce_program (Inl v) = step_program v"
| "coerce_program (Inr p) = p"

definition parallel ::
  "('e saga_step + 'e saga_program) list \<Rightarrow> saga_exn + 'e saga_program" where
  "parallel branches = make_parallel_node (map coerce_program branches) End"

fun then_program :: "'e saga_program \<Rightarrow> 'e saga_program \<Rightarrow> 'e saga_program" where
  "then_program End following = following"
| "then_program (StepNode v nxt) following = StepNode v (then_program nxt following)"
| "then_program (ParallelNode bs nxt) following = ParallelNode bs (then_program nxt following)"

fun walk :: "'e saga_program \<Rightarrow> 'e saga_step list" where
  "walk End = []"
| "walk (StepNode v nxt) = v # walk nxt"
| "walk (ParallelNode bs nxt) = concat (map walk bs) @ walk nxt"

text \<open>The loop of \<open>program_steps\<close> over the flattened steps.\<close>

fun first_repeated :: "saga_step_id set \<Rightarrow> 'e saga_step list \<Rightarrow> saga_step_id option" where
  "first_repeated seen [] = None"
| "first_repeated seen (v # vs) =
     (if step_id v \<in> seen then Some (step_id v) else first_repeated (insert (step_id v) seen) vs)"

definition program_steps :: "'e saga_program \<Rightarrow> saga_exn + 'e saga_step list" where
  "program_steps p = (case first_repeated {} (walk p) of
     Some i \<Rightarrow> Inl (SagaProgramError (''duplicate saga step id '' @ py_repr (step_id_value i)))
   | None \<Rightarrow> Inr (walk p))"

text \<open>What the constructors guarantee of a program value.\<close>

fun coherent :: "'e saga_program \<Rightarrow> bool" where
  "coherent End = True"
| "coherent (StepNode v nxt) = coherent nxt"
| "coherent (ParallelNode bs nxt) \<longleftrightarrow>
     2 \<le> length bs \<and> End \<notin> set bs \<and> (\<forall>b\<in>set bs. coherent b) \<and> coherent nxt"

section \<open>Composition laws\<close>

lemma then_program_End [simp]: "then_program p End = p"
  by (induction p) auto

lemma then_program_assoc: "then_program (then_program p q) r = then_program p (then_program q r)"
  by (induction p) auto

lemma walk_then: "walk (then_program p q) = walk p @ walk q"
  by (induction p) auto

lemma walk_chain: "walk (chain vs) = vs"
  by (induction vs) (auto simp: chain_def)

lemma chain_append: "chain (vs @ ws) = then_program (chain vs) (chain ws)"
  by (induction vs) (auto simp: chain_def)

lemma coherent_then: "coherent (then_program p q) \<longleftrightarrow> coherent p \<and> coherent q"
  by (induction p) auto

lemma parallel_coherent:
  "parallel bs = Inr p \<Longrightarrow> \<forall>b\<in>set bs. coherent (coerce_program b) \<Longrightarrow>
     coherent p \<and> walk p = concat (map (walk \<circ> coerce_program) bs)"
  by (auto simp: parallel_def make_parallel_node_def comp_def split: if_splits)

lemma coherent_walk_empty: "coherent p \<Longrightarrow> walk p = [] \<Longrightarrow> p = End"
proof (induction p)
  case (ParallelNode bs nxt)
  then obtain b where "b \<in> set bs" by (cases bs) auto
  with ParallelNode have "b = End" by auto
  with \<open>b \<in> set bs\<close> ParallelNode.prems(1) show ?case by simp
qed auto

lemma first_repeated_None:
  "first_repeated seen vs = None \<longleftrightarrow>
     distinct (map step_id vs) \<and> seen \<inter> step_id ` set vs = {}"
  by (induction vs arbitrary: seen) auto

lemma program_steps_Inr:
  "program_steps p = Inr vs \<longleftrightarrow> vs = walk p \<and> distinct (map step_id (walk p))"
  by (auto simp: program_steps_def first_repeated_None split: option.splits)
    (metis first_repeated_None inf_bot_left option.distinct(1))

lemma program_steps_then:
  "program_steps (then_program p q) = Inr us \<longleftrightarrow>
     (\<exists>vs ws. program_steps p = Inr vs \<and> program_steps q = Inr ws \<and> us = vs @ ws \<and>
        step_id ` set vs \<inter> step_id ` set ws = {})"
  by (auto simp: program_steps_Inr walk_then)

end
