(* ===== verification/Plan_Syntax.thy ===== *)
theory Plan_Syntax
  imports Primitives
begin

text \<open>
  The closed activity algebra of \<open>planning/activity_plan.py\<close>: typed targets, the sixteen
  operations, the inverse attached to each operation, and one planned activity. The
  subjects of a structural change (\<open>topology/validation.py\<close>, \<open>topology/changes.py\<close>) come
  first, since a review activity names one.
\<close>

section \<open>Subjects of structural changes\<close>

datatype structural_field = GRAPH_NAME | RUNTIME_KIND | RUNTIME_CONTAINMENT | RUNTIME_AUTHORITY
  | RUNTIME_METADATA | BLOCK_FAMILY | BLOCK_SPECIFICATION | IMPLEMENTATION_KIND
  | RUNTIME_MEMBERSHIP | SOCKET_CONTRACT | ENDPOINT | PUBLIC_ENVIRONMENT | SOCKET_ENVIRONMENT
  | NODE_METADATA | CONFIGURATION_ARTIFACTS | SECRET_DELIVERIES | DELEGATION_AUTHORITIES
  | DELEGATION_VERIFIER_PROJECTION | RESOURCE_LIFECYCLE

datatype diff_owner = GraphSubject
  | RuntimeSubject string
  | NodeSubject string
  | PublicIngressSubject string

datatype diff_subject = OwnerSubject diff_owner
  | EdgeSubject string
  | FieldSubject diff_owner structural_field "string option"

section \<open>Identities and targets\<close>

datatype activity_id = ActivityId (activity_id_value: string)

instantiation activity_id :: linorder
begin

definition less_eq_activity_id :: "activity_id \<Rightarrow> activity_id \<Rightarrow> bool" where
  "a \<le> b \<longleftrightarrow> activity_id_value a \<le> activity_id_value b"

definition less_activity_id :: "activity_id \<Rightarrow> activity_id \<Rightarrow> bool" where
  "a < b \<longleftrightarrow> activity_id_value a < activity_id_value b"

instance
  by standard (auto simp: less_eq_activity_id_def less_activity_id_def activity_id.expand)

end

definition make_activity_id :: "string \<Rightarrow> py_exn + activity_id" where
  "make_activity_id s =
     (if \<not> is_canonical_activity_identity s then Inl (ValueError ''activity id is malformed'')
      else Inr (ActivityId s))"

datatype activity_dependency = ActivityDependency (predecessor: activity_id)

datatype node_target = NodeTarget string
datatype runtime_target = RuntimeTarget string
datatype data_resource_target = DataResourceTarget string string
datatype socket_connection_target = SocketConnectionTarget string
datatype public_ingress_target = PublicIngressActivityTarget string
datatype change_target = ChangeTarget diff_subject

definition make_node_target :: "string \<Rightarrow> py_exn + node_target" where
  "make_node_target i = (if \<not> non_blank i
     then Inl (ValueError ''node target must not be empty'') else Inr (NodeTarget i))"

definition make_runtime_target :: "string \<Rightarrow> py_exn + runtime_target" where
  "make_runtime_target i = (if \<not> non_blank i
     then Inl (ValueError ''runtime target must not be empty'') else Inr (RuntimeTarget i))"

definition make_data_resource_target :: "string \<Rightarrow> string \<Rightarrow> py_exn + data_resource_target" where
  "make_data_resource_target n r = (if \<not> non_blank n \<or> \<not> non_blank r
     then Inl (ValueError ''data resource target identities must not be empty'')
     else Inr (DataResourceTarget n r))"

definition make_socket_connection_target :: "string \<Rightarrow> py_exn + socket_connection_target" where
  "make_socket_connection_target i = (if \<not> non_blank i
     then Inl (ValueError ''socket connection target must not be empty'')
     else Inr (SocketConnectionTarget i))"

definition make_public_ingress_target :: "string \<Rightarrow> py_exn + public_ingress_target" where
  "make_public_ingress_target i = (if \<not> non_blank i
     then Inl (ValueError ''public ingress activity target must not be empty'')
     else Inr (PublicIngressActivityTarget i))"

section \<open>Operations and their inverses\<close>

datatype review_reason = UNSUPPORTED_CHANGE | AMBIGUOUS_CHANGE

datatype activity_operation = StartNode node_target
  | StopNode node_target
  | RemoveNodeResource node_target
  | WaitForHealthy node_target
  | AddSocketConnection socket_connection_target
  | SwitchSocketConnection socket_connection_target
  | RemoveSocketConnection socket_connection_target
  | AllocatePublicIngress public_ingress_target
  | RemovePublicIngress public_ingress_target
  | ReconcileNode node_target
  | ReconcileRuntime runtime_target
  | StartRuntime runtime_target
  | StopRuntime runtime_target
  | RemoveRuntimeResource runtime_target
  | DestroyDataResource data_resource_target
  | ReviewChange change_target review_reason

datatype material_source = BASE_GRAPH | DESIRED_GRAPH

datatype non_compensatable_reason = RESOURCE_REMOVAL | DATA_DESTRUCTION

datatype compensation_spec = Compensate activity_operation material_source
  | NoCompensationRequired
  | NonCompensatable non_compensatable_reason

fun compensation_for_operation :: "activity_operation \<Rightarrow> compensation_spec" where
  "compensation_for_operation (StartNode t) = Compensate (StopNode t) DESIRED_GRAPH"
| "compensation_for_operation (StopNode t) = Compensate (StartNode t) BASE_GRAPH"
| "compensation_for_operation (StartRuntime r) = Compensate (StopRuntime r) DESIRED_GRAPH"
| "compensation_for_operation (StopRuntime r) = Compensate (StartRuntime r) BASE_GRAPH"
| "compensation_for_operation (AddSocketConnection s) =
     Compensate (RemoveSocketConnection s) DESIRED_GRAPH"
| "compensation_for_operation (RemoveSocketConnection s) =
     Compensate (AddSocketConnection s) BASE_GRAPH"
| "compensation_for_operation (SwitchSocketConnection s) =
     Compensate (SwitchSocketConnection s) BASE_GRAPH"
| "compensation_for_operation (AllocatePublicIngress i) =
     Compensate (RemovePublicIngress i) DESIRED_GRAPH"
| "compensation_for_operation (RemovePublicIngress i) =
     Compensate (AllocatePublicIngress i) BASE_GRAPH"
| "compensation_for_operation (ReconcileNode t) = Compensate (ReconcileNode t) BASE_GRAPH"
| "compensation_for_operation (ReconcileRuntime r) = Compensate (ReconcileRuntime r) BASE_GRAPH"
| "compensation_for_operation (WaitForHealthy t) = NoCompensationRequired"
| "compensation_for_operation (ReviewChange c r) = NoCompensationRequired"
| "compensation_for_operation (RemoveNodeResource t) = NonCompensatable RESOURCE_REMOVAL"
| "compensation_for_operation (RemoveRuntimeResource r) = NonCompensatable RESOURCE_REMOVAL"
| "compensation_for_operation (DestroyDataResource d) = NonCompensatable DATA_DESTRUCTION"

fun is_compensate :: "compensation_spec \<Rightarrow> bool" where
  "is_compensate (Compensate _ _) = True"
| "is_compensate _ = False"

fun is_review :: "activity_operation \<Rightarrow> bool" where
  "is_review (ReviewChange _ _) = True"
| "is_review _ = False"

fun is_data_destruction :: "activity_operation \<Rightarrow> bool" where
  "is_data_destruction (DestroyDataResource _) = True"
| "is_data_destruction _ = False"

section \<open>Planned activities\<close>

datatype risk_level = INFORMATIONAL | LOW | MEDIUM | HIGH | CRITICAL

datatype activity_impact = NON_DESTRUCTIVE | DISRUPTIVE | DESTRUCTIVE

primrec risk_rank :: "risk_level \<Rightarrow> nat" where
  "risk_rank INFORMATIONAL = 0"
| "risk_rank LOW = 1"
| "risk_rank MEDIUM = 2"
| "risk_rank HIGH = 3"
| "risk_rank CRITICAL = 4"

record planned_activity =
  activity_id :: activity_id
  operation :: activity_operation
  dependencies :: "activity_dependency list"
  risk :: risk_level
  impact :: activity_impact
  compensation :: compensation_spec

text \<open>
  The constructor \<open>PlannedActivity(...)\<close>: the dependencies are sorted and the
  compensation is always the one of the operation.
\<close>

definition dependency_key :: "activity_dependency \<Rightarrow> string" where
  "dependency_key d = activity_id_value (predecessor d)"

definition make_activity :: "activity_id \<Rightarrow> activity_operation \<Rightarrow> activity_dependency list \<Rightarrow>
    risk_level \<Rightarrow> activity_impact \<Rightarrow> planned_activity" where
  "make_activity i oper deps r im =
     \<lparr>activity_id = i, operation = oper, dependencies = sort_key dependency_key deps,
      risk = r, impact = im, compensation = compensation_for_operation oper\<rparr>"

definition predecessors :: "planned_activity \<Rightarrow> activity_id list" where
  "predecessors a = map predecessor (dependencies a)"

definition wf_activity :: "planned_activity \<Rightarrow> bool" where
  "wf_activity a \<longleftrightarrow> sorted (map dependency_key (dependencies a)) \<and>
     compensation a = compensation_for_operation (operation a)"

interpretation dep_key_order: keyed_canonical dependency_key
  by standard (metis activity_dependency.expand activity_id.expand dependency_key_def)

lemma make_activity_wf: "wf_activity (make_activity i oper deps r im)"
  by (simp add: make_activity_def wf_activity_def)

lemma make_activity_fields [simp]:
  "activity_id (make_activity i oper deps r im) = i"
  "operation (make_activity i oper deps r im) = oper"
  "risk (make_activity i oper deps r im) = r"
  "impact (make_activity i oper deps r im) = im"
  "compensation (make_activity i oper deps r im) = compensation_for_operation oper"
  by (simp_all add: make_activity_def)

lemma make_activity_predecessors [simp]:
  "set (predecessors (make_activity i oper deps r im)) = predecessor ` set deps"
  by (simp add: make_activity_def predecessors_def)

lemma make_activity_order:
  "mset deps = mset deps' \<Longrightarrow> make_activity i oper deps r im = make_activity i oper deps' r im"
  by (simp add: make_activity_def dep_key_order.sort_key_mset_eq [of deps deps'])

lemma wf_activity_rebuild:
  "wf_activity a \<Longrightarrow>
     make_activity (activity_id a) (operation a) (dependencies a) (risk a) (impact a) = a"
  by (simp add: make_activity_def wf_activity_def sort_key_id_if_sorted)

text \<open>
  The inverse of an inverse is the operation itself, and the two are materialized from
  opposite graphs, except where an operation is its own inverse and always goes back to
  the base graph.
\<close>

lemma compensation_involution:
  assumes "compensation_for_operation oper = Compensate back src"
  shows "\<exists>src'. compensation_for_operation back = Compensate oper src' \<and>
    (if back = oper then src = BASE_GRAPH \<and> src' = BASE_GRAPH else src \<noteq> src')"
  using assms by (cases oper) auto

lemma compensation_never_review:
  "compensation_for_operation oper = Compensate back src \<Longrightarrow>
     \<not> is_review back \<and> \<not> is_data_destruction back \<and> \<not> is_review oper \<and> \<not> is_data_destruction oper"
  by (cases oper) auto

end
