(* ===== verification/Plan_Validation.thy ===== *)
theory Plan_Validation
  imports Plan_Syntax
begin

text \<open>
  \<open>_validate_composition\<close> and \<open>_has_cycle\<close> of \<open>planning/activity_plan.py\<close>. The depth-first
  search is modelled with its two sets: \<open>visiting\<close> is passed down (the code adds the
  identity on entry and removes it on a normal return), \<open>visited\<close> is threaded through.
  A dependency that is not in the dictionary raises \<open>KeyError\<close>, as \<open>by_id[...]\<close> does.
\<close>

type_synonym plan_dict = "(activity_id \<times> planned_activity) list"

datatype violation_code = DUPLICATE_ACTIVITY_ID | MISSING_DEPENDENCY | SELF_DEPENDENCY
  | DUPLICATE_DEPENDENCY | DEPENDENCY_CYCLE | DESTRUCTIVE_RISK | DATA_DESTRUCTION_SAFETY
  | REVIEW_RISK

primrec violation_code_value :: "violation_code \<Rightarrow> string" where
  "violation_code_value DUPLICATE_ACTIVITY_ID = ''duplicate-activity-id''"
| "violation_code_value MISSING_DEPENDENCY = ''missing-dependency''"
| "violation_code_value SELF_DEPENDENCY = ''self-dependency''"
| "violation_code_value DUPLICATE_DEPENDENCY = ''duplicate-dependency''"
| "violation_code_value DEPENDENCY_CYCLE = ''dependency-cycle''"
| "violation_code_value DESTRUCTIVE_RISK = ''destructive-risk''"
| "violation_code_value DATA_DESTRUCTION_SAFETY = ''data-destruction-safety''"
| "violation_code_value REVIEW_RISK = ''review-risk''"

record plan_violation =
  code :: violation_code
  message :: string
  violating :: "activity_id option"

abbreviation violation :: "violation_code \<Rightarrow> string \<Rightarrow> activity_id \<Rightarrow> plan_violation" where
  "violation c m i \<equiv> \<lparr>code = c, message = m, violating = Some i\<rparr>"

section \<open>One pass over the activities\<close>

text \<open>The first loop: index the activities by identity, the first of an identity is kept.\<close>

fun index_activities :: "plan_dict \<Rightarrow> planned_activity list \<Rightarrow> plan_violation list \<times> plan_dict" where
  "index_activities by_id [] = ([], by_id)"
| "index_activities by_id (a # as) =
     (if map_of by_id (activity_id a) \<noteq> None
      then (let (vs, d) = index_activities by_id as
            in (violation DUPLICATE_ACTIVITY_ID
                  (''duplicate activity id '' @ py_repr (activity_id_value (activity_id a)))
                  (activity_id a) # vs, d))
      else index_activities (AList.update (activity_id a) a by_id) as)"

definition dependency_violations ::
  "activity_id set \<Rightarrow> planned_activity \<Rightarrow> activity_id \<Rightarrow> plan_violation list" where
  "dependency_violations known a p =
     (let shown = py_repr (activity_id_value (activity_id a)) in
      if p = activity_id a
      then [violation SELF_DEPENDENCY (''activity '' @ shown @ '' depends on itself'')
              (activity_id a)]
      else if p \<notin> known
      then [violation MISSING_DEPENDENCY
              (''activity '' @ shown @ '' depends on missing activity '' @
                py_repr (activity_id_value p)) (activity_id a)]
      else [])"

definition duplicate_dependency_violations :: "planned_activity \<Rightarrow> plan_violation list" where
  "duplicate_dependency_violations a =
     (if has_duplicates (predecessors a)
      then [violation DUPLICATE_DEPENDENCY
              (''activity '' @ py_repr (activity_id_value (activity_id a)) @
                '' repeats a dependency edge'') (activity_id a)]
      else [])"

definition safety_violations :: "planned_activity \<Rightarrow> plan_violation list" where
  "safety_violations a =
     (let shown = py_repr (activity_id_value (activity_id a)) in
      (if impact a = DESTRUCTIVE \<and> risk_rank (risk a) < risk_rank HIGH
       then [violation DESTRUCTIVE_RISK
               (''destructive activity '' @ shown @ '' must be high or critical risk'')
               (activity_id a)] else []) @
      (if is_data_destruction (operation a) \<and> (risk a \<noteq> CRITICAL \<or> impact a \<noteq> DESTRUCTIVE)
       then [violation DATA_DESTRUCTION_SAFETY
               (''data destruction activity '' @ shown @ '' must be critical risk and destructive'')
               (activity_id a)] else []) @
      (if is_review (operation a) \<and> risk_rank (risk a) < risk_rank HIGH
       then [violation REVIEW_RISK
               (''review activity '' @ shown @ '' must be high or critical risk'')
               (activity_id a)] else []))"

definition activity_violations :: "activity_id set \<Rightarrow> planned_activity \<Rightarrow> plan_violation list" where
  "activity_violations known a =
     duplicate_dependency_violations a @
     concat (map (dependency_violations known a) (predecessors a)) @ safety_violations a"

section \<open>Cycle detection\<close>

function visit :: "plan_dict \<Rightarrow> activity_id set \<Rightarrow> activity_id set \<Rightarrow> activity_id \<Rightarrow>
    py_exn + (bool \<times> activity_id set)"
  and visit_deps :: "plan_dict \<Rightarrow> activity_id set \<Rightarrow> activity_id set \<Rightarrow> activity_id list \<Rightarrow>
    py_exn + (bool \<times> activity_id set)"
where
  "visit by_id visiting visited i =
     (if i \<in> visiting then Inr (True, visited)
      else if i \<in> visited then Inr (False, visited)
      else case map_of by_id i of
        None \<Rightarrow> Inl (KeyError (activity_id_value i))
      | Some a \<Rightarrow>
          bindR (visit_deps by_id (insert i visiting) visited (predecessors a))
            (\<lambda>(found, visited'). if found then Inr (True, visited')
               else Inr (False, insert i visited')))"
| "visit_deps by_id visiting visited [] = Inr (False, visited)"
| "visit_deps by_id visiting visited (p # ps) =
     bindR (visit by_id visiting visited p)
       (\<lambda>(found, visited'). if found then Inr (True, visited')
          else visit_deps by_id visiting visited' ps)"
  by pat_completeness auto
termination
proof (relation "measures
    [\<lambda>x. case x of Inl (by_id, visiting, _, _) \<Rightarrow> card (fst ` set by_id - visiting)
                 | Inr (by_id, visiting, _, _) \<Rightarrow> card (fst ` set by_id - visiting),
     \<lambda>x. case x of Inl _ \<Rightarrow> 0 | Inr (_, _, _, ps) \<Rightarrow> length ps]", goal_cases)
  case (2 by_id visiting visited i a)
  then have "i \<in> fst ` set by_id - visiting"
    by (force dest: map_of_SomeD)
  then have "fst ` set by_id - insert i visiting \<subset> fst ` set by_id - visiting"
    by blast
  then have "card (fst ` set by_id - insert i visiting) < card (fst ` set by_id - visiting)"
    by (intro psubset_card_mono) simp_all
  then show ?case by simp
qed auto

declare visit.simps [simp del]

definition has_cycle :: "plan_dict \<Rightarrow> py_exn + bool" where
  "has_cycle by_id =
     bindR (visit_deps by_id {} {} (sort_key activity_id_value (map fst by_id)))
       (\<lambda>(found, _). Inr found)"

section \<open>The whole validation\<close>

text \<open>The sort key of a violation; a missing activity sorts as the empty text.\<close>

definition violation_key :: "plan_violation \<Rightarrow> string \<times> string \<times> string" where
  "violation_key v = (violation_code_value (code v),
     case violating v of Some i \<Rightarrow> activity_id_value i | None \<Rightarrow> [], message v)"

definition blocks_cycle_check :: "plan_violation \<Rightarrow> bool" where
  "blocks_cycle_check v \<longleftrightarrow>
     code v \<in> {DUPLICATE_ACTIVITY_ID, MISSING_DEPENDENCY, SELF_DEPENDENCY}"

definition validate_composition :: "planned_activity list \<Rightarrow> py_exn + plan_violation list" where
  "validate_composition as =
     (let (duplicates, by_id) = index_activities [] as;
          violations = duplicates @ concat (map (activity_violations (fst ` set by_id)) as)
      in bindR (if list_ex blocks_cycle_check violations then Inr False else has_cycle by_id)
        (\<lambda>cyclic. Inr (sort_key violation_key
          (if cyclic
           then violations @ [\<lparr>code = DEPENDENCY_CYCLE,
                  message = ''activity dependencies contain a cycle'', violating = None\<rparr>]
           else violations))))"

section \<open>The search decides cyclicity\<close>

text \<open>\<open>needs by_id\<close> relates an activity to the activities it depends on.\<close>

definition needs :: "plan_dict \<Rightarrow> (activity_id \<times> activity_id) set" where
  "needs by_id = {(i, p). \<exists>a. map_of by_id i = Some a \<and> p \<in> set (predecessors a)}"

definition closed_dict :: "plan_dict \<Rightarrow> bool" where
  "closed_dict by_id \<longleftrightarrow>
     (\<forall>i a. map_of by_id i = Some a \<longrightarrow> set (predecessors a) \<subseteq> fst ` set by_id)"

text \<open>What the search knows of \<open>visited\<close>: closed, off the current path, on no cycle.\<close>

definition settled :: "plan_dict \<Rightarrow> activity_id set \<Rightarrow> activity_id set \<Rightarrow> bool" where
  "settled by_id visiting visited \<longleftrightarrow> needs by_id `` visited \<subseteq> visited \<and>
     visited \<inter> visiting = {} \<and> (\<forall>v\<in>visited. (v, v) \<notin> (needs by_id)\<^sup>+)"

definition search_ok :: "plan_dict \<Rightarrow> activity_id set \<Rightarrow> activity_id set \<Rightarrow> activity_id set \<Rightarrow>
    py_exn + (bool \<times> activity_id set) \<Rightarrow> bool" where
  "search_ok by_id visiting visited targets r \<longleftrightarrow> (\<exists>found visited'. r = Inr (found, visited') \<and>
     (if found then \<exists>v. (v, v) \<in> (needs by_id)\<^sup>+
      else visited \<union> targets \<subseteq> visited' \<and> settled by_id visiting visited'))"

lemma search_okE:
  assumes "search_ok by_id visiting visited targets r"
  obtains (cycle) visited' v where "r = Inr (True, visited')" "(v, v) \<in> (needs by_id)\<^sup>+"
  | (clear) visited' where "r = Inr (False, visited')" "visited \<union> targets \<subseteq> visited'"
      "settled by_id visiting visited'"
  using assms by (fastforce simp: search_ok_def split: if_splits)

lemma settled_insert:
  assumes "settled by_id (insert i visiting) visited" and "i \<notin> visiting"
    and "needs by_id `` {i} \<subseteq> visited"
  shows "settled by_id visiting (insert i visited)"
proof -
  have closed: "needs by_id `` visited \<subseteq> visited" and off: "i \<notin> visited"
    using assms(1) by (auto simp: settled_def)
  have "(i, i) \<notin> (needs by_id)\<^sup>+"
  proof
    assume "(i, i) \<in> (needs by_id)\<^sup>+"
    then obtain p where "(i, p) \<in> needs by_id" "(p, i) \<in> (needs by_id)\<^sup>*"
      by (auto dest: tranclD)
    with assms(3) closed have "i \<in> visited"
      by (metis (no_types, lifting) Image_closed_trancl Image_singleton_iff ImageI subsetD)
    with off show False by simp
  qed
  with assms show ?thesis by (auto simp: settled_def)
qed

lemma visit_search:
  "closed_dict by_id \<Longrightarrow> i \<in> fst ` set by_id \<Longrightarrow> settled by_id visiting visited \<Longrightarrow>
     \<forall>v\<in>visiting. (v, i) \<in> (needs by_id)\<^sup>+ \<Longrightarrow>
     search_ok by_id visiting visited {i} (visit by_id visiting visited i)"
  and visit_deps_search:
  "closed_dict by_id \<Longrightarrow> set ps \<subseteq> fst ` set by_id \<Longrightarrow> settled by_id visiting visited \<Longrightarrow>
     \<forall>v\<in>visiting. \<forall>p\<in>set ps. (v, p) \<in> (needs by_id)\<^sup>+ \<Longrightarrow>
     search_ok by_id visiting visited (set ps) (visit_deps by_id visiting visited ps)"
proof (induction by_id visiting visited i and by_id visiting visited ps
    rule: visit_visit_deps.induct)
  case (1 by_id visiting visited i)
  consider "i \<in> visiting" | "i \<notin> visiting" "i \<in> visited"
    | a where "i \<notin> visiting" "i \<notin> visited" "map_of by_id i = Some a"
    using "1.prems"(2) by (metis map_of_eq_None_iff not_None_eq)
  then show ?case
  proof cases
    case 1
    with "1.prems"(4) show ?thesis by (auto simp: search_ok_def visit.simps [of by_id])
  next
    case 2
    with "1.prems"(3) show ?thesis by (auto simp: search_ok_def visit.simps [of by_id])
  next
    case (3 a)
    have deps: "needs by_id `` {i} = set (predecessors a)"
      using 3(3) by (auto simp: needs_def)
    have "search_ok by_id (insert i visiting) visited (set (predecessors a))
        (visit_deps by_id (insert i visiting) visited (predecessors a))"
    proof (rule "1.IH" [OF 3])
      show "closed_dict by_id" by fact
      show "set (predecessors a) \<subseteq> fst ` set by_id"
        using "1.prems"(1) 3(3) by (simp add: closed_dict_def)
      show "settled by_id (insert i visiting) visited"
        using "1.prems"(3) 3(2) by (simp add: settled_def)
      show "\<forall>v\<in>insert i visiting. \<forall>p\<in>set (predecessors a). (v, p) \<in> (needs by_id)\<^sup>+"
        using "1.prems"(4) deps by (auto intro: trancl_into_trancl)
    qed
    then show ?thesis
    proof (cases rule: search_okE)
      case (cycle visited' v)
      with 3 show ?thesis by (auto simp: search_ok_def visit.simps [of by_id])
    next
      case (clear visited')
      have "settled by_id visiting (insert i visited')"
        by (rule settled_insert [OF clear(3) 3(1)]) (use clear(2) deps in auto)
      with clear 3 show ?thesis by (auto simp: search_ok_def visit.simps [of by_id])
    qed
  qed
next
  case (2 by_id visiting visited)
  then show ?case by (auto simp: search_ok_def)
next
  case (3 by_id visiting visited p ps)
  have "search_ok by_id visiting visited {p} (visit by_id visiting visited p)"
    by (rule "3.IH"(1)) (use "3.prems" in auto)
  then show ?case
  proof (cases rule: search_okE)
    case (cycle visited' v)
    then show ?thesis by (auto simp: search_ok_def)
  next
    case (clear visited')
    have "search_ok by_id visiting visited' (set ps) (visit_deps by_id visiting visited' ps)"
      by (rule "3.IH"(2) [OF clear(1)]) (use "3.prems" clear in auto)
    then show ?thesis
      by (cases rule: search_okE) (use clear in \<open>auto simp: search_ok_def\<close>)
  qed
qed

lemma has_cycle_correct:
  assumes "closed_dict by_id"
  shows "has_cycle by_id = Inr (\<not> acyclic (needs by_id))"
proof -
  let ?ids = "sort_key activity_id_value (map fst by_id)"
  have "search_ok by_id {} {} (set ?ids) (visit_deps by_id {} {} ?ids)"
    by (rule visit_deps_search [OF assms]) (auto simp: settled_def)
  then show ?thesis
  proof (cases rule: search_okE)
    case (cycle visited' v)
    then show ?thesis by (auto simp: has_cycle_def acyclic_def)
  next
    case (clear visited')
    have "(v, v) \<notin> (needs by_id)\<^sup>+" for v
    proof
      assume "(v, v) \<in> (needs by_id)\<^sup>+"
      moreover from this have "v \<in> fst ` set by_id"
        by (auto dest!: tranclD simp: needs_def dest!: map_of_SomeD intro: rev_image_eqI)
      with clear have "v \<in> visited'" by auto
      ultimately show False using clear(3) by (auto simp: settled_def)
    qed
    with clear(1) show ?thesis by (auto simp: has_cycle_def acyclic_def)
  qed
qed

section \<open>The index of the first loop\<close>

definition duplicate_violation :: "activity_id \<Rightarrow> plan_violation" where
  "duplicate_violation i = violation DUPLICATE_ACTIVITY_ID
     (''duplicate activity id '' @ py_repr (activity_id_value i)) i"

lemma index_activities_Cons:
  "index_activities d (a # as) =
     (if activity_id a \<in> fst ` set d
      then (duplicate_violation (activity_id a) # fst (index_activities d as),
            snd (index_activities d as))
      else index_activities (AList.update (activity_id a) a d) as)"
  by (simp add: duplicate_violation_def map_of_eq_None_iff split_beta)

declare index_activities.simps(2) [simp del]

lemma index_keys:
  "fst ` set (snd (index_activities d as)) = fst ` set d \<union> activity_id ` set as"
  by (induction as arbitrary: d) (auto simp: index_activities_Cons dom_update)

lemma index_distinct:
  assumes "distinct (map activity_id as)" and "fst ` set d \<inter> activity_id ` set as = {}"
  shows "index_activities d as = ([], d @ map (\<lambda>a. (activity_id a, a)) as)"
  using assms
proof (induction as arbitrary: d)
  case (Cons a as)
  then have new: "activity_id a \<notin> fst ` set d" by auto
  then have "AList.update (activity_id a) a d = d @ [(activity_id a, a)]"
    by (induction d) auto
  with Cons new show ?case by (auto simp: index_activities_Cons)
qed simp

lemma index_mset:
  "mset (fst (index_activities d as)) = image_mset duplicate_violation
     (mset (map activity_id as) - mset_set (activity_id ` set as - fst ` set d))"
proof (induction as arbitrary: d)
  case (Cons a as)
  let ?M = "mset (map activity_id as)" and ?S = "activity_id ` set as"
  have sub: "mset_set (?S - A) \<subseteq># ?M" for A
  proof (rule mset_subset_eqI)
    fix x
    show "count (mset_set (?S - A)) x \<le> count ?M x"
      by (cases "x \<in> ?S - A") (auto simp: count_mset_set' image_iff Suc_le_eq
          simp flip: count_greater_zero_iff [of "mset (map activity_id as)", unfolded set_mset_mset])
  qed
  show ?case
  proof (cases "activity_id a \<in> fst ` set d")
    case True
    then have "insert (activity_id a) ?S - fst ` set d = ?S - fst ` set d" by auto
    with True show ?thesis
      by (simp add: index_activities_Cons Cons.IH subset_mset.add_diff_assoc2
          flip: subset_mset.add_diff_assoc2 [OF sub])
  next
    case False
    then have "insert (activity_id a) ?S - fst ` set d =
        insert (activity_id a) (?S - insert (activity_id a) (fst ` set d))" by auto
    with False show ?thesis
      by (simp add: index_activities_Cons Cons.IH dom_update)
  qed
qed simp

lemma index_no_duplicates:
  "fst (index_activities d as) = [] \<longleftrightarrow>
     distinct (map activity_id as) \<and> fst ` set d \<inter> activity_id ` set as = {}"
  by (induction as arbitrary: d) (auto simp: index_activities_Cons dom_update)

section \<open>What validation accepts\<close>

text \<open>
  The specification of an accepted composition. \<open>depends\<close> relates a predecessor to the
  activity that names it; cyclicity is a fact about this relation, not about the search.
\<close>

definition depends :: "planned_activity list \<Rightarrow> (activity_id \<times> activity_id) set" where
  "depends as = {(p, activity_id a) | p a. a \<in> set as \<and> p \<in> set (predecessors a)}"

definition safe_activity :: "planned_activity \<Rightarrow> bool" where
  "safe_activity a \<longleftrightarrow>
     (impact a = DESTRUCTIVE \<longrightarrow> risk a \<in> {HIGH, CRITICAL}) \<and>
     (is_data_destruction (operation a) \<longrightarrow> risk a = CRITICAL \<and> impact a = DESTRUCTIVE) \<and>
     (is_review (operation a) \<longrightarrow> risk a \<in> {HIGH, CRITICAL})"

definition valid_composition :: "planned_activity list \<Rightarrow> bool" where
  "valid_composition as \<longleftrightarrow> distinct (map activity_id as) \<and>
     (\<forall>a\<in>set as. distinct (predecessors a) \<and> safe_activity a \<and>
        set (predecessors a) \<subseteq> activity_id ` set as - {activity_id a}) \<and>
     acyclic (depends as)"

lemma risk_rank_below_high: "risk_rank r < 3 \<longleftrightarrow> r \<notin> {HIGH, CRITICAL}"
  by (cases r) simp_all

lemma safety_violations_Nil: "safety_violations a = [] \<longleftrightarrow> safe_activity a"
  by (auto simp: safety_violations_def safe_activity_def risk_rank_below_high Let_def)

lemma dependency_violations_Nil:
  "dependency_violations known a p = [] \<longleftrightarrow> p \<in> known - {activity_id a}"
  by (simp add: dependency_violations_def Let_def)

lemma activity_violations_Nil:
  "activity_violations known a = [] \<longleftrightarrow> distinct (predecessors a) \<and> safe_activity a \<and>
     set (predecessors a) \<subseteq> known - {activity_id a}"
  by (auto simp: activity_violations_def duplicate_dependency_violations_def has_duplicates_def
      safety_violations_Nil dependency_violations_Nil)

lemma dependency_violations_blocking:
  "v \<in> set (dependency_violations known a p) \<Longrightarrow> blocks_cycle_check v"
  by (auto simp: dependency_violations_def blocks_cycle_check_def Let_def split: if_splits)

lemma safety_violations_not_blocking:
  "v \<in> set (duplicate_dependency_violations a @ safety_violations a) \<Longrightarrow> \<not> blocks_cycle_check v"
  by (auto simp: duplicate_dependency_violations_def safety_violations_def blocks_cycle_check_def
      Let_def split: if_splits)

lemma activity_violations_blocking:
  "list_ex blocks_cycle_check (activity_violations known a) \<longleftrightarrow>
     \<not> set (predecessors a) \<subseteq> known - {activity_id a}"
proof -
  have "list_ex blocks_cycle_check (activity_violations known a) \<longleftrightarrow>
      (\<exists>p\<in>set (predecessors a). \<exists>v\<in>set (dependency_violations known a p). blocks_cycle_check v)"
    using safety_violations_not_blocking [of _ a]
    by (auto simp: activity_violations_def list_ex_iff)
  also have "\<dots> \<longleftrightarrow> (\<exists>p\<in>set (predecessors a). dependency_violations known a p \<noteq> [])"
    using dependency_violations_blocking by (metis last_in_set length_pos_if_in_set length_greater_0_conv)
  finally show ?thesis by (auto simp: dependency_violations_Nil)
qed

lemma duplicates_blocking:
  "v \<in> set (fst (index_activities d as)) \<Longrightarrow> blocks_cycle_check v"
  by (induction as arbitrary: d)
    (auto simp: index_activities_Cons blocks_cycle_check_def duplicate_violation_def
      split: if_splits)

definition composition_violations :: "planned_activity list \<Rightarrow> plan_violation list" where
  "composition_violations as = fst (index_activities [] as) @
     concat (map (activity_violations (activity_id ` set as)) as)"

lemma composition_blocked:
  "list_ex blocks_cycle_check (composition_violations as) \<longleftrightarrow>
     \<not> (distinct (map activity_id as) \<and>
        (\<forall>a\<in>set as. set (predecessors a) \<subseteq> activity_id ` set as - {activity_id a}))"
proof -
  have "list_ex blocks_cycle_check (fst (index_activities [] as)) \<longleftrightarrow>
      fst (index_activities [] as) \<noteq> []"
    using duplicates_blocking [of _ "[]" as] by (cases "fst (index_activities [] as)") auto
  moreover have "list_ex blocks_cycle_check (concat (map F as)) \<longleftrightarrow>
      (\<exists>a\<in>set as. list_ex blocks_cycle_check (F a))" for F
    by (auto simp: list_ex_iff)
  ultimately show ?thesis
    by (auto simp: composition_violations_def index_no_duplicates activity_violations_blocking)
qed

lemma unblocked_search:
  assumes "\<not> list_ex blocks_cycle_check (composition_violations as)"
  shows "has_cycle (snd (index_activities [] as)) = Inr (\<not> acyclic (depends as))"
proof -
  let ?d = "map (\<lambda>a. (activity_id a, a)) as"
  from assms have d: "distinct (map activity_id as)"
    and known: "\<forall>a\<in>set as. set (predecessors a) \<subseteq> activity_id ` set as"
    by (auto simp: composition_blocked)
  have idx: "snd (index_activities [] as) = ?d"
    using index_distinct [OF d, of "[]"] by simp
  have dict: "map_of ?d i = Some a \<longleftrightarrow> a \<in> set as \<and> activity_id a = i" for i a
    using d by (subst map_of_eq_Some_iff) (auto simp: comp_def)
  have "closed_dict ?d"
    using known by (auto simp: closed_dict_def dict image_image)
  moreover have "needs ?d = (depends as)\<inverse>"
    by (auto simp: needs_def depends_def dict)
  ultimately show ?thesis by (simp add: idx has_cycle_correct)
qed

lemma validate_composition_eq:
  "validate_composition as = Inr (sort_key violation_key
     (composition_violations as @
       (if \<not> list_ex blocks_cycle_check (composition_violations as) \<and> \<not> acyclic (depends as)
        then [\<lparr>code = DEPENDENCY_CYCLE, message = ''activity dependencies contain a cycle'',
                violating = None\<rparr>] else [])))"
proof -
  have keys: "fst ` set (snd (index_activities [] as)) = activity_id ` set as"
    by (simp add: index_keys)
  have split: "validate_composition as =
      bindR (if list_ex blocks_cycle_check (composition_violations as) then Inr False
             else has_cycle (snd (index_activities [] as)))
        (\<lambda>cyclic. Inr (sort_key violation_key
          (if cyclic then composition_violations as @
             [\<lparr>code = DEPENDENCY_CYCLE, message = ''activity dependencies contain a cycle'',
                violating = None\<rparr>]
           else composition_violations as)))"
    unfolding validate_composition_def composition_violations_def split_beta Let_def keys ..
  show ?thesis
    by (simp add: split unblocked_search)
qed

lemma composition_violations_Nil:
  "composition_violations as = [] \<longleftrightarrow> distinct (map activity_id as) \<and>
     (\<forall>a\<in>set as. distinct (predecessors a) \<and> safe_activity a \<and>
        set (predecessors a) \<subseteq> activity_id ` set as - {activity_id a})"
  by (auto simp: composition_violations_def index_no_duplicates activity_violations_Nil)

lemma sort_key_Nil_iff [simp]: "sort_key f xs = [] \<longleftrightarrow> xs = []"
  by (metis length_0_conv length_sort)

text \<open>Validation always returns, and reports nothing exactly for a valid composition.\<close>

lemma validate_composition_total: "\<exists>vs. validate_composition as = Inr vs"
  by (simp add: validate_composition_eq)

lemma validate_composition_Nil:
  "validate_composition as = Inr [] \<longleftrightarrow> valid_composition as"
proof -
  have "validate_composition as = Inr [] \<longleftrightarrow> composition_violations as = [] \<and> acyclic (depends as)"
    by (auto simp: validate_composition_eq split: if_splits)
  then show ?thesis by (auto simp: composition_violations_Nil valid_composition_def)
qed

section \<open>The order of the activities does not matter\<close>

lemma violation_key_inj_on:
  "inj_on violation_key {v. violating v = None \<longleftrightarrow> code v = DEPENDENCY_CYCLE}"
proof (rule inj_onI)
  fix v w assume vw: "v \<in> {v. violating v = None \<longleftrightarrow> code v = DEPENDENCY_CYCLE}"
    "w \<in> {v. violating v = None \<longleftrightarrow> code v = DEPENDENCY_CYCLE}"
    and key: "violation_key v = violation_key w"
  from key have "violation_code_value (code v) = violation_code_value (code w)"
    by (simp add: violation_key_def)
  then have "code v = code w"
    by (cases "code v"; cases "code w") simp_all
  with vw key show "v = w"
    by (auto simp: violation_key_def activity_id.expand split: option.splits
        intro!: plan_violation.equality)
qed

lemma composition_violations_shape:
  "v \<in> set (composition_violations as) \<Longrightarrow> violating v \<noteq> None \<and> code v \<noteq> DEPENDENCY_CYCLE"
proof -
  have dup: "v \<in> set (fst (index_activities d as)) \<Longrightarrow> violating v \<noteq> None \<and> code v \<noteq> DEPENDENCY_CYCLE"
    for d
    by (induction as arbitrary: d)
      (auto simp: index_activities_Cons duplicate_violation_def split: if_splits)
  assume "v \<in> set (composition_violations as)"
  then show ?thesis
    by (auto simp: composition_violations_def dest: dup)
      (auto simp: activity_violations_def duplicate_dependency_violations_def
        dependency_violations_def safety_violations_def Let_def split: if_splits)
qed

lemma composition_violations_mset:
  assumes "mset as = mset bs"
  shows "mset (composition_violations as) = mset (composition_violations bs)"
proof -
  have "set as = set bs" using assms by (rule mset_eq_setD)
  then show ?thesis
    by (simp add: composition_violations_def index_mset mset_concat assms flip: sum_mset_sum_list)
qed

lemma validate_composition_order:
  assumes "mset as = mset bs"
  shows "validate_composition as = validate_composition bs"
proof -
  have set: "set as = set bs" using assms by (rule mset_eq_setD)
  have dep: "depends as = depends bs" by (simp add: depends_def set)
  have mv: "mset (composition_violations as) = mset (composition_violations bs)"
    by (rule composition_violations_mset [OF assms])
  then have "list_ex blocks_cycle_check (composition_violations as) =
      list_ex blocks_cycle_check (composition_violations bs)"
    by (metis list_ex_iff mset_eq_setD)
  then have tail: "validate_composition as =
      Inr (sort_key violation_key (composition_violations as @ t)) \<and>
      validate_composition bs = Inr (sort_key violation_key (composition_violations bs @ t))"
    if "t = (if \<not> list_ex blocks_cycle_check (composition_violations bs) \<and> \<not> acyclic (depends bs)
        then [\<lparr>code = DEPENDENCY_CYCLE, message = ''activity dependencies contain a cycle'',
                violating = None\<rparr>] else [])" for t
    by (simp add: validate_composition_eq dep that)
  have "sort_key violation_key (composition_violations as @ t) =
      sort_key violation_key (composition_violations bs @ t)"
    if "\<forall>v\<in>set t. violating v = None \<and> code v = DEPENDENCY_CYCLE" for t
  proof (rule sort_key_mset_eq_on)
    show "mset (composition_violations as @ t) = mset (composition_violations bs @ t)"
      by (simp add: mv)
    show "inj_on violation_key (set (composition_violations as @ t))"
      by (rule inj_on_subset [OF violation_key_inj_on])
        (use that in \<open>fastforce dest: composition_violations_shape\<close>)
  qed
  with tail show ?thesis by force
qed

end
