(* ===== verification/Plan_Order.thy ===== *)
theory Plan_Order
  imports Plan_Validation
begin

text \<open>
  \<open>_topological_order\<close> and the \<open>ActivityPlan\<close> constructor of \<open>planning/activity_plan.py\<close>.
  The dictionary \<open>remaining\<close> is the list of its values, whose identities are its keys; one
  turn of the loop moves every ready activity, in identity order, behind the completed
  ones. The locale \<open>dependency_order\<close> is what the scheduler relies on.
\<close>

section \<open>The order and the constructor\<close>

abbreviation activity_key :: "planned_activity \<Rightarrow> string" where
  "activity_key a \<equiv> activity_id_value (activity_id a)"

definition ready_activities ::
  "planned_activity list \<Rightarrow> activity_id set \<Rightarrow> planned_activity list" where
  "ready_activities remaining completed = sort_key activity_key
     (filter (\<lambda>a. list_all (\<lambda>d. predecessor d \<in> completed) (dependencies a)) remaining)"

function topological_loop ::
  "planned_activity list \<Rightarrow> activity_id set \<Rightarrow> py_exn + planned_activity list" where
  "topological_loop remaining completed =
     (if remaining = [] then Inr []
      else let ready = ready_activities remaining completed;
               moved = activity_id ` set ready
        in if ready = []
           then Inl (RuntimeError ''validated activity plan unexpectedly has no ready activity'')
           else bindR (topological_loop (filter (\<lambda>a. activity_id a \<notin> moved) remaining)
                   (completed \<union> moved)) (\<lambda>rest. Inr (ready @ rest)))"
  by pat_completeness auto
termination
proof (relation "measure (\<lambda>(remaining, _). length remaining)", goal_cases)
  case (2 remaining completed ready moved)
  then obtain a where "a \<in> set ready" by (meson last_in_set)
  with 2 have "a \<in> set remaining" and "activity_id a \<in> moved"
    by (auto simp: ready_activities_def)
  then show ?case by (auto intro: length_filter_less)
qed simp

declare topological_loop.simps [simp del]

text \<open>\<open>{activity.activity_id: activity for activity in activities}\<close>, by its values.\<close>

definition remaining_of :: "planned_activity list \<Rightarrow> planned_activity list" where
  "remaining_of as = map snd (fold (\<lambda>a d. AList.update (activity_id a) a d) as [])"

definition topological_order :: "planned_activity list \<Rightarrow> py_exn + planned_activity list" where
  "topological_order as = topological_loop (remaining_of as) {}"

datatype activity_plan = ActivityPlan (activities: "planned_activity list")

datatype plan_error = InvalidActivityPlan "plan_violation list" | PlanRaised py_exn

definition make_plan :: "planned_activity list \<Rightarrow> plan_error + activity_plan" where
  "make_plan as = (case validate_composition as of
     Inl e \<Rightarrow> Inl (PlanRaised e)
   | Inr vs \<Rightarrow>
       if vs \<noteq> [] then Inl (InvalidActivityPlan vs)
       else (case topological_order as of
         Inl e \<Rightarrow> Inl (PlanRaised e)
       | Inr ordered \<Rightarrow> Inr (ActivityPlan ordered)))"

definition ready_for_execution :: "activity_plan \<Rightarrow> bool" where
  "ready_for_execution p \<longleftrightarrow> \<not> list_ex (\<lambda>a. is_review (operation a)) (activities p)"

definition plan_activity :: "activity_plan \<Rightarrow> activity_id \<Rightarrow> py_exn + planned_activity" where
  "plan_activity p i = (case find (\<lambda>a. activity_id a = i) (activities p) of
     Some a \<Rightarrow> Inr a
   | None \<Rightarrow> Inl (KeyError (''activity plan has no activity '' @ py_repr (activity_id_value i))))"

section \<open>The loop\<close>

fun ordered_from :: "activity_id set \<Rightarrow> planned_activity list \<Rightarrow> bool" where
  "ordered_from earlier [] = True"
| "ordered_from earlier (a # as) \<longleftrightarrow>
     set (predecessors a) \<subseteq> earlier \<and> ordered_from (insert (activity_id a) earlier) as"

lemma ordered_from_mono: "ordered_from A as \<Longrightarrow> A \<subseteq> B \<Longrightarrow> ordered_from B as"
  by (induction as arbitrary: A B) (auto, blast)

lemma ordered_from_append:
  "ordered_from A (as @ bs) \<longleftrightarrow> ordered_from A as \<and> ordered_from (A \<union> activity_id ` set as) bs"
  by (induction as arbitrary: A) (auto simp: insert_commute Un_commute)

lemma ordered_from_all:
  "\<forall>a\<in>set as. set (predecessors a) \<subseteq> A \<Longrightarrow> ordered_from A as"
  by (induction as arbitrary: A) (auto simp: subset_insertI2)

lemma ready_set:
  "a \<in> set (ready_activities remaining completed) \<longleftrightarrow>
     a \<in> set remaining \<and> set (predecessors a) \<subseteq> completed"
  by (auto simp: ready_activities_def list_all_iff predecessors_def)

lemma finite_depends: "finite (depends as)"
proof -
  have "depends as = (\<Union>a\<in>set as. (\<lambda>p. (p, activity_id a)) ` set (predecessors a))"
    by (auto simp: depends_def)
  then show ?thesis by simp
qed

lemma depends_mono: "set as \<subseteq> set bs \<Longrightarrow> depends as \<subseteq> depends bs"
  by (auto simp: depends_def)

text \<open>An acyclic, closed set of remaining activities always has a ready one.\<close>

lemma ready_exists:
  assumes "remaining \<noteq> []" and "acyclic (depends remaining)"
    and "\<forall>a\<in>set remaining. set (predecessors a) \<subseteq> completed \<union> activity_id ` set remaining"
  shows "ready_activities remaining completed \<noteq> []"
proof -
  from assms(1) obtain b where "b \<in> set remaining" by (meson last_in_set)
  then have b: "activity_id b \<in> activity_id ` set remaining" by simp
  have "wf (depends remaining)"
    by (intro finite_acyclic_wf finite_depends assms(2))
  from wfE_min [OF this b] obtain i where i: "i \<in> activity_id ` set remaining"
    and min: "\<And>p. (p, i) \<in> depends remaining \<Longrightarrow> p \<notin> activity_id ` set remaining"
    by metis
  from i obtain a where a: "a \<in> set remaining" "i = activity_id a" by auto
  with min have "set (predecessors a) \<inter> activity_id ` set remaining = {}"
    by (fastforce simp: depends_def)
  with assms(3) a have "a \<in> set (ready_activities remaining completed)"
    by (auto simp: ready_set)
  then show ?thesis by auto
qed

lemma topological_loop_correct:
  assumes "distinct (map activity_id remaining)" and "acyclic (depends remaining)"
    and "\<forall>a\<in>set remaining. set (predecessors a) \<subseteq> completed \<union> activity_id ` set remaining"
  shows "\<exists>ordered. topological_loop remaining completed = Inr ordered \<and>
    mset ordered = mset remaining \<and> ordered_from completed ordered"
  using assms
proof (induction remaining completed rule: topological_loop.induct)
  case (1 remaining completed)
  let ?ready = "ready_activities remaining completed"
  let ?moved = "activity_id ` set ?ready"
  let ?rest = "filter (\<lambda>a. activity_id a \<notin> ?moved) remaining"
  show ?case
  proof (cases "remaining = []")
    case True
    then show ?thesis by (simp add: topological_loop.simps)
  next
    case False
    from 1(3,4) have nonempty: "?ready \<noteq> []"
      by (intro ready_exists False)
    have moved: "activity_id a \<in> ?moved \<longleftrightarrow> set (predecessors a) \<subseteq> completed"
      if "a \<in> set remaining" for a
      using that 1(2) by (force simp: ready_set distinct_map dest: inj_onD)
    then have "mset ?ready = mset (filter (\<lambda>a. activity_id a \<in> ?moved) remaining)"
      by (simp add: ready_activities_def list_all_iff predecessors_def image_subset_iff
          cong: filter_cong)
    then have split: "mset ?ready + mset ?rest = mset remaining"
      using multiset_partition [of "mset remaining" "\<lambda>a. activity_id a \<in> ?moved"] by simp
    have "\<exists>ordered. topological_loop ?rest (completed \<union> ?moved) = Inr ordered \<and>
        mset ordered = mset ?rest \<and> ordered_from (completed \<union> ?moved) ordered"
    proof (rule 1(1) [OF False refl refl nonempty])
      show "distinct (map activity_id ?rest)"
        using 1(2) by (simp add: distinct_map_filter)
      show "acyclic (depends ?rest)"
        by (rule acyclic_subset [OF 1(3) depends_mono]) auto
      show "\<forall>a\<in>set ?rest. set (predecessors a) \<subseteq> completed \<union> ?moved \<union> activity_id ` set ?rest"
        using 1(4) by fastforce
    qed
    then obtain ordered where rest: "topological_loop ?rest (completed \<union> ?moved) = Inr ordered"
      "mset ordered = mset ?rest" "ordered_from (completed \<union> ?moved) ordered" by blast
    have "ordered_from completed (?ready @ ordered)"
      using rest(3) ordered_from_all [of ?ready completed]
      by (simp add: ordered_from_append ready_set)
    moreover have "topological_loop remaining completed = Inr (?ready @ ordered)"
      using False nonempty rest(1) by (simp add: topological_loop.simps [of remaining] Let_def)
    ultimately show ?thesis using split rest(2) by simp
  qed
qed

section \<open>What the constructor returns\<close>

lemma remaining_of_distinct: "distinct (map activity_id as) \<Longrightarrow> remaining_of as = as"
proof -
  have "fold (\<lambda>a d. AList.update (activity_id a) a d) as d = d @ map (\<lambda>a. (activity_id a, a)) as"
    if "distinct (map activity_id as)" "fst ` set d \<inter> activity_id ` set as = {}" for d
    using that
  proof (induction as arbitrary: d)
    case (Cons a as)
    then have new: "activity_id a \<notin> fst ` set d" by auto
    then have "AList.update (activity_id a) a d = d @ [(activity_id a, a)]"
      by (induction d) auto
    with Cons new show ?case by simp
  qed simp
  then show "distinct (map activity_id as) \<Longrightarrow> remaining_of as = as"
    by (simp add: remaining_of_def comp_def)
qed

text \<open>A value of type \<open>ActivityPlan\<close> is what the constructor can build.\<close>

definition is_plan :: "activity_plan \<Rightarrow> bool" where
  "is_plan p \<longleftrightarrow> (\<exists>as. make_plan as = Inr p)"

lemma topological_order_correct:
  assumes "valid_composition as"
  shows "\<exists>ordered. topological_order as = Inr ordered \<and> mset ordered = mset as \<and>
    ordered_from {} ordered"
  unfolding topological_order_def using assms
  by (subst remaining_of_distinct)
    (auto simp: valid_composition_def intro!: topological_loop_correct)

lemma make_plan_Inr:
  "make_plan as = Inr p \<longleftrightarrow> valid_composition as \<and> topological_order as = Inr (activities p)"
proof -
  obtain vs where "validate_composition as = Inr vs" using validate_composition_total by blast
  moreover have "vs = [] \<longleftrightarrow> valid_composition as"
    using validate_composition_Nil [of as] calculation by simp
  ultimately show ?thesis
    by (cases p) (auto simp: make_plan_def split: sum.splits)
qed

lemma make_plan_accepts: "(\<exists>p. make_plan as = Inr p) \<longleftrightarrow> valid_composition as"
  using topological_order_correct [of as] make_plan_Inr [of as]
  by (metis activity_plan.sel)

lemma make_plan_rejects:
  "make_plan as = Inl e \<longleftrightarrow> (\<exists>vs. vs \<noteq> [] \<and> validate_composition as = Inr vs \<and>
     e = InvalidActivityPlan vs)"
proof -
  obtain vs where vs: "validate_composition as = Inr vs" using validate_composition_total by blast
  show ?thesis
  proof (cases "vs = []")
    case True
    then have "valid_composition as" using vs validate_composition_Nil by simp
    then obtain p where "make_plan as = Inr p" using make_plan_accepts by blast
    with vs True show ?thesis by simp
  next
    case False
    with vs show ?thesis by (auto simp: make_plan_def)
  qed
qed

lemma make_plan_correct:
  assumes "make_plan as = Inr p"
  shows "mset (activities p) = mset as" and "ordered_from {} (activities p)"
    and "valid_composition as"
  using assms topological_order_correct [of as] by (auto simp: make_plan_Inr)

lemma valid_composition_mset:
  assumes "mset as = mset bs"
  shows "valid_composition as = valid_composition bs"
  using validate_composition_order [OF assms] by (simp flip: validate_composition_Nil)

lemma is_plan_valid: "is_plan p \<Longrightarrow> valid_composition (activities p) \<and> ordered_from {} (activities p)"
  unfolding is_plan_def using make_plan_correct valid_composition_mset by blast

text \<open>Two inputs with the same activities give the same plan or the same refusal.\<close>

lemma topological_loop_order:
  assumes "distinct (map activity_id as)" and "mset as = mset bs"
  shows "topological_loop as completed = topological_loop bs completed"
  using assms
proof (induction as completed arbitrary: bs rule: topological_loop.induct)
  case (1 as completed)
  let ?ready = "ready_activities as completed"
  have Nil: "as = [] \<longleftrightarrow> bs = []" using 1(3) by (metis mset_zero_iff)
  have mf: "mset (filter P as) = mset (filter P bs)" for P using 1(3) by simp
  have ready: "ready_activities bs completed = ?ready"
    unfolding ready_activities_def
  proof (rule sort_key_mset_eq_on)
    show "inj_on activity_key
        (set (filter (\<lambda>a. list_all (\<lambda>d. predecessor d \<in> completed) (dependencies a)) bs))"
      using 1(2) mset_eq_setD [OF 1(3)]
      by (auto simp: distinct_map intro!: inj_onI dest: inj_onD activity_id.expand)
  qed (simp add: 1(3))
  show ?case
  proof (cases "as = [] \<or> ?ready = []")
    case True
    then show ?thesis
      by (auto simp: topological_loop.simps [of as] topological_loop.simps [of bs] Nil ready)
  next
    case False
    let ?moved = "activity_id ` set ?ready"
    from False have "topological_loop (filter (\<lambda>a. activity_id a \<notin> ?moved) as) (completed \<union> ?moved) =
        topological_loop (filter (\<lambda>a. activity_id a \<notin> ?moved) bs) (completed \<union> ?moved)"
      using 1(2) by (intro 1(1) [OF _ refl refl] mf) (simp_all add: distinct_map_filter)
    with False Nil show ?thesis
      by (simp add: topological_loop.simps [of as] topological_loop.simps [of bs] ready Let_def)
  qed
qed

lemma make_plan_order:
  assumes "mset as = mset bs"
  shows "make_plan as = make_plan bs"
proof (cases "valid_composition as")
  case True
  then have d: "distinct (map activity_id as)" "distinct (map activity_id bs)"
    using valid_composition_mset [OF assms] by (simp_all add: valid_composition_def)
  then have "topological_order as = topological_order bs"
    using topological_loop_order [OF d(1) assms]
    by (simp add: topological_order_def remaining_of_distinct)
  then show ?thesis
    unfolding make_plan_def validate_composition_order [OF assms] by (rule arg_cong)
next
  case False
  obtain vs where "validate_composition as = Inr vs" using validate_composition_total by blast
  moreover have "vs \<noteq> []" using False calculation validate_composition_Nil by auto
  ultimately show ?thesis
    using validate_composition_order [OF assms] by (simp add: make_plan_def)
qed

text \<open>A plan is a fixed point of its constructor.\<close>

lemma is_plan_rebuild: "is_plan p \<longleftrightarrow> make_plan (activities p) = Inr p"
proof
  assume "is_plan p"
  then obtain as where "make_plan as = Inr p" by (auto simp: is_plan_def)
  with make_plan_order [OF make_plan_correct(1) [OF this]] show "make_plan (activities p) = Inr p"
    by simp
qed (auto simp: is_plan_def)

section \<open>The interface the scheduler uses\<close>

locale dependency_order =
  fixes admitted :: "'p \<Rightarrow> bool" and items :: "'p \<Rightarrow> 'a list"
    and ident :: "'a \<Rightarrow> 'i" and needs_of :: "'a \<Rightarrow> 'i list"
  assumes ident_distinct: "admitted p \<Longrightarrow> distinct (map ident (items p))"
    and needs_earlier: "admitted p \<Longrightarrow> items p = xs @ a # ys \<Longrightarrow> i \<in> set (needs_of a) \<Longrightarrow>
      i \<in> ident ` set xs"
begin

lemma ident_inject:
  "admitted p \<Longrightarrow> a \<in> set (items p) \<Longrightarrow> b \<in> set (items p) \<Longrightarrow> ident a = ident b \<Longrightarrow> a = b"
  using ident_distinct by (auto simp: distinct_map dest: inj_onD)

lemma needs_known:
  "admitted p \<Longrightarrow> a \<in> set (items p) \<Longrightarrow> i \<in> set (needs_of a) \<Longrightarrow> i \<in> ident ` set (items p)"
  using needs_earlier by (fastforce dest: split_list)

lemma not_self: "admitted p \<Longrightarrow> a \<in> set (items p) \<Longrightarrow> ident a \<notin> set (needs_of a)"
  using needs_earlier ident_distinct by (fastforce dest: split_list)

text \<open>A property some item has is had by an item none of whose predecessors has it.\<close>

lemma first_of:
  assumes "admitted p" and "\<exists>a\<in>set (items p). P (ident a)"
  shows "\<exists>a\<in>set (items p). P (ident a) \<and> (\<forall>i\<in>set (needs_of a). \<not> P i)"
proof -
  from assms(2) obtain xs a ys where split: "items p = xs @ a # ys" "P (ident a)"
    and "\<forall>x\<in>set xs. \<not> P (ident x)"
    using split_list_first_prop [of "items p" "P \<circ> ident"] by auto
  with needs_earlier [OF assms(1) split(1)] have "\<forall>i\<in>set (needs_of a). \<not> P i" by auto
  with split show ?thesis by auto
qed

lemma order_induct:
  assumes "admitted p" and "a \<in> set (items p)"
    and step: "\<And>a. a \<in> set (items p) \<Longrightarrow>
      (\<And>b. b \<in> set (items p) \<Longrightarrow> ident b \<in> set (needs_of a) \<Longrightarrow> Q b) \<Longrightarrow> Q a"
  shows "Q a"
proof (rule ccontr)
  assume "\<not> Q a"
  with assms(2) have "\<exists>b\<in>set (items p). \<exists>c\<in>set (items p). ident c = ident b \<and> \<not> Q c" by blast
  from first_of [OF assms(1) this] obtain b where "b \<in> set (items p)" "\<not> Q b"
    "\<forall>i\<in>set (needs_of b). \<not> (\<exists>c\<in>set (items p). ident c = i \<and> \<not> Q c)"
    using ident_inject [OF assms(1)] by blast
  with step show False by blast
qed

end

lemma ordered_from_split:
  "ordered_from A (xs @ a # ys) \<Longrightarrow> set (predecessors a) \<subseteq> A \<union> activity_id ` set xs"
  by (simp add: ordered_from_append)

interpretation plan_order: dependency_order is_plan activities activity_id predecessors
proof
  fix p xs a ys i
  assume p: "is_plan p"
  show "distinct (map activity_id (activities p))"
    using is_plan_valid [OF p] by (simp add: valid_composition_def)
  assume "activities p = xs @ a # ys" and "i \<in> set (predecessors a)"
  with is_plan_valid [OF p] ordered_from_split [of "{}" xs a ys]
  show "i \<in> activity_id ` set xs" by auto
qed

end
