(* ===== verification/Saga_State.thy ===== *)
theory Saga_State
  imports Saga_Program Plan_Order
begin

text \<open>
  The event-sourced saga state of \<open>planning/saga.py\<close>: the projection \<open>SagaState\<close>, the
  commands, the events, \<open>decide\<close>, \<open>evolve\<close>, \<open>evolve_all\<close>, \<open>reconstruct\<close> and the
  compensation candidates. \<open>values[step_id]\<close> raises \<open>KeyError\<close> for a completed step that
  the state does not know, so the candidates and the status are calls that may raise.
\<close>

section \<open>State\<close>

datatype saga_step_status = PENDING | RUNNING | SUCCEEDED | FAILED | COMPENSATING | COMPENSATED
  | COMPENSATION_FAILED

datatype overall_status = SagaActive | SagaSucceeded | SagaFailed | SagaCancelledStatus
  | SagaCompensating | SagaCompensated | SagaPartiallyCompensated

primrec step_status_value :: "saga_step_status \<Rightarrow> string" where
  "step_status_value PENDING = ''pending''"
| "step_status_value RUNNING = ''running''"
| "step_status_value SUCCEEDED = ''succeeded''"
| "step_status_value FAILED = ''failed''"
| "step_status_value COMPENSATING = ''compensating''"
| "step_status_value COMPENSATED = ''compensated''"
| "step_status_value COMPENSATION_FAILED = ''compensation_failed''"

primrec saga_status_value :: "overall_status \<Rightarrow> string" where
  "saga_status_value SagaActive = ''active''"
| "saga_status_value SagaSucceeded = ''succeeded''"
| "saga_status_value SagaFailed = ''failed''"
| "saga_status_value SagaCancelledStatus = ''cancelled''"
| "saga_status_value SagaCompensating = ''compensating''"
| "saga_status_value SagaCompensated = ''compensated''"
| "saga_status_value SagaPartiallyCompensated = ''partially_compensated''"

record saga_step_state =
  state_step_id :: saga_step_id
  step_status :: saga_step_status
  compensation_available :: bool

record saga_state =
  steps :: "saga_step_state list"
  completion_order :: "saga_step_id list"
  failed_steps :: "saga_step_id list"
  cancelled :: bool
  compensation_requested :: bool

definition fresh_state :: "(saga_step_id \<times> bool) list \<Rightarrow> saga_state" where
  "fresh_state entries = \<lparr>steps = map (\<lambda>(i, available).
       \<lparr>state_step_id = i, step_status = PENDING, compensation_available = available\<rparr>) entries,
     completion_order = [], failed_steps = [], cancelled = False,
     compensation_requested = False\<rparr>"

definition activity_step_id :: "activity_id \<Rightarrow> saga_step_id" where
  "activity_step_id i = SagaStepId (activity_id_value i)"

definition initial_for_plan :: "activity_plan \<Rightarrow> saga_state" where
  "initial_for_plan p = fresh_state
     (map (\<lambda>a. (activity_step_id (activity_id a), is_compensate (compensation a))) (activities p))"

definition initial_state :: "'e saga_program \<Rightarrow> saga_exn + saga_state" where
  "initial_state p = bindR (program_steps p)
     (\<lambda>vs. Inr (fresh_state (map (\<lambda>v. (step_id v, step_compensation v \<noteq> None)) vs)))"

definition saga_step_of :: "saga_state \<Rightarrow> saga_step_id \<Rightarrow> saga_exn + saga_step_state" where
  "saga_step_of s i = (case find (\<lambda>v. state_step_id v = i) (steps s) of
     Some v \<Rightarrow> Inr v
   | None \<Rightarrow> Inl (SagaStateError (''unknown saga step '' @ py_repr (step_id_value i))))"

definition compensation_candidates :: "saga_state \<Rightarrow> saga_exn + saga_step_id list" where
  "compensation_candidates s =
     (let values = dict_of state_step_id (\<lambda>v. v) (steps s) in
      bindR (mapR (\<lambda>i. case values i of
               None \<Rightarrow> Inl (SagaKeyError (step_id_value i))
             | Some v \<Rightarrow> Inr (i, v)) (rev (completion_order s)))
        (\<lambda>found. Inr (map fst (filter
           (\<lambda>(_, v). compensation_available v \<and> step_status v = SUCCEEDED) found))))"

definition any_status :: "saga_step_status \<Rightarrow> saga_state \<Rightarrow> bool" where
  "any_status st s \<longleftrightarrow> list_ex (\<lambda>v. step_status v = st) (steps s)"

text \<open>The property \<open>SagaState.status\<close>, in the order of the code's tests.\<close>

definition saga_status :: "saga_state \<Rightarrow> saga_exn + overall_status" where
  "saga_status s =
     (if any_status COMPENSATING s then Inr SagaCompensating
      else if any_status COMPENSATION_FAILED s then Inr SagaPartiallyCompensated
      else bindR
        (if compensation_requested s
         then bindR (compensation_candidates s) (\<lambda>cs.
           if cs \<noteq> [] then Inr (Some SagaCompensating)
           else if any_status COMPENSATED s then Inr (Some SagaCompensated)
           else Inr None)
         else Inr None)
        (\<lambda>requested. case requested of Some st \<Rightarrow> Inr st | None \<Rightarrow>
      bindR
        (if failed_steps s \<noteq> [] \<or> cancelled s
         then bindR (compensation_candidates s) (\<lambda>cs.
           if cs = [] \<and> any_status COMPENSATED s then Inr (Some SagaCompensated) else Inr None)
         else Inr None)
        (\<lambda>finished. case finished of Some st \<Rightarrow> Inr st | None \<Rightarrow>
           if failed_steps s \<noteq> [] then Inr SagaFailed
           else if cancelled s then Inr SagaCancelledStatus
           else if steps s \<noteq> [] \<and> list_all (\<lambda>v. step_status v = SUCCEEDED) (steps s)
           then Inr SagaSucceeded
           else Inr SagaActive)))"

section \<open>Commands, events and transitions\<close>

datatype saga_command = StartSagaStep saga_step_id
  | SucceedSagaStep saga_step_id
  | FailSagaStep saga_step_id
  | CancelSaga
  | RequestSagaCompensation
  | BeginSagaCompensation saga_step_id
  | SucceedSagaCompensation saga_step_id
  | FailSagaCompensation saga_step_id

datatype saga_event = SagaStepStarted saga_step_id
  | SagaStepSucceeded saga_step_id
  | SagaStepFailed saga_step_id
  | SagaCancelled
  | SagaCompensationRequested
  | SagaCompensationStarted saga_step_id
  | SagaCompensationSucceeded saga_step_id
  | SagaCompensationFailed saga_step_id

definition replace_step ::
  "saga_state \<Rightarrow> saga_step_id \<Rightarrow> saga_step_status \<Rightarrow> saga_exn + saga_state" where
  "replace_step s i st = bindR (saga_step_of s i) (\<lambda>_.
     Inr (s\<lparr>steps := map (\<lambda>v. if state_step_id v = i then v\<lparr>step_status := st\<rparr> else v) (steps s)\<rparr>))"

definition require_step_status ::
  "saga_state \<Rightarrow> saga_step_id \<Rightarrow> saga_step_status \<Rightarrow> saga_exn + unit" where
  "require_step_status s i st = bindR (saga_step_of s i) (\<lambda>actual.
     requireR (step_status actual = st)
       (SagaStateError (''saga step '' @ py_repr (step_id_value i) @ '' must be '' @
          step_status_value st @ '', not '' @ step_status_value (step_status actual))))"

definition require_active :: "saga_state \<Rightarrow> saga_exn + unit" where
  "require_active s = bindR (saga_status s) (\<lambda>st.
     bindR (requireR (st = SagaActive)
         (SagaStateError (''saga is not active: '' @ saga_status_value st))) (\<lambda>_.
       requireR (\<not> compensation_requested s)
         (SagaStateError ''saga compensation already requested'')))"

definition require_cancellable :: "saga_state \<Rightarrow> saga_exn + unit" where
  "require_cancellable s = bindR (saga_status s) (\<lambda>st. requireR (st = SagaActive)
     (SagaStateError (''cannot cancel saga in '' @ saga_status_value st @ '' state'')))"

definition require_compensation_admission :: "saga_state \<Rightarrow> saga_exn + unit" where
  "require_compensation_admission s =
     bindR (requireR (\<not> compensation_requested s)
         (SagaStateError ''saga compensation already requested'')) (\<lambda>_.
     bindR (saga_status s) (\<lambda>st.
     bindR (requireR (st \<in> {SagaActive, SagaSucceeded, SagaFailed, SagaCancelledStatus})
         (SagaStateError (''cannot request compensation from '' @ saga_status_value st))) (\<lambda>_.
     bindR (compensation_candidates s) (\<lambda>cs.
       requireR (cs \<noteq> [])
         (SagaStateError ''compensation requires completed compensatable work'')))))"

definition require_next_candidate :: "saga_state \<Rightarrow> saga_step_id \<Rightarrow> saga_exn + unit" where
  "require_next_candidate s i = bindR (compensation_candidates s) (\<lambda>cs.
     requireR (cs \<noteq> [] \<and> hd cs = i)
       (SagaStateError ''compensation must follow reverse durable completion order''))"

fun decide :: "saga_state \<Rightarrow> saga_command \<Rightarrow> saga_exn + saga_event list" where
  "decide s (StartSagaStep i) =
     bindR (require_active s) (\<lambda>_. bindR (require_step_status s i PENDING) (\<lambda>_.
       Inr [SagaStepStarted i]))"
| "decide s (SucceedSagaStep i) =
     bindR (require_step_status s i RUNNING) (\<lambda>_. Inr [SagaStepSucceeded i])"
| "decide s (FailSagaStep i) =
     bindR (require_step_status s i RUNNING) (\<lambda>_. Inr [SagaStepFailed i])"
| "decide s CancelSaga = bindR (require_cancellable s) (\<lambda>_. Inr [SagaCancelled])"
| "decide s RequestSagaCompensation =
     bindR (require_compensation_admission s) (\<lambda>_. Inr [SagaCompensationRequested])"
| "decide s (BeginSagaCompensation i) =
     bindR (require_next_candidate s i) (\<lambda>_. Inr [SagaCompensationStarted i])"
| "decide s (SucceedSagaCompensation i) =
     bindR (require_step_status s i COMPENSATING) (\<lambda>_. Inr [SagaCompensationSucceeded i])"
| "decide s (FailSagaCompensation i) =
     bindR (require_step_status s i COMPENSATING) (\<lambda>_. Inr [SagaCompensationFailed i])"

fun evolve :: "saga_state \<Rightarrow> saga_event \<Rightarrow> saga_exn + saga_state" where
  "evolve s (SagaStepStarted i) =
     bindR (require_active s) (\<lambda>_. bindR (require_step_status s i PENDING) (\<lambda>_.
       replace_step s i RUNNING))"
| "evolve s (SagaStepSucceeded i) =
     bindR (require_step_status s i RUNNING) (\<lambda>_. bindR (replace_step s i SUCCEEDED) (\<lambda>changed.
       Inr (changed\<lparr>completion_order := completion_order changed @ [i]\<rparr>)))"
| "evolve s (SagaStepFailed i) =
     bindR (require_step_status s i RUNNING) (\<lambda>_. bindR (replace_step s i FAILED) (\<lambda>changed.
       Inr (changed\<lparr>failed_steps := failed_steps changed @ [i]\<rparr>)))"
| "evolve s SagaCancelled =
     bindR (require_cancellable s) (\<lambda>_. Inr (s\<lparr>cancelled := True\<rparr>))"
| "evolve s SagaCompensationRequested =
     bindR (require_compensation_admission s) (\<lambda>_. Inr (s\<lparr>compensation_requested := True\<rparr>))"
| "evolve s (SagaCompensationStarted i) =
     bindR (require_next_candidate s i) (\<lambda>_. replace_step s i COMPENSATING)"
| "evolve s (SagaCompensationSucceeded i) =
     bindR (require_step_status s i COMPENSATING) (\<lambda>_. replace_step s i COMPENSATED)"
| "evolve s (SagaCompensationFailed i) =
     bindR (require_step_status s i COMPENSATING) (\<lambda>_. replace_step s i COMPENSATION_FAILED)"

fun evolve_all :: "saga_state \<Rightarrow> saga_event list \<Rightarrow> saga_exn + saga_state" where
  "evolve_all s [] = Inr s"
| "evolve_all s (e # es) = bindR (evolve s e) (\<lambda>changed. evolve_all changed es)"

definition reconstruct :: "'e saga_program \<Rightarrow> saga_event list \<Rightarrow> saga_exn + saga_state" where
  "reconstruct p es = bindR (initial_state p) (\<lambda>s. evolve_all s es)"

lemma evolve_all_foldR: "evolve_all = foldR evolve"
proof (intro ext)
  show "evolve_all s es = foldR evolve s es" for s es
    by (induction es arbitrary: s) (simp_all cong: bindR_cong)
qed

end
