(* ===== verification/Event_Sourcing.thy ===== *)
theory Event_Sourcing
  imports Prelude
begin

text \<open>
  The contract between an event-sourced component and what replays it. \<open>event_fold\<close> is a
  state that evolves by events and keeps a consistency condition; \<open>event_sourced\<close> adds
  commands whose decided events are always accepted. The sagas and the effect attempts of
  the core package are instances.
\<close>

text \<open>Run commands one after the other, collecting the events each one emits.\<close>

fun run_commands :: "('s \<Rightarrow> 'c \<Rightarrow> 'e + 'v list) \<Rightarrow> ('s \<Rightarrow> 'v \<Rightarrow> 'e + 's) \<Rightarrow> 's \<Rightarrow> 'c list \<Rightarrow>
    'e + ('s \<times> 'v list)" where
  "run_commands dec evo s [] = Inr (s, [])"
| "run_commands dec evo s (c # cs) =
     bindR (dec s c) (\<lambda>es. bindR (foldR evo s es) (\<lambda>s'.
       bindR (run_commands dec evo s' cs) (\<lambda>(t, fs). Inr (t, es @ fs))))"

locale event_fold =
  fixes evo :: "'s \<Rightarrow> 'v \<Rightarrow> 'e + 's" and consistent :: "'s \<Rightarrow> bool"
  assumes evo_consistent: "consistent s \<Longrightarrow> evo s v = Inr s' \<Longrightarrow> consistent s'"
begin

lemma fold_consistent: "consistent s \<Longrightarrow> foldR evo s vs = Inr t \<Longrightarrow> consistent t"
  using foldR_invariant [of consistent evo] evo_consistent by blast

text \<open>A fact that every accepted event keeps holds after any accepted sequence.\<close>

lemma fold_keeps:
  assumes "\<And>s v s'. consistent s \<Longrightarrow> K s \<Longrightarrow> evo s v = Inr s' \<Longrightarrow> K s'"
    and "consistent s" and "K s" and "foldR evo s vs = Inr t"
  shows "K t"
proof -
  have "consistent t \<and> K t"
    by (rule foldR_invariant [where I = "\<lambda>s. consistent s \<and> K s" and f = evo and s = s and xs = vs])
      (use assms evo_consistent in blast)+
  then show ?thesis ..
qed

text \<open>A relation between two states that single events respect and that composes.\<close>

lemma fold_relates:
  assumes step: "\<And>s v s'. consistent s \<Longrightarrow> evo s v = Inr s' \<Longrightarrow> R s s'"
    and refl: "\<And>s. R s s" and trans: "\<And>s t u. R s t \<Longrightarrow> R t u \<Longrightarrow> R s u"
    and "consistent s" and "foldR evo s vs = Inr t"
  shows "R s t"
  using assms(4,5)
proof (induction vs arbitrary: s)
  case (Cons v vs)
  then obtain s' where s': "evo s v = Inr s'" "foldR evo s' vs = Inr t"
    by (auto simp: bindR_Inr_iff)
  with Cons show ?case
    by (metis evo_consistent step trans)
qed (use refl in simp)

end

locale event_sourced = event_fold evo consistent
  for evo :: "'s \<Rightarrow> 'v \<Rightarrow> 'e + 's" and consistent :: "'s \<Rightarrow> bool" +
  fixes dec :: "'s \<Rightarrow> 'c \<Rightarrow> 'e + 'v list"
  assumes decided_accepted:
    "consistent s \<Longrightarrow> dec s c = Inr vs \<Longrightarrow> \<exists>t. foldR evo s vs = Inr t"
begin

lemma run_replay:
  "run_commands dec evo s cs = Inr (t, vs) \<Longrightarrow> foldR evo s vs = Inr t"
  by (induction cs arbitrary: s vs) (auto simp: bindR_Inr_iff foldR_append_Inr)

lemma run_consistent:
  "consistent s \<Longrightarrow> run_commands dec evo s cs = Inr (t, vs) \<Longrightarrow> consistent t"
  by (blast intro: fold_consistent run_replay)

text \<open>Only a refused command stops a run: no emitted event is ever refused.\<close>

lemma run_stops_at_decision:
  assumes "consistent s" and "run_commands dec evo s cs = Inl e"
  shows "\<exists>ds c es t vs. cs = ds @ c # es \<and> run_commands dec evo s ds = Inr (t, vs) \<and> dec t c = Inl e"
  using assms
proof (induction cs arbitrary: s)
  case (Cons c cs)
  show ?case
  proof (cases "dec s c")
    case (Inl e')
    with Cons.prems(2) have "dec s c = Inl e" by simp
    then show ?thesis by (intro exI [of _ "[]"] exI [of _ c] exI [of _ cs]) auto
  next
    case (Inr vs)
    with Cons.prems(1) obtain s' where s': "foldR evo s vs = Inr s'"
      using decided_accepted by blast
    with Inr Cons.prems have "run_commands dec evo s' cs = Inl e"
      by (auto simp: bindR_Inl_iff)
    moreover have "consistent s'" using s' Cons.prems(1) by (rule fold_consistent [rotated])
    ultimately obtain ds d es t ws where split: "cs = ds @ d # es"
      "run_commands dec evo s' ds = Inr (t, ws)" "dec t d = Inl e"
      using Cons.IH by blast
    with Inr s' have "run_commands dec evo s (c # ds) = Inr (t, vs @ ws)" by simp
    with split show ?thesis by (metis append_Cons)
  qed
qed simp

end

end
