(* ===== verification/Saga_Laws.thy ===== *)
theory Saga_Laws
  imports Saga_State Event_Sourcing
begin

text \<open>
  Lemmas about the saga state. \<open>status_at\<close> and \<open>available_at\<close> read one step,
  \<open>wf_saga\<close> is the agreement between the statuses and the two recorded orders, and
  \<open>consistent_saga\<close> adds what every reachable state keeps about compensation. The
  inductive relation \<open>saga_trans\<close> is the abstract machine that \<open>evolve\<close> implements.
\<close>

section \<open>Reading one step\<close>

definition status_at :: "saga_state \<Rightarrow> saga_step_id \<Rightarrow> saga_step_status option" where
  "status_at s i = map_option step_status (find (\<lambda>v. state_step_id v = i) (steps s))"

definition available_at :: "saga_state \<Rightarrow> saga_step_id \<Rightarrow> bool" where
  "available_at s i = (case find (\<lambda>v. state_step_id v = i) (steps s) of
     Some v \<Rightarrow> compensation_available v | None \<Rightarrow> False)"

definition step_ids :: "saga_state \<Rightarrow> saga_step_id list" where
  "step_ids s = map state_step_id (steps s)"

definition set_step :: "saga_step_id \<Rightarrow> saga_step_status \<Rightarrow> saga_state \<Rightarrow> saga_state" where
  "set_step i st s =
     s\<lparr>steps := map (\<lambda>v. if state_step_id v = i then v\<lparr>step_status := st\<rparr> else v) (steps s)\<rparr>"

lemma reads_updates [simp]:
  "status_at (s\<lparr>completion_order := xs\<rparr>) = status_at s"
  "status_at (s\<lparr>failed_steps := xs\<rparr>) = status_at s"
  "status_at (s\<lparr>cancelled := b\<rparr>) = status_at s"
  "status_at (s\<lparr>compensation_requested := b\<rparr>) = status_at s"
  "available_at (s\<lparr>completion_order := xs\<rparr>) = available_at s"
  "available_at (s\<lparr>failed_steps := xs\<rparr>) = available_at s"
  "available_at (s\<lparr>cancelled := b\<rparr>) = available_at s"
  "available_at (s\<lparr>compensation_requested := b\<rparr>) = available_at s"
  "step_ids (s\<lparr>completion_order := xs\<rparr>) = step_ids s"
  "step_ids (s\<lparr>failed_steps := xs\<rparr>) = step_ids s"
  "step_ids (s\<lparr>cancelled := b\<rparr>) = step_ids s"
  "step_ids (s\<lparr>compensation_requested := b\<rparr>) = step_ids s"
  by (simp_all add: status_at_def available_at_def step_ids_def fun_eq_iff)

lemma set_step_fields [simp]:
  "completion_order (set_step i st s) = completion_order s"
  "failed_steps (set_step i st s) = failed_steps s"
  "cancelled (set_step i st s) = cancelled s"
  "compensation_requested (set_step i st s) = compensation_requested s"
  "steps (set_step i st s) = [] \<longleftrightarrow> steps s = []"
  by (simp_all add: set_step_def)

lemma step_ids_set_step [simp]: "step_ids (set_step i st s) = step_ids s"
  by (simp add: step_ids_def set_step_def comp_def if_distrib cong: if_cong)

lemma find_set_step:
  "find (\<lambda>v. state_step_id v = j)
      (map (\<lambda>v. if state_step_id v = i then v\<lparr>step_status := st\<rparr> else v) vs) =
   map_option (\<lambda>v. if j = i then v\<lparr>step_status := st\<rparr> else v)
      (find (\<lambda>v. state_step_id v = j) vs)"
  by (induction vs) auto

lemma status_at_set_step:
  "status_at (set_step i st s) j =
     (if j = i \<and> status_at s i \<noteq> None then Some st else status_at s j)"
  by (cases "j = i")
    (auto simp: status_at_def set_step_def find_set_step option.map_comp comp_def)

lemma available_at_set_step [simp]: "available_at (set_step i st s) = available_at s"
  by (auto simp: available_at_def set_step_def find_set_step fun_eq_iff split: option.splits)

lemma status_at_None: "status_at s i = None \<longleftrightarrow> i \<notin> set (step_ids s)"
  by (auto simp: status_at_def step_ids_def find_None_iff)

lemma find_distinct:
  "distinct (map f vs) \<Longrightarrow> find (\<lambda>v. f v = i) vs = Some v \<longleftrightarrow> v \<in> set vs \<and> f v = i"
  by (induction vs) auto

lemma find_step_iff:
  assumes "distinct (step_ids s)"
  shows "find (\<lambda>v. state_step_id v = i) (steps s) = Some v \<longleftrightarrow>
    v \<in> set (steps s) \<and> state_step_id v = i"
  using find_distinct [of state_step_id "steps s"] assms by (simp add: step_ids_def)

lemma status_at_step:
  "distinct (step_ids s) \<Longrightarrow> v \<in> set (steps s) \<Longrightarrow>
     status_at s (state_step_id v) = Some (step_status v) \<and>
     available_at s (state_step_id v) = compensation_available v"
  using find_step_iff [of s "state_step_id v" v] by (simp add: status_at_def available_at_def)

lemma any_status_iff:
  assumes "distinct (step_ids s)"
  shows "any_status st s \<longleftrightarrow> (\<exists>i. status_at s i = Some st)"
proof
  assume "any_status st s"
  then show "\<exists>i. status_at s i = Some st"
    using status_at_step [OF assms] by (fastforce simp: any_status_def list_ex_iff)
next
  assume "\<exists>i. status_at s i = Some st"
  then show "any_status st s"
    by (fastforce simp: any_status_def list_ex_iff status_at_def find_step_iff [OF assms])
qed

section \<open>Candidates and status without errors\<close>

definition candidates_of :: "saga_state \<Rightarrow> saga_step_id list" where
  "candidates_of s =
     filter (\<lambda>i. available_at s i \<and> status_at s i = Some SUCCEEDED) (rev (completion_order s))"

definition status_of :: "saga_state \<Rightarrow> overall_status" where
  "status_of s =
     (if any_status COMPENSATING s then SagaCompensating
      else if any_status COMPENSATION_FAILED s then SagaPartiallyCompensated
      else if compensation_requested s \<and> candidates_of s \<noteq> [] then SagaCompensating
      else if compensation_requested s \<and> any_status COMPENSATED s then SagaCompensated
      else if (failed_steps s \<noteq> [] \<or> cancelled s) \<and> candidates_of s = [] \<and> any_status COMPENSATED s
      then SagaCompensated
      else if failed_steps s \<noteq> [] then SagaFailed
      else if cancelled s then SagaCancelledStatus
      else if steps s \<noteq> [] \<and> list_all (\<lambda>v. step_status v = SUCCEEDED) (steps s) then SagaSucceeded
      else SagaActive)"

definition known_completions :: "saga_state \<Rightarrow> bool" where
  "known_completions s \<longleftrightarrow> distinct (step_ids s) \<and> set (completion_order s) \<subseteq> set (step_ids s)"

lemma compensation_candidates_known:
  assumes "known_completions s"
  shows "compensation_candidates s = Inr (candidates_of s)"
proof -
  let ?vals = "dict_of state_step_id (\<lambda>v. v) (steps s)"
  let ?look = "\<lambda>i. case ?vals i of None \<Rightarrow> Inl (SagaKeyError (step_id_value i)) | Some v \<Rightarrow> Inr (i, v)"
  have d: "distinct (step_ids s)" using assms by (simp add: known_completions_def)
  have vals: "?vals i = find (\<lambda>v. state_step_id v = i) (steps s)" for i
    using d by (subst dict_of_distinct)
      (simp_all add: step_ids_def map_of_map_pair option.map_id0 [unfolded id_def])
  have look: "mapR ?look is = Inr (map (\<lambda>i. (i, the (?vals i))) is)"
    if "set is \<subseteq> set (step_ids s)" for "is"
    using that
  proof (induction "is")
    case (Cons i "is")
    then have "?vals i \<noteq> None"
      by (auto simp: vals step_ids_def find_None_iff)
    then obtain v where "?vals i = Some v" by blast
    with Cons show ?case by simp
  qed simp
  have sel: "(case (i, the (?vals i)) of (_, v) \<Rightarrow> compensation_available v \<and> step_status v = SUCCEEDED)
      \<longleftrightarrow> available_at s i \<and> status_at s i = Some SUCCEEDED" if "i \<in> set (step_ids s)" for i
    using that by (cases "?vals i")
      (auto simp: vals available_at_def status_at_def step_ids_def find_None_iff)
  have sub: "set (rev (completion_order s)) \<subseteq> set (step_ids s)"
    using assms by (simp add: known_completions_def)
  have "map fst (filter (\<lambda>(_, v). compensation_available v \<and> step_status v = SUCCEEDED)
      (map (\<lambda>i. (i, the (?vals i))) is)) =
      filter (\<lambda>i. available_at s i \<and> status_at s i = Some SUCCEEDED) is"
    if "set is \<subseteq> set (step_ids s)" for "is"
    using that by (induction "is") (use sel in auto)
  then show ?thesis
    unfolding compensation_candidates_def Let_def look [OF sub] candidates_of_def
    using sub by simp
qed

lemma saga_status_known:
  assumes "known_completions s"
  shows "saga_status s = Inr (status_of s)"
  unfolding saga_status_def status_of_def compensation_candidates_known [OF assms] by auto

lemma saga_step_of_iff:
  "bindR (saga_step_of s i) f =
     (case find (\<lambda>v. state_step_id v = i) (steps s) of Some v \<Rightarrow> f v
      | None \<Rightarrow> Inl (SagaStateError (''unknown saga step '' @ py_repr (step_id_value i))))"
  by (simp add: saga_step_of_def split: option.splits)

lemma require_step_status_Inr [result_simps]:
  "require_step_status s i st = Inr u \<longleftrightarrow> status_at s i = Some st"
  by (auto simp: require_step_status_def saga_step_of_iff status_at_def requireR_Inr_iff
      split: option.splits)

lemma replace_step_Inr [result_simps]:
  "replace_step s i st = Inr t \<longleftrightarrow> status_at s i \<noteq> None \<and> t = set_step i st s"
  by (auto simp: replace_step_def saga_step_of_iff status_at_def set_step_def split: option.splits)

section \<open>The abstract machine\<close>

inductive saga_trans :: "saga_state \<Rightarrow> saga_event \<Rightarrow> saga_state \<Rightarrow> bool" where
  started: "status_of s = SagaActive \<Longrightarrow> \<not> compensation_requested s \<Longrightarrow>
    status_at s i = Some PENDING \<Longrightarrow> saga_trans s (SagaStepStarted i) (set_step i RUNNING s)"
| succeeded: "status_at s i = Some RUNNING \<Longrightarrow> saga_trans s (SagaStepSucceeded i)
    ((set_step i SUCCEEDED s)\<lparr>completion_order := completion_order s @ [i]\<rparr>)"
| failed: "status_at s i = Some RUNNING \<Longrightarrow> saga_trans s (SagaStepFailed i)
    ((set_step i FAILED s)\<lparr>failed_steps := failed_steps s @ [i]\<rparr>)"
| cancel: "status_of s = SagaActive \<Longrightarrow> saga_trans s SagaCancelled (s\<lparr>cancelled := True\<rparr>)"
| request: "\<not> compensation_requested s \<Longrightarrow>
    status_of s \<in> {SagaActive, SagaSucceeded, SagaFailed, SagaCancelledStatus} \<Longrightarrow>
    candidates_of s \<noteq> [] \<Longrightarrow>
    saga_trans s SagaCompensationRequested (s\<lparr>compensation_requested := True\<rparr>)"
| compensating: "candidates_of s = i # is \<Longrightarrow>
    saga_trans s (SagaCompensationStarted i) (set_step i COMPENSATING s)"
| compensated: "status_at s i = Some COMPENSATING \<Longrightarrow>
    saga_trans s (SagaCompensationSucceeded i) (set_step i COMPENSATED s)"
| uncompensated: "status_at s i = Some COMPENSATING \<Longrightarrow>
    saga_trans s (SagaCompensationFailed i) (set_step i COMPENSATION_FAILED s)"

inductive_simps saga_trans_simps:
  "saga_trans s (SagaStepStarted i) t"
  "saga_trans s (SagaStepSucceeded i) t"
  "saga_trans s (SagaStepFailed i) t"
  "saga_trans s SagaCancelled t"
  "saga_trans s SagaCompensationRequested t"
  "saga_trans s (SagaCompensationStarted i) t"
  "saga_trans s (SagaCompensationSucceeded i) t"
  "saga_trans s (SagaCompensationFailed i) t"

lemma require_active_Inr:
  "known_completions s \<Longrightarrow>
     require_active s = Inr u \<longleftrightarrow> status_of s = SagaActive \<and> \<not> compensation_requested s"
  by (simp add: require_active_def saga_status_known requireR_Inr_iff)

lemma require_cancellable_Inr:
  "known_completions s \<Longrightarrow> require_cancellable s = Inr u \<longleftrightarrow> status_of s = SagaActive"
  by (simp add: require_cancellable_def saga_status_known requireR_Inr_iff)

lemma require_admission_Inr:
  "known_completions s \<Longrightarrow> require_compensation_admission s = Inr u \<longleftrightarrow>
     \<not> compensation_requested s \<and> candidates_of s \<noteq> [] \<and>
     status_of s \<in> {SagaActive, SagaSucceeded, SagaFailed, SagaCancelledStatus}"
  by (auto simp: require_compensation_admission_def saga_status_known requireR_Inr_iff
      compensation_candidates_known bindR_Inr_iff)

lemma require_candidate_Inr:
  "known_completions s \<Longrightarrow>
     require_next_candidate s i = Inr u \<longleftrightarrow> (\<exists>is. candidates_of s = i # is)"
  by (cases "candidates_of s")
    (auto simp: require_next_candidate_def compensation_candidates_known requireR_Inr_iff)

lemma candidate_status:
  "candidates_of s = i # is \<Longrightarrow> status_at s i = Some SUCCEEDED \<and> available_at s i \<and>
     i \<in> set (completion_order s)"
  unfolding candidates_of_def by (auto dest!: arg_cong [where f = set])

text \<open>On states whose completions are known, \<open>evolve\<close> is the abstract machine.\<close>

lemma evolve_saga_trans:
  assumes "known_completions s"
  shows "evolve s e = Inr t \<longleftrightarrow> saga_trans s e t"
  using require_active_Inr [OF assms] require_cancellable_Inr [OF assms]
    require_admission_Inr [OF assms] require_candidate_Inr [OF assms]
  by (cases e) (auto simp: bindR_Inr_iff require_step_status_Inr replace_step_Inr
      saga_trans_simps dest: candidate_status)

section \<open>Well-formed states\<close>

definition completed_status :: "saga_step_status \<Rightarrow> bool" where
  "completed_status st \<longleftrightarrow> st \<in> {SUCCEEDED, COMPENSATING, COMPENSATED, COMPENSATION_FAILED}"

definition wf_saga :: "saga_state \<Rightarrow> bool" where
  "wf_saga s \<longleftrightarrow> distinct (step_ids s) \<and> distinct (completion_order s) \<and>
     distinct (failed_steps s) \<and>
     (\<forall>i. i \<in> set (completion_order s) \<longleftrightarrow> (\<exists>st. status_at s i = Some st \<and> completed_status st)) \<and>
     (\<forall>i. i \<in> set (failed_steps s) \<longleftrightarrow> status_at s i = Some FAILED)"

lemma wf_saga_known: "wf_saga s \<Longrightarrow> known_completions s"
  unfolding wf_saga_def known_completions_def by (metis option.distinct(1) status_at_None subsetI)

lemma completed_status_simps [simp]:
  "\<not> completed_status PENDING" "\<not> completed_status RUNNING" "\<not> completed_status FAILED"
  "completed_status SUCCEEDED" "completed_status COMPENSATING" "completed_status COMPENSATED"
  "completed_status COMPENSATION_FAILED"
  by (simp_all add: completed_status_def)

lemma saga_trans_wf: "saga_trans s e t \<Longrightarrow> wf_saga s \<Longrightarrow> wf_saga t"
proof (induction rule: saga_trans.induct)
  case (compensating s i "is")
  then have "status_at s i = Some SUCCEEDED" by (simp add: candidate_status)
  with compensating(2) show ?case by (auto simp: wf_saga_def status_at_set_step)
qed (auto simp: wf_saga_def status_at_set_step)

definition undo_status :: "saga_step_status \<Rightarrow> bool" where
  "undo_status st \<longleftrightarrow> st \<in> {COMPENSATING, COMPENSATED, COMPENSATION_FAILED}"

definition undoable_at :: "saga_state \<Rightarrow> saga_step_id \<Rightarrow> bool" where
  "undoable_at s i \<longleftrightarrow> available_at s i \<and>
     (\<exists>st. status_at s i = Some st \<and> (st = SUCCEEDED \<or> undo_status st))"

definition consistent_saga :: "saga_state \<Rightarrow> bool" where
  "consistent_saga s \<longleftrightarrow> wf_saga s \<and>
     (\<forall>i st. status_at s i = Some st \<longrightarrow> undo_status st \<longrightarrow> available_at s i) \<and>
     (compensation_requested s \<longrightarrow> (\<exists>i. undoable_at s i))"

lemma undo_status_simps [simp]:
  "\<not> undo_status PENDING" "\<not> undo_status RUNNING" "\<not> undo_status FAILED" "\<not> undo_status SUCCEEDED"
  "undo_status COMPENSATING" "undo_status COMPENSATED" "undo_status COMPENSATION_FAILED"
  by (simp_all add: undo_status_def)

lemma candidates_nonempty:
  assumes "wf_saga s"
  shows "candidates_of s \<noteq> [] \<longleftrightarrow> (\<exists>i. available_at s i \<and> status_at s i = Some SUCCEEDED)"
  using assms by (fastforce simp: candidates_of_def filter_empty_conv wf_saga_def)

lemma undoable_updates [simp]:
  "undoable_at (s\<lparr>completion_order := xs\<rparr>) = undoable_at s"
  "undoable_at (s\<lparr>failed_steps := xs\<rparr>) = undoable_at s"
  "undoable_at (s\<lparr>cancelled := b\<rparr>) = undoable_at s"
  "undoable_at (s\<lparr>compensation_requested := b\<rparr>) = undoable_at s"
  by (simp_all add: undoable_at_def fun_eq_iff)

lemma undoable_set_step:
  "undoable_at s j \<Longrightarrow> (j = i \<Longrightarrow> st = SUCCEEDED \<or> undo_status st) \<Longrightarrow> undoable_at (set_step i st s) j"
  by (auto simp: undoable_at_def status_at_set_step)

lemma undoable_status: "undoable_at s i \<Longrightarrow> status_at s i \<notin> {Some PENDING, Some RUNNING, Some FAILED}"
  by (auto simp: undoable_at_def)

lemma saga_trans_undoable: "saga_trans s e t \<Longrightarrow> undoable_at s j \<Longrightarrow> undoable_at t j"
  by (induction rule: saga_trans.induct) (auto intro!: undoable_set_step dest: undoable_status)

lemma saga_trans_available:
  "saga_trans s e t \<Longrightarrow> \<forall>i st. status_at s i = Some st \<longrightarrow> undo_status st \<longrightarrow> available_at s i \<Longrightarrow>
     status_at t j = Some st \<Longrightarrow> undo_status st \<Longrightarrow> available_at t j"
proof (induction rule: saga_trans.induct)
  case (compensating s i "is")
  then show ?case
    using candidate_status [OF compensating(1)] by (auto simp: status_at_set_step split: if_splits)
qed (force simp: status_at_set_step split: if_splits)+

lemma saga_trans_consistent: "saga_trans s e t \<Longrightarrow> consistent_saga s \<Longrightarrow> consistent_saga t"
proof -
  assume step: "saga_trans s e t" and s: "consistent_saga s"
  then have "compensation_requested t \<Longrightarrow> \<exists>i. undoable_at s i"
  proof (induction rule: saga_trans.induct)
    case (request s)
    then show ?case by (auto simp: consistent_saga_def candidates_nonempty undoable_at_def)
  qed (auto simp: consistent_saga_def)
  then show ?thesis
    using s saga_trans_wf [OF step] saga_trans_available [OF step] saga_trans_undoable [OF step]
    unfolding consistent_saga_def by blast
qed

lemma fresh_state_fields [simp]:
  "completion_order (fresh_state entries) = []"
  "failed_steps (fresh_state entries) = []"
  "cancelled (fresh_state entries) = False"
  "compensation_requested (fresh_state entries) = False"
  "step_ids (fresh_state entries) = map fst entries"
  by (simp_all add: fresh_state_def step_ids_def split_beta comp_def)

lemma fresh_state_pending: "status_at (fresh_state entries) i = Some st \<Longrightarrow> st = PENDING"
  by (auto simp: status_at_def fresh_state_def find_Some_iff split_beta)

lemma fresh_state_consistent:
  "distinct (map fst entries) \<Longrightarrow> consistent_saga (fresh_state entries)"
  by (auto simp: consistent_saga_def wf_saga_def dest: fresh_state_pending)

end
