(* ===== verification/Saga_Replay.thy ===== *)
theory Saga_Replay
  imports Saga_Laws
begin

text \<open>
  What every replay of a saga keeps: the life cycle of one step, the end of forward work
  once the saga is halted, the undo order, and the agreement of \<open>decide\<close> with \<open>evolve\<close>.
  The saga is an instance of \<open>event_sourced\<close>.
\<close>

section \<open>Decisions\<close>

fun event_of :: "saga_command \<Rightarrow> saga_event" where
  "event_of (StartSagaStep i) = SagaStepStarted i"
| "event_of (SucceedSagaStep i) = SagaStepSucceeded i"
| "event_of (FailSagaStep i) = SagaStepFailed i"
| "event_of CancelSaga = SagaCancelled"
| "event_of RequestSagaCompensation = SagaCompensationRequested"
| "event_of (BeginSagaCompensation i) = SagaCompensationStarted i"
| "event_of (SucceedSagaCompensation i) = SagaCompensationSucceeded i"
| "event_of (FailSagaCompensation i) = SagaCompensationFailed i"

lemma replace_after_check:
  "bindR (require_step_status s i st) (\<lambda>_. bindR (replace_step s i st') (\<lambda>t. Inr (f t))) =
     bindR (require_step_status s i st) (\<lambda>_. Inr (f (set_step i st' s)))"
  by (simp add: require_step_status_def replace_step_def saga_step_of_def bindR_assoc
      set_step_def split: option.splits)

lemma replace_after_candidate:
  assumes "known_completions s"
  shows "bindR (require_next_candidate s i) (\<lambda>_. replace_step s i st) =
    bindR (require_next_candidate s i) (\<lambda>_. Inr (set_step i st s))"
proof (cases "require_next_candidate s i")
  case (Inr u)
  then obtain cs where "candidates_of s = i # cs"
    using require_candidate_Inr [OF assms] by blast
  then have "replace_step s i st = Inr (set_step i st s)"
    by (simp add: replace_step_Inr candidate_status)
  with Inr show ?thesis by simp
qed simp

text \<open>A command is refused exactly when its event is, and with the same exception.\<close>

lemma decide_evolve:
  assumes "known_completions s"
  shows "decide s c = bindR (evolve s (event_of c)) (\<lambda>_. Inr [event_of c])"
  using replace_after_check [where f = "\<lambda>t. t"] replace_after_candidate [OF assms]
  by (cases c) (simp_all add: bindR_assoc replace_after_check)

lemma decide_event: "decide s c = Inr es \<Longrightarrow> es = [event_of c]"
  by (cases c) (auto simp: bindR_Inr_iff)

lemma consistent_known: "consistent_saga s \<Longrightarrow> known_completions s"
  by (simp add: consistent_saga_def wf_saga_known)

lemma evolve_consistent: "consistent_saga s \<Longrightarrow> evolve s e = Inr t \<Longrightarrow> consistent_saga t"
  using evolve_saga_trans [OF consistent_known] saga_trans_consistent by blast

interpretation saga: event_sourced evolve consistent_saga decide
proof
  fix s v t
  assume "consistent_saga s" and "evolve s v = Inr t"
  then show "consistent_saga t" by (rule evolve_consistent)
next
  fix s c vs
  assume s: "consistent_saga s" and d: "decide s c = Inr vs"
  then have "vs = [event_of c]" by (intro decide_event)
  moreover obtain t where "evolve s (event_of c) = Inr t"
    using d unfolding decide_evolve [OF consistent_known [OF s]] bindR_Inr_iff by blast
  ultimately show "\<exists>t. foldR evolve s vs = Inr t" by simp
qed

section \<open>The life cycle of one step\<close>

fun step_edge :: "saga_step_status \<Rightarrow> saga_step_status \<Rightarrow> bool" where
  "step_edge PENDING RUNNING = True"
| "step_edge RUNNING SUCCEEDED = True"
| "step_edge RUNNING FAILED = True"
| "step_edge SUCCEEDED COMPENSATING = True"
| "step_edge COMPENSATING COMPENSATED = True"
| "step_edge COMPENSATING COMPENSATION_FAILED = True"
| "step_edge _ _ = False"

definition step_path :: "saga_state \<Rightarrow> saga_state \<Rightarrow> bool" where
  "step_path s t \<longleftrightarrow> step_ids t = step_ids s \<and> available_at t = available_at s \<and>
     (\<forall>i. rel_option step_edge\<^sup>*\<^sup>* (status_at s i) (status_at t i))"

lemma step_path_refl: "step_path s s"
  by (simp add: step_path_def option.rel_refl)

lemma step_path_trans:
  assumes "step_path s t" and "step_path t u"
  shows "step_path s u"
proof -
  have "rel_option step_edge\<^sup>*\<^sup>* (status_at s i) (status_at u i)" for i
  proof -
    have "rel_option step_edge\<^sup>*\<^sup>* (status_at s i) (status_at t i)"
      "rel_option step_edge\<^sup>*\<^sup>* (status_at t i) (status_at u i)"
      using assms by (simp_all add: step_path_def)
    then show ?thesis
      by (cases "status_at s i"; cases "status_at t i"; cases "status_at u i") auto
  qed
  with assms show ?thesis by (simp add: step_path_def)
qed

lemma step_path_set:
  assumes "status_at s i = Some a" and "step_edge a b"
  shows "step_path s (set_step i b s)"
  using assms by (auto simp: step_path_def status_at_set_step intro!: option.rel_refl)

lemma step_path_same:
  "status_at t = status_at s \<Longrightarrow> step_ids t = step_ids s \<Longrightarrow> available_at t = available_at s \<Longrightarrow>
     step_path s t"
  by (simp add: step_path_def option.rel_refl)

lemma saga_trans_path: "saga_trans s e t \<Longrightarrow> step_path s t"
proof (induction rule: saga_trans.induct)
  case (succeeded s i)
  then have "step_path s (set_step i SUCCEEDED s)" by (intro step_path_set) auto
  then show ?case by (simp add: step_path_def)
next
  case (failed s i)
  then have "step_path s (set_step i FAILED s)" by (intro step_path_set) auto
  then show ?case by (simp add: step_path_def)
next
  case (compensating s i "is")
  then show ?case by (intro step_path_set) (auto dest: candidate_status)
qed (auto intro!: step_path_set step_path_same)

lemma replay_path:
  assumes "consistent_saga s" and "foldR evolve s es = Inr t"
  shows "step_path s t"
  by (rule saga.fold_relates [OF _ _ _ assms])
    (use evolve_saga_trans [OF consistent_known] saga_trans_path step_path_refl step_path_trans
      in blast)+

lemma step_edge_rtrancl:
  "step_edge\<^sup>*\<^sup>* FAILED b \<longleftrightarrow> b = FAILED" "step_edge\<^sup>*\<^sup>* COMPENSATED b \<longleftrightarrow> b = COMPENSATED"
  "step_edge\<^sup>*\<^sup>* COMPENSATION_FAILED b \<longleftrightarrow> b = COMPENSATION_FAILED"
  by (auto elim: converse_rtranclpE)

section \<open>Halted sagas start nothing\<close>

definition halted :: "saga_state \<Rightarrow> bool" where
  "halted s \<longleftrightarrow> failed_steps s \<noteq> [] \<or> cancelled s \<or> compensation_requested s"

lemma saga_trans_halted: "saga_trans s e t \<Longrightarrow> halted s \<Longrightarrow> halted t"
  by (induction rule: saga_trans.induct) (auto simp: halted_def)

lemma any_status_at: "consistent_saga s \<Longrightarrow> any_status st s \<longleftrightarrow> (\<exists>i. status_at s i = Some st)"
  by (rule any_status_iff) (simp add: consistent_saga_def wf_saga_def)

lemma halted_status:
  assumes "consistent_saga s" and "halted s"
  shows "status_of s \<notin> {SagaActive, SagaSucceeded}"
proof (cases "failed_steps s \<noteq> [] \<or> cancelled s")
  case False
  with assms obtain i where i: "undoable_at s i"
    by (auto simp: halted_def consistent_saga_def)
  have w: "wf_saga s" using assms by (simp add: consistent_saga_def)
  from i consider "available_at s i" "status_at s i = Some SUCCEEDED"
    | st where "undo_status st" "status_at s i = Some st"
    by (auto simp: undoable_at_def)
  then show ?thesis
  proof cases
    case 1
    then have "candidates_of s \<noteq> []" using candidates_nonempty [OF w] by blast
    with assms False show ?thesis by (auto simp: status_of_def halted_def)
  next
    case 2
    then have "any_status st s" using any_status_at [OF assms(1)] by blast
    with 2 assms False show ?thesis by (cases st) (auto simp: status_of_def halted_def)
  qed
qed (auto simp: status_of_def)

lemma halted_no_start:
  assumes "consistent_saga s" and "halted s" and "foldR evolve s es = Inr t"
  shows "SagaStepStarted i \<notin> set es"
proof
  assume "SagaStepStarted i \<in> set es"
  then obtain ds fs where "es = ds @ SagaStepStarted i # fs" by (auto dest: split_list)
  with assms(3) obtain u v where u: "foldR evolve s ds = Inr u" "evolve u (SagaStepStarted i) = Inr v"
    by (auto simp: foldR_append_Inr bindR_Inr_iff)
  have c: "consistent_saga u" using assms(1) u(1) by (rule saga.fold_consistent)
  have "halted u"
    by (rule saga.fold_keeps [of halted, OF _ assms(1,2) u(1)])
      (use evolve_saga_trans [OF consistent_known] saga_trans_halted in blast)
  moreover have "status_of u = SagaActive"
    using u(2) unfolding evolve_saga_trans [OF consistent_known [OF c]] saga_trans_simps by blast
  ultimately show False using halted_status [OF c] by simp
qed

section \<open>Undo order\<close>

fun undone :: "saga_event list \<Rightarrow> saga_step_id list" where
  "undone [] = []"
| "undone (SagaCompensationStarted i # es) = i # undone es"
| "undone (_ # es) = undone es"

lemma candidates_updates [simp]:
  "candidates_of (s\<lparr>failed_steps := xs\<rparr>) = candidates_of s"
  "candidates_of (s\<lparr>cancelled := b\<rparr>) = candidates_of s"
  "candidates_of (s\<lparr>compensation_requested := b\<rparr>) = candidates_of s"
  by (simp_all add: candidates_of_def)

lemma candidates_set_step:
  assumes "status_at s i \<noteq> Some SUCCEEDED" and "st \<noteq> SUCCEEDED"
  shows "candidates_of (set_step i st s) = candidates_of s"
  unfolding candidates_of_def using assms
  by (intro filter_cong) (auto simp: status_at_set_step)

lemma candidates_compensating:
  assumes "distinct (completion_order s)" and "candidates_of s = i # is"
  shows "candidates_of (set_step i COMPENSATING s) = is"
proof -
  have "candidates_of (set_step i COMPENSATING s) = filter (\<lambda>j. j \<noteq> i) (candidates_of s)"
    unfolding candidates_of_def filter_filter
    by (rule filter_cong) (auto simp: status_at_set_step)
  also have "\<dots> = is"
  proof -
    have "distinct (candidates_of s)" using assms(1) by (simp add: candidates_of_def)
    with assms(2) show ?thesis by (auto simp: filter_id_conv)
  qed
  finally show ?thesis .
qed

lemma saga_trans_candidates:
  assumes "saga_trans s e t" and "wf_saga s" and "\<And>i. e \<noteq> SagaStepSucceeded i"
  shows "candidates_of s = undone [e] @ candidates_of t"
  using assms
proof (induction rule: saga_trans.induct)
  case (compensating s i "is")
  then show ?case by (simp add: wf_saga_def candidates_compensating)
next
  case (succeeded s i)
  then show ?case by blast
qed (simp_all add: candidates_set_step)

lemma undone_Cons: "undone (e # es) = undone [e] @ undone es"
  by (cases e) simp_all

lemma undone_candidates:
  assumes "consistent_saga s" and "foldR evolve s es = Inr t"
    and "\<forall>i. SagaStepSucceeded i \<notin> set es"
  shows "candidates_of s = undone es @ candidates_of t"
  using assms
proof (induction es arbitrary: s)
  case (Cons e es)
  then obtain u where u: "evolve s e = Inr u" "foldR evolve u es = Inr t"
    by (auto simp: bindR_Inr_iff)
  have "saga_trans s e u" using u(1) evolve_saga_trans [OF consistent_known] Cons.prems(1) by blast
  then have "candidates_of s = undone [e] @ candidates_of u"
    using Cons.prems by (intro saga_trans_candidates) (auto simp: consistent_saga_def)
  moreover have "candidates_of u = undone es @ candidates_of t"
    using Cons evolve_consistent [OF Cons.prems(1) u(1)] u(2) by simp
  ultimately show ?case by (simp add: undone_Cons [of e es])
qed simp

section \<open>Unrequested compensation\<close>

lemma all_succeeded_at:
  "list_all (\<lambda>v. step_status v = SUCCEEDED) (steps s) \<Longrightarrow> status_at s i = Some st \<Longrightarrow> st = SUCCEEDED"
  by (auto simp: status_at_def list_all_iff find_Some_iff intro: nth_mem)

text \<open>An unrequested compensation of a saga that is not halted leaves it active.\<close>

lemma quiet_compensation_active:
  assumes c: "consistent_saga s" and "\<not> halted s" and cand: "candidates_of s = i # is"
    and "\<not> any_status COMPENSATING s" and "\<not> any_status COMPENSATION_FAILED s"
  shows "\<exists>t. foldR evolve s [SagaCompensationStarted i, SagaCompensationSucceeded i] = Inr t \<and>
    status_of t = SagaActive"
proof -
  let ?u = "set_step i COMPENSATING s" and ?t = "set_step i COMPENSATED (set_step i COMPENSATING s)"
  have st: "status_at s i = Some SUCCEEDED" using candidate_status [OF cand] by simp
  have u: "saga_trans s (SagaCompensationStarted i) ?u" using cand by (rule compensating)
  have t: "saga_trans ?u (SagaCompensationSucceeded i) ?t"
    by (rule compensated) (simp add: status_at_set_step st)
  have eu: "evolve s (SagaCompensationStarted i) = Inr ?u"
    using u evolve_saga_trans [OF consistent_known [OF c]] by blast
  have cu: "consistent_saga ?u" by (rule evolve_consistent [OF c eu])
  have et: "evolve ?u (SagaCompensationSucceeded i) = Inr ?t"
    using t evolve_saga_trans [OF consistent_known [OF cu]] by blast
  have ct: "consistent_saga ?t" by (rule evolve_consistent [OF cu et])
  have ti: "status_at ?t i = Some COMPENSATED" by (simp add: status_at_set_step st)
  have "any_status COMPENSATING ?t \<longleftrightarrow> False" "any_status COMPENSATION_FAILED ?t \<longleftrightarrow> False"
    using assms(4,5) unfolding any_status_at [OF ct] any_status_at [OF c]
    by (auto simp: status_at_set_step split: if_splits)
  moreover have "\<not> list_all (\<lambda>v. step_status v = SUCCEEDED) (steps ?t)"
    using all_succeeded_at [of ?t i] ti by auto
  moreover have "failed_steps ?t = []" "\<not> cancelled ?t" "\<not> compensation_requested ?t"
    using assms(2) by (simp_all add: halted_def)
  ultimately have "status_of ?t = SagaActive" by (simp add: status_of_def)
  with eu et show ?thesis by (simp del: evolve.simps)
qed

section \<open>Initial states\<close>

lemma plan_entries_distinct:
  assumes "is_plan p"
  shows "distinct (map activity_step_id (map activity_id (activities p)))"
proof -
  have "inj activity_step_id"
    by (rule injI) (simp add: activity_step_id_def activity_id.expand)
  then show ?thesis
    using plan_order.ident_distinct [OF assms]
    by (simp add: distinct_map comp_inj_on inj_on_subset [of _ UNIV])
qed

lemma initial_for_plan_consistent: "is_plan p \<Longrightarrow> consistent_saga (initial_for_plan p)"
  unfolding initial_for_plan_def using plan_entries_distinct
  by (intro fresh_state_consistent) (simp add: comp_def)

lemma initial_state_Inr:
  "initial_state p = Inr s \<longleftrightarrow> distinct (map step_id (walk p)) \<and>
     s = fresh_state (map (\<lambda>v. (step_id v, step_compensation v \<noteq> None)) (walk p))"
  by (auto simp: initial_state_def bindR_Inr_iff program_steps_Inr)

lemma initial_state_consistent: "initial_state p = Inr s \<Longrightarrow> consistent_saga s"
  by (auto simp: initial_state_Inr comp_def intro!: fresh_state_consistent)

lemma reconstruct_Inr:
  "reconstruct p es = Inr t \<longleftrightarrow> (\<exists>s. initial_state p = Inr s \<and> foldR evolve s es = Inr t)"
  by (auto simp: reconstruct_def bindR_Inr_iff evolve_all_foldR)

lemma reconstruct_consistent: "reconstruct p es = Inr t \<Longrightarrow> consistent_saga t"
  by (auto simp: reconstruct_Inr dest: initial_state_consistent intro: saga.fold_consistent)

end
