(* ===== verification/Saga_Schedule.thy ===== *)
theory Saga_Schedule
  imports Saga_Replay
begin

text \<open>
  The scheduler of \<open>planning/saga.py\<close>: the validation of saga evidence against a plan, the
  blocked activities with their fixed-point loop, and the ten lanes of the schedule. A
  dictionary access that has no entry raises, so the loops are \<open>foldR\<close>.
\<close>

section \<open>Data\<close>

datatype block_reason = REVIEW_REQUIRED | FAILED_PREDECESSOR | BLOCKED_PREDECESSOR
  | PLAN_REVIEW_REQUIRED | SAGA_FAILED | SAGA_CANCELLED | SAGA_COMPENSATING | SAGA_COMPENSATED
  | SAGA_COMPENSATION_FAILED

primrec block_reason_value :: "block_reason \<Rightarrow> string" where
  "block_reason_value REVIEW_REQUIRED = ''review-required''"
| "block_reason_value FAILED_PREDECESSOR = ''failed-predecessor''"
| "block_reason_value BLOCKED_PREDECESSOR = ''blocked-predecessor''"
| "block_reason_value PLAN_REVIEW_REQUIRED = ''plan-review-required''"
| "block_reason_value SAGA_FAILED = ''saga-failed''"
| "block_reason_value SAGA_CANCELLED = ''saga-cancelled''"
| "block_reason_value SAGA_COMPENSATING = ''saga-compensating''"
| "block_reason_value SAGA_COMPENSATED = ''saga-compensated''"
| "block_reason_value SAGA_COMPENSATION_FAILED = ''saga-compensation-failed''"

record blocked_activity =
  held_activity :: planned_activity
  held_reason :: block_reason
  held_predecessors :: "activity_id list"

record execution_schedule =
  ready :: "planned_activity list"
  running :: "planned_activity list"
  waiting :: "planned_activity list"
  blocked :: "blocked_activity list"
  succeeded :: "planned_activity list"
  failed :: "planned_activity list"
  compensating :: "planned_activity list"
  compensated :: "planned_activity list"
  compensation_failed :: "planned_activity list"
  compensation_ready :: "planned_activity list"

definition terminal :: "execution_schedule \<Rightarrow> bool" where
  "terminal d \<longleftrightarrow> \<not> (ready d \<noteq> [] \<or> running d \<noteq> [] \<or> waiting d \<noteq> [] \<or> compensating d \<noteq> [] \<or>
     compensation_ready d \<noteq> [])"

definition successful :: "execution_schedule \<Rightarrow> bool" where
  "successful d \<longleftrightarrow> terminal d \<and> \<not> (blocked d \<noteq> [] \<or> failed d \<noteq> [] \<or> compensated d \<noteq> [] \<or>
     compensation_failed d \<noteq> [])"

datatype schedule_exn = ScheduleEvidenceError string | ScheduleSagaError saga_exn
  | ScheduleKeyError string

definition lift_saga :: "saga_exn + 'a \<Rightarrow> schedule_exn + 'a" where
  "lift_saga r = (case r of Inl e \<Rightarrow> Inl (ScheduleSagaError e) | Inr a \<Rightarrow> Inr a)"

section \<open>Evidence\<close>

definition completed_statuses :: "saga_step_status list" where
  "completed_statuses = [SUCCEEDED, COMPENSATING, COMPENSATED, COMPENSATION_FAILED]"

definition validate_evidence :: "saga_state \<Rightarrow> saga_step_id set \<Rightarrow> schedule_exn + unit" where
  "validate_evidence s ids =
     (let by_id = steps s;
          completed_ids = state_step_id ` set (filter (\<lambda>v. step_status v \<in> set completed_statuses) by_id);
          failed_ids = state_step_id ` set (filter (\<lambda>v. step_status v = FAILED) by_id) in
      if has_duplicates (completion_order s)
      then Inl (ScheduleEvidenceError ''saga completion evidence repeats a step identity'')
      else if has_duplicates (failed_steps s)
      then Inl (ScheduleEvidenceError ''saga failure evidence repeats a step identity'')
      else if \<not> set (completion_order s) \<subseteq> ids
      then Inl (ScheduleEvidenceError ''saga completion evidence names an unknown step'')
      else if \<not> set (failed_steps s) \<subseteq> ids
      then Inl (ScheduleEvidenceError ''saga failure evidence names an unknown step'')
      else if set (completion_order s) \<noteq> completed_ids
      then Inl (ScheduleEvidenceError
        ''saga completion order must exactly describe completed step evidence'')
      else if set (failed_steps s) \<noteq> failed_ids
      then Inl (ScheduleEvidenceError ''saga failed steps must exactly describe failed step evidence'')
      else Inr ())"

section \<open>Blocked activities\<close>

type_synonym statuses = "activity_id \<Rightarrow> saga_step_status option"
type_synonym blocked_dict = "(activity_id \<times> blocked_activity) list"

definition status_for :: "statuses \<Rightarrow> activity_id \<Rightarrow> schedule_exn + saga_step_status" where
  "status_for m i = (case m i of Some st \<Rightarrow> Inr st
     | None \<Rightarrow> Inl (ScheduleKeyError (activity_id_value i)))"

definition status_by_id :: "saga_state \<Rightarrow> statuses" where
  "status_by_id s = dict_of (\<lambda>v. ActivityId (step_id_value (state_step_id v))) step_status (steps s)"

definition block :: "planned_activity \<Rightarrow> block_reason \<Rightarrow> activity_id list \<Rightarrow> blocked_dict \<Rightarrow>
    blocked_dict" where
  "block a r ps b = AList.update (activity_id a)
     \<lparr>held_activity = a, held_reason = r, held_predecessors = ps\<rparr> b"

definition in_blocked :: "activity_id \<Rightarrow> blocked_dict \<Rightarrow> bool" where
  "in_blocked i b \<longleftrightarrow> map_of b i \<noteq> None"

definition review_ids :: "planned_activity list \<Rightarrow> activity_id list" where
  "review_ids as = map activity_id (filter (\<lambda>a. is_review (operation a)) as)"

definition review_step :: "statuses \<Rightarrow> activity_id list \<Rightarrow> blocked_dict \<Rightarrow> planned_activity \<Rightarrow>
    schedule_exn + blocked_dict" where
  "review_step m reviews b a = bindR (status_for m (activity_id a)) (\<lambda>st.
     Inr (if st \<noteq> PENDING then b
          else if activity_id a \<in> set reviews then block a REVIEW_REQUIRED [] b else b))"

definition failed_predecessors :: "statuses \<Rightarrow> planned_activity \<Rightarrow> schedule_exn + activity_id list"
  where
  "failed_predecessors m a =
     bindR (mapR (\<lambda>i. bindR (status_for m i) (\<lambda>st. Inr (i, st))) (predecessors a)) (\<lambda>found.
       Inr (map fst (filter (\<lambda>(_, st). st \<in> {FAILED, COMPENSATED, COMPENSATION_FAILED}) found)))"

definition blocked_predecessors :: "blocked_dict \<Rightarrow> planned_activity \<Rightarrow> activity_id list" where
  "blocked_predecessors b a = filter (\<lambda>i. in_blocked i b) (predecessors a)"

text \<open>The body of the loop over the plan, with the flag \<open>changed\<close>.\<close>

definition block_step :: "statuses \<Rightarrow> blocked_dict \<times> bool \<Rightarrow> planned_activity \<Rightarrow>
    schedule_exn + (blocked_dict \<times> bool)" where
  "block_step m bc a = (case bc of (b, changed) \<Rightarrow>
     bindR (status_for m (activity_id a)) (\<lambda>st.
     if st \<noteq> PENDING \<or> in_blocked (activity_id a) b then Inr (b, changed)
     else bindR (failed_predecessors m a) (\<lambda>bad.
       if bad \<noteq> [] then Inr (block a FAILED_PREDECESSOR bad b, True)
       else let held = blocked_predecessors b a in
         if held \<noteq> [] then Inr (block a BLOCKED_PREDECESSOR held b, True)
         else Inr (b, changed))))"

definition unblocked_count :: "planned_activity list \<Rightarrow> blocked_dict \<Rightarrow> nat" where
  "unblocked_count as b = length (filter (\<lambda>a. \<not> in_blocked (activity_id a) b) as)"

lemma in_blocked_block [simp]: "in_blocked i (block a r ps b) \<longleftrightarrow> i = activity_id a \<or> in_blocked i b"
  by (auto simp: in_blocked_def block_def update_conv')

lemma block_step_cases:
  assumes "block_step m (b, c) a = Inr (b', c')"
  shows "(b' = b \<and> c' = c) \<or>
    (\<exists>r ps. b' = block a r ps b \<and> c' \<and> \<not> in_blocked (activity_id a) b)"
  using assms by (auto simp: block_step_def bindR_Inr_iff Let_def split: if_splits)

lemma unblocked_count_block:
  assumes "a \<in> set as" and "\<not> in_blocked (activity_id a) b"
  shows "unblocked_count as (block a r ps b) < unblocked_count as b"
proof -
  have "filter (\<lambda>x. \<not> in_blocked (activity_id x) (block a r ps b)) as =
    filter (\<lambda>x. activity_id x \<noteq> activity_id a) (filter (\<lambda>x. \<not> in_blocked (activity_id x) b) as)"
    by (simp add: conj_commute)
  moreover have "length (filter (\<lambda>x. activity_id x \<noteq> activity_id a)
      (filter (\<lambda>x. \<not> in_blocked (activity_id x) b) as)) <
    length (filter (\<lambda>x. \<not> in_blocked (activity_id x) b) as)"
    by (rule length_filter_less [of a]) (use assms in simp_all)
  ultimately show ?thesis by (simp add: unblocked_count_def)
qed

lemma block_pass_count:
  assumes "foldR (block_step m) (b, c) xs = Inr (b', c')" and "set xs \<subseteq> set as"
  shows "(b' = b \<and> c' = c) \<or> (c' \<and> unblocked_count as b' < unblocked_count as b)"
  using assms
proof (induction xs arbitrary: b c)
  case (Cons x xs)
  then obtain d e where step: "block_step m (b, c) x = Inr (d, e)"
    and rest: "foldR (block_step m) (d, e) xs = Inr (b', c')"
    by (auto simp: bindR_Inr_iff)
  have "(b' = d \<and> c' = e) \<or> (c' \<and> unblocked_count as b' < unblocked_count as d)"
    using Cons.IH [OF rest] Cons.prems(2) by simp
  moreover have "(d = b \<and> e = c) \<or> (e \<and> unblocked_count as d < unblocked_count as b)"
    using block_step_cases [OF step] Cons.prems(2) unblocked_count_block [of x as] by auto
  ultimately show ?case by auto
qed simp

text \<open>\<open>while changed\<close>: one pass over the plan, repeated while it blocked something.\<close>

function block_loop :: "statuses \<Rightarrow> planned_activity list \<Rightarrow> blocked_dict \<Rightarrow>
    schedule_exn + blocked_dict" where
  "block_loop m as b = (case foldR (block_step m) (b, False) as of
     Inl e \<Rightarrow> Inl e
   | Inr (b', changed) \<Rightarrow> if changed then block_loop m as b' else Inr b')"
  by pat_completeness auto
termination
proof (relation "measure (\<lambda>(m, as, b). unblocked_count as b)", simp)
  fix m as b r b' changed
  assume "foldR (block_step m) (b, False) as = Inr r" "(b', changed) = r" "changed"
  then show "((m, as, b'), m, as, b) \<in> measure (\<lambda>(m, as, b). unblocked_count as b)"
    using block_pass_count [of m b False as b' changed as] by auto
qed

declare block_loop.simps [simp del]

fun global_block_reason :: "overall_status \<Rightarrow> bool \<Rightarrow> block_reason option" where
  "global_block_reason st review_required =
     (if review_required then Some PLAN_REVIEW_REQUIRED
      else case st of
        SagaFailed \<Rightarrow> Some SAGA_FAILED
      | SagaCancelledStatus \<Rightarrow> Some SAGA_CANCELLED
      | SagaCompensating \<Rightarrow> Some SAGA_COMPENSATING
      | SagaCompensated \<Rightarrow> Some SAGA_COMPENSATED
      | SagaPartiallyCompensated \<Rightarrow> Some SAGA_COMPENSATION_FAILED
      | SagaActive \<Rightarrow> None
      | SagaSucceeded \<Rightarrow> None)"

definition global_step :: "saga_state \<Rightarrow> statuses \<Rightarrow> bool \<Rightarrow> blocked_dict \<Rightarrow> planned_activity \<Rightarrow>
    schedule_exn + blocked_dict" where
  "global_step s m review_required b a = bindR (status_for m (activity_id a)) (\<lambda>st.
     if st \<noteq> PENDING \<or> in_blocked (activity_id a) b then Inr b
     else bindR (lift_saga (saga_status s)) (\<lambda>overall.
       Inr (case global_block_reason overall review_required of
         Some r \<Rightarrow> block a r [] b | None \<Rightarrow> b)))"

definition derive_blocked :: "activity_plan \<Rightarrow> saga_state \<Rightarrow> statuses \<Rightarrow>
    schedule_exn + blocked_activity list" where
  "derive_blocked p s m =
     (let as = activities p; reviews = review_ids as in
      bindR (foldR (review_step m reviews) [] as) (\<lambda>b0.
      bindR (block_loop m as b0) (\<lambda>b1.
      bindR (foldR (global_step s m (reviews \<noteq> [])) b1 as) (\<lambda>b2.
        Inr (List.map_filter (\<lambda>a. map_of b2 (activity_id a)) as)))))"

section \<open>The schedule\<close>

definition empty_schedule :: execution_schedule where
  "empty_schedule = \<lparr>ready = [], running = [], waiting = [], blocked = [], succeeded = [],
     failed = [], compensating = [], compensated = [], compensation_failed = [],
     compensation_ready = []\<rparr>"

definition classify :: "statuses \<Rightarrow> activity_id list \<Rightarrow> execution_schedule \<Rightarrow> planned_activity \<Rightarrow>
    schedule_exn + execution_schedule" where
  "classify m blocked_ids d a = bindR (status_for m (activity_id a)) (\<lambda>st. case st of
       PENDING \<Rightarrow>
         if activity_id a \<in> set blocked_ids then Inr d
         else bindR (mapR (status_for m) (predecessors a)) (\<lambda>sts.
           Inr (if list_all (\<lambda>x. x = SUCCEEDED) sts then d\<lparr>ready := ready d @ [a]\<rparr>
                else d\<lparr>waiting := waiting d @ [a]\<rparr>))
     | RUNNING \<Rightarrow> Inr (d\<lparr>running := running d @ [a]\<rparr>)
     | SUCCEEDED \<Rightarrow> Inr (d\<lparr>succeeded := succeeded d @ [a]\<rparr>)
     | FAILED \<Rightarrow> Inr (d\<lparr>failed := failed d @ [a]\<rparr>)
     | COMPENSATING \<Rightarrow> Inr (d\<lparr>compensating := compensating d @ [a]\<rparr>)
     | COMPENSATED \<Rightarrow> Inr (d\<lparr>compensated := compensated d @ [a]\<rparr>)
     | COMPENSATION_FAILED \<Rightarrow> Inr (d\<lparr>compensation_failed := compensation_failed d @ [a]\<rparr>))"

definition compensation_lane :: "activity_plan \<Rightarrow> saga_state \<Rightarrow> execution_schedule \<Rightarrow>
    schedule_exn + planned_activity list" where
  "compensation_lane p s d =
     (if running d \<noteq> [] \<or> compensating d \<noteq> [] then Inr []
      else bindR (lift_saga (saga_status s)) (\<lambda>st.
        if st \<notin> {SagaFailed, SagaCancelledStatus, SagaCompensating, SagaPartiallyCompensated}
        then Inr []
        else bindR (lift_saga (compensation_candidates s)) (\<lambda>cs.
          mapR (\<lambda>i. case dict_of (\<lambda>a. activity_step_id (activity_id a)) (\<lambda>a. a) (activities p) i of
              Some a \<Rightarrow> Inr a
            | None \<Rightarrow> Inl (ScheduleKeyError (step_id_value i))) cs)))"

definition repr_list :: "string list \<Rightarrow> string" where
  "repr_list xs = ''['' @ (case map py_repr xs of [] \<Rightarrow> []
     | y # ys \<Rightarrow> y @ concat (map (\<lambda>z. '', '' @ z) ys)) @ '']''"

definition sorted_difference :: "saga_step_id list \<Rightarrow> saga_step_id list \<Rightarrow> string list" where
  "sorted_difference xs ys =
     sort (map step_id_value (remdups (filter (\<lambda>i. i \<notin> set ys) xs)))"

definition derive_schedule :: "activity_plan \<Rightarrow> saga_state \<Rightarrow> schedule_exn + execution_schedule" where
  "derive_schedule p s =
     (let plan_ids = map (\<lambda>a. activity_step_id (activity_id a)) (activities p);
          evidence_ids = map state_step_id (steps s) in
      if has_duplicates evidence_ids
      then Inl (ScheduleEvidenceError ''saga evidence repeats a step identity'')
      else if set plan_ids \<noteq> set evidence_ids
      then Inl (ScheduleEvidenceError (''plan/evidence identity mismatch: missing='' @
        repr_list (sorted_difference plan_ids evidence_ids) @ '', foreign='' @
        repr_list (sorted_difference evidence_ids plan_ids)))
      else bindR (validate_evidence s (set evidence_ids)) (\<lambda>_.
        let m = status_by_id s in
        bindR (derive_blocked p s m) (\<lambda>held.
        bindR (foldR (classify m (map (\<lambda>h. activity_id (held_activity h)) held))
                 empty_schedule (activities p)) (\<lambda>d.
        bindR (compensation_lane p s d) (\<lambda>undo.
          Inr (d\<lparr>blocked := held, compensation_ready := undo\<rparr>))))))"

end
