(* ===== verification/Schedule_Blocked.thy ===== *)
theory Schedule_Blocked
  imports Saga_Schedule
begin

text \<open>
  The blocked activities. \<open>stuck\<close> says which pending activities can never become ready,
  by the rules of the code as an inductive definition; the review pass and the fixed-point
  loop compute exactly that set, and every entry of the dictionary carries a true reason.
\<close>

section \<open>Lookups that succeed\<close>

definition covers :: "statuses \<Rightarrow> planned_activity list \<Rightarrow> bool" where
  "covers m as \<longleftrightarrow> (\<forall>a\<in>set as. m (activity_id a) \<noteq> None \<and> (\<forall>i\<in>set (predecessors a). m i \<noteq> None))"

definition bad_at :: "statuses \<Rightarrow> activity_id \<Rightarrow> bool" where
  "bad_at m i \<longleftrightarrow> m i \<in> {Some FAILED, Some COMPENSATED, Some COMPENSATION_FAILED}"

lemma status_for_Inr [result_simps, simp]: "status_for m i = Inr st \<longleftrightarrow> m i = Some st"
  by (auto simp: status_for_def split: option.splits)

lemma status_for_Some: "m i = Some st \<Longrightarrow> status_for m i = Inr st"
  by simp

lemma covers_Cons [simp]:
  "covers m (a # as) \<longleftrightarrow> m (activity_id a) \<noteq> None \<and> (\<forall>i\<in>set (predecessors a). m i \<noteq> None) \<and>
     covers m as"
  by (auto simp: covers_def)

lemma status_pairs:
  assumes "\<forall>i\<in>set is. m i \<noteq> None"
  shows "mapR (\<lambda>i. bindR (status_for m i) (\<lambda>st. Inr (i, st))) is = Inr (map (\<lambda>i. (i, the (m i))) is)"
  using assms by (induction "is") (auto simp: status_for_Some)

lemma status_list:
  assumes "\<forall>i\<in>set is. m i \<noteq> None"
  shows "mapR (status_for m) is = Inr (map (\<lambda>i. the (m i)) is)"
  using assms by (induction "is") (auto simp: status_for_Some)

lemma failed_predecessors_known:
  assumes "\<forall>i\<in>set (predecessors a). m i \<noteq> None"
  shows "failed_predecessors m a = Inr (filter (bad_at m) (predecessors a))"
proof -
  have "map fst (filter (\<lambda>(_, st). st \<in> {FAILED, COMPENSATED, COMPENSATION_FAILED})
      (map (\<lambda>i. (i, the (m i))) is)) = filter (bad_at m) is"
    if "\<forall>i\<in>set is. m i \<noteq> None" for "is"
    using that by (induction "is") (auto simp: bad_at_def)
  from this [OF assms] show ?thesis
    by (simp only: failed_predecessors_def status_pairs [OF assms] bindR.simps)
qed

section \<open>The specification\<close>

inductive stuck :: "statuses \<Rightarrow> planned_activity list \<Rightarrow> activity_id \<Rightarrow> bool"
  for m :: statuses and as :: "planned_activity list" where
  stuck_review: "a \<in> set as \<Longrightarrow> m (activity_id a) = Some PENDING \<Longrightarrow> is_review (operation a) \<Longrightarrow>
    stuck m as (activity_id a)"
| stuck_failed: "a \<in> set as \<Longrightarrow> m (activity_id a) = Some PENDING \<Longrightarrow> i \<in> set (predecessors a) \<Longrightarrow>
    bad_at m i \<Longrightarrow> stuck m as (activity_id a)"
| stuck_blocked: "a \<in> set as \<Longrightarrow> m (activity_id a) = Some PENDING \<Longrightarrow> i \<in> set (predecessors a) \<Longrightarrow>
    stuck m as i \<Longrightarrow> stuck m as (activity_id a)"

definition local_reason :: "statuses \<Rightarrow> planned_activity list \<Rightarrow> blocked_activity \<Rightarrow> bool" where
  "local_reason m as h = (let a = held_activity h; ps = held_predecessors h in
     case held_reason h of
       REVIEW_REQUIRED \<Rightarrow> is_review (operation a) \<and> ps = []
     | FAILED_PREDECESSOR \<Rightarrow> ps = filter (bad_at m) (predecessors a) \<and> ps \<noteq> []
     | BLOCKED_PREDECESSOR \<Rightarrow> ps \<noteq> [] \<and> set ps \<subseteq> set (predecessors a) \<and> (\<forall>i\<in>set ps. stuck m as i)
     | _ \<Rightarrow> False)"

definition sound_blocked :: "statuses \<Rightarrow> planned_activity list \<Rightarrow> blocked_dict \<Rightarrow> bool" where
  "sound_blocked m as b \<longleftrightarrow> (\<forall>i h. map_of b i = Some h \<longrightarrow>
     held_activity h \<in> set as \<and> activity_id (held_activity h) = i \<and> m i = Some PENDING \<and>
     local_reason m as h)"

definition closed_blocked :: "statuses \<Rightarrow> planned_activity list \<Rightarrow> blocked_dict \<Rightarrow> bool" where
  "closed_blocked m as b \<longleftrightarrow> (\<forall>a\<in>set as. m (activity_id a) = Some PENDING \<longrightarrow>
     \<not> in_blocked (activity_id a) b \<longrightarrow>
     (\<forall>i\<in>set (predecessors a). \<not> bad_at m i \<and> \<not> in_blocked i b))"

lemma map_of_block:
  "map_of (block a r ps b) i = (if i = activity_id a
     then Some \<lparr>held_activity = a, held_reason = r, held_predecessors = ps\<rparr> else map_of b i)"
  by (simp add: block_def update_conv')

lemma sound_stuck: "sound_blocked m as b \<Longrightarrow> in_blocked i b \<Longrightarrow> stuck m as i"
proof -
  assume s: "sound_blocked m as b" and "in_blocked i b"
  then obtain h where "map_of b i = Some h" by (auto simp: in_blocked_def)
  with s have h: "held_activity h \<in> set as" "activity_id (held_activity h) = i" "m i = Some PENDING"
    "local_reason m as h" by (auto simp: sound_blocked_def)
  show "stuck m as i"
  proof (cases "held_reason h")
    case REVIEW_REQUIRED
    with h show ?thesis using stuck_review [of "held_activity h" as m] by (simp add: local_reason_def)
  next
    case FAILED_PREDECESSOR
    with h(4) obtain j where "j \<in> set (predecessors (held_activity h))" "bad_at m j"
      by (auto simp: local_reason_def Let_def filter_empty_conv)
    with h show ?thesis using stuck_failed [of "held_activity h" as m j] by simp
  next
    case BLOCKED_PREDECESSOR
    with h(4) obtain j where "j \<in> set (predecessors (held_activity h))" "stuck m as j"
      by (cases "held_predecessors h") (auto simp: local_reason_def Let_def)
    with h show ?thesis using stuck_blocked [of "held_activity h" as m j] by simp
  qed (use h(4) in \<open>simp_all add: local_reason_def\<close>)
qed

lemma closed_complete:
  assumes "closed_blocked m as b"
    and "\<forall>a\<in>set as. m (activity_id a) = Some PENDING \<longrightarrow> is_review (operation a) \<longrightarrow>
      in_blocked (activity_id a) b"
  shows "stuck m as i \<Longrightarrow> in_blocked i b"
proof (induction rule: stuck.induct)
  case (stuck_review a)
  with assms(2) show ?case by blast
next
  case (stuck_failed a i)
  with assms(1) show ?case unfolding closed_blocked_def by blast
next
  case (stuck_blocked a i)
  with assms(1) show ?case unfolding closed_blocked_def by blast
qed

lemma sound_block:
  assumes "sound_blocked m as b" and "a \<in> set as" and "m (activity_id a) = Some PENDING"
    and "local_reason m as \<lparr>held_activity = a, held_reason = r, held_predecessors = ps\<rparr>"
  shows "sound_blocked m as (block a r ps b)"
  using assms unfolding sound_blocked_def map_of_block by simp

section \<open>The loop\<close>

lemma block_step_known:
  assumes "block_step m (b, c) a = Inr (b', c')" and "\<forall>i\<in>set (predecessors a). m i \<noteq> None"
  obtains "b' = b" "c' = c"
  | "b' = block a FAILED_PREDECESSOR (filter (bad_at m) (predecessors a)) b"
    "filter (bad_at m) (predecessors a) \<noteq> []" "m (activity_id a) = Some PENDING"
  | "b' = block a BLOCKED_PREDECESSOR (blocked_predecessors b a) b"
    "blocked_predecessors b a \<noteq> []" "m (activity_id a) = Some PENDING"
  using assms(1)
  by (auto simp: block_step_def bindR_Inr_iff Let_def failed_predecessors_known [OF assms(2)]
      split: if_splits)

lemma block_step_sound:
  assumes "block_step m (b, c) a = Inr (b', c')" and "sound_blocked m as b" and "a \<in> set as"
    and "\<forall>i\<in>set (predecessors a). m i \<noteq> None"
  shows "sound_blocked m as b'"
  using assms(1,4)
proof (cases rule: block_step_known)
  case 2
  then show ?thesis
    by (simp only:) (rule sound_block [OF assms(2,3)], simp_all add: local_reason_def)
next
  case 3
  have "i \<in> set (blocked_predecessors b a) \<Longrightarrow> i \<in> set (predecessors a) \<and> stuck m as i" for i
    using sound_stuck [OF assms(2)] by (auto simp: blocked_predecessors_def)
  with 3 show ?thesis
    by (simp only:) (rule sound_block [OF assms(2,3)], auto simp: local_reason_def)
qed (use assms(2) in simp)

lemma block_pass_sound:
  assumes "foldR (block_step m) (b, c) xs = Inr (b', c')" and "sound_blocked m as b"
    and "set xs \<subseteq> set as" and "covers m as"
  shows "sound_blocked m as b'"
  using assms(1-3)
proof (induction xs arbitrary: b c)
  case (Cons x xs)
  then obtain d e where step: "block_step m (b, c) x = Inr (d, e)"
    and rest: "foldR (block_step m) (d, e) xs = Inr (b', c')"
    by (auto simp: bindR_Inr_iff)
  have "sound_blocked m as d"
    by (rule block_step_sound [OF step Cons.prems(2)])
      (use Cons.prems(3) assms(4) in \<open>auto simp: covers_def\<close>)
  with Cons.IH [OF rest] Cons.prems show ?case by simp
qed simp

lemma block_pass_keys:
  assumes "foldR (block_step m) (b, c) xs = Inr (b', c')" and "in_blocked i b"
  shows "in_blocked i b'"
  using assms
proof (induction xs arbitrary: b c)
  case (Cons x xs)
  then obtain d e where step: "block_step m (b, c) x = Inr (d, e)"
    and rest: "foldR (block_step m) (d, e) xs = Inr (b', c')"
    by (auto simp: bindR_Inr_iff)
  then show ?case using Cons.IH [OF rest] block_step_cases [OF step] Cons.prems(2) by auto
qed simp

lemma block_pass_quiet:
  assumes "foldR (block_step m) (b, c) xs = Inr (b', False)"
  shows "b' = b \<and> \<not> c \<and> (\<forall>a\<in>set xs. block_step m (b, False) a = Inr (b, False))"
  using assms
proof (induction xs arbitrary: b c)
  case (Cons x xs)
  then obtain d e where step: "block_step m (b, c) x = Inr (d, e)"
    and rest: "foldR (block_step m) (d, e) xs = Inr (b', False)"
    by (auto simp: bindR_Inr_iff)
  from Cons.IH [OF rest] have "b' = d" "\<not> e"
    "\<forall>a\<in>set xs. block_step m (d, False) a = Inr (d, False)" by auto
  with block_step_cases [OF step] step show ?case by auto
qed simp

lemma quiet_closed:
  assumes "\<forall>a\<in>set as. block_step m (b, False) a = Inr (b, False)" and "covers m as"
  shows "closed_blocked m as b"
proof -
  have "\<not> bad_at m i \<and> \<not> in_blocked i b"
    if a: "a \<in> set as" "m (activity_id a) = Some PENDING" "\<not> in_blocked (activity_id a) b"
      and i: "i \<in> set (predecessors a)" for a i
  proof -
    have pre: "\<forall>i\<in>set (predecessors a). m i \<noteq> None" using assms(2) a(1) by (auto simp: covers_def)
    have "block_step m (b, False) a = Inr (b, False)" using assms(1) a(1) by blast
    then have "filter (bad_at m) (predecessors a) = [] \<and> blocked_predecessors b a = []"
      using a(2,3)
      by (auto simp: block_step_def Let_def failed_predecessors_known [OF pre] status_for_Some
          split: if_splits)
    with i show ?thesis by (auto simp: blocked_predecessors_def filter_empty_conv)
  qed
  then show ?thesis by (auto simp: closed_blocked_def)
qed

lemma block_loop_correct:
  assumes "block_loop m as b = Inr b'" and "covers m as" and "sound_blocked m as b"
  shows "sound_blocked m as b' \<and> closed_blocked m as b' \<and> (\<forall>i. in_blocked i b \<longrightarrow> in_blocked i b')"
  using assms
proof (induction m as b rule: block_loop.induct)
  case (1 m as b)
  from "1.prems"(1) obtain d c where pass: "foldR (block_step m) (b, False) as = Inr (d, c)"
    and after: "if c then block_loop m as d = Inr b' else d = b'"
    by (subst (asm) block_loop.simps) (auto split: sum.splits if_splits)
  have sound: "sound_blocked m as d"
    by (rule block_pass_sound [OF pass "1.prems"(3) _ "1.prems"(2)]) simp
  show ?case
  proof (cases c)
    case True
    with 1 pass after sound show ?thesis using block_pass_keys [OF pass] by auto
  next
    case False
    with pass have "foldR (block_step m) (b, False) as = Inr (d, False)" by simp
    from block_pass_quiet [OF this] have "d = b" "closed_blocked m as b"
      using quiet_closed "1.prems"(2) by auto
    with after False sound show ?thesis by simp
  qed
qed

lemma block_step_total:
  assumes "m (activity_id a) \<noteq> None" and "\<forall>i\<in>set (predecessors a). m i \<noteq> None"
  shows "\<exists>bc'. block_step m bc a = Inr bc'"
  using assms
  by (cases bc) (auto simp: block_step_def Let_def failed_predecessors_known status_for_Some)

lemma foldR_total:
  assumes "\<And>s x. x \<in> set xs \<Longrightarrow> \<exists>t. f s x = Inr t"
  shows "\<exists>t. foldR f s xs = Inr t"
  using assms
proof (induction xs arbitrary: s)
  case (Cons x xs)
  then obtain t where "f s x = Inr t" by force
  with Cons show ?case by simp
qed simp

lemma block_loop_total: "covers m as \<Longrightarrow> \<exists>b'. block_loop m as b = Inr b'"
proof (induction m as b rule: block_loop.induct)
  case (1 m as b)
  have "\<exists>t. foldR (block_step m) (b, False) as = Inr t"
    by (rule foldR_total) (use 1 block_step_total in \<open>auto simp: covers_def\<close>)
  with 1 show ?case by (subst block_loop.simps) (auto split: sum.splits)
qed

end
