(* ===== verification/Schedule_Laws.thy ===== *)
theory Schedule_Laws
  imports Schedule_Blocked
begin

text \<open>
  The derived schedule: which evidence is accepted, what each lane holds, and what the
  schedule says about the commands \<open>decide\<close> accepts.
\<close>

section \<open>The blocked list\<close>

definition blocked_at :: "statuses \<Rightarrow> planned_activity list \<Rightarrow> block_reason option \<Rightarrow>
    planned_activity \<Rightarrow> bool" where
  "blocked_at m as g a \<longleftrightarrow> stuck m as (activity_id a) \<or> (m (activity_id a) = Some PENDING \<and> g \<noteq> None)"

definition reason_ok :: "statuses \<Rightarrow> planned_activity list \<Rightarrow> block_reason option \<Rightarrow>
    blocked_activity \<Rightarrow> bool" where
  "reason_ok m as g h \<longleftrightarrow> local_reason m as h \<or>
     (g = Some (held_reason h) \<and> held_predecessors h = [] \<and>
      \<not> stuck m as (activity_id (held_activity h)))"

lemma stuck_pending: "stuck m as i \<Longrightarrow> m i = Some PENDING"
  by (induction rule: stuck.induct) auto

lemma review_pass:
  assumes "covers m as" and "distinct (map activity_id as)" and "set xs \<subseteq> set as"
    and "sound_blocked m as b"
  shows "\<exists>b'. foldR (review_step m (review_ids as)) b xs = Inr b' \<and> sound_blocked m as b' \<and>
    (\<forall>i. in_blocked i b' \<longleftrightarrow> in_blocked i b \<or> (\<exists>a\<in>set xs. activity_id a = i \<and> m i = Some PENDING \<and>
      is_review (operation a)))"
  using assms(3,4)
proof (induction xs arbitrary: b)
  case (Cons x xs)
  then have x: "x \<in> set as" by simp
  then obtain st where st: "m (activity_id x) = Some st" using assms(1) by (auto simp: covers_def)
  have mem: "activity_id x \<in> set (review_ids as) \<longleftrightarrow> is_review (operation x)"
    using x assms(2) by (auto simp: review_ids_def distinct_map dest: inj_onD)
  let ?b = "if st = PENDING \<and> is_review (operation x) then block x REVIEW_REQUIRED [] b else b"
  have "review_step m (review_ids as) b x = Inr ?b"
    by (simp add: review_step_def st status_for_Some mem)
  moreover have "sound_blocked m as ?b"
    using Cons.prems(2) x st by (auto intro!: sound_block simp: local_reason_def)
  ultimately show ?case
    using Cons.IH [of ?b] Cons.prems(1) st by (auto split: if_splits)
qed simp

lemma global_pass:
  fixes rr :: bool
  assumes "covers m as" and "saga_status s = Inr overall" and "set xs \<subseteq> set as"
  defines "g \<equiv> global_block_reason overall rr"
  shows "\<exists>b'. foldR (global_step s m rr) b xs = Inr b' \<and>
    (\<forall>i. in_blocked i b' \<longleftrightarrow> in_blocked i b \<or>
       (\<exists>a\<in>set xs. activity_id a = i \<and> m i = Some PENDING \<and> g \<noteq> None)) \<and>
    (\<forall>i h. map_of b' i = Some h \<longrightarrow> map_of b i = Some h \<or>
       (g = Some (held_reason h) \<and> held_predecessors h = [] \<and> held_activity h \<in> set xs \<and>
        activity_id (held_activity h) = i \<and> \<not> in_blocked i b))"
  using assms(3)
proof (induction xs arbitrary: b)
  case (Cons x xs)
  then have x: "x \<in> set as" by simp
  then obtain st where st: "m (activity_id x) = Some st" using assms(1) by (auto simp: covers_def)
  let ?hit = "st = PENDING \<and> \<not> in_blocked (activity_id x) b \<and> g \<noteq> None"
  let ?b = "if ?hit then block x (the g) [] b else b"
  have step: "global_step s m rr b x = Inr ?b"
    by (simp add: global_step_def st status_for_Some assms(2) lift_saga_def g_def
        del: global_block_reason.simps split: option.split)
  obtain b' where rest: "foldR (global_step s m rr) ?b xs = Inr b'"
    and keys: "\<And>i. in_blocked i b' \<longleftrightarrow> in_blocked i ?b \<or>
       (\<exists>a\<in>set xs. activity_id a = i \<and> m i = Some PENDING \<and> g \<noteq> None)"
    and entries: "\<And>i h. map_of b' i = Some h \<Longrightarrow> map_of ?b i = Some h \<or>
       (g = Some (held_reason h) \<and> held_predecessors h = [] \<and> held_activity h \<in> set xs \<and>
        activity_id (held_activity h) = i \<and> \<not> in_blocked i ?b)"
    using Cons.IH [of ?b] Cons.prems by auto
  have "in_blocked i b' \<longleftrightarrow> in_blocked i b \<or>
      (\<exists>a\<in>set (x # xs). activity_id a = i \<and> m i = Some PENDING \<and> g \<noteq> None)" for i
    using keys [of i] st by auto
  moreover have "map_of b i = Some h \<or> (g = Some (held_reason h) \<and> held_predecessors h = [] \<and>
      held_activity h \<in> set (x # xs) \<and> activity_id (held_activity h) = i \<and> \<not> in_blocked i b)"
    if "map_of b' i = Some h" for i h
    using entries [OF that] by (cases ?hit) (auto simp: map_of_block split: if_splits)
  ultimately show ?case using step rest by auto
qed simp

lemma filter_lookup:
  assumes "\<And>a. a \<in> set as \<Longrightarrow> look a \<noteq> None \<longleftrightarrow> P a"
    and "\<And>a h. a \<in> set as \<Longrightarrow> look a = Some h \<Longrightarrow> f h = a"
  shows "map f (List.map_filter look as) = filter P as"
  using assms
proof (induction as)
  case (Cons a as)
  then show ?case by (cases "look a") (force simp: List.map_filter_simps)+
qed (simp add: List.map_filter_simps)

lemma derive_blocked_correct:
  assumes c: "covers m (activities p)" and d: "distinct (map activity_id (activities p))"
    and st: "saga_status s = Inr overall"
  defines "g \<equiv> global_block_reason overall (review_ids (activities p) \<noteq> [])"
  shows "\<exists>held. derive_blocked p s m = Inr held \<and>
    map held_activity held = filter (blocked_at m (activities p) g) (activities p) \<and>
    (\<forall>h\<in>set held. reason_ok m (activities p) g h)"
proof -
  let ?as = "activities p"
  have empty: "sound_blocked m ?as []" by (simp add: sound_blocked_def)
  obtain b0 where b0: "foldR (review_step m (review_ids ?as)) [] ?as = Inr b0"
    "sound_blocked m ?as b0" "\<And>a. a \<in> set ?as \<Longrightarrow> m (activity_id a) = Some PENDING \<Longrightarrow>
      is_review (operation a) \<Longrightarrow> in_blocked (activity_id a) b0"
    using review_pass [OF c d subset_refl empty] by auto
  obtain b1 where b1: "block_loop m ?as b0 = Inr b1" using block_loop_total [OF c] by blast
  note loop = block_loop_correct [OF b1 c b0(2)]
  then have stuck: "in_blocked i b1 \<longleftrightarrow> stuck m ?as i" for i
    using sound_stuck [of m ?as b1 i] closed_complete [of m ?as b1 i] b0(3) by blast
  obtain b2 where b2: "foldR (global_step s m (review_ids ?as \<noteq> [])) b1 ?as = Inr b2"
    and keys: "\<And>i. in_blocked i b2 \<longleftrightarrow> in_blocked i b1 \<or>
       (\<exists>a\<in>set ?as. activity_id a = i \<and> m i = Some PENDING \<and> g \<noteq> None)"
    and entries: "\<And>i h. map_of b2 i = Some h \<Longrightarrow> map_of b1 i = Some h \<or>
       (g = Some (held_reason h) \<and> held_predecessors h = [] \<and> held_activity h \<in> set ?as \<and>
        activity_id (held_activity h) = i \<and> \<not> in_blocked i b1)"
    unfolding g_def using global_pass [OF c st subset_refl] by blast
  have own: "activity_id (held_activity h) = i \<and> held_activity h \<in> set ?as \<and> reason_ok m ?as g h"
    if "map_of b2 i = Some h" for i h
    using entries [OF that]
  proof
    assume "map_of b1 i = Some h"
    with loop show ?thesis by (simp add: sound_blocked_def reason_ok_def)
  qed (use stuck in \<open>simp add: reason_ok_def\<close>)
  let ?look = "\<lambda>a. map_of b2 (activity_id a)"
  have "map held_activity (List.map_filter ?look ?as) = filter (blocked_at m ?as g) ?as"
  proof (rule filter_lookup)
    show "?look a \<noteq> None \<longleftrightarrow> blocked_at m ?as g a" if "a \<in> set ?as" for a
      using keys [of "activity_id a"] stuck [of "activity_id a"] that
      by (auto simp: in_blocked_def blocked_at_def)
    show "held_activity h = a" if "a \<in> set ?as" "?look a = Some h" for a h
      using own [OF that(2)] that(1) d by (auto simp: distinct_map dest: inj_onD)
  qed
  moreover have "\<forall>h\<in>set (List.map_filter ?look ?as). reason_ok m ?as g h"
    using own by (auto simp: List.map_filter_def)
  moreover have "derive_blocked p s m = Inr (List.map_filter ?look ?as)"
    by (simp add: derive_blocked_def Let_def b0(1) b1 b2)
  ultimately show ?thesis by blast
qed

section \<open>Accepted evidence\<close>

definition evidence_of :: "activity_plan \<Rightarrow> saga_state \<Rightarrow> bool" where
  "evidence_of p s \<longleftrightarrow> is_plan p \<and> consistent_saga s \<and>
     set (map (\<lambda>a. activity_step_id (activity_id a)) (activities p)) = set (step_ids s)"

lemma activity_step_id_inject: "activity_step_id i = activity_step_id j \<longleftrightarrow> i = j"
  by (simp add: activity_step_id_def activity_id.expand [of i j]) (auto simp: activity_id.expand)

lemma status_by_id_at:
  assumes "distinct (step_ids s)"
  shows "status_by_id s i = status_at s (activity_step_id i)"
proof -
  have eq: "ActivityId (step_id_value x) = j \<longleftrightarrow> x = activity_step_id j" for x j
    by (cases x; cases j) (simp add: activity_step_id_def)
  have "inj (\<lambda>x. ActivityId (step_id_value x))"
    by (rule injI) (simp add: saga_step_id.expand)
  with assms have d: "distinct (map (\<lambda>v. ActivityId (step_id_value (state_step_id v))) (steps s))"
    unfolding step_ids_def by (auto simp: distinct_map inj_on_def inj_def)
  show ?thesis
    unfolding status_by_id_def dict_of_distinct [OF d] map_of_map_pair eq status_at_def ..
qed

lemma evidence_known:
  assumes "evidence_of p s"
  shows "is_plan p" and "distinct (step_ids s)" and "wf_saga s" and "consistent_saga s"
    and "known_completions s"
  using assms consistent_known by (auto simp: evidence_of_def consistent_saga_def wf_saga_def)

lemma evidence_covers:
  assumes "evidence_of p s"
  shows "covers (status_by_id s) (activities p)"
proof -
  have "status_at s (activity_step_id (activity_id a)) \<noteq> None" if "a \<in> set (activities p)" for a
    using that assms by (auto simp: status_at_None evidence_of_def)
  then show ?thesis
    using plan_order.needs_known [OF evidence_known(1) [OF assms]]
    by (fastforce simp: covers_def status_by_id_at [OF evidence_known(2) [OF assms]])
qed

lemma in_steps_status:
  assumes "distinct (step_ids s)"
  shows "i \<in> state_step_id ` set (filter (\<lambda>v. P (step_status v)) (steps s)) \<longleftrightarrow>
    (\<exists>st. status_at s i = Some st \<and> P st)"
proof
  assume "i \<in> state_step_id ` set (filter (\<lambda>v. P (step_status v)) (steps s))"
  then show "\<exists>st. status_at s i = Some st \<and> P st" using status_at_step [OF assms] by auto
next
  assume "\<exists>st. status_at s i = Some st \<and> P st"
  then show "i \<in> state_step_id ` set (filter (\<lambda>v. P (step_status v)) (steps s))"
    by (auto simp: status_at_def find_step_iff [OF assms])
qed

text \<open>The validation of the evidence is the agreement \<open>wf_saga\<close>.\<close>

lemma validate_evidence_iff:
  assumes "distinct (step_ids s)"
  shows "validate_evidence s (set (step_ids s)) = Inr u \<longleftrightarrow> wf_saga s"
proof -
  define cs where "cs \<longleftrightarrow> (\<forall>i. i \<in> set (completion_order s) \<longleftrightarrow>
      (\<exists>st. status_at s i = Some st \<and> completed_status st))"
  define fs where "fs \<longleftrightarrow> (\<forall>i. i \<in> set (failed_steps s) \<longleftrightarrow> status_at s i = Some FAILED)"
  have c: "set (completion_order s) = state_step_id ` set (filter (\<lambda>v. step_status v \<in>
      set completed_statuses) (steps s)) \<longleftrightarrow> cs"
    unfolding set_eq_iff in_steps_status [OF assms, of _ "\<lambda>x. x \<in> set completed_statuses"]
    by (simp add: completed_statuses_def completed_status_def cs_def)
  have f: "set (failed_steps s) = state_step_id ` set (filter (\<lambda>v. step_status v = FAILED)
      (steps s)) \<longleftrightarrow> fs"
    unfolding set_eq_iff in_steps_status [OF assms, of _ "\<lambda>x. x = FAILED"] by (simp add: fs_def)
  have w: "wf_saga s \<longleftrightarrow> distinct (completion_order s) \<and> distinct (failed_steps s) \<and> cs \<and> fs"
    using assms by (simp add: wf_saga_def cs_def fs_def)
  have sub: "wf_saga s \<Longrightarrow> set (completion_order s) \<subseteq> set (step_ids s) \<and>
      set (failed_steps s) \<subseteq> set (step_ids s)"
    unfolding wf_saga_def by (metis option.distinct(1) status_at_None subsetI)
  show ?thesis
    unfolding validate_evidence_def Let_def has_duplicates_def c f w
    using sub unfolding w by auto
qed

section \<open>The lanes\<close>

definition lane :: "statuses \<Rightarrow> saga_step_status \<Rightarrow> planned_activity list \<Rightarrow> planned_activity list"
  where "lane m st as = filter (\<lambda>a. m (activity_id a) = Some st) as"

definition open_lane :: "statuses \<Rightarrow> activity_id list \<Rightarrow> bool \<Rightarrow> planned_activity list \<Rightarrow>
    planned_activity list" where
  "open_lane m held ok as = filter (\<lambda>a. m (activity_id a) = Some PENDING \<and>
     activity_id a \<notin> set held \<and> (\<forall>i\<in>set (predecessors a). m i = Some SUCCEEDED) = ok) as"

definition with_lanes :: "statuses \<Rightarrow> activity_id list \<Rightarrow> planned_activity list \<Rightarrow>
    execution_schedule \<Rightarrow> execution_schedule" where
  "with_lanes m held as d = d\<lparr>ready := ready d @ open_lane m held True as,
     running := running d @ lane m RUNNING as, waiting := waiting d @ open_lane m held False as,
     succeeded := succeeded d @ lane m SUCCEEDED as, failed := failed d @ lane m FAILED as,
     compensating := compensating d @ lane m COMPENSATING as,
     compensated := compensated d @ lane m COMPENSATED as,
     compensation_failed := compensation_failed d @ lane m COMPENSATION_FAILED as\<rparr>"

lemma classify_known:
  assumes "m (activity_id a) \<noteq> None" and "\<forall>i\<in>set (predecessors a). m i \<noteq> None"
  shows "classify m held d a = Inr (with_lanes m held [a] d)"
proof -
  have all: "list_all (\<lambda>x. x = SUCCEEDED) (map (\<lambda>i. the (m i)) (predecessors a)) \<longleftrightarrow>
      (\<forall>i\<in>set (predecessors a). m i = Some SUCCEEDED)"
    using assms(2) by (fastforce simp: list_all_iff)
  obtain st where st: "m (activity_id a) = Some st" using assms(1) by blast
  show ?thesis
    by (cases st) (simp_all add: classify_def st status_for_Some status_list [OF assms(2)] all
        with_lanes_def lane_def open_lane_def)
qed

lemma with_lanes_Cons: "with_lanes m held (a # as) d = with_lanes m held as (with_lanes m held [a] d)"
  by (simp add: with_lanes_def lane_def open_lane_def)

lemma with_lanes_Nil: "with_lanes m held [] d = d"
  by (simp add: with_lanes_def lane_def open_lane_def)

lemma classify_pass:
  "covers m as \<Longrightarrow> foldR (classify m held) d as = Inr (with_lanes m held as d)"
proof (induction as arbitrary: d)
  case (Cons a as)
  then have "classify m held d a = Inr (with_lanes m held [a] d)"
    by (intro classify_known) simp_all
  with Cons show ?case
    unfolding foldR.simps with_lanes_Cons [of m held a as d] by simp
qed (simp add: with_lanes_Nil)

definition step_of_activity :: "planned_activity \<Rightarrow> saga_step_id" where
  "step_of_activity a = activity_step_id (activity_id a)"

definition undo_lane_open :: "saga_state \<Rightarrow> bool" where
  "undo_lane_open s \<longleftrightarrow> \<not> any_status RUNNING s \<and> \<not> any_status COMPENSATING s \<and>
     status_of s \<in> {SagaFailed, SagaCancelledStatus, SagaCompensating, SagaPartiallyCompensated}"

lemma candidates_known: "known_completions s \<Longrightarrow> set (candidates_of s) \<subseteq> set (step_ids s)"
  by (auto simp: candidates_of_def known_completions_def)

lemma undo_lookup:
  assumes "evidence_of p s" and "set is \<subseteq> set (step_ids s)"
  shows "\<exists>as. mapR (\<lambda>i. case dict_of (\<lambda>a. activity_step_id (activity_id a)) (\<lambda>a. a) (activities p) i of
      Some a \<Rightarrow> Inr a | None \<Rightarrow> Inl (ScheduleKeyError (step_id_value i))) is = Inr as \<and>
    map step_of_activity as = is \<and> set as \<subseteq> set (activities p)"
  using assms(2)
proof (induction "is")
  case (Cons i "is")
  then have "i \<in> (\<lambda>a. activity_step_id (activity_id a)) ` set (activities p)"
    using assms(1) by (simp add: evidence_of_def)
  then have "dict_of (\<lambda>a. activity_step_id (activity_id a)) (\<lambda>a. a) (activities p) i \<noteq> None"
    unfolding dict_of_dom .
  then obtain a where a: "dict_of (\<lambda>a. activity_step_id (activity_id a)) (\<lambda>a. a) (activities p) i = Some a"
    unfolding not_None_eq ..
  with dict_of_Some [OF a] Cons show ?case by (auto simp: step_of_activity_def)
qed simp

lemma lane_empty:
  assumes "evidence_of p s"
  shows "lane (status_by_id s) st (activities p) = [] \<longleftrightarrow> \<not> any_status st s"
proof -
  note k = evidence_known [OF assms]
  have steps: "set (step_ids s) = (\<lambda>a. activity_step_id (activity_id a)) ` set (activities p)"
    using assms by (simp add: evidence_of_def)
  have "any_status st s \<longleftrightarrow> (\<exists>i\<in>set (step_ids s). status_at s i = Some st)"
    unfolding any_status_iff [OF k(2)] by (metis option.distinct(1) status_at_None)
  also have "\<dots> \<longleftrightarrow> (\<exists>a\<in>set (activities p). status_by_id s (activity_id a) = Some st)"
    unfolding steps status_by_id_at [OF k(2)] by simp
  finally show ?thesis by (simp add: lane_def filter_empty_conv)
qed

text \<open>The schedule of accepted evidence, lane by lane.\<close>

definition plan_block :: "activity_plan \<Rightarrow> saga_state \<Rightarrow> planned_activity \<Rightarrow> bool" where
  "plan_block p s = blocked_at (status_by_id s) (activities p)
     (global_block_reason (status_of s) (review_ids (activities p) \<noteq> []))"

definition schedule_spec :: "activity_plan \<Rightarrow> saga_state \<Rightarrow> execution_schedule \<Rightarrow> bool" where
  "schedule_spec p s d \<longleftrightarrow>
     (let m = status_by_id s; as = activities p;
          g = global_block_reason (status_of s) (review_ids as \<noteq> []);
          held = map activity_id (filter (plan_block p s) as) in
      map held_activity (blocked d) = filter (plan_block p s) as \<and>
      (\<forall>h\<in>set (blocked d). reason_ok m as g h) \<and>
      ready d = open_lane m held True as \<and> waiting d = open_lane m held False as \<and>
      running d = lane m RUNNING as \<and> succeeded d = lane m SUCCEEDED as \<and>
      failed d = lane m FAILED as \<and> compensating d = lane m COMPENSATING as \<and>
      compensated d = lane m COMPENSATED as \<and>
      compensation_failed d = lane m COMPENSATION_FAILED as \<and>
      set (compensation_ready d) \<subseteq> set as \<and>
      map step_of_activity (compensation_ready d) = (if undo_lane_open s then candidates_of s else []))"

lemma compensation_lane_correct:
  assumes "evidence_of p s" and "running d = lane (status_by_id s) RUNNING (activities p)"
    and "compensating d = lane (status_by_id s) COMPENSATING (activities p)"
  shows "\<exists>as. compensation_lane p s d = Inr as \<and> set as \<subseteq> set (activities p) \<and>
    map step_of_activity as = (if undo_lane_open s then candidates_of s else [])"
  using undo_lookup [OF assms(1) candidates_known [OF evidence_known(5) [OF assms(1)]]]
  by (auto simp: compensation_lane_def assms(2,3) lane_empty [OF assms(1)] undo_lane_open_def
      saga_status_known [OF evidence_known(5) [OF assms(1)]] lift_saga_def
      compensation_candidates_known [OF evidence_known(5) [OF assms(1)]])

lemma derive_schedule_correct:
  assumes e: "evidence_of p s"
  shows "\<exists>d. derive_schedule p s = Inr d \<and> schedule_spec p s d"
proof -
  let ?m = "status_by_id s" and ?as = "activities p"
  note k = evidence_known [OF e] and c = evidence_covers [OF e]
  obtain held where held: "derive_blocked p s ?m = Inr held"
    "map held_activity held = filter (plan_block p s) ?as"
    "\<forall>h\<in>set held. reason_ok ?m ?as (global_block_reason (status_of s) (review_ids ?as \<noteq> [])) h"
    using derive_blocked_correct [OF c plan_order.ident_distinct [OF k(1)] saga_status_known [OF k(5)]]
    unfolding plan_block_def by blast
  have ids: "map (\<lambda>h. activity_id (held_activity h)) held = map activity_id (filter (plan_block p s) ?as)"
    unfolding held(2) [symmetric] by simp
  let ?d = "with_lanes ?m (map activity_id (filter (plan_block p s) ?as)) ?as empty_schedule"
  obtain undo where undo: "compensation_lane p s ?d = Inr undo" "set undo \<subseteq> set ?as"
    "map step_of_activity undo = (if undo_lane_open s then candidates_of s else [])"
    using compensation_lane_correct [OF e, of ?d] by (auto simp: with_lanes_def empty_schedule_def)
  have valid: "validate_evidence s (set (step_ids s)) = Inr ()"
    using validate_evidence_iff [OF k(2)] k(3) by simp
  have guard: "distinct (map state_step_id (steps s))"
    "set (map (\<lambda>a. activity_step_id (activity_id a)) ?as) = set (map state_step_id (steps s))"
    using e k(2) by (simp_all add: evidence_of_def step_ids_def)
  have "derive_schedule p s = Inr (?d\<lparr>blocked := held, compensation_ready := undo\<rparr>)"
    unfolding derive_schedule_def Let_def has_duplicates_def using guard valid
    by (simp add: held(1) ids classify_pass [OF c] undo(1) step_ids_def)
  then show ?thesis using held undo
    by (simp add: schedule_spec_def Let_def with_lanes_def empty_schedule_def)
qed

lemma derive_schedule_spec: "evidence_of p s \<Longrightarrow> derive_schedule p s = Inr d \<Longrightarrow> schedule_spec p s d"
  using derive_schedule_correct by fastforce

text \<open>Every replay from the initial state of a plan is evidence for that plan.\<close>

lemma replay_evidence:
  assumes "is_plan p" and "foldR evolve (initial_for_plan p) es = Inr s"
  shows "evidence_of p s"
proof -
  have "step_ids s = step_ids (initial_for_plan p)"
    using replay_path [OF initial_for_plan_consistent [OF assms(1)] assms(2)]
    by (simp add: step_path_def)
  then show ?thesis
    using assms saga.fold_consistent [OF initial_for_plan_consistent [OF assms(1)] assms(2)]
    by (simp add: evidence_of_def initial_for_plan_def comp_def)
qed

end
