(* ===== verification/Schedule_Progress.thy ===== *)
theory Schedule_Progress
  imports Schedule_Laws
begin

text \<open>
  What a schedule guarantees its driver: the lanes partition the plan, ready work is accepted
  by \<open>decide\<close>, waiting work never deadlocks, undo work is offered in an accepted order, and
  every run of a saga is finite.
\<close>

section \<open>Partition\<close>

lemma lanes_partition:
  assumes "covers m as" and "\<And>i. i \<in> set held \<Longrightarrow> m i = Some PENDING"
  shows "mset as = mset (open_lane m held True as) + mset (open_lane m held False as) +
    mset (filter (\<lambda>a. activity_id a \<in> set held) as) + mset (lane m RUNNING as) +
    mset (lane m SUCCEEDED as) + mset (lane m FAILED as) + mset (lane m COMPENSATING as) +
    mset (lane m COMPENSATED as) + mset (lane m COMPENSATION_FAILED as)"
  using assms(1)
proof (induction as)
  case (Cons a as)
  from Cons.prems obtain st where st: "m (activity_id a) = Some st" by auto
  have held: "activity_id a \<in> set held \<Longrightarrow> st = PENDING" using assms(2) st by force
  have tail: "covers m as" using Cons.prems by simp
  show ?case
    using held by (cases st) (auto simp: open_lane_def lane_def st
      Cons.IH [OF tail, unfolded open_lane_def lane_def] simp del: mset_filter)
qed (simp add: open_lane_def lane_def)

lemma blocked_at_pending: "blocked_at m as g a \<Longrightarrow> m (activity_id a) = Some PENDING"
  by (auto simp: blocked_at_def dest: stuck_pending)

lemma held_ids:
  assumes "is_plan p" and "a \<in> set (activities p)"
  shows "activity_id a \<in> activity_id ` set (filter P (activities p)) \<longleftrightarrow> P a"
  using assms by (auto dest: plan_order.ident_inject)

lemma schedule_partition:
  assumes e: "evidence_of p s" and d: "derive_schedule p s = Inr d"
  shows "mset (activities p) = mset (ready d) + mset (waiting d) + mset (map held_activity (blocked d)) +
    mset (running d) + mset (succeeded d) + mset (failed d) + mset (compensating d) +
    mset (compensated d) + mset (compensation_failed d)"
proof -
  let ?held = "map activity_id (filter (plan_block p s) (activities p))"
  have "filter (\<lambda>a. activity_id a \<in> set ?held) (activities p) = filter (plan_block p s) (activities p)"
    using held_ids [OF evidence_known(1) [OF e]] by (intro filter_cong) simp_all
  moreover have "\<And>i. i \<in> set ?held \<Longrightarrow> status_by_id s i = Some PENDING"
    by (auto simp: plan_block_def dest: blocked_at_pending)
  ultimately show ?thesis
    using lanes_partition [OF evidence_covers [OF e], of ?held] derive_schedule_spec [OF e d]
    by (simp add: schedule_spec_def Let_def)
qed

section \<open>Ready and waiting work\<close>

lemma in_open_lane:
  assumes e: "evidence_of p s" and d: "derive_schedule p s = Inr d"
  shows "a \<in> set (ready d) \<longleftrightarrow> a \<in> set (activities p) \<and>
      status_at s (step_of_activity a) = Some PENDING \<and> \<not> plan_block p s a \<and>
      (\<forall>i\<in>set (predecessors a). status_at s (activity_step_id i) = Some SUCCEEDED)"
    and "a \<in> set (waiting d) \<longleftrightarrow> a \<in> set (activities p) \<and>
      status_at s (step_of_activity a) = Some PENDING \<and> \<not> plan_block p s a \<and>
      \<not> (\<forall>i\<in>set (predecessors a). status_at s (activity_step_id i) = Some SUCCEEDED)"
  using derive_schedule_spec [OF e d] held_ids [OF evidence_known(1) [OF e], of a "plan_block p s"]
  by (auto simp: schedule_spec_def Let_def open_lane_def step_of_activity_def
      status_by_id_at [OF evidence_known(2) [OF e]])

lemma not_blocked_active:
  assumes e: "evidence_of p s" and a: "a \<in> set (activities p)"
    and st: "status_at s (step_of_activity a) = Some PENDING" and "\<not> plan_block p s a"
  shows "status_of s = SagaActive \<and> \<not> compensation_requested s \<and> ready_for_execution p"
proof -
  note k = evidence_known [OF e]
  have pend: "status_by_id s (activity_id a) = Some PENDING"
    using st by (simp add: status_by_id_at [OF k(2)] step_of_activity_def)
  with assms(4) have g: "global_block_reason (status_of s) (review_ids (activities p) \<noteq> []) = None"
    by (simp add: plan_block_def blocked_at_def del: global_block_reason.simps)
  then have r: "review_ids (activities p) = []" and act: "status_of s \<in> {SagaActive, SagaSucceeded}"
    by (cases "status_of s"; simp split: if_splits)+
  have "status_of s \<noteq> SagaSucceeded"
  proof
    assume "status_of s = SagaSucceeded"
    then have "list_all (\<lambda>v. step_status v = SUCCEEDED) (steps s)"
      by (auto simp: status_of_def split: if_splits)
    with st show False
      by (auto simp: status_at_def find_Some_iff list_all_iff)
  qed
  moreover have "\<not> halted s" using halted_status [OF k(4)] act by blast
  moreover have "ready_for_execution p"
    using r by (auto simp: ready_for_execution_def review_ids_def list_ex_iff filter_empty_conv)
  ultimately show ?thesis using act by (auto simp: halted_def)
qed

lemma require_status_at:
  "status_at s i = Some st \<Longrightarrow> require_step_status s i st = Inr ()"
  by (simp add: require_step_status_Inr)

lemma ready_accepted:
  assumes "evidence_of p s" and "derive_schedule p s = Inr d" and "a \<in> set (ready d)"
  shows "decide s (StartSagaStep (step_of_activity a)) = Inr [SagaStepStarted (step_of_activity a)]"
proof -
  have a: "a \<in> set (activities p)" "status_at s (step_of_activity a) = Some PENDING"
    "\<not> plan_block p s a" using assms in_open_lane(1) [OF assms(1,2)] by auto
  then have "require_active s = Inr ()"
    using not_blocked_active [OF assms(1) a]
    by (simp add: require_active_Inr [OF evidence_known(5) [OF assms(1)]])
  with a(2) show ?thesis by (simp add: require_status_at)
qed

text \<open>A waiting activity always waits for something that can still move.\<close>

lemma waiting_moves:
  assumes e: "evidence_of p s" and d: "derive_schedule p s = Inr d" and "waiting d \<noteq> []"
  shows "ready d \<noteq> [] \<or> running d \<noteq> []"
proof -
  note k = evidence_known [OF e] and sp = derive_schedule_spec [OF e d]
  let ?P = "\<lambda>i. \<exists>a\<in>set (activities p). activity_id a = i \<and>
    status_at s (step_of_activity a) = Some PENDING \<and> \<not> plan_block p s a"
  obtain w where "w \<in> set (waiting d)" using assms(3) by (meson last_in_set)
  then have w: "w \<in> set (activities p)" "status_at s (step_of_activity w) = Some PENDING"
    "\<not> plan_block p s w" using in_open_lane(2) [OF e d] by auto
  then have "\<exists>a\<in>set (activities p). ?P (activity_id a)" by blast
  from plan_order.first_of [OF k(1) this] obtain a where a: "a \<in> set (activities p)"
    "?P (activity_id a)" and first: "\<forall>i\<in>set (predecessors a). \<not> ?P i" by blast
  then have pend: "status_at s (step_of_activity a) = Some PENDING" "\<not> plan_block p s a"
    using plan_order.ident_inject [OF k(1)] by blast+
  have act: "status_of s = SagaActive" using not_blocked_active [OF e a(1) pend] by simp
  show ?thesis
  proof (cases "a \<in> set (ready d)")
    case False
    with a(1) pend obtain i where i: "i \<in> set (predecessors a)"
      "status_at s (activity_step_id i) \<noteq> Some SUCCEEDED"
      using in_open_lane(1) [OF e d] by blast
    then obtain b where b: "b \<in> set (activities p)" "i = activity_id b"
      using plan_order.needs_known [OF k(1) a(1)] by blast
    then obtain st where st: "status_at s (activity_step_id i) = Some st"
      using evidence_covers [OF e] by (auto simp: covers_def status_by_id_at [OF k(2)])
    have not_stuck: "\<not> stuck (status_by_id s) (activities p) (activity_id a)"
      using pend(2) by (simp add: plan_block_def blocked_at_def)
    have ap: "status_by_id s (activity_id a) = Some PENDING"
      using pend(1) by (simp add: status_by_id_at [OF k(2)] step_of_activity_def)
    have "\<not> bad_at (status_by_id s) i" "\<not> stuck (status_by_id s) (activities p) i"
      using not_stuck stuck_failed [of a "activities p" "status_by_id s" i]
        stuck_blocked [of a "activities p" "status_by_id s" i] a(1) ap i(1) by blast+
    moreover have "st \<noteq> PENDING"
    proof
      assume "st = PENDING"
      with first i(1) b st have "plan_block p s b" by (auto simp: step_of_activity_def)
      with calculation(2) b have "global_block_reason (status_of s) (review_ids (activities p) \<noteq> []) \<noteq> None"
        by (simp add: plan_block_def blocked_at_def del: global_block_reason.simps)
      with ap pend(2) show False
        by (simp add: plan_block_def blocked_at_def del: global_block_reason.simps)
    qed
    moreover have "st \<noteq> COMPENSATING"
    proof
      assume "st = COMPENSATING"
      with st have "any_status COMPENSATING s" using any_status_iff [OF k(2)] by blast
      with act show False by (simp add: status_of_def)
    qed
    ultimately have "st = RUNNING"
      using st i(2) by (cases st) (auto simp: bad_at_def status_by_id_at [OF k(2)])
    then have "b \<in> set (lane (status_by_id s) RUNNING (activities p))"
      using b st by (simp add: lane_def status_by_id_at [OF k(2)])
    with sp show ?thesis by (auto simp: schedule_spec_def Let_def)
  qed auto
qed

section \<open>Undo work\<close>

lemma undo_head_accepted:
  assumes e: "evidence_of p s" and d: "derive_schedule p s = Inr d"
    and "compensation_ready d = a # as"
  shows "decide s (BeginSagaCompensation (step_of_activity a)) =
    Inr [SagaCompensationStarted (step_of_activity a)]"
proof -
  have "candidates_of s = step_of_activity a # map step_of_activity as"
    using derive_schedule_spec [OF e d] assms(3)
    by (auto simp: schedule_spec_def Let_def split: if_splits)
  then have "require_next_candidate s (step_of_activity a) = Inr ()"
    by (simp add: require_candidate_Inr [OF evidence_known(5) [OF e]])
  then show ?thesis by simp
qed

lemma successful_all:
  assumes e: "evidence_of p s" and d: "derive_schedule p s = Inr d" and "successful d"
    and "i \<in> set (step_ids s)"
  shows "status_at s i = Some SUCCEEDED"
proof -
  obtain a where a: "a \<in> set (activities p)" "i = activity_step_id (activity_id a)"
    using e assms(4) by (auto simp: evidence_of_def)
  have "mset (activities p) = mset (succeeded d)"
    using schedule_partition [OF e d] assms(3) by (simp add: successful_def terminal_def)
  then have "a \<in> set (succeeded d)" using a(1) by (metis set_mset_mset)
  with a show ?thesis using derive_schedule_spec [OF e d]
    by (simp add: schedule_spec_def Let_def lane_def status_by_id_at [OF evidence_known(2) [OF e]])
qed

section \<open>Progress and finiteness\<close>

lemma lane_member:
  assumes e: "evidence_of p s" and "lane (status_by_id s) st (activities p) \<noteq> []"
  obtains i where "status_at s i = Some st"
  using assms(2) by (auto simp: lane_def filter_empty_conv status_by_id_at [OF evidence_known(2) [OF e]])

lemma schedule_progress:
  assumes e: "evidence_of p s" and d: "derive_schedule p s = Inr d" and "\<not> terminal d"
  shows "\<exists>c v. decide s c = Inr [v]"
proof -
  note sp = derive_schedule_spec [OF e d, unfolded schedule_spec_def Let_def]
  from assms(3) waiting_moves [OF e d]
  consider a where "a \<in> set (ready d)" | "running d \<noteq> []" | "compensating d \<noteq> []"
    | a as where "compensation_ready d = a # as"
    unfolding terminal_def by (metis last_in_set list.exhaust)
  then show ?thesis
  proof cases
    case 1
    then show ?thesis using ready_accepted [OF e d] by blast
  next
    case 2
    with sp obtain i where "status_at s i = Some RUNNING" using lane_member [OF e] by metis
    then have "decide s (SucceedSagaStep i) = Inr [SagaStepSucceeded i]"
      by (simp add: require_status_at)
    then show ?thesis by blast
  next
    case 3
    with sp obtain i where "status_at s i = Some COMPENSATING" using lane_member [OF e] by metis
    then have "decide s (SucceedSagaCompensation i) = Inr [SagaCompensationSucceeded i]"
      by (simp add: require_status_at)
    then show ?thesis by blast
  next
    case 4
    then show ?thesis using undo_head_accepted [OF e d] by blast
  qed
qed

primrec step_weight :: "saga_step_status \<Rightarrow> nat" where
  "step_weight PENDING = 0"
| "step_weight RUNNING = 1"
| "step_weight SUCCEEDED = 2"
| "step_weight FAILED = 2"
| "step_weight COMPENSATING = 3"
| "step_weight COMPENSATED = 4"
| "step_weight COMPENSATION_FAILED = 4"

definition saga_weight :: "saga_state \<Rightarrow> nat" where
  "saga_weight s = (\<Sum>v\<leftarrow>steps s. step_weight (step_status v)) +
     of_bool (cancelled s) + of_bool (compensation_requested s)"

lemma weight_set_step:
  assumes "distinct (step_ids s)" and "status_at s i = Some old"
    and "step_weight old < step_weight st"
  shows "saga_weight s < saga_weight (set_step i st s)"
proof -
  have "(\<Sum>v\<leftarrow>vs. step_weight (step_status v)) < (\<Sum>v\<leftarrow>map (\<lambda>v. if state_step_id v = i
      then v\<lparr>step_status := st\<rparr> else v) vs. step_weight (step_status v))"
    if "find (\<lambda>v. state_step_id v = i) vs = Some x" "step_status x = old" "distinct (map state_step_id vs)"
    for vs x
    using that
  proof (induction vs)
    case (Cons v vs)
    have same: "map (\<lambda>v. if state_step_id v = i then v\<lparr>step_status := st\<rparr> else v) vs = vs"
      if "i \<notin> set (map state_step_id vs)" using that by (intro map_idI) auto
    show ?case
    proof (cases "state_step_id v = i")
      case True
      with Cons.prems same assms(3) show ?thesis by simp
    next
      case False
      with Cons show ?thesis by simp
    qed
  qed simp
  with assms(1,2) show ?thesis
    by (auto simp: saga_weight_def set_step_def status_at_def step_ids_def)
qed

lemma saga_trans_weight:
  assumes "saga_trans s e t" and "consistent_saga s"
  shows "saga_weight s < saga_weight t"
proof -
  have d: "distinct (step_ids s)" using assms(2) by (simp add: consistent_saga_def wf_saga_def)
  have same: "saga_weight (s\<lparr>completion_order := xs\<rparr>) = saga_weight s"
    "saga_weight (s\<lparr>failed_steps := xs\<rparr>) = saga_weight s" for s xs
    by (simp_all add: saga_weight_def)
  show ?thesis
    using assms(1) d assms(2)
  proof (induction rule: saga_trans.induct)
    case (cancel s)
    then have "\<not> cancelled s" using halted_status [OF cancel.prems(2)] by (auto simp: halted_def)
    then show ?case by (simp add: saga_weight_def)
  next
    case (request s)
    then show ?case by (simp add: saga_weight_def)
  next
    case (compensating s i "is")
    then show ?case using weight_set_step [of s i SUCCEEDED] by (auto dest: candidate_status)
  qed (simp_all add: same weight_set_step)
qed

lemma replay_weight:
  "consistent_saga s \<Longrightarrow> foldR evolve s es = Inr t \<Longrightarrow> saga_weight s + length es \<le> saga_weight t"
proof (induction es arbitrary: s)
  case (Cons e es)
  then obtain u where u: "evolve s e = Inr u" "foldR evolve u es = Inr t" by (auto simp: bindR_Inr_iff)
  have "saga_trans s e u" using u(1) evolve_saga_trans [OF consistent_known] Cons.prems(1) by blast
  then have "saga_weight s < saga_weight u" using Cons.prems(1) by (rule saga_trans_weight)
  with Cons.IH [OF evolve_consistent [OF Cons.prems(1) u(1)] u(2)] show ?case by simp
qed simp

lemma saga_weight_bound: "saga_weight s \<le> 4 * length (steps s) + 2"
proof -
  have "(\<Sum>v\<leftarrow>vs. step_weight (step_status v)) \<le> 4 * length vs" for vs
  proof (induction vs)
    case (Cons v vs)
    have "step_weight (step_status v) \<le> 4" by (cases "step_status v") simp_all
    with Cons show ?case by simp
  qed simp
  from this [of "steps s"] show ?thesis by (simp add: saga_weight_def)
qed

lemma replay_length:
  assumes "consistent_saga s" and "foldR evolve s es = Inr t"
  shows "length es \<le> 4 * length (steps s) + 2"
proof -
  have "length (step_ids t) = length (step_ids s)"
    using replay_path [OF assms] by (simp add: step_path_def)
  then show ?thesis
    using replay_weight [OF assms] saga_weight_bound [of t] by (simp add: step_ids_def)
qed

end
