(* ===== verification/Saga_Journal.thy ===== *)
theory Saga_Journal
  imports Schedule_Progress
begin

text \<open>
  The activity journal of \<open>planning/saga.py\<close>: the journal event with its constructor
  checks, and \<open>project_activity_journal\<close>, the loop that turns journal events into saga
  events while it tracks the attempts in flight and the uncertain ones in dictionaries
  keyed by activity id.
\<close>

section \<open>Journal events\<close>

datatype journal_kind = STEP_STARTED | STEP_SUCCEEDED | STEP_FAILED | STEP_UNSUPPORTED
  | STEP_UNCERTAIN | STEP_UNCERTAINTY_RESOLVED_SUCCEEDED | STEP_UNCERTAINTY_RESOLVED_FAILED
  | STEP_UNCERTAINTY_ABANDONED | RUN_COMPENSATION_STARTED | STEP_COMPENSATION_STARTED
  | STEP_COMPENSATION_SUCCEEDED | STEP_COMPENSATION_FAILED | STEP_COMPENSATION_UNSUPPORTED
  | STEP_COMPENSATION_UNCERTAIN | STEP_COMPENSATION_UNCERTAINTY_RESOLVED_SUCCEEDED
  | STEP_COMPENSATION_UNCERTAINTY_RESOLVED_FAILED | STEP_COMPENSATION_UNCERTAINTY_ABANDONED

record journal_event =
  event_id :: string
  journal_run :: string
  ordinal :: int
  event_kind :: journal_kind
  event_activity :: "string option"

definition make_journal_event :: "string \<Rightarrow> string \<Rightarrow> int \<Rightarrow> journal_kind \<Rightarrow> string option \<Rightarrow>
    py_exn + journal_event" where
  "make_journal_event i r n k act =
     (if \<not> non_blank i then Inl (ValueError ''activity journal event id must be non-empty text'')
      else if \<not> is_canonical_run_identity r
      then Inl (ValueError ''activity journal run id is malformed'')
      else if n < 1 then Inl (ValueError ''activity journal ordinal must be a positive integer'')
      else if (case act of Some a \<Rightarrow> \<not> non_blank a | None \<Rightarrow> False)
      then Inl (ValueError ''activity journal activity id must be non-empty text'')
      else Inr \<lparr>event_id = i, journal_run = r, ordinal = n, event_kind = k, event_activity = act\<rparr>)"

datatype journal_exn = SagaJournalError string | JournalSagaError saga_exn

record journal_projection =
  projected_state :: saga_state
  in_flight :: "journal_event list"
  uncertain :: "journal_event list"
  compensation_in_flight :: "journal_event list"
  compensation_uncertain :: "journal_event list"

section \<open>The loop\<close>

type_synonym event_dict = "(string \<times> journal_event) list"

record journal_scan =
  saga_events :: "saga_event list"
  uncertain_by_step :: event_dict
  event_by_step :: event_dict
  compensation_uncertain_by_step :: event_dict
  compensation_event_by_step :: event_dict
  started_steps :: "string set"

definition empty_scan :: journal_scan where
  "empty_scan = \<lparr>saga_events = [], uncertain_by_step = [], event_by_step = [],
     compensation_uncertain_by_step = [], compensation_event_by_step = [], started_steps = {}\<rparr>"

definition emit :: "saga_event list \<Rightarrow> journal_scan \<Rightarrow> journal_scan" where
  "emit es c = c\<lparr>saga_events := saga_events c @ es\<rparr>"

definition has_key :: "string \<Rightarrow> event_dict \<Rightarrow> bool" where
  "has_key k d \<longleftrightarrow> map_of d k \<noteq> None"

text \<open>A resolution of a forward attempt, and of a compensating one.\<close>

definition resolve :: "string \<Rightarrow> saga_event \<Rightarrow> string \<Rightarrow> journal_scan \<Rightarrow> journal_exn + journal_scan"
  where
  "resolve a v msg c =
     (if \<not> has_key a (uncertain_by_step c) then Inl (SagaJournalError msg)
      else Inr ((emit [v] c)\<lparr>uncertain_by_step := AList.delete a (uncertain_by_step c)\<rparr>))"

definition resolve_compensation ::
  "string \<Rightarrow> saga_event \<Rightarrow> string \<Rightarrow> journal_scan \<Rightarrow> journal_exn + journal_scan" where
  "resolve_compensation a v msg c =
     (if \<not> has_key a (compensation_uncertain_by_step c) then Inl (SagaJournalError msg)
      else Inr ((emit [v] c)\<lparr>compensation_uncertain_by_step :=
             AList.delete a (compensation_uncertain_by_step c)\<rparr>))"

definition settle :: "string \<Rightarrow> saga_event list \<Rightarrow> journal_scan \<Rightarrow> journal_scan" where
  "settle a vs c = (emit vs c)\<lparr>event_by_step := AList.delete a (event_by_step c)\<rparr>"

definition settle_compensation :: "string \<Rightarrow> saga_event list \<Rightarrow> journal_scan \<Rightarrow> journal_scan" where
  "settle_compensation a vs c =
     (emit vs c)\<lparr>compensation_event_by_step := AList.delete a (compensation_event_by_step c)\<rparr>"

fun scan_activity :: "journal_event \<Rightarrow> string \<Rightarrow> journal_kind \<Rightarrow> journal_scan \<Rightarrow>
    journal_exn + journal_scan" where
  "scan_activity e a STEP_STARTED c = Inr ((emit [SagaStepStarted (SagaStepId a)] c)
     \<lparr>event_by_step := AList.update a e (event_by_step c),
      started_steps := insert a (started_steps c)\<rparr>)"
| "scan_activity e a STEP_SUCCEEDED c = Inr (settle a [SagaStepSucceeded (SagaStepId a)] c)"
| "scan_activity e a STEP_FAILED c = Inr (settle a [SagaStepFailed (SagaStepId a)] c)"
| "scan_activity e a STEP_UNSUPPORTED c = Inr (settle a
     ((if a \<notin> started_steps c then [SagaStepStarted (SagaStepId a)] else []) @
       [SagaStepFailed (SagaStepId a)]) c)"
| "scan_activity e a STEP_UNCERTAIN c =
     Inr (c\<lparr>uncertain_by_step := AList.update a e (uncertain_by_step c),
       event_by_step := AList.delete a (event_by_step c)\<rparr>)"
| "scan_activity e a STEP_UNCERTAINTY_RESOLVED_SUCCEEDED c = resolve a
     (SagaStepSucceeded (SagaStepId a)) ''success resolution requires prior uncertain evidence'' c"
| "scan_activity e a STEP_UNCERTAINTY_RESOLVED_FAILED c = resolve a
     (SagaStepFailed (SagaStepId a)) ''failure resolution requires prior uncertain evidence'' c"
| "scan_activity e a STEP_UNCERTAINTY_ABANDONED c = resolve a
     (SagaStepFailed (SagaStepId a)) ''abandonment requires prior uncertain evidence'' c"
| "scan_activity e a STEP_COMPENSATION_STARTED c =
     Inr ((emit [SagaCompensationStarted (SagaStepId a)] c)
       \<lparr>compensation_event_by_step := AList.update a e (compensation_event_by_step c)\<rparr>)"
| "scan_activity e a STEP_COMPENSATION_SUCCEEDED c =
     Inr (settle_compensation a [SagaCompensationSucceeded (SagaStepId a)] c)"
| "scan_activity e a STEP_COMPENSATION_FAILED c =
     Inr (settle_compensation a [SagaCompensationFailed (SagaStepId a)] c)"
| "scan_activity e a STEP_COMPENSATION_UNSUPPORTED c = Inr (settle_compensation a
     ((if \<not> has_key a (compensation_event_by_step c)
       then [SagaCompensationStarted (SagaStepId a)] else []) @
       [SagaCompensationFailed (SagaStepId a)]) c)"
| "scan_activity e a STEP_COMPENSATION_UNCERTAIN c =
     Inr (c\<lparr>compensation_uncertain_by_step := AList.update a e (compensation_uncertain_by_step c),
       compensation_event_by_step := AList.delete a (compensation_event_by_step c)\<rparr>)"
| "scan_activity e a STEP_COMPENSATION_UNCERTAINTY_RESOLVED_SUCCEEDED c = resolve_compensation a
     (SagaCompensationSucceeded (SagaStepId a))
     ''compensation success resolution requires prior uncertain evidence'' c"
| "scan_activity e a STEP_COMPENSATION_UNCERTAINTY_RESOLVED_FAILED c = resolve_compensation a
     (SagaCompensationFailed (SagaStepId a))
     ''compensation failure resolution requires prior uncertain evidence'' c"
| "scan_activity e a STEP_COMPENSATION_UNCERTAINTY_ABANDONED c = resolve_compensation a
     (SagaCompensationFailed (SagaStepId a))
     ''compensation abandonment requires prior uncertain evidence'' c"
| "scan_activity e a RUN_COMPENSATION_STARTED c = Inr c"

definition scan_event :: "string set \<Rightarrow> journal_scan \<Rightarrow> journal_event \<Rightarrow> journal_exn + journal_scan"
  where
  "scan_event plan_ids c e =
     (case event_activity e of
        Some a \<Rightarrow> if a \<notin> plan_ids
          then Inl (SagaJournalError (''activity event references foreign step '' @ py_repr a))
          else if event_kind e = RUN_COMPENSATION_STARTED
          then Inr (emit [SagaCompensationRequested] c)
          else scan_activity e a (event_kind e) c
      | None \<Rightarrow> if event_kind e = RUN_COMPENSATION_STARTED
          then Inr (emit [SagaCompensationRequested] c)
          else Inr c)"

definition lift_journal :: "saga_exn + 'a \<Rightarrow> journal_exn + 'a" where
  "lift_journal r = (case r of Inl e \<Rightarrow> Inl (JournalSagaError e) | Inr a \<Rightarrow> Inr a)"

definition sorted_values :: "event_dict \<Rightarrow> journal_event list" where
  "sorted_values d = List.map_filter (map_of d) (sort (map fst d))"

definition running_ids :: "saga_state \<Rightarrow> string list" where
  "running_ids s = sort (remdups (map (\<lambda>v. step_id_value (state_step_id v))
     (filter (\<lambda>v. step_status v = RUNNING) (steps s))))"

definition plan_id_texts :: "activity_plan \<Rightarrow> string set" where
  "plan_id_texts p = set (map (\<lambda>a. activity_id_value (activity_id a)) (activities p))"

definition projection_of :: "saga_state \<Rightarrow> journal_scan \<Rightarrow> journal_projection" where
  "projection_of s c = \<lparr>projected_state = s,
     in_flight = List.map_filter (map_of (event_by_step c)) (running_ids s),
     uncertain = sorted_values (uncertain_by_step c),
     compensation_in_flight = sorted_values (compensation_event_by_step c),
     compensation_uncertain = sorted_values (compensation_uncertain_by_step c)\<rparr>"

lemma projection_fields [simp]:
  "projected_state (projection_of s c) = s"
  "in_flight (projection_of s c) = List.map_filter (map_of (event_by_step c)) (running_ids s)"
  "uncertain (projection_of s c) = sorted_values (uncertain_by_step c)"
  by (simp_all add: projection_of_def)

definition project_activity_journal :: "activity_plan \<Rightarrow> journal_event list \<Rightarrow>
    journal_exn + journal_projection" where
  "project_activity_journal p es =
     (if map ordinal es \<noteq> sort (map ordinal es) \<or> has_duplicates (map ordinal es)
      then Inl (SagaJournalError ''activity journal ordinals must be unique and increasing'')
      else if length (remdups (map journal_run es)) > 1
      then Inl (SagaJournalError ''activity journal cannot mix run identities'')
      else bindR (foldR (scan_event (plan_id_texts p)) empty_scan es) (\<lambda>c.
        bindR (lift_journal (evolve_all (initial_for_plan p) (saga_events c))) (\<lambda>s.
          Inr (projection_of s c))))"

end
