(* ===== verification/Journal_Laws.thy ===== *)
theory Journal_Laws
  imports Saga_Journal
begin

text \<open>
  Laws of the journal projection. \<open>scan_inv\<close> ties the dictionaries and the emitted saga
  events to the scanned prefix of the journal; a projection is therefore evidence for the
  plan, grows along the journal, and keeps every entry's provenance.
\<close>

section \<open>The scanned prefix\<close>

definition entry_from :: "journal_event list \<Rightarrow> journal_kind \<Rightarrow> event_dict \<Rightarrow> bool" where
  "entry_from es k d \<longleftrightarrow> (\<forall>a e. map_of d a = Some e \<longrightarrow>
     e \<in> set es \<and> event_kind e = k \<and> event_activity e = Some a)"

definition success_kinds :: "journal_kind set" where
  "success_kinds = {STEP_SUCCEEDED, STEP_UNCERTAINTY_RESOLVED_SUCCEEDED}"

fun journal_successes :: "journal_event list \<Rightarrow> saga_step_id list" where
  "journal_successes [] = []"
| "journal_successes (e # es) = (case event_activity e of
     Some a \<Rightarrow> if event_kind e \<in> success_kinds then SagaStepId a # journal_successes es
       else journal_successes es
   | None \<Rightarrow> journal_successes es)"

fun event_successes :: "saga_event list \<Rightarrow> saga_step_id list" where
  "event_successes [] = []"
| "event_successes (SagaStepSucceeded i # vs) = i # event_successes vs"
| "event_successes (_ # vs) = event_successes vs"

definition scan_inv :: "journal_event list \<Rightarrow> journal_scan \<Rightarrow> bool" where
  "scan_inv es c \<longleftrightarrow> entry_from es STEP_UNCERTAIN (uncertain_by_step c) \<and>
     entry_from es STEP_STARTED (event_by_step c) \<and>
     entry_from es STEP_COMPENSATION_UNCERTAIN (compensation_uncertain_by_step c) \<and>
     entry_from es STEP_COMPENSATION_STARTED (compensation_event_by_step c) \<and>
     event_successes (saga_events c) = journal_successes es"

lemma event_successes_append: "event_successes (vs @ ws) = event_successes vs @ event_successes ws"
  by (induction vs rule: event_successes.induct) auto

lemma journal_successes_append:
  "journal_successes (es @ fs) = journal_successes es @ journal_successes fs"
  by (induction es) (auto split: option.split)

lemma entry_from_mono: "entry_from es k d \<Longrightarrow> entry_from (es @ fs) k d"
  by (auto simp: entry_from_def)

lemma entry_from_update:
  "entry_from es k d \<Longrightarrow> e \<in> set es \<Longrightarrow> event_kind e = k \<Longrightarrow> event_activity e = Some a \<Longrightarrow>
     entry_from es k (AList.update a e d)"
  by (auto simp: entry_from_def update_conv' split: if_splits)

lemma entry_from_delete: "entry_from es k d \<Longrightarrow> entry_from es k (AList.delete a d)"
  by (auto simp: entry_from_def delete_conv' split: if_splits)

lemmas entry_from_intros = entry_from_update entry_from_delete

lemma emit_fields [simp]:
  "saga_events (emit vs c) = saga_events c @ vs"
  "uncertain_by_step (emit vs c) = uncertain_by_step c"
  "event_by_step (emit vs c) = event_by_step c"
  "compensation_uncertain_by_step (emit vs c) = compensation_uncertain_by_step c"
  "compensation_event_by_step (emit vs c) = compensation_event_by_step c"
  by (simp_all add: emit_def)

lemma scan_activity_inv:
  assumes "scan_activity e a k c = Inr c'" and "event_kind e = k" and "event_activity e = Some a"
    and "scan_inv es c"
  shows "scan_inv (es @ [e]) c'"
proof -
  have inv: "entry_from (es @ [e]) STEP_UNCERTAIN (uncertain_by_step c)"
    "entry_from (es @ [e]) STEP_STARTED (event_by_step c)"
    "entry_from (es @ [e]) STEP_COMPENSATION_UNCERTAIN (compensation_uncertain_by_step c)"
    "entry_from (es @ [e]) STEP_COMPENSATION_STARTED (compensation_event_by_step c)"
    "event_successes (saga_events c) = journal_successes es"
    using assms(4) by (simp_all add: scan_inv_def entry_from_mono)
  show ?thesis
    using assms(1-3) inv
    by (cases k) (auto simp: scan_inv_def settle_def settle_compensation_def resolve_def
        resolve_compensation_def event_successes_append journal_successes_append success_kinds_def
        intro!: entry_from_intros split: if_splits)
qed

lemma scan_event_inv:
  assumes "scan_event ids c e = Inr c'" and "scan_inv es c"
  shows "scan_inv (es @ [e]) c'"
proof -
  have same: "scan_inv (es @ [e]) (emit vs c)"
    if "event_successes vs = []" "journal_successes [e] = []" for vs
    using that assms(2) by (auto simp: scan_inv_def event_successes_append journal_successes_append
        intro: entry_from_mono)
  have quiet: "emit [] c = c" by (simp add: emit_def)
  show ?thesis
  proof (cases "event_activity e")
    case None
    then show ?thesis using assms(1) same [of "[]"] same [of "[SagaCompensationRequested]"]
      by (auto simp: scan_event_def quiet split: if_splits)
  next
    case (Some a)
    then show ?thesis using assms same [of "[SagaCompensationRequested]"]
      by (auto simp: scan_event_def success_kinds_def split: if_splits intro: scan_activity_inv)
  qed
qed

lemma scan_inv_empty: "scan_inv [] empty_scan"
  by (simp add: scan_inv_def empty_scan_def entry_from_def)

lemma scan_fold_inv:
  "foldR (scan_event ids) c es = Inr c' \<Longrightarrow> scan_inv ds c \<Longrightarrow> scan_inv (ds @ es) c'"
proof (induction es arbitrary: c ds)
  case (Cons e es)
  then obtain d where "scan_event ids c e = Inr d" "foldR (scan_event ids) d es = Inr c'"
    by (auto simp: bindR_Inr_iff)
  with Cons.IH [of d "ds @ [e]"] Cons.prems(2) show ?case by (simp add: scan_event_inv)
qed simp

lemma scan_event_extends: "scan_event ids c e = Inr c' \<Longrightarrow> \<exists>vs. saga_events c' = saga_events c @ vs"
proof -
  have "\<exists>vs. saga_events c' = saga_events c @ vs" if "scan_activity e a k c = Inr c'" for a k
    using that by (cases k) (auto simp: settle_def settle_compensation_def resolve_def
        resolve_compensation_def split: if_splits)
  then show "scan_event ids c e = Inr c' \<Longrightarrow> ?thesis"
    by (auto simp: scan_event_def split: if_splits option.splits)
qed

lemma scan_fold_extends:
  "foldR (scan_event ids) c es = Inr c' \<Longrightarrow> \<exists>vs. saga_events c' = saga_events c @ vs"
proof (induction es arbitrary: c)
  case (Cons e es)
  then obtain d where "scan_event ids c e = Inr d" "foldR (scan_event ids) d es = Inr c'"
    by (auto simp: bindR_Inr_iff)
  with Cons.IH [of d] scan_event_extends [of ids c e d] show ?case by auto
qed simp

section \<open>Completions\<close>

lemma saga_trans_completions:
  "saga_trans s e t \<Longrightarrow> completion_order t = completion_order s @ event_successes [e]"
  by (induction rule: saga_trans.induct) simp_all

lemma replay_completions:
  "consistent_saga s \<Longrightarrow> foldR evolve s vs = Inr t \<Longrightarrow>
     completion_order t = completion_order s @ event_successes vs"
proof (induction vs arbitrary: s)
  case (Cons v vs)
  then obtain u where u: "evolve s v = Inr u" "foldR evolve u vs = Inr t" by (auto simp: bindR_Inr_iff)
  have "saga_trans s v u" using u(1) evolve_saga_trans [OF consistent_known] Cons.prems(1) by blast
  then have "completion_order u = completion_order s @ event_successes [v]"
    by (rule saga_trans_completions)
  with Cons.IH [OF evolve_consistent [OF Cons.prems(1) u(1)] u(2)]
  show ?case using event_successes_append [of "[v]" vs] by simp
qed simp

section \<open>Projections\<close>

lemma lift_journal_Inr: "lift_journal r = Inr a \<longleftrightarrow> r = Inr a"
  by (simp add: lift_journal_def split: sum.split)

definition journal_ordered :: "journal_event list \<Rightarrow> bool" where
  "journal_ordered es \<longleftrightarrow> sorted (map ordinal es) \<and> distinct (map ordinal es) \<and>
     card (journal_run ` set es) \<le> 1"

lemma sorted_sort_iff: "xs = sort xs \<longleftrightarrow> sorted xs"
  by (metis sorted_sort sorted_sort_id)

lemma project_Inr:
  "project_activity_journal p es = Inr r \<longleftrightarrow> journal_ordered es \<and>
     (\<exists>c s. foldR (scan_event (plan_id_texts p)) empty_scan es = Inr c \<and>
        foldR evolve (initial_for_plan p) (saga_events c) = Inr s \<and>
        r = projection_of s c)"
  by (auto simp: projection_of_def project_activity_journal_def journal_ordered_def has_duplicates_def
      sorted_sort_iff [symmetric] length_remdups_card_conv bindR_Inr_iff lift_journal_Inr
      evolve_all_foldR not_less)

lemma journal_ordered_prefix:
  assumes a: "journal_ordered (es @ fs)"
  shows "journal_ordered es"
proof -
  have "card (journal_run ` set es) \<le> card (journal_run ` set (es @ fs))"
    by (rule card_mono) auto
  with a show ?thesis by (auto simp: journal_ordered_def sorted_append)
qed

lemma project_evidence:
  "is_plan p \<Longrightarrow> project_activity_journal p es = Inr r \<Longrightarrow> evidence_of p (projected_state r)"
  by (auto simp: project_Inr intro: replay_evidence)

lemma project_prefix:
  assumes p: "is_plan p" and "project_activity_journal p (es @ fs) = Inr r"
  shows "\<exists>r0. project_activity_journal p es = Inr r0 \<and>
    step_path (projected_state r0) (projected_state r)"
proof -
  from assms(2) obtain c s where c: "journal_ordered (es @ fs)"
    "foldR (scan_event (plan_id_texts p)) empty_scan (es @ fs) = Inr c"
    "foldR evolve (initial_for_plan p) (saga_events c) = Inr s" "projected_state r = s"
    unfolding project_Inr by auto
  from c(2) obtain d where d: "foldR (scan_event (plan_id_texts p)) empty_scan es = Inr d"
    "foldR (scan_event (plan_id_texts p)) d fs = Inr c" by (auto simp: foldR_append_Inr)
  from scan_fold_extends [OF d(2)] obtain vs where "saga_events c = saga_events d @ vs" ..
  with c(3) obtain t where t: "foldR evolve (initial_for_plan p) (saga_events d) = Inr t"
    "foldR evolve t vs = Inr s" by (auto simp: foldR_append_Inr)
  have "consistent_saga t"
    using initial_for_plan_consistent [OF p] t(1) by (rule saga.fold_consistent)
  then have "step_path t s" using t(2) by (rule replay_path)
  then show ?thesis
    using journal_ordered_prefix [OF c(1)] d(1) t(1) c(4)
    unfolding project_Inr by (intro exI [of _ "projection_of t d"]) auto
qed

lemma project_scan:
  assumes "project_activity_journal p es = Inr r"
  obtains c where "scan_inv es c" "foldR (scan_event (plan_id_texts p)) empty_scan es = Inr c"
    "foldR evolve (initial_for_plan p) (saga_events c) = Inr (projected_state r)"
    "in_flight r = List.map_filter (map_of (event_by_step c)) (running_ids (projected_state r))"
    "uncertain r = sorted_values (uncertain_by_step c)"
  using assms scan_fold_inv [OF _ scan_inv_empty] unfolding project_Inr by fastforce

lemma initial_fields [simp]: "completion_order (initial_for_plan p) = []"
  by (simp add: initial_for_plan_def)

lemma project_completions:
  assumes "is_plan p" and "project_activity_journal p es = Inr r"
  shows "completion_order (projected_state r) = journal_successes es \<and> distinct (journal_successes es)"
proof -
  from assms(2) obtain c where c: "scan_inv es c"
    "foldR evolve (initial_for_plan p) (saga_events c) = Inr (projected_state r)"
    by (rule project_scan)
  have "completion_order (projected_state r) = journal_successes es"
    using replay_completions [OF initial_for_plan_consistent [OF assms(1)] c(2)] c(1)
    by (simp add: scan_inv_def)
  moreover have "distinct (completion_order (projected_state r))"
    using evidence_known(3) [OF project_evidence [OF assms]] by (simp add: wf_saga_def)
  ultimately show ?thesis by simp
qed

lemma map_filter_member: "y \<in> set (List.map_filter f xs) \<longleftrightarrow> (\<exists>x\<in>set xs. f x = Some y)"
  by (force simp: List.map_filter_def)

lemma in_running_ids:
  "a \<in> set (running_ids s) \<Longrightarrow> distinct (step_ids s) \<Longrightarrow> status_at s (SagaStepId a) = Some RUNNING"
  by (auto simp: running_ids_def dest: status_at_step)

lemma project_in_flight:
  assumes "is_plan p" and r: "project_activity_journal p es = Inr r" and "e \<in> set (in_flight r)"
  shows "e \<in> set es \<and> event_kind e = STEP_STARTED \<and>
    (\<exists>a. event_activity e = Some a \<and> status_at (projected_state r) (SagaStepId a) = Some RUNNING)"
proof -
  from r obtain c where c: "scan_inv es c"
    "in_flight r = List.map_filter (map_of (event_by_step c)) (running_ids (projected_state r))"
    by (rule project_scan)
  with assms(3) obtain a where a: "a \<in> set (running_ids (projected_state r))"
    "map_of (event_by_step c) a = Some e" by (auto simp: map_filter_member)
  have "distinct (step_ids (projected_state r))"
    using evidence_known(2) [OF project_evidence [OF assms(1) r]] .
  with a c(1) in_running_ids [OF a(1)] show ?thesis
    by (auto simp: scan_inv_def entry_from_def)
qed

definition resolution_kinds :: "journal_kind set" where
  "resolution_kinds = {STEP_UNCERTAINTY_RESOLVED_SUCCEEDED, STEP_UNCERTAINTY_RESOLVED_FAILED,
     STEP_UNCERTAINTY_ABANDONED}"

lemma project_resolution:
  assumes "project_activity_journal p (ds @ e # fs) = Inr r" and "event_kind e \<in> resolution_kinds"
    and "event_activity e = Some a"
  shows "\<exists>u\<in>set ds. event_kind u = STEP_UNCERTAIN \<and> event_activity u = Some a"
proof -
  from assms(1) obtain c d where "foldR (scan_event (plan_id_texts p)) empty_scan ds = Inr c"
    and d: "scan_event (plan_id_texts p) c e = Inr d"
    unfolding project_Inr by (auto simp: foldR_append_Inr bindR_Inr_iff)
  then have inv: "scan_inv ds c" using scan_fold_inv [OF _ scan_inv_empty] by force
  have "has_key a (uncertain_by_step c)"
    using d assms(2,3) by (auto simp: scan_event_def resolution_kinds_def resolve_def split: if_splits)
  with inv show ?thesis by (auto simp: has_key_def scan_inv_def entry_from_def)
qed

text \<open>What a projection reports in flight is in the running lane of its schedule.\<close>

lemma journal_in_flight_runs:
  assumes p: "is_plan p" and r: "project_activity_journal p es = Inr r"
  shows "\<exists>d. derive_schedule p (projected_state r) = Inr d \<and>
    (\<forall>e\<in>set (in_flight r). \<exists>a\<in>set (running d).
       event_activity e = Some (activity_id_value (activity_id a)))"
proof -
  let ?s = "projected_state r"
  note e = project_evidence [OF p r]
  obtain d where d: "derive_schedule p ?s = Inr d" "schedule_spec p ?s d"
    using derive_schedule_correct [OF e] by blast
  have "\<exists>a\<in>set (running d). event_activity v = Some (activity_id_value (activity_id a))"
    if v: "v \<in> set (in_flight r)" for v
  proof -
    from project_in_flight [OF p r v] obtain x where x: "event_activity v = Some x"
      "status_at ?s (SagaStepId x) = Some RUNNING" by blast
    then have "SagaStepId x \<in> set (step_ids ?s)" by (auto simp: step_ids_def status_at_def find_Some_iff intro: rev_image_eqI [OF nth_mem])
    then obtain a where a: "a \<in> set (activities p)" "SagaStepId x = activity_step_id (activity_id a)"
      using e unfolding evidence_of_def by force
    with x(2) have "a \<in> set (running d)" using d(2)
      by (simp add: schedule_spec_def Let_def lane_def status_by_id_at [OF evidence_known(2) [OF e]])
    moreover have "x = activity_id_value (activity_id a)" using a(2) by (simp add: activity_step_id_def)
    ultimately show ?thesis using x(1) by blast
  qed
  with d(1) show ?thesis by blast
qed

end
