(* ===== verification/Bounded_Values.thy ===== *)
theory Bounded_Values
  imports Primitives
begin

text \<open>
  The value checks that the recovery contracts share (\<open>core/operations/recovery.py\<close>, bottom
  of the file): bounded text, bounded integers, fingerprints, the strict keys of a
  descriptor; and the interface \<open>descriptor_codec\<close> of a class with \<open>descriptor\<close> and
  \<open>from_descriptor\<close>.
\<close>

section \<open>Decimal text\<close>

fun nat_text :: "nat \<Rightarrow> string" where
  "nat_text n = (if n < 10 then [char_of (48 + n)] else nat_text (n div 10) @ [char_of (48 + n mod 10)])"

declare nat_text.simps [simp del]

definition int_text :: "int \<Rightarrow> string" where
  "int_text i = (if i < 0 then CHR ''-'' # nat_text (nat (- i)) else nat_text (nat i))"

text \<open>The same texts by binary integers, for evaluation.\<close>

function decimal_text :: "int \<Rightarrow> string" where
  "decimal_text i = (if i < 10 then [char_of (48 + i)] else decimal_text (i div 10) @ [char_of (48 + i mod 10)])"
  by pat_completeness auto
termination by (relation "measure nat") auto

declare decimal_text.simps [simp del]

lemma char_of_int: "char_of (int n) = char_of n"
  by (simp add: char_of_def bit_of_nat_iff_bit)

lemma nat_text_code [code]: "nat_text n = decimal_text (int n)"
proof (induction n rule: nat_text.induct)
  case (1 n)
  have "int (n div 10) = int n div 10" "int (48 + n mod 10) = 48 + int n mod 10" "int (48 + n) = 48 + int n"
    by (simp_all add: zdiv_int zmod_int)
  with 1 char_of_int [of "48 + n"] char_of_int [of "48 + n mod 10"] show ?case
    by (subst nat_text.simps, subst decimal_text.simps) simp
qed

lemma int_text_code [code]:
  "int_text i = (if i < 0 then CHR ''-'' # decimal_text (- i) else decimal_text i)"
  by (simp add: int_text_def nat_text_code)

section \<open>Checks\<close>

datatype recovery_exn = InvalidEffectRecoveryContract string | RecoveryAttributeError string

definition max_public_text :: nat where
  "max_public_text = 256"

definition max_effect_attempt :: int where
  "max_effect_attempt = 2147483647"

definition max_fence_generation :: int where
  "max_fence_generation = 9223372036854775807"

definition valid_public_text :: "string \<Rightarrow> bool" where
  "valid_public_text s \<longleftrightarrow> non_blank s \<and> length s \<le> max_public_text \<and> CHR 0x00 \<notin> set s"

lemma valid_public_text_code [code]:
  "valid_public_text s \<longleftrightarrow> non_blank s \<and> \<not> longer_than 256 s \<and> CHR 0x00 \<notin> set s"
  by (simp add: valid_public_text_def max_public_text_def length_less)

definition bounded_text :: "string \<Rightarrow> string \<Rightarrow> recovery_exn + unit" where
  "bounded_text s label = requireR (valid_public_text s)
     (InvalidEffectRecoveryContract (label @
       '' must be non-empty PostgreSQL-compatible text of at most '' @
       nat_text max_public_text @ '' characters''))"

definition bounded_int :: "int \<Rightarrow> string \<Rightarrow> int \<Rightarrow> recovery_exn + int" where
  "bounded_int v label maximum =
     (if \<not> (1 \<le> v \<and> v \<le> maximum)
      then Inl (InvalidEffectRecoveryContract
        (label @ '' must be an integer from 1 through '' @ int_text maximum))
      else Inr v)"

definition hex_digit :: "char \<Rightarrow> bool" where
  "hex_digit c \<longleftrightarrow> (let n = char_code c in (48 \<le> n \<and> n \<le> 57) \<or> (97 \<le> n \<and> n \<le> 102))"

lemma hex_digit_code [code]: "hex_digit (Char b0 b1 b2 b3 b4 b5 b6 b7) \<longleftrightarrow> \<not> b7 \<and>
    (if b6 then b5 \<and> \<not> b4 \<and> \<not> b3 \<and> (b0 \<or> b1 \<or> b2) \<and> \<not> (b0 \<and> b1 \<and> b2)
     else b5 \<and> b4 \<and> \<not> (b3 \<and> (b2 \<or> b1)))"
  by (cases b0; cases b1; cases b2; cases b3; cases b4; cases b5; cases b6; cases b7)
    (simp_all add: hex_digit_def char_code_def)

definition is_fingerprint :: "string \<Rightarrow> bool" where
  "is_fingerprint s \<longleftrightarrow> length s = 64 \<and> list_all hex_digit s"

definition sha256_fingerprint :: "string option \<Rightarrow> string \<Rightarrow> recovery_exn + unit" where
  "sha256_fingerprint v label = requireR (case v of Some s \<Rightarrow> is_fingerprint s | None \<Rightarrow> False)
     (InvalidEffectRecoveryContract (label @ '' must be a lowercase sha256 fingerprint''))"

definition require_none :: "'a option \<Rightarrow> string \<Rightarrow> recovery_exn + unit" where
  "require_none v label = requireR (v = None)
     (InvalidEffectRecoveryContract (label @ '' is not allowed''))"

section \<open>Descriptors\<close>

type_synonym descriptor = "(string \<times> py) list"

definition strict_keys :: "descriptor \<Rightarrow> string list \<Rightarrow> string \<Rightarrow> recovery_exn + unit" where
  "strict_keys d expected subject = requireR (same_keys d expected)
     (InvalidEffectRecoveryContract (subject @ '' descriptor has unexpected keys''))"

text \<open>\<open>value[key]\<close>, which the code evaluates after \<open>strict_keys\<close> for an expected key only.\<close>

definition entry :: "descriptor \<Rightarrow> string \<Rightarrow> py" where
  "entry d k = (case map_of d k of Some v \<Rightarrow> v | None \<Rightarrow> PNone)"

definition as_mapping :: "py \<Rightarrow> string \<Rightarrow> recovery_exn + descriptor" where
  "as_mapping v label = (case v of PDict d \<Rightarrow> Inr d
     | _ \<Rightarrow> Inl (InvalidEffectRecoveryContract (label @ '' must be a mapping'')))"

definition as_text :: "py \<Rightarrow> string \<Rightarrow> recovery_exn + string" where
  "as_text v label = (case v of PStr s \<Rightarrow> Inr s
     | _ \<Rightarrow> Inl (InvalidEffectRecoveryContract (label @ '' must be text'')))"

definition as_optional_text :: "py \<Rightarrow> string \<Rightarrow> recovery_exn + string option" where
  "as_optional_text v label = (if v = PNone then Inr None
     else bindR (as_text v label) (\<lambda>s. Inr (Some s)))"

definition as_bounded_int :: "py \<Rightarrow> string \<Rightarrow> int \<Rightarrow> recovery_exn + int" where
  "as_bounded_int v label maximum = (case v of PInt i \<Rightarrow> bounded_int i label maximum
     | _ \<Rightarrow> Inl (InvalidEffectRecoveryContract
        (label @ '' must be an integer from 1 through '' @ int_text maximum)))"

definition py_optional :: "('a \<Rightarrow> py) \<Rightarrow> 'a option \<Rightarrow> py" where
  "py_optional f v = (case v of Some x \<Rightarrow> f x | None \<Rightarrow> PNone)"

definition from_optional :: "(py \<Rightarrow> 'e + 'a) \<Rightarrow> py \<Rightarrow> 'e + 'a option" where
  "from_optional g v = (if v = PNone then Inr None else bindR (g v) (\<lambda>x. Inr (Some x)))"

definition py_enum_error :: "string \<Rightarrow> string \<Rightarrow> recovery_exn" where
  "py_enum_error s cls = InvalidEffectRecoveryContract (py_repr s @ '' is not a valid '' @ cls)"

lemma check_simps [result_simps]:
  "bounded_text s l = Inr u \<longleftrightarrow> valid_public_text s"
  "bounded_int v l m = Inr w \<longleftrightarrow> w = v \<and> 1 \<le> v \<and> v \<le> m"
  "sha256_fingerprint fp l = Inr u \<longleftrightarrow> (\<exists>x. fp = Some x \<and> is_fingerprint x)"
  "require_none ov l = Inr u \<longleftrightarrow> ov = None"
  "strict_keys d ks l = Inr u \<longleftrightarrow> same_keys d ks"
  "as_mapping p l = Inr d \<longleftrightarrow> p = PDict d"
  "as_text p l = Inr s \<longleftrightarrow> p = PStr s"
  "as_bounded_int p l m = Inr w \<longleftrightarrow> p = PInt w \<and> 1 \<le> w \<and> w \<le> m"
  by (auto simp: bounded_text_def bounded_int_def sha256_fingerprint_def require_none_def
      strict_keys_def as_mapping_def as_text_def as_bounded_int_def requireR_Inr_iff
      split: option.splits py.splits)

lemma optional_text_Inr [result_simps]:
  "as_optional_text v l = Inr s \<longleftrightarrow> v = py_optional PStr s"
  by (cases s) (auto simp: as_optional_text_def py_optional_def bindR_Inr_iff check_simps)

section \<open>The interface of a descriptor\<close>

locale descriptor_codec =
  fixes valid :: "'a \<Rightarrow> bool" and enc :: "'a \<Rightarrow> descriptor" and dec :: "descriptor \<Rightarrow> 'e + 'a"
  assumes roundtrip: "valid x \<Longrightarrow> dec (enc x) = Inr x"
    and decoded_valid: "dec d = Inr x \<Longrightarrow> valid x"
begin

text \<open>Distinct values have distinct descriptors.\<close>

lemma enc_inject: "valid x \<Longrightarrow> valid y \<Longrightarrow> enc x = enc y \<longleftrightarrow> x = y"
  by (metis Inr_inject roundtrip)

text \<open>A decoded descriptor may be replaced by the canonical one.\<close>

lemma reencode: "dec d = Inr x \<Longrightarrow> dec (enc x) = Inr x"
  by (rule roundtrip) (rule decoded_valid)

lemma optional_roundtrip:
  assumes "\<And>x. o1 = Some x \<Longrightarrow> valid x" and "\<And>d. g (PDict d) = dec d"
  shows "from_optional g (py_optional (\<lambda>x. PDict (enc x)) o1) = Inr o1"
  using assms by (cases o1) (simp_all add: from_optional_def py_optional_def roundtrip)

lemma optional_valid:
  assumes "\<And>v x. g v = Inr x \<Longrightarrow> \<exists>d. dec d = Inr x"
  shows "from_optional g v = Inr (Some x) \<Longrightarrow> valid x"
  using assms decoded_valid by (auto simp: from_optional_def bindR_Inr_iff split: if_splits)

end

interpretation protocol_codec: descriptor_codec valid_protocol protocol_descriptor protocol_from_descriptor
  by unfold_locales (simp_all add: protocol_descriptor_roundtrip protocol_from_descriptor_Inr)

end
