(* ===== verification/Effect_Recovery.thy ===== *)
theory Effect_Recovery
  imports Bounded_Values
begin

text \<open>
  The effect attempts of \<open>core/operations/recovery.py\<close>: identity, fence, recovery decision,
  transition and state with the checks of their constructors and their descriptors, and
  \<open>fold_effect_attempt\<close>, which applies one durable transition under a fence.
\<close>

section \<open>Vocabulary\<close>

datatype attempt_status = AttemptStarted | AttemptSucceeded | AttemptFailed | AttemptUnsupported
  | AttemptUncertain | AttemptAbandoned

datatype transition_kind = TransitionStarted | TransitionSucceeded | TransitionFailed
  | TransitionUnsupported | TransitionUncertain | TransitionReconciled | TransitionAbandoned

datatype resolution = ResolvedSucceeded | ResolvedFailed | ResolvedAbandoned

primrec attempt_status_value :: "attempt_status \<Rightarrow> string" where
  "attempt_status_value AttemptStarted = ''started''"
| "attempt_status_value AttemptSucceeded = ''succeeded''"
| "attempt_status_value AttemptFailed = ''failed''"
| "attempt_status_value AttemptUnsupported = ''unsupported''"
| "attempt_status_value AttemptUncertain = ''uncertain''"
| "attempt_status_value AttemptAbandoned = ''abandoned''"

primrec transition_kind_value :: "transition_kind \<Rightarrow> string" where
  "transition_kind_value TransitionStarted = ''started''"
| "transition_kind_value TransitionSucceeded = ''succeeded''"
| "transition_kind_value TransitionFailed = ''failed''"
| "transition_kind_value TransitionUnsupported = ''unsupported''"
| "transition_kind_value TransitionUncertain = ''uncertain''"
| "transition_kind_value TransitionReconciled = ''reconciled''"
| "transition_kind_value TransitionAbandoned = ''abandoned''"

fun resolution_value :: "resolution \<Rightarrow> string" where
  "resolution_value ResolvedSucceeded = ''succeeded''"
| "resolution_value ResolvedFailed = ''failed''"
| "resolution_value ResolvedAbandoned = ''abandoned''"

definition attempt_statuses :: "attempt_status list" where
  "attempt_statuses = [AttemptStarted, AttemptSucceeded, AttemptFailed, AttemptUnsupported,
     AttemptUncertain, AttemptAbandoned]"

definition transition_kinds :: "transition_kind list" where
  "transition_kinds = [TransitionStarted, TransitionSucceeded, TransitionFailed,
     TransitionUnsupported, TransitionUncertain, TransitionReconciled, TransitionAbandoned]"

definition resolutions :: "resolution list" where
  "resolutions = [ResolvedSucceeded, ResolvedFailed, ResolvedAbandoned]"

interpretation attempt_status: closed_enum attempt_statuses attempt_status_value
proof
  show "distinct (map attempt_status_value attempt_statuses)" by (simp add: attempt_statuses_def)
  show "m \<in> set attempt_statuses" for m by (cases m) (simp_all add: attempt_statuses_def)
qed

interpretation transition_kind: closed_enum transition_kinds transition_kind_value
proof
  show "distinct (map transition_kind_value transition_kinds)" by (simp add: transition_kinds_def)
  show "m \<in> set transition_kinds" for m by (cases m) (simp_all add: transition_kinds_def)
qed

interpretation resolution: closed_enum resolutions resolution_value
proof
  show "distinct (map resolution_value resolutions)" by (simp add: resolutions_def)
  show "m \<in> set resolutions" for m by (cases m) (simp_all add: resolutions_def)
qed

section \<open>Identity, fence and decision\<close>

record attempt_identity =
  attempt_run :: run_id
  attempt_activity :: string
  attempt_number :: int

record attempt_fence =
  fence_worker :: string
  fence_generation :: int

record recovery_decision =
  decision_id :: string
  decision_attempt :: attempt_identity
  decision_resolution :: resolution
  uncertain_fingerprint :: string
  evidence_fingerprint :: string

definition make_identity :: "run_id \<Rightarrow> string \<Rightarrow> int \<Rightarrow> recovery_exn + attempt_identity" where
  "make_identity r a n =
     (if \<not> is_canonical_activity_identity a
      then Inl (InvalidEffectRecoveryContract ''activity_id is malformed'')
      else bindR (bounded_int n ''attempt'' max_effect_attempt) (\<lambda>_.
        Inr \<lparr>attempt_run = r, attempt_activity = a, attempt_number = n\<rparr>))"

definition identity_descriptor :: "attempt_identity \<Rightarrow> descriptor" where
  "identity_descriptor i = [(''run_id'', PStr (run_id_value (attempt_run i))),
     (''activity_id'', PStr (attempt_activity i)), (''attempt'', PInt (attempt_number i))]"

definition identity_from_descriptor :: "descriptor \<Rightarrow> recovery_exn + attempt_identity" where
  "identity_from_descriptor d =
     bindR (strict_keys d [''run_id'', ''activity_id'', ''attempt''] ''identity'') (\<lambda>_.
     bindR (as_text (entry d ''run_id'') ''run_id'') (\<lambda>text.
     case make_run_id text of
       Inl _ \<Rightarrow> Inl (InvalidEffectRecoveryContract ''run_id is malformed'')
     | Inr r \<Rightarrow>
         bindR (as_text (entry d ''activity_id'') ''activity_id'') (\<lambda>a.
         bindR (as_bounded_int (entry d ''attempt'') ''attempt'' max_effect_attempt) (\<lambda>n.
           make_identity r a n))))"

definition make_fence :: "string \<Rightarrow> int \<Rightarrow> recovery_exn + attempt_fence" where
  "make_fence w g = bindR (bounded_text w ''worker_id'') (\<lambda>_.
     bindR (bounded_int g ''generation'' max_fence_generation) (\<lambda>_.
       Inr \<lparr>fence_worker = w, fence_generation = g\<rparr>))"

definition fence_descriptor :: "attempt_fence \<Rightarrow> descriptor" where
  "fence_descriptor f = [(''worker_id'', PStr (fence_worker f)),
     (''generation'', PInt (fence_generation f))]"

definition fence_from_descriptor :: "descriptor \<Rightarrow> recovery_exn + attempt_fence" where
  "fence_from_descriptor d =
     bindR (strict_keys d [''worker_id'', ''generation''] ''fence'') (\<lambda>_.
     bindR (as_text (entry d ''worker_id'') ''worker_id'') (\<lambda>w.
     bindR (as_bounded_int (entry d ''generation'') ''generation'' max_fence_generation) (\<lambda>g.
       make_fence w g)))"

definition make_decision :: "string \<Rightarrow> attempt_identity \<Rightarrow> resolution \<Rightarrow> string \<Rightarrow> string \<Rightarrow>
    recovery_exn + recovery_decision" where
  "make_decision i a r u e =
     bindR (bounded_text i ''decision_id'') (\<lambda>_.
     bindR (sha256_fingerprint (Some u) ''uncertain_fingerprint'') (\<lambda>_.
     bindR (sha256_fingerprint (Some e) ''evidence_fingerprint'') (\<lambda>_.
       Inr \<lparr>decision_id = i, decision_attempt = a, decision_resolution = r,
         uncertain_fingerprint = u, evidence_fingerprint = e\<rparr>)))"

definition decision_descriptor :: "recovery_decision \<Rightarrow> descriptor" where
  "decision_descriptor c = [(''decision_id'', PStr (decision_id c)),
     (''attempt_identity'', PDict (identity_descriptor (decision_attempt c))),
     (''resolution'', PStr (resolution_value (decision_resolution c))),
     (''uncertain_fingerprint'', PStr (uncertain_fingerprint c)),
     (''evidence_fingerprint'', PStr (evidence_fingerprint c))]"

definition decision_from_descriptor :: "descriptor \<Rightarrow> recovery_exn + recovery_decision" where
  "decision_from_descriptor d =
     bindR (strict_keys d [''decision_id'', ''attempt_identity'', ''resolution'',
       ''uncertain_fingerprint'', ''evidence_fingerprint''] ''recovery decision'') (\<lambda>_.
     bindR (as_text (entry d ''resolution'') ''resolution'') (\<lambda>text.
     case enum_of resolutions resolution_value text of
       None \<Rightarrow> Inl (py_enum_error text ''EffectRecoveryResolution'')
     | Some r \<Rightarrow>
         bindR (as_text (entry d ''decision_id'') ''decision_id'') (\<lambda>i.
         bindR (bindR (as_mapping (entry d ''attempt_identity'') ''attempt_identity'')
                  identity_from_descriptor) (\<lambda>a.
         bindR (as_text (entry d ''uncertain_fingerprint'') ''uncertain_fingerprint'') (\<lambda>u.
         bindR (as_text (entry d ''evidence_fingerprint'') ''evidence_fingerprint'') (\<lambda>e.
           make_decision i a r u e))))))"

section \<open>Transitions\<close>

record attempt_transition =
  transition_of :: transition_kind
  transition_identity :: attempt_identity
  transition_request :: "string option"
  transition_outcome :: "string option"
  transition_prior :: "attempt_identity option"
  transition_decision :: "recovery_decision option"

definition validate_retry_lineage :: "attempt_identity \<Rightarrow> attempt_identity option \<Rightarrow>
    recovery_exn + unit" where
  "validate_retry_lineage i prior =
     (if attempt_number i = 1
      then requireR (prior = None)
        (InvalidEffectRecoveryContract ''first attempt cannot declare prior attempt'')
      else case prior of
        None \<Rightarrow> Inl (InvalidEffectRecoveryContract ''retry attempt requires prior attempt'')
      | Some p \<Rightarrow> requireR (attempt_run p = attempt_run i \<and>
            attempt_activity p = attempt_activity i \<and> attempt_number p = attempt_number i - 1)
          (InvalidEffectRecoveryContract
            ''retry lineage must reference the immediately prior attempt''))"

definition direct_result_transitions :: "transition_kind list" where
  "direct_result_transitions = [TransitionSucceeded, TransitionFailed, TransitionUnsupported,
     TransitionUncertain]"

definition recovery_transitions :: "transition_kind list" where
  "recovery_transitions = [TransitionReconciled, TransitionAbandoned]"

fun status_by_direct_transition :: "transition_kind \<Rightarrow> attempt_status option" where
  "status_by_direct_transition TransitionSucceeded = Some AttemptSucceeded"
| "status_by_direct_transition TransitionFailed = Some AttemptFailed"
| "status_by_direct_transition TransitionUnsupported = Some AttemptUnsupported"
| "status_by_direct_transition TransitionUncertain = Some AttemptUncertain"
| "status_by_direct_transition _ = None"

fun status_by_resolution :: "resolution \<Rightarrow> attempt_status" where
  "status_by_resolution ResolvedSucceeded = AttemptSucceeded"
| "status_by_resolution ResolvedFailed = AttemptFailed"
| "status_by_resolution ResolvedAbandoned = AttemptAbandoned"

definition check_recovery_transition :: "transition_kind \<Rightarrow> attempt_identity \<Rightarrow>
    recovery_decision option \<Rightarrow> recovery_exn + unit" where
  "check_recovery_transition k i dec = (case dec of
     None \<Rightarrow> Inl (InvalidEffectRecoveryContract
       ''recovery transition requires EffectRecoveryDecision'')
   | Some c \<Rightarrow>
       if decision_attempt c \<noteq> i
       then Inl (InvalidEffectRecoveryContract
         ''recovery decision must identify the transitioned attempt'')
       else if k = TransitionAbandoned \<and> decision_resolution c \<noteq> ResolvedAbandoned
       then Inl (InvalidEffectRecoveryContract
         ''abandoned transition requires abandoned resolution'')
       else if k = TransitionReconciled \<and> decision_resolution c = ResolvedAbandoned
       then Inl (InvalidEffectRecoveryContract
         ''reconciled transition requires succeeded or failed resolution'')
       else Inr ())"

definition make_transition :: "transition_kind \<Rightarrow> attempt_identity \<Rightarrow> string option \<Rightarrow>
    string option \<Rightarrow> attempt_identity option \<Rightarrow> recovery_decision option \<Rightarrow>
    recovery_exn + attempt_transition" where
  "make_transition k i req out prior dec =
     (let result = \<lparr>transition_of = k, transition_identity = i, transition_request = req,
        transition_outcome = out, transition_prior = prior, transition_decision = dec\<rparr> in
      if k = TransitionStarted
      then bindR (sha256_fingerprint req ''request_fingerprint'') (\<lambda>_.
           bindR (validate_retry_lineage i prior) (\<lambda>_.
           bindR (require_none out ''outcome_fingerprint'') (\<lambda>_.
           bindR (require_none dec ''recovery_decision'') (\<lambda>_. Inr result))))
      else
        bindR (require_none req ''request_fingerprint'') (\<lambda>_.
        bindR (require_none prior ''prior_attempt'') (\<lambda>_.
        if k \<in> set direct_result_transitions
        then bindR (sha256_fingerprint out ''outcome_fingerprint'') (\<lambda>_.
             bindR (require_none dec ''recovery_decision'') (\<lambda>_. Inr result))
        else
          bindR (require_none out ''outcome_fingerprint'') (\<lambda>_.
          bindR (check_recovery_transition k i dec) (\<lambda>_. Inr result)))))"

definition transition_descriptor :: "attempt_transition \<Rightarrow> descriptor" where
  "transition_descriptor t =
     [(''kind'', PStr (transition_kind_value (transition_of t))),
      (''identity'', PDict (identity_descriptor (transition_identity t))),
      (''request_fingerprint'', py_optional PStr (transition_request t)),
      (''outcome_fingerprint'', py_optional PStr (transition_outcome t)),
      (''prior_attempt'',
        py_optional (\<lambda>i. PDict (identity_descriptor i)) (transition_prior t)),
      (''recovery_decision'',
        py_optional (\<lambda>c. PDict (decision_descriptor c)) (transition_decision t))]"

definition optional_identity :: "py \<Rightarrow> recovery_exn + attempt_identity option" where
  "optional_identity =
     from_optional (\<lambda>v. bindR (as_mapping v ''prior_attempt'') identity_from_descriptor)"

definition optional_decision :: "py \<Rightarrow> recovery_exn + recovery_decision option" where
  "optional_decision =
     from_optional (\<lambda>v. bindR (as_mapping v ''recovery_decision'') decision_from_descriptor)"

definition transition_from_descriptor :: "descriptor \<Rightarrow> recovery_exn + attempt_transition" where
  "transition_from_descriptor d =
     bindR (strict_keys d [''kind'', ''identity'', ''request_fingerprint'',
       ''outcome_fingerprint'', ''prior_attempt'', ''recovery_decision''] ''transition'') (\<lambda>_.
     bindR (as_text (entry d ''kind'') ''kind'') (\<lambda>text.
     case enum_of transition_kinds transition_kind_value text of
       None \<Rightarrow> Inl (py_enum_error text ''EffectAttemptTransitionKind'')
     | Some k \<Rightarrow>
         bindR (bindR (as_mapping (entry d ''identity'') ''identity'') identity_from_descriptor) (\<lambda>i.
         bindR (as_optional_text (entry d ''request_fingerprint'') ''request_fingerprint'') (\<lambda>req.
         bindR (as_optional_text (entry d ''outcome_fingerprint'') ''outcome_fingerprint'') (\<lambda>out.
         bindR (optional_identity (entry d ''prior_attempt'')) (\<lambda>prior.
         bindR (optional_decision (entry d ''recovery_decision'')) (\<lambda>dec.
           make_transition k i req out prior dec)))))))"

section \<open>States\<close>

record attempt_state =
  state_identity :: attempt_identity
  state_request :: string
  state_fence :: attempt_fence
  state_status :: attempt_status
  state_outcome :: "string option"
  state_prior :: "attempt_identity option"
  state_decision :: "recovery_decision option"

definition make_state :: "attempt_identity \<Rightarrow> string option \<Rightarrow> attempt_fence \<Rightarrow> attempt_status \<Rightarrow>
    string option \<Rightarrow> attempt_identity option \<Rightarrow> recovery_decision option \<Rightarrow>
    recovery_exn + attempt_state" where
  "make_state i req f st out prior dec =
     (let result = \<lparr>state_identity = i, state_request = (case req of Some r \<Rightarrow> r | None \<Rightarrow> []), state_fence = f,
        state_status = st, state_outcome = out, state_prior = prior, state_decision = dec\<rparr> in
      bindR (sha256_fingerprint req ''request_fingerprint'') (\<lambda>_.
      bindR (validate_retry_lineage i prior) (\<lambda>_.
      if st = AttemptStarted
      then bindR (require_none out ''outcome_fingerprint'') (\<lambda>_.
           bindR (require_none dec ''recovery_decision'') (\<lambda>_. Inr result))
      else
        bindR (sha256_fingerprint out ''outcome_fingerprint'') (\<lambda>_.
        case dec of
          None \<Rightarrow> if st = AttemptAbandoned
            then Inl (InvalidEffectRecoveryContract ''abandoned state requires recovery decision'')
            else Inr result
        | Some c \<Rightarrow>
            if decision_attempt c \<noteq> i
            then Inl (InvalidEffectRecoveryContract
              ''recovery decision must identify the state attempt'')
            else if st \<noteq> status_by_resolution (decision_resolution c)
            then Inl (InvalidEffectRecoveryContract
              ''recovery resolution does not match attempt status'')
            else if out \<noteq> Some (evidence_fingerprint c)
            then Inl (InvalidEffectRecoveryContract
              ''recovered outcome must retain the decision evidence fingerprint'')
            else Inr result))))"

definition state_descriptor :: "attempt_state \<Rightarrow> descriptor" where
  "state_descriptor s =
     [(''identity'', PDict (identity_descriptor (state_identity s))),
      (''request_fingerprint'', PStr (state_request s)),
      (''fence'', PDict (fence_descriptor (state_fence s))),
      (''status'', PStr (attempt_status_value (state_status s))),
      (''outcome_fingerprint'', py_optional PStr (state_outcome s)),
      (''prior_attempt'', py_optional (\<lambda>i. PDict (identity_descriptor i)) (state_prior s)),
      (''recovery_decision'',
        py_optional (\<lambda>c. PDict (decision_descriptor c)) (state_decision s))]"

definition state_from_descriptor :: "descriptor \<Rightarrow> recovery_exn + attempt_state" where
  "state_from_descriptor d =
     bindR (strict_keys d [''identity'', ''request_fingerprint'', ''fence'', ''status'',
       ''outcome_fingerprint'', ''prior_attempt'', ''recovery_decision''] ''state'') (\<lambda>_.
     bindR (as_text (entry d ''status'') ''status'') (\<lambda>text.
     case enum_of attempt_statuses attempt_status_value text of
       None \<Rightarrow> Inl (py_enum_error text ''EffectAttemptStatus'')
     | Some st \<Rightarrow>
         bindR (bindR (as_mapping (entry d ''identity'') ''identity'') identity_from_descriptor) (\<lambda>i.
         bindR (as_text (entry d ''request_fingerprint'') ''request_fingerprint'') (\<lambda>req.
         bindR (bindR (as_mapping (entry d ''fence'') ''fence'') fence_from_descriptor) (\<lambda>f.
         bindR (as_optional_text (entry d ''outcome_fingerprint'') ''outcome_fingerprint'') (\<lambda>out.
         bindR (optional_identity (entry d ''prior_attempt'')) (\<lambda>prior.
         bindR (optional_decision (entry d ''recovery_decision'')) (\<lambda>dec.
           make_state i (Some req) f st out prior dec))))))))"

section \<open>The fold\<close>

text \<open>
  A recovery transition always carries a decision (its constructor checks it), so the
  attribute access on \<open>None\<close> that the code would raise is a branch no valid value reaches.
\<close>

definition decision_of :: "attempt_transition \<Rightarrow> recovery_exn + recovery_decision" where
  "decision_of t = (case transition_decision t of Some c \<Rightarrow> Inr c
     | None \<Rightarrow> Inl (RecoveryAttributeError ''resolution''))"

definition is_exact_duplicate :: "attempt_state \<Rightarrow> attempt_transition \<Rightarrow> recovery_exn + bool" where
  "is_exact_duplicate s t =
     (if transition_of t = TransitionStarted
      then Inr (state_status s = AttemptStarted \<and> Some (state_request s) = transition_request t \<and>
        state_prior s = transition_prior t)
      else if transition_of t \<in> set direct_result_transitions
      then Inr (Some (state_status s) = status_by_direct_transition (transition_of t) \<and>
        state_outcome s = transition_outcome t \<and> state_decision s = None)
      else bindR (decision_of t) (\<lambda>c.
        Inr (state_status s = status_by_resolution (decision_resolution c) \<and>
          state_outcome s = Some (evidence_fingerprint c) \<and> state_decision s = Some c)))"

definition start_attempt :: "attempt_transition \<Rightarrow> attempt_fence \<Rightarrow> recovery_exn + attempt_state" where
  "start_attempt t f =
     (if transition_of t \<noteq> TransitionStarted
      then Inl (InvalidEffectRecoveryContract ''first effect-attempt transition must be started'')
      else make_state (transition_identity t) (transition_request t) f AttemptStarted None
        (transition_prior t) None)"

definition recover_attempt :: "attempt_state \<Rightarrow> attempt_transition \<Rightarrow> recovery_exn + attempt_state"
  where
  "recover_attempt s t =
     (if state_status s \<noteq> AttemptUncertain
      then Inl (InvalidEffectRecoveryContract ''recovery requires an uncertain attempt'')
      else bindR (decision_of t) (\<lambda>c.
        if Some (uncertain_fingerprint c) \<noteq> state_outcome s
        then Inl (InvalidEffectRecoveryContract
          ''recovery decision does not identify the uncertain evidence'')
        else make_state (state_identity s) (Some (state_request s)) (state_fence s)
          (status_by_resolution (decision_resolution c)) (Some (evidence_fingerprint c))
          (state_prior s) (Some c)))"

definition finish_attempt :: "attempt_state \<Rightarrow> attempt_transition \<Rightarrow> recovery_exn + attempt_state"
  where
  "finish_attempt s t =
     (if state_status s \<noteq> AttemptStarted
      then Inl (InvalidEffectRecoveryContract (''cannot fold '' @
        transition_kind_value (transition_of t) @ '' from '' @
        attempt_status_value (state_status s)))
      else case status_by_direct_transition (transition_of t) of
        None \<Rightarrow> Inl (RecoveryAttributeError (transition_kind_value (transition_of t)))
      | Some st \<Rightarrow> make_state (state_identity s) (Some (state_request s)) (state_fence s) st
          (transition_outcome t) (state_prior s) None)"

definition fold_effect_attempt :: "attempt_state option \<Rightarrow> attempt_transition \<Rightarrow> attempt_fence \<Rightarrow>
    recovery_exn + attempt_state" where
  "fold_effect_attempt current t f = (case current of
     None \<Rightarrow> start_attempt t f
   | Some s \<Rightarrow>
       if transition_identity t \<noteq> state_identity s
       then Inl (InvalidEffectRecoveryContract
         ''transition identity does not match attempt state'')
       else if f \<noteq> state_fence s
       then Inl (InvalidEffectRecoveryContract
         ''effect-attempt transition rejected by active fence'')
       else bindR (is_exact_duplicate s t) (\<lambda>duplicate.
         if duplicate then Inr s
         else if transition_of t = TransitionStarted
         then Inl (InvalidEffectRecoveryContract ''attempt has already started'')
         else if transition_of t \<in> set recovery_transitions then recover_attempt s t
         else finish_attempt s t))"

end
