(* ===== verification/Recovery_Laws.thy ===== *)
theory Recovery_Laws
  imports Effect_Recovery Event_Sourcing
begin

text \<open>
  Laws of the effect attempts: what the constructors guarantee, the round trips of the
  descriptors, and the fold as a state machine that is idempotent, fenced, absorbing and
  never builds an incoherent state.
\<close>

section \<open>Well-formed values\<close>

definition wf_identity :: "attempt_identity \<Rightarrow> bool" where
  "wf_identity i \<longleftrightarrow> is_canonical_run_identity (run_id_value (attempt_run i)) \<and>
     is_canonical_activity_identity (attempt_activity i) \<and>
     1 \<le> attempt_number i \<and> attempt_number i \<le> max_effect_attempt"

definition wf_fence :: "attempt_fence \<Rightarrow> bool" where
  "wf_fence f \<longleftrightarrow> valid_public_text (fence_worker f) \<and>
     1 \<le> fence_generation f \<and> fence_generation f \<le> max_fence_generation"

definition wf_decision :: "recovery_decision \<Rightarrow> bool" where
  "wf_decision c \<longleftrightarrow> valid_public_text (decision_id c) \<and> wf_identity (decision_attempt c) \<and>
     is_fingerprint (uncertain_fingerprint c) \<and> is_fingerprint (evidence_fingerprint c)"

definition lineage_ok :: "attempt_identity \<Rightarrow> attempt_identity option \<Rightarrow> bool" where
  "lineage_ok i prior = (case prior of
     None \<Rightarrow> attempt_number i = 1
   | Some p \<Rightarrow> attempt_number i \<noteq> 1 \<and> p = i\<lparr>attempt_number := attempt_number i - 1\<rparr>)"

definition recovery_agrees :: "transition_kind \<Rightarrow> attempt_identity \<Rightarrow> recovery_decision option \<Rightarrow> bool"
  where
  "recovery_agrees k i dec = (case dec of None \<Rightarrow> False
   | Some c \<Rightarrow> decision_attempt c = i \<and> (k = TransitionAbandoned) = (decision_resolution c = ResolvedAbandoned))"

definition wf_transition :: "attempt_transition \<Rightarrow> bool" where
  "wf_transition t \<longleftrightarrow> wf_identity (transition_identity t) \<and>
     (\<forall>c. transition_decision t = Some c \<longrightarrow> wf_decision c) \<and>
     (\<forall>p. transition_prior t = Some p \<longrightarrow> wf_identity p) \<and>
     (case transition_of t of
        TransitionStarted \<Rightarrow> (\<exists>r. transition_request t = Some r \<and> is_fingerprint r) \<and>
          lineage_ok (transition_identity t) (transition_prior t) \<and>
          transition_outcome t = None \<and> transition_decision t = None
      | TransitionReconciled \<Rightarrow> transition_request t = None \<and> transition_prior t = None \<and>
          transition_outcome t = None \<and>
          recovery_agrees TransitionReconciled (transition_identity t) (transition_decision t)
      | TransitionAbandoned \<Rightarrow> transition_request t = None \<and> transition_prior t = None \<and>
          transition_outcome t = None \<and>
          recovery_agrees TransitionAbandoned (transition_identity t) (transition_decision t)
      | _ \<Rightarrow> transition_request t = None \<and> transition_prior t = None \<and>
          (\<exists>r. transition_outcome t = Some r \<and> is_fingerprint r) \<and> transition_decision t = None)"

definition outcome_ok :: "attempt_identity \<Rightarrow> attempt_status \<Rightarrow> string option \<Rightarrow>
    recovery_decision option \<Rightarrow> bool" where
  "outcome_ok i st out dec \<longleftrightarrow>
     (if st = AttemptStarted then out = None \<and> dec = None
      else (\<exists>r. out = Some r \<and> is_fingerprint r) \<and>
        (case dec of None \<Rightarrow> st \<noteq> AttemptAbandoned
         | Some c \<Rightarrow> decision_attempt c = i \<and> st = status_by_resolution (decision_resolution c) \<and>
             out = Some (evidence_fingerprint c)))"

definition wf_state :: "attempt_state \<Rightarrow> bool" where
  "wf_state s \<longleftrightarrow> wf_identity (state_identity s) \<and> is_fingerprint (state_request s) \<and>
     wf_fence (state_fence s) \<and> (\<forall>p. state_prior s = Some p \<longrightarrow> wf_identity p) \<and>
     lineage_ok (state_identity s) (state_prior s) \<and>
     (\<forall>c. state_decision s = Some c \<longrightarrow> wf_decision c) \<and>
     outcome_ok (state_identity s) (state_status s) (state_outcome s) (state_decision s)"

section \<open>Constructors\<close>

lemma make_identity_Inr: "make_identity r a n = Inr i \<longleftrightarrow>
    is_canonical_activity_identity a \<and> 1 \<le> n \<and> n \<le> max_effect_attempt \<and>
    i = \<lparr>attempt_run = r, attempt_activity = a, attempt_number = n\<rparr>"
  by (auto simp: make_identity_def bindR_Inr_iff check_simps)

lemma make_fence_Inr: "make_fence w g = Inr f \<longleftrightarrow> wf_fence f \<and> f = \<lparr>fence_worker = w, fence_generation = g\<rparr>"
  by (auto simp: make_fence_def bindR_Inr_iff check_simps wf_fence_def)

lemma make_decision_Inr: "make_decision i a r u e = Inr c \<longleftrightarrow>
    valid_public_text i \<and> is_fingerprint u \<and> is_fingerprint e \<and>
    c = \<lparr>decision_id = i, decision_attempt = a, decision_resolution = r,
      uncertain_fingerprint = u, evidence_fingerprint = e\<rparr>"
  by (auto simp: make_decision_def bindR_Inr_iff check_simps)

lemma validate_lineage_Inr: "validate_retry_lineage i prior = Inr u \<longleftrightarrow> lineage_ok i prior"
  by (cases prior) (auto simp: validate_retry_lineage_def lineage_ok_def requireR_Inr_iff)

lemma check_recovery_Inr:
  "k \<in> set recovery_transitions \<Longrightarrow> check_recovery_transition k i dec = Inr u \<longleftrightarrow> recovery_agrees k i dec"
  by (cases dec) (auto simp: check_recovery_transition_def recovery_agrees_def recovery_transitions_def)

lemma kinds_split: "k = TransitionStarted \<or> k \<in> set direct_result_transitions \<or> k \<in> set recovery_transitions"
  by (cases k) (simp_all add: direct_result_transitions_def recovery_transitions_def)

lemma make_state_Inr: "make_state i req f st out prior dec = Inr s \<longleftrightarrow>
    (\<exists>r. req = Some r \<and> is_fingerprint r \<and> lineage_ok i prior \<and> outcome_ok i st out dec \<and>
      s = \<lparr>state_identity = i, state_request = r, state_fence = f, state_status = st,
        state_outcome = out, state_prior = prior, state_decision = dec\<rparr>)"
  by (cases req; cases dec)
    (auto simp: make_state_def Let_def bindR_Inr_iff check_simps validate_lineage_Inr outcome_ok_def)

lemma make_state_wf:
  assumes "make_state i req f st out prior dec = Inr s" and "wf_identity i" and "wf_fence f"
    and "\<And>p. prior = Some p \<Longrightarrow> wf_identity p" and "\<And>c. dec = Some c \<Longrightarrow> wf_decision c"
  shows "wf_state s"
  using assms by (auto simp: make_state_Inr wf_state_def)

lemma lineage_wf: "lineage_ok i prior \<Longrightarrow> wf_identity i \<Longrightarrow> prior = Some p \<Longrightarrow> wf_identity p"
  by (auto simp: lineage_ok_def wf_identity_def)

section \<open>Descriptors\<close>

lemma identity_roundtrip: "wf_identity i \<Longrightarrow> identity_from_descriptor (identity_descriptor i) = Inr i"
  by (simp add: identity_from_descriptor_def identity_descriptor_def strict_keys_def same_keys_def
      entry_def as_text_def as_bounded_int_def bounded_int_def make_run_id_def make_identity_def
      wf_identity_def run_id.expand insert_commute)

lemma identity_decoded: "identity_from_descriptor d = Inr i \<Longrightarrow> wf_identity i"
  by (auto simp: identity_from_descriptor_def bindR_Inr_iff check_simps make_run_id_def
      make_identity_Inr wf_identity_def split: if_splits sum.splits)

lemma fence_roundtrip: "wf_fence f \<Longrightarrow> fence_from_descriptor (fence_descriptor f) = Inr f"
  by (simp add: fence_from_descriptor_def fence_descriptor_def strict_keys_def same_keys_def
      entry_def as_text_def as_bounded_int_def bounded_int_def make_fence_def bounded_text_def
      wf_fence_def insert_commute)

lemma fence_decoded: "fence_from_descriptor d = Inr f \<Longrightarrow> wf_fence f"
  by (auto simp: fence_from_descriptor_def bindR_Inr_iff make_fence_Inr)

interpretation identity_codec: descriptor_codec wf_identity identity_descriptor identity_from_descriptor
  by unfold_locales (simp_all add: identity_roundtrip identity_decoded)

interpretation fence_codec: descriptor_codec wf_fence fence_descriptor fence_from_descriptor
  by unfold_locales (simp_all add: fence_roundtrip fence_decoded)

lemma decision_roundtrip: "wf_decision c \<Longrightarrow> decision_from_descriptor (decision_descriptor c) = Inr c"
  by (simp add: decision_from_descriptor_def decision_descriptor_def strict_keys_def same_keys_def
      entry_def as_text_def as_mapping_def make_decision_def bounded_text_def sha256_fingerprint_def
      wf_decision_def identity_roundtrip insert_commute)

lemma decision_decoded: "decision_from_descriptor d = Inr c \<Longrightarrow> wf_decision c"
  by (auto simp: decision_from_descriptor_def bindR_Inr_iff make_decision_Inr wf_decision_def
      identity_decoded split: option.splits)

interpretation decision_codec: descriptor_codec wf_decision decision_descriptor decision_from_descriptor
  by unfold_locales (simp_all add: decision_roundtrip decision_decoded)

lemma optional_identity_roundtrip:
  "(\<And>p. prior = Some p \<Longrightarrow> wf_identity p) \<Longrightarrow>
     optional_identity (py_optional (\<lambda>i. PDict (identity_descriptor i)) prior) = Inr prior"
  unfolding optional_identity_def
  by (rule identity_codec.optional_roundtrip) (simp_all add: as_mapping_def)

lemma optional_identity_wf: "optional_identity v = Inr (Some p) \<Longrightarrow> wf_identity p"
  unfolding optional_identity_def
  by (erule identity_codec.optional_valid [rotated]) (auto simp: bindR_Inr_iff)

lemma optional_decision_roundtrip:
  "(\<And>c. dec = Some c \<Longrightarrow> wf_decision c) \<Longrightarrow>
     optional_decision (py_optional (\<lambda>c. PDict (decision_descriptor c)) dec) = Inr dec"
  unfolding optional_decision_def
  by (rule decision_codec.optional_roundtrip) (simp_all add: as_mapping_def)

lemma optional_decision_wf: "optional_decision v = Inr (Some c) \<Longrightarrow> wf_decision c"
  unfolding optional_decision_def
  by (erule decision_codec.optional_valid [rotated]) (auto simp: bindR_Inr_iff)

lemma optional_text_roundtrip: "as_optional_text (py_optional PStr v) l = Inr v"
  by (simp add: optional_text_Inr)

lemma make_transition_wf:
  assumes "wf_identity i" and "\<And>p. prior = Some p \<Longrightarrow> wf_identity p"
    and "\<And>c. dec = Some c \<Longrightarrow> wf_decision c"
  shows "make_transition k i req out prior dec = Inr t \<longleftrightarrow>
    wf_transition t \<and> t = \<lparr>transition_of = k, transition_identity = i, transition_request = req,
      transition_outcome = out, transition_prior = prior, transition_decision = dec\<rparr>"
  using assms check_recovery_Inr [of k i dec]
  by (cases k) (auto simp: make_transition_def Let_def bindR_Inr_iff check_simps validate_lineage_Inr
      direct_result_transitions_def recovery_transitions_def wf_transition_def)

lemma transition_roundtrip:
  assumes "wf_transition t"
  shows "transition_from_descriptor (transition_descriptor t) = Inr t"
proof -
  have parts: "wf_identity (transition_identity t)" "\<And>p. transition_prior t = Some p \<Longrightarrow> wf_identity p"
    "\<And>c. transition_decision t = Some c \<Longrightarrow> wf_decision c"
    using assms by (auto simp: wf_transition_def)
  then have "make_transition (transition_of t) (transition_identity t) (transition_request t)
      (transition_outcome t) (transition_prior t) (transition_decision t) = Inr t"
    using assms by (subst make_transition_wf) auto
  then show ?thesis
    using identity_roundtrip [OF parts(1)] optional_identity_roundtrip [OF parts(2)]
      optional_decision_roundtrip [OF parts(3)]
    by (simp add: transition_from_descriptor_def transition_descriptor_def strict_keys_def
        same_keys_def entry_def as_text_def as_mapping_def optional_text_roundtrip insert_commute)
qed

lemma make_transition_makes:
  "make_transition k i req out prior dec = Inr t \<Longrightarrow> wf_identity i \<Longrightarrow>
     (\<And>p. prior = Some p \<Longrightarrow> wf_identity p) \<Longrightarrow> (\<And>c. dec = Some c \<Longrightarrow> wf_decision c) \<Longrightarrow>
     wf_transition t"
  using make_transition_wf by blast

lemma transition_decoded: "transition_from_descriptor d = Inr t \<Longrightarrow> wf_transition t"
  by (auto simp: transition_from_descriptor_def bindR_Inr_iff identity_decoded
      optional_identity_wf optional_decision_wf split: option.splits elim!: make_transition_makes)

interpretation transition_codec:
  descriptor_codec wf_transition transition_descriptor transition_from_descriptor
  by unfold_locales (simp_all add: transition_roundtrip transition_decoded)

lemma state_rebuild:
  "wf_state s \<Longrightarrow> make_state (state_identity s) (Some (state_request s)) (state_fence s)
     (state_status s) (state_outcome s) (state_prior s) (state_decision s) = Inr s"
  by (simp add: make_state_Inr wf_state_def)

lemma state_roundtrip:
  assumes "wf_state s"
  shows "state_from_descriptor (state_descriptor s) = Inr s"
proof -
  have parts: "wf_identity (state_identity s)" "wf_fence (state_fence s)"
    "\<And>p. state_prior s = Some p \<Longrightarrow> wf_identity p" "\<And>c. state_decision s = Some c \<Longrightarrow> wf_decision c"
    using assms by (auto simp: wf_state_def)
  show ?thesis
    using identity_roundtrip [OF parts(1)] fence_roundtrip [OF parts(2)] state_rebuild [OF assms]
      optional_identity_roundtrip [OF parts(3)] optional_decision_roundtrip [OF parts(4)]
    by (simp add: state_from_descriptor_def state_descriptor_def strict_keys_def
        same_keys_def entry_def as_text_def as_mapping_def optional_text_roundtrip insert_commute)
qed

lemma state_decoded: "state_from_descriptor d = Inr s \<Longrightarrow> wf_state s"
  by (auto simp: state_from_descriptor_def bindR_Inr_iff identity_decoded fence_decoded
      optional_identity_wf optional_decision_wf split: option.splits elim!: make_state_wf)

interpretation state_codec: descriptor_codec wf_state state_descriptor state_from_descriptor
  by unfold_locales (simp_all add: state_roundtrip state_decoded)

section \<open>The fold as a machine\<close>

text \<open>
  A transition is repeated if carrying it out would leave the state as it is: the start of the attempt with
  the same request and lineage, the direct result it holds, or the decision it was resolved by.
\<close>

definition duplicate_of :: "attempt_state \<Rightarrow> attempt_transition \<Rightarrow> bool" where
  "duplicate_of s t \<longleftrightarrow>
     transition_of t = TransitionStarted \<and> state_status s = AttemptStarted \<and>
       transition_request t = Some (state_request s) \<and> transition_prior t = state_prior s \<or>
     (\<exists>st. status_by_direct_transition (transition_of t) = Some st \<and> state_decision s = None \<and>
       s\<lparr>state_status := st, state_outcome := transition_outcome t\<rparr> = s) \<or>
     (\<exists>c. transition_of t \<in> set recovery_transitions \<and> transition_decision t = Some c \<and>
       s\<lparr>state_status := status_by_resolution (decision_resolution c),
         state_outcome := Some (evidence_fingerprint c), state_decision := Some c\<rparr> = s)"

lemma duplicate_exact: "duplicate_of s t \<longleftrightarrow> is_exact_duplicate s t = Inr True"
  by (cases s; cases "transition_of t")
    (auto simp: duplicate_of_def is_exact_duplicate_def direct_result_transitions_def recovery_transitions_def
      decision_of_def split: option.split)

inductive attempt_step :: "attempt_state \<Rightarrow> attempt_transition \<Rightarrow> attempt_state \<Rightarrow> bool" where
  repeated: "duplicate_of s t \<Longrightarrow> attempt_step s t s"
| finished: "state_status s = AttemptStarted \<Longrightarrow>
    status_by_direct_transition (transition_of t) = Some st \<Longrightarrow>
    attempt_step s t (s\<lparr>state_status := st, state_outcome := transition_outcome t\<rparr>)"
| recovered: "state_status s = AttemptUncertain \<Longrightarrow> transition_of t \<in> set recovery_transitions \<Longrightarrow>
    transition_decision t = Some c \<Longrightarrow> state_outcome s = Some (uncertain_fingerprint c) \<Longrightarrow>
    attempt_step s t (s\<lparr>state_status := status_by_resolution (decision_resolution c),
      state_outcome := Some (evidence_fingerprint c), state_decision := Some c\<rparr>)"

inductive_cases attempt_stepE: "attempt_step s t s'"

lemma recovery_decision_known:
  assumes "wf_transition t" and "transition_of t \<in> set recovery_transitions"
  obtains c where "transition_decision t = Some c" "decision_attempt c = transition_identity t"
    "wf_decision c" "decision_of t = Inr c"
proof -
  have "recovery_agrees (transition_of t) (transition_identity t) (transition_decision t)"
    using assms by (auto simp: wf_transition_def recovery_transitions_def)
  with assms(1) that show ?thesis
    by (auto simp: recovery_agrees_def decision_of_def wf_transition_def split: option.splits)
qed

lemma duplicate_total: "wf_transition t \<Longrightarrow> \<exists>b. is_exact_duplicate s t = Inr b"
  using kinds_split [of "transition_of t"]
  by (auto simp: is_exact_duplicate_def elim: recovery_decision_known)

lemma wf_state_started:
  "wf_state s \<Longrightarrow> state_status s = AttemptStarted \<Longrightarrow> state_outcome s = None \<and> state_decision s = None"
  by (simp add: wf_state_def outcome_ok_def)

lemma direct_outcome:
  "wf_transition t \<Longrightarrow> status_by_direct_transition (transition_of t) = Some st \<Longrightarrow>
     \<exists>r. transition_outcome t = Some r \<and> is_fingerprint r"
  by (cases "transition_of t") (auto simp: wf_transition_def)

lemma direct_status: "status_by_direct_transition k = Some st \<Longrightarrow>
    st \<noteq> AttemptStarted \<and> st \<noteq> AttemptAbandoned \<and> k \<in> set direct_result_transitions \<and> k \<noteq> TransitionStarted"
  by (cases k) (auto simp: direct_result_transitions_def)

lemma resolved_status:
  "status_by_resolution r \<noteq> AttemptStarted" "status_by_resolution r \<noteq> AttemptUncertain"
  by (cases r; simp)+

lemma finish_attempt_Inr:
  assumes "wf_state s" and "wf_transition t"
  shows "finish_attempt s t = Inr s' \<longleftrightarrow> state_status s = AttemptStarted \<and>
    (\<exists>st. status_by_direct_transition (transition_of t) = Some st \<and>
       s' = s\<lparr>state_status := st, state_outcome := transition_outcome t\<rparr>)"
  using assms direct_outcome [OF assms(2)] wf_state_started [OF assms(1)]
  by (cases "status_by_direct_transition (transition_of t)")
    (auto simp: finish_attempt_def make_state_Inr wf_state_def outcome_ok_def dest: direct_status)

lemma recover_attempt_Inr:
  assumes "wf_state s" and "wf_transition t" and "transition_of t \<in> set recovery_transitions"
    and "transition_identity t = state_identity s"
  shows "recover_attempt s t = Inr s' \<longleftrightarrow> state_status s = AttemptUncertain \<and>
    (\<exists>c. transition_decision t = Some c \<and> state_outcome s = Some (uncertain_fingerprint c) \<and>
       s' = s\<lparr>state_status := status_by_resolution (decision_resolution c),
         state_outcome := Some (evidence_fingerprint c), state_decision := Some c\<rparr>)"
proof -
  obtain c where c: "transition_decision t = Some c" "decision_attempt c = transition_identity t"
    "wf_decision c" "decision_of t = Inr c"
    by (rule recovery_decision_known [OF assms(2,3)])
  with assms(1,4) show ?thesis
    by (auto simp: recover_attempt_def make_state_Inr wf_state_def outcome_ok_def resolved_status
        wf_decision_def)
qed

lemma duplicate_status:
  assumes "duplicate_of s t"
  shows "state_status s = AttemptStarted \<Longrightarrow> transition_of t = TransitionStarted"
    and "state_status s = AttemptUncertain \<Longrightarrow> transition_of t \<notin> set recovery_transitions"
proof -
  have "(state_status s = AttemptStarted \<longrightarrow> transition_of t = TransitionStarted) \<and>
    (state_status s = AttemptUncertain \<longrightarrow> transition_of t \<notin> set recovery_transitions)"
    using assms resolved_status [symmetric]
    by (cases "transition_of t") (auto simp: duplicate_exact is_exact_duplicate_def bindR_Inr_iff
        direct_result_transitions_def recovery_transitions_def)
  then show "state_status s = AttemptStarted \<Longrightarrow> transition_of t = TransitionStarted"
    and "state_status s = AttemptUncertain \<Longrightarrow> transition_of t \<notin> set recovery_transitions" by simp_all
qed

lemma duplicate_steps:
  assumes "duplicate_of s t" and "attempt_step s t s'"
  shows "s' = s"
  using assms(2)
proof (cases rule: attempt_step.cases)
  case (finished st)
  with duplicate_status(1) [OF assms(1)] show ?thesis by simp
next
  case (recovered c)
  with duplicate_status(2) [OF assms(1)] show ?thesis by simp
qed

lemma fold_step:
  assumes "wf_state s" and "wf_transition t"
  shows "fold_effect_attempt (Some s) t f = Inr s' \<longleftrightarrow>
    transition_identity t = state_identity s \<and> f = state_fence s \<and> attempt_step s t s'"
proof (cases "transition_identity t = state_identity s \<and> f = state_fence s")
  case same: True
  obtain b where b: "is_exact_duplicate s t = Inr b" using duplicate_total [OF assms(2)] by blast
  show ?thesis
  proof (cases b)
    case True
    then have dup: "duplicate_of s t" using b by (simp add: duplicate_exact)
    then have "fold_effect_attempt (Some s) t f = Inr s"
      using same by (simp add: fold_effect_attempt_def duplicate_exact)
    with dup same duplicate_steps [OF dup] show ?thesis by (auto intro: repeated)
  next
    case False
    then have dup: "\<not> duplicate_of s t" using b by (simp add: duplicate_exact)
    have fold: "fold_effect_attempt (Some s) t f =
      (if transition_of t = TransitionStarted
       then Inl (InvalidEffectRecoveryContract ''attempt has already started'')
       else if transition_of t \<in> set recovery_transitions then recover_attempt s t
       else finish_attempt s t)"
      using same b False by (simp add: fold_effect_attempt_def)
    from kinds_split [of "transition_of t"]
    consider "transition_of t = TransitionStarted"
      | "transition_of t \<in> set direct_result_transitions" "transition_of t \<noteq> TransitionStarted"
        "transition_of t \<notin> set recovery_transitions"
      | "transition_of t \<in> set recovery_transitions" "transition_of t \<noteq> TransitionStarted"
      by (auto simp: recovery_transitions_def direct_result_transitions_def)
    then show ?thesis
    proof cases
      case 1
      then have "\<not> attempt_step s t s'"
        using dup by (auto simp: recovery_transitions_def elim!: attempt_stepE)
      with 1 fold show ?thesis by simp
    next
      case 2
      then have "attempt_step s t s' \<longleftrightarrow> finish_attempt s t = Inr s'"
        unfolding finish_attempt_Inr [OF assms] using dup by (auto intro: finished elim: attempt_stepE)
      with 2 fold same show ?thesis by simp
    next
      case 3
      have "status_by_direct_transition (transition_of t) = None"
        using 3 by (auto simp: recovery_transitions_def)
      then have "attempt_step s t s' \<longleftrightarrow> recover_attempt s t = Inr s'"
        unfolding recover_attempt_Inr [OF assms 3(1) conjunct1 [OF same]]
        using dup 3 by (auto intro: recovered elim: attempt_stepE)
      with 3 fold same show ?thesis by simp
    qed
  qed
qed (auto simp: fold_effect_attempt_def)

lemma start_Inr:
  assumes "wf_transition t"
  shows "fold_effect_attempt None t f = Inr s \<longleftrightarrow> transition_of t = TransitionStarted \<and>
    s = \<lparr>state_identity = transition_identity t, state_request = the (transition_request t),
      state_fence = f, state_status = AttemptStarted, state_outcome = None,
      state_prior = transition_prior t, state_decision = None\<rparr>"
  using assms by (cases "transition_of t")
    (auto simp: fold_effect_attempt_def start_attempt_def make_state_Inr wf_transition_def outcome_ok_def)

lemma start_wf:
  "wf_transition t \<Longrightarrow> wf_fence f \<Longrightarrow> fold_effect_attempt None t f = Inr s \<Longrightarrow> wf_state s"
  by (auto simp: start_Inr wf_state_def wf_transition_def outcome_ok_def)

lemma attempt_step_wf: "attempt_step s t s' \<Longrightarrow> wf_transition t \<Longrightarrow>
    transition_identity t = state_identity s \<Longrightarrow> wf_state s \<Longrightarrow> wf_state s'"
proof (induction rule: attempt_step.induct)
  case (finished s t st)
  then show ?case using direct_outcome [OF finished.prems(1) finished.hyps(2)]
    wf_state_started [OF finished.prems(3)] direct_status [OF finished.hyps(2)]
    by (auto simp: wf_state_def outcome_ok_def)
next
  case (recovered s t c)
  obtain c' where "transition_decision t = Some c'" "decision_attempt c' = transition_identity t"
    "wf_decision c'" by (rule recovery_decision_known [OF recovered.prems(1) recovered.hyps(2)])
  with recovered show ?case
    by (auto simp: wf_state_def outcome_ok_def resolved_status wf_decision_def)
qed

section \<open>Replaying stored transitions\<close>

text \<open>
  Stored transitions are decoded before they are folded; on the descriptor of a transition
  this is the fold itself.
\<close>

definition fold_stored :: "attempt_state \<Rightarrow> descriptor \<times> attempt_fence \<Rightarrow> recovery_exn + attempt_state"
  where
  "fold_stored s v = bindR (transition_from_descriptor (fst v))
     (\<lambda>t. fold_effect_attempt (Some s) t (snd v))"

lemma fold_stored_descriptor:
  "wf_transition t \<Longrightarrow> fold_stored s (transition_descriptor t, f) = fold_effect_attempt (Some s) t f"
  by (simp add: fold_stored_def transition_roundtrip)

lemma fold_stored_step:
  assumes "wf_state s" and "fold_stored s v = Inr s'"
  obtains t where "transition_from_descriptor (fst v) = Inr t" "wf_transition t"
    "transition_identity t = state_identity s" "snd v = state_fence s" "attempt_step s t s'"
proof -
  from assms(2) obtain t where t: "transition_from_descriptor (fst v) = Inr t"
    "fold_effect_attempt (Some s) t (snd v) = Inr s'"
    by (auto simp: fold_stored_def bindR_Inr_iff)
  from that [OF t(1) transition_decoded [OF t(1)]] t(2)
    fold_step [OF assms(1) transition_decoded [OF t(1)]] show ?thesis by simp
qed

interpretation attempts: event_fold fold_stored wf_state
proof
  fix s v s'
  assume "wf_state s" and "fold_stored s v = Inr s'"
  then show "wf_state s'" by (metis attempt_step_wf fold_stored_step)
qed

fun attempt_edge :: "attempt_status \<Rightarrow> attempt_status \<Rightarrow> bool" where
  "attempt_edge AttemptStarted st \<longleftrightarrow> st \<notin> {AttemptStarted, AttemptAbandoned}"
| "attempt_edge AttemptUncertain st \<longleftrightarrow> st \<in> {AttemptSucceeded, AttemptFailed, AttemptAbandoned}"
| "attempt_edge _ _ = False"

definition attempt_path :: "attempt_state \<Rightarrow> attempt_state \<Rightarrow> bool" where
  "attempt_path s t \<longleftrightarrow> state_identity t = state_identity s \<and> state_request t = state_request s \<and>
     state_fence t = state_fence s \<and> state_prior t = state_prior s \<and>
     attempt_edge\<^sup>*\<^sup>* (state_status s) (state_status t)"

lemma attempt_step_path: "attempt_step s t s' \<Longrightarrow> attempt_path s s'"
proof (induction rule: attempt_step.induct)
  case (finished s t st)
  then show ?case using direct_status [of "transition_of t" st] by (auto simp: attempt_path_def)
next
  case (recovered s t c)
  then show ?case by (cases "decision_resolution c") (auto simp: attempt_path_def)
qed (simp add: attempt_path_def)

lemma replay_attempt_path:
  assumes "wf_state s" and "foldR fold_stored s vs = Inr t"
  shows "attempt_path s t"
  by (rule attempts.fold_relates [OF _ _ _ assms])
    (auto simp: attempt_path_def elim!: fold_stored_step dest!: attempt_step_path)

lemma fold_idempotent:
  assumes "\<And>s. current = Some s \<Longrightarrow> wf_state s" and "wf_transition t" and "wf_fence f"
    and "fold_effect_attempt current t f = Inr s'"
  shows "fold_effect_attempt (Some s') t f = Inr s'"
proof (cases current)
  case None
  with assms(2,3,4) have "wf_state s'" by (intro start_wf) auto
  moreover have "transition_identity t = state_identity s' \<and> f = state_fence s' \<and> duplicate_of s' t"
    using assms(2,4) None by (auto simp: start_Inr duplicate_exact is_exact_duplicate_def wf_transition_def)
  ultimately show ?thesis using fold_step [OF _ assms(2)] repeated by blast
next
  case (Some s)
  with assms(1) have s: "wf_state s" by simp
  have step: "transition_identity t = state_identity s" "f = state_fence s" "attempt_step s t s'"
    using assms(4) Some fold_step [OF s assms(2)] by simp_all
  have "duplicate_of s' t"
    using step(3) s
  proof (cases rule: attempt_step.cases)
    case (finished st)
    then show ?thesis using direct_status [OF finished(3)] wf_state_started [OF s finished(2)]
      by (auto simp: duplicate_exact is_exact_duplicate_def)
  next
    case (recovered c)
    then show ?thesis by (auto simp: duplicate_exact is_exact_duplicate_def recovery_transitions_def
        direct_result_transitions_def decision_of_def)
  qed simp
  moreover have "wf_state s'" using step(3) assms(2) step(1) s by (rule attempt_step_wf)
  moreover have "state_identity s' = state_identity s" "state_fence s' = state_fence s"
    using attempt_step_path [OF step(3)] by (simp_all add: attempt_path_def)
  ultimately show ?thesis using fold_step [OF _ assms(2)] repeated step by metis
qed

lemma settled_absorbs:
  assumes "wf_state s" and "state_status s \<notin> {AttemptStarted, AttemptUncertain}"
    and "foldR fold_stored s vs = Inr t"
  shows "t = s"
  by (rule attempts.fold_keeps [where K = "\<lambda>x. x = s", OF _ assms(1) refl assms(3)])
    (use assms(2) in \<open>auto elim!: fold_stored_step attempt_stepE\<close>)

lemma outcome_provenance:
  assumes "wf_state s" and "fold_stored s v = Inr t" and "state_outcome s = Some r"
    and "state_outcome t \<noteq> Some r"
  shows "\<exists>c. state_status s = AttemptUncertain \<and> state_decision t = Some c \<and>
    uncertain_fingerprint c = r \<and> state_outcome t = Some (evidence_fingerprint c) \<and>
    state_status t = status_by_resolution (decision_resolution c)"
proof -
  from assms(1,2) obtain u where "attempt_step s u t" by (rule fold_stored_step)
  then show ?thesis
  proof (cases rule: attempt_step.cases)
    case (finished st)
    with wf_state_started [OF assms(1)] assms(3) show ?thesis by simp
  qed (use assms(3,4) in auto)
qed

end
