(* ===== verification/Resource_Lifecycle.thy ===== *)
theory Resource_Lifecycle
  imports Primitives
begin

text \<open>
  \<open>lifecycle.py\<close>: who owns a resource, whether ordinary topology removal may remove it,
  and the data resources kept beside it. The constructor refuses a resource the control
  plane does not own unless it is retained and declares no data, and keeps the data sorted.
\<close>

datatype resource_ownership = OWNED | ATTACHED | EXTERNAL

datatype resource_persistence = EPHEMERAL | RETAINED

fun ownership_value :: "resource_ownership \<Rightarrow> string" where
  "ownership_value OWNED = ''owned''"
| "ownership_value ATTACHED = ''attached''"
| "ownership_value EXTERNAL = ''external''"

fun persistence_value :: "resource_persistence \<Rightarrow> string" where
  "persistence_value EPHEMERAL = ''ephemeral''"
| "persistence_value RETAINED = ''retained''"

definition ownerships :: "resource_ownership list" where
  "ownerships = [OWNED, ATTACHED, EXTERNAL]"

definition persistences :: "resource_persistence list" where
  "persistences = [EPHEMERAL, RETAINED]"

interpretation ownership: closed_enum ownerships ownership_value
proof
  show "m \<in> set ownerships" for m by (cases m) (simp_all add: ownerships_def)
qed (simp add: ownerships_def)

interpretation persistence: closed_enum persistences persistence_value
proof
  show "m \<in> set persistences" for m by (cases m) (simp_all add: persistences_def)
qed (simp add: persistences_def)

record data_resource_spec =
  resource_id :: string
  persistence :: resource_persistence

definition make_data_resource ::
  "string \<Rightarrow> resource_persistence \<Rightarrow> py_exn + data_resource_spec" where
  "make_data_resource i p =
     (if \<not> non_blank i then Inl (ValueError ''data resource identity must not be empty'')
      else Inr \<lparr>resource_id = i, persistence = p\<rparr>)"

text \<open>The generated dataclass order: by identity, then by the persistence text.\<close>

definition data_resource_key :: "data_resource_spec \<Rightarrow> string \<times> string" where
  "data_resource_key d = (resource_id d, persistence_value (persistence d))"

record resource_lifecycle =
  lc_ownership :: resource_ownership
  lc_compute :: resource_persistence
  lc_data :: "data_resource_spec list"

definition make_lifecycle :: "resource_ownership \<Rightarrow> resource_persistence \<Rightarrow>
    data_resource_spec list \<Rightarrow> py_exn + resource_lifecycle" where
  "make_lifecycle own cp ds =
     (if has_duplicates (map resource_id ds)
      then Inl (ValueError ''data resource identities must be unique'')
      else if own \<noteq> OWNED \<and> (cp \<noteq> RETAINED \<or> ds \<noteq> [])
      then Inl (ValueError
        ''attached and external resources must be retained and cannot declare owned data'')
      else Inr \<lparr>lc_ownership = own, lc_compute = cp, lc_data = sort_key data_resource_key ds\<rparr>)"

definition owned_ephemeral :: "py_exn + resource_lifecycle" where
  "owned_ephemeral = make_lifecycle OWNED EPHEMERAL []"

definition owned_with_retained_data :: "string list \<Rightarrow> py_exn + resource_lifecycle" where
  "owned_with_retained_data ids =
     bindR (mapR (\<lambda>i. make_data_resource i RETAINED) ids) (make_lifecycle OWNED EPHEMERAL)"

definition attached_lifecycle :: "py_exn + resource_lifecycle" where
  "attached_lifecycle = make_lifecycle ATTACHED RETAINED []"

definition external_lifecycle :: "py_exn + resource_lifecycle" where
  "external_lifecycle = make_lifecycle EXTERNAL RETAINED []"

definition data_resource :: "resource_lifecycle \<Rightarrow> string \<Rightarrow> py_exn + data_resource_spec" where
  "data_resource l i = (case find (\<lambda>d. resource_id d = i) (lc_data l) of
     Some d \<Rightarrow> Inr d
   | None \<Rightarrow> Inl (KeyError (''lifecycle has no data resource '' @ py_repr i)))"

definition lifecycle_descriptor :: "resource_lifecycle \<Rightarrow> (string \<times> py) list" where
  "lifecycle_descriptor l =
     [(''ownership'', PStr (ownership_value (lc_ownership l))),
      (''compute'', PStr (persistence_value (lc_compute l))),
      (''data'', PList (map (\<lambda>d. PDict
         [(''resource_id'', PStr (resource_id d)),
          (''persistence'', PStr (persistence_value (persistence d)))]) (lc_data l)))]"

definition wf_lifecycle :: "resource_lifecycle \<Rightarrow> bool" where
  "wf_lifecycle l \<longleftrightarrow> distinct (map resource_id (lc_data l)) \<and>
     sorted (map data_resource_key (lc_data l)) \<and>
     (lc_ownership l \<noteq> OWNED \<longrightarrow> lc_compute l = RETAINED \<and> lc_data l = [])"

interpretation data_order: keyed_canonical data_resource_key
proof
  fix x y :: data_resource_spec
  assume "data_resource_key x = data_resource_key y"
  then show "x = y"
    by (simp add: data_resource_key_def persistence.value_inject data_resource_spec.equality)
qed

lemma make_lifecycle_wf: "make_lifecycle own cp ds = Inr l \<Longrightarrow> wf_lifecycle l"
proof -
  assume ok: "make_lifecycle own cp ds = Inr l"
  then have l: "l = \<lparr>lc_ownership = own, lc_compute = cp, lc_data = sort_key data_resource_key ds\<rparr>"
    and d: "distinct (map resource_id ds)" and o: "own = OWNED \<or> cp = RETAINED \<and> ds = []"
    by (auto simp: make_lifecycle_def has_duplicates_def split: if_splits)
  from d have "distinct (map resource_id (sort_key data_resource_key ds))"
    by (simp add: distinct_map)
  with l o show ?thesis by (auto simp: wf_lifecycle_def)
qed

lemma make_lifecycle_wf_id:
  assumes "wf_lifecycle l"
  shows "make_lifecycle (lc_ownership l) (lc_compute l) (lc_data l) = Inr l"
proof -
  have "sort_key data_resource_key (lc_data l) = lc_data l"
    using assms by (simp add: wf_lifecycle_def sort_key_id_if_sorted)
  with assms show ?thesis by (auto simp: make_lifecycle_def wf_lifecycle_def has_duplicates_def)
qed

lemma make_lifecycle_order:
  assumes "mset ds = mset ds'"
  shows "make_lifecycle own cp ds = make_lifecycle own cp ds'"
proof -
  have "mset (map resource_id ds) = mset (map resource_id ds')"
    using assms by simp
  then have "distinct (map resource_id ds) = distinct (map resource_id ds')"
    by (rule mset_eq_imp_distinct_iff)
  moreover have "ds = [] \<longleftrightarrow> ds' = []" using assms by (metis mset_zero_iff)
  ultimately show ?thesis
    by (simp add: make_lifecycle_def has_duplicates_def data_order.sort_key_mset_eq [OF assms])
qed

end
