(* ===== verification/Sample_Values.thy ===== *)
theory Sample_Values
  imports Journal_Laws Recovery_Laws Resource_Lifecycle
begin

text \<open>
  Concrete inputs for the witnesses of the properties: a plan of three activities, one of
  which depends on another, the saga states its replay goes through, a journal, and an
  effect attempt with its transitions.
\<close>

section \<open>A plan\<close>

definition start_db :: planned_activity where
  "start_db = make_activity (ActivityId ''start:db'') (StartNode (NodeTarget ''db'')) [] LOW NON_DESTRUCTIVE"

definition start_api :: planned_activity where
  "start_api = make_activity (ActivityId ''start:api'') (StartNode (NodeTarget ''api''))
     [ActivityDependency (ActivityId ''start:db'')] LOW NON_DESTRUCTIVE"

definition wait_api :: planned_activity where
  "wait_api = make_activity (ActivityId ''wait:api'') (WaitForHealthy (NodeTarget ''api''))
     [ActivityDependency (ActivityId ''start:api'')] INFORMATIONAL NON_DESTRUCTIVE"

definition sample_plan :: activity_plan where
  "sample_plan = ActivityPlan [start_db, start_api, wait_api]"

lemmas sample_activities = start_db_def start_api_def wait_api_def

lemma sample_plan_made: "make_plan [wait_api, start_api, start_db] = Inr sample_plan"
  by code_simp

lemma sample_is_plan: "is_plan sample_plan"
  using sample_plan_made by (auto simp: is_plan_def)

definition db :: saga_step_id where "db = SagaStepId ''start:db''"
definition api :: saga_step_id where "api = SagaStepId ''start:api''"

definition sample_state :: saga_state where
  "sample_state = \<lparr>steps =
     [\<lparr>state_step_id = db, step_status = SUCCEEDED, compensation_available = True\<rparr>,
      \<lparr>state_step_id = api, step_status = PENDING, compensation_available = True\<rparr>,
      \<lparr>state_step_id = SagaStepId ''wait:api'', step_status = PENDING, compensation_available = False\<rparr>],
     completion_order = [db], failed_steps = [], cancelled = False, compensation_requested = False\<rparr>"

lemma sample_replay:
  "foldR evolve (initial_for_plan sample_plan) [SagaStepStarted db, SagaStepSucceeded db] = Inr sample_state"
  by code_simp

lemma sample_evidence: "evidence_of sample_plan sample_state"
  using sample_is_plan sample_replay by (rule replay_evidence)

definition sample_schedule :: execution_schedule where
  "sample_schedule = empty_schedule\<lparr>ready := [start_api], waiting := [wait_api], succeeded := [start_db]\<rparr>"

lemma sample_derived: "derive_schedule sample_plan sample_state = Inr sample_schedule"
  by code_simp

definition failed_state :: saga_state where
  "failed_state = \<lparr>steps =
     [\<lparr>state_step_id = db, step_status = SUCCEEDED, compensation_available = True\<rparr>,
      \<lparr>state_step_id = api, step_status = FAILED, compensation_available = True\<rparr>,
      \<lparr>state_step_id = SagaStepId ''wait:api'', step_status = PENDING, compensation_available = False\<rparr>],
     completion_order = [db], failed_steps = [api], cancelled = False, compensation_requested = False\<rparr>"

lemma failed_replay:
  "foldR evolve sample_state [SagaStepStarted api, SagaStepFailed api] = Inr failed_state"
  by code_simp

lemma failed_evidence: "evidence_of sample_plan failed_state"
proof (rule replay_evidence [OF sample_is_plan])
  show "foldR evolve (initial_for_plan sample_plan)
      [SagaStepStarted db, SagaStepSucceeded db, SagaStepStarted api, SagaStepFailed api] = Inr failed_state"
    by code_simp
qed

definition failed_schedule :: execution_schedule where
  "failed_schedule = empty_schedule\<lparr>blocked := [\<lparr>held_activity = wait_api,
       held_reason = FAILED_PREDECESSOR, held_predecessors = [activity_id start_api]\<rparr>],
     succeeded := [start_db], failed := [start_api], compensation_ready := [start_db]\<rparr>"

lemma failed_derived: "derive_schedule sample_plan failed_state = Inr failed_schedule"
  by code_simp

definition done_state :: saga_state where
  "done_state = \<lparr>steps =
     [\<lparr>state_step_id = db, step_status = SUCCEEDED, compensation_available = True\<rparr>,
      \<lparr>state_step_id = api, step_status = SUCCEEDED, compensation_available = True\<rparr>,
      \<lparr>state_step_id = SagaStepId ''wait:api'', step_status = SUCCEEDED, compensation_available = False\<rparr>],
     completion_order = [db, api, SagaStepId ''wait:api''], failed_steps = [], cancelled = False,
     compensation_requested = False\<rparr>"

definition done_schedule :: execution_schedule where
  "done_schedule = empty_schedule\<lparr>succeeded := [start_db, start_api, wait_api]\<rparr>"

lemma done_evidence: "evidence_of sample_plan done_state"
proof (rule replay_evidence [OF sample_is_plan])
  show "foldR evolve (initial_for_plan sample_plan)
      [SagaStepStarted db, SagaStepSucceeded db, SagaStepStarted api, SagaStepSucceeded api,
       SagaStepStarted (SagaStepId ''wait:api''), SagaStepSucceeded (SagaStepId ''wait:api'')] =
      Inr done_state"
    by code_simp
qed

lemma done_derived: "derive_schedule sample_plan done_state = Inr done_schedule"
  by code_simp

section \<open>A lifecycle\<close>

definition data_volume :: data_resource_spec where
  "data_volume = \<lparr>resource_id = ''data'', persistence = RETAINED\<rparr>"

definition cache_volume :: data_resource_spec where
  "cache_volume = \<lparr>resource_id = ''cache'', persistence = EPHEMERAL\<rparr>"

definition sample_lifecycle :: resource_lifecycle where
  "sample_lifecycle = \<lparr>lc_ownership = OWNED, lc_compute = EPHEMERAL, lc_data = [cache_volume, data_volume]\<rparr>"

lemma sample_lifecycle_made: "make_lifecycle OWNED EPHEMERAL [data_volume, cache_volume] = Inr sample_lifecycle"
  by code_simp

section \<open>A journal\<close>

definition journal_entry :: "string \<Rightarrow> int \<Rightarrow> journal_kind \<Rightarrow> string \<Rightarrow> journal_event" where
  "journal_entry i n k a = \<lparr>event_id = i, journal_run = ''run-1'', ordinal = n, event_kind = k,
     event_activity = Some a\<rparr>"

definition db_started :: journal_event where
  "db_started = journal_entry ''e1'' 1 STEP_STARTED ''start:db''"

definition db_uncertain :: journal_event where
  "db_uncertain = journal_entry ''e2'' 2 STEP_UNCERTAIN ''start:db''"

definition db_resolved :: journal_event where
  "db_resolved = journal_entry ''e3'' 3 STEP_UNCERTAINTY_RESOLVED_SUCCEEDED ''start:db''"

definition api_started :: journal_event where
  "api_started = journal_entry ''e4'' 4 STEP_STARTED ''start:api''"

lemmas sample_entries = db_started_def db_uncertain_def db_resolved_def api_started_def journal_entry_def

definition sample_projection :: journal_projection where
  "sample_projection = \<lparr>projected_state = set_step api RUNNING sample_state,
     in_flight = [api_started], uncertain = [], compensation_in_flight = [],
     compensation_uncertain = []\<rparr>"

lemma sample_projected:
  "project_activity_journal sample_plan [db_started, db_uncertain, db_resolved, api_started] =
     Inr sample_projection"
  by code_simp

section \<open>An effect attempt\<close>

definition fingerprint_of :: "char \<Rightarrow> string" where
  "fingerprint_of c = replicate 64 c"

definition attempt_one :: attempt_identity where
  "attempt_one = \<lparr>attempt_run = RunId ''run-1'', attempt_activity = ''start:db'', attempt_number = 1\<rparr>"

definition sample_fence :: attempt_fence where
  "sample_fence = \<lparr>fence_worker = ''worker'', fence_generation = 1\<rparr>"

definition other_fence :: attempt_fence where
  "other_fence = \<lparr>fence_worker = ''worker'', fence_generation = 2\<rparr>"

definition sample_decision :: recovery_decision where
  "sample_decision = \<lparr>decision_id = ''d1'', decision_attempt = attempt_one,
     decision_resolution = ResolvedSucceeded, uncertain_fingerprint = fingerprint_of CHR ''b'',
     evidence_fingerprint = fingerprint_of CHR ''c''\<rparr>"

definition blank_transition :: "transition_kind \<Rightarrow> attempt_transition" where
  "blank_transition k = \<lparr>transition_of = k, transition_identity = attempt_one, transition_request = None,
     transition_outcome = None, transition_prior = None, transition_decision = None\<rparr>"

definition started_transition :: attempt_transition where
  "started_transition = (blank_transition TransitionStarted)
     \<lparr>transition_request := Some (fingerprint_of CHR ''a'')\<rparr>"

definition uncertain_transition :: attempt_transition where
  "uncertain_transition = (blank_transition TransitionUncertain)
     \<lparr>transition_outcome := Some (fingerprint_of CHR ''b'')\<rparr>"

definition reconciled_transition :: attempt_transition where
  "reconciled_transition = (blank_transition TransitionReconciled)
     \<lparr>transition_decision := Some sample_decision\<rparr>"

definition started_attempt :: attempt_state where
  "started_attempt = \<lparr>state_identity = attempt_one, state_request = fingerprint_of CHR ''a'',
     state_fence = sample_fence, state_status = AttemptStarted, state_outcome = None,
     state_prior = None, state_decision = None\<rparr>"

definition uncertain_attempt :: attempt_state where
  "uncertain_attempt = started_attempt\<lparr>state_status := AttemptUncertain,
     state_outcome := Some (fingerprint_of CHR ''b'')\<rparr>"

definition recovered_attempt :: attempt_state where
  "recovered_attempt = uncertain_attempt\<lparr>state_status := AttemptSucceeded,
     state_outcome := Some (fingerprint_of CHR ''c''), state_decision := Some sample_decision\<rparr>"

lemma sample_transitions_wf: "wf_fence sample_fence" "wf_decision sample_decision"
  "wf_transition started_transition" "wf_transition uncertain_transition"
  "wf_transition reconciled_transition"
proof -
  have i: "wf_identity attempt_one" by code_simp
  have f: "is_fingerprint (fingerprint_of CHR ''a'')" "is_fingerprint (fingerprint_of CHR ''b'')"
    "is_fingerprint (fingerprint_of CHR ''c'')" by code_simp+
  show "wf_fence sample_fence" by code_simp
  have t: "valid_public_text ''d1''" by code_simp
  show d: "wf_decision sample_decision"
    using i f t by (simp add: wf_decision_def sample_decision_def)
  show "wf_transition started_transition" "wf_transition uncertain_transition"
    "wf_transition reconciled_transition"
    using i f d by (simp_all add: wf_transition_def started_transition_def uncertain_transition_def
        reconciled_transition_def blank_transition_def lineage_ok_def recovery_agrees_def)
      (simp_all add: attempt_one_def sample_decision_def)
qed

lemma sample_folds:
  "fold_effect_attempt None started_transition sample_fence = Inr started_attempt"
  "fold_effect_attempt (Some started_attempt) uncertain_transition sample_fence = Inr uncertain_attempt"
  "fold_effect_attempt (Some uncertain_attempt) reconciled_transition sample_fence = Inr recovered_attempt"
  by code_simp+

lemma sample_attempts_wf:
  "wf_state started_attempt" "wf_state uncertain_attempt" "wf_state recovered_attempt"
proof -
  note wf = sample_transitions_wf and fold = sample_folds
  show s: "wf_state started_attempt" by (rule start_wf [OF wf(3,1) fold(1)])
  show u: "wf_state uncertain_attempt"
    using fold(2) fold_step [OF s wf(4)] s wf(4) by (auto intro: attempt_step_wf)
  show "wf_state recovered_attempt"
    using fold(3) fold_step [OF u wf(5)] u wf(5) by (auto intro: attempt_step_wf)
qed

end
