(* ===== verification/Plan_Properties.thy ===== *)
theory Plan_Properties
  imports Sample_Values
begin

text \<open>
  Properties of the data model and of the activity plan. Each is stated over the model's
  definitions and rests on the lemmas of the component.
\<close>

text \<open>
  C3: the constructor of an activity plan accepts exactly the valid compositions; what it
  accepts is a permutation of its input in which every predecessor comes earlier.
\<close>

theorem plan_construction:
  "(\<exists>p. make_plan as = Inr p) = valid_composition as \<and>
   (make_plan as = Inr p \<longrightarrow> mset (activities p) = mset as \<and> ordered_from {} (activities p))"
  using make_plan_accepts make_plan_correct by blast

theorem plan_construction_witness:
  "mset (activities sample_plan) = mset [wait_api, start_api, start_db] \<and>
   ordered_from {} (activities sample_plan)"
  using plan_construction [of "[wait_api, start_api, start_db]" sample_plan] sample_plan_made by blast

text \<open>
  On a dictionary without foreign predecessors, the depth-first search with its path
  and visited sets returns whether the dependency relation has a cycle.
\<close>

theorem cycle_detection: "closed_dict by_id \<Longrightarrow> has_cycle by_id = Inr (\<not> acyclic (needs by_id))"
  by (rule has_cycle_correct)

theorem cycle_detection_witness:
  "has_cycle [(activity_id start_db, start_db), (activity_id start_api, start_api)] =
     Inr (\<not> acyclic (needs [(activity_id start_db, start_db), (activity_id start_api, start_api)]))"
  by (rule cycle_detection)
    (simp add: closed_dict_def sample_activities make_activity_def predecessors_def)

text \<open>
  The constructor forgets the order of its argument, errors included: two lists with
  the same activities give the same plan, or the same violations in the same order.
\<close>

theorem plan_order_insensitive: "mset as = mset bs \<Longrightarrow> make_plan as = make_plan bs"
  by (rule make_plan_order)

theorem plan_order_insensitive_witness:
  "make_plan [start_db, wait_api, start_api] = make_plan [wait_api, start_api, start_db]"
  by (rule plan_order_insensitive) simp

text \<open>
  Compensation is an involution on the compensatable operations; an operation and its
  inverse are materialized from opposite graphs unless the operation is its own inverse.
\<close>

theorem compensation_is_involution:
  "compensation_for_operation oper = Compensate back src \<Longrightarrow>
     \<exists>src'. compensation_for_operation back = Compensate oper src' \<and>
       (if back = oper then src = BASE_GRAPH \<and> src' = BASE_GRAPH else src \<noteq> src')"
  by (rule compensation_involution)

theorem compensation_is_involution_witness:
  "\<exists>src'. compensation_for_operation (StopNode (NodeTarget ''db'')) =
     Compensate (StartNode (NodeTarget ''db'')) src'"
  using compensation_is_involution [of "StartNode (NodeTarget ''db'')" "StopNode (NodeTarget ''db'')"
    DESIRED_GRAPH] by auto

text \<open>
  The text of a valid protocol parses back to it, its descriptor decodes back to it,
  and every valid protocol has an endpoint scheme.
\<close>

theorem protocol_round_trips:
  "valid_protocol p \<Longrightarrow> parse_protocol (protocol_value p) = Inr p \<and>
     protocol_from_descriptor (protocol_descriptor p) = Inr p \<and>
     (\<exists>ss. endpoint_schemes p = Inr ss \<and> ss \<noteq> [])"
  using parse_protocol_value protocol_codec.roundtrip endpoint_schemes_total by blast

theorem protocol_round_trips_witness:
  "parse_protocol (protocol_value (hd canonical_protocols)) = Inr (hd canonical_protocols)"
proof -
  have "valid_protocol (hd canonical_protocols)"
    unfolding valid_protocol_iff by (rule list.set_sel(1)) (simp add: canonical_protocols_def)
  from protocol_round_trips [OF this] show ?thesis by blast
qed

text \<open>
  A constructed resource lifecycle is well formed and its data resources are in the
  order of their identifiers, whatever the order of the argument.
\<close>

theorem lifecycle_construction:
  "make_lifecycle own cp ds = Inr l \<Longrightarrow> mset ds = mset ds' \<Longrightarrow>
     wf_lifecycle l \<and> make_lifecycle own cp ds' = Inr l"
  using make_lifecycle_wf make_lifecycle_order by metis

theorem lifecycle_construction_witness:
  "wf_lifecycle sample_lifecycle \<and>
   make_lifecycle OWNED EPHEMERAL [cache_volume, data_volume] = Inr sample_lifecycle"
  using lifecycle_construction [OF sample_lifecycle_made, of "[cache_volume, data_volume]"] by simp

end
