(* ===== verification/Saga_Properties.thy ===== *)
theory Saga_Properties
  imports Sample_Values
begin

text \<open>
  Properties of the saga programs, of the event-sourced saga state and of the journal
  projection.
\<close>

section \<open>Saga state\<close>

text \<open>
  C12: once a saga has a failed step, is cancelled, or has admitted compensation, no accepted
  continuation of its history starts a forward step.
\<close>

theorem halted_saga_starts_nothing:
  "consistent_saga s \<Longrightarrow> halted s \<Longrightarrow> evolve_all s es = Inr t \<Longrightarrow> SagaStepStarted i \<notin> set es"
  unfolding evolve_all_foldR by (rule halted_no_start)

theorem halted_saga_starts_nothing_witness:
  "SagaStepStarted api \<notin> set [SagaCompensationStarted db, SagaCompensationSucceeded db]"
proof (rule halted_saga_starts_nothing)
  show "consistent_saga failed_state"
    using saga.fold_consistent [OF evidence_known(4) [OF sample_evidence] failed_replay] .
  show "halted failed_state" by (simp add: halted_def failed_state_def)
  show "evolve_all failed_state [SagaCompensationStarted db, SagaCompensationSucceeded db] =
    Inr (set_step db COMPENSATED failed_state)" by code_simp
qed

text \<open>
  C13: from a consistent state, while no forward step succeeds, the steps whose compensation a history starts are a
  prefix of the candidates, which are the undoable completed steps in reverse completion
  order, and the rest are the candidates that remain.
\<close>

theorem undo_follows_reverse_completion:
  "consistent_saga s \<Longrightarrow> evolve_all s es = Inr t \<Longrightarrow> (\<forall>i. SagaStepSucceeded i \<notin> set es) \<Longrightarrow>
     compensation_candidates s = Inr (candidates_of s) \<and>
     candidates_of s = undone es @ candidates_of t"
  unfolding evolve_all_foldR
  using undone_candidates compensation_candidates_known [OF consistent_known] by blast

theorem undo_follows_reverse_completion_witness:
  "candidates_of sample_state = undone [SagaCancelled, SagaCompensationStarted db] @
     candidates_of (set_step db COMPENSATING (sample_state\<lparr>cancelled := True\<rparr>))"
proof -
  have "evolve_all sample_state [SagaCancelled, SagaCompensationStarted db] =
      Inr (set_step db COMPENSATING (sample_state\<lparr>cancelled := True\<rparr>))" by code_simp
  from undo_follows_reverse_completion [OF evidence_known(4) [OF sample_evidence] this]
  show ?thesis by simp
qed

text \<open>
  C22: on a consistent state \<open>evolve\<close> is exactly the abstract machine \<open>saga_trans\<close>: it
  accepts an event when the machine has the transition, with the same next state, and its
  result is consistent again.
\<close>

theorem evolve_implements_machine:
  "consistent_saga s \<Longrightarrow>
     (evolve s e = Inr t) = saga_trans s e t \<and> (evolve s e = Inr t \<longrightarrow> consistent_saga t)"
  using evolve_saga_trans [OF consistent_known] evolve_consistent by blast

theorem evolve_implements_machine_witness:
  "consistent_saga (set_step api RUNNING sample_state)"
proof -
  have "evolve sample_state (SagaStepStarted api) = Inr (set_step api RUNNING sample_state)"
    by code_simp
  with evolve_implements_machine [OF evidence_known(4) [OF sample_evidence]] show ?thesis by blast
qed

text \<open>
  C23: \<open>decide\<close> refuses a command exactly when \<open>evolve\<close> refuses its event, with the same
  exception, and otherwise emits that one event.
\<close>

theorem decide_agrees_with_evolve:
  "consistent_saga s \<Longrightarrow> decide s c = bindR (evolve s (event_of c)) (\<lambda>_. Inr [event_of c])"
  by (rule decide_evolve [OF consistent_known])

theorem decide_agrees_with_evolve_witness:
  "decide sample_state (StartSagaStep api) =
     bindR (evolve sample_state (SagaStepStarted api)) (\<lambda>_. Inr [SagaStepStarted api])"
  using decide_agrees_with_evolve [OF evidence_known(4) [OF sample_evidence], of "StartSagaStep api"]
  by simp

text \<open>
  In an accepted history every step moves only along its life cycle (pending, running,
  succeeded or failed, compensating, compensated or failed compensation), and neither the
  steps nor the availability of their compensation change.
\<close>

theorem step_life_cycle:
  "consistent_saga s \<Longrightarrow> evolve_all s es = Inr t \<Longrightarrow>
     step_ids t = step_ids s \<and> available_at t = available_at s \<and>
     rel_option step_edge\<^sup>*\<^sup>* (status_at s i) (status_at t i)"
  using replay_path [of s es t] unfolding evolve_all_foldR step_path_def by blast

theorem step_life_cycle_witness:
  "step_edge\<^sup>*\<^sup>* PENDING FAILED \<and> step_ids failed_state = step_ids sample_state"
proof -
  have life: "rel_option step_edge\<^sup>*\<^sup>* (status_at sample_state api) (status_at failed_state api)"
    and ids: "step_ids failed_state = step_ids sample_state"
    using step_life_cycle [OF evidence_known(4) [OF sample_evidence]] failed_replay
    unfolding evolve_all_foldR by blast+
  have "status_at sample_state api = Some PENDING" "status_at failed_state api = Some FAILED"
    by code_simp+
  with life ids show ?thesis by simp
qed

text \<open>
  C40: every accepted history of a saga is finite, with a bound that depends on the number
  of its steps only.
\<close>

theorem history_is_bounded:
  "consistent_saga s \<Longrightarrow> evolve_all s es = Inr t \<Longrightarrow> length es \<le> 4 * length (steps s) + 2"
  unfolding evolve_all_foldR by (rule replay_length)

theorem history_is_bounded_witness:
  "length [SagaStepStarted api, SagaStepFailed api] \<le> 4 * length (steps sample_state) + 2"
  by (rule history_is_bounded [OF evidence_known(4) [OF sample_evidence]])
    (use failed_replay evolve_all_foldR in simp)

text \<open>
  Compensation that nobody asked for is accepted, and after it the saga is active
  again. In a state that is neither failed, cancelled nor in compensation, starting and
  completing the compensation of the latest undoable step leads to an active saga.
\<close>

theorem unrequested_compensation_reactivates:
  "consistent_saga s \<Longrightarrow> \<not> halted s \<Longrightarrow> candidates_of s = i # is \<Longrightarrow>
     \<not> any_status COMPENSATING s \<Longrightarrow> \<not> any_status COMPENSATION_FAILED s \<Longrightarrow>
     \<exists>t. evolve_all s [SagaCompensationStarted i, SagaCompensationSucceeded i] = Inr t \<and>
       saga_status t = Inr SagaActive"
  using quiet_compensation_active [of s i "is"] saga.fold_consistent [of s _ ]
    saga_status_known [OF consistent_known] unfolding evolve_all_foldR by metis

theorem unrequested_compensation_reactivates_witness:
  "\<exists>t. evolve_all sample_state [SagaCompensationStarted db, SagaCompensationSucceeded db] = Inr t \<and>
     saga_status t = Inr SagaActive"
proof (rule unrequested_compensation_reactivates [OF evidence_known(4) [OF sample_evidence]])
  show "\<not> halted sample_state" by (simp add: halted_def sample_state_def)
  show "candidates_of sample_state = [db]" by code_simp
  show "\<not> any_status COMPENSATING sample_state" "\<not> any_status COMPENSATION_FAILED sample_state"
    by code_simp+
qed

section \<open>Saga programs\<close>

text \<open>
  Sequential composition is associative with \<open>End\<close> as its unit, and a composed program
  flattens to the steps of its parts, in order, exactly when no identity is repeated.
\<close>

theorem composition_flattens:
  "then_program (then_program p q) r = then_program p (then_program q r) \<and>
   then_program End p = p \<and> then_program p End = p \<and>
   (program_steps (then_program p q) = Inr us) =
     (\<exists>vs ws. program_steps p = Inr vs \<and> program_steps q = Inr ws \<and> us = vs @ ws \<and>
        step_id ` set vs \<inter> step_id ` set ws = {})"
  using then_program_assoc [of p q r] program_steps_then [of p q us] by simp

section \<open>Journal\<close>

text \<open>
  A prefix of an accepted journal is accepted, and from its projection to the one of
  the whole journal every step has moved along its life cycle only.
\<close>

theorem journal_prefix:
  "is_plan p \<Longrightarrow> project_activity_journal p (es @ fs) = Inr r \<Longrightarrow>
     \<exists>r0. project_activity_journal p es = Inr r0 \<and>
       step_path (projected_state r0) (projected_state r)"
  by (rule project_prefix)

theorem journal_prefix_witness:
  "\<exists>r0. project_activity_journal sample_plan [db_started, db_uncertain] = Inr r0 \<and>
     step_path (projected_state r0) (projected_state sample_projection)"
  by (rule journal_prefix [OF sample_is_plan, where fs = "[db_resolved, api_started]"])
    (use sample_projected in simp)

text \<open>
  The completion order of a projection is the order of the success events of the
  journal, resolved uncertainties included, and no activity succeeds twice.
\<close>

theorem journal_completions:
  "is_plan p \<Longrightarrow> project_activity_journal p es = Inr r \<Longrightarrow>
     completion_order (projected_state r) = journal_successes es \<and> distinct (journal_successes es)"
  by (rule project_completions)

theorem journal_completions_witness:
  "completion_order (projected_state sample_projection) =
     journal_successes [db_started, db_uncertain, db_resolved, api_started]"
  using journal_completions [OF sample_is_plan sample_projected] by blast

text \<open>
  A resolution of an uncertain step is accepted only after the journal has recorded
  the uncertainty of that step.
\<close>

theorem resolution_needs_uncertainty:
  "project_activity_journal p (ds @ e # fs) = Inr r \<Longrightarrow> event_kind e \<in> resolution_kinds \<Longrightarrow>
     event_activity e = Some a \<Longrightarrow>
     \<exists>u\<in>set ds. event_kind u = STEP_UNCERTAIN \<and> event_activity u = Some a"
  by (rule project_resolution)

theorem resolution_needs_uncertainty_witness:
  "\<exists>u\<in>set [db_started, db_uncertain]. event_kind u = STEP_UNCERTAIN \<and>
     event_activity u = Some ''start:db''"
  by (rule resolution_needs_uncertainty [where p = sample_plan and e = db_resolved and
        fs = "[api_started]" and r = sample_projection])
    (use sample_projected in \<open>simp_all add: db_resolved_def journal_entry_def resolution_kinds_def\<close>)

text \<open>
  Every event a projection reports in flight is a recorded start of a step that is
  running in the projected state.
\<close>

theorem in_flight_is_running:
  "is_plan p \<Longrightarrow> project_activity_journal p es = Inr r \<Longrightarrow> e \<in> set (in_flight r) \<Longrightarrow>
     e \<in> set es \<and> event_kind e = STEP_STARTED \<and>
     (\<exists>a. event_activity e = Some a \<and> status_at (projected_state r) (SagaStepId a) = Some RUNNING)"
  by (rule project_in_flight)

theorem in_flight_is_running_witness:
  "api_started \<in> set [db_started, db_uncertain, db_resolved, api_started] \<and>
   event_kind api_started = STEP_STARTED"
  using in_flight_is_running [OF sample_is_plan sample_projected, of api_started]
  by (simp add: sample_projection_def)

end
