(* ===== verification/Recovery_Properties.thy ===== *)
theory Recovery_Properties
  imports Sample_Values
begin

text \<open>Properties of the effect attempts and of their descriptors.\<close>

text \<open>
  C38: on coherent values the fold is exactly the attempt machine under its guards: the
  transition names the attempt, the fence is the recorded one, and the step is a repetition,
  a first result, or a recovery of an uncertain result. No constructor check fails inside.
\<close>

theorem fold_implements_machine:
  "wf_state s \<Longrightarrow> wf_transition t \<Longrightarrow>
     (fold_effect_attempt (Some s) t f = Inr s') =
       (transition_identity t = state_identity s \<and> f = state_fence s \<and> attempt_step s t s') \<and>
     (fold_effect_attempt (Some s) t f = Inr s' \<longrightarrow> wf_state s')"
  using fold_step attempt_step_wf by blast

theorem fold_implements_machine_witness:
  "attempt_step uncertain_attempt reconciled_transition recovered_attempt \<and>
   fold_effect_attempt (Some uncertain_attempt) reconciled_transition other_fence \<noteq> Inr recovered_attempt"
proof
  note fold = fold_implements_machine [OF sample_attempts_wf(2) sample_transitions_wf(5)]
  show "attempt_step uncertain_attempt reconciled_transition recovered_attempt"
    using fold sample_folds(3) by blast
  have "other_fence \<noteq> state_fence uncertain_attempt" by code_simp
  then show "fold_effect_attempt (Some uncertain_attempt) reconciled_transition other_fence \<noteq>
      Inr recovered_attempt"
    using fold by blast
qed

text \<open>
  Folding is idempotent, for the first transition of an attempt as for every later
  one: a transition that was accepted is accepted again and changes nothing.
\<close>

theorem fold_is_idempotent:
  "(\<And>s. current = Some s \<Longrightarrow> wf_state s) \<Longrightarrow> wf_transition t \<Longrightarrow> wf_fence f \<Longrightarrow>
     fold_effect_attempt current t f = Inr s' \<Longrightarrow> fold_effect_attempt (Some s') t f = Inr s'"
  by (rule fold_idempotent)

theorem fold_is_idempotent_witness:
  "fold_effect_attempt (Some recovered_attempt) reconciled_transition sample_fence =
     Inr recovered_attempt"
  by (rule fold_is_idempotent [OF _ sample_transitions_wf(5,1) sample_folds(3)])
    (use sample_attempts_wf(2) in simp)

text \<open>
  An attempt that is neither started nor uncertain is settled: no sequence of stored
  transitions, under any fences, changes it.
\<close>

theorem settled_attempt_is_final:
  "wf_state s \<Longrightarrow> state_status s \<notin> {AttemptStarted, AttemptUncertain} \<Longrightarrow>
     foldR fold_stored s vs = Inr t \<Longrightarrow> t = s"
  by (rule settled_absorbs)

theorem settled_attempt_is_final_witness:
  "\<exists>t. foldR fold_stored recovered_attempt
     [(transition_descriptor reconciled_transition, sample_fence)] = Inr t \<and> t = recovered_attempt"
proof -
  have "fold_effect_attempt (Some recovered_attempt) reconciled_transition sample_fence =
      Inr recovered_attempt" by code_simp
  then have "foldR fold_stored recovered_attempt
      [(transition_descriptor reconciled_transition, sample_fence)] = Inr recovered_attempt"
    by (simp add: fold_stored_descriptor sample_transitions_wf)
  moreover have "state_status recovered_attempt \<notin> {AttemptStarted, AttemptUncertain}"
    by (simp add: recovered_attempt_def)
  ultimately show ?thesis using settled_attempt_is_final [OF sample_attempts_wf(3)] by blast
qed

text \<open>
  Over any sequence of stored transitions an attempt keeps its identity, request,
  fence and lineage, and its status follows the attempt life cycle.
\<close>

theorem attempt_life_cycle:
  "wf_state s \<Longrightarrow> foldR fold_stored s vs = Inr t \<Longrightarrow> wf_state t \<and> attempt_path s t"
  using attempts.fold_consistent replay_attempt_path by blast

theorem attempt_life_cycle_witness: "attempt_path started_attempt recovered_attempt"
proof -
  have "foldR fold_stored started_attempt [(transition_descriptor uncertain_transition, sample_fence),
      (transition_descriptor reconciled_transition, sample_fence)] = Inr recovered_attempt"
    using sample_folds(2,3) by (simp add: fold_stored_descriptor sample_transitions_wf)
  with attempt_life_cycle [OF sample_attempts_wf(1)] show ?thesis by blast
qed

text \<open>
  A recorded outcome is replaced only when it was uncertain, by a decision that names
  the uncertain evidence, and the new outcome is the evidence of that decision.
\<close>

theorem outcome_has_provenance:
  "wf_state s \<Longrightarrow> fold_stored s v = Inr t \<Longrightarrow> state_outcome s = Some r \<Longrightarrow> state_outcome t \<noteq> Some r \<Longrightarrow>
     \<exists>c. state_status s = AttemptUncertain \<and> state_decision t = Some c \<and>
       uncertain_fingerprint c = r \<and> state_outcome t = Some (evidence_fingerprint c) \<and>
       state_status t = status_by_resolution (decision_resolution c)"
  by (rule outcome_provenance)

theorem outcome_has_provenance_witness:
  "\<exists>c. state_decision recovered_attempt = Some c \<and> uncertain_fingerprint c = fingerprint_of CHR ''b''"
proof -
  have "fold_stored uncertain_attempt (transition_descriptor reconciled_transition, sample_fence) =
      Inr recovered_attempt"
    using sample_folds(3) by (simp add: fold_stored_descriptor sample_transitions_wf)
  moreover have "state_outcome uncertain_attempt = Some (fingerprint_of CHR ''b'')"
    "state_outcome recovered_attempt \<noteq> Some (fingerprint_of CHR ''b'')" by code_simp+
  ultimately show ?thesis using outcome_has_provenance [OF sample_attempts_wf(2)] by blast
qed

text \<open>
  C39: the descriptor of a coherent attempt state decodes to that state, nested identity,
  fence, lineage and decision included, and whatever decodes is coherent.
\<close>

theorem attempt_state_round_trip:
  "(wf_state s \<longrightarrow> state_from_descriptor (state_descriptor s) = Inr s) \<and>
   (state_from_descriptor d = Inr s \<longrightarrow> wf_state s)"
  using state_codec.roundtrip state_codec.decoded_valid by blast

theorem attempt_state_round_trip_witness:
  "state_from_descriptor (state_descriptor recovered_attempt) = Inr recovered_attempt"
  using attempt_state_round_trip sample_attempts_wf(3) by blast

end
