(* ===== verification/Run_Vocabulary.thy ===== *)
theory Run_Vocabulary
  imports Bounded_Values
begin

text \<open>
  The closed vocabularies of \<open>core/operations/lifecycle.py\<close> and the two of
  \<open>operations/services.py\<close> it uses. Each \<open>StrEnum\<close> is a datatype with its values and the
  list of its members, in the order of the class, and an instance of \<open>closed_enum\<close>.
\<close>

section \<open>\<open>ExecutionRequestStatus\<close>\<close>

datatype request_status = RequestQueued | RequestClaimed | RequestCancelled | RequestAbandoned

primrec request_status_value :: "request_status \<Rightarrow> string" where
  "request_status_value RequestQueued = ''queued''"
| "request_status_value RequestClaimed = ''claimed''"
| "request_status_value RequestCancelled = ''cancelled''"
| "request_status_value RequestAbandoned = ''abandoned''"

definition request_statuses :: "request_status list" where
  "request_statuses = [RequestQueued, RequestClaimed, RequestCancelled, RequestAbandoned]"

interpretation request_status: closed_enum request_statuses request_status_value
proof
  show "distinct (map request_status_value request_statuses)" by (simp add: request_statuses_def)
  show "m \<in> set request_statuses" for m by (cases m) (simp_all add: request_statuses_def)
qed

section \<open>\<open>ActivityRunStatus\<close>\<close>

datatype run_status = RunClaimed | RunRunning | RunPaused | RunSucceeded | RunFailed
    | RunCompensating | RunCompensated | RunPartiallyFailed | RunUncompensatedFailure
    | RunCancelled

primrec run_status_value :: "run_status \<Rightarrow> string" where
  "run_status_value RunClaimed = ''claimed''"
| "run_status_value RunRunning = ''running''"
| "run_status_value RunPaused = ''paused''"
| "run_status_value RunSucceeded = ''succeeded''"
| "run_status_value RunFailed = ''failed''"
| "run_status_value RunCompensating = ''compensating''"
| "run_status_value RunCompensated = ''compensated''"
| "run_status_value RunPartiallyFailed = ''partially_failed''"
| "run_status_value RunUncompensatedFailure = ''uncompensated_failure''"
| "run_status_value RunCancelled = ''cancelled''"

definition run_statuses :: "run_status list" where
  "run_statuses = [RunClaimed, RunRunning, RunPaused, RunSucceeded, RunFailed, RunCompensating
    , RunCompensated, RunPartiallyFailed, RunUncompensatedFailure, RunCancelled]"

interpretation run_status: closed_enum run_statuses run_status_value
proof
  show "distinct (map run_status_value run_statuses)" by (simp add: run_statuses_def)
  show "m \<in> set run_statuses" for m by (cases m) (simp_all add: run_statuses_def)
qed

section \<open>\<open>ActivityEventScope\<close>\<close>

datatype event_scope = ScopeRun | ScopeActivity

fun event_scope_value :: "event_scope \<Rightarrow> string" where
  "event_scope_value ScopeRun = ''run''"
| "event_scope_value ScopeActivity = ''activity''"

definition event_scopes :: "event_scope list" where
  "event_scopes = [ScopeRun, ScopeActivity]"

interpretation event_scope: closed_enum event_scopes event_scope_value
proof
  show "distinct (map event_scope_value event_scopes)" by (simp add: event_scopes_def)
  show "m \<in> set event_scopes" for m by (cases m) (simp_all add: event_scopes_def)
qed

section \<open>\<open>ActivityEventKind\<close>\<close>

datatype activity_event_kind = Ev_REQUEST_ADMITTED | Ev_REQUEST_CLAIMED
    | Ev_REQUEST_CLAIM_RENEWED | Ev_REQUEST_CLAIM_TAKEN_OVER | Ev_REQUEST_CLAIM_ABANDONED
    | Ev_RUN_OPENED | Ev_RUN_STARTED | Ev_RUN_PAUSED | Ev_RUN_RESUMED | Ev_STEP_STARTED
    | Ev_STEP_SUCCEEDED | Ev_STEP_FAILED | Ev_STEP_UNSUPPORTED | Ev_STEP_UNCERTAIN
    | Ev_STEP_UNCERTAINTY_RESOLVED_SUCCEEDED | Ev_STEP_UNCERTAINTY_RESOLVED_FAILED
    | Ev_STEP_UNCERTAINTY_ABANDONED | Ev_STEP_COMPENSATION_STARTED
    | Ev_STEP_COMPENSATION_SUCCEEDED | Ev_STEP_COMPENSATION_FAILED
    | Ev_STEP_COMPENSATION_UNSUPPORTED | Ev_STEP_COMPENSATION_UNCERTAIN
    | Ev_STEP_COMPENSATION_UNCERTAINTY_RESOLVED_SUCCEEDED
    | Ev_STEP_COMPENSATION_UNCERTAINTY_RESOLVED_FAILED
    | Ev_STEP_COMPENSATION_UNCERTAINTY_ABANDONED | Ev_RECOVERY_DECISION_RECORDED
    | Ev_RUN_COMPENSATION_STARTED | Ev_RUN_COMPENSATION_SUCCEEDED | Ev_RUN_COMPENSATION_FAILED
    | Ev_RUN_UNCOMPENSATED_FAILURE_ACCEPTED | Ev_RUN_SUCCEEDED | Ev_RUN_FAILED
    | Ev_RUN_CANCELLED | Ev_CURRENT_GRAPH_ADVANCED

primrec activity_event_kind_value :: "activity_event_kind \<Rightarrow> string" where
  "activity_event_kind_value Ev_REQUEST_ADMITTED = ''request_admitted''"
| "activity_event_kind_value Ev_REQUEST_CLAIMED = ''request_claimed''"
| "activity_event_kind_value Ev_REQUEST_CLAIM_RENEWED = ''request_claim_renewed''"
| "activity_event_kind_value Ev_REQUEST_CLAIM_TAKEN_OVER = ''request_claim_taken_over''"
| "activity_event_kind_value Ev_REQUEST_CLAIM_ABANDONED = ''request_claim_abandoned''"
| "activity_event_kind_value Ev_RUN_OPENED = ''run_opened''"
| "activity_event_kind_value Ev_RUN_STARTED = ''run_started''"
| "activity_event_kind_value Ev_RUN_PAUSED = ''run_paused''"
| "activity_event_kind_value Ev_RUN_RESUMED = ''run_resumed''"
| "activity_event_kind_value Ev_STEP_STARTED = ''step_started''"
| "activity_event_kind_value Ev_STEP_SUCCEEDED = ''step_succeeded''"
| "activity_event_kind_value Ev_STEP_FAILED = ''step_failed''"
| "activity_event_kind_value Ev_STEP_UNSUPPORTED = ''step_unsupported''"
| "activity_event_kind_value Ev_STEP_UNCERTAIN = ''step_uncertain''"
| "activity_event_kind_value Ev_STEP_UNCERTAINTY_RESOLVED_SUCCEEDED = ''step_uncertainty_resolved_succeeded''"
| "activity_event_kind_value Ev_STEP_UNCERTAINTY_RESOLVED_FAILED = ''step_uncertainty_resolved_failed''"
| "activity_event_kind_value Ev_STEP_UNCERTAINTY_ABANDONED = ''step_uncertainty_abandoned''"
| "activity_event_kind_value Ev_STEP_COMPENSATION_STARTED = ''step_compensation_started''"
| "activity_event_kind_value Ev_STEP_COMPENSATION_SUCCEEDED = ''step_compensation_succeeded''"
| "activity_event_kind_value Ev_STEP_COMPENSATION_FAILED = ''step_compensation_failed''"
| "activity_event_kind_value Ev_STEP_COMPENSATION_UNSUPPORTED = ''step_compensation_unsupported''"
| "activity_event_kind_value Ev_STEP_COMPENSATION_UNCERTAIN = ''step_compensation_uncertain''"
| "activity_event_kind_value Ev_STEP_COMPENSATION_UNCERTAINTY_RESOLVED_SUCCEEDED = ''step_compensation_uncertainty_resolved_succeeded''"
| "activity_event_kind_value Ev_STEP_COMPENSATION_UNCERTAINTY_RESOLVED_FAILED = ''step_compensation_uncertainty_resolved_failed''"
| "activity_event_kind_value Ev_STEP_COMPENSATION_UNCERTAINTY_ABANDONED = ''step_compensation_uncertainty_abandoned''"
| "activity_event_kind_value Ev_RECOVERY_DECISION_RECORDED = ''recovery_decision_recorded''"
| "activity_event_kind_value Ev_RUN_COMPENSATION_STARTED = ''run_compensation_started''"
| "activity_event_kind_value Ev_RUN_COMPENSATION_SUCCEEDED = ''run_compensation_succeeded''"
| "activity_event_kind_value Ev_RUN_COMPENSATION_FAILED = ''run_compensation_failed''"
| "activity_event_kind_value Ev_RUN_UNCOMPENSATED_FAILURE_ACCEPTED = ''run_uncompensated_failure_accepted''"
| "activity_event_kind_value Ev_RUN_SUCCEEDED = ''run_succeeded''"
| "activity_event_kind_value Ev_RUN_FAILED = ''run_failed''"
| "activity_event_kind_value Ev_RUN_CANCELLED = ''run_cancelled''"
| "activity_event_kind_value Ev_CURRENT_GRAPH_ADVANCED = ''current_graph_advanced''"

definition activity_event_kinds :: "activity_event_kind list" where
  "activity_event_kinds = [Ev_REQUEST_ADMITTED, Ev_REQUEST_CLAIMED, Ev_REQUEST_CLAIM_RENEWED
    , Ev_REQUEST_CLAIM_TAKEN_OVER, Ev_REQUEST_CLAIM_ABANDONED, Ev_RUN_OPENED, Ev_RUN_STARTED
    , Ev_RUN_PAUSED, Ev_RUN_RESUMED, Ev_STEP_STARTED, Ev_STEP_SUCCEEDED, Ev_STEP_FAILED
    , Ev_STEP_UNSUPPORTED, Ev_STEP_UNCERTAIN, Ev_STEP_UNCERTAINTY_RESOLVED_SUCCEEDED
    , Ev_STEP_UNCERTAINTY_RESOLVED_FAILED, Ev_STEP_UNCERTAINTY_ABANDONED
    , Ev_STEP_COMPENSATION_STARTED, Ev_STEP_COMPENSATION_SUCCEEDED, Ev_STEP_COMPENSATION_FAILED
    , Ev_STEP_COMPENSATION_UNSUPPORTED, Ev_STEP_COMPENSATION_UNCERTAIN
    , Ev_STEP_COMPENSATION_UNCERTAINTY_RESOLVED_SUCCEEDED
    , Ev_STEP_COMPENSATION_UNCERTAINTY_RESOLVED_FAILED
    , Ev_STEP_COMPENSATION_UNCERTAINTY_ABANDONED, Ev_RECOVERY_DECISION_RECORDED
    , Ev_RUN_COMPENSATION_STARTED, Ev_RUN_COMPENSATION_SUCCEEDED, Ev_RUN_COMPENSATION_FAILED
    , Ev_RUN_UNCOMPENSATED_FAILURE_ACCEPTED, Ev_RUN_SUCCEEDED, Ev_RUN_FAILED, Ev_RUN_CANCELLED
    , Ev_CURRENT_GRAPH_ADVANCED]"

interpretation activity_event_kind: closed_enum activity_event_kinds activity_event_kind_value
proof
  show "distinct (map activity_event_kind_value activity_event_kinds)" by (simp add: activity_event_kinds_def)
  show "m \<in> set activity_event_kinds" for m by (cases m) (simp_all add: activity_event_kinds_def)
qed

section \<open>\<open>FailureCategory\<close>\<close>

datatype failure_category = FailureRetryable | FailureTerminal | FailureUncertain
    | FailureOperatorReview

primrec failure_category_value :: "failure_category \<Rightarrow> string" where
  "failure_category_value FailureRetryable = ''retryable''"
| "failure_category_value FailureTerminal = ''terminal''"
| "failure_category_value FailureUncertain = ''uncertain''"
| "failure_category_value FailureOperatorReview = ''operator_review''"

definition failure_categories :: "failure_category list" where
  "failure_categories = [FailureRetryable, FailureTerminal, FailureUncertain
    , FailureOperatorReview]"

interpretation failure_category: closed_enum failure_categories failure_category_value
proof
  show "distinct (map failure_category_value failure_categories)" by (simp add: failure_categories_def)
  show "m \<in> set failure_categories" for m by (cases m) (simp_all add: failure_categories_def)
qed

section \<open>\<open>RecoveryScope\<close>\<close>

datatype recovery_scope = AuthorityOperate | AuthorityResolveUncertainty | AuthorityCompensate
    | AuthorityAcceptLoss | AuthorityRenewClaim | AuthorityTakeOverClaim | AuthorityAbandonClaim

primrec recovery_scope_value :: "recovery_scope \<Rightarrow> string" where
  "recovery_scope_value AuthorityOperate = ''recovery:operate''"
| "recovery_scope_value AuthorityResolveUncertainty = ''recovery:resolve-uncertainty''"
| "recovery_scope_value AuthorityCompensate = ''recovery:compensate''"
| "recovery_scope_value AuthorityAcceptLoss = ''recovery:accept-loss''"
| "recovery_scope_value AuthorityRenewClaim = ''recovery:renew-claim''"
| "recovery_scope_value AuthorityTakeOverClaim = ''recovery:take-over-claim''"
| "recovery_scope_value AuthorityAbandonClaim = ''recovery:abandon-claim''"

definition recovery_scopes :: "recovery_scope list" where
  "recovery_scopes = [AuthorityOperate, AuthorityResolveUncertainty, AuthorityCompensate
    , AuthorityAcceptLoss, AuthorityRenewClaim, AuthorityTakeOverClaim, AuthorityAbandonClaim]"

interpretation recovery_scope: closed_enum recovery_scopes recovery_scope_value
proof
  show "distinct (map recovery_scope_value recovery_scopes)" by (simp add: recovery_scopes_def)
  show "m \<in> set recovery_scopes" for m by (cases m) (simp_all add: recovery_scopes_def)
qed

section \<open>\<open>RecoveryDecisionKind\<close>\<close>

datatype recovery_choice = ChooseConfirmEffectSucceeded | ChooseConfirmEffectFailed
    | ChooseResumeSameIntent | ChooseRetryAsNewRun | ChooseBeginCompensation
    | ChooseAcceptUncompensatedFailure | ChooseRemainPaused | ChooseRenewActiveClaim
    | ChooseRenewExpiredClaim | ChooseTakeOverExpiredClaim | ChooseAbandonExpiredClaim

primrec recovery_choice_value :: "recovery_choice \<Rightarrow> string" where
  "recovery_choice_value ChooseConfirmEffectSucceeded = ''confirm-effect-succeeded''"
| "recovery_choice_value ChooseConfirmEffectFailed = ''confirm-effect-failed''"
| "recovery_choice_value ChooseResumeSameIntent = ''resume-same-intent''"
| "recovery_choice_value ChooseRetryAsNewRun = ''retry-as-new-run''"
| "recovery_choice_value ChooseBeginCompensation = ''begin-compensation''"
| "recovery_choice_value ChooseAcceptUncompensatedFailure = ''accept-uncompensated-failure''"
| "recovery_choice_value ChooseRemainPaused = ''remain-paused''"
| "recovery_choice_value ChooseRenewActiveClaim = ''renew-active-claim''"
| "recovery_choice_value ChooseRenewExpiredClaim = ''renew-expired-claim''"
| "recovery_choice_value ChooseTakeOverExpiredClaim = ''take-over-expired-claim''"
| "recovery_choice_value ChooseAbandonExpiredClaim = ''abandon-expired-claim''"

definition recovery_choices :: "recovery_choice list" where
  "recovery_choices = [ChooseConfirmEffectSucceeded, ChooseConfirmEffectFailed
    , ChooseResumeSameIntent, ChooseRetryAsNewRun, ChooseBeginCompensation
    , ChooseAcceptUncompensatedFailure, ChooseRemainPaused, ChooseRenewActiveClaim
    , ChooseRenewExpiredClaim, ChooseTakeOverExpiredClaim, ChooseAbandonExpiredClaim]"

interpretation recovery_choice: closed_enum recovery_choices recovery_choice_value
proof
  show "distinct (map recovery_choice_value recovery_choices)" by (simp add: recovery_choices_def)
  show "m \<in> set recovery_choices" for m by (cases m) (simp_all add: recovery_choices_def)
qed

section \<open>\<open>LifecycleOperationKind\<close>\<close>

datatype lifecycle_operation = OpAdmitExecution | OpClaimRun | OpStartRun | OpPauseRun
    | OpResumeRun | OpCompleteRun | OpFailRun | OpBeginCompensation | OpCompleteCompensation
    | OpFailCompensation | OpCancelRun | OpRecordRecoveryDecision | OpAdvanceCurrentGraph

primrec lifecycle_operation_value :: "lifecycle_operation \<Rightarrow> string" where
  "lifecycle_operation_value OpAdmitExecution = ''admit-execution''"
| "lifecycle_operation_value OpClaimRun = ''claim-run''"
| "lifecycle_operation_value OpStartRun = ''start-run''"
| "lifecycle_operation_value OpPauseRun = ''pause-run''"
| "lifecycle_operation_value OpResumeRun = ''resume-run''"
| "lifecycle_operation_value OpCompleteRun = ''complete-run''"
| "lifecycle_operation_value OpFailRun = ''fail-run''"
| "lifecycle_operation_value OpBeginCompensation = ''begin-compensation''"
| "lifecycle_operation_value OpCompleteCompensation = ''complete-compensation''"
| "lifecycle_operation_value OpFailCompensation = ''fail-compensation''"
| "lifecycle_operation_value OpCancelRun = ''cancel-run''"
| "lifecycle_operation_value OpRecordRecoveryDecision = ''record-recovery-decision''"
| "lifecycle_operation_value OpAdvanceCurrentGraph = ''advance-current-graph''"

definition lifecycle_operations :: "lifecycle_operation list" where
  "lifecycle_operations = [OpAdmitExecution, OpClaimRun, OpStartRun, OpPauseRun, OpResumeRun
    , OpCompleteRun, OpFailRun, OpBeginCompensation, OpCompleteCompensation, OpFailCompensation
    , OpCancelRun, OpRecordRecoveryDecision, OpAdvanceCurrentGraph]"

interpretation lifecycle_operation: closed_enum lifecycle_operations lifecycle_operation_value
proof
  show "distinct (map lifecycle_operation_value lifecycle_operations)" by (simp add: lifecycle_operations_def)
  show "m \<in> set lifecycle_operations" for m by (cases m) (simp_all add: lifecycle_operations_def)
qed

section \<open>\<open>ContractEnforcementOwner\<close>\<close>

datatype enforcement_owner = OwnedByCoreContract | OwnedByOperations

fun enforcement_owner_value :: "enforcement_owner \<Rightarrow> string" where
  "enforcement_owner_value OwnedByCoreContract = ''core-contract''"
| "enforcement_owner_value OwnedByOperations = ''operations''"

definition enforcement_owners :: "enforcement_owner list" where
  "enforcement_owners = [OwnedByCoreContract, OwnedByOperations]"

interpretation enforcement_owner: closed_enum enforcement_owners enforcement_owner_value
proof
  show "distinct (map enforcement_owner_value enforcement_owners)" by (simp add: enforcement_owners_def)
  show "m \<in> set enforcement_owners" for m by (cases m) (simp_all add: enforcement_owners_def)
qed

section \<open>\<open>DeploymentProgramStage\<close>\<close>

datatype program_stage = StagePlan | StageApprove | StageAdmit | StageClaim | StageExecute
    | StageAdvance

primrec program_stage_value :: "program_stage \<Rightarrow> string" where
  "program_stage_value StagePlan = ''plan''"
| "program_stage_value StageApprove = ''approve''"
| "program_stage_value StageAdmit = ''admit''"
| "program_stage_value StageClaim = ''claim''"
| "program_stage_value StageExecute = ''execute''"
| "program_stage_value StageAdvance = ''advance''"

definition program_stages :: "program_stage list" where
  "program_stages = [StagePlan, StageApprove, StageAdmit, StageClaim, StageExecute, StageAdvance]"

interpretation program_stage: closed_enum program_stages program_stage_value
proof
  show "distinct (map program_stage_value program_stages)" by (simp add: program_stages_def)
  show "m \<in> set program_stages" for m by (cases m) (simp_all add: program_stages_def)
qed

section \<open>\<open>ControlPlaneServiceRole\<close>\<close>

datatype service_role = RolePlanning | RoleApproval | RoleAdmission | RoleLifecycle
    | RoleExecution | RoleRecovery | RoleObservation | RoleReads | RoleAuthorization

primrec service_role_value :: "service_role \<Rightarrow> string" where
  "service_role_value RolePlanning = ''planning''"
| "service_role_value RoleApproval = ''approval''"
| "service_role_value RoleAdmission = ''admission''"
| "service_role_value RoleLifecycle = ''lifecycle''"
| "service_role_value RoleExecution = ''execution''"
| "service_role_value RoleRecovery = ''recovery''"
| "service_role_value RoleObservation = ''observation''"
| "service_role_value RoleReads = ''reads''"
| "service_role_value RoleAuthorization = ''authorization''"

definition service_roles :: "service_role list" where
  "service_roles = [RolePlanning, RoleApproval, RoleAdmission, RoleLifecycle, RoleExecution
    , RoleRecovery, RoleObservation, RoleReads, RoleAuthorization]"

interpretation service_role: closed_enum service_roles service_role_value
proof
  show "distinct (map service_role_value service_roles)" by (simp add: service_roles_def)
  show "m \<in> set service_roles" for m by (cases m) (simp_all add: service_roles_def)
qed

end
