(* ===== verification/Run_Contract.thy ===== *)
theory Run_Contract
  imports Run_Vocabulary
begin

text \<open>
  The lifecycle contracts of \<open>core/operations/lifecycle.py\<close>: the four contract classes and
  their closed set, with the checks of the constructors, the descriptors and the parsers.
  A constructor is a check that returns its value, normalised. \<open>ValueError\<close> is caught and
  raised again as the contract error with the same message where the code does so.
\<close>

section \<open>Helpers\<close>

datatype contract_exn = InvalidExecutionLifecycleContract string | ContractValueError string

abbreviation "contract_error \<equiv> InvalidExecutionLifecycleContract"

definition contract_text :: "py \<Rightarrow> string \<Rightarrow> contract_exn + string" where
  "contract_text v label = (case v of PStr s \<Rightarrow> Inr s | _ \<Rightarrow> Inl (contract_error (label @ '' must be text'')))"

definition contract_bool :: "py \<Rightarrow> string \<Rightarrow> contract_exn + bool" where
  "contract_bool v label = (case v of PBool b \<Rightarrow> Inr b | _ \<Rightarrow> Inl (contract_error (label @ '' must be bool'')))"

definition contract_list :: "py \<Rightarrow> string \<Rightarrow> contract_exn + py list" where
  "contract_list v label = (case v of PList xs \<Rightarrow> Inr xs | _ \<Rightarrow> Inl (contract_error (label @ '' must be a list'')))"

definition contract_mapping :: "py \<Rightarrow> string \<Rightarrow> contract_exn + descriptor" where
  "contract_mapping v label = (case v of PDict d \<Rightarrow> Inr d
     | _ \<Rightarrow> Inl (contract_error (label @ '' must be a descriptor'')))"

text \<open>\<open>Enum(_text(value, label))\<close>, whose \<open>ValueError\<close> is turned into the contract error.\<close>

definition contract_enum :: "'a list \<Rightarrow> ('a \<Rightarrow> string) \<Rightarrow> string \<Rightarrow> string \<Rightarrow> py \<Rightarrow> contract_exn + 'a" where
  "contract_enum members value cls label v = bindR (contract_text v label) (\<lambda>s.
     case enum_of members value s of Some m \<Rightarrow> Inr m
     | None \<Rightarrow> Inl (contract_error (py_repr s @ '' is not a valid '' @ cls)))"

definition contract_keys :: "descriptor \<Rightarrow> string list \<Rightarrow> string \<Rightarrow> contract_exn + unit" where
  "contract_keys d expected subject = requireR (same_keys d expected)
     (contract_error (subject @ '' descriptor has unexpected keys''))"

definition reject_duplicates :: "string \<Rightarrow> 'a list \<Rightarrow> contract_exn + unit" where
  "reject_duplicates label xs = requireR (\<not> has_duplicates xs)
     (contract_error (label @ '' values must be unique''))"

definition require_exact_member_set :: "string \<Rightarrow> 'a list \<Rightarrow> 'a list \<Rightarrow> contract_exn + unit" where
  "require_exact_member_set label actual expected =
     requireR (\<not> (set actual \<noteq> set expected \<or> length actual \<noteq> length expected))
       (contract_error (label @ '' must cover the canonical closed set''))"

definition check_closed_values :: "string \<Rightarrow> py \<Rightarrow> string list \<Rightarrow> contract_exn + unit" where
  "check_closed_values label v expected = bindR (contract_list v label) (\<lambda>xs.
     requireR (xs = map PStr expected)
       (contract_error (label @ '' must match the canonical closed values'')))"

definition contract_identity_char :: "char \<Rightarrow> bool" where
  "contract_identity_char c \<longleftrightarrow> is_alnum c \<or> c \<in> set ''._-''"

definition validate_identity :: "string \<Rightarrow> string \<Rightarrow> contract_exn + unit" where
  "validate_identity v label =
     (if v = [] then Inl (contract_error (label @ '' must be non-empty text''))
      else if list_ex (\<lambda>c. \<not> contract_identity_char c) v
      then Inl (contract_error (label @
        '' must contain only letters, numbers, dots, dashes, or underscores''))
      else Inr ())"

section \<open>Tables\<close>

definition started_run_statuses :: "run_status list" where
  "started_run_statuses = [RunRunning, RunPaused, RunSucceeded, RunFailed, RunCompensating,
     RunCompensated, RunPartiallyFailed, RunUncompensatedFailure]"

definition settled_run_statuses :: "run_status list" where
  "settled_run_statuses = [RunSucceeded, RunCompensated, RunPartiallyFailed,
     RunUncompensatedFailure, RunCancelled]"

definition step_event_kinds :: "activity_event_kind list" where
  "step_event_kinds = [Ev_STEP_STARTED, Ev_STEP_SUCCEEDED, Ev_STEP_FAILED, Ev_STEP_UNSUPPORTED,
     Ev_STEP_UNCERTAIN, Ev_STEP_UNCERTAINTY_RESOLVED_SUCCEEDED,
     Ev_STEP_UNCERTAINTY_RESOLVED_FAILED, Ev_STEP_UNCERTAINTY_ABANDONED,
     Ev_STEP_COMPENSATION_STARTED, Ev_STEP_COMPENSATION_SUCCEEDED, Ev_STEP_COMPENSATION_FAILED,
     Ev_STEP_COMPENSATION_UNSUPPORTED, Ev_STEP_COMPENSATION_UNCERTAIN,
     Ev_STEP_COMPENSATION_UNCERTAINTY_RESOLVED_SUCCEEDED,
     Ev_STEP_COMPENSATION_UNCERTAINTY_RESOLVED_FAILED,
     Ev_STEP_COMPENSATION_UNCERTAINTY_ABANDONED]"

definition failure_event_kinds :: "activity_event_kind list" where
  "failure_event_kinds = [Ev_STEP_FAILED, Ev_STEP_UNSUPPORTED, Ev_STEP_UNCERTAIN,
     Ev_STEP_UNCERTAINTY_RESOLVED_FAILED, Ev_STEP_COMPENSATION_FAILED,
     Ev_STEP_COMPENSATION_UNSUPPORTED, Ev_STEP_COMPENSATION_UNCERTAIN,
     Ev_STEP_COMPENSATION_UNCERTAINTY_RESOLVED_FAILED, Ev_RUN_FAILED,
     Ev_RUN_COMPENSATION_FAILED]"

definition activity_event_scope :: "activity_event_kind \<Rightarrow> event_scope" where
  "activity_event_scope k = (if k \<in> set step_event_kinds then ScopeActivity else ScopeRun)"

primrec recovery_scope_by_kind :: "recovery_choice \<Rightarrow> recovery_scope" where
  "recovery_scope_by_kind ChooseConfirmEffectSucceeded = AuthorityResolveUncertainty"
| "recovery_scope_by_kind ChooseConfirmEffectFailed = AuthorityResolveUncertainty"
| "recovery_scope_by_kind ChooseResumeSameIntent = AuthorityOperate"
| "recovery_scope_by_kind ChooseRetryAsNewRun = AuthorityOperate"
| "recovery_scope_by_kind ChooseBeginCompensation = AuthorityCompensate"
| "recovery_scope_by_kind ChooseAcceptUncompensatedFailure = AuthorityAcceptLoss"
| "recovery_scope_by_kind ChooseRemainPaused = AuthorityOperate"
| "recovery_scope_by_kind ChooseRenewActiveClaim = AuthorityRenewClaim"
| "recovery_scope_by_kind ChooseRenewExpiredClaim = AuthorityRenewClaim"
| "recovery_scope_by_kind ChooseTakeOverExpiredClaim = AuthorityTakeOverClaim"
| "recovery_scope_by_kind ChooseAbandonExpiredClaim = AuthorityAbandonClaim"

text \<open>Allowed statuses, unexpired claim required, expired claim required.\<close>

fun claim_requirement_by_kind :: "recovery_choice \<Rightarrow> (run_status list \<times> bool \<times> bool) option" where
  "claim_requirement_by_kind ChooseRetryAsNewRun = Some ([RunFailed], True, False)"
| "claim_requirement_by_kind ChooseRenewActiveClaim = Some ([RunClaimed], True, False)"
| "claim_requirement_by_kind ChooseRenewExpiredClaim = Some ([RunFailed], False, True)"
| "claim_requirement_by_kind ChooseTakeOverExpiredClaim = Some ([RunFailed], False, True)"
| "claim_requirement_by_kind ChooseAbandonExpiredClaim = Some ([RunFailed], False, True)"
| "claim_requirement_by_kind _ = None"

section \<open>Timing contracts\<close>

record timing_contract =
  timing_status :: run_status
  requires_started_at :: bool
  requires_settled_at :: bool

definition check_timing :: "timing_contract \<Rightarrow> contract_exn + timing_contract" where
  "check_timing c =
     (if requires_started_at c \<noteq> (timing_status c \<in> set started_run_statuses)
      then Inl (contract_error (run_status_value (timing_status c) @ '' has wrong started_at contract''))
      else if requires_settled_at c \<noteq> (timing_status c \<in> set settled_run_statuses)
      then Inl (contract_error (run_status_value (timing_status c) @ '' has wrong settled_at contract''))
      else Inr c)"

definition timing_descriptor :: "timing_contract \<Rightarrow> descriptor" where
  "timing_descriptor c = [(''status'', PStr (run_status_value (timing_status c))),
     (''requires_started_at'', PBool (requires_started_at c)),
     (''requires_settled_at'', PBool (requires_settled_at c))]"

definition timing_from_descriptor :: "descriptor \<Rightarrow> contract_exn + timing_contract" where
  "timing_from_descriptor d =
     bindR (contract_keys d [''status'', ''requires_started_at'', ''requires_settled_at'']
       ''run status timing'') (\<lambda>_.
     bindR (contract_enum run_statuses run_status_value ''ActivityRunStatus'' ''status''
       (entry d ''status'')) (\<lambda>st.
     bindR (contract_bool (entry d ''requires_started_at'') ''requires_started_at'') (\<lambda>a.
     bindR (contract_bool (entry d ''requires_settled_at'') ''requires_settled_at'') (\<lambda>b.
       check_timing \<lparr>timing_status = st, requires_started_at = a, requires_settled_at = b\<rparr>))))"

section \<open>Event contracts\<close>

record event_contract =
  contract_event :: activity_event_kind
  contract_scope :: event_scope
  may_carry_failure :: bool
  may_carry_recovery :: bool

definition check_event :: "event_contract \<Rightarrow> contract_exn + event_contract" where
  "check_event c =
     (if contract_scope c \<noteq> activity_event_scope (contract_event c)
      then Inl (contract_error
        (activity_event_kind_value (contract_event c) @ '' has wrong event scope''))
      else if may_carry_recovery c \<and> contract_event c \<noteq> Ev_RECOVERY_DECISION_RECORDED
      then Inl (contract_error ''only recovery decision events may carry recovery evidence'')
      else Inr c)"

definition event_descriptor :: "event_contract \<Rightarrow> descriptor" where
  "event_descriptor c = [(''kind'', PStr (activity_event_kind_value (contract_event c))),
     (''scope'', PStr (event_scope_value (contract_scope c))),
     (''requires_activity_id'', PBool (contract_scope c = ScopeActivity)),
     (''may_carry_failure'', PBool (may_carry_failure c)),
     (''may_carry_recovery'', PBool (may_carry_recovery c))]"

text \<open>The scope is parsed outside the \<open>try\<close>: its \<open>ValueError\<close> escapes as it is.\<close>

definition event_from_descriptor :: "descriptor \<Rightarrow> contract_exn + event_contract" where
  "event_from_descriptor d =
     bindR (contract_keys d [''kind'', ''scope'', ''requires_activity_id'', ''may_carry_failure'',
       ''may_carry_recovery''] ''event contract'') (\<lambda>_.
     bindR (contract_text (entry d ''scope'') ''scope'') (\<lambda>text.
     case enum_of event_scopes event_scope_value text of
       None \<Rightarrow> Inl (ContractValueError (py_repr text @ '' is not a valid ActivityEventScope''))
     | Some scope \<Rightarrow>
         bindR (contract_bool (entry d ''requires_activity_id'') ''requires_activity_id'') (\<lambda>needs.
         if needs = (scope \<noteq> ScopeActivity)
         then Inl (contract_error ''requires_activity_id must match event scope'')
         else
           bindR (contract_enum activity_event_kinds activity_event_kind_value
             ''ActivityEventKind'' ''kind'' (entry d ''kind'')) (\<lambda>k.
           bindR (contract_bool (entry d ''may_carry_failure'') ''may_carry_failure'') (\<lambda>f.
           bindR (contract_bool (entry d ''may_carry_recovery'') ''may_carry_recovery'') (\<lambda>r.
             check_event \<lparr>contract_event = k, contract_scope = scope, may_carry_failure = f,
               may_carry_recovery = r\<rparr>))))))"

section \<open>Recovery decision contracts\<close>

record recovery_contract =
  choice_kind :: recovery_choice
  required_scope :: recovery_scope
  allowed_run_statuses :: "run_status list"
  requires_uncertainty :: bool
  requires_no_uncertainty :: bool
  requires_compensation_available :: bool
  requires_intent_match :: bool
  requires_expired_claim :: bool
  requires_unexpired_claim :: bool

definition check_recovery :: "recovery_contract \<Rightarrow> contract_exn + recovery_contract" where
  "check_recovery c =
     (if required_scope c \<noteq> recovery_scope_by_kind (choice_kind c)
      then Inl (contract_error (recovery_choice_value (choice_kind c) @ '' requires '' @
        recovery_scope_value (recovery_scope_by_kind (choice_kind c)) @ '' scope''))
      else if allowed_run_statuses c = []
      then Inl (contract_error ''recovery decision must declare allowed statuses'')
      else bindR (reject_duplicates ''allowed_run_statuses'' (allowed_run_statuses c)) (\<lambda>_.
      if requires_uncertainty c \<and> requires_no_uncertainty c
      then Inl (contract_error
        ''recovery decision cannot require both uncertainty and no uncertainty'')
      else if requires_expired_claim c \<and> requires_unexpired_claim c
      then Inl (contract_error
        ''recovery decision cannot require both expired and unexpired claim'')
      else case claim_requirement_by_kind (choice_kind c) of
        None \<Rightarrow>
          if requires_expired_claim c \<or> requires_unexpired_claim c
          then Inl (contract_error
            ''only claim-authority decisions may require claim expiry state'')
          else Inr c
      | Some requirement \<Rightarrow>
          if (allowed_run_statuses c, requires_unexpired_claim c, requires_expired_claim c) \<noteq> requirement
          then Inl (contract_error
            ''claim-authority decision has invalid status or expiry requirement'')
          else Inr c))"

definition recovery_descriptor :: "recovery_contract \<Rightarrow> descriptor" where
  "recovery_descriptor c = [(''kind'', PStr (recovery_choice_value (choice_kind c))),
     (''required_scope'', PStr (recovery_scope_value (required_scope c))),
     (''allowed_run_statuses'',
       PList (map (\<lambda>st. PStr (run_status_value st)) (allowed_run_statuses c))),
     (''requires_uncertainty'', PBool (requires_uncertainty c)),
     (''requires_no_uncertainty'', PBool (requires_no_uncertainty c)),
     (''requires_compensation_available'', PBool (requires_compensation_available c)),
     (''requires_intent_match'', PBool (requires_intent_match c)),
     (''requires_expired_claim'', PBool (requires_expired_claim c)),
     (''requires_unexpired_claim'', PBool (requires_unexpired_claim c))]"

definition recovery_from_descriptor :: "descriptor \<Rightarrow> contract_exn + recovery_contract" where
  "recovery_from_descriptor d =
     bindR (contract_keys d [''kind'', ''required_scope'', ''allowed_run_statuses'',
       ''requires_uncertainty'', ''requires_no_uncertainty'', ''requires_compensation_available'',
       ''requires_intent_match'', ''requires_expired_claim'', ''requires_unexpired_claim'']
       ''recovery decision'') (\<lambda>_.
     bindR (contract_list (entry d ''allowed_run_statuses'') ''allowed_run_statuses'') (\<lambda>statuses.
     bindR (contract_enum recovery_choices recovery_choice_value ''RecoveryDecisionKind'' ''kind''
       (entry d ''kind'')) (\<lambda>k.
     bindR (contract_enum recovery_scopes recovery_scope_value ''RecoveryScope'' ''required_scope''
       (entry d ''required_scope'')) (\<lambda>sc.
     bindR (mapR (contract_enum run_statuses run_status_value ''ActivityRunStatus''
       ''allowed_run_status'') statuses) (\<lambda>sts.
     bindR (contract_bool (entry d ''requires_uncertainty'') ''requires_uncertainty'') (\<lambda>u.
     bindR (contract_bool (entry d ''requires_no_uncertainty'') ''requires_no_uncertainty'') (\<lambda>nu.
     bindR (contract_bool (entry d ''requires_compensation_available'')
       ''requires_compensation_available'') (\<lambda>ca.
     bindR (contract_bool (entry d ''requires_intent_match'') ''requires_intent_match'') (\<lambda>im.
     bindR (contract_bool (entry d ''requires_expired_claim'') ''requires_expired_claim'') (\<lambda>ex.
     bindR (contract_bool (entry d ''requires_unexpired_claim'') ''requires_unexpired_claim'') (\<lambda>un.
       check_recovery \<lparr>choice_kind = k, required_scope = sc, allowed_run_statuses = sts,
         requires_uncertainty = u, requires_no_uncertainty = nu,
         requires_compensation_available = ca, requires_intent_match = im,
         requires_expired_claim = ex, requires_unexpired_claim = un\<rparr>)))))))))))"

section \<open>Operation contracts\<close>

record operation_contract =
  operation_id :: string
  operation_kind :: lifecycle_operation
  operation_stage :: program_stage
  operation_role :: service_role
  request_schema :: string
  response_schema :: string
  accepted_run_statuses :: "run_status list"
  result_run_status :: "run_status option"
  event_kinds :: "activity_event_kind list"
  requires_current_approval :: bool
  requires_worker_scope :: bool
  requires_current_graph_match :: bool
  writes_current_graph :: bool
  enforced_by :: enforcement_owner

definition check_operation :: "operation_contract \<Rightarrow> contract_exn + operation_contract" where
  "check_operation c =
     bindR (validate_identity (operation_id c) ''operation_id'') (\<lambda>_.
     bindR (validate_identity (request_schema c) ''request_schema'') (\<lambda>_.
     bindR (validate_identity (response_schema c) ''response_schema'') (\<lambda>_.
     bindR (reject_duplicates ''accepted_run_statuses'' (accepted_run_statuses c)) (\<lambda>_.
     bindR (reject_duplicates ''event_kinds'' (event_kinds c)) (\<lambda>_.
     if enforced_by c \<noteq> OwnedByOperations
     then Inl (contract_error ''durable lifecycle enforcement remains operations-owned'')
     else if writes_current_graph c \<and> operation_kind c \<noteq> OpAdvanceCurrentGraph
     then Inl (contract_error ''only advancement may write current graph truth'')
     else Inr c)))))"

definition operation_descriptor :: "operation_contract \<Rightarrow> descriptor" where
  "operation_descriptor c = [(''operation_id'', PStr (operation_id c)),
     (''kind'', PStr (lifecycle_operation_value (operation_kind c))),
     (''stage'', PStr (program_stage_value (operation_stage c))),
     (''service_role'', PStr (service_role_value (operation_role c))),
     (''request_schema'', PStr (request_schema c)),
     (''response_schema'', PStr (response_schema c)),
     (''accepted_run_statuses'',
       PList (map (\<lambda>st. PStr (run_status_value st)) (accepted_run_statuses c))),
     (''result_run_status'', py_optional (\<lambda>st. PStr (run_status_value st)) (result_run_status c)),
     (''event_kinds'', PList (map (\<lambda>k. PStr (activity_event_kind_value k)) (event_kinds c))),
     (''requires_current_approval'', PBool (requires_current_approval c)),
     (''requires_worker_scope'', PBool (requires_worker_scope c)),
     (''requires_current_graph_match'', PBool (requires_current_graph_match c)),
     (''writes_current_graph'', PBool (writes_current_graph c)),
     (''enforcement_owner'', PStr (enforcement_owner_value (enforced_by c)))]"

definition operation_from_descriptor :: "descriptor \<Rightarrow> contract_exn + operation_contract" where
  "operation_from_descriptor d =
     bindR (contract_keys d [''operation_id'', ''kind'', ''stage'', ''service_role'',
       ''request_schema'', ''response_schema'', ''accepted_run_statuses'', ''result_run_status'',
       ''event_kinds'', ''requires_current_approval'', ''requires_worker_scope'',
       ''requires_current_graph_match'', ''writes_current_graph'', ''enforcement_owner'']
       ''lifecycle operation'') (\<lambda>_.
     case (entry d ''accepted_run_statuses'', entry d ''event_kinds'') of
       (PList statuses, PList events) \<Rightarrow>
         bindR (contract_text (entry d ''operation_id'') ''operation_id'') (\<lambda>oid.
         bindR (contract_enum lifecycle_operations lifecycle_operation_value
           ''LifecycleOperationKind'' ''kind'' (entry d ''kind'')) (\<lambda>k.
         bindR (contract_enum program_stages program_stage_value ''DeploymentProgramStage''
           ''stage'' (entry d ''stage'')) (\<lambda>stage.
         bindR (contract_enum service_roles service_role_value ''ControlPlaneServiceRole''
           ''service_role'' (entry d ''service_role'')) (\<lambda>role.
         bindR (contract_text (entry d ''request_schema'') ''request_schema'') (\<lambda>req.
         bindR (contract_text (entry d ''response_schema'') ''response_schema'') (\<lambda>resp.
         bindR (mapR (contract_enum run_statuses run_status_value ''ActivityRunStatus''
           ''accepted_run_status'') statuses) (\<lambda>sts.
         bindR (from_optional (contract_enum run_statuses run_status_value ''ActivityRunStatus''
           ''result_run_status'') (entry d ''result_run_status'')) (\<lambda>result.
         bindR (mapR (contract_enum activity_event_kinds activity_event_kind_value
           ''ActivityEventKind'' ''event_kind'') events) (\<lambda>kinds.
         bindR (contract_bool (entry d ''requires_current_approval'') ''requires_current_approval'') (\<lambda>ap.
         bindR (contract_bool (entry d ''requires_worker_scope'') ''requires_worker_scope'') (\<lambda>ws.
         bindR (contract_bool (entry d ''requires_current_graph_match'')
           ''requires_current_graph_match'') (\<lambda>gm.
         bindR (contract_bool (entry d ''writes_current_graph'') ''writes_current_graph'') (\<lambda>wg.
         bindR (contract_enum enforcement_owners enforcement_owner_value
           ''ContractEnforcementOwner'' ''enforcement_owner'' (entry d ''enforcement_owner'')) (\<lambda>own.
           check_operation \<lparr>operation_id = oid, operation_kind = k, operation_stage = stage,
             operation_role = role, request_schema = req, response_schema = resp,
             accepted_run_statuses = sts, result_run_status = result, event_kinds = kinds,
             requires_current_approval = ap, requires_worker_scope = ws,
             requires_current_graph_match = gm, writes_current_graph = wg,
             enforced_by = own\<rparr>))))))))))))))
     | _ \<Rightarrow> Inl (contract_error ''lifecycle operation descriptor uses invalid sequence fields''))"

section \<open>The contract set\<close>

record contract_set =
  timing :: "timing_contract list"
  events :: "event_contract list"
  recovery_decisions :: "recovery_contract list"
  operations :: "operation_contract list"

definition check_contract_set :: "contract_set \<Rightarrow> contract_exn + contract_set" where
  "check_contract_set c =
     bindR (require_exact_member_set ''timing'' (map timing_status (timing c)) run_statuses) (\<lambda>_.
     bindR (require_exact_member_set ''events'' (map contract_event (events c))
       activity_event_kinds) (\<lambda>_.
     bindR (require_exact_member_set ''recovery_decisions'' (map choice_kind (recovery_decisions c))
       recovery_choices) (\<lambda>_.
     bindR (require_exact_member_set ''operations'' (map operation_kind (operations c))
       lifecycle_operations) (\<lambda>_.
       Inr \<lparr>timing = sort_key (\<lambda>v. run_status_value (timing_status v)) (timing c),
         events = sort_key (\<lambda>v. activity_event_kind_value (contract_event v)) (events c),
         recovery_decisions = sort_key (\<lambda>v. recovery_choice_value (choice_kind v))
           (recovery_decisions c),
         operations = sort_key operation_id (operations c)\<rparr>))))"

definition find_event :: "contract_set \<Rightarrow> activity_event_kind \<Rightarrow> contract_exn + event_contract" where
  "find_event c k = (case find (\<lambda>v. contract_event v = k) (events c) of Some v \<Rightarrow> Inr v
     | None \<Rightarrow> Inl (contract_error (''unknown event kind '' @ py_repr (activity_event_kind_value k))))"

definition find_operation :: "contract_set \<Rightarrow> string \<Rightarrow> contract_exn + operation_contract" where
  "find_operation c i = bindR (validate_identity i ''operation_id'') (\<lambda>_.
     case find (\<lambda>v. operation_id v = i) (operations c) of Some v \<Rightarrow> Inr v
     | None \<Rightarrow> Inl (contract_error (''unknown operation_id '' @ py_repr i)))"

definition find_recovery_decision :: "contract_set \<Rightarrow> recovery_choice \<Rightarrow>
    contract_exn + recovery_contract" where
  "find_recovery_decision c k =
     (case find (\<lambda>v. choice_kind v = k) (recovery_decisions c) of Some v \<Rightarrow> Inr v
     | None \<Rightarrow> Inl (contract_error
         (''unknown recovery decision '' @ py_repr (recovery_choice_value k))))"

definition contract_set_descriptor :: "contract_set \<Rightarrow> descriptor" where
  "contract_set_descriptor c = [(''kind'', PStr ''execution-lifecycle-contract-set''),
     (''request_statuses'', PList (map PStr (map request_status_value request_statuses))),
     (''failure_categories'', PList (map PStr (map failure_category_value failure_categories))),
     (''timing'', PList (map (\<lambda>v. PDict (timing_descriptor v)) (timing c))),
     (''events'', PList (map (\<lambda>v. PDict (event_descriptor v)) (events c))),
     (''recovery_decisions'',
       PList (map (\<lambda>v. PDict (recovery_descriptor v)) (recovery_decisions c))),
     (''operations'', PList (map (\<lambda>v. PDict (operation_descriptor v)) (operations c)))]"

definition parse_members :: "(descriptor \<Rightarrow> contract_exn + 'a) \<Rightarrow> string \<Rightarrow> string \<Rightarrow> py \<Rightarrow>
    contract_exn + 'a list" where
  "parse_members parse item_label label v = bindR (contract_list v label)
     (mapR (\<lambda>w. bindR (contract_mapping w item_label) parse))"

definition contract_set_from_descriptor :: "descriptor \<Rightarrow> contract_exn + contract_set" where
  "contract_set_from_descriptor d =
     bindR (contract_keys d [''kind'', ''request_statuses'', ''failure_categories'', ''timing'',
       ''events'', ''recovery_decisions'', ''operations''] ''execution lifecycle'') (\<lambda>_.
     if entry d ''kind'' \<noteq> PStr ''execution-lifecycle-contract-set''
     then Inl (contract_error ''execution lifecycle descriptor has wrong kind'')
     else
       bindR (check_closed_values ''request_statuses'' (entry d ''request_statuses'')
         (map request_status_value request_statuses)) (\<lambda>_.
       bindR (check_closed_values ''failure_categories'' (entry d ''failure_categories'')
         (map failure_category_value failure_categories)) (\<lambda>_.
       bindR (parse_members timing_from_descriptor ''timing'' ''timing'' (entry d ''timing'')) (\<lambda>t.
       bindR (parse_members event_from_descriptor ''event'' ''events'' (entry d ''events'')) (\<lambda>e.
       bindR (parse_members recovery_from_descriptor ''recovery_decision'' ''recovery_decisions''
         (entry d ''recovery_decisions'')) (\<lambda>r.
       bindR (parse_members operation_from_descriptor ''operation'' ''operations''
         (entry d ''operations'')) (\<lambda>os.
         check_contract_set \<lparr>timing = t, events = e, recovery_decisions = r, operations = os\<rparr>)))))))"

end
