(* ===== verification/Contract_Tables.thy ===== *)
theory Contract_Tables
  imports Run_Contract
begin

text \<open>
  The canonical contract set of \<open>core/operations/lifecycle.py\<close>: the tables
  \<open>_canonical_recovery_decisions\<close> and \<open>_canonical_operations\<close> entry by entry, and
  \<open>canonical_execution_lifecycle_contract_set\<close>.
\<close>

definition canonical_timing :: "timing_contract list" where
  "canonical_timing = map (\<lambda>st. \<lparr>timing_status = st,
     requires_started_at = (st \<in> set started_run_statuses),
     requires_settled_at = (st \<in> set settled_run_statuses)\<rparr>) run_statuses"

definition canonical_events :: "event_contract list" where
  "canonical_events = map (\<lambda>k. \<lparr>contract_event = k, contract_scope = activity_event_scope k,
     may_carry_failure = (k \<in> set failure_event_kinds),
     may_carry_recovery = (k = Ev_RECOVERY_DECISION_RECORDED)\<rparr>) activity_event_kinds"

definition canonical_recovery_decisions :: "recovery_contract list" where
  "canonical_recovery_decisions =
    [\<lparr>choice_kind = ChooseConfirmEffectSucceeded, required_scope = AuthorityResolveUncertainty,
       allowed_run_statuses = [RunPaused],
       requires_uncertainty = True, requires_no_uncertainty = False,
       requires_compensation_available = False, requires_intent_match = True,
       requires_expired_claim = False, requires_unexpired_claim = False\<rparr>,
     \<lparr>choice_kind = ChooseConfirmEffectFailed, required_scope = AuthorityResolveUncertainty,
       allowed_run_statuses = [RunPaused],
       requires_uncertainty = True, requires_no_uncertainty = False,
       requires_compensation_available = False, requires_intent_match = True,
       requires_expired_claim = False, requires_unexpired_claim = False\<rparr>,
     \<lparr>choice_kind = ChooseResumeSameIntent, required_scope = AuthorityOperate,
       allowed_run_statuses = [RunPaused],
       requires_uncertainty = False, requires_no_uncertainty = True,
       requires_compensation_available = False, requires_intent_match = True,
       requires_expired_claim = False, requires_unexpired_claim = False\<rparr>,
     \<lparr>choice_kind = ChooseRetryAsNewRun, required_scope = AuthorityOperate,
       allowed_run_statuses = [RunFailed],
       requires_uncertainty = False, requires_no_uncertainty = True,
       requires_compensation_available = False, requires_intent_match = True,
       requires_expired_claim = False, requires_unexpired_claim = True\<rparr>,
     \<lparr>choice_kind = ChooseBeginCompensation, required_scope = AuthorityCompensate,
       allowed_run_statuses = [RunFailed],
       requires_uncertainty = False, requires_no_uncertainty = True,
       requires_compensation_available = True, requires_intent_match = True,
       requires_expired_claim = False, requires_unexpired_claim = False\<rparr>,
     \<lparr>choice_kind = ChooseAcceptUncompensatedFailure, required_scope = AuthorityAcceptLoss,
       allowed_run_statuses = [RunFailed],
       requires_uncertainty = False, requires_no_uncertainty = True,
       requires_compensation_available = False, requires_intent_match = True,
       requires_expired_claim = False, requires_unexpired_claim = False\<rparr>,
     \<lparr>choice_kind = ChooseRemainPaused, required_scope = AuthorityOperate,
       allowed_run_statuses = [RunPaused, RunFailed, RunPartiallyFailed],
       requires_uncertainty = False, requires_no_uncertainty = False,
       requires_compensation_available = False, requires_intent_match = False,
       requires_expired_claim = False, requires_unexpired_claim = False\<rparr>,
     \<lparr>choice_kind = ChooseRenewActiveClaim, required_scope = AuthorityRenewClaim,
       allowed_run_statuses = [RunClaimed],
       requires_uncertainty = False, requires_no_uncertainty = False,
       requires_compensation_available = False, requires_intent_match = True,
       requires_expired_claim = False, requires_unexpired_claim = True\<rparr>,
     \<lparr>choice_kind = ChooseRenewExpiredClaim, required_scope = AuthorityRenewClaim,
       allowed_run_statuses = [RunFailed],
       requires_uncertainty = False, requires_no_uncertainty = False,
       requires_compensation_available = False, requires_intent_match = True,
       requires_expired_claim = True, requires_unexpired_claim = False\<rparr>,
     \<lparr>choice_kind = ChooseTakeOverExpiredClaim, required_scope = AuthorityTakeOverClaim,
       allowed_run_statuses = [RunFailed],
       requires_uncertainty = False, requires_no_uncertainty = False,
       requires_compensation_available = False, requires_intent_match = True,
       requires_expired_claim = True, requires_unexpired_claim = False\<rparr>,
     \<lparr>choice_kind = ChooseAbandonExpiredClaim, required_scope = AuthorityAbandonClaim,
       allowed_run_statuses = [RunFailed],
       requires_uncertainty = False, requires_no_uncertainty = False,
       requires_compensation_available = False, requires_intent_match = True,
       requires_expired_claim = True, requires_unexpired_claim = False\<rparr>]"

definition canonical_operations :: "operation_contract list" where
  "canonical_operations =
    [\<lparr>operation_id = ''execution.admit'', operation_kind = OpAdmitExecution,
       operation_stage = StageAdmit, operation_role = RoleAdmission,
       request_schema = ''AdmitExecutionRequest'', response_schema = ''ExecutionAdmissionResult'',
       accepted_run_statuses = [],
       result_run_status = None, event_kinds = [Ev_REQUEST_ADMITTED],
       requires_current_approval = True, requires_worker_scope = False,
       requires_current_graph_match = True, writes_current_graph = False,
       enforced_by = OwnedByOperations\<rparr>,
     \<lparr>operation_id = ''execution.claim'', operation_kind = OpClaimRun,
       operation_stage = StageClaim, operation_role = RoleLifecycle,
       request_schema = ''ClaimAndOpenActivityRun'', response_schema = ''ActivityRunClaimResult'',
       accepted_run_statuses = [],
       result_run_status = Some RunClaimed, event_kinds = [Ev_REQUEST_CLAIMED, Ev_RUN_OPENED],
       requires_current_approval = True, requires_worker_scope = True,
       requires_current_graph_match = False, writes_current_graph = False,
       enforced_by = OwnedByOperations\<rparr>,
     \<lparr>operation_id = ''run.start'', operation_kind = OpStartRun,
       operation_stage = StageExecute, operation_role = RoleExecution,
       request_schema = ''StartActivityRun'', response_schema = ''ActivityRunTransitionResult'',
       accepted_run_statuses = [RunClaimed],
       result_run_status = Some RunRunning, event_kinds = [Ev_RUN_STARTED],
       requires_current_approval = True, requires_worker_scope = True,
       requires_current_graph_match = False, writes_current_graph = False,
       enforced_by = OwnedByOperations\<rparr>,
     \<lparr>operation_id = ''run.pause'', operation_kind = OpPauseRun,
       operation_stage = StageExecute, operation_role = RoleExecution,
       request_schema = ''PauseActivityRun'', response_schema = ''ActivityRunTransitionResult'',
       accepted_run_statuses = [RunRunning],
       result_run_status = Some RunPaused, event_kinds = [Ev_RUN_PAUSED],
       requires_current_approval = True, requires_worker_scope = True,
       requires_current_graph_match = False, writes_current_graph = False,
       enforced_by = OwnedByOperations\<rparr>,
     \<lparr>operation_id = ''run.resume'', operation_kind = OpResumeRun,
       operation_stage = StageExecute, operation_role = RoleExecution,
       request_schema = ''ResumeActivityRun'', response_schema = ''ActivityRunTransitionResult'',
       accepted_run_statuses = [RunPaused],
       result_run_status = Some RunRunning, event_kinds = [Ev_RUN_RESUMED],
       requires_current_approval = True, requires_worker_scope = True,
       requires_current_graph_match = False, writes_current_graph = False,
       enforced_by = OwnedByOperations\<rparr>,
     \<lparr>operation_id = ''run.complete'', operation_kind = OpCompleteRun,
       operation_stage = StageExecute, operation_role = RoleExecution,
       request_schema = ''CompleteActivityRun'', response_schema = ''ActivityRunTransitionResult'',
       accepted_run_statuses = [RunRunning],
       result_run_status = Some RunSucceeded, event_kinds = [Ev_RUN_SUCCEEDED],
       requires_current_approval = True, requires_worker_scope = True,
       requires_current_graph_match = False, writes_current_graph = False,
       enforced_by = OwnedByOperations\<rparr>,
     \<lparr>operation_id = ''run.fail'', operation_kind = OpFailRun,
       operation_stage = StageExecute, operation_role = RoleExecution,
       request_schema = ''FailActivityRun'', response_schema = ''ActivityRunTransitionResult'',
       accepted_run_statuses = [RunRunning, RunPaused],
       result_run_status = Some RunFailed, event_kinds = [Ev_RUN_FAILED],
       requires_current_approval = True, requires_worker_scope = True,
       requires_current_graph_match = False, writes_current_graph = False,
       enforced_by = OwnedByOperations\<rparr>,
     \<lparr>operation_id = ''compensation.begin'', operation_kind = OpBeginCompensation,
       operation_stage = StageExecute, operation_role = RoleRecovery,
       request_schema = ''BeginFailedRunCompensation'', response_schema = ''FailedRunCompensationResult'',
       accepted_run_statuses = [RunFailed],
       result_run_status = Some RunCompensating, event_kinds = [Ev_RUN_COMPENSATION_STARTED],
       requires_current_approval = True, requires_worker_scope = False,
       requires_current_graph_match = True, writes_current_graph = False,
       enforced_by = OwnedByOperations\<rparr>,
     \<lparr>operation_id = ''compensation.complete'', operation_kind = OpCompleteCompensation,
       operation_stage = StageExecute, operation_role = RoleExecution,
       request_schema = ''CompleteActivityRunCompensation'', response_schema = ''ActivityRunTransitionResult'',
       accepted_run_statuses = [RunCompensating],
       result_run_status = Some RunCompensated, event_kinds = [Ev_RUN_COMPENSATION_SUCCEEDED],
       requires_current_approval = True, requires_worker_scope = True,
       requires_current_graph_match = False, writes_current_graph = False,
       enforced_by = OwnedByOperations\<rparr>,
     \<lparr>operation_id = ''compensation.fail'', operation_kind = OpFailCompensation,
       operation_stage = StageExecute, operation_role = RoleExecution,
       request_schema = ''FailActivityRunCompensation'', response_schema = ''ActivityRunTransitionResult'',
       accepted_run_statuses = [RunCompensating],
       result_run_status = Some RunPartiallyFailed, event_kinds = [Ev_RUN_COMPENSATION_FAILED],
       requires_current_approval = True, requires_worker_scope = True,
       requires_current_graph_match = False, writes_current_graph = False,
       enforced_by = OwnedByOperations\<rparr>,
     \<lparr>operation_id = ''run.cancel'', operation_kind = OpCancelRun,
       operation_stage = StageClaim, operation_role = RoleLifecycle,
       request_schema = ''CancelActivityRun'', response_schema = ''ActivityRunTransitionResult'',
       accepted_run_statuses = [RunClaimed, RunRunning, RunPaused],
       result_run_status = Some RunCancelled, event_kinds = [Ev_RUN_CANCELLED],
       requires_current_approval = True, requires_worker_scope = True,
       requires_current_graph_match = False, writes_current_graph = False,
       enforced_by = OwnedByOperations\<rparr>,
     \<lparr>operation_id = ''recovery.decide'', operation_kind = OpRecordRecoveryDecision,
       operation_stage = StageExecute, operation_role = RoleRecovery,
       request_schema = ''DecideActivityRunRecovery'', response_schema = ''RecoveryDecisionResult'',
       accepted_run_statuses = [RunClaimed, RunPaused, RunFailed, RunPartiallyFailed],
       result_run_status = None, event_kinds = [Ev_RECOVERY_DECISION_RECORDED],
       requires_current_approval = True, requires_worker_scope = True,
       requires_current_graph_match = False, writes_current_graph = False,
       enforced_by = OwnedByOperations\<rparr>,
     \<lparr>operation_id = ''graph.advance-current'', operation_kind = OpAdvanceCurrentGraph,
       operation_stage = StageAdvance, operation_role = RoleLifecycle,
       request_schema = ''AdvanceCurrentGraph'', response_schema = ''CurrentGraphAdvancementResult'',
       accepted_run_statuses = [RunSucceeded],
       result_run_status = Some RunSucceeded, event_kinds = [Ev_CURRENT_GRAPH_ADVANCED],
       requires_current_approval = True, requires_worker_scope = True,
       requires_current_graph_match = True, writes_current_graph = True,
       enforced_by = OwnedByOperations\<rparr>]"

text \<open>Each entry passes its own constructor before the set's constructor runs.\<close>

definition canonical_execution_lifecycle_contract_set :: "contract_exn + contract_set" where
  "canonical_execution_lifecycle_contract_set =
     bindR (mapR check_timing canonical_timing) (\<lambda>t.
     bindR (mapR check_event canonical_events) (\<lambda>e.
     bindR (mapR check_recovery canonical_recovery_decisions) (\<lambda>r.
     bindR (mapR check_operation canonical_operations) (\<lambda>os.
       check_contract_set \<lparr>timing = t, events = e, recovery_decisions = r, operations = os\<rparr>))))"

text \<open>The run transitions the operations declare.\<close>

definition declared_transitions :: "(run_status \<times> run_status) list" where
  "declared_transitions = concat (map (\<lambda>c. case result_run_status c of
       Some r \<Rightarrow> map (\<lambda>st. (st, r)) (accepted_run_statuses c)
     | None \<Rightarrow> []) canonical_operations)"

end
