(* ===== verification/Contract_Laws.thy ===== *)
theory Contract_Laws
  imports Contract_Tables
begin

text \<open>
  Laws of the lifecycle contracts: every contract class and the contract set are instances
  of \<open>descriptor_codec\<close>, the set's constructor is order insensitive where its sort keys
  are unique, the canonical set exists, and its tables give the run state machine.
\<close>

section \<open>Members of the vocabularies\<close>

lemma contract_simps [result_simps]:
  "contract_text v l = Inr s \<longleftrightarrow> v = PStr s"
  "contract_bool v l = Inr b \<longleftrightarrow> v = PBool b"
  "contract_list v l = Inr xs \<longleftrightarrow> v = PList xs"
  "contract_mapping v l = Inr d \<longleftrightarrow> v = PDict d"
  "contract_keys d ks l = Inr u \<longleftrightarrow> same_keys d ks"
  "reject_duplicates l ys = Inr u \<longleftrightarrow> distinct ys"
  by (auto simp: contract_text_def contract_bool_def contract_list_def contract_mapping_def
      contract_keys_def reject_duplicates_def has_duplicates_def requireR_Inr_iff
      split: py.splits)

lemma contract_steps [simp]:
  "contract_text (PStr s) l = Inr s" "contract_bool (PBool b) l = Inr b"
  "contract_list (PList xs) l = Inr xs" "contract_mapping (PDict d) l = Inr d"
  by (simp_all add: contract_text_def contract_bool_def contract_list_def contract_mapping_def)

lemma contract_keys_ok: "same_keys d ks \<Longrightarrow> contract_keys d ks l = Inr ()"
  by (simp add: contract_keys_def requireR_def)

lemma contract_enum_value:
  "closed_enum members val \<Longrightarrow> contract_enum members val cls l (PStr (val m)) = Inr m"
  by (simp add: contract_enum_def closed_enum.enum_of_value)

lemma contract_enum_values:
  "closed_enum members val \<Longrightarrow>
     mapR (contract_enum members val cls l) (map (\<lambda>m. PStr (val m)) ms) = Inr ms"
  by (rule mapR_inverse) (rule contract_enum_value)

lemmas vocabularies = run_status.closed_enum_axioms event_scope.closed_enum_axioms
  activity_event_kind.closed_enum_axioms recovery_scope.closed_enum_axioms
  recovery_choice.closed_enum_axioms lifecycle_operation.closed_enum_axioms
  enforcement_owner.closed_enum_axioms program_stage.closed_enum_axioms
  service_role.closed_enum_axioms

lemmas enum_values = vocabularies [THEN contract_enum_value] vocabularies [THEN contract_enum_values]

section \<open>Checked contracts\<close>

definition passes :: "('a \<Rightarrow> contract_exn + 'a) \<Rightarrow> 'a \<Rightarrow> bool" where
  "passes check c \<longleftrightarrow> check c = Inr c"

lemma checks_return:
  "check_timing tc = Inr tc' \<Longrightarrow> tc' = tc" "check_event ec = Inr ec' \<Longrightarrow> ec' = ec"
  "check_recovery rc = Inr rc' \<Longrightarrow> rc' = rc" "check_operation oc = Inr oc' \<Longrightarrow> oc' = oc"
  by (auto simp: check_timing_def check_event_def check_recovery_def check_operation_def
      bindR_Inr_iff split: if_splits option.splits)

lemma checks_pass:
  "check_timing tc = Inr tc' \<Longrightarrow> passes check_timing tc'"
  "check_event ec = Inr ec' \<Longrightarrow> passes check_event ec'"
  "check_recovery rc = Inr rc' \<Longrightarrow> passes check_recovery rc'"
  "check_operation oc = Inr oc' \<Longrightarrow> passes check_operation oc'"
  unfolding passes_def using checks_return by metis+

lemma contract_rebuild:
  "\<lparr>timing_status = timing_status tc, requires_started_at = requires_started_at tc,
     requires_settled_at = requires_settled_at tc\<rparr> = tc"
  "\<lparr>contract_event = contract_event ec, contract_scope = contract_scope ec,
     may_carry_failure = may_carry_failure ec, may_carry_recovery = may_carry_recovery ec\<rparr> = ec"
  "\<lparr>choice_kind = choice_kind rc, required_scope = required_scope rc,
     allowed_run_statuses = allowed_run_statuses rc,
     requires_uncertainty = requires_uncertainty rc,
     requires_no_uncertainty = requires_no_uncertainty rc,
     requires_compensation_available = requires_compensation_available rc,
     requires_intent_match = requires_intent_match rc,
     requires_expired_claim = requires_expired_claim rc,
     requires_unexpired_claim = requires_unexpired_claim rc\<rparr> = rc"
  "\<lparr>operation_id = operation_id oc, operation_kind = operation_kind oc,
     operation_stage = operation_stage oc, operation_role = operation_role oc,
     request_schema = request_schema oc, response_schema = response_schema oc,
     accepted_run_statuses = accepted_run_statuses oc,
     result_run_status = result_run_status oc, event_kinds = event_kinds oc,
     requires_current_approval = requires_current_approval oc,
     requires_worker_scope = requires_worker_scope oc,
     requires_current_graph_match = requires_current_graph_match oc,
     writes_current_graph = writes_current_graph oc, enforced_by = enforced_by oc\<rparr> = oc"
  by simp_all

lemma timing_roundtrip:
  "passes check_timing c \<Longrightarrow> timing_from_descriptor (timing_descriptor c) = Inr c"
  by (simp add: timing_from_descriptor_def timing_descriptor_def contract_keys_ok same_keys_def
      entry_def enum_values passes_def contract_rebuild insert_commute)

lemma event_roundtrip:
  "passes check_event c \<Longrightarrow> event_from_descriptor (event_descriptor c) = Inr c"
  by (simp add: event_from_descriptor_def event_descriptor_def contract_keys_ok same_keys_def
      entry_def enum_values passes_def contract_rebuild insert_commute)

lemma recovery_roundtrip:
  "passes check_recovery c \<Longrightarrow> recovery_from_descriptor (recovery_descriptor c) = Inr c"
  by (simp add: recovery_from_descriptor_def recovery_descriptor_def contract_keys_ok same_keys_def
      entry_def enum_values passes_def contract_rebuild insert_commute)

lemma from_optional_value:
  "g (f x) = Inr x \<Longrightarrow> f x \<noteq> PNone \<Longrightarrow> from_optional g (py_optional f (Some x)) = Inr (Some x)"
  "from_optional g (py_optional f None) = Inr None"
  by (simp_all add: from_optional_def py_optional_def)

lemma optional_status:
  "from_optional (contract_enum run_statuses run_status_value cls l)
     (py_optional (\<lambda>st. PStr (run_status_value st)) v) = Inr v"
  by (cases v) (simp_all add: from_optional_value enum_values)

lemma operation_roundtrip:
  "passes check_operation c \<Longrightarrow> operation_from_descriptor (operation_descriptor c) = Inr c"
  by (simp add: operation_from_descriptor_def operation_descriptor_def contract_keys_ok same_keys_def
      entry_def enum_values passes_def optional_status contract_rebuild insert_commute)

lemma timing_decoded: "timing_from_descriptor d = Inr c \<Longrightarrow> passes check_timing c"
  by (auto simp: timing_from_descriptor_def bindR_Inr_iff dest: checks_pass)

interpretation timing_codec:
  descriptor_codec "passes check_timing" timing_descriptor timing_from_descriptor
  by unfold_locales (simp_all add: timing_roundtrip timing_decoded)

lemma event_decoded: "event_from_descriptor d = Inr c \<Longrightarrow> passes check_event c"
  by (auto simp: event_from_descriptor_def bindR_Inr_iff dest: checks_pass split: option.splits if_splits)

interpretation event_codec:
  descriptor_codec "passes check_event" event_descriptor event_from_descriptor
  by unfold_locales (simp_all add: event_roundtrip event_decoded)

lemma recovery_decoded: "recovery_from_descriptor d = Inr c \<Longrightarrow> passes check_recovery c"
  by (auto simp: recovery_from_descriptor_def bindR_Inr_iff dest: checks_pass)

interpretation recovery_codec:
  descriptor_codec "passes check_recovery" recovery_descriptor recovery_from_descriptor
  by unfold_locales (simp_all add: recovery_roundtrip recovery_decoded)

lemma operation_decoded: "operation_from_descriptor d = Inr c \<Longrightarrow> passes check_operation c"
  by (auto simp: operation_from_descriptor_def bindR_Inr_iff dest: checks_pass split: py.splits)

interpretation operation_codec:
  descriptor_codec "passes check_operation" operation_descriptor operation_from_descriptor
  by unfold_locales (simp_all add: operation_roundtrip operation_decoded)

section \<open>The contract set\<close>

definition covers_members :: "'a list \<Rightarrow> 'a list \<Rightarrow> bool" where
  "covers_members actual expected \<longleftrightarrow> set actual = set expected \<and> length actual = length expected"

lemma exact_members_Inr [result_simps]:
  "require_exact_member_set l xs ys = Inr u \<longleftrightarrow> covers_members xs ys"
  by (auto simp: require_exact_member_set_def requireR_Inr_iff covers_members_def)

lemma covers_distinct: "covers_members xs ys \<Longrightarrow> distinct ys \<Longrightarrow> distinct xs"
  by (metis card_distinct covers_members_def distinct_card)

lemma covers_mset: "mset xs = mset xs' \<Longrightarrow> covers_members xs ys \<longleftrightarrow> covers_members xs' ys"
  unfolding covers_members_def by (metis mset_eq_setD size_mset)

definition sorted_set :: "contract_set \<Rightarrow> contract_set" where
  "sorted_set c = \<lparr>timing = sort_key (\<lambda>v. run_status_value (timing_status v)) (timing c),
     events = sort_key (\<lambda>v. activity_event_kind_value (contract_event v)) (events c),
     recovery_decisions = sort_key (\<lambda>v. recovery_choice_value (choice_kind v)) (recovery_decisions c),
     operations = sort_key operation_id (operations c)\<rparr>"

definition complete_set :: "contract_set \<Rightarrow> bool" where
  "complete_set c \<longleftrightarrow> covers_members (map timing_status (timing c)) run_statuses \<and>
     covers_members (map contract_event (events c)) activity_event_kinds \<and>
     covers_members (map choice_kind (recovery_decisions c)) recovery_choices \<and>
     covers_members (map operation_kind (operations c)) lifecycle_operations"

lemma check_contract_set_Inr:
  "check_contract_set c = Inr c' \<longleftrightarrow> complete_set c \<and> c' = sorted_set c"
  by (auto simp: check_contract_set_def bindR_Inr_iff result_simps complete_set_def sorted_set_def)

lemma map_sort_mset: "mset (map f (sort_key g xs)) = mset (map f xs)"
  by simp

lemma complete_sorted: "complete_set (sorted_set c) \<longleftrightarrow> complete_set c"
  unfolding complete_set_def sorted_set_def
  by (simp add: covers_mset [OF map_sort_mset])

lemma sort_key_again: "sort_key f (sort_key f xs) = sort_key f xs"
  by (rule sort_key_id_if_sorted) simp

lemma sorted_set_again: "sorted_set (sorted_set c) = sorted_set c"
  by (simp add: sorted_set_def sort_key_again)

definition valid_set :: "contract_set \<Rightarrow> bool" where
  "valid_set c \<longleftrightarrow> check_contract_set c = Inr c \<and> (\<forall>v\<in>set (timing c). passes check_timing v) \<and>
     (\<forall>v\<in>set (events c). passes check_event v) \<and>
     (\<forall>v\<in>set (recovery_decisions c). passes check_recovery v) \<and>
     (\<forall>v\<in>set (operations c). passes check_operation v)"

lemma valid_set_made:
  assumes "check_contract_set c = Inr c'" and "\<forall>v\<in>set (timing c). passes check_timing v"
    and "\<forall>v\<in>set (events c). passes check_event v"
    and "\<forall>v\<in>set (recovery_decisions c). passes check_recovery v"
    and "\<forall>v\<in>set (operations c). passes check_operation v"
  shows "valid_set c'"
  using assms by (simp add: valid_set_def check_contract_set_Inr complete_sorted sorted_set_again)
    (simp add: sorted_set_def)

lemma parse_members_encoded:
  "(\<And>v. v \<in> set xs \<Longrightarrow> parse (desc v) = Inr v) \<Longrightarrow>
     parse_members parse i l (PList (map (\<lambda>v. PDict (desc v)) xs)) = Inr xs"
  unfolding parse_members_def by (simp, rule mapR_inverse) simp

lemma parse_members_pass:
  assumes "parse_members parse i l v = Inr xs"
  shows "\<forall>x\<in>set xs. \<exists>d. parse d = Inr x"
proof
  fix x assume "x \<in> set xs"
  from assms(1) obtain ws where "mapR (\<lambda>w. bindR (contract_mapping w i) parse) ws = Inr xs"
    by (auto simp: parse_members_def bindR_Inr_iff)
  from mapR_set [OF this \<open>x \<in> set xs\<close>] show "\<exists>d. parse d = Inr x" by (auto simp: bindR_Inr_iff)
qed

lemma contract_set_rebuild:
  "\<lparr>timing = timing c, events = events c, recovery_decisions = recovery_decisions c,
     operations = operations c\<rparr> = (c::contract_set)"
  by simp

lemma contract_set_roundtrip:
  assumes "valid_set c"
  shows "contract_set_from_descriptor (contract_set_descriptor c) = Inr c"
proof -
  have "parse_members timing_from_descriptor ''timing'' ''timing''
      (PList (map (\<lambda>v. PDict (timing_descriptor v)) (timing c))) = Inr (timing c)"
    "parse_members event_from_descriptor ''event'' ''events''
      (PList (map (\<lambda>v. PDict (event_descriptor v)) (events c))) = Inr (events c)"
    "parse_members recovery_from_descriptor ''recovery_decision'' ''recovery_decisions''
      (PList (map (\<lambda>v. PDict (recovery_descriptor v)) (recovery_decisions c))) = Inr (recovery_decisions c)"
    "parse_members operation_from_descriptor ''operation'' ''operations''
      (PList (map (\<lambda>v. PDict (operation_descriptor v)) (operations c))) = Inr (operations c)"
    using assms by (auto simp: valid_set_def intro!: parse_members_encoded timing_roundtrip
        event_roundtrip recovery_roundtrip operation_roundtrip)
  then show ?thesis
    using assms by (simp add: contract_set_from_descriptor_def contract_set_descriptor_def
        contract_keys_ok same_keys_def entry_def check_closed_values_def valid_set_def
        contract_set_rebuild insert_commute)
qed

lemma contract_set_decoded:
  assumes "contract_set_from_descriptor d = Inr c"
  shows "valid_set c"
proof -
  from assms obtain t e r os where parts:
    "parse_members timing_from_descriptor ''timing'' ''timing'' (entry d ''timing'') = Inr t"
    "parse_members event_from_descriptor ''event'' ''events'' (entry d ''events'') = Inr e"
    "parse_members recovery_from_descriptor ''recovery_decision'' ''recovery_decisions''
       (entry d ''recovery_decisions'') = Inr r"
    "parse_members operation_from_descriptor ''operation'' ''operations''
       (entry d ''operations'') = Inr os"
    and c: "check_contract_set \<lparr>timing = t, events = e, recovery_decisions = r, operations = os\<rparr> = Inr c"
    by (auto simp: contract_set_from_descriptor_def bindR_Inr_iff split: if_splits)
  from c show ?thesis
    using parts [THEN parse_members_pass] timing_decoded event_decoded recovery_decoded operation_decoded
    by (intro valid_set_made) (simp, fastforce+)
qed

interpretation contract_set_codec:
  descriptor_codec valid_set contract_set_descriptor contract_set_from_descriptor
  by unfold_locales (simp_all add: contract_set_roundtrip contract_set_decoded)

text \<open>
  The set's constructor forgets the order of its members. The operations are sorted by an
  identifier whose uniqueness is not checked, hence the second hypothesis.
\<close>

lemma vocabulary_distinct:
  "distinct run_statuses" "distinct activity_event_kinds" "distinct recovery_choices"
  by (simp_all add: run_statuses_def activity_event_kinds_def recovery_choices_def)

lemma check_contract_set_if:
  "check_contract_set c =
     (if \<not> covers_members (map timing_status (timing c)) run_statuses
      then Inl (contract_error ''timing must cover the canonical closed set'')
      else if \<not> covers_members (map contract_event (events c)) activity_event_kinds
      then Inl (contract_error ''events must cover the canonical closed set'')
      else if \<not> covers_members (map choice_kind (recovery_decisions c)) recovery_choices
      then Inl (contract_error ''recovery_decisions must cover the canonical closed set'')
      else if \<not> covers_members (map operation_kind (operations c)) lifecycle_operations
      then Inl (contract_error ''operations must cover the canonical closed set'')
      else Inr (sorted_set c))"
  by (simp add: check_contract_set_def require_exact_member_set_def covers_members_def
      sorted_set_def requireR_def)

lemma covers_inj_on:
  "covers_members (map f xs) ys \<Longrightarrow> distinct ys \<Longrightarrow> (\<And>x y. g x = g y \<longleftrightarrow> x = y) \<Longrightarrow>
     inj_on (\<lambda>v. g (f v)) (set xs)"
  using covers_distinct [of "map f xs" ys] by (simp add: distinct_map inj_on_def)

lemma contract_set_order:
  assumes "mset (timing c) = mset (timing c')" and "mset (events c) = mset (events c')"
    and "mset (recovery_decisions c) = mset (recovery_decisions c')"
    and "mset (operations c) = mset (operations c')" and "inj_on operation_id (set (operations c))"
  shows "check_contract_set c = check_contract_set c'"
proof -
  have same: "covers_members (map timing_status (timing c)) ys =
      covers_members (map timing_status (timing c')) ys"
    "covers_members (map contract_event (events c)) zs =
      covers_members (map contract_event (events c')) zs"
    "covers_members (map choice_kind (recovery_decisions c)) us =
      covers_members (map choice_kind (recovery_decisions c')) us"
    "covers_members (map operation_kind (operations c)) vs =
      covers_members (map operation_kind (operations c')) vs" for ys zs us vs
    using assms(1-4) by (auto intro!: covers_mset)
  have "sorted_set c = sorted_set c'" if "complete_set c"
  proof -
    have inj: "inj_on (\<lambda>v. run_status_value (timing_status v)) (set (timing c))"
      "inj_on (\<lambda>v. activity_event_kind_value (contract_event v)) (set (events c))"
      "inj_on (\<lambda>v. recovery_choice_value (choice_kind v)) (set (recovery_decisions c))"
      using that unfolding complete_set_def
      by (auto intro: covers_inj_on [OF _ vocabulary_distinct(1) run_status.value_inject]
          covers_inj_on [OF _ vocabulary_distinct(2) activity_event_kind.value_inject]
          covers_inj_on [OF _ vocabulary_distinct(3) recovery_choice.value_inject])
    show ?thesis
      unfolding sorted_set_def sort_key_mset_eq_on [OF assms(1) inj(1)]
        sort_key_mset_eq_on [OF assms(2) inj(2)] sort_key_mset_eq_on [OF assms(3) inj(3)]
        sort_key_mset_eq_on [OF assms(4,5)] ..
  qed
  then show ?thesis
    unfolding check_contract_set_if same [symmetric] complete_set_def by simp
qed

section \<open>Lookups\<close>

lemma find_covered:
  assumes "covers_members (map f xs) ys" and "k \<in> set ys"
  obtains v where "find (\<lambda>v. f v = k) xs = Some v" "v \<in> set xs" "f v = k"
proof (cases "find (\<lambda>v. f v = k) xs")
  case None
  then have "k \<notin> f ` set xs" by (auto simp: find_None_iff)
  with assms show ?thesis by (simp add: covers_members_def)
next
  case (Some v)
  with that show ?thesis by (auto simp: find_Some_iff)
qed

lemma find_event_total: "valid_set c \<Longrightarrow> \<exists>v\<in>set (events c). find_event c k = Inr v \<and> contract_event v = k"
proof -
  assume "valid_set c"
  then have "covers_members (map contract_event (events c)) activity_event_kinds"
    by (simp add: valid_set_def check_contract_set_Inr complete_set_def)
  then obtain v where "find (\<lambda>v. contract_event v = k) (events c) = Some v" "v \<in> set (events c)"
    "contract_event v = k"
    using activity_event_kind.members_complete by (rule find_covered)
  then show ?thesis by (auto simp: find_event_def)
qed

lemma find_recovery_total:
  "valid_set c \<Longrightarrow> \<exists>v\<in>set (recovery_decisions c). find_recovery_decision c k = Inr v \<and> choice_kind v = k"
proof -
  assume "valid_set c"
  then have "covers_members (map choice_kind (recovery_decisions c)) recovery_choices"
    by (simp add: valid_set_def check_contract_set_Inr complete_set_def)
  then obtain v where "find (\<lambda>v. choice_kind v = k) (recovery_decisions c) = Some v"
    "v \<in> set (recovery_decisions c)" "choice_kind v = k"
    using recovery_choice.members_complete by (rule find_covered)
  then show ?thesis by (auto simp: find_recovery_decision_def)
qed

section \<open>The canonical set\<close>

lemma mapR_pass: "list_all (passes f) xs \<Longrightarrow> mapR f xs = Inr xs"
  by (induction xs) (simp_all add: passes_def)

lemma canonical_timing_pass: "list_all (passes check_timing) canonical_timing"
  by (simp add: canonical_timing_def passes_def check_timing_def list_all_iff)

lemma canonical_events_pass: "list_all (passes check_event) canonical_events"
  by (simp add: canonical_events_def passes_def check_event_def list_all_iff)

lemma canonical_recovery_pass: "list_all (passes check_recovery) canonical_recovery_decisions"
  by (simp add: canonical_recovery_decisions_def passes_def check_recovery_def reject_duplicates_def
      has_duplicates_def)

lemma identity_ok: "v \<noteq> [] \<Longrightarrow> list_all contract_identity_char v \<Longrightarrow> validate_identity v l = Inr ()"
  by (simp add: validate_identity_def list_all_iff list_ex_iff)

lemma canonical_operations_pass: "list_all (passes check_operation) canonical_operations"
  by (simp add: canonical_operations_def passes_def check_operation_def reject_duplicates_def
      has_duplicates_def validate_identity_def contract_identity_char_def is_alnum_def char_code_def)

lemma canonical_complete:
  "complete_set \<lparr>timing = canonical_timing, events = canonical_events,
     recovery_decisions = canonical_recovery_decisions, operations = canonical_operations\<rparr>"
proof -
  have "map timing_status canonical_timing = run_statuses"
    "map contract_event canonical_events = activity_event_kinds"
    "map choice_kind canonical_recovery_decisions = recovery_choices"
    "map operation_kind canonical_operations = lifecycle_operations"
    by (simp_all add: canonical_timing_def canonical_events_def comp_def
        canonical_recovery_decisions_def recovery_choices_def canonical_operations_def
        lifecycle_operations_def)
  then show ?thesis by (simp add: complete_set_def covers_members_def)
qed

abbreviation canonical_tables :: contract_set where
  "canonical_tables \<equiv> \<lparr>timing = canonical_timing, events = canonical_events,
     recovery_decisions = canonical_recovery_decisions, operations = canonical_operations\<rparr>"

lemma canonical_set_sorted:
  "canonical_execution_lifecycle_contract_set = Inr (sorted_set canonical_tables)"
  using canonical_complete by (simp add: canonical_execution_lifecycle_contract_set_def
      mapR_pass [OF canonical_timing_pass] mapR_pass [OF canonical_events_pass]
      mapR_pass [OF canonical_recovery_pass] mapR_pass [OF canonical_operations_pass]
      check_contract_set_Inr)

lemma canonical_set_valid: "\<exists>c. canonical_execution_lifecycle_contract_set = Inr c \<and> valid_set c"
proof -
  have "valid_set (sorted_set canonical_tables)"
    using canonical_complete canonical_timing_pass canonical_events_pass canonical_recovery_pass
      canonical_operations_pass
    by (intro valid_set_made [of canonical_tables]) (simp_all add: check_contract_set_Inr list_all_iff)
  with canonical_set_sorted show ?thesis by blast
qed

lemma canonical_failure_kinds:
  "\<exists>c. canonical_execution_lifecycle_contract_set = Inr c \<and>
     contract_event ` {e \<in> set (events c). may_carry_failure e} = set failure_event_kinds"
proof -
  have "set (events (sorted_set canonical_tables)) = set canonical_events"
    by (simp add: sorted_set_def)
  moreover have "contract_event ` {e \<in> set canonical_events. may_carry_failure e} = set failure_event_kinds"
  proof -
    have "contract_event ` {e \<in> set canonical_events. may_carry_failure e} =
        {k \<in> set activity_event_kinds. k \<in> set failure_event_kinds}"
      unfolding canonical_events_def by force
    then show ?thesis using activity_event_kind.members_complete by auto
  qed
  ultimately have "contract_event ` {e \<in> set (events (sorted_set canonical_tables)). may_carry_failure e} =
      set failure_event_kinds" by simp
  with canonical_set_sorted show ?thesis by blast
qed

section \<open>The declared run machine\<close>

lemma declared_transitions_eq: "declared_transitions = [
    (RunClaimed, RunRunning), (RunRunning, RunPaused), (RunPaused, RunRunning),
    (RunRunning, RunSucceeded), (RunRunning, RunFailed), (RunPaused, RunFailed),
    (RunFailed, RunCompensating), (RunCompensating, RunCompensated),
    (RunCompensating, RunPartiallyFailed), (RunClaimed, RunCancelled),
    (RunRunning, RunCancelled), (RunPaused, RunCancelled), (RunSucceeded, RunSucceeded)]"
  by (simp add: declared_transitions_def canonical_operations_def)

lemma settled_absorbing:
  "(s, t) \<in> set declared_transitions \<Longrightarrow> s \<in> set settled_run_statuses \<Longrightarrow> t = s"
  by (auto simp: declared_transitions_eq settled_run_statuses_def)

lemma settled_forever:
  assumes "(s, t) \<in> (set declared_transitions)\<^sup>*" and "s \<in> set settled_run_statuses"
  shows "t = s"
  using assms by (induction rule: rtrancl_induct) (auto dest: settled_absorbing)

text \<open>What a claimed run can become: everything but an accepted uncompensated failure.\<close>

lemma claimed_reaches:
  "(RunClaimed, t) \<in> (set declared_transitions)\<^sup>* \<longleftrightarrow> t \<noteq> RunUncompensatedFailure"
proof
  assume "(RunClaimed, t) \<in> (set declared_transitions)\<^sup>*"
  then show "t \<noteq> RunUncompensatedFailure"
    by (induction rule: rtrancl_induct) (auto simp: declared_transitions_eq)
next
  let ?D = "set declared_transitions"
  have d: "(RunClaimed, RunRunning) \<in> ?D" "(RunRunning, RunPaused) \<in> ?D" "(RunRunning, RunSucceeded) \<in> ?D"
    "(RunRunning, RunFailed) \<in> ?D" "(RunFailed, RunCompensating) \<in> ?D"
    "(RunCompensating, RunCompensated) \<in> ?D" "(RunCompensating, RunPartiallyFailed) \<in> ?D"
    "(RunClaimed, RunCancelled) \<in> ?D"
    by (simp_all add: declared_transitions_eq)
  have running: "(RunClaimed, RunRunning) \<in> ?D\<^sup>*" using d(1) by blast
  have failed: "(RunClaimed, RunFailed) \<in> ?D\<^sup>*" using running d(4) by (rule rtrancl_into_rtrancl)
  have comp: "(RunClaimed, RunCompensating) \<in> ?D\<^sup>*" using failed d(5) by (rule rtrancl_into_rtrancl)
  assume "t \<noteq> RunUncompensatedFailure"
  then show "(RunClaimed, t) \<in> ?D\<^sup>*"
    using running failed comp d by (cases t) (auto intro: rtrancl_into_rtrancl)
qed

text \<open>A run that has started stays started, unless it is cancelled.\<close>

lemma started_stays:
  "(s, t) \<in> (set declared_transitions)\<^sup>* \<Longrightarrow> s \<in> set started_run_statuses \<Longrightarrow>
     t \<in> set started_run_statuses \<or> t = RunCancelled"
  by (induction rule: rtrancl_induct)
    (auto simp: declared_transitions_eq started_run_statuses_def)

section \<open>Operation identifiers\<close>

text \<open>
  Nothing in the constructor asks the identifiers of the operations to be distinct: a set
  with two operations of one identifier is accepted, and \<open>find_operation\<close> never returns
  the later one.
\<close>

definition renamed_operations :: "operation_contract list" where
  "renamed_operations = map (\<lambda>c. if operation_kind c = OpPauseRun
     then c\<lparr>operation_id := ''run.start''\<rparr> else c) canonical_operations"

definition renamed_set :: contract_set where
  "renamed_set = \<lparr>timing = canonical_timing, events = canonical_events,
     recovery_decisions = canonical_recovery_decisions, operations = renamed_operations\<rparr>"

lemma renamed_set_accepted:
  "check_contract_set renamed_set = Inr (sorted_set renamed_set)"
  "\<not> inj_on operation_id (set (operations renamed_set))"
proof -
  have "map operation_kind renamed_operations = lifecycle_operations"
    by (simp add: renamed_operations_def canonical_operations_def lifecycle_operations_def)
  with canonical_complete show "check_contract_set renamed_set = Inr (sorted_set renamed_set)"
    by (simp add: check_contract_set_Inr renamed_set_def complete_set_def covers_members_def)
  have "map operation_id renamed_operations ! 2 = map operation_id renamed_operations ! 3"
    "length (map operation_id renamed_operations) = 13"
    by (simp_all add: renamed_operations_def canonical_operations_def)
  moreover have "distinct renamed_operations"
    by (simp add: renamed_operations_def canonical_operations_def)
  ultimately show "\<not> inj_on operation_id (set (operations renamed_set))"
    by (auto simp: renamed_set_def inj_on_def renamed_operations_def canonical_operations_def)
qed

lemma renamed_starts:
  "list_ex (\<lambda>u. operation_id u = ''run.start'' \<and> operation_kind u = OpStartRun) renamed_operations"
  "list_ex (\<lambda>u. operation_id u = ''run.start'' \<and> operation_kind u = OpPauseRun) renamed_operations"
  by code_simp+

lemma renamed_set_hides:
  "\<exists>v w. find_operation (sorted_set renamed_set) ''run.start'' = Inr v \<and>
     w \<in> set (operations (sorted_set renamed_set)) \<and> operation_id w = ''run.start'' \<and> w \<noteq> v"
proof -
  let ?ops = "operations (sorted_set renamed_set)"
  have ops: "set ?ops = set renamed_operations" by (simp add: sorted_set_def renamed_set_def)
  obtain a where a: "a \<in> set ?ops" "operation_id a = ''run.start''" "operation_kind a = OpStartRun"
    using renamed_starts(1) unfolding ops list_ex_iff by blast
  obtain b where b: "b \<in> set ?ops" "operation_id b = ''run.start''" "operation_kind b = OpPauseRun"
    using renamed_starts(2) unfolding ops list_ex_iff by blast
  have "find (\<lambda>v. operation_id v = ''run.start'') ?ops \<noteq> None"
    using a(1,2) unfolding find_None_iff by blast
  then obtain v where v: "find (\<lambda>v. operation_id v = ''run.start'') ?ops = Some v" by blast
  have "validate_identity ''run.start'' ''operation_id'' = Inr ()" by code_simp
  with v have "find_operation (sorted_set renamed_set) ''run.start'' = Inr v"
    unfolding find_operation_def by (simp only: bindR.simps option.case)
  moreover have "a \<noteq> b" using a(3) b(3) by auto
  ultimately show ?thesis using a(1,2) b(1,2) by blast
qed

end
