(* ===== verification/Contract_Properties.thy ===== *)
theory Contract_Properties
  imports Contract_Laws
begin

text \<open>Properties of the lifecycle contracts.\<close>

text \<open>
  The descriptor of a valid contract set decodes to that set, and whatever decodes is
  a valid set: complete, sorted, and made of contracts that pass their own checks.
\<close>

theorem contract_set_round_trip:
  "(valid_set c \<longrightarrow> contract_set_from_descriptor (contract_set_descriptor c) = Inr c) \<and>
   (contract_set_from_descriptor d = Inr c \<longrightarrow> valid_set c)"
  using contract_set_codec.roundtrip contract_set_codec.decoded_valid by blast

theorem contract_set_round_trip_witness:
  "\<exists>c. canonical_execution_lifecycle_contract_set = Inr c \<and>
     contract_set_from_descriptor (contract_set_descriptor c) = Inr c"
  using contract_set_round_trip canonical_set_valid by blast

text \<open>
  The constructor of a contract set forgets the order of its members when the
  operations have distinct identifiers.
\<close>

theorem contract_set_order_insensitive:
  "mset (timing c) = mset (timing c') \<Longrightarrow> mset (events c) = mset (events c') \<Longrightarrow>
   mset (recovery_decisions c) = mset (recovery_decisions c') \<Longrightarrow>
   mset (operations c) = mset (operations c') \<Longrightarrow> inj_on operation_id (set (operations c)) \<Longrightarrow>
     check_contract_set c = check_contract_set c'"
  by (rule contract_set_order)

theorem contract_set_order_insensitive_witness:
  "check_contract_set \<lparr>timing = canonical_timing, events = canonical_events,
     recovery_decisions = canonical_recovery_decisions, operations = canonical_operations\<rparr> =
   check_contract_set \<lparr>timing = rev canonical_timing, events = canonical_events,
     recovery_decisions = canonical_recovery_decisions, operations = rev canonical_operations\<rparr>"
proof (rule contract_set_order_insensitive)
  have "distinct (map operation_id canonical_operations)"
    by (simp add: canonical_operations_def)
  then show "inj_on operation_id (set (operations \<lparr>timing = canonical_timing, events = canonical_events,
      recovery_decisions = canonical_recovery_decisions, operations = canonical_operations\<rparr>))"
    by (simp add: distinct_map)
qed simp_all

text \<open>
  The canonical contract set exists and is valid; in it every event kind and every
  recovery choice has exactly the contract that is looked up.
\<close>

theorem canonical_set_complete:
  "\<exists>c. canonical_execution_lifecycle_contract_set = Inr c \<and> valid_set c \<and>
     (\<forall>k. \<exists>v. find_event c k = Inr v \<and> contract_event v = k) \<and>
     (\<forall>k. \<exists>v. find_recovery_decision c k = Inr v \<and> choice_kind v = k)"
  using canonical_set_valid find_event_total find_recovery_total by metis

text \<open>
  In the run machine the canonical operations declare, a settled status is never left,
  a started run stays started unless it is cancelled, and a claimed run can reach every
  status except the accepted uncompensated failure, which no operation results in.
\<close>

theorem declared_run_machine:
  "((s, t) \<in> (set declared_transitions)\<^sup>* \<longrightarrow> s \<in> set settled_run_statuses \<longrightarrow> t = s) \<and>
   ((s, t) \<in> (set declared_transitions)\<^sup>* \<longrightarrow> s \<in> set started_run_statuses \<longrightarrow>
      t \<in> set started_run_statuses \<or> t = RunCancelled) \<and>
   ((RunClaimed, t) \<in> (set declared_transitions)\<^sup>*) = (t \<noteq> RunUncompensatedFailure)"
  using settled_forever started_stays claimed_reaches by blast

theorem declared_run_machine_witness: "(RunFailed, RunClaimed) \<notin> (set declared_transitions)\<^sup>*"
  using declared_run_machine [of RunFailed RunClaimed] by (auto simp: started_run_statuses_def)

text \<open>
  Nothing requires the operation identifiers to be distinct: a complete set with two
  operations of one identifier is accepted, so its order is not canonical and one of the
  two operations is never found.
\<close>

theorem operation_identifiers_may_repeat:
  "check_contract_set renamed_set = Inr (sorted_set renamed_set) \<and>
   \<not> inj_on operation_id (set (operations renamed_set)) \<and>
   (\<exists>v w. find_operation (sorted_set renamed_set) ''run.start'' = Inr v \<and>
      w \<in> set (operations (sorted_set renamed_set)) \<and> operation_id w = ''run.start'' \<and> w \<noteq> v)"
  using renamed_set_accepted renamed_set_hides by blast

end
