(* ===== verification/Json_Text.thy ===== *)
theory Json_Text
  imports Bounded_Values
begin

text \<open>
  The JSON text of a descriptor, as the standard library writes it, and the containment of one text in
  another, which the redaction of secret-shaped keys uses.
\<close>

section \<open>JSON text\<close>

definition hex_char :: "nat \<Rightarrow> char" where
  "hex_char n = (if n < 10 then char_of (48 + n) else char_of (87 + n))"

definition json_char :: "char \<Rightarrow> string" where
  "json_char c = (let n = char_code c in
     if n = 34 then [char_of (92::nat), char_of (34::nat)]
     else if n = 92 then [char_of (92::nat), char_of (92::nat)]
     else if n = 10 then [char_of (92::nat), CHR ''n'']
     else if n = 13 then [char_of (92::nat), CHR ''r'']
     else if n = 9 then [char_of (92::nat), CHR ''t'']
     else if n = 8 then [char_of (92::nat), CHR ''b'']
     else if n = 12 then [char_of (92::nat), CHR ''f'']
     else if n < 32 \<or> 126 < n
     then char_of (92::nat) # ''u00'' @ [hex_char (n div 16), hex_char (n mod 16)]
     else [c])"

text \<open>For evaluation: the printable code points other than the quote and the backslash are kept.\<close>

fun json_plain :: "char \<Rightarrow> bool" where
  "json_plain (Char b0 b1 b2 b3 b4 b5 b6 b7) \<longleftrightarrow> \<not> b7 \<and> (b5 \<or> b6) \<and>
     (if b6 then \<not> (b0 \<and> b1 \<and> b2 \<and> b3 \<and> b4 \<and> b5) \<and> \<not> (\<not> b0 \<and> \<not> b1 \<and> b2 \<and> b3 \<and> b4 \<and> \<not> b5)
      else \<not> (\<not> b0 \<and> b1 \<and> \<not> b2 \<and> \<not> b3 \<and> \<not> b4))"

definition json_escape :: "char \<Rightarrow> string" where
  "json_escape = json_char"

lemma json_escape_code [code]: "json_escape c = (let n = (of_char c :: int) in
     if n = 34 then [CHR 92, CHR 34]
     else if n = 92 then [CHR 92, CHR 92]
     else if n = 10 then [CHR 92, CHR ''n'']
     else if n = 13 then [CHR 92, CHR ''r'']
     else if n = 9 then [CHR 92, CHR ''t'']
     else if n = 8 then [CHR 92, CHR ''b'']
     else if n = 12 then [CHR 92, CHR ''f'']
     else if n < 32 \<or> 126 < n
     then CHR 92 # ''u00'' @ [hex_char (char_code c div 16), hex_char (char_code c mod 16)]
     else [c])"
proof -
  have "char_of (92::nat) = CHR 92" "char_of (34::nat) = CHR 34" by code_simp+
  then show ?thesis by (simp add: json_escape_def json_char_def Let_def char_code_less)
qed

lemma json_plain_char: "json_plain c \<Longrightarrow> json_char c = [c]"
proof (cases c)
  case (Char b0 b1 b2 b3 b4 b5 b6 b7)
  assume "json_plain c"
  then show ?thesis unfolding Char
    by (cases b0; cases b1; cases b2; cases b3; cases b4; cases b5; cases b6; cases b7)
      (simp_all add: json_char_def Let_def char_code_def)
qed

lemma json_char_code [code]: "json_char c = (if json_plain c then [c] else json_escape c)"
  by (simp add: json_plain_char json_escape_def)

definition json_string :: "string \<Rightarrow> string" where
  "json_string s = char_of (34::nat) # concat (map json_char s) @ [char_of (34::nat)]"

text \<open>
  \<open>json.dumps(value, sort_keys=True, separators=(sep, colon))\<close>, which escapes to ASCII. The default
  separators are \<open>", "\<close> and \<open>": "\<close>.
\<close>

fun join_with :: "string \<Rightarrow> string list \<Rightarrow> string" where
  "join_with sep [] = []"
| "join_with sep [x] = x"
| "join_with sep (x # y # xs) = x @ sep @ join_with sep (y # xs)"

fun json_dump :: "string \<Rightarrow> string \<Rightarrow> py \<Rightarrow> string"
  and json_items :: "string \<Rightarrow> string \<Rightarrow> py list \<Rightarrow> string list"
  and json_entries :: "string \<Rightarrow> string \<Rightarrow> (string \<times> py) list \<Rightarrow> (string \<times> string) list" where
  "json_dump sep colon PNone = ''null''"
| "json_dump sep colon (PBool b) = (if b then ''true'' else ''false'')"
| "json_dump sep colon (PInt i) = int_text i"
| "json_dump sep colon (PFloat t) = t"
| "json_dump sep colon (PStr s) = json_string s"
| "json_dump sep colon (PList xs) = ''['' @ join_with sep (json_items sep colon xs) @ '']''"
| "json_dump sep colon (PDict d) = ''{'' @ join_with sep (map (\<lambda>(k, t). json_string k @ colon @ t)
     (sort_key fst (json_entries sep colon d))) @ ''}''"
| "json_items sep colon [] = []"
| "json_items sep colon (x # xs) = json_dump sep colon x # json_items sep colon xs"
| "json_entries sep colon [] = []"
| "json_entries sep colon ((k, v) # d) = (k, json_dump sep colon v) # json_entries sep colon d"

definition json_text :: "py \<Rightarrow> string" where
  "json_text = json_dump '','' '':''"

definition json_spaced :: "py \<Rightarrow> string" where
  "json_spaced = json_dump '', '' '': ''"

section \<open>Containment of texts\<close>

fun occurs_in :: "string \<Rightarrow> string \<Rightarrow> bool" where
  "occurs_in m [] \<longleftrightarrow> m = []"
| "occurs_in m (c # cs) \<longleftrightarrow> take (length m) (c # cs) = m \<or> occurs_in m cs"

text \<open>\<open>str.lower\<close> on the ASCII letters of a text.\<close>

definition lower_char :: "char \<Rightarrow> char" where
  "lower_char c = (let n = char_code c in if 65 \<le> n \<and> n \<le> 90 then char_of (n + 32) else c)"

lemma lower_char_code [code]: "lower_char (Char b0 b1 b2 b3 b4 b5 b6 b7) =
  (if \<not> b7 \<and> b6 \<and> \<not> b5 \<and> (b0 \<or> b1 \<or> b2 \<or> b3 \<or> b4) \<and> \<not> (b4 \<and> b3 \<and> (b2 \<or> b1 \<and> b0))
   then Char b0 b1 b2 b3 b4 True b6 b7 else Char b0 b1 b2 b3 b4 b5 b6 b7)"
  by (cases b0; cases b1; cases b2; cases b3; cases b4; cases b5; cases b6; cases b7)
    (simp_all add: lower_char_def Let_def char_code_def char_of_def bit_0)

end
