(* ===== verification/Operation_Records.thy ===== *)
theory Operation_Records
  imports Contract_Tables Plan_Syntax Json_Text
begin

text \<open>
  The durable records of the operations package: \<open>operations/records.py\<close>, as far as the run
  lifecycle needs it, and the lease fence of \<open>operations/execution_leases.py\<close>. A constructor is
  a check that returns its value. Evidence is kept as the JSON value its canonical text encodes
 , with sorted keys, so that equal evidence has equal text.
\<close>

section \<open>Exceptions\<close>

datatype ops_exn = OperationsRecordError string | InvalidExecutionLeaseFence string
  | InvalidOperationCommand string | RunLifecycleError string | RunLifecycleConflict string
  | RunLifecycleDenied string | RunLifecycleIdempotencyConflict string
  | RunLifecycleNotFound string | OpsValueError string | MissingRow string
  | ConstraintViolation string | ExecutionCoordinatorNotFound string | ExecutionCoordinatorConflict string
  | ExecutionCoordinatorDenied string | AdvancementError string | AdvancementNotFound string
  | AdvancementConflict string | AdvancementDenied string | AdvancementIncomplete string
  | AdvancementIdempotencyConflict string

section \<open>Texts\<close>

definition control_char :: "char \<Rightarrow> bool" where
  "control_char c \<longleftrightarrow> char_code c < 32"

lemma control_char_code [code]: "control_char (Char b0 b1 b2 b3 b4 b5 b6 b7) \<longleftrightarrow> \<not> b5 \<and> \<not> b6 \<and> \<not> b7"
  by (cases b5; cases b6; cases b7) (simp_all add: control_char_def char_code_def)

definition record_text_ok :: "string \<Rightarrow> bool" where
  "record_text_ok s \<longleftrightarrow> s \<noteq> [] \<and> length s \<le> 512 \<and> \<not> list_ex control_char s"

definition validate_text :: "string \<Rightarrow> string \<Rightarrow> ops_exn + unit" where
  "validate_text s label =
     (if s = [] \<or> length s > 512
      then Inl (OperationsRecordError (label @ '' must be nonempty bounded text''))
      else if list_ex control_char s
      then Inl (OperationsRecordError (label @ '' must not contain control characters''))
      else Inr ())"

lemma text_length_code [code]:
  "record_text_ok s \<longleftrightarrow> s \<noteq> [] \<and> \<not> longer_than 512 s \<and> \<not> list_ex control_char s"
  "validate_text s label =
     (if s = [] \<or> longer_than 512 s
      then Inl (OperationsRecordError (label @ '' must be nonempty bounded text''))
      else if list_ex control_char s
      then Inl (OperationsRecordError (label @ '' must not contain control characters''))
      else Inr ())"
  by (simp_all add: record_text_ok_def validate_text_def length_less)

definition validate_optional_text :: "string option \<Rightarrow> string \<Rightarrow> ops_exn + unit" where
  "validate_optional_text v label = (case v of None \<Rightarrow> Inr () | Some s \<Rightarrow> validate_text s label)"

definition validate_run_id :: "string \<Rightarrow> string \<Rightarrow> ops_exn + unit" where
  "validate_run_id s label = (case make_run_id s of
     Inr i \<Rightarrow> Inr () | Inl e \<Rightarrow> Inl (OperationsRecordError (label @ '' is malformed'')))"

definition validate_optional_activity_id :: "string option \<Rightarrow> ops_exn + unit" where
  "validate_optional_activity_id v = (case v of None \<Rightarrow> Inr ()
     | Some s \<Rightarrow> (case make_activity_id s of Inr i \<Rightarrow> Inr ()
        | Inl e \<Rightarrow> Inl (OperationsRecordError ''activity_id is malformed'')))"

lemma validate_text_Inr [result_simps]: "validate_text s l = Inr u \<longleftrightarrow> record_text_ok s"
  by (auto simp: validate_text_def record_text_ok_def)

lemma validate_optional_text_Inr [result_simps]:
  "validate_optional_text v l = Inr u \<longleftrightarrow> (\<forall>s. v = Some s \<longrightarrow> record_text_ok s)"
  by (cases v) (simp_all add: validate_optional_text_def validate_text_Inr)

lemma validate_run_id_Inr [result_simps]: "validate_run_id s l = Inr u \<longleftrightarrow> is_canonical_run_identity s"
  by (simp add: validate_run_id_def make_run_id_def)

section \<open>Bounded evidence\<close>

fun canonical_py :: "py \<Rightarrow> py"
  and canonical_items :: "py list \<Rightarrow> py list"
  and canonical_entries :: "(string \<times> py) list \<Rightarrow> (string \<times> py) list" where
  "canonical_py (PList xs) = PList (canonical_items xs)"
| "canonical_py (PDict d) = PDict (sort_key fst (canonical_entries d))"
| "canonical_py v = v"
| "canonical_items [] = []"
| "canonical_items (x # xs) = canonical_py x # canonical_items xs"
| "canonical_entries [] = []"
| "canonical_entries ((k, v) # d) = (k, canonical_py v) # canonical_entries d"

definition max_evidence_bytes :: nat where
  "max_evidence_bytes = 4096"

definition max_evidence_depth :: nat where
  "max_evidence_depth = 4"

definition max_evidence_items :: nat where
  "max_evidence_items = 32"

definition max_evidence_text :: nat where
  "max_evidence_text = 512"

text \<open>\<open>key.lower().replace("-", "_")\<close>, and whether it contains one of the markers.\<close>

definition normal_char :: "char \<Rightarrow> char" where
  "normal_char c = (let n = char_code c in
     if 65 \<le> n \<and> n \<le> 90 then char_of (n + 32) else if c = CHR ''-'' then CHR ''_'' else c)"

lemma normal_char_code [code]: "normal_char (Char b0 b1 b2 b3 b4 b5 b6 b7) =
  (if \<not> b7 \<and> b6 \<and> \<not> b5 \<and> (b0 \<or> b1 \<or> b2 \<or> b3 \<or> b4) \<and> \<not> (b4 \<and> b3 \<and> (b2 \<or> b1 \<and> b0))
   then Char b0 b1 b2 b3 b4 True b6 b7
   else if Char b0 b1 b2 b3 b4 b5 b6 b7 = CHR ''-'' then CHR ''_'' else Char b0 b1 b2 b3 b4 b5 b6 b7)"
  by (cases b0; cases b1; cases b2; cases b3; cases b4; cases b5; cases b6; cases b7)
    (simp_all add: normal_char_def Let_def char_code_def char_of_def bit_0)

definition secret_shaped :: "string \<Rightarrow> bool" where
  "secret_shaped k \<longleftrightarrow> list_ex (\<lambda>m. occurs_in m (map normal_char k))
     [''password'', ''secret'', ''token'', ''credential'', ''private_key'']"

fun validate_evidence_at :: "string \<Rightarrow> nat \<Rightarrow> py \<Rightarrow> ops_exn + unit"
  and validate_entries :: "string \<Rightarrow> nat \<Rightarrow> (string \<times> py) list \<Rightarrow> ops_exn + unit"
  and validate_items :: "string \<Rightarrow> nat \<Rightarrow> nat \<Rightarrow> py list \<Rightarrow> ops_exn + unit" where
  "validate_evidence_at path depth v =
     (if depth > max_evidence_depth
      then Inl (OperationsRecordError ''evidence nesting must not exceed 4 levels'')
      else case v of
        PDict d \<Rightarrow> if length d > max_evidence_items
          then Inl (OperationsRecordError (path @ '' must not contain more than 32 fields''))
          else validate_entries path depth d
      | PList xs \<Rightarrow> if length xs > max_evidence_items
          then Inl (OperationsRecordError (path @ '' must not contain more than 32 items''))
          else validate_items path depth 0 xs
      | PStr s \<Rightarrow> if length s > max_evidence_text
          then Inl (OperationsRecordError (path @ '' text must not exceed 512 characters''))
          else Inr ()
      | _ \<Rightarrow> Inr ())"
| "validate_entries path depth [] = Inr ()"
| "validate_entries path depth ((k, v) # d) =
     (if \<not> non_blank k then Inl (OperationsRecordError (path @ '' keys must be nonempty text''))
      else if secret_shaped k
      then Inl (OperationsRecordError (path @ ''.'' @ k @
        '' is secret-shaped and cannot enter durable evidence''))
      else bindR (validate_evidence_at (path @ ''.'' @ k) (Suc depth) v) (\<lambda>_.
        validate_entries path depth d))"
| "validate_items path depth i [] = Inr ()"
| "validate_items path depth i (x # xs) =
     bindR (validate_evidence_at (path @ ''['' @ nat_text i @ '']'') (Suc depth) x) (\<lambda>_.
       validate_items path depth (Suc i) xs)"

lemma validate_evidence_at_code [code]:
  "validate_evidence_at path depth v =
     (if depth > max_evidence_depth
      then Inl (OperationsRecordError ''evidence nesting must not exceed 4 levels'')
      else case v of
        PDict d \<Rightarrow> if longer_than 32 d
          then Inl (OperationsRecordError (path @ '' must not contain more than 32 fields''))
          else validate_entries path depth d
      | PList xs \<Rightarrow> if longer_than 32 xs
          then Inl (OperationsRecordError (path @ '' must not contain more than 32 items''))
          else validate_items path depth 0 xs
      | PStr s \<Rightarrow> if longer_than 512 s
          then Inl (OperationsRecordError (path @ '' text must not exceed 512 characters''))
          else Inr ()
      | _ \<Rightarrow> Inr ())"
  unfolding validate_evidence_at.simps max_evidence_items_def max_evidence_text_def length_less ..

datatype bounded_evidence = BoundedEvidence (evidence_value: descriptor)

text \<open>\<open>BoundedEvidence.from_mapping\<close>; the constructor it ends with repeats its checks.\<close>

definition make_evidence :: "descriptor \<Rightarrow> ops_exn + bounded_evidence" where
  "make_evidence d =
     bindR (validate_evidence_at ''evidence'' 0 (PDict d)) (\<lambda>_.
       if length (json_text (PDict d)) > max_evidence_bytes
       then Inl (OperationsRecordError ''evidence must not exceed 4096 encoded bytes'')
       else Inr (BoundedEvidence (sort_key fst (canonical_entries d))))"

lemma make_evidence_code [code]:
  "make_evidence d =
     bindR (validate_evidence_at ''evidence'' 0 (PDict d)) (\<lambda>_.
       if longer_than 4096 (json_text (PDict d))
       then Inl (OperationsRecordError ''evidence must not exceed 4096 encoded bytes'')
       else Inr (BoundedEvidence (sort_key fst (canonical_entries d))))"
  unfolding make_evidence_def max_evidence_bytes_def length_less ..

definition no_evidence :: bounded_evidence where
  "no_evidence = BoundedEvidence []"

section \<open>Lease fences\<close>

definition max_lease_generation :: int where
  "max_lease_generation = 9223372036854775807"

record lease_fence =
  lease_worker :: string
  lease_generation :: int

definition check_lease_fence :: "lease_fence \<Rightarrow> ops_exn + lease_fence" where
  "check_lease_fence f =
     (if \<not> record_text_ok (lease_worker f)
      then Inl (InvalidExecutionLeaseFence ''execution lease fence worker_id is invalid'')
      else if lease_generation f < 1 \<or> lease_generation f > max_lease_generation
      then Inl (InvalidExecutionLeaseFence ''execution lease fence generation is invalid'')
      else Inr f)"

definition lease_fence_descriptor :: "lease_fence \<Rightarrow> descriptor" where
  "lease_fence_descriptor f =
     [(''worker_id'', PStr (lease_worker f)), (''generation'', PInt (lease_generation f))]"

section \<open>Parts of records\<close>

record claim_identity =
  claim_worker :: string
  claim_generation :: int
  claimed_at :: string
  lease_expires_at :: string

definition check_claim :: "claim_identity \<Rightarrow> ops_exn + claim_identity" where
  "check_claim c =
     bindR (validate_text (claim_worker c) ''worker_id'') (\<lambda>_.
     if claim_generation c < 1 \<or> claim_generation c > max_lease_generation
     then Inl (OperationsRecordError ''claim generation is invalid'')
     else
     bindR (validate_text (claimed_at c) ''claimed_at'') (\<lambda>_.
     bindR (validate_text (lease_expires_at c) ''lease_expires_at'') (\<lambda>_. Inr c)))"

definition claim_fence :: "claim_identity \<Rightarrow> ops_exn + lease_fence" where
  "claim_fence c = check_lease_fence
     \<lparr>lease_worker = claim_worker c, lease_generation = claim_generation c\<rparr>"

definition max_run_attempt :: int where
  "max_run_attempt = 2147483647"

record retry_identity =
  retry_attempt :: int
  prior_run :: "string option"

definition check_retry :: "retry_identity \<Rightarrow> ops_exn + retry_identity" where
  "check_retry r =
     (if retry_attempt r < 1 \<or> retry_attempt r > max_run_attempt
      then Inl (OperationsRecordError ''retry attempt must be an integer from 1 through 2147483647'')
      else if retry_attempt r = 1 \<and> prior_run r \<noteq> None
      then Inl (OperationsRecordError ''first attempt cannot reference a prior run'')
      else if retry_attempt r > 1
      then (case prior_run r of
          None \<Rightarrow> Inl (OperationsRecordError ''prior_run_id is malformed'')
        | Some p \<Rightarrow> bindR (validate_run_id p ''prior_run_id'') (\<lambda>_. Inr r))
      else Inr r)"

record failure_evidence =
  failure_kind :: failure_category
  failure_code :: string
  failure_message :: string
  failure_details :: bounded_evidence

definition check_failure :: "failure_evidence \<Rightarrow> ops_exn + failure_evidence" where
  "check_failure f =
     bindR (validate_text (failure_code f) ''failure code'') (\<lambda>_.
     bindR (validate_text (failure_message f) ''failure message'') (\<lambda>_.
       if length (failure_message f) > max_evidence_text
       then Inl (OperationsRecordError ''failure message must not exceed 512 characters'')
       else Inr f))"

lemma check_failure_code [code]:
  "check_failure f =
     bindR (validate_text (failure_code f) ''failure code'') (\<lambda>_.
     bindR (validate_text (failure_message f) ''failure message'') (\<lambda>_.
       if longer_than 512 (failure_message f)
       then Inl (OperationsRecordError ''failure message must not exceed 512 characters'')
       else Inr f))"
  unfolding check_failure_def max_evidence_text_def length_less ..

definition lease_recovery_decisions :: "recovery_choice list" where
  "lease_recovery_decisions = [ChooseRetryAsNewRun, ChooseRenewActiveClaim, ChooseRenewExpiredClaim,
     ChooseTakeOverExpiredClaim, ChooseAbandonExpiredClaim]"

record lease_recovery =
  recovery_decision_kind :: recovery_choice
  retained_run :: run_id
  prior_fence :: lease_fence
  replacement_fence :: "lease_fence option"

definition validate_fence_transition :: "lease_recovery \<Rightarrow> ops_exn + unit" where
  "validate_fence_transition v =
     (if recovery_decision_kind v = ChooseRetryAsNewRun
      then requireR (replacement_fence v = Some (prior_fence v))
        (OperationsRecordError ''retry recovery fence transition is invalid'')
      else if recovery_decision_kind v = ChooseAbandonExpiredClaim
      then requireR (replacement_fence v = None)
        (OperationsRecordError ''claim abandonment must not carry a replacement fence'')
      else case replacement_fence v of
        None \<Rightarrow> Inl (OperationsRecordError ''claim recovery requires a replacement fence'')
      | Some f \<Rightarrow>
          if lease_generation (prior_fence v) = max_lease_generation \<or>
             lease_generation f \<noteq> lease_generation (prior_fence v) + 1
          then Inl (OperationsRecordError ''claim recovery generation is invalid'')
          else requireR ((recovery_decision_kind v = ChooseTakeOverExpiredClaim) \<noteq>
              (lease_worker f = lease_worker (prior_fence v)))
            (OperationsRecordError ''claim recovery worker transition is invalid''))"

definition check_lease_recovery :: "lease_recovery \<Rightarrow> ops_exn + lease_recovery" where
  "check_lease_recovery v =
     (if recovery_decision_kind v \<notin> set lease_recovery_decisions
      then Inl (OperationsRecordError ''recovery decision kind is invalid'')
      else bindR (validate_fence_transition v) (\<lambda>_. Inr v))"

definition lease_recovery_descriptor :: "lease_recovery \<Rightarrow> descriptor" where
  "lease_recovery_descriptor v =
     [(''decision'', PStr (recovery_choice_value (recovery_decision_kind v))),
      (''retained_run_id'', PStr (run_id_value (retained_run v))),
      (''prior_fence'', PDict (lease_fence_descriptor (prior_fence v))),
      (''replacement_fence'',
        py_optional (\<lambda>f. PDict (lease_fence_descriptor f)) (replacement_fence v))]"

end
