(* ===== verification/Canonical_Time.thy ===== *)
theory Canonical_Time
  imports Prelude
begin

text \<open>
  Canonical UTC texts, \<open>operations/_temporal.py\<close>: \<open>YYYY-MM-DDTHH:MM:SS\<close> with an optional fraction
  of six digits that is not zero, and \<open>Z\<close>. A stored timestamp is the text it was encoded from,
  since decoding renders exactly the canonical text of the instant.
\<close>

definition digit :: "char \<Rightarrow> int option" where
  "digit c = (let n = of_char c in if 48 \<le> n \<and> n \<le> 57 then Some (n - 48) else None)"

lemma digit_code [code]: "digit (Char b0 b1 b2 b3 b4 b5 b6 b7) =
  (if \<not> b7 \<and> \<not> b6 \<and> b5 \<and> b4 \<and> \<not> (b3 \<and> (b2 \<or> b1))
   then Some (horner_sum of_bool 2 [b0, b1, b2, b3]) else None)"
  by (cases b0; cases b1; cases b2; cases b3; cases b4; cases b5; cases b6; cases b7)
    (simp_all add: digit_def)

fun digits_from :: "int \<Rightarrow> string \<Rightarrow> int option" where
  "digits_from acc [] = Some acc"
| "digits_from acc (c # cs) = (case digit c of None \<Rightarrow> None | Some d \<Rightarrow> digits_from (10 * acc + d) cs)"

definition digits :: "string \<Rightarrow> int option" where
  "digits s = digits_from 0 s"

definition field_in :: "int \<Rightarrow> int \<Rightarrow> string \<Rightarrow> bool" where
  "field_in lo hi s = (case digits s of None \<Rightarrow> False | Some n \<Rightarrow> lo \<le> n \<and> n \<le> hi)"

definition leap_year :: "int \<Rightarrow> bool" where
  "leap_year y \<longleftrightarrow> (4 dvd y \<and> \<not> 100 dvd y) \<or> 400 dvd y"

definition days_in_month :: "int \<Rightarrow> int \<Rightarrow> int" where
  "days_in_month y m =
     (if m = 2 then (if leap_year y then 29 else 28)
      else if m \<in> {4, 6, 9, 11} then 30 else 31)"

definition slice :: "nat \<Rightarrow> nat \<Rightarrow> string \<Rightarrow> string" where
  "slice i n s = take n (drop i s)"

definition calendar_date :: "string \<Rightarrow> bool" where
  "calendar_date s = (case (digits (slice 0 4 s), digits (slice 5 2 s), digits (slice 8 2 s)) of
     (Some y, Some m, Some d) \<Rightarrow> 1 \<le> y \<and> 1 \<le> m \<and> m \<le> 12 \<and> 1 \<le> d \<and> d \<le> days_in_month y m
   | _ \<Rightarrow> False)"

definition separators_ok :: "string \<Rightarrow> bool" where
  "separators_ok s \<longleftrightarrow> slice 4 1 s = ''-'' \<and> slice 7 1 s = ''-'' \<and> slice 10 1 s = ''T'' \<and>
     slice 13 1 s = '':'' \<and> slice 16 1 s = '':''"

definition canonical_utc :: "string \<Rightarrow> bool" where
  "canonical_utc s \<longleftrightarrow>
     separators_ok s \<and> calendar_date s \<and>
     field_in 0 23 (slice 11 2 s) \<and> field_in 0 59 (slice 14 2 s) \<and> field_in 0 59 (slice 17 2 s) \<and>
     (drop 19 s = ''Z'' \<or>
      (length s = 27 \<and> slice 19 1 s = ''.'' \<and> field_in 1 999999 (slice 20 6 s) \<and> drop 26 s = ''Z''))"

lemma canonical_utc_examples:
  "canonical_utc ''2024-02-29T23:59:59Z''" "canonical_utc ''2024-01-01T00:00:00.000001Z''"
  "\<not> canonical_utc ''2023-02-29T23:59:59Z''" "\<not> canonical_utc ''2024-01-01T00:00:00.000000Z''"
  "\<not> canonical_utc ''2024-01-01 00:00:00Z''" "\<not> canonical_utc ''0000-01-01T00:00:00Z''"
  by code_simp+

end
