(* ===== verification/Operation_Rows.thy ===== *)
theory Operation_Rows
  imports Operation_Records Canonical_Time Journal_Laws Contract_Laws
begin

text \<open>
  The rows of the operations store: execution requests, activity runs, activity events,
  operation sessions and actions (\<open>operations/records.py\<close>), with the checks of their
  constructors, and \<open>operations/activity_journal.py\<close>, which reads the events as the pure journal.
\<close>

section \<open>Requests\<close>

record request_identity =
  ident_request :: string
  ident_workspace :: string
  ident_session :: string
  ident_plan :: string

definition check_request_identity :: "request_identity \<Rightarrow> ops_exn + request_identity" where
  "check_request_identity i =
     bindR (validate_text (ident_request i) ''request_id'') (\<lambda>_.
     bindR (validate_text (ident_workspace i) ''workspace_id'') (\<lambda>_.
     bindR (validate_text (ident_session i) ''session_id'') (\<lambda>_.
     bindR (validate_text (ident_plan i) ''plan_id'') (\<lambda>_. Inr i))))"

record execution_idempotency =
  request_key :: string
  request_intent :: string

definition check_idempotency :: "execution_idempotency \<Rightarrow> ops_exn + execution_idempotency" where
  "check_idempotency v =
     bindR (validate_text (request_key v) ''execution idempotency key'') (\<lambda>_.
     bindR (validate_text (request_intent v) ''execution intent_fingerprint'') (\<lambda>_. Inr v))"

record execution_request =
  request_ident :: request_identity
  request_state :: request_status
  requested_by :: string
  requested_at :: string
  approval_request :: string
  approval_decision :: string
  request_idempotency :: execution_idempotency
  request_claim :: "claim_identity option"

definition check_request :: "execution_request \<Rightarrow> ops_exn + execution_request" where
  "check_request r =
     bindR (check_request_identity (request_ident r)) (\<lambda>_.
     bindR (check_idempotency (request_idempotency r)) (\<lambda>_.
     bindR (case request_claim r of None \<Rightarrow> Inr () | Some c \<Rightarrow> bindR (check_claim c) (\<lambda>_. Inr ())) (\<lambda>_.
     bindR (validate_text (requested_by r) ''requested_by'') (\<lambda>_.
     bindR (validate_text (requested_at r) ''requested_at'') (\<lambda>_.
     bindR (validate_text (approval_request r) ''approval_request_id'') (\<lambda>_.
     bindR (validate_text (approval_decision r) ''approval_decision_id'') (\<lambda>_.
       if request_state r = RequestClaimed
       then (if request_claim r = None
             then Inl (OperationsRecordError ''claimed execution request requires claim identity'')
             else Inr r)
       else if request_claim r \<noteq> None
       then Inl (OperationsRecordError ''only a claimed execution request may carry a claim'')
       else Inr r)))))))"

section \<open>Runs\<close>

record activity_run =
  run_key :: string
  run_plan :: string
  run_request :: string
  run_retry :: retry_identity
  run_state :: run_status
  run_created :: string
  run_started :: "string option"
  run_settled :: "string option"
  run_metadata :: bounded_evidence

definition validate_run_timing :: "activity_run \<Rightarrow> ops_exn + unit" where
  "validate_run_timing r =
     (if run_state r = RunClaimed \<and> run_started r \<noteq> None
      then Inl (OperationsRecordError ''claimed runs must not carry started_at'')
      else if run_state r \<in> set started_run_statuses \<and> run_started r = None
      then Inl (OperationsRecordError (run_status_value (run_state r) @ '' runs require started_at''))
      else if run_state r \<in> set settled_run_statuses \<and> run_settled r = None
      then Inl (OperationsRecordError (run_status_value (run_state r) @ '' runs require settled_at''))
      else if run_state r \<notin> set settled_run_statuses \<and> run_settled r \<noteq> None
      then Inl (OperationsRecordError (run_status_value (run_state r) @ '' runs must remain unsettled''))
      else Inr ())"

definition check_run :: "activity_run \<Rightarrow> ops_exn + activity_run" where
  "check_run r =
     bindR (validate_text (run_request r) ''request_id'') (\<lambda>_.
     bindR (check_retry (run_retry r)) (\<lambda>_.
     bindR (validate_run_id (run_key r) ''run_id'') (\<lambda>_.
     bindR (validate_text (run_plan r) ''plan_id'') (\<lambda>_.
     if prior_run (run_retry r) = Some (run_key r)
     then Inl (OperationsRecordError ''activity run retry identity is incongruent'')
     else
     bindR (validate_text (run_created r) ''created_at'') (\<lambda>_.
     bindR (validate_optional_text (run_started r) ''started_at'') (\<lambda>_.
     bindR (validate_optional_text (run_settled r) ''settled_at'') (\<lambda>_.
     bindR (validate_run_timing r) (\<lambda>_. Inr r))))))))"

section \<open>Events\<close>

record activity_event =
  row_event :: string
  row_run :: string
  row_ordinal :: int
  row_kind :: activity_event_kind
  occurred_at :: string
  row_activity :: "string option"
  row_evidence :: bounded_evidence
  row_failure :: "failure_evidence option"
  row_recovery :: "lease_recovery option"

text \<open>\<open>_EVENT_KINDS_PERMITTING_FAILURE\<close>, read off the canonical contract set.\<close>

definition failure_permitting_kinds :: "activity_event_kind list" where
  "failure_permitting_kinds = (case canonical_execution_lifecycle_contract_set of
     Inr c \<Rightarrow> map contract_event (filter may_carry_failure (events c)) | Inl e \<Rightarrow> [])"

definition check_event_evidence :: "activity_event \<Rightarrow> ops_exn + unit" where
  "check_event_evidence v =
     (if row_kind v = Ev_RECOVERY_DECISION_RECORDED
      then (case row_recovery v of
          None \<Rightarrow> Inl (OperationsRecordError ''recovery decision event requires typed recovery evidence'')
        | Some r \<Rightarrow>
            if run_id_value (retained_run r) \<noteq> row_run v
            then Inl (OperationsRecordError ''recovery decision event run identity is incongruent'')
            else requireR (row_evidence v = no_evidence \<and> row_failure v = None)
              (OperationsRecordError ''recovery decision event carries contradictory evidence''))
      else if row_recovery v \<noteq> None
      then Inl (OperationsRecordError ''only a recovery decision event may carry recovery evidence'')
      else requireR (row_failure v = None \<or> row_kind v \<in> set failure_permitting_kinds)
        (OperationsRecordError ''event kind does not permit failure evidence''))"

lemma failure_permitting_set: "set failure_permitting_kinds = set failure_event_kinds"
proof -
  obtain c where c: "canonical_execution_lifecycle_contract_set = Inr c"
    "contract_event ` {e \<in> set (events c). may_carry_failure e} = set failure_event_kinds"
    using canonical_failure_kinds by blast
  have "set failure_permitting_kinds = contract_event ` set (filter may_carry_failure (events c))"
    by (simp add: failure_permitting_kinds_def c(1))
  with c(2) show ?thesis by simp
qed

lemma check_event_evidence_code [code]:
  "check_event_evidence v =
     (if row_kind v = Ev_RECOVERY_DECISION_RECORDED
      then (case row_recovery v of
          None \<Rightarrow> Inl (OperationsRecordError ''recovery decision event requires typed recovery evidence'')
        | Some r \<Rightarrow>
            if run_id_value (retained_run r) \<noteq> row_run v
            then Inl (OperationsRecordError ''recovery decision event run identity is incongruent'')
            else requireR (row_evidence v = no_evidence \<and> row_failure v = None)
              (OperationsRecordError ''recovery decision event carries contradictory evidence''))
      else if row_recovery v \<noteq> None
      then Inl (OperationsRecordError ''only a recovery decision event may carry recovery evidence'')
      else requireR (row_failure v = None \<or> row_kind v \<in> set failure_event_kinds)
        (OperationsRecordError ''event kind does not permit failure evidence''))"
  by (simp add: check_event_evidence_def failure_permitting_set)

definition check_row :: "activity_event \<Rightarrow> ops_exn + activity_event" where
  "check_row v =
     bindR (validate_text (row_event v) ''event_id'') (\<lambda>_.
     bindR (validate_run_id (row_run v) ''run_id'') (\<lambda>_.
     if row_ordinal v < 1
     then Inl (OperationsRecordError ''event ordinal must be a positive integer'')
     else
     bindR (validate_text (occurred_at v) ''occurred_at'') (\<lambda>_.
     bindR (validate_optional_activity_id (row_activity v)) (\<lambda>_.
     bindR (check_event_evidence v) (\<lambda>_.
       if activity_event_scope (row_kind v) = ScopeActivity
       then (if row_activity v = None
             then Inl (OperationsRecordError ''step event requires activity_id'') else Inr v)
       else if row_activity v \<noteq> None
       then Inl (OperationsRecordError ''run event must not carry activity_id'')
       else Inr v)))))"

section \<open>Sessions and actions\<close>

datatype session_status = SessionOpen | SessionClosed | SessionCancelled

record operation_session =
  session_id :: string
  session_workspace :: string
  session_actor :: string
  session_title :: string
  session_state :: session_status
  session_created :: string
  session_closed_at :: "string option"
  session_metadata :: descriptor
  session_key :: "string option"
  session_intent :: "string option"

definition check_session :: "operation_session \<Rightarrow> ops_exn + operation_session" where
  "check_session s =
     bindR (validate_text (session_id s) ''session_id'') (\<lambda>_.
     bindR (validate_text (session_workspace s) ''workspace_id'') (\<lambda>_.
     bindR (validate_text (session_actor s) ''actor_id'') (\<lambda>_.
     bindR (validate_text (session_title s) ''title'') (\<lambda>_.
     bindR (validate_text (session_created s) ''created_at'') (\<lambda>_.
     bindR (validate_optional_text (session_closed_at s) ''closed_at'') (\<lambda>_.
     bindR (validate_optional_text (session_key s) ''idempotency_key'') (\<lambda>_.
     bindR (validate_optional_text (session_intent s) ''intent_fingerprint'') (\<lambda>_.
       if session_state s = SessionOpen \<and> session_closed_at s \<noteq> None
       then Inl (OperationsRecordError ''open operation sessions must not have closed_at'')
       else if session_state s \<noteq> SessionOpen \<and> session_closed_at s = None
       then Inl (OperationsRecordError ''terminal operation sessions require closed_at'')
       else Inr s))))))))"

datatype operator_command = CREATE_WORKSPACE | IMPORT_PRODUCT_DESCRIPTOR
  | REGISTER_IMAGE_PULL_AUTHORITY | REGISTER_RUNTIME_AUTHORITY | REVOKE_RUNTIME_AUTHORITY
  | REGISTER_RUNTIME_AUTHORITY_DELIVERY | REVOKE_RUNTIME_AUTHORITY_DELIVERY
  | REGISTER_INGRESS_AUTHORITY | REVOKE_INGRESS_AUTHORITY | REGISTER_SECRET_PROVIDER
  | REVOKE_SECRET_PROVIDER | REGISTER_SECRET_REFERENCE | REVOKE_SECRET_REFERENCE
  | REGISTER_DELEGATION_KEY | ACTIVATE_DELEGATION_KEY | RETIRE_DELEGATION_KEY
  | REVOKE_DELEGATION_KEY | START_OPERATION_SESSION | CLOSE_OPERATION_SESSION
  | CANCEL_OPERATION_SESSION | RECORD_OPERATION_ACTION | SET_DESIRED_GRAPH
  | PUBLISH_DESIRED_REALIZED_PROJECTION | REQUEST_ACTIVITY_PLAN | REQUEST_APPROVAL
  | DECIDE_APPROVAL | REQUEST_GATEWAY_PROBE

primrec operator_command_value :: "operator_command \<Rightarrow> string" where
  "operator_command_value CREATE_WORKSPACE = ''create-workspace''"
| "operator_command_value IMPORT_PRODUCT_DESCRIPTOR = ''import-product-descriptor''"
| "operator_command_value REGISTER_IMAGE_PULL_AUTHORITY = ''register-image-pull-authority''"
| "operator_command_value REGISTER_RUNTIME_AUTHORITY = ''register-runtime-authority''"
| "operator_command_value REVOKE_RUNTIME_AUTHORITY = ''revoke-runtime-authority''"
| "operator_command_value REGISTER_RUNTIME_AUTHORITY_DELIVERY = ''register-runtime-authority-delivery''"
| "operator_command_value REVOKE_RUNTIME_AUTHORITY_DELIVERY = ''revoke-runtime-authority-delivery''"
| "operator_command_value REGISTER_INGRESS_AUTHORITY = ''register-ingress-authority''"
| "operator_command_value REVOKE_INGRESS_AUTHORITY = ''revoke-ingress-authority''"
| "operator_command_value REGISTER_SECRET_PROVIDER = ''register-secret-provider''"
| "operator_command_value REVOKE_SECRET_PROVIDER = ''revoke-secret-provider''"
| "operator_command_value REGISTER_SECRET_REFERENCE = ''register-secret-reference''"
| "operator_command_value REVOKE_SECRET_REFERENCE = ''revoke-secret-reference''"
| "operator_command_value REGISTER_DELEGATION_KEY = ''register-delegation-key''"
| "operator_command_value ACTIVATE_DELEGATION_KEY = ''activate-delegation-key''"
| "operator_command_value RETIRE_DELEGATION_KEY = ''retire-delegation-key''"
| "operator_command_value REVOKE_DELEGATION_KEY = ''revoke-delegation-key''"
| "operator_command_value START_OPERATION_SESSION = ''start-operation-session''"
| "operator_command_value CLOSE_OPERATION_SESSION = ''close-operation-session''"
| "operator_command_value CANCEL_OPERATION_SESSION = ''cancel-operation-session''"
| "operator_command_value RECORD_OPERATION_ACTION = ''record-operation-action''"
| "operator_command_value SET_DESIRED_GRAPH = ''set-desired-graph''"
| "operator_command_value PUBLISH_DESIRED_REALIZED_PROJECTION = ''publish-desired-realized-projection''"
| "operator_command_value REQUEST_ACTIVITY_PLAN = ''request-activity-plan''"
| "operator_command_value REQUEST_APPROVAL = ''request-approval''"
| "operator_command_value DECIDE_APPROVAL = ''decide-approval''"
| "operator_command_value REQUEST_GATEWAY_PROBE = ''request-gateway-probe''"

datatype action_kind = OperatorAction operator_command | LifecycleAction lifecycle_operation

fun action_kind_value :: "action_kind \<Rightarrow> string" where
  "action_kind_value (OperatorAction k) = operator_command_value k"
| "action_kind_value (LifecycleAction k) = lifecycle_operation_value k"

record operation_action =
  action_id :: string
  action_session :: string
  action_ordinal :: int
  action_type :: action_kind
  action_actor :: string
  action_payload :: descriptor
  action_created :: string
  action_key :: "string option"
  action_intent :: "string option"

definition check_action :: "operation_action \<Rightarrow> ops_exn + operation_action" where
  "check_action a =
     bindR (validate_text (action_id a) ''action_id'') (\<lambda>_.
     bindR (validate_text (action_session a) ''session_id'') (\<lambda>_.
     if action_ordinal a < 1
     then Inl (OperationsRecordError ''operation action ordinal must be positive'')
     else
     bindR (validate_text (action_actor a) ''actor_id'') (\<lambda>_.
     bindR (validate_text (action_created a) ''created_at'') (\<lambda>_.
     bindR (validate_optional_text (action_key a) ''idempotency_key'') (\<lambda>_.
     bindR (validate_optional_text (action_intent a) ''intent_fingerprint'') (\<lambda>_. Inr a))))))"

section \<open>The journal of the events\<close>

fun journal_kind_of :: "activity_event_kind \<Rightarrow> journal_kind option" where
  "journal_kind_of Ev_STEP_STARTED = Some STEP_STARTED"
| "journal_kind_of Ev_STEP_SUCCEEDED = Some STEP_SUCCEEDED"
| "journal_kind_of Ev_STEP_FAILED = Some STEP_FAILED"
| "journal_kind_of Ev_STEP_UNSUPPORTED = Some STEP_UNSUPPORTED"
| "journal_kind_of Ev_STEP_UNCERTAIN = Some STEP_UNCERTAIN"
| "journal_kind_of Ev_STEP_UNCERTAINTY_RESOLVED_SUCCEEDED = Some STEP_UNCERTAINTY_RESOLVED_SUCCEEDED"
| "journal_kind_of Ev_STEP_UNCERTAINTY_RESOLVED_FAILED = Some STEP_UNCERTAINTY_RESOLVED_FAILED"
| "journal_kind_of Ev_STEP_UNCERTAINTY_ABANDONED = Some STEP_UNCERTAINTY_ABANDONED"
| "journal_kind_of Ev_RUN_COMPENSATION_STARTED = Some RUN_COMPENSATION_STARTED"
| "journal_kind_of Ev_STEP_COMPENSATION_STARTED = Some STEP_COMPENSATION_STARTED"
| "journal_kind_of Ev_STEP_COMPENSATION_SUCCEEDED = Some STEP_COMPENSATION_SUCCEEDED"
| "journal_kind_of Ev_STEP_COMPENSATION_FAILED = Some STEP_COMPENSATION_FAILED"
| "journal_kind_of Ev_STEP_COMPENSATION_UNSUPPORTED = Some STEP_COMPENSATION_UNSUPPORTED"
| "journal_kind_of Ev_STEP_COMPENSATION_UNCERTAIN = Some STEP_COMPENSATION_UNCERTAIN"
| "journal_kind_of Ev_STEP_COMPENSATION_UNCERTAINTY_RESOLVED_SUCCEEDED =
     Some STEP_COMPENSATION_UNCERTAINTY_RESOLVED_SUCCEEDED"
| "journal_kind_of Ev_STEP_COMPENSATION_UNCERTAINTY_RESOLVED_FAILED =
     Some STEP_COMPENSATION_UNCERTAINTY_RESOLVED_FAILED"
| "journal_kind_of Ev_STEP_COMPENSATION_UNCERTAINTY_ABANDONED =
     Some STEP_COMPENSATION_UNCERTAINTY_ABANDONED"
| "journal_kind_of k = None"

definition activity_journal_events :: "activity_event list \<Rightarrow> py_exn + journal_event list" where
  "activity_journal_events vs =
     mapR (\<lambda>(v, k). make_journal_event (row_event v) (row_run v) (row_ordinal v) k (row_activity v))
       (List.map_filter (\<lambda>v. map_option (Pair v) (journal_kind_of (row_kind v))) vs)"

end
