(* ===== verification/Policy_Scopes.thy ===== *)
theory Policy_Scopes
  imports Prelude
begin

text \<open>The authority scopes of \<open>core/policies.py\<close>.\<close>

datatype policy_scope = Scope_HUB_INSTANCE_CREATE | Scope_HUB_INSTANCE_READ
  | Scope_INSTANCE_WORKSPACE_READ | Scope_INSTANCE_WORKSPACE_EDIT | Scope_PLAN_REQUEST
  | Scope_PLAN_APPROVE | Scope_PLAN_APPROVE_DESTRUCTIVE | Scope_PLAN_EXECUTE
  | Scope_EXECUTION_OPERATE | Scope_RUNTIME_AUTHORITY_REGISTER | Scope_RUNTIME_AUTHORITY_READ
  | Scope_RUNTIME_AUTHORITY_REVOKE | Scope_RUNTIME_AUTHORITY_USE
  | Scope_RUNTIME_AUTHORITY_DELIVERY_REGISTER | Scope_RUNTIME_AUTHORITY_DELIVERY_READ
  | Scope_RUNTIME_AUTHORITY_DELIVERY_REVOKE | Scope_INGRESS_AUTHORITY_REGISTER
  | Scope_INGRESS_AUTHORITY_READ | Scope_INGRESS_AUTHORITY_REVOKE | Scope_INGRESS_AUTHORITY_USE
  | Scope_SECRET_PROVIDER_REGISTER | Scope_SECRET_PROVIDER_READ | Scope_SECRET_PROVIDER_USE
  | Scope_SECRET_PROVIDER_REVOKE | Scope_DELEGATION_KEY_GENERATE | Scope_DELEGATION_KEY_REGISTER
  | Scope_DELEGATION_KEY_READ | Scope_DELEGATION_KEY_ACTIVATE | Scope_DELEGATION_KEY_RETIRE
  | Scope_DELEGATION_KEY_REVOKE | Scope_DELEGATION_KEY_USE | Scope_DELEGATION_KEY_ROTATE
  | Scope_DELEGATION_KEY_ROTATE_APPROVE | Scope_GATEWAY_PROBE_USE | Scope_NODE_CONTROL_READ
  | Scope_NODE_CONTROL_APPLY | Scope_NODE_CONTROL_EXECUTE

primrec policy_scope_value :: "policy_scope \<Rightarrow> string" where
  "policy_scope_value Scope_HUB_INSTANCE_CREATE = ''hub:instance:create''"
| "policy_scope_value Scope_HUB_INSTANCE_READ = ''hub:instance:read''"
| "policy_scope_value Scope_INSTANCE_WORKSPACE_READ = ''instance:workspace:read''"
| "policy_scope_value Scope_INSTANCE_WORKSPACE_EDIT = ''instance:workspace:edit''"
| "policy_scope_value Scope_PLAN_REQUEST = ''plan:request''"
| "policy_scope_value Scope_PLAN_APPROVE = ''plan:approve''"
| "policy_scope_value Scope_PLAN_APPROVE_DESTRUCTIVE = ''plan:approve-destructive''"
| "policy_scope_value Scope_PLAN_EXECUTE = ''plan:execute''"
| "policy_scope_value Scope_EXECUTION_OPERATE = ''execution:operate''"
| "policy_scope_value Scope_RUNTIME_AUTHORITY_REGISTER = ''runtime-authority:register''"
| "policy_scope_value Scope_RUNTIME_AUTHORITY_READ = ''runtime-authority:read''"
| "policy_scope_value Scope_RUNTIME_AUTHORITY_REVOKE = ''runtime-authority:revoke''"
| "policy_scope_value Scope_RUNTIME_AUTHORITY_USE = ''runtime-authority:use''"
| "policy_scope_value Scope_RUNTIME_AUTHORITY_DELIVERY_REGISTER = ''runtime-authority-delivery:register''"
| "policy_scope_value Scope_RUNTIME_AUTHORITY_DELIVERY_READ = ''runtime-authority-delivery:read''"
| "policy_scope_value Scope_RUNTIME_AUTHORITY_DELIVERY_REVOKE = ''runtime-authority-delivery:revoke''"
| "policy_scope_value Scope_INGRESS_AUTHORITY_REGISTER = ''ingress-authority:register''"
| "policy_scope_value Scope_INGRESS_AUTHORITY_READ = ''ingress-authority:read''"
| "policy_scope_value Scope_INGRESS_AUTHORITY_REVOKE = ''ingress-authority:revoke''"
| "policy_scope_value Scope_INGRESS_AUTHORITY_USE = ''ingress-authority:use''"
| "policy_scope_value Scope_SECRET_PROVIDER_REGISTER = ''secret-provider:register''"
| "policy_scope_value Scope_SECRET_PROVIDER_READ = ''secret-provider:read''"
| "policy_scope_value Scope_SECRET_PROVIDER_USE = ''secret-provider:use''"
| "policy_scope_value Scope_SECRET_PROVIDER_REVOKE = ''secret-provider:revoke''"
| "policy_scope_value Scope_DELEGATION_KEY_GENERATE = ''delegation-key:generate''"
| "policy_scope_value Scope_DELEGATION_KEY_REGISTER = ''delegation-key:register''"
| "policy_scope_value Scope_DELEGATION_KEY_READ = ''delegation-key:read''"
| "policy_scope_value Scope_DELEGATION_KEY_ACTIVATE = ''delegation-key:activate''"
| "policy_scope_value Scope_DELEGATION_KEY_RETIRE = ''delegation-key:retire''"
| "policy_scope_value Scope_DELEGATION_KEY_REVOKE = ''delegation-key:revoke''"
| "policy_scope_value Scope_DELEGATION_KEY_USE = ''delegation-key:use''"
| "policy_scope_value Scope_DELEGATION_KEY_ROTATE = ''delegation-key:rotate''"
| "policy_scope_value Scope_DELEGATION_KEY_ROTATE_APPROVE = ''delegation-key:rotate-approve''"
| "policy_scope_value Scope_GATEWAY_PROBE_USE = ''gateway-probe:use''"
| "policy_scope_value Scope_NODE_CONTROL_READ = ''node-control:read''"
| "policy_scope_value Scope_NODE_CONTROL_APPLY = ''node-control:apply''"
| "policy_scope_value Scope_NODE_CONTROL_EXECUTE = ''node-control:execute''"

definition policy_scopes :: "policy_scope list" where
  "policy_scopes = [Scope_HUB_INSTANCE_CREATE, Scope_HUB_INSTANCE_READ,
     Scope_INSTANCE_WORKSPACE_READ, Scope_INSTANCE_WORKSPACE_EDIT, Scope_PLAN_REQUEST,
     Scope_PLAN_APPROVE, Scope_PLAN_APPROVE_DESTRUCTIVE, Scope_PLAN_EXECUTE,
     Scope_EXECUTION_OPERATE, Scope_RUNTIME_AUTHORITY_REGISTER, Scope_RUNTIME_AUTHORITY_READ,
     Scope_RUNTIME_AUTHORITY_REVOKE, Scope_RUNTIME_AUTHORITY_USE,
     Scope_RUNTIME_AUTHORITY_DELIVERY_REGISTER, Scope_RUNTIME_AUTHORITY_DELIVERY_READ,
     Scope_RUNTIME_AUTHORITY_DELIVERY_REVOKE, Scope_INGRESS_AUTHORITY_REGISTER,
     Scope_INGRESS_AUTHORITY_READ, Scope_INGRESS_AUTHORITY_REVOKE, Scope_INGRESS_AUTHORITY_USE,
     Scope_SECRET_PROVIDER_REGISTER, Scope_SECRET_PROVIDER_READ, Scope_SECRET_PROVIDER_USE,
     Scope_SECRET_PROVIDER_REVOKE, Scope_DELEGATION_KEY_GENERATE, Scope_DELEGATION_KEY_REGISTER,
     Scope_DELEGATION_KEY_READ, Scope_DELEGATION_KEY_ACTIVATE, Scope_DELEGATION_KEY_RETIRE,
     Scope_DELEGATION_KEY_REVOKE, Scope_DELEGATION_KEY_USE, Scope_DELEGATION_KEY_ROTATE,
     Scope_DELEGATION_KEY_ROTATE_APPROVE, Scope_GATEWAY_PROBE_USE, Scope_NODE_CONTROL_READ,
     Scope_NODE_CONTROL_APPLY, Scope_NODE_CONTROL_EXECUTE]"

interpretation policy_scope: closed_enum policy_scopes policy_scope_value
proof
  show "distinct (map policy_scope_value policy_scopes)" by code_simp
  show "m \<in> set policy_scopes" for m by (cases m) (simp_all add: policy_scopes_def)
qed

end
