(* ===== verification/Approval_Records.thy ===== *)
theory Approval_Records
  imports Operation_Records Policy_Scopes Plan_Order
begin

text \<open>
  What an approval is about (\<open>core/approval_subjects.py\<close>), and the records of plans, approval
  requests and approval decisions (\<open>operations/records.py\<close>) that admission and recovery read.
\<close>

section \<open>Approval subjects\<close>

record rotation_subject =
  subject_rotation :: string
  subject_workspace :: string
  subject_gateway :: string
  subject_purpose :: delegation_key_purpose
  subject_issuer :: string
  subject_old_key :: string
  grant_lifetime :: int
  skew_seconds :: int
  intent_digest :: string

datatype approval_subject = PlanSubject string | RotationSubject rotation_subject

text \<open>The regular expressions \<open>[A-Za-z0-9][A-Za-z0-9._:-]{0,199}\<close> and \<open>[0-9a-f]{64}\<close>.\<close>

definition approval_identifier :: "string \<Rightarrow> string \<Rightarrow> ops_exn + unit" where
  "approval_identifier v label = requireR
     (case v of [] \<Rightarrow> False | c # cs \<Rightarrow> is_alnum c \<and> list_all identity_char cs \<and> length cs \<le> 199)
     (OpsValueError (label @ '' is malformed''))"

definition lower_hex :: "char \<Rightarrow> bool" where
  "lower_hex c \<longleftrightarrow> (let n = char_code c in (48 \<le> n \<and> n \<le> 57) \<or> (97 \<le> n \<and> n \<le> 102))"

lemma lower_hex_code [code]: "lower_hex c = hex_digit c"
  by (simp add: lower_hex_def hex_digit_def)

definition hex_digest :: "string \<Rightarrow> bool" where
  "hex_digest s \<longleftrightarrow> length s = 64 \<and> list_all lower_hex s"

fun check_subject :: "approval_subject \<Rightarrow> ops_exn + approval_subject" where
  "check_subject (PlanSubject p) = bindR (approval_identifier p ''plan_id'') (\<lambda>_. Inr (PlanSubject p))"
| "check_subject (RotationSubject r) =
     bindR (approval_identifier (subject_rotation r) ''rotation_id'') (\<lambda>_.
     bindR (approval_identifier (subject_workspace r) ''workspace_id'') (\<lambda>_.
     bindR (approval_identifier (subject_gateway r) ''gateway_node_id'') (\<lambda>_.
     bindR (approval_identifier (subject_issuer r) ''issuer'') (\<lambda>_.
     bindR (approval_identifier (subject_old_key r) ''old_key_id'') (\<lambda>_.
       if \<not> (1 \<le> grant_lifetime r \<and> grant_lifetime r \<le> 300)
       then Inl (OpsValueError ''maximum grant lifetime is out of bounds'')
       else if \<not> (0 \<le> skew_seconds r \<and> skew_seconds r \<le> 60)
       then Inl (OpsValueError ''clock skew is out of bounds'')
       else if \<not> hex_digest (intent_digest r)
       then Inl (OpsValueError ''rotation intent digest is malformed'')
       else Inr (RotationSubject r))))))"

fun subject_kind_value :: "approval_subject \<Rightarrow> string" where
  "subject_kind_value (PlanSubject p) = ''activity-plan''"
| "subject_kind_value (RotationSubject r) = ''gateway-key-rotation''"

fun subject_identity :: "approval_subject \<Rightarrow> string" where
  "subject_identity (PlanSubject p) = p"
| "subject_identity (RotationSubject r) = subject_rotation r"

fun subject_descriptor :: "approval_subject \<Rightarrow> descriptor" where
  "subject_descriptor (PlanSubject p) = [(''kind'', PStr ''activity-plan''), (''plan_id'', PStr p)]"
| "subject_descriptor (RotationSubject r) =
     [(''kind'', PStr ''gateway-key-rotation''), (''rotation_id'', PStr (subject_rotation r)),
      (''workspace_id'', PStr (subject_workspace r)), (''gateway_node_id'', PStr (subject_gateway r)),
      (''purpose'', PStr (delegation_key_purpose_value (subject_purpose r))),
      (''issuer'', PStr (subject_issuer r)), (''old_key_id'', PStr (subject_old_key r)),
      (''overlap_verifier_roles'', PList [PStr ''old'', PStr ''new'']),
      (''retirement_verifier_roles'', PList [PStr ''new'']),
      (''maximum_grant_lifetime_seconds'', PInt (grant_lifetime r)),
      (''clock_skew_seconds'', PInt (skew_seconds r)),
      (''rotation_intent_digest'', PStr (intent_digest r))]"

text \<open>\<open>review_digest\<close>; \<open>digest\<close> is the hexadecimal SHA-256 of a text.\<close>

fun review_digest :: "(string \<Rightarrow> string) \<Rightarrow> approval_subject \<Rightarrow> string" where
  "review_digest digest (PlanSubject p) = digest (''activity-plan:'' @ p)"
| "review_digest digest (RotationSubject r) =
     digest (json_text (PDict (subject_descriptor (RotationSubject r))))"

definition subject_text :: "descriptor \<Rightarrow> string \<Rightarrow> ops_exn + string" where
  "subject_text d k = (case map_of d k of Some (PStr t) \<Rightarrow> Inr t
     | _ \<Rightarrow> Inl (OpsValueError (k @ '' is malformed'')))"

definition subject_integer :: "descriptor \<Rightarrow> string \<Rightarrow> ops_exn + int" where
  "subject_integer d k = (case map_of d k of Some (PInt n) \<Rightarrow> Inr n
     | _ \<Rightarrow> Inl (OpsValueError (k @ '' is malformed'')))"

definition rotation_subject_keys :: "string list" where
  "rotation_subject_keys = [''kind'', ''rotation_id'', ''workspace_id'', ''gateway_node_id'', ''purpose'',
     ''issuer'', ''old_key_id'', ''overlap_verifier_roles'', ''retirement_verifier_roles'',
     ''maximum_grant_lifetime_seconds'', ''clock_skew_seconds'', ''rotation_intent_digest'']"

text \<open>
  \<open>purpose\<close> is read inside \<open>try ... except ValueError\<close>, so a purpose that is no text raises the
  same error as an unknown one.
\<close>

definition subject_purpose_of :: "descriptor \<Rightarrow> ops_exn + delegation_key_purpose" where
  "subject_purpose_of d = (case subject_text d ''purpose'' of
     Inr t \<Rightarrow> (case enum_of delegation_key_purposes delegation_key_purpose_value t of
         Some k \<Rightarrow> Inr k | None \<Rightarrow> Inl (OpsValueError ''rotation approval purpose is unsupported''))
   | Inl e \<Rightarrow> Inl (OpsValueError ''rotation approval purpose is unsupported''))"

definition rotation_subject_from :: "descriptor \<Rightarrow> ops_exn + approval_subject" where
  "rotation_subject_from d =
     (if \<not> same_keys d rotation_subject_keys
      then Inl (OpsValueError ''gateway-key-rotation approval subject is malformed'')
      else if map_of d ''overlap_verifier_roles'' \<noteq> Some (PList [PStr ''old'', PStr ''new''])
      then Inl (OpsValueError ''rotation overlap review intent is malformed'')
      else if map_of d ''retirement_verifier_roles'' \<noteq> Some (PList [PStr ''new''])
      then Inl (OpsValueError ''rotation retirement review intent is malformed'')
      else
      bindR (subject_purpose_of d) (\<lambda>purpose.
      bindR (subject_text d ''rotation_id'') (\<lambda>rotation.
      bindR (subject_text d ''workspace_id'') (\<lambda>workspace.
      bindR (subject_text d ''gateway_node_id'') (\<lambda>gateway.
      bindR (subject_text d ''issuer'') (\<lambda>issuer.
      bindR (subject_text d ''old_key_id'') (\<lambda>old_key.
      bindR (subject_integer d ''maximum_grant_lifetime_seconds'') (\<lambda>lifetime.
      bindR (subject_integer d ''clock_skew_seconds'') (\<lambda>skew.
      bindR (subject_text d ''rotation_intent_digest'') (\<lambda>digest.
        check_subject (RotationSubject \<lparr>subject_rotation = rotation, subject_workspace = workspace,
          subject_gateway = gateway, subject_purpose = purpose, subject_issuer = issuer,
          subject_old_key = old_key, grant_lifetime = lifetime, skew_seconds = skew,
          intent_digest = digest\<rparr>)))))))))))"

definition approval_subject_from_descriptor :: "py \<Rightarrow> ops_exn + approval_subject" where
  "approval_subject_from_descriptor v = (case v of
     PDict d \<Rightarrow>
       if map_of d ''kind'' = Some (PStr ''activity-plan'')
       then (if \<not> same_keys d [''kind'', ''plan_id'']
             then Inl (OpsValueError ''activity-plan approval subject is malformed'')
             else bindR (subject_text d ''plan_id'') (\<lambda>p. check_subject (PlanSubject p)))
       else if map_of d ''kind'' = Some (PStr ''gateway-key-rotation'')
       then rotation_subject_from d
       else Inl (OpsValueError ''approval subject kind is unsupported'')
   | _ \<Rightarrow> Inl (OpsValueError ''approval subject descriptor must be an object''))"

lemma check_subject_same: "check_subject s = Inr s' \<Longrightarrow> s' = s"
  by (cases s) (auto simp: bindR_Inr_iff split: if_splits)

lemma decode_subject_descriptor:
  "approval_subject_from_descriptor (PDict (subject_descriptor s)) = check_subject s"
proof (cases s)
  case (RotationSubject r)
  then show ?thesis
    by (cases r) (simp add: approval_subject_from_descriptor_def rotation_subject_from_def same_keys_def
        rotation_subject_keys_def subject_text_def subject_integer_def subject_purpose_of_def
        del: check_subject.simps)
qed (simp add: approval_subject_from_descriptor_def same_keys_def subject_text_def insert_commute)

section \<open>Plans, approval requests and decisions\<close>

datatype plan_status = PlanPlanned | PlanSuperseded | PlanCancelled

record plan_row =
  plan_key :: string
  plan_session :: string
  plan_base_graph :: string
  plan_desired_graph :: string
  plan_status_of :: plan_status
  plan_created :: string
  plan_body :: activity_plan
  plan_base_projection :: "string option"
  plan_desired_projection :: "string option"
  plan_revision :: int

definition check_plan_row :: "plan_row \<Rightarrow> ops_exn + plan_row" where
  "check_plan_row p =
     bindR (validate_text (plan_key p) ''plan_id'') (\<lambda>_.
     bindR (validate_text (plan_session p) ''session_id'') (\<lambda>_.
     bindR (validate_text (plan_base_graph p) ''base_graph_id'') (\<lambda>_.
     bindR (validate_text (plan_desired_graph p) ''desired_graph_id'') (\<lambda>_.
     bindR (validate_text (plan_created p) ''created_at'') (\<lambda>_.
     bindR (validate_optional_text (plan_base_projection p) ''base_realized_projection_id'') (\<lambda>_.
     bindR (validate_optional_text (plan_desired_projection p) ''desired_realized_projection_id'') (\<lambda>_.
       if plan_revision p < 0
       then Inl (OperationsRecordError ''activity plan desired_graph_revision must be nonnegative'')
       else Inr p)))))))"

record approval_row =
  approval_key :: string
  approval_session :: string
  approval_subject_of :: approval_subject
  approval_by :: string
  approval_at :: string
  required_scope :: policy_scope
  approval_max_risk :: risk_level
  approval_destructive :: bool
  approval_comment :: "string option"
  approval_idempotency :: "string option"
  approval_intent :: "string option"

definition check_approval_row :: "approval_row \<Rightarrow> ops_exn + approval_row" where
  "check_approval_row a =
     bindR (validate_text (approval_key a) ''request_id'') (\<lambda>_.
     bindR (validate_text (approval_session a) ''session_id'') (\<lambda>_.
     bindR (validate_text (approval_by a) ''requested_by'') (\<lambda>_.
     bindR (validate_text (approval_at a) ''requested_at'') (\<lambda>_.
     bindR (validate_optional_text (approval_comment a) ''comment'') (\<lambda>_.
     bindR (validate_optional_text (approval_idempotency a) ''idempotency_key'') (\<lambda>_.
     bindR (validate_optional_text (approval_intent a) ''intent_fingerprint'') (\<lambda>_. Inr a)))))))"

datatype approval_answer = AnswerApproved | AnswerRejected

record decision_row =
  decision_key :: string
  decision_request :: string
  decision_actor :: string
  decision_answer :: approval_answer
  decision_scope :: policy_scope
  decision_at :: string
  decision_comment :: "string option"
  decision_idempotency :: "string option"
  decision_intent :: "string option"

definition check_decision_row :: "decision_row \<Rightarrow> ops_exn + decision_row" where
  "check_decision_row d =
     bindR (validate_text (decision_key d) ''decision_id'') (\<lambda>_.
     bindR (validate_text (decision_request d) ''request_id'') (\<lambda>_.
     bindR (validate_text (decision_actor d) ''actor_id'') (\<lambda>_.
     bindR (validate_text (decision_at d) ''decided_at'') (\<lambda>_.
     bindR (validate_optional_text (decision_comment d) ''comment'') (\<lambda>_.
     bindR (validate_optional_text (decision_idempotency d) ''idempotency_key'') (\<lambda>_.
     bindR (validate_optional_text (decision_intent d) ''intent_fingerprint'') (\<lambda>_. Inr d)))))))"

end
