(* ===== verification/Execution_Store.thy ===== *)
theory Execution_Store
  imports Operation_Rows Approval_Records
begin

text \<open>
  The store the run lifecycle works on: the operations of \<open>PostgresExecutionStore\<close> and
  \<open>PostgresActivityHistoryStore\<close> it calls, with the constraints of \<open>postgres/current_schema.sql\<close>
  that guard their tables. A table is the list of its rows in insertion order. A row is the record it
  encodes; reading it runs the constructor's checks again, as the code does. Row locks and
  advisory locks order whole transactions, so a transaction is one atomic step here.
\<close>

section \<open>The store\<close>

record ops_store =
  db_sessions :: "operation_session list"
  db_requests :: "execution_request list"
  db_runs :: "activity_run list"
  db_events :: "activity_event list"
  db_actions :: "operation_action list"
  db_plans :: "plan_row list"
  db_approvals :: "approval_row list"
  db_decisions :: "decision_row list"

definition request_key_of :: "execution_request \<Rightarrow> string" where
  "request_key_of r = ident_request (request_ident r)"

definition encode_timestamp :: "string \<Rightarrow> ops_exn + unit" where
  "encode_timestamp t = requireR (canonical_utc t)
     (OpsValueError ''postgres timestamp must be canonical UTC text'')"

definition encode_optional_timestamp :: "string option \<Rightarrow> ops_exn + unit" where
  "encode_optional_timestamp v = (case v of None \<Rightarrow> Inr () | Some t \<Rightarrow> encode_timestamp t)"

definition constraint :: "bool \<Rightarrow> string \<Rightarrow> ops_exn + unit" where
  "constraint b name = requireR b (ConstraintViolation name)"

section \<open>Requests\<close>

definition get_request :: "ops_store \<Rightarrow> string \<Rightarrow> ops_exn + execution_request" where
  "get_request s i = (case find (\<lambda>r. request_key_of r = i) (db_requests s) of
     None \<Rightarrow> Inl (MissingRow ''missing execution request'') | Some r \<Rightarrow> check_request r)"

definition put_request :: "execution_request \<Rightarrow> ops_store \<Rightarrow> ops_store" where
  "put_request r s = s\<lparr>db_requests :=
     map (\<lambda>q. if request_key_of q = request_key_of r then r else q) (db_requests s)\<rparr>"

text \<open>
  \<open>claim_request\<close>: the database reads its clock once and sets both lease times; \<open>lease_end\<close> is
  its interval arithmetic on that reading.
\<close>

definition claim_request :: "string \<Rightarrow> (string \<Rightarrow> int \<Rightarrow> string) \<Rightarrow> string \<Rightarrow> string \<Rightarrow> int \<Rightarrow> ops_store \<Rightarrow>
    ops_exn + (execution_request option \<times> ops_store)" where
  "claim_request observed lease_end i w seconds s =
     (if \<not> (1 \<le> seconds \<and> seconds \<le> 3600)
      then Inl (OperationsRecordError ''lease duration is invalid'')
      else bindR (get_request s i) (\<lambda>current.
        if request_state current \<noteq> RequestQueued then Inr (None, s)
        else bindR (check_request (current\<lparr>request_state := RequestClaimed,
            request_claim := Some \<lparr>claim_worker = w, claim_generation = 1, claimed_at = observed,
              lease_expires_at = lease_end observed seconds\<rparr>\<rparr>)) (\<lambda>updated.
          Inr (Some updated, put_request updated s))))"

section \<open>Runs\<close>

definition active_run_statuses :: "run_status list" where
  "active_run_statuses = [RunClaimed, RunRunning, RunPaused, RunCompensating]"

text \<open>The CHECK constraints of \<open>cpk_activity_runs\<close>.\<close>

definition run_attempt_check :: "activity_run \<Rightarrow> bool" where
  "run_attempt_check r \<longleftrightarrow> 0 < retry_attempt (run_retry r) \<and>
     (retry_attempt (run_retry r) = 1) = (prior_run (run_retry r) = None) \<and>
     prior_run (run_retry r) \<noteq> Some (run_key r)"

definition run_settlement_check :: "activity_run \<Rightarrow> bool" where
  "run_settlement_check r \<longleftrightarrow> (run_state r \<in> {RunCancelled, RunCompensated, RunPartiallyFailed,
     RunSucceeded, RunUncompensatedFailure}) = (run_settled r \<noteq> None)"

definition run_started_check :: "activity_run \<Rightarrow> bool" where
  "run_started_check r \<longleftrightarrow> (run_state r = RunClaimed) = (run_started r = None)"

definition run_row_ok :: "activity_run \<Rightarrow> bool" where
  "run_row_ok r \<longleftrightarrow> run_attempt_check r \<and> is_canonical_run_identity (run_key r) \<and>
     run_settlement_check r \<and> run_started_check r"

text \<open>The unique index on active runs, and the one on attempts, for a row \<open>r\<close> among others.\<close>

definition active_conflict :: "activity_run \<Rightarrow> activity_run \<Rightarrow> bool" where
  "active_conflict r q \<longleftrightarrow> run_key q \<noteq> run_key r \<and> run_request q = run_request r \<and>
     run_state r \<in> set active_run_statuses \<and> run_state q \<in> set active_run_statuses"

definition attempt_conflict :: "activity_run \<Rightarrow> activity_run \<Rightarrow> bool" where
  "attempt_conflict r q \<longleftrightarrow> run_request q = run_request r \<and>
     retry_attempt (run_retry q) = retry_attempt (run_retry r)"

definition request_of_run :: "activity_run \<Rightarrow> execution_request \<Rightarrow> bool" where
  "request_of_run r q \<longleftrightarrow> request_key_of q = run_request r \<and> ident_plan (request_ident q) = run_plan r"

definition add_run :: "activity_run \<Rightarrow> ops_store \<Rightarrow> ops_exn + ops_store" where
  "add_run r s =
     bindR (encode_timestamp (run_created r)) (\<lambda>_.
     bindR (encode_optional_timestamp (run_started r)) (\<lambda>_.
     bindR (encode_optional_timestamp (run_settled r)) (\<lambda>_.
     bindR (constraint (run_row_ok r) ''cpk_activity_runs_check'') (\<lambda>_.
     bindR (constraint (run_key r \<notin> run_key ` set (db_runs s)) ''cpk_activity_runs_pkey'') (\<lambda>_.
     bindR (constraint (\<not> list_ex (active_conflict r) (db_runs s)) ''cpk_activity_runs_active_request'') (\<lambda>_.
     bindR (constraint (\<not> list_ex (attempt_conflict r) (db_runs s)) ''cpk_activity_runs_request_attempt'') (\<lambda>_.
     bindR (constraint (list_ex (request_of_run r) (db_requests s)) ''cpk_activity_runs_request_plan_fk'') (\<lambda>_.
     bindR (constraint (case prior_run (run_retry r) of None \<Rightarrow> True | Some p \<Rightarrow> p \<in> run_key ` set (db_runs s))
         ''cpk_activity_runs_prior_run_id_fkey'') (\<lambda>_.
       Inr (s\<lparr>db_runs := db_runs s @ [r]\<rparr>))))))))))"

definition get_run :: "ops_store \<Rightarrow> string \<Rightarrow> ops_exn + activity_run" where
  "get_run s i = bindR (validate_run_id i ''run_id'') (\<lambda>_.
     case find (\<lambda>r. run_key r = i) (db_runs s) of
       None \<Rightarrow> Inl (MissingRow ''missing activity run'') | Some r \<Rightarrow> check_run r)"

definition runs_for_request :: "ops_store \<Rightarrow> string \<Rightarrow> ops_exn + activity_run list" where
  "runs_for_request s i = mapR check_run
     (sort_key (\<lambda>r. retry_attempt (run_retry r)) (sort_key run_key
       (filter (\<lambda>r. run_request r = i) (db_runs s))))"

definition coalesce :: "'a option \<Rightarrow> 'a option \<Rightarrow> 'a option" where
  "coalesce a b = (case a of Some x \<Rightarrow> Some x | None \<Rightarrow> b)"

definition put_run :: "activity_run \<Rightarrow> ops_store \<Rightarrow> ops_store" where
  "put_run r s = s\<lparr>db_runs := map (\<lambda>q. if run_key q = run_key r then r else q) (db_runs s)\<rparr>"

definition compare_and_set_run_status :: "string \<Rightarrow> run_status \<Rightarrow> run_status \<Rightarrow> string option \<Rightarrow>
    string option \<Rightarrow> ops_store \<Rightarrow> ops_exn + (activity_run option \<times> ops_store)" where
  "compare_and_set_run_status i expected replacement start_at settle_at s =
     bindR (validate_run_id i ''run_id'') (\<lambda>_.
     bindR (encode_optional_timestamp start_at) (\<lambda>_.
     bindR (encode_optional_timestamp settle_at) (\<lambda>_.
     case find (\<lambda>r. run_key r = i \<and> run_state r = expected \<and> run_settled r = None) (db_runs s) of
       None \<Rightarrow> Inr (None, s)
     | Some r \<Rightarrow>
         let changed = r\<lparr>run_state := replacement, run_started := coalesce start_at (run_started r),
               run_settled := coalesce (run_settled r) settle_at\<rparr> in
         bindR (constraint (run_row_ok changed) ''cpk_activity_runs_check'') (\<lambda>_.
         bindR (constraint (\<not> list_ex (active_conflict changed) (db_runs s))
             ''cpk_activity_runs_active_request'') (\<lambda>_.
         bindR (check_run changed) (\<lambda>found. Inr (Some found, put_run found s)))))))"

section \<open>Events\<close>

definition max_row_ordinal :: int where
  "max_row_ordinal = 2147483647"

definition event_shape_check :: "activity_event \<Rightarrow> bool" where
  "event_shape_check v \<longleftrightarrow>
     (case row_activity v of
        None \<Rightarrow> row_kind v \<notin> set step_event_kinds
      | Some a \<Rightarrow> row_kind v \<in> set step_event_kinds \<and> a \<noteq> []) \<and>
     (row_kind v = Ev_RECOVERY_DECISION_RECORDED) = (row_recovery v \<noteq> None)"

definition add_event :: "activity_event \<Rightarrow> ops_store \<Rightarrow> ops_exn + ops_store" where
  "add_event v s =
     bindR (encode_timestamp (occurred_at v)) (\<lambda>_.
     bindR (constraint (0 < row_ordinal v \<and> row_ordinal v \<le> max_row_ordinal)
         ''cpk_activity_events_ordinal_check'') (\<lambda>_.
     bindR (constraint (event_shape_check v) ''cpk_activity_events_shape_check'') (\<lambda>_.
     bindR (constraint (row_event v \<notin> row_event ` set (db_events s)) ''cpk_activity_events_pkey'') (\<lambda>_.
     bindR (constraint ((row_run v, row_ordinal v) \<notin> (\<lambda>e. (row_run e, row_ordinal e)) ` set (db_events s))
         ''cpk_activity_events_run_id_ordinal_key'') (\<lambda>_.
     bindR (constraint (row_run v \<in> run_key ` set (db_runs s)) ''cpk_activity_events_run_id_fkey'') (\<lambda>_.
       Inr (s\<lparr>db_events := db_events s @ [v]\<rparr>)))))))"

definition get_event :: "ops_store \<Rightarrow> string \<Rightarrow> ops_exn + activity_event" where
  "get_event s i = (case find (\<lambda>v. row_event v = i) (db_events s) of
     None \<Rightarrow> Inl (MissingRow ''missing activity event'') | Some v \<Rightarrow> check_row v)"

definition events_of_run :: "ops_store \<Rightarrow> string \<Rightarrow> activity_event list" where
  "events_of_run s i = filter (\<lambda>v. row_run v = i) (db_events s)"

definition events_for_run :: "ops_store \<Rightarrow> string \<Rightarrow> ops_exn + activity_event list" where
  "events_for_run s i = bindR (validate_run_id i ''run_id'') (\<lambda>_.
     mapR check_row (sort_key row_ordinal (events_of_run s i)))"

text \<open>\<open>COALESCE(MAX(ordinal), 0) + 1\<close>.\<close>

definition next_ordinal :: "int list \<Rightarrow> int" where
  "next_ordinal ns = fold max ns 0 + 1"

definition next_event_ordinal :: "ops_store \<Rightarrow> string \<Rightarrow> ops_exn + int" where
  "next_event_ordinal s i = bindR (validate_run_id i ''run_id'') (\<lambda>_.
     if i \<notin> run_key ` set (db_runs s) then Inl (MissingRow ''missing activity run'')
     else Inr (next_ordinal (map row_ordinal (events_of_run s i))))"

section \<open>Sessions and actions\<close>

definition get_session :: "ops_store \<Rightarrow> string \<Rightarrow> ops_exn + operation_session" where
  "get_session s i = (case find (\<lambda>r. session_id r = i) (db_sessions s) of
     None \<Rightarrow> Inl (MissingRow ''missing session'') | Some r \<Rightarrow> check_session r)"

definition action_for_idempotency :: "ops_store \<Rightarrow> string \<Rightarrow> string \<Rightarrow> ops_exn + operation_action option" where
  "action_for_idempotency s i k =
     (case find (\<lambda>a. action_session a = i \<and> action_key a = Some k) (db_actions s) of
       None \<Rightarrow> Inr None | Some a \<Rightarrow> bindR (check_action a) (\<lambda>a. Inr (Some a)))"

definition next_action_ordinal :: "ops_store \<Rightarrow> string \<Rightarrow> ops_exn + int" where
  "next_action_ordinal s i =
     (if i \<notin> session_id ` set (db_sessions s) then Inl (MissingRow ''missing session'')
      else Inr (next_ordinal (map action_ordinal
        (filter (\<lambda>a. action_session a = i) (db_actions s)))))"

definition key_conflict :: "operation_action \<Rightarrow> operation_action \<Rightarrow> bool" where
  "key_conflict a b \<longleftrightarrow> action_key a \<noteq> None \<and> action_key b = action_key a \<and>
     action_session b = action_session a"

definition add_action :: "operation_action \<Rightarrow> ops_store \<Rightarrow> ops_exn + ops_store" where
  "add_action a s =
     bindR (encode_timestamp (action_created a)) (\<lambda>_.
     bindR (constraint (0 < action_ordinal a \<and> action_ordinal a \<le> max_row_ordinal)
         ''cpk_operation_actions_ordinal_check'') (\<lambda>_.
     bindR (constraint (action_id a \<notin> action_id ` set (db_actions s)) ''cpk_operation_actions_pkey'') (\<lambda>_.
     bindR (constraint ((action_session a, action_ordinal a) \<notin>
         (\<lambda>b. (action_session b, action_ordinal b)) ` set (db_actions s))
         ''cpk_operation_actions_session_id_ordinal_key'') (\<lambda>_.
     bindR (constraint (\<not> list_ex (key_conflict a) (db_actions s)) ''cpk_operation_actions_idempotency'') (\<lambda>_.
     bindR (constraint (action_session a \<in> session_id ` set (db_sessions s))
         ''cpk_operation_actions_session_id_fkey'') (\<lambda>_.
       Inr (s\<lparr>db_actions := db_actions s @ [a]\<rparr>)))))))"

end
