(* ===== verification/Run_Lifecycle.thy ===== *)
theory Run_Lifecycle
  imports Execution_Store Policy_Scopes
begin

text \<open>
  The command service of \<open>operations/lifecycle.py\<close>. A command runs in one transaction over the
  store: it either returns its result with the changed store, or raises, and then the unit
  of work rolls back and the store is unchanged. The clock, the database clock, the generator of
  identities and the SHA-256 digest are parameters, in an environment per command.
\<close>

section \<open>Commands\<close>

record worker_authority =
  authority_worker :: string
  authority_scopes :: "policy_scope list"

definition required_text :: "string \<Rightarrow> string \<Rightarrow> ops_exn + unit" where
  "required_text v label = requireR (non_blank v) (InvalidOperationCommand (label @ '' must not be empty''))"

definition make_authority :: "string \<Rightarrow> policy_scope list \<Rightarrow> ops_exn + worker_authority" where
  "make_authority w scopes = bindR (required_text w ''worker_id'') (\<lambda>_.
     Inr \<lparr>authority_worker = w, authority_scopes = sort_key policy_scope_value (remdups scopes)\<rparr>)"

definition make_lease_duration :: "int \<Rightarrow> ops_exn + int" where
  "make_lease_duration n = (if \<not> (1 \<le> n \<and> n \<le> 3600)
     then Inl (InvalidOperationCommand ''lease duration is invalid'') else Inr n)"

definition make_idempotency_key :: "string \<Rightarrow> ops_exn + string" where
  "make_idempotency_key k = bindR (required_text k ''idempotency_key'') (\<lambda>_.
     if length k > 200
     then Inl (InvalidOperationCommand ''idempotency_key must be at most 200 characters'')
     else Inr k)"

record run_command =
  command_run :: string
  command_authority :: worker_authority
  command_fence :: lease_fence
  command_key :: string

definition check_run_command :: "run_command \<Rightarrow> ops_exn + run_command" where
  "check_run_command c =
     (if \<not> is_canonical_run_identity (command_run c)
      then Inl (InvalidOperationCommand ''run_id is malformed'')
      else if authority_worker (command_authority c) \<noteq> lease_worker (command_fence c)
      then Inl (InvalidOperationCommand ''authority and fence must agree'')
      else Inr c)"

datatype lifecycle_command =
    ClaimAndOpenRun (claim_target: string) (claim_authority: worker_authority) (claim_seconds: int)
      (claim_key: string)
  | StartRun run_command
  | PauseRun run_command bounded_evidence
  | ResumeRun run_command
  | CompleteRun run_command bounded_evidence
  | FailRun run_command failure_evidence
  | CancelRun run_command bounded_evidence

fun command_worker :: "lifecycle_command \<Rightarrow> worker_authority" where
  "command_worker (ClaimAndOpenRun i a n k) = a"
| "command_worker (StartRun c) = command_authority c"
| "command_worker (PauseRun c v) = command_authority c"
| "command_worker (ResumeRun c) = command_authority c"
| "command_worker (CompleteRun c v) = command_authority c"
| "command_worker (FailRun c f) = command_authority c"
| "command_worker (CancelRun c v) = command_authority c"

record lifecycle_result =
  result_request :: execution_request
  result_run :: activity_run
  result_event :: activity_event
  result_action :: operation_action
  result_replayed :: bool

definition result_descriptor :: "lifecycle_result \<Rightarrow> descriptor" where
  "result_descriptor r =
     [(''execution_request_id'', PStr (request_key_of (result_request r))),
      (''run_id'', PStr (run_key (result_run r))),
      (''run_status'', PStr (run_status_value (run_state (result_run r)))),
      (''event_id'', PStr (row_event (result_event r))),
      (''event_type'', PStr (activity_event_kind_value (row_kind (result_event r)))),
      (''event_ordinal'', PInt (row_ordinal (result_event r))),
      (''action_id'', PStr (action_id (result_action r))),
      (''action_type'', PStr (action_kind_value (action_type (result_action r)))),
      (''replayed'', PBool (result_replayed r))] @
     (case request_claim (result_request r) of None \<Rightarrow> []
      | Some c \<Rightarrow> [(''claim_generation'', PInt (claim_generation c))])"

section \<open>Fingerprints and payloads\<close>

definition run_intent :: "run_command \<Rightarrow> lifecycle_operation \<Rightarrow> descriptor" where
  "run_intent c k =
     [(''command'', PStr (lifecycle_operation_value k)),
      (''run_id'', PStr (command_run c)),
      (''worker_id'', PStr (authority_worker (command_authority c))),
      (''claim_generation'', PInt (lease_generation (command_fence c)))]"

definition failure_descriptor :: "failure_evidence \<Rightarrow> descriptor" where
  "failure_descriptor f =
     [(''category'', PStr (failure_category_value (failure_kind f))),
      (''code'', PStr (failure_code f)), (''message'', PStr (failure_message f)),
      (''details'', PDict (evidence_value (failure_details f)))]"

fun command_intent :: "lifecycle_command \<Rightarrow> descriptor" where
  "command_intent (ClaimAndOpenRun i a n k) =
     [(''command'', PStr (lifecycle_operation_value OpClaimRun)), (''request_id'', PStr i),
      (''worker_id'', PStr (authority_worker a)), (''lease_duration_seconds'', PInt n)]"
| "command_intent (StartRun c) = run_intent c OpStartRun"
| "command_intent (PauseRun c v) = run_intent c OpPauseRun @ [(''evidence'', PDict (evidence_value v))]"
| "command_intent (ResumeRun c) = run_intent c OpResumeRun"
| "command_intent (CompleteRun c v) =
     run_intent c OpCompleteRun @ [(''evidence'', PDict (evidence_value v))]"
| "command_intent (FailRun c f) = run_intent c OpFailRun @ [(''failure'', PDict (failure_descriptor f))]"
| "command_intent (CancelRun c v) = run_intent c OpCancelRun @ [(''evidence'', PDict (evidence_value v))]"

record lifecycle_env =
  env_now :: string
  env_observed :: string
  env_lease_end :: "string \<Rightarrow> int \<Rightarrow> string"
  env_ids :: "nat \<Rightarrow> string"
  env_digest :: "string \<Rightarrow> string"

definition command_fingerprint :: "lifecycle_env \<Rightarrow> lifecycle_command \<Rightarrow> string" where
  "command_fingerprint env c = env_digest env (json_text (PDict (command_intent c)))"

definition lifecycle_payload :: "execution_request \<Rightarrow> activity_run \<Rightarrow> activity_event \<Rightarrow> descriptor" where
  "lifecycle_payload q r v =
     [(''execution_request_id'', PStr (request_key_of q)),
      (''plan_id'', PStr (ident_plan (request_ident q))),
      (''run_id'', PStr (run_key r)),
      (''run_status'', PStr (run_status_value (run_state r))),
      (''event_id'', PStr (row_event v)),
      (''event_type'', PStr (activity_event_kind_value (row_kind v))),
      (''event_ordinal'', PInt (row_ordinal v))] @
     (case request_claim q of None \<Rightarrow> []
      | Some c \<Rightarrow> [(''claim_generation'', PInt (claim_generation c))])"

definition payload_text :: "descriptor \<Rightarrow> string \<Rightarrow> ops_exn + string" where
  "payload_text p k = (case map_of p k of
     Some (PStr t) \<Rightarrow> if t = [] then Inl (RunLifecycleError (''lifecycle action payload lacks '' @ k)) else Inr t
   | _ \<Rightarrow> Inl (RunLifecycleError (''lifecycle action payload lacks '' @ k)))"

definition payload_positive_integer :: "descriptor \<Rightarrow> string \<Rightarrow> ops_exn + int" where
  "payload_positive_integer p k = (case map_of p k of
     Some (PInt n) \<Rightarrow> if n < 1 then Inl (RunLifecycleError (''lifecycle action payload lacks valid '' @ k))
       else Inr n
   | _ \<Rightarrow> Inl (RunLifecycleError (''lifecycle action payload lacks valid '' @ k)))"

definition payload_run_id :: "descriptor \<Rightarrow> ops_exn + string" where
  "payload_run_id p = (case map_of p ''run_id'' of
     Some (PStr t) \<Rightarrow> (case make_run_id t of Inr i \<Rightarrow> Inr (run_id_value i)
       | Inl e \<Rightarrow> Inl (RunLifecycleError ''lifecycle action run identity is malformed''))
   | _ \<Rightarrow> Inl (RunLifecycleError ''lifecycle action run identity is malformed''))"

section \<open>Guards\<close>

text \<open>A \<open>KeyError\<close> of a store, turned into an exception of the service.\<close>

definition missing_as :: "ops_exn \<Rightarrow> ops_exn + 'a \<Rightarrow> ops_exn + 'a" where
  "missing_as e r = (case r of Inl (MissingRow k) \<Rightarrow> Inl e | _ \<Rightarrow> r)"

definition find_request :: "ops_store \<Rightarrow> string \<Rightarrow> ops_exn + execution_request" where
  "find_request s i = missing_as (RunLifecycleNotFound ''execution request was not found'') (get_request s i)"

definition find_run :: "ops_store \<Rightarrow> string \<Rightarrow> ops_exn + activity_run" where
  "find_run s i = missing_as (RunLifecycleNotFound ''activity run was not found'') (get_run s i)"

definition find_open_session :: "ops_store \<Rightarrow> string \<Rightarrow> ops_exn + operation_session" where
  "find_open_session s i =
     bindR (missing_as (RunLifecycleNotFound ''operation session was not found'') (get_session s i)) (\<lambda>v.
       if session_state v \<noteq> SessionOpen
       then Inl (RunLifecycleConflict ''run lifecycle requires an open session'') else Inr v)"

definition require_operate_scope :: "worker_authority \<Rightarrow> ops_exn + unit" where
  "require_operate_scope a = requireR (Scope_EXECUTION_OPERATE \<in> set (authority_scopes a))
     (RunLifecycleDenied ''scope execution:operate is missing'')"

definition require_worker_owns :: "execution_request \<Rightarrow> worker_authority \<Rightarrow> lease_fence \<Rightarrow> ops_exn + unit"
  where
  "require_worker_owns q a f =
     (let denied = Inl (RunLifecycleDenied ''worker does not own the execution request claim'') in
      if request_state q \<noteq> RequestClaimed then denied
      else case request_claim q of None \<Rightarrow> denied
        | Some c \<Rightarrow> bindR (claim_fence c) (\<lambda>owned.
            if owned \<noteq> f \<or> authority_worker a \<noteq> lease_worker f then denied else Inr ()))"

definition require_run_request_linkage :: "activity_run \<Rightarrow> execution_request \<Rightarrow> ops_exn + unit" where
  "require_run_request_linkage r q = requireR (run_request r = request_key_of q)
     (RunLifecycleConflict ''activity run request linkage changed'')"

fun lifecycle_result_for :: "action_kind \<Rightarrow> ops_exn + (run_status \<times> activity_event_kind)" where
  "lifecycle_result_for (LifecycleAction OpClaimRun) = Inr (RunClaimed, Ev_RUN_OPENED)"
| "lifecycle_result_for (LifecycleAction OpStartRun) = Inr (RunRunning, Ev_RUN_STARTED)"
| "lifecycle_result_for (LifecycleAction OpPauseRun) = Inr (RunPaused, Ev_RUN_PAUSED)"
| "lifecycle_result_for (LifecycleAction OpResumeRun) = Inr (RunRunning, Ev_RUN_RESUMED)"
| "lifecycle_result_for (LifecycleAction OpCompleteRun) = Inr (RunSucceeded, Ev_RUN_SUCCEEDED)"
| "lifecycle_result_for (LifecycleAction OpFailRun) = Inr (RunFailed, Ev_RUN_FAILED)"
| "lifecycle_result_for (LifecycleAction OpCancelRun) = Inr (RunCancelled, Ev_RUN_CANCELLED)"
| "lifecycle_result_for k = Inl (RunLifecycleError ''lifecycle action type is incongruent'')"

section \<open>Replay\<close>

text \<open>\<open>a or b or c\<close> over tests that may raise: later tests run only when the earlier ones fail.\<close>

fun any_holds :: "('e + bool) list \<Rightarrow> 'e + bool" where
  "any_holds [] = Inr False"
| "any_holds (t # ts) = bindR t (\<lambda>b. if b then Inr True else any_holds ts)"

definition differs :: "'e + 'a \<Rightarrow> 'a \<Rightarrow> 'e + bool" where
  "differs r x = bindR r (\<lambda>y. Inr (y \<noteq> x))"

definition claim_still_active :: "execution_request \<Rightarrow> operation_action \<Rightarrow> ops_exn + unit" where
  "claim_still_active q a =
     (if action_type a \<noteq> LifecycleAction OpClaimRun then Inr ()
      else bindR (payload_positive_integer (action_payload a) ''claim_generation'') (\<lambda>g.
        requireR (request_state q = RequestClaimed \<and>
            (case request_claim q of None \<Rightarrow> False
             | Some c \<Rightarrow> claim_worker c = action_actor a \<and> claim_generation c = g))
          (RunLifecycleConflict ''claim replay no longer has active authority'')))"

definition replay_incongruent :: "execution_request \<Rightarrow> operation_action \<Rightarrow> activity_run \<Rightarrow>
    activity_event \<Rightarrow> string \<Rightarrow> run_status \<Rightarrow> activity_event_kind \<Rightarrow> lifecycle_operation option \<Rightarrow>
    lease_fence option \<Rightarrow> ops_exn + bool" where
  "replay_incongruent q a r v rid recorded_status recorded_kind expected_type fence = any_holds
     [Inr (action_session a \<noteq> ident_session (request_ident q)),
      differs (payload_text (action_payload a) ''execution_request_id'') (request_key_of q),
      differs (payload_text (action_payload a) ''plan_id'') (ident_plan (request_ident q)),
      Inr (run_plan r \<noteq> ident_plan (request_ident q)),
      Inr (run_key r \<noteq> rid),
      differs (payload_text (action_payload a) ''run_status'') (run_status_value recorded_status),
      Inr (case fence of Some f \<Rightarrow> action_actor a \<noteq> lease_worker f | None \<Rightarrow> False),
      Inr (case expected_type of Some k \<Rightarrow> action_type a \<noteq> LifecycleAction k | None \<Rightarrow> False),
      Inr (run_request r \<noteq> request_key_of q),
      Inr (row_run v \<noteq> run_key r),
      Inr (row_kind v \<noteq> recorded_kind),
      differs (payload_text (action_payload a) ''event_type'') (activity_event_kind_value (row_kind v)),
      differs (payload_positive_integer (action_payload a) ''event_ordinal'') (row_ordinal v)]"

definition replay :: "ops_store \<Rightarrow> execution_request \<Rightarrow> operation_action \<Rightarrow> string \<Rightarrow>
    activity_run option \<Rightarrow> lifecycle_operation option \<Rightarrow> lease_fence option \<Rightarrow>
    ops_exn + lifecycle_result" where
  "replay s q a fingerprint locked expected_type fence =
     bindR (requireR (action_intent a = Some fingerprint) (RunLifecycleIdempotencyConflict
         ''idempotency key was reused with different lifecycle intent'')) (\<lambda>_.
     bindR (claim_still_active q a) (\<lambda>_.
     bindR (payload_run_id (action_payload a)) (\<lambda>rid.
     bindR (payload_text (action_payload a) ''event_id'') (\<lambda>eid.
     bindR (missing_as (RunLifecycleError ''lifecycle action is missing run/event evidence'')
         (bindR (case locked of Some r \<Rightarrow> Inr r | None \<Rightarrow> get_run s rid) (\<lambda>r.
         bindR (get_event s eid) (\<lambda>v. Inr (r, v))))) (\<lambda>(r, v).
     bindR (lifecycle_result_for (action_type a)) (\<lambda>(recorded_status, recorded_kind).
     bindR (replay_incongruent q a r v rid recorded_status recorded_kind expected_type fence) (\<lambda>bad.
     bindR (requireR (\<not> bad)
         (RunLifecycleError ''lifecycle action run/event evidence is incongruent'')) (\<lambda>_.
     bindR (case fence of None \<Rightarrow> Inr ()
        | Some f \<Rightarrow> bindR (payload_positive_integer (action_payload a) ''claim_generation'') (\<lambda>g.
            requireR (g = lease_generation f)
              (RunLifecycleError ''lifecycle action generation evidence is incongruent''))) (\<lambda>_.
       Inr \<lparr>result_request = q, result_run = r, result_event = v, result_action = a,
         result_replayed = True\<rparr>)))))))))"

section \<open>Claim\<close>

definition opened_run :: "execution_request \<Rightarrow> string \<Rightarrow> string \<Rightarrow> activity_run" where
  "opened_run q rid now = \<lparr>run_key = rid, run_plan = ident_plan (request_ident q),
     run_request = request_key_of q, run_retry = \<lparr>retry_attempt = 1, prior_run = None\<rparr>,
     run_state = RunClaimed, run_created = now, run_started = None, run_settled = None,
     run_metadata = BoundedEvidence [(''attempt'', PInt 1)]\<rparr>"

definition lifecycle_event :: "string \<Rightarrow> string \<Rightarrow> int \<Rightarrow> activity_event_kind \<Rightarrow> string \<Rightarrow>
    bounded_evidence \<Rightarrow> failure_evidence option \<Rightarrow> activity_event" where
  "lifecycle_event i rid n k now evidence failure = \<lparr>row_event = i, row_run = rid, row_ordinal = n,
     row_kind = k, occurred_at = now, row_activity = None, row_evidence = evidence,
     row_failure = failure, row_recovery = None\<rparr>"

definition lifecycle_action :: "string \<Rightarrow> string \<Rightarrow> int \<Rightarrow> lifecycle_operation \<Rightarrow> string \<Rightarrow> descriptor \<Rightarrow>
    string \<Rightarrow> string \<Rightarrow> string \<Rightarrow> operation_action" where
  "lifecycle_action i sid n k worker payload now key fp = \<lparr>action_id = i, action_session = sid,
     action_ordinal = n, action_type = LifecycleAction k, action_actor = worker,
     action_payload = payload, action_created = now, action_key = Some key, action_intent = Some fp\<rparr>"

text \<open>
  The common end of both commands: append the event of the run and the action of the session.
  \<open>event_no\<close> is the position of the event's identity in the calls of the generator.
\<close>

definition record_outcome :: "lifecycle_env \<Rightarrow> nat \<Rightarrow> execution_request \<Rightarrow> activity_run \<Rightarrow>
    lifecycle_operation \<Rightarrow> activity_event_kind \<Rightarrow> string \<Rightarrow> bounded_evidence \<Rightarrow>
    failure_evidence option \<Rightarrow> string \<Rightarrow> string \<Rightarrow> string \<Rightarrow> ops_store \<Rightarrow>
    ops_exn + (lifecycle_result \<times> ops_store)" where
  "record_outcome env event_no q r k kind now evidence failure worker key fp s =
     bindR (next_event_ordinal s (run_key r)) (\<lambda>n.
     bindR (check_row (lifecycle_event (env_ids env event_no) (run_key r) n kind now evidence failure)) (\<lambda>v.
     bindR (add_event v s) (\<lambda>s1.
     bindR (next_action_ordinal s1 (ident_session (request_ident q))) (\<lambda>m.
     bindR (check_action (lifecycle_action (env_ids env (Suc event_no)) (ident_session (request_ident q)) m k
         worker (lifecycle_payload q r v) now key fp)) (\<lambda>a.
     bindR (add_action a s1) (\<lambda>s2.
       Inr (\<lparr>result_request = q, result_run = r, result_event = v, result_action = a,
         result_replayed = False\<rparr>, s2)))))))"

text \<open>The part of \<open>_claim\<close> after the guards: the lease, the run, its first event and the action.\<close>

definition open_claimed_run :: "lifecycle_env \<Rightarrow> string \<Rightarrow> worker_authority \<Rightarrow> string \<Rightarrow> string \<Rightarrow>
    execution_request option \<Rightarrow> ops_store \<Rightarrow> ops_exn + (lifecycle_result \<times> ops_store)" where
  "open_claimed_run env rid a key fp claimed s =
     (case claimed of
        None \<Rightarrow> Inl (RunLifecycleConflict ''execution request is not claimable'')
      | Some q \<Rightarrow>
          (if request_state q \<noteq> RequestClaimed
           then Inl (RunLifecycleConflict ''execution request was not claimed'')
           else (case request_claim q of
             None \<Rightarrow> Inl (RunLifecycleConflict ''claimed request lacks lease evidence'')
           | Some c \<Rightarrow>
               bindR (check_run (opened_run q rid (claimed_at c))) (\<lambda>r.
               bindR (add_run r s) (\<lambda>s1.
                 record_outcome env 1 q r OpClaimRun Ev_RUN_OPENED (claimed_at c)
                   (BoundedEvidence [(''attempt'', PInt 1)]) None (authority_worker a) key fp s1)))))"

definition claim_new :: "lifecycle_env \<Rightarrow> string \<Rightarrow> worker_authority \<Rightarrow> int \<Rightarrow> string \<Rightarrow> string \<Rightarrow>
    execution_request \<Rightarrow> ops_store \<Rightarrow> ops_exn + (lifecycle_result \<times> ops_store)" where
  "claim_new env i a seconds key fp locator s =
     bindR (find_open_session s (ident_session (request_ident locator))) (\<lambda>session.
     bindR (find_request s i) (\<lambda>q.
     if ident_session (request_ident q) \<noteq> session_id session
     then Inl (RunLifecycleConflict ''execution request session linkage changed'')
     else if request_state q \<noteq> RequestQueued \<or> request_claim q \<noteq> None
     then Inl (RunLifecycleConflict ''execution request is not claimable'')
     else
     bindR (runs_for_request s i) (\<lambda>runs.
     if runs \<noteq> [] then Inl (RunLifecycleConflict ''execution request already has a run'')
     else if \<not> is_ok (make_run_id (env_ids env 0))
     then Inl (RunLifecycleError ''generated run identity is malformed'')
     else
     bindR (claim_request (env_observed env) (env_lease_end env) i (authority_worker a) seconds s)
       (\<lambda>(claimed, s1). open_claimed_run env (env_ids env 0) a key fp claimed s1))))"

definition claim_run :: "lifecycle_env \<Rightarrow> string \<Rightarrow> worker_authority \<Rightarrow> int \<Rightarrow> string \<Rightarrow> ops_store \<Rightarrow>
    ops_exn + (lifecycle_result \<times> ops_store)" where
  "claim_run env i a seconds key s =
     (let fp = command_fingerprint env (ClaimAndOpenRun i a seconds key) in
     bindR (find_request s i) (\<lambda>locator.
     bindR (action_for_idempotency s (ident_session (request_ident locator)) key) (\<lambda>existing.
       (case existing of
          Some prior \<Rightarrow> bindR (find_request s i) (\<lambda>q.
            bindR (replay s q prior fp None None None) (\<lambda>r. Inr (r, s)))
        | None \<Rightarrow> claim_new env i a seconds key fp locator s))))"

section \<open>Transitions\<close>

record transition_rule =
  rule_operation :: lifecycle_operation
  rule_expected :: "run_status list"
  rule_replacement :: run_status
  rule_event :: activity_event_kind
  rule_started :: bool
  rule_settled :: bool

text \<open>The keyword arguments with which \<open>execute\<close> calls \<open>_transition\<close>.\<close>

fun rule_of :: "lifecycle_command \<Rightarrow> transition_rule option" where
  "rule_of (ClaimAndOpenRun i a n k) = None"
| "rule_of (StartRun c) = Some \<lparr>rule_operation = OpStartRun, rule_expected = [RunClaimed],
     rule_replacement = RunRunning, rule_event = Ev_RUN_STARTED, rule_started = True, rule_settled = False\<rparr>"
| "rule_of (PauseRun c v) = Some \<lparr>rule_operation = OpPauseRun, rule_expected = [RunRunning],
     rule_replacement = RunPaused, rule_event = Ev_RUN_PAUSED, rule_started = False, rule_settled = False\<rparr>"
| "rule_of (ResumeRun c) = Some \<lparr>rule_operation = OpResumeRun, rule_expected = [RunPaused],
     rule_replacement = RunRunning, rule_event = Ev_RUN_RESUMED, rule_started = False, rule_settled = False\<rparr>"
| "rule_of (CompleteRun c v) = Some \<lparr>rule_operation = OpCompleteRun, rule_expected = [RunRunning],
     rule_replacement = RunSucceeded, rule_event = Ev_RUN_SUCCEEDED, rule_started = False, rule_settled = True\<rparr>"
| "rule_of (FailRun c f) = Some \<lparr>rule_operation = OpFailRun, rule_expected = [RunRunning, RunPaused],
     rule_replacement = RunFailed, rule_event = Ev_RUN_FAILED, rule_started = False, rule_settled = False\<rparr>"
| "rule_of (CancelRun c v) = Some \<lparr>rule_operation = OpCancelRun, rule_expected = [RunClaimed, RunPaused],
     rule_replacement = RunCancelled, rule_event = Ev_RUN_CANCELLED, rule_started = True, rule_settled = True\<rparr>"

fun command_evidence :: "lifecycle_command \<Rightarrow> bounded_evidence" where
  "command_evidence (PauseRun c v) = v"
| "command_evidence (CompleteRun c v) = v"
| "command_evidence (CancelRun c v) = v"
| "command_evidence c = no_evidence"

fun command_failure :: "lifecycle_command \<Rightarrow> failure_evidence option" where
  "command_failure (FailRun c f) = Some f"
| "command_failure c = None"

text \<open>The loop over the expected statuses, which stops at the first that the update matches.\<close>

fun first_transition :: "string \<Rightarrow> run_status list \<Rightarrow> run_status \<Rightarrow> string option \<Rightarrow> string option \<Rightarrow>
    ops_store \<Rightarrow> ops_exn + (activity_run option \<times> ops_store)" where
  "first_transition rid [] replacement start_at settle_at s = Inr (None, s)"
| "first_transition rid (st # sts) replacement start_at settle_at s =
     bindR (compare_and_set_run_status rid st replacement start_at settle_at s) (\<lambda>(found, s1).
       case found of Some r \<Rightarrow> Inr (Some r, s1)
       | None \<Rightarrow> first_transition rid sts replacement start_at settle_at s1)"

definition replay_transition :: "run_command \<Rightarrow> transition_rule \<Rightarrow> string \<Rightarrow> execution_request \<Rightarrow>
    operation_action \<Rightarrow> ops_store \<Rightarrow> ops_exn + (lifecycle_result \<times> ops_store)" where
  "replay_transition c rule fp locator prior s =
     (if action_intent prior \<noteq> Some fp
      then Inl (RunLifecycleIdempotencyConflict
        ''idempotency key was reused with different lifecycle intent'')
      else bindR (find_request s (request_key_of locator)) (\<lambda>q.
        bindR (find_run s (command_run c)) (\<lambda>r.
        bindR (require_run_request_linkage r q) (\<lambda>_.
        bindR (require_worker_owns q (command_authority c) (command_fence c)) (\<lambda>_.
        bindR (replay s q prior fp (Some r) (Some (rule_operation rule)) (Some (command_fence c)))
          (\<lambda>result. Inr (result, s)))))))"

definition transition_new :: "lifecycle_env \<Rightarrow> run_command \<Rightarrow> lifecycle_command \<Rightarrow> transition_rule \<Rightarrow>
    string \<Rightarrow> string \<Rightarrow> execution_request \<Rightarrow> ops_store \<Rightarrow> ops_exn + (lifecycle_result \<times> ops_store)" where
  "transition_new env c command rule fp i locator s =
     bindR (find_open_session s (ident_session (request_ident locator))) (\<lambda>session.
     bindR (find_request s i) (\<lambda>q.
     bindR (find_run s (command_run c)) (\<lambda>r.
     bindR (require_run_request_linkage r q) (\<lambda>_.
     if ident_session (request_ident q) \<noteq> session_id session
     then Inl (RunLifecycleConflict ''activity run session linkage changed'')
     else
     bindR (require_worker_owns q (command_authority c) (command_fence c)) (\<lambda>_.
     bindR (first_transition (run_key r) (rule_expected rule) (rule_replacement rule)
         (if rule_started rule \<and> run_started r = None then Some (env_now env) else None)
         (if rule_settled rule then Some (env_now env) else None) s) (\<lambda>(found, s1).
       (case found of
          None \<Rightarrow> Inl (RunLifecycleConflict ''activity run state rejected transition'')
        | Some r' \<Rightarrow> record_outcome env 0 q r' (rule_operation rule) (rule_event rule) (env_now env)
            (command_evidence command) (command_failure command)
            (authority_worker (command_authority c)) (command_key c) fp s1)))))))"

definition transition_run :: "lifecycle_env \<Rightarrow> run_command \<Rightarrow> lifecycle_command \<Rightarrow> transition_rule \<Rightarrow>
    ops_store \<Rightarrow> ops_exn + (lifecycle_result \<times> ops_store)" where
  "transition_run env c command rule s =
     (let fp = command_fingerprint env command in
     bindR (find_run s (command_run c)) (\<lambda>locator_run.
     bindR (find_request s (run_request locator_run)) (\<lambda>locator.
     bindR (action_for_idempotency s (ident_session (request_ident locator)) (command_key c)) (\<lambda>existing.
       (case existing of
          Some prior \<Rightarrow> replay_transition c rule fp locator prior s
        | None \<Rightarrow> transition_new env c command rule fp (run_request locator_run) locator s)))))"

fun run_command_of :: "lifecycle_command \<Rightarrow> run_command option" where
  "run_command_of (ClaimAndOpenRun i a n k) = None"
| "run_command_of (StartRun c) = Some c"
| "run_command_of (PauseRun c v) = Some c"
| "run_command_of (ResumeRun c) = Some c"
| "run_command_of (CompleteRun c v) = Some c"
| "run_command_of (FailRun c f) = Some c"
| "run_command_of (CancelRun c v) = Some c"

definition execute :: "lifecycle_env \<Rightarrow> lifecycle_command \<Rightarrow> ops_store \<Rightarrow>
    ops_exn + (lifecycle_result \<times> ops_store)" where
  "execute env command s =
     bindR (require_operate_scope (command_worker command)) (\<lambda>_.
       case command of
         ClaimAndOpenRun i a n k \<Rightarrow> claim_run env i a n k s
       | _ \<Rightarrow> (case (run_command_of command, rule_of command) of
           (Some c, Some rule) \<Rightarrow> transition_run env c command rule s
         | _ \<Rightarrow> Inl (InvalidOperationCommand ''unsupported lifecycle command'')))"

end
