(* ===== verification/Lease_Time.thy ===== *)
theory Lease_Time
  imports Operation_Records Canonical_Time
begin

text \<open>
  The clock of leases: canonical UTC texts as instants, the comparison
  \<open>lease_expires_at <= observed_at\<close> of the store, and \<open>_expires_at\<close> of
  \<open>execution_lease_recovery_interpreter.py\<close>, which adds a duration to an observation.
\<close>

section \<open>Instants\<close>

definition number_of :: "string \<Rightarrow> int" where
  "number_of s = (case digits s of Some n \<Rightarrow> n | None \<Rightarrow> 0)"

text \<open>Year, month, day, second of the day, microsecond; the order of tuples is that of time.\<close>

type_synonym instant = "int \<times> int \<times> int \<times> int \<times> int"

definition instant_of :: "string \<Rightarrow> instant" where
  "instant_of t = (number_of (slice 0 4 t), number_of (slice 5 2 t), number_of (slice 8 2 t),
     3600 * number_of (slice 11 2 t) + 60 * number_of (slice 14 2 t) + number_of (slice 17 2 t),
     if length t = 27 then number_of (slice 20 6 t) else 0)"

definition lease_expired :: "string \<Rightarrow> string \<Rightarrow> bool" where
  "lease_expired lease_end observed \<longleftrightarrow> instant_of lease_end \<le> instant_of observed"

section \<open>Adding a duration\<close>

fun next_day :: "int \<times> int \<times> int \<Rightarrow> int \<times> int \<times> int" where
  "next_day (y, m, d) =
     (if d < days_in_month y m then (y, m, d + 1)
      else if m < 12 then (y, m + 1, 1) else (y + 1, 1, 1))"

definition digit_char :: "int \<Rightarrow> char" where
  "digit_char n = char_of (48 + nat n)"

definition pad2 :: "int \<Rightarrow> string" where
  "pad2 n = [digit_char (n div 10), digit_char (n mod 10)]"

definition pad4 :: "int \<Rightarrow> string" where
  "pad4 n = pad2 (n div 100) @ pad2 (n mod 100)"

definition render_instant :: "int \<times> int \<times> int \<Rightarrow> int \<Rightarrow> string \<Rightarrow> string" where
  "render_instant day s rest = (case day of (y, m, d) \<Rightarrow>
     pad4 y @ ''-'' @ pad2 m @ ''-'' @ pad2 d @ ''T'' @ pad2 (s div 3600) @ '':'' @
     pad2 (s div 60 mod 60) @ '':'' @ pad2 (s mod 60) @ rest)"

text \<open>
  The fraction of a second is not changed by whole seconds, so its text is kept. \<open>datetime\<close> ends
  with the year 9999, and an overflow is a conflict.
\<close>

definition expires_at :: "string \<Rightarrow> int \<Rightarrow> ops_exn + string" where
  "expires_at t n =
     (let invalid = Inl (RunLifecycleConflict ''recovery observation time is invalid'') in
      if \<not> canonical_utc t then invalid
      else (case instant_of t of (y, m, d, s, us) \<Rightarrow>
        let day = (next_day ^^ nat ((s + n) div 86400)) (y, m, d) in
        if fst day > 9999 then invalid
        else Inr (render_instant day ((s + n) mod 86400) (drop 19 t))))"

lemma expires_at_examples:
  "expires_at ''2024-02-28T23:59:30.000001Z'' 60 = Inr ''2024-02-29T00:00:30.000001Z''"
  "expires_at ''2023-12-31T23:30:00Z'' 3600 = Inr ''2024-01-01T00:30:00Z''"
  "expires_at ''9999-12-31T23:59:59Z'' 1 =
     Inl (RunLifecycleConflict ''recovery observation time is invalid'')"
  "lease_expired ''2024-01-01T00:00:00Z'' ''2024-01-01T00:00:00Z''"
  "\<not> lease_expired ''2024-01-01T00:00:00.000001Z'' ''2024-01-01T00:00:00Z''"
  by code_simp+

section \<open>Laws\<close>

lemma digit_of_char [simp]: "0 \<le> n \<Longrightarrow> n < 10 \<Longrightarrow> digit (digit_char n) = Some n"
proof -
  assume "0 \<le> n" "n < 10"
  then have "n \<in> {0, 1, 2, 3, 4, 5, 6, 7, 8, 9}" by simp presburger
  moreover have "\<forall>k\<in>{0, 1, 2, 3, 4, 5, 6, 7, 8, 9::int}. digit (digit_char k) = Some k" by code_simp
  ultimately show ?thesis by blast
qed

lemma digits_from_append:
  "digits_from acc (xs @ ys) = (case digits_from acc xs of None \<Rightarrow> None | Some a \<Rightarrow> digits_from a ys)"
  by (induction xs arbitrary: acc) (auto split: option.splits)

lemma digits_from_pad2: "0 \<le> n \<Longrightarrow> n < 100 \<Longrightarrow> digits_from acc (pad2 n) = Some (100 * acc + n)"
  by (simp add: pad2_def)

lemma digits_pad2: "0 \<le> n \<Longrightarrow> n < 100 \<Longrightarrow> digits (pad2 n) = Some n"
  by (simp add: digits_def digits_from_pad2)

lemma digits_pad4: "0 \<le> n \<Longrightarrow> n < 10000 \<Longrightarrow> digits (pad4 n) = Some n"
  by (simp add: digits_def pad4_def digits_from_append digits_from_pad2)

lemma pad_length [simp]: "length (pad2 n) = 2" "length (pad4 n) = 4"
  by (simp_all add: pad2_def pad4_def)


definition valid_day :: "int \<times> int \<times> int \<Rightarrow> bool" where
  "valid_day day \<longleftrightarrow> (case day of (y, m, d) \<Rightarrow>
     1 \<le> y \<and> 1 \<le> m \<and> m \<le> 12 \<and> 1 \<le> d \<and> d \<le> days_in_month y m)"

lemma days_in_month_bounds: "1 \<le> days_in_month y m \<and> days_in_month y m \<le> 31"
  by (simp add: days_in_month_def)

lemma next_day_valid: "valid_day day \<Longrightarrow> valid_day (next_day day) \<and> day < next_day day"
  using days_in_month_bounds by (cases day) (auto simp: valid_day_def)

lemma next_days_valid:
  "valid_day day \<Longrightarrow> valid_day ((next_day ^^ k) day) \<and> day \<le> (next_day ^^ k) day \<and> (0 < k \<longrightarrow> day < (next_day ^^ k) day)"
proof (induction k)
  case (Suc k)
  then show ?case using next_day_valid [of "(next_day ^^ k) day"] by fastforce
qed simp

lemma canonical_instant:
  assumes "canonical_utc t" and "instant_of t = (y, m, d, s, us)"
  shows "valid_day (y, m, d)" "0 \<le> s" "s < 86400" "length t = 20 \<or> length t = 27"
proof -
  show "length t = 20 \<or> length t = 27"
  proof -
    have "length t = 20" if "drop 19 t = ''Z''" using arg_cong [OF that, of length] by simp
    with assms(1) show ?thesis by (auto simp: canonical_utc_def)
  qed
  show "valid_day (y, m, d)"
    using assms by (auto simp: canonical_utc_def calendar_date_def instant_of_def valid_day_def number_of_def
        split: option.splits)
  show "0 \<le> s" "s < 86400"
    using assms by (auto simp: canonical_utc_def field_in_def instant_of_def number_of_def split: option.splits)
qed

lemma slice_simps [simp]:
  "length xs \<le> i \<Longrightarrow> slice i n (xs @ ys) = slice (i - length xs) n ys"
  "n = length xs \<Longrightarrow> slice 0 n (xs @ ys) = xs"
  "0 < i \<Longrightarrow> slice i n (c # ys) = slice (i - 1) n ys"
  "slice 0 (Suc 0) (c # ys) = [c]"
  by (simp_all add: slice_def drop_Cons')

lemma rendered_slices:
  fixes y m d s :: int and rest :: string
  defines "t \<equiv> render_instant (y, m, d) s rest"
  shows "slice 0 4 t = pad4 y" "slice 4 1 t = ''-''" "slice 5 2 t = pad2 m" "slice 7 1 t = ''-''"
    "slice 8 2 t = pad2 d" "slice 10 1 t = ''T''" "slice 11 2 t = pad2 (s div 3600)" "slice 13 1 t = '':''"
    "slice 14 2 t = pad2 (s div 60 mod 60)" "slice 16 1 t = '':''" "slice 17 2 t = pad2 (s mod 60)"
    "slice 19 n t = slice 0 n rest" "slice 20 n t = slice 1 n rest" "drop 19 t = rest"
    "drop 26 t = drop 7 rest" "length t = 19 + length rest"
  by (simp_all add: t_def render_instant_def)

lemma rendered_fields:
  assumes "valid_day (y, m, d)" and "y \<le> 9999" and "0 \<le> s" and "s < 86400"
  shows "canonical_utc (render_instant (y, m, d) s rest) \<longleftrightarrow>
      rest = ''Z'' \<or> length rest = 8 \<and> slice 0 1 rest = ''.'' \<and> field_in 1 999999 (slice 1 6 rest) \<and> drop 7 rest = ''Z''"
    "instant_of (render_instant (y, m, d) s rest) =
      (y, m, d, s, if length rest = 8 then number_of (slice 1 6 rest) else 0)"
proof -
  have b: "0 \<le> y" "y < 10000" "0 \<le> m" "m < 100" "0 \<le> d" "d < 100"
    using assms(1,2) days_in_month_bounds [of y m] by (auto simp: valid_day_def)
  have c: "s div 3600 < 24" "s div 60 mod 60 < 60" "s mod 60 < 60" "0 \<le> s div 3600" "0 \<le> s div 60 mod 60"
    using assms(3,4) by (simp_all add: div_less_iff_less_mult)
  have le: "s div 3600 \<le> 23" "s div 60 mod 60 \<le> 59" "s mod 60 \<le> 59" using c by linarith+
  have sec: "3600 * (s div 3600) + 60 * (s div 60 mod 60) + s mod 60 = s"
  proof -
    have "s div 3600 = s div 60 div 60" using zdiv_zmult2_eq [of 60 s 60] by simp
    then show ?thesis using mult_div_mod_eq [of 60 s] mult_div_mod_eq [of 60 "s div 60"] by linarith
  qed
  have digs: "digits (pad4 y) = Some y" "digits (pad2 m) = Some m" "digits (pad2 d) = Some d"
    "digits (pad2 (s div 3600)) = Some (s div 3600)" "digits (pad2 (s mod 60)) = Some (s mod 60)"
    "digits (pad2 (s div 60 mod 60)) = Some (s div 60 mod 60)"
    by (rule digits_pad4 digits_pad2; use b c le in linarith)+
  show "instant_of (render_instant (y, m, d) s rest) =
      (y, m, d, s, if length rest = 8 then number_of (slice 1 6 rest) else 0)"
    by (simp add: instant_of_def rendered_slices number_of_def digs sec)
  have "calendar_date (render_instant (y, m, d) s rest)"
    using assms(1) by (simp add: calendar_date_def rendered_slices digs valid_day_def)
  moreover have "field_in 0 23 (pad2 (s div 3600))" "field_in 0 59 (pad2 (s div 60 mod 60))"
    "field_in 0 59 (pad2 (s mod 60))"
    using c le by (simp_all only: field_in_def digs option.case) simp_all
  ultimately show "canonical_utc (render_instant (y, m, d) s rest) \<longleftrightarrow>
      rest = ''Z'' \<or> length rest = 8 \<and> slice 0 1 rest = ''.'' \<and> field_in 1 999999 (slice 1 6 rest) \<and> drop 7 rest = ''Z''"
    by (simp add: canonical_utc_def separators_ok_def rendered_slices rendered_slices [simplified])
qed

text \<open>A lease ends strictly after its observation, at a canonical text, whatever the duration.\<close>

lemma expires_at_later:
  assumes "expires_at t n = Inr e" and "1 \<le> n"
  shows "canonical_utc t" "canonical_utc e" "instant_of t < instant_of e"
proof -
  obtain y m d s us where i: "instant_of t = (y, m, d, s, us)" by (metis prod_cases5)
  let ?k = "nat ((s + n) div 86400)"
  obtain y' m' d' where day: "(next_day ^^ ?k) (y, m, d) = (y', m', d')" by (metis prod_cases3)
  show c: "canonical_utc t"
    using assms(1) by (auto simp: expires_at_def Let_def split: if_splits)
  note t = canonical_instant [OF c i]
  have e: "e = render_instant (y', m', d') ((s + n) mod 86400) (drop 19 t)" and y': "y' \<le> 9999"
    using assms(1) c by (simp_all add: expires_at_def i day split: if_splits)
  have valid: "valid_day (y', m', d')" "(y, m, d) \<le> (y', m', d')" "0 < ?k \<Longrightarrow> (y, m, d) < (y', m', d')"
    using next_days_valid [OF t(1), of ?k] by (simp_all add: day)
  have "0 \<le> (s + n) mod 86400" "(s + n) mod 86400 < 86400" by simp_all
  note r = rendered_fields [OF valid(1) y' this, of "drop 19 t"]
  have us: "us = (if length (drop 19 t) = 8 then number_of (slice 1 6 (drop 19 t)) else 0)"
    using i t(4) by (auto simp: instant_of_def slice_def)
  show "canonical_utc e"
    unfolding e r(1) using c by (auto simp: canonical_utc_def slice_def)
  have "instant_of e = (y', m', d', (s + n) mod 86400, us)"
    by (simp add: e r(2) us)
  moreover have "(s + n) mod 86400 = s + n" "(y', m', d') = (y, m, d)" if "?k = 0"
    using that t(2,3) assms(2) day by (auto simp: not_less zdiv_eq_0_iff pos_imp_zdiv_nonneg_iff)
  ultimately show "instant_of t < instant_of e"
    using valid(3) assms(2) by (cases "?k = 0") (auto simp: i)
qed

end
