(* ===== verification/Lease_Store.thy ===== *)
theory Lease_Store
  imports Execution_Store Lease_Time
begin

text \<open>
  The operations of \<open>PostgresExecutionStore\<close> and \<open>PostgresActivityHistoryStore\<close> that only lease
  recovery and run retry call: the observation of a lease, the rotation and the abandonment of a
  claim, the locked reads of runs, and the approval history.
\<close>

section \<open>Approval history\<close>

text \<open>
  Decoding a stored plan builds it anew, so a plan that is read is one its constructor accepts; a
  stored subject is decoded by its constructor too.
\<close>

definition get_plan :: "ops_store \<Rightarrow> string \<Rightarrow> ops_exn + plan_row" where
  "get_plan s i = (case find (\<lambda>p. plan_key p = i) (db_plans s) of
     None \<Rightarrow> Inl (MissingRow ''missing activity plan'')
   | Some p \<Rightarrow> (case make_plan (activities (plan_body p)) of
         Inl e \<Rightarrow> Inl (OpsValueError ''invalid typed activity plan'')
       | Inr body \<Rightarrow> check_plan_row (p\<lparr>plan_body := body\<rparr>)))"

definition get_approval_request :: "ops_store \<Rightarrow> string \<Rightarrow> ops_exn + approval_row" where
  "get_approval_request s i = (case find (\<lambda>a. approval_key a = i) (db_approvals s) of
     None \<Rightarrow> Inl (MissingRow ''missing approval request'')
   | Some a \<Rightarrow> bindR (check_subject (approval_subject_of a)) (\<lambda>_. check_approval_row a))"

definition approval_decision_for_request :: "ops_store \<Rightarrow> string \<Rightarrow> ops_exn + decision_row option" where
  "approval_decision_for_request s i = (case find (\<lambda>d. decision_request d = i) (db_decisions s) of
     None \<Rightarrow> Inr None | Some d \<Rightarrow> bindR (check_decision_row d) (\<lambda>d. Inr (Some d)))"

definition actions_for_session :: "ops_store \<Rightarrow> string \<Rightarrow> ops_exn + operation_action list" where
  "actions_for_session s i = mapR check_action
     (sort_key action_ordinal (filter (\<lambda>a. action_session a = i) (db_actions s)))"

section \<open>Guards of the recovery operations\<close>

definition recovery_request_id :: "string \<Rightarrow> ops_exn + unit" where
  "recovery_request_id i = requireR (record_text_ok i)
     (OperationsRecordError ''recovery request identity is invalid'')"

definition recovery_observed_at :: "string \<Rightarrow> ops_exn + unit" where
  "recovery_observed_at t = requireR (canonical_utc t)
     (OperationsRecordError ''recovery observation time is invalid'')"

definition recovery_fence_pair :: "lease_fence \<Rightarrow> lease_fence \<Rightarrow> ops_exn + unit" where
  "recovery_fence_pair expected replacement =
     (if lease_generation expected \<ge> max_lease_generation \<or>
         lease_generation replacement \<noteq> lease_generation expected + 1
      then Inl (OperationsRecordError ''recovery claim fence is invalid'') else Inr ())"

section \<open>Runs of a request\<close>

definition get_latest_run_for_request :: "ops_store \<Rightarrow> string \<Rightarrow> ops_exn + activity_run" where
  "get_latest_run_for_request s i = bindR (recovery_request_id i) (\<lambda>_.
     case rev (sort_key (\<lambda>r. retry_attempt (run_retry r)) (filter (\<lambda>r. run_request r = i) (db_runs s))) of
       [] \<Rightarrow> Inl (MissingRow ''missing activity run'') | r # rs \<Rightarrow> check_run r)"

definition get_run_for_request :: "ops_store \<Rightarrow> string \<Rightarrow> string \<Rightarrow> ops_exn + activity_run" where
  "get_run_for_request s i j = bindR (recovery_request_id i) (\<lambda>_.
     bindR (validate_run_id j ''run_id'') (\<lambda>_.
     case find (\<lambda>r. run_request r = i \<and> run_key r = j) (db_runs s) of
       None \<Rightarrow> Inl (MissingRow ''activity run was not found for request'') | Some r \<Rightarrow> check_run r))"

section \<open>The lease\<close>

record lease_observation =
  observed_request :: execution_request
  observed_at :: string
  observed_expired :: bool

text \<open>The request is locked first; the clock of the database is read after it, as \<open>now\<close>.\<close>

definition observe_request_lease :: "string \<Rightarrow> ops_store \<Rightarrow> string \<Rightarrow> ops_exn + lease_observation" where
  "observe_request_lease now s i = bindR (get_request s i) (\<lambda>q. case request_claim q of
     None \<Rightarrow> Inl (OperationsRecordError ''execution request does not have an active lease'')
   | Some c \<Rightarrow> Inr \<lparr>observed_request = q, observed_at = now,
       observed_expired = lease_expired (lease_expires_at c) now\<rparr>)"

text \<open>
  An \<open>UPDATE ... RETURNING\<close> of the row whose claim still carries the expected fence; \<open>None\<close> when
  there is none. \<open>lease_end\<close> is the interval arithmetic of the database.
\<close>

definition claim_carries :: "string \<Rightarrow> lease_fence \<Rightarrow> execution_request \<Rightarrow> bool" where
  "claim_carries i f q \<longleftrightarrow> request_key_of q = i \<and> request_state q = RequestClaimed \<and>
     (case request_claim q of None \<Rightarrow> False
      | Some c \<Rightarrow> claim_worker c = lease_worker f \<and> claim_generation c = lease_generation f)"

definition rotate_request_claim :: "(string \<Rightarrow> int \<Rightarrow> string) \<Rightarrow> string \<Rightarrow> lease_fence \<Rightarrow> lease_fence \<Rightarrow>
    string \<Rightarrow> int \<Rightarrow> ops_store \<Rightarrow> ops_exn + (execution_request option \<times> ops_store)" where
  "rotate_request_claim lease_end i expected replacement observed seconds s =
     bindR (recovery_request_id i) (\<lambda>_.
     bindR (recovery_fence_pair expected replacement) (\<lambda>_.
     bindR (recovery_observed_at observed) (\<lambda>_.
     if \<not> (1 \<le> seconds \<and> seconds \<le> 3600)
     then Inl (OperationsRecordError ''recovery lease duration is invalid'')
     else (case find (claim_carries i expected) (db_requests s) of
         None \<Rightarrow> Inr (None, s)
       | Some q \<Rightarrow>
           bindR (check_request (q\<lparr>request_claim := Some \<lparr>claim_worker = lease_worker replacement,
               claim_generation = lease_generation replacement, claimed_at = observed,
               lease_expires_at = lease_end observed seconds\<rparr>\<rparr>)) (\<lambda>updated.
             Inr (Some updated, put_request updated s))))))"

definition abandon_request_claim :: "string \<Rightarrow> lease_fence \<Rightarrow> string \<Rightarrow> ops_store \<Rightarrow>
    ops_exn + (execution_request option \<times> ops_store)" where
  "abandon_request_claim i expected observed s =
     bindR (recovery_request_id i) (\<lambda>_.
     bindR (recovery_observed_at observed) (\<lambda>_.
     case find (\<lambda>q. claim_carries i expected q \<and>
         (case request_claim q of None \<Rightarrow> False | Some c \<Rightarrow> lease_expired (lease_expires_at c) observed))
         (db_requests s) of
       None \<Rightarrow> Inr (None, s)
     | Some q \<Rightarrow>
         bindR (check_request (q\<lparr>request_state := RequestAbandoned, request_claim := None\<rparr>)) (\<lambda>updated.
           Inr (Some updated, put_request updated s))))"

end
