(* ===== verification/Lease_Recovery.thy ===== *)
theory Lease_Recovery
  imports Run_Lifecycle Lease_Store
begin

text \<open>
  Execution-lease recovery: the commands and results of \<open>operations/execution_lease_recovery.py\<close>
  and the approval and journal laws of \<open>operations/_execution_lease_recovery_support.py\<close> that
  need no replayed retry.
\<close>

section \<open>Commands\<close>

definition bounded_command_text :: "string \<Rightarrow> string \<Rightarrow> ops_exn + unit" where
  "bounded_command_text v label = requireR (record_text_ok v) (InvalidOperationCommand (label @ '' is invalid''))"

record recovery_authority =
  recovery_actor :: string
  authority_reference :: string
  recovery_scopes :: "recovery_scope list"

definition make_recovery_authority :: "string \<Rightarrow> string \<Rightarrow> recovery_scope list \<Rightarrow>
    ops_exn + recovery_authority" where
  "make_recovery_authority actor reference scopes =
     bindR (bounded_command_text actor ''actor_id'') (\<lambda>_.
     bindR (bounded_command_text reference ''authority_reference'') (\<lambda>_.
       Inr \<lparr>recovery_actor = actor, authority_reference = reference,
         recovery_scopes = sort_key recovery_scope_value (remdups scopes)\<rparr>))"

record lease_target =
  target_request :: string
  target_run :: run_id
  target_fence :: lease_fence
  target_authority :: recovery_authority
  target_key :: string

datatype lease_command =
    RenewActiveClaim (lease_target_of: lease_target) (lease_seconds: int)
  | RenewExpiredClaim (lease_target_of: lease_target) (lease_seconds: int)
  | TakeOverClaim (lease_target_of: lease_target) (next_worker: string) (lease_seconds: int)
  | AbandonClaim (lease_target_of: lease_target)

definition check_lease_command :: "lease_command \<Rightarrow> ops_exn + lease_command" where
  "check_lease_command c =
     bindR (bounded_command_text (target_request (lease_target_of c)) ''request_id'') (\<lambda>_.
       case c of
         TakeOverClaim t w n \<Rightarrow>
           bindR (bounded_command_text w ''next_worker_id'') (\<lambda>_.
             if w = lease_worker (target_fence t)
             then Inl (InvalidOperationCommand ''takeover worker must differ from prior worker'')
             else Inr c)
       | _ \<Rightarrow> Inr c)"

fun lease_decision_kind :: "lease_command \<Rightarrow> recovery_choice" where
  "lease_decision_kind (RenewActiveClaim t n) = ChooseRenewActiveClaim"
| "lease_decision_kind (RenewExpiredClaim t n) = ChooseRenewExpiredClaim"
| "lease_decision_kind (TakeOverClaim t w n) = ChooseTakeOverExpiredClaim"
| "lease_decision_kind (AbandonClaim t) = ChooseAbandonExpiredClaim"

fun lease_duration_of :: "lease_command \<Rightarrow> int option" where
  "lease_duration_of (RenewActiveClaim t n) = Some n"
| "lease_duration_of (RenewExpiredClaim t n) = Some n"
| "lease_duration_of (TakeOverClaim t w n) = Some n"
| "lease_duration_of (AbandonClaim t) = None"

definition duration_entry :: "int option \<Rightarrow> descriptor" where
  "duration_entry v = (case v of None \<Rightarrow> [] | Some n \<Rightarrow> [(''lease_duration_seconds'', PInt n)])"

fun next_worker_entry :: "lease_command \<Rightarrow> descriptor" where
  "next_worker_entry (TakeOverClaim t w n) = [(''next_worker_id'', PStr w)]"
| "next_worker_entry c = []"

definition lease_command_descriptor :: "lease_command \<Rightarrow> descriptor" where
  "lease_command_descriptor c = (let t = lease_target_of c in
     [(''command'', PStr (recovery_choice_value (lease_decision_kind c))),
      (''request_id'', PStr (target_request t)),
      (''retained_run_id'', PStr (run_id_value (target_run t))),
      (''expected_fence'', PDict (lease_fence_descriptor (target_fence t))),
      (''actor_id'', PStr (recovery_actor (target_authority t))),
      (''idempotency_key'', PStr (target_key t))] @
     duration_entry (lease_duration_of c) @ next_worker_entry c)"

definition lease_command_intent :: "lease_command \<Rightarrow> descriptor" where
  "lease_command_intent c = (let t = lease_target_of c in
     [(''command'', PStr (recovery_choice_value (lease_decision_kind c))),
      (''request_id'', PStr (target_request t)),
      (''retained_run_id'', PStr (run_id_value (target_run t))),
      (''expected_fence'', PDict (lease_fence_descriptor (target_fence t))),
      (''actor_id'', PStr (recovery_actor (target_authority t))),
      (''authority_reference'', PStr (authority_reference (target_authority t)))] @
     duration_entry (lease_duration_of c) @ next_worker_entry c)"

definition lease_fingerprint :: "lifecycle_env \<Rightarrow> lease_command \<Rightarrow> string" where
  "lease_fingerprint env c = env_digest env (json_text (PDict (lease_command_intent c)))"

fun replacement_of :: "lease_command \<Rightarrow> ops_exn + lease_fence option" where
  "replacement_of (AbandonClaim t) = Inr None"
| "replacement_of c = bindR (check_lease_fence
     \<lparr>lease_worker = (case c of TakeOverClaim t w n \<Rightarrow> w | _ \<Rightarrow> lease_worker (target_fence (lease_target_of c))),
      lease_generation = lease_generation (target_fence (lease_target_of c)) + 1\<rparr>) (\<lambda>f. Inr (Some f))"

text \<open>The dictionaries of consequences by decision, in both modules.\<close>

fun consequence_kind :: "recovery_choice \<Rightarrow> activity_event_kind option" where
  "consequence_kind ChooseRenewActiveClaim = Some Ev_REQUEST_CLAIM_RENEWED"
| "consequence_kind ChooseRenewExpiredClaim = Some Ev_REQUEST_CLAIM_RENEWED"
| "consequence_kind ChooseTakeOverExpiredClaim = Some Ev_REQUEST_CLAIM_TAKEN_OVER"
| "consequence_kind ChooseAbandonExpiredClaim = Some Ev_REQUEST_CLAIM_ABANDONED"
| "consequence_kind k = None"

section \<open>Comparing payloads\<close>

text \<open>
  Equality of Python values that hold no floats: dictionaries are compared by their keys, and \<open>True\<close>
  and \<open>False\<close> equal \<open>1\<close> and \<open>0\<close>.
\<close>

fun truth_as_int :: "py \<Rightarrow> py"
  and truth_items :: "py list \<Rightarrow> py list"
  and truth_entries :: "(string \<times> py) list \<Rightarrow> (string \<times> py) list" where
  "truth_as_int (PBool b) = PInt (if b then 1 else 0)"
| "truth_as_int (PList xs) = PList (truth_items xs)"
| "truth_as_int (PDict d) = PDict (truth_entries d)"
| "truth_as_int v = v"
| "truth_items [] = []"
| "truth_items (x # xs) = truth_as_int x # truth_items xs"
| "truth_entries [] = []"
| "truth_entries ((k, v) # d) = (k, truth_as_int v) # truth_entries d"

definition same_dict :: "descriptor \<Rightarrow> descriptor \<Rightarrow> bool" where
  "same_dict d e \<longleftrightarrow> canonical_py (truth_as_int (PDict d)) = canonical_py (truth_as_int (PDict e))"

section \<open>Results\<close>

record lease_result =
  lease_request :: execution_request
  lease_run :: activity_run
  lease_decision :: activity_event
  lease_consequence :: activity_event
  lease_action :: operation_action
  lease_replayed :: bool

definition valid_idempotency_text :: "string option \<Rightarrow> bool" where
  "valid_idempotency_text v \<longleftrightarrow> (case v of None \<Rightarrow> False
     | Some k \<Rightarrow> 1 \<le> length k \<and> length k \<le> 200 \<and> \<not> list_ex control_char k)"

definition valid_fingerprint :: "string option \<Rightarrow> bool" where
  "valid_fingerprint v \<longleftrightarrow> (case v of None \<Rightarrow> False | Some t \<Rightarrow> hex_digest t)"

definition validate_lease_lineage :: "lease_result \<Rightarrow> ops_exn + unit" where
  "validate_lease_lineage v =
     (if run_request (lease_run v) \<noteq> request_key_of (lease_request v) \<or>
         run_plan (lease_run v) \<noteq> ident_plan (request_ident (lease_request v)) \<or>
         row_run (lease_decision v) \<noteq> run_key (lease_run v) \<or>
         row_run (lease_consequence v) \<noteq> run_key (lease_run v)
      then Inl (OperationsRecordError ''recovery result lineage is incongruent'')
      else if row_event (lease_decision v) = row_event (lease_consequence v) \<or>
         row_ordinal (lease_consequence v) \<noteq> row_ordinal (lease_decision v) + 1
      then Inl (OperationsRecordError ''recovery result event order is incongruent'')
      else requireR (occurred_at (lease_decision v) = occurred_at (lease_consequence v) \<and>
          occurred_at (lease_consequence v) = action_created (lease_action v))
        (OperationsRecordError ''recovery result observation time is incongruent''))"

definition lease_run_statuses :: "recovery_choice \<Rightarrow> bool \<Rightarrow> run_status list" where
  "lease_run_statuses k replayed =
     (if k = ChooseRenewActiveClaim
      then (if replayed
        then [RunClaimed, RunRunning, RunPaused, RunSucceeded, RunFailed, RunCompensating,
          RunCompensated, RunPartiallyFailed, RunUncompensatedFailure, RunCancelled]
        else [RunClaimed])
      else [RunFailed])"

definition lease_request_congruent :: "execution_request \<Rightarrow> lease_recovery \<Rightarrow> ops_exn + unit" where
  "lease_request_congruent q r =
     (if recovery_decision_kind r = ChooseAbandonExpiredClaim
      then requireR (request_state q = RequestAbandoned \<and> request_claim q = None)
        (OperationsRecordError ''recovery abandonment request state is incongruent'')
      else (let bad = Inl (OperationsRecordError ''recovery claimed request state is incongruent'') in
        if request_state q \<noteq> RequestClaimed then bad
        else case request_claim q of None \<Rightarrow> bad
          | Some c \<Rightarrow> bindR (claim_fence c) (\<lambda>f.
              if Some f \<noteq> replacement_fence r then bad else Inr ())))"

definition validate_lease_decision :: "lease_result \<Rightarrow> ops_exn + unit" where
  "validate_lease_decision v =
     (let d = lease_decision v; w = lease_consequence v;
          bad = Inl (OperationsRecordError ''recovery decision event is incongruent'') in
      case row_recovery d of None \<Rightarrow> bad
      | Some r \<Rightarrow>
        if row_kind d \<noteq> Ev_RECOVERY_DECISION_RECORDED \<or>
           run_id_value (retained_run r) \<noteq> run_key (lease_run v) \<or>
           row_failure d \<noteq> None \<or> row_evidence d \<noteq> no_evidence
        then bad
        else if consequence_kind (recovery_decision_kind r) = None
        then Inl (OperationsRecordError ''recovery result decision kind is invalid'')
        else if consequence_kind (recovery_decision_kind r) \<noteq> Some (row_kind w) \<or>
           row_failure w \<noteq> None \<or> row_evidence w \<noteq> no_evidence \<or> row_recovery w \<noteq> None
        then Inl (OperationsRecordError ''recovery consequence event is incongruent'')
        else if run_state (lease_run v) \<notin> set (lease_run_statuses (recovery_decision_kind r) (lease_replayed v))
        then Inl (OperationsRecordError ''recovery retained run status is incongruent'')
        else lease_request_congruent (lease_request v) r)"

definition lease_payload :: "execution_request \<Rightarrow> activity_run \<Rightarrow> activity_event \<Rightarrow> activity_event \<Rightarrow>
    lease_recovery \<Rightarrow> int option \<Rightarrow> descriptor" where
  "lease_payload q r d w recovery seconds =
     [(''execution_request_id'', PStr (request_key_of q)),
      (''plan_id'', PStr (ident_plan (request_ident q))),
      (''retained_run_id'', PStr (run_key r)),
      (''decision_event_id'', PStr (row_event d)),
      (''decision_event_kind'', PStr (activity_event_kind_value (row_kind d))),
      (''decision_event_ordinal'', PInt (row_ordinal d)),
      (''consequence_event_id'', PStr (row_event w)),
      (''consequence_event_kind'', PStr (activity_event_kind_value (row_kind w))),
      (''consequence_event_ordinal'', PInt (row_ordinal w)),
      (''recovery'', PDict (lease_recovery_descriptor recovery))] @ duration_entry seconds"

definition payload_duration :: "descriptor \<Rightarrow> ops_exn + int" where
  "payload_duration p = (let bad = Inl (OperationsRecordError ''recovery action duration is invalid'') in
     case map_of p ''lease_duration_seconds'' of
       Some (PInt n) \<Rightarrow> if 1 \<le> n \<and> n \<le> 3600 then Inr n else bad
     | _ \<Rightarrow> bad)"

text \<open>\<open>_validate_result_decision\<close> has made sure of the recovery evidence before.\<close>

definition validate_lease_action :: "lease_result \<Rightarrow> ops_exn + unit" where
  "validate_lease_action v =
     (let a = lease_action v in
      if action_type a \<noteq> LifecycleAction OpRecordRecoveryDecision \<or>
         action_session a \<noteq> ident_session (request_ident (lease_request v)) \<or>
         \<not> valid_idempotency_text (action_key a) \<or> \<not> valid_fingerprint (action_intent a)
      then Inl (OperationsRecordError ''recovery action identity is incongruent'')
      else case row_recovery (lease_decision v) of
        None \<Rightarrow> Inl (OperationsRecordError ''recovery decision event is incongruent'')
      | Some r \<Rightarrow>
          bindR (if recovery_decision_kind r = ChooseAbandonExpiredClaim then Inr None
            else bindR (payload_duration (action_payload a)) (\<lambda>n. Inr (Some n))) (\<lambda>seconds.
          requireR (same_dict (action_payload a)
              (lease_payload (lease_request v) (lease_run v) (lease_decision v) (lease_consequence v) r seconds))
            (OperationsRecordError ''recovery action payload is incongruent'')))"

definition check_lease_result :: "lease_result \<Rightarrow> ops_exn + lease_result" where
  "check_lease_result v =
     bindR (validate_lease_lineage v) (\<lambda>_.
     bindR (validate_lease_decision v) (\<lambda>_.
     bindR (validate_lease_action v) (\<lambda>_. Inr v)))"

definition row_descriptor :: "activity_event \<Rightarrow> descriptor" where
  "row_descriptor v = [(''event_id'', PStr (row_event v)),
     (''kind'', PStr (activity_event_kind_value (row_kind v))), (''ordinal'', PInt (row_ordinal v))]"

definition lease_result_descriptor :: "lease_result \<Rightarrow> lease_recovery \<Rightarrow> descriptor" where
  "lease_result_descriptor v r =
     [(''decision'', PStr (recovery_choice_value (recovery_decision_kind r))),
      (''request_id'', PStr (request_key_of (lease_request v))),
      (''plan_id'', PStr (ident_plan (request_ident (lease_request v)))),
      (''retained_run_id'', PStr (run_key (lease_run v))),
      (''decision_event'', PDict (row_descriptor (lease_decision v))),
      (''consequence_event'', PDict (row_descriptor (lease_consequence v))),
      (''action_id'', PStr (action_id (lease_action v))),
      (''action_kind'', PStr (action_kind_value (action_type (lease_action v)))),
      (''recovery'', PDict (lease_recovery_descriptor r)),
      (''replayed'', PBool (lease_replayed v))]"

end
