(* ===== verification/Run_Retry.thy ===== *)
theory Run_Retry
  imports Lease_Recovery
begin

text \<open>
  The linked retry of a failed run: the command and the result of
  \<open>operations/activity_run_retry.py\<close>.
\<close>

section \<open>The command\<close>

text \<open>\<open>RetryFailedActivityRun\<close> has the fields of the target of a lease command.\<close>

definition check_retry_command :: "lease_target \<Rightarrow> ops_exn + lease_target" where
  "check_retry_command t = bindR (bounded_command_text (target_request t) ''request_id'') (\<lambda>_. Inr t)"

definition retry_intent :: "lease_target \<Rightarrow> descriptor" where
  "retry_intent t =
     [(''command'', PStr (recovery_choice_value ChooseRetryAsNewRun)),
      (''request_id'', PStr (target_request t)),
      (''prior_run_id'', PStr (run_id_value (target_run t))),
      (''expected_fence'', PDict (lease_fence_descriptor (target_fence t))),
      (''actor_id'', PStr (recovery_actor (target_authority t))),
      (''authority_reference'', PStr (authority_reference (target_authority t)))]"

definition retry_fingerprint :: "lifecycle_env \<Rightarrow> lease_target \<Rightarrow> string" where
  "retry_fingerprint env t = env_digest env (json_text (PDict (retry_intent t)))"

section \<open>The result\<close>

record retry_result =
  retry_request :: execution_request
  retry_prior :: activity_run
  retry_run :: activity_run
  retry_decision :: activity_event
  retry_opened :: activity_event
  retry_action :: operation_action
  retry_replayed :: bool

definition retry_metadata :: "activity_run \<Rightarrow> descriptor" where
  "retry_metadata r = [(''attempt'', PInt (retry_attempt (run_retry r)))] @
     (case prior_run (run_retry r) of None \<Rightarrow> [] | Some p \<Rightarrow> [(''prior_run_id'', PStr p)])"

definition validate_run_retry_lineage :: "retry_result \<Rightarrow> ops_exn + unit" where
  "validate_run_retry_lineage v =
     (let q = retry_request v; p = retry_prior v; r = retry_run v in
      if request_state q \<noteq> RequestClaimed \<or> request_claim q = None \<or> run_state p \<noteq> RunFailed \<or>
         run_started p = None \<or> run_settled p \<noteq> None \<or> run_request p \<noteq> request_key_of q \<or>
         run_plan p \<noteq> ident_plan (request_ident q) \<or> run_key r = run_key p \<or>
         run_request r \<noteq> request_key_of q \<or> run_plan r \<noteq> ident_plan (request_ident q) \<or>
         prior_run (run_retry r) \<noteq> Some (run_key p) \<or>
         retry_attempt (run_retry r) \<noteq> retry_attempt (run_retry p) + 1 \<or>
         \<not> same_dict (evidence_value (run_metadata p)) (retry_metadata p) \<or>
         \<not> same_dict (evidence_value (run_metadata r)) (retry_metadata r)
      then Inl (OperationsRecordError ''activity run retry lineage is incongruent'')
      else if retry_replayed v
      then requireR (run_state r \<in> set run_statuses)
        (OperationsRecordError ''activity run retry replay status is invalid'')
      else requireR (run_state r = RunClaimed)
        (OperationsRecordError ''activity run retry direct status is invalid''))"

text \<open>
  \<open>_validate_result_lineage\<close> has made sure of the claim. The evidence expected of the opening
  event is built first; building it may raise.
\<close>

definition validate_retry_events :: "retry_result \<Rightarrow> ops_exn + unit" where
  "validate_retry_events v =
     (let d = retry_decision v; w = retry_opened v;
          bad = Inl (OperationsRecordError ''activity run retry events are incongruent'') in
      bindR (make_evidence (retry_metadata (retry_run v))) (\<lambda>expected.
      case (row_recovery d, request_claim (retry_request v)) of
        (Some r, Some c) \<Rightarrow>
          if row_kind d \<noteq> Ev_RECOVERY_DECISION_RECORDED \<or>
             recovery_decision_kind r \<noteq> ChooseRetryAsNewRun \<or> row_run d \<noteq> run_key (retry_prior v) \<or>
             run_id_value (retained_run r) \<noteq> run_key (retry_prior v) \<or>
             replacement_fence r \<noteq> Some (prior_fence r)
          then bad
          else bindR (claim_fence c) (\<lambda>f.
            if f \<noteq> prior_fence r \<or> row_kind w \<noteq> Ev_RUN_OPENED \<or> row_run w \<noteq> run_key (retry_run v) \<or>
               row_ordinal w \<noteq> 1 \<or> row_evidence w \<noteq> expected \<or> row_failure w \<noteq> None \<or>
               row_event d = row_event w \<or>
               \<not> (run_created (retry_run v) = occurred_at d \<and> occurred_at d = occurred_at w \<and>
                  occurred_at w = action_created (retry_action v))
            then bad else Inr ())
      | _ \<Rightarrow> bad))"

definition retry_payload :: "execution_request \<Rightarrow> activity_run \<Rightarrow> activity_run \<Rightarrow> activity_event \<Rightarrow>
    activity_event \<Rightarrow> lease_recovery \<Rightarrow> descriptor" where
  "retry_payload q p r d w recovery =
     [(''execution_request_id'', PStr (request_key_of q)),
      (''plan_id'', PStr (ident_plan (request_ident q))),
      (''prior_run_id'', PStr (run_key p)),
      (''run_id'', PStr (run_key r)),
      (''prior_attempt'', PInt (retry_attempt (run_retry p))),
      (''attempt'', PInt (retry_attempt (run_retry r))),
      (''decision_event_id'', PStr (row_event d)),
      (''decision_event_kind'', PStr (activity_event_kind_value (row_kind d))),
      (''decision_event_ordinal'', PInt (row_ordinal d)),
      (''opened_event_id'', PStr (row_event w)),
      (''opened_event_kind'', PStr (activity_event_kind_value (row_kind w))),
      (''opened_event_ordinal'', PInt (row_ordinal w)),
      (''recovery'', PDict (lease_recovery_descriptor recovery))]"

definition validate_retry_action :: "retry_result \<Rightarrow> ops_exn + unit" where
  "validate_retry_action v =
     (let a = retry_action v in
      if action_type a \<noteq> LifecycleAction OpRecordRecoveryDecision \<or>
         action_session a \<noteq> ident_session (request_ident (retry_request v)) \<or>
         \<not> valid_idempotency_text (action_key a) \<or> \<not> valid_fingerprint (action_intent a)
      then Inl (OperationsRecordError ''activity run retry action is incongruent'')
      else case row_recovery (retry_decision v) of
        None \<Rightarrow> Inl (OperationsRecordError ''activity run retry events are incongruent'')
      | Some r \<Rightarrow> requireR (same_dict (action_payload a)
            (retry_payload (retry_request v) (retry_prior v) (retry_run v) (retry_decision v) (retry_opened v) r))
          (OperationsRecordError ''activity run retry action payload is incongruent''))"

definition check_retry_result :: "retry_result \<Rightarrow> ops_exn + retry_result" where
  "check_retry_result v =
     bindR (validate_run_retry_lineage v) (\<lambda>_.
     bindR (validate_retry_events v) (\<lambda>_.
     bindR (validate_retry_action v) (\<lambda>_. Inr v)))"

definition retry_result_descriptor :: "retry_result \<Rightarrow> lease_recovery \<Rightarrow> descriptor" where
  "retry_result_descriptor v r =
     [(''decision'', PStr (recovery_choice_value (recovery_decision_kind r))),
      (''request_id'', PStr (request_key_of (retry_request v))),
      (''plan_id'', PStr (ident_plan (request_ident (retry_request v)))),
      (''prior_run_id'', PStr (run_key (retry_prior v))),
      (''run_id'', PStr (run_key (retry_run v))),
      (''prior_attempt'', PInt (retry_attempt (run_retry (retry_prior v)))),
      (''attempt'', PInt (retry_attempt (run_retry (retry_run v)))),
      (''decision_event'', PDict (row_descriptor (retry_decision v))),
      (''opened_event'', PDict (row_descriptor (retry_opened v))),
      (''action_id'', PStr (action_id (retry_action v))),
      (''action_kind'', PStr (action_kind_value (action_type (retry_action v)))),
      (''recovery'', PDict (lease_recovery_descriptor r)),
      (''replayed'', PBool (retry_replayed v))]"

end
