(* ===== verification/Lease_Support.thy ===== *)
theory Lease_Support
  imports Run_Retry
begin

text \<open>
  The approval and journal laws that lease recovery and run retry share:
  \<open>operations/_execution_lease_recovery_support.py\<close>, and the readers of both interpreters, which turn
  the errors of a store into exceptions of the service.
\<close>

section \<open>Errors of the stores\<close>

text \<open>\<open>except (OperationsRecordError, ValueError)\<close>.\<close>

definition invalid_as :: "ops_exn \<Rightarrow> ops_exn + 'a \<Rightarrow> ops_exn + 'a" where
  "invalid_as e r = (case r of Inl (OperationsRecordError m) \<Rightarrow> Inl e
     | Inl (InvalidExecutionLeaseFence m) \<Rightarrow> Inl e | Inl (OpsValueError m) \<Rightarrow> Inl e | _ \<Rightarrow> r)"

definition reading :: "string \<Rightarrow> string \<Rightarrow> ops_exn + 'a \<Rightarrow> ops_exn + 'a" where
  "reading missing invalid r =
     invalid_as (RunLifecycleConflict invalid) (missing_as (RunLifecycleNotFound missing) r)"

definition read_request :: "ops_store \<Rightarrow> string \<Rightarrow> ops_exn + execution_request" where
  "read_request s i = reading ''execution request was not found'' ''execution request history is invalid''
     (get_request s i)"

definition read_latest_run :: "ops_store \<Rightarrow> string \<Rightarrow> ops_exn + activity_run" where
  "read_latest_run s i = reading ''activity run was not found'' ''activity run history is invalid''
     (get_latest_run_for_request s i)"

definition read_events :: "ops_store \<Rightarrow> string \<Rightarrow> ops_exn + activity_event list" where
  "read_events s i = invalid_as (RunLifecycleConflict ''activity event history is invalid'')
     (events_for_run s i)"

definition read_open_session :: "ops_store \<Rightarrow> string \<Rightarrow> ops_exn + operation_session" where
  "read_open_session s i =
     bindR (reading ''operation session was not found'' ''operation session history is invalid''
       (get_session s i)) (\<lambda>w.
       if session_state w \<noteq> SessionOpen
       then Inl (RunLifecycleConflict ''operation session is not open'') else Inr w)"

section \<open>The approval\<close>

definition approval_changed :: "execution_request \<Rightarrow> approval_row \<Rightarrow> decision_row \<Rightarrow> plan_row \<Rightarrow> bool" where
  "approval_changed q a d p \<longleftrightarrow>
     approval_key a \<noteq> approval_request q \<or> approval_session a \<noteq> ident_session (request_ident q) \<or>
     decision_key d \<noteq> approval_decision q \<or> decision_request d \<noteq> approval_key a \<or>
     decision_answer d \<noteq> AnswerApproved \<or> decision_scope d \<noteq> required_scope a \<or>
     plan_key p \<noteq> ident_plan (request_ident q) \<or> plan_session p \<noteq> ident_session (request_ident q)"

definition locked_recovery_approval :: "ops_store \<Rightarrow> execution_request \<Rightarrow> ops_exn + plan_row" where
  "locked_recovery_approval s q =
     bindR (reading ''recovery approval history was not found'' ''recovery approval history is invalid''
       (bindR (get_approval_request s (approval_request q)) (\<lambda>a.
        bindR (approval_decision_for_request s (approval_key a)) (\<lambda>d.
        bindR (get_plan s (ident_plan (request_ident q))) (\<lambda>p. Inr (a, d, p)))))) (\<lambda>(a, decision, p).
     case decision of
       None \<Rightarrow> Inl (RunLifecycleNotFound ''recovery approval decision was not found'')
     | Some d \<Rightarrow>
         if approval_changed q a d p
         then Inl (RunLifecycleConflict ''recovery approval history changed'')
         else (case approval_subject_of a of
           PlanSubject i \<Rightarrow>
             if i \<noteq> plan_key p then Inl (RunLifecycleConflict ''recovery plan approval changed'') else Inr p
         | RotationSubject r \<Rightarrow> Inr p))"

section \<open>The journal without recovery pairs\<close>

definition recovery_event_kinds :: "activity_event_kind list" where
  "recovery_event_kinds = [Ev_RECOVERY_DECISION_RECORDED, Ev_REQUEST_CLAIM_RENEWED,
     Ev_REQUEST_CLAIM_TAKEN_OVER, Ev_REQUEST_CLAIM_ABANDONED]"

text \<open>
  The state of the scan: the replacement of the last recovery seen, if any was seen, and which run
  events were seen.
\<close>

record pair_scan =
  last_replacement :: "lease_fence option option"
  saw_opened :: bool
  saw_started :: bool
  saw_failed :: bool

definition pair_rejected :: "pair_scan \<Rightarrow> activity_event \<Rightarrow> lease_recovery \<Rightarrow> activity_event \<Rightarrow> bool" where
  "pair_rejected c d r w \<longleftrightarrow>
     recovery_decision_kind r = ChooseRetryAsNewRun \<or>
     (case last_replacement c of None \<Rightarrow> False | Some f \<Rightarrow> Some (prior_fence r) \<noteq> f) \<or>
     (recovery_decision_kind r = ChooseRenewActiveClaim \<and>
        (\<not> saw_opened c \<or> saw_started c \<or> saw_failed c)) \<or>
     (recovery_decision_kind r \<noteq> ChooseRenewActiveClaim \<and>
        (\<not> saw_opened c \<or> \<not> saw_started c \<or> \<not> saw_failed c)) \<or>
     consequence_kind (recovery_decision_kind r) \<noteq> Some (row_kind w) \<or>
     row_ordinal w \<noteq> row_ordinal d + 1 \<or> occurred_at w \<noteq> occurred_at d \<or>
     row_evidence w \<noteq> no_evidence \<or> row_failure w \<noteq> None"

definition seen :: "activity_event_kind \<Rightarrow> pair_scan \<Rightarrow> pair_scan" where
  "seen k c = c\<lparr>saw_opened := saw_opened c \<or> k = Ev_RUN_OPENED,
     saw_started := saw_started c \<or> k = Ev_RUN_STARTED, saw_failed := saw_failed c \<or> k = Ev_RUN_FAILED\<rparr>"

fun strip_pairs :: "pair_scan \<Rightarrow> activity_event list \<Rightarrow>
    (activity_event list \<times> lease_fence option option) option" where
  "strip_pairs c [] = Some ([], last_replacement c)"
| "strip_pairs c (v # vs) =
     (if row_kind v \<noteq> Ev_RECOVERY_DECISION_RECORDED
      then (if row_kind v \<in> set recovery_event_kinds then None
            else map_option (apfst (Cons v)) (strip_pairs (seen (row_kind v) c) vs))
      else (case (vs, row_recovery v) of
          (w # ws, Some r) \<Rightarrow> if pair_rejected c v r w then None
            else strip_pairs (c\<lparr>last_replacement := Some (replacement_fence r)\<rparr>) ws
        | _ \<Rightarrow> None))"

definition journal_without_recovery_pairs :: "activity_event list \<Rightarrow> lease_fence \<Rightarrow>
    activity_event list option" where
  "journal_without_recovery_pairs vs expected =
     (case strip_pairs \<lparr>last_replacement = None, saw_opened = False, saw_started = False,
         saw_failed = False\<rparr> vs of
       None \<Rightarrow> None
     | Some (base, f) \<Rightarrow> (case f of None \<Rightarrow> Some base
         | Some g \<Rightarrow> if g \<noteq> Some expected then None else Some base))"

section \<open>Eligible journals\<close>

text \<open>
  The projection of the base events. Only errors of the saga and of its journal are caught, so others
  pass as they are.
\<close>

fun saga_error :: "saga_exn \<Rightarrow> ops_exn" where
  "saga_error (SagaKeyError k) = MissingRow k"
| "saga_error (SagaStateError m) = OpsValueError m"
| "saga_error (SagaProgramError m) = OpsValueError m"

fun journal_event_error :: "py_exn \<Rightarrow> ops_exn" where
  "journal_event_error (KeyError k) = MissingRow k"
| "journal_event_error (ValueError m) = OpsValueError m"
| "journal_event_error (TypeError m) = OpsValueError m"
| "journal_event_error (RuntimeError m) = OpsValueError m"

fun projection_error :: "journal_exn \<Rightarrow> ops_exn" where
  "projection_error (SagaJournalError m) = RunLifecycleConflict ''retained run journal is invalid''"
| "projection_error (JournalSagaError (SagaStateError m)) =
     RunLifecycleConflict ''retained run journal is invalid''"
| "projection_error (JournalSagaError e) = saga_error e"

definition project_base :: "activity_plan \<Rightarrow> activity_event list \<Rightarrow> ops_exn + journal_projection" where
  "project_base p base =
     (case activity_journal_events base of
        Inl e \<Rightarrow> Inl (journal_event_error e)
      | Inr js \<Rightarrow> (case project_activity_journal p js of
          Inl e \<Rightarrow> Inl (projection_error e) | Inr r \<Rightarrow> Inr r))"

definition run_event_kinds :: "activity_event list \<Rightarrow> activity_event_kind list" where
  "run_event_kinds base = filter (\<lambda>k. journal_kind_of k = None) (map row_kind base)"

definition effect_unresolved :: "journal_projection \<Rightarrow> ops_exn + bool" where
  "effect_unresolved r =
     (case saga_status (projected_state r) of
        Inl e \<Rightarrow> Inl (saga_error e)
      | Inr st \<Rightarrow> Inr (st \<noteq> SagaFailed \<or> compensation_requested (projected_state r) \<or> in_flight r \<noteq> [] \<or>
          uncertain r \<noteq> [] \<or> compensation_in_flight r \<noteq> [] \<or> compensation_uncertain r \<noteq> []))"

definition require_recovery_eligible_journal :: "recovery_choice \<Rightarrow> lease_fence \<Rightarrow> activity_run \<Rightarrow>
    activity_plan \<Rightarrow> activity_event list \<Rightarrow> ops_exn + unit" where
  "require_recovery_eligible_journal k expected r p vs =
     (let invalid = Inl (RunLifecycleConflict ''retained run journal is invalid'') in
      if vs = [] \<or> list_ex (\<lambda>v. row_run v \<noteq> run_key r) vs \<or>
         map row_ordinal vs \<noteq> [1..int (length vs)]
      then invalid
      else case journal_without_recovery_pairs vs expected of
        None \<Rightarrow> invalid
      | Some base \<Rightarrow> bindR (project_base p base) (\<lambda>projection.
          if k = ChooseRenewActiveClaim
          then (if list_ex (\<lambda>v. journal_kind_of (row_kind v) \<noteq> None) base \<or>
                  run_event_kinds base \<noteq> [Ev_RUN_OPENED]
                then Inl (RunLifecycleConflict ''active retained run has effect history'') else Inr ())
          else if k \<noteq> ChooseRetryAsNewRun \<and> consequence_kind k = None \<or>
             run_event_kinds base \<noteq> [Ev_RUN_OPENED, Ev_RUN_STARTED, Ev_RUN_FAILED]
          then Inl (RunLifecycleConflict ''failed retained run lacks terminal evidence'')
          else bindR (effect_unresolved projection) (\<lambda>b.
            if b then Inl (RunLifecycleConflict ''retained run effect failure is unresolved'') else Inr ())))"

section \<open>The evolution of a replayed run\<close>

definition changed_evolution :: "ops_exn + 'a" where
  "changed_evolution = Inl (RunLifecycleConflict ''persisted recovery run evolution changed'')"

definition payload_entry :: "descriptor \<Rightarrow> string \<Rightarrow> string option" where
  "payload_entry p k = (case map_of p k of Some (PStr t) \<Rightarrow> Some t | _ \<Rightarrow> None)"

definition retry_action_prior_run :: "operation_action \<Rightarrow> string option" where
  "retry_action_prior_run a =
     (if action_type a \<noteq> LifecycleAction OpRecordRecoveryDecision then None
      else case map_of (action_payload a) ''recovery'' of
        Some (PDict r) \<Rightarrow>
          if map_of r ''decision'' \<noteq> Some (PStr (recovery_choice_value ChooseRetryAsNewRun)) then None
          else payload_entry r ''retained_run_id''
      | _ \<Rightarrow> None)"

text \<open>\<open>except (RunLifecycleConflict, RunLifecycleNotFound)\<close> around the readers, which raise both.\<close>

definition evolution_as :: "ops_exn + 'a \<Rightarrow> ops_exn + 'a" where
  "evolution_as r = (case r of Inl (RunLifecycleConflict m) \<Rightarrow> changed_evolution
     | Inl (RunLifecycleNotFound m) \<Rightarrow> changed_evolution | _ \<Rightarrow> r)"

definition read_evolved :: "ops_store \<Rightarrow> string \<Rightarrow> string \<Rightarrow> string \<Rightarrow> string \<Rightarrow>
    ops_exn + (activity_run \<times> activity_event \<times> activity_event)" where
  "read_evolved s i rid did oid = evolution_as
     (bindR (reading ''recovery retained run was not found'' ''recovery retained run history is invalid''
        (get_run_for_request s i rid)) (\<lambda>r.
      bindR (reading ''recovery event was not found'' ''recovery event history is invalid'' (get_event s did)) (\<lambda>d.
      bindR (reading ''recovery event was not found'' ''recovery event history is invalid'' (get_event s oid)) (\<lambda>w.
        Inr (r, d, w)))))"

text \<open>One turn of the loop; \<open>None\<close> when no retry of the current run is recorded.\<close>

definition next_evolved :: "ops_store \<Rightarrow> execution_request \<Rightarrow> operation_action list \<Rightarrow> activity_run \<Rightarrow>
    string list \<Rightarrow> ops_exn + activity_run option" where
  "next_evolved s q as current visited =
     (case filter (\<lambda>a. retry_action_prior_run a = Some (run_key current)) as of
        [] \<Rightarrow> Inr None
      | [a] \<Rightarrow>
          (case (payload_entry (action_payload a) ''run_id'', payload_entry (action_payload a) ''decision_event_id'',
              payload_entry (action_payload a) ''opened_event_id'') of
            (Some rid, Some did, Some oid) \<Rightarrow>
              if rid \<in> set visited then changed_evolution
              else bindR (read_evolved s (request_key_of q) rid did oid) (\<lambda>(r, d, w).
                case check_retry_result \<lparr>retry_request = q, retry_prior = current, retry_run = r,
                    retry_decision = d, retry_opened = w, retry_action = a, retry_replayed = True\<rparr> of
                  Inr v \<Rightarrow> Inr (Some r)
                | Inl (OperationsRecordError m) \<Rightarrow> changed_evolution
                | Inl e \<Rightarrow> Inl e)
          | _ \<Rightarrow> changed_evolution)
      | _ \<Rightarrow> changed_evolution)"

text \<open>The loop runs at most once per action of the session.\<close>

fun follow_retries :: "nat \<Rightarrow> ops_store \<Rightarrow> execution_request \<Rightarrow> operation_action list \<Rightarrow> activity_run \<Rightarrow>
    string list \<Rightarrow> ops_exn + activity_run" where
  "follow_retries 0 s q as current visited = Inr current"
| "follow_retries (Suc n) s q as current visited =
     bindR (next_evolved s q as current visited) (\<lambda>found. case found of
       None \<Rightarrow> Inr current
     | Some r \<Rightarrow> follow_retries n s q as r (run_key r # visited))"

definition require_replay_run_evolution :: "ops_store \<Rightarrow> execution_request \<Rightarrow> activity_run \<Rightarrow> ops_exn + unit"
  where
  "require_replay_run_evolution s q retained =
     bindR (invalid_as (RunLifecycleConflict ''persisted recovery run evolution changed'')
       (actions_for_session s (ident_session (request_ident q)))) (\<lambda>as.
     bindR (follow_retries (length as) s q as retained [run_key retained]) (\<lambda>current.
     bindR (read_latest_run s (request_key_of q)) (\<lambda>latest.
       if current \<noteq> latest then changed_evolution else Inr ())))"

end
