(* ===== verification/Lease_Service.thy ===== *)
theory Lease_Service
  imports Lease_Support
begin

text \<open>
  The interpreter of \<open>operations/execution_lease_recovery_interpreter.py\<close>: one admitted recovery
  command as one transaction. It reads everything first, plans the whole result, and then writes the
  claim, both events and the action.
\<close>

section \<open>Guards\<close>

fun required_recovery_scope :: "recovery_choice \<Rightarrow> recovery_scope option" where
  "required_recovery_scope ChooseRenewActiveClaim = Some AuthorityRenewClaim"
| "required_recovery_scope ChooseRenewExpiredClaim = Some AuthorityRenewClaim"
| "required_recovery_scope ChooseTakeOverExpiredClaim = Some AuthorityTakeOverClaim"
| "required_recovery_scope ChooseAbandonExpiredClaim = Some AuthorityAbandonClaim"
| "required_recovery_scope k = None"

definition require_recovery_scope :: "lease_command \<Rightarrow> ops_exn + unit" where
  "require_recovery_scope c = requireR
     (case required_recovery_scope (lease_decision_kind c) of None \<Rightarrow> False
      | Some sc \<Rightarrow> sc \<in> set (recovery_scopes (target_authority (lease_target_of c))))
     (RunLifecycleDenied ''required recovery scope is missing'')"

definition require_locked_identity :: "lease_target \<Rightarrow> execution_request \<Rightarrow> execution_request \<Rightarrow>
    activity_run \<Rightarrow> string \<Rightarrow> ops_exn + unit" where
  "require_locked_identity t locator q r sid =
     (if request_ident locator \<noteq> request_ident q \<or> ident_session (request_ident q) \<noteq> sid \<or>
         run_request r \<noteq> request_key_of q \<or> run_plan r \<noteq> ident_plan (request_ident q) \<or>
         run_key r \<noteq> run_id_value (target_run t)
      then Inl (RunLifecycleConflict ''recovery target identity changed'') else Inr ())"

definition require_lease_state :: "lease_command \<Rightarrow> execution_request \<Rightarrow> activity_run \<Rightarrow> ops_exn + unit" where
  "require_lease_state c q r =
     (let unclaimed = Inl (RunLifecycleConflict ''execution request is not claimed'');
          expected = (case c of RenewActiveClaim t n \<Rightarrow> RunClaimed | _ \<Rightarrow> RunFailed) in
      if request_state q \<noteq> RequestClaimed then unclaimed
      else case request_claim q of None \<Rightarrow> unclaimed
      | Some cl \<Rightarrow> bindR (claim_fence cl) (\<lambda>f.
          if f \<noteq> target_fence (lease_target_of c)
          then Inl (RunLifecycleConflict ''execution claim fence changed'')
          else if lease_generation f \<ge> max_lease_generation
          then Inl (RunLifecycleConflict ''execution claim generation is exhausted'')
          else if run_state r \<noteq> expected
          then Inl (RunLifecycleConflict ''retained run status rejects recovery'')
          else if expected = RunFailed \<and> (run_started r = None \<or> run_settled r \<noteq> None)
          then Inl (RunLifecycleConflict ''failed retained run is not recoverable'')
          else Inr ()))"

definition require_expiry :: "lease_command \<Rightarrow> bool \<Rightarrow> ops_exn + unit" where
  "require_expiry c expired = (case c of
     RenewActiveClaim t n \<Rightarrow>
       if expired then Inl (RunLifecycleConflict ''active execution claim has expired'') else Inr ()
   | _ \<Rightarrow> if \<not> expired then Inl (RunLifecycleConflict ''expired execution claim remains active'') else Inr ())"

section \<open>The planned result\<close>

definition planned_request :: "execution_request \<Rightarrow> lease_command \<Rightarrow> lease_fence option \<Rightarrow> string \<Rightarrow>
    ops_exn + execution_request" where
  "planned_request q c replacement observed =
     (case (replacement, lease_duration_of c) of
        (Some f, Some n) \<Rightarrow>
          bindR (expires_at observed n) (\<lambda>lease_end.
          bindR (check_claim \<lparr>claim_worker = lease_worker f, claim_generation = lease_generation f,
              claimed_at = observed, lease_expires_at = lease_end\<rparr>) (\<lambda>cl.
            check_request (q\<lparr>request_claim := Some cl\<rparr>)))
      | _ \<Rightarrow> check_request (q\<lparr>request_state := RequestAbandoned, request_claim := None\<rparr>))"

definition recovery_event :: "string \<Rightarrow> string \<Rightarrow> int \<Rightarrow> string \<Rightarrow> lease_recovery \<Rightarrow> activity_event" where
  "recovery_event i rid n now r = \<lparr>row_event = i, row_run = rid, row_ordinal = n,
     row_kind = Ev_RECOVERY_DECISION_RECORDED, occurred_at = now, row_activity = None,
     row_evidence = no_evidence, row_failure = None, row_recovery = Some r\<rparr>"

definition plain_event :: "string \<Rightarrow> string \<Rightarrow> int \<Rightarrow> activity_event_kind \<Rightarrow> string \<Rightarrow> bounded_evidence \<Rightarrow>
    activity_event" where
  "plain_event i rid n k now evidence = \<lparr>row_event = i, row_run = rid, row_ordinal = n, row_kind = k,
     occurred_at = now, row_activity = None, row_evidence = evidence, row_failure = None,
     row_recovery = None\<rparr>"

definition recovery_action :: "string \<Rightarrow> string \<Rightarrow> int \<Rightarrow> string \<Rightarrow> descriptor \<Rightarrow> string \<Rightarrow> string \<Rightarrow> string \<Rightarrow>
    operation_action" where
  "recovery_action i sid n actor payload now key fp = \<lparr>action_id = i, action_session = sid,
     action_ordinal = n, action_type = LifecycleAction OpRecordRecoveryDecision, action_actor = actor,
     action_payload = payload, action_created = now, action_key = Some key, action_intent = Some fp\<rparr>"

text \<open>\<open>_result\<close>: an incongruent result is a conflict.\<close>

definition lease_result_as :: "lease_result \<Rightarrow> ops_exn + lease_result" where
  "lease_result_as v = (case check_lease_result v of
     Inl (OperationsRecordError m) \<Rightarrow> Inl (RunLifecycleConflict ''persisted recovery history is incongruent'')
   | x \<Rightarrow> x)"

definition plan_lease_result :: "lifecycle_env \<Rightarrow> lease_command \<Rightarrow> execution_request \<Rightarrow> activity_run \<Rightarrow>
    string \<Rightarrow> int \<Rightarrow> int \<Rightarrow> ops_exn + lease_result" where
  "plan_lease_result env c q r now n m =
     (let t = lease_target_of c in
      bindR (replacement_of c) (\<lambda>replacement.
      bindR (planned_request q c replacement now) (\<lambda>q'.
      bindR (check_lease_recovery \<lparr>recovery_decision_kind = lease_decision_kind c,
          retained_run = target_run t, prior_fence = target_fence t,
          replacement_fence = replacement\<rparr>) (\<lambda>recovery.
      bindR (check_row (recovery_event (env_ids env 0) (run_key r) n now recovery)) (\<lambda>d.
      bindR (check_row (plain_event (env_ids env 1) (run_key r) (n + 1)
          (the (consequence_kind (lease_decision_kind c))) now no_evidence)) (\<lambda>w.
      bindR (check_action (recovery_action (env_ids env 2) (ident_session (request_ident q)) m
          (recovery_actor (target_authority t)) (lease_payload q' r d w recovery (lease_duration_of c))
          now (target_key t) (lease_fingerprint env c))) (\<lambda>a.
        lease_result_as \<lparr>lease_request = q', lease_run = r, lease_decision = d, lease_consequence = w,
          lease_action = a, lease_replayed = False\<rparr>)))))))"

section \<open>Writing\<close>

definition persist_claim :: "lifecycle_env \<Rightarrow> lease_command \<Rightarrow> lease_result \<Rightarrow> ops_store \<Rightarrow>
    ops_exn + (execution_request \<times> ops_store)" where
  "persist_claim env c v s =
     (let t = lease_target_of c; now = occurred_at (lease_decision v) in
      bindR (case (lease_duration_of c, map_option replacement_fence (row_recovery (lease_decision v))) of
          (Some n, Some (Some f)) \<Rightarrow>
            rotate_request_claim (env_lease_end env) (target_request t) (target_fence t) f now n s
        | _ \<Rightarrow> abandon_request_claim (target_request t) (target_fence t) now s) (\<lambda>(found, s').
      case found of None \<Rightarrow> Inl (RunLifecycleConflict ''execution claim changed during recovery'')
      | Some q \<Rightarrow> Inr (q, s')))"

text \<open>
  A store returns the row it wrote, so the comparisons of both events and the action hold; the
  claim is compared, since the database computes the end of its lease itself.
\<close>

definition record_lease_result :: "lifecycle_env \<Rightarrow> lease_command \<Rightarrow> lease_result \<Rightarrow> ops_store \<Rightarrow>
    ops_exn + (lease_result \<times> ops_store)" where
  "record_lease_result env c v s =
     bindR (persist_claim env c v s) (\<lambda>(q, s1).
     if q \<noteq> lease_request v then Inl (RunLifecycleConflict ''execution claim changed during recovery'')
     else
     bindR (add_event (lease_decision v) s1) (\<lambda>s2.
     bindR (add_event (lease_consequence v) s2) (\<lambda>s3.
     bindR (add_action (lease_action v) s3) (\<lambda>s4. Inr (v, s4)))))"

definition recover_new :: "lifecycle_env \<Rightarrow> lease_command \<Rightarrow> execution_request \<Rightarrow> ops_store \<Rightarrow>
    ops_exn + (lease_result \<times> ops_store)" where
  "recover_new env c locator s =
     (let t = lease_target_of c in
      bindR (read_open_session s (ident_session (request_ident locator))) (\<lambda>session.
      bindR (read_request s (target_request t)) (\<lambda>q.
      bindR (read_latest_run s (target_request t)) (\<lambda>r.
      bindR (require_locked_identity t locator q r (session_id session)) (\<lambda>_.
      bindR (require_lease_state c q r) (\<lambda>_.
      bindR (locked_recovery_approval s q) (\<lambda>p.
      bindR (read_events s (run_key r)) (\<lambda>vs.
      bindR (require_recovery_eligible_journal (lease_decision_kind c) (target_fence t) r (plan_body p) vs) (\<lambda>_.
      bindR (observe_request_lease (env_observed env) s (request_key_of q)) (\<lambda>observation.
      if observed_request observation \<noteq> q
      then Inl (RunLifecycleConflict ''execution request changed before recovery'')
      else
      bindR (require_expiry c (observed_expired observation)) (\<lambda>_.
      bindR (next_event_ordinal s (run_key r)) (\<lambda>n.
      bindR (next_action_ordinal s (ident_session (request_ident q))) (\<lambda>m.
      bindR (plan_lease_result env c q r (observed_at observation) n m) (\<lambda>v.
        record_lease_result env c v s))))))))))))))"

section \<open>Replay\<close>

definition require_replay_command :: "lease_command \<Rightarrow> lease_result \<Rightarrow> ops_exn + unit" where
  "require_replay_command c v =
     (let t = lease_target_of c; changed = Inl (RunLifecycleConflict ''persisted recovery decision changed'') in
      case row_recovery (lease_decision v) of None \<Rightarrow> changed
      | Some r \<Rightarrow>
        if recovery_decision_kind r \<noteq> lease_decision_kind c \<or> prior_fence r \<noteq> target_fence t then changed
        else bindR (replacement_of c) (\<lambda>f.
        if replacement_fence r \<noteq> f then changed
        else case lease_duration_of c of None \<Rightarrow> Inr ()
        | Some n \<Rightarrow>
          if map_of (action_payload (lease_action v)) ''lease_duration_seconds'' \<noteq> Some (PInt n)
          then Inl (RunLifecycleConflict ''persisted recovery duration changed'')
          else (let timed = Inl (RunLifecycleConflict ''persisted recovery lease time changed'') in
            case request_claim (lease_request v) of None \<Rightarrow> timed
            | Some cl \<Rightarrow>
              if claimed_at cl \<noteq> occurred_at (lease_decision v) then timed
              else bindR (expires_at (occurred_at (lease_decision v)) n) (\<lambda>lease_end.
                if lease_expires_at cl \<noteq> lease_end then timed else Inr ()))))"

definition replay_recovery :: "lease_command \<Rightarrow> execution_request \<Rightarrow> operation_action \<Rightarrow> ops_store \<Rightarrow>
    ops_exn + lease_result" where
  "replay_recovery c locator a s =
     (let t = lease_target_of c; rid = run_id_value (target_run t) in
      bindR (read_request s (target_request t)) (\<lambda>q.
      bindR (reading ''recovery retained run was not found'' ''recovery retained run history is invalid''
          (get_run_for_request s (target_request t) rid)) (\<lambda>r.
      if request_ident locator \<noteq> request_ident q \<or> run_key r \<noteq> rid \<or>
         action_session a \<noteq> ident_session (request_ident q) \<or> action_key a \<noteq> Some (target_key t) \<or>
         action_actor a \<noteq> recovery_actor (target_authority t)
      then Inl (RunLifecycleConflict ''persisted recovery identity changed'')
      else
      bindR (require_replay_run_evolution s q r) (\<lambda>_.
      bindR (locked_recovery_approval s q) (\<lambda>_.
      (case (payload_entry (action_payload a) ''decision_event_id'',
          payload_entry (action_payload a) ''consequence_event_id'') of
        (Some did, Some cid) \<Rightarrow>
          bindR (reading ''recovery event was not found'' ''recovery event history is invalid'' (get_event s did)) (\<lambda>d.
          bindR (reading ''recovery event was not found'' ''recovery event history is invalid'' (get_event s cid)) (\<lambda>w.
          bindR (lease_result_as \<lparr>lease_request = q, lease_run = r, lease_decision = d,
              lease_consequence = w, lease_action = a, lease_replayed = True\<rparr>) (\<lambda>v.
          bindR (require_replay_command c v) (\<lambda>_. Inr v))))
      | _ \<Rightarrow> Inl (RunLifecycleConflict ''persisted recovery action is malformed'')))))))"

section \<open>The service\<close>

definition recover :: "lifecycle_env \<Rightarrow> lease_command \<Rightarrow> ops_store \<Rightarrow> ops_exn + (lease_result \<times> ops_store)"
  where
  "recover env c s =
     (let t = lease_target_of c; fp = lease_fingerprint env c in
      bindR (require_recovery_scope c) (\<lambda>_.
      bindR (read_request s (target_request t)) (\<lambda>locator.
      bindR (invalid_as (RunLifecycleConflict ''recovery action history is invalid'')
          (action_for_idempotency s (ident_session (request_ident locator)) (target_key t))) (\<lambda>existing.
      case existing of
        Some a \<Rightarrow>
          if action_intent a \<noteq> Some fp
          then Inl (RunLifecycleIdempotencyConflict
            ''idempotency key was reused with different recovery intent'')
          else bindR (replay_recovery c locator a s) (\<lambda>v. Inr (v, s))
      | None \<Rightarrow> recover_new env c locator s))))"

end
