(* ===== verification/Retry_Service.thy ===== *)
theory Retry_Service
  imports Lease_Service
begin

text \<open>
  The interpreter of \<open>operations/activity_run_retry_interpreter.py\<close>: one admitted retry of a failed
  run as one transaction that opens a linked run under the claim that is still active.
\<close>

definition require_retry_scope :: "lease_target \<Rightarrow> ops_exn + unit" where
  "require_retry_scope t = requireR (AuthorityOperate \<in> set (recovery_scopes (target_authority t)))
     (RunLifecycleDenied ''required recovery scope is missing'')"

definition read_run_of_request :: "ops_store \<Rightarrow> string \<Rightarrow> string \<Rightarrow> ops_exn + activity_run" where
  "read_run_of_request s i j = reading ''activity run was not found'' ''activity run history is invalid''
     (get_run_for_request s i j)"

definition require_retry_state :: "lease_target \<Rightarrow> execution_request \<Rightarrow> execution_request \<Rightarrow>
    activity_run \<Rightarrow> activity_run \<Rightarrow> string \<Rightarrow> ops_exn + unit" where
  "require_retry_state t locator q p latest sid =
     (let changed = Inl (RunLifecycleConflict ''activity run retry target changed'') in
      if request_ident locator \<noteq> request_ident q \<or> ident_session (request_ident q) \<noteq> sid \<or>
         request_state q \<noteq> RequestClaimed
      then changed
      else case request_claim q of None \<Rightarrow> changed
      | Some c \<Rightarrow> bindR (claim_fence c) (\<lambda>f.
          if f \<noteq> target_fence t \<or> p \<noteq> latest \<or> run_key p \<noteq> run_id_value (target_run t) \<or>
             run_request p \<noteq> request_key_of q \<or> run_plan p \<noteq> ident_plan (request_ident q) \<or>
             run_state p \<noteq> RunFailed \<or> run_started p = None \<or> run_settled p \<noteq> None \<or>
             retry_attempt (run_retry p) \<ge> max_run_attempt
          then changed else Inr ()))"

definition retried_run :: "execution_request \<Rightarrow> activity_run \<Rightarrow> string \<Rightarrow> string \<Rightarrow> bounded_evidence \<Rightarrow>
    activity_run" where
  "retried_run q p rid now metadata = \<lparr>run_key = rid, run_plan = ident_plan (request_ident q),
     run_request = request_key_of q,
     run_retry = \<lparr>retry_attempt = retry_attempt (run_retry p) + 1, prior_run = Some (run_key p)\<rparr>,
     run_state = RunClaimed, run_created = now, run_started = None, run_settled = None,
     run_metadata = metadata\<rparr>"

definition plan_retry_result :: "lifecycle_env \<Rightarrow> lease_target \<Rightarrow> execution_request \<Rightarrow> activity_run \<Rightarrow>
    string \<Rightarrow> int \<Rightarrow> int \<Rightarrow> ops_exn + retry_result" where
  "plan_retry_result env t q p now n m =
     bindR (make_evidence [(''attempt'', PInt (retry_attempt (run_retry p) + 1)),
         (''prior_run_id'', PStr (run_key p))]) (\<lambda>metadata.
     bindR (check_run (retried_run q p (env_ids env 0) now metadata)) (\<lambda>r.
     bindR (check_lease_recovery \<lparr>recovery_decision_kind = ChooseRetryAsNewRun,
         retained_run = RunId (run_key p), prior_fence = target_fence t,
         replacement_fence = Some (target_fence t)\<rparr>) (\<lambda>recovery.
     bindR (check_row (recovery_event (env_ids env 1) (run_key p) n now recovery)) (\<lambda>d.
     bindR (check_row (plain_event (env_ids env 2) (run_key r) 1 Ev_RUN_OPENED now metadata)) (\<lambda>w.
     bindR (check_action (recovery_action (env_ids env 3) (ident_session (request_ident q)) m
         (recovery_actor (target_authority t)) (retry_payload q p r d w recovery) now (target_key t)
         (retry_fingerprint env t))) (\<lambda>a.
       check_retry_result \<lparr>retry_request = q, retry_prior = p, retry_run = r, retry_decision = d,
         retry_opened = w, retry_action = a, retry_replayed = False\<rparr>))))))"

definition record_retry_result :: "retry_result \<Rightarrow> ops_store \<Rightarrow> ops_exn + (retry_result \<times> ops_store)" where
  "record_retry_result v s =
     bindR (add_run (retry_run v) s) (\<lambda>s1.
     bindR (add_event (retry_decision v) s1) (\<lambda>s2.
     bindR (add_event (retry_opened v) s2) (\<lambda>s3.
     bindR (add_action (retry_action v) s3) (\<lambda>s4. Inr (v, s4)))))"

definition retry_new :: "lifecycle_env \<Rightarrow> lease_target \<Rightarrow> execution_request \<Rightarrow> ops_store \<Rightarrow>
    ops_exn + (retry_result \<times> ops_store)" where
  "retry_new env t locator s =
     bindR (read_open_session s (ident_session (request_ident locator))) (\<lambda>session.
     bindR (read_request s (target_request t)) (\<lambda>q.
     bindR (read_run_of_request s (target_request t) (run_id_value (target_run t))) (\<lambda>p.
     bindR (read_latest_run s (target_request t)) (\<lambda>latest.
     bindR (require_retry_state t locator q p latest (session_id session)) (\<lambda>_.
     bindR (locked_recovery_approval s q) (\<lambda>plan.
     bindR (read_events s (run_key p)) (\<lambda>vs.
     bindR (require_recovery_eligible_journal ChooseRetryAsNewRun (target_fence t) p (plan_body plan) vs) (\<lambda>_.
     bindR (observe_request_lease (env_observed env) s (request_key_of q)) (\<lambda>observation.
     if observed_request observation \<noteq> q
     then Inl (RunLifecycleConflict ''execution request changed before retry'')
     else if observed_expired observation
     then Inl (RunLifecycleConflict ''execution claim has expired'')
     else
     bindR (next_event_ordinal s (run_key p)) (\<lambda>n.
     bindR (next_action_ordinal s (ident_session (request_ident q))) (\<lambda>m.
     bindR (plan_retry_result env t q p (observed_at observation) n m) (\<lambda>v.
       record_retry_result v s))))))))))))"

section \<open>Replay\<close>

definition require_retry_replay :: "lifecycle_env \<Rightarrow> lease_target \<Rightarrow> execution_request \<Rightarrow> retry_result \<Rightarrow>
    ops_exn + unit" where
  "require_retry_replay env t locator v =
     (let q = retry_request v; changed = Inl (RunLifecycleConflict ''persisted retry history changed'') in
      if request_ident locator \<noteq> request_ident q \<or> request_state q \<noteq> RequestClaimed then changed
      else case (request_claim q, row_recovery (retry_decision v)) of
        (Some c, Some r) \<Rightarrow> bindR (claim_fence c) (\<lambda>f.
          if f \<noteq> target_fence t \<or> run_key (retry_prior v) \<noteq> run_id_value (target_run t) \<or>
             prior_fence r \<noteq> target_fence t \<or> replacement_fence r \<noteq> Some (target_fence t) \<or>
             action_actor (retry_action v) \<noteq> recovery_actor (target_authority t) \<or>
             action_key (retry_action v) \<noteq> Some (target_key t) \<or>
             action_intent (retry_action v) \<noteq> Some (retry_fingerprint env t)
          then changed else Inr ())
      | _ \<Rightarrow> changed)"

definition retry_result_as :: "retry_result \<Rightarrow> ops_exn + retry_result" where
  "retry_result_as v = (case check_retry_result v of
     Inl (OperationsRecordError m) \<Rightarrow> Inl (RunLifecycleConflict ''persisted retry history is incongruent'')
   | x \<Rightarrow> x)"

definition replay_retry :: "lifecycle_env \<Rightarrow> lease_target \<Rightarrow> execution_request \<Rightarrow> operation_action \<Rightarrow>
    ops_store \<Rightarrow> ops_exn + retry_result" where
  "replay_retry env t locator a s =
     bindR (read_request s (target_request t)) (\<lambda>q.
     bindR (read_run_of_request s (target_request t) (run_id_value (target_run t))) (\<lambda>p.
     (case (payload_entry (action_payload a) ''run_id'', payload_entry (action_payload a) ''decision_event_id'',
         payload_entry (action_payload a) ''opened_event_id'') of
       (Some rid, Some did, Some oid) \<Rightarrow>
         bindR (read_run_of_request s (target_request t) rid) (\<lambda>r.
         bindR (require_replay_run_evolution s q r) (\<lambda>_.
         bindR (locked_recovery_approval s q) (\<lambda>_.
         bindR (reading ''retry event was not found'' ''retry event history is invalid'' (get_event s did)) (\<lambda>d.
         bindR (reading ''retry event was not found'' ''retry event history is invalid'' (get_event s oid)) (\<lambda>w.
         bindR (retry_result_as \<lparr>retry_request = q, retry_prior = p, retry_run = r, retry_decision = d,
             retry_opened = w, retry_action = a, retry_replayed = True\<rparr>) (\<lambda>v.
         bindR (require_retry_replay env t locator v) (\<lambda>_. Inr v)))))))
     | _ \<Rightarrow> Inl (RunLifecycleConflict ''persisted retry action is malformed''))))"

section \<open>The service\<close>

definition retry_failed_run :: "lifecycle_env \<Rightarrow> lease_target \<Rightarrow> ops_store \<Rightarrow>
    ops_exn + (retry_result \<times> ops_store)" where
  "retry_failed_run env t s =
     bindR (require_retry_scope t) (\<lambda>_.
     bindR (read_request s (target_request t)) (\<lambda>locator.
     bindR (invalid_as (RunLifecycleConflict ''operation action history is invalid'')
         (action_for_idempotency s (ident_session (request_ident locator)) (target_key t))) (\<lambda>existing.
     case existing of
       Some a \<Rightarrow>
         if action_intent a \<noteq> Some (retry_fingerprint env t)
         then Inl (RunLifecycleIdempotencyConflict ''idempotency key was reused with different retry intent'')
         else bindR (replay_retry env t locator a s) (\<lambda>v. Inr (v, s))
     | None \<Rightarrow> retry_new env t locator s)))"

end
