(* ===== verification/Store_Laws.thy ===== *)
theory Store_Laws
  imports Run_Lifecycle
begin

text \<open>
  Laws of the store. \<open>row_table\<close> is what the services rely on when they read a table by key
  after rows were appended or replaced; each table of the store is an instance.
\<close>

section \<open>Rows\<close>

text \<open>A constructor returns the row it was given, or raises.\<close>

lemma check_claim_same: "check_claim c = Inr c' \<Longrightarrow> c' = c"
  by (auto simp: check_claim_def bindR_Inr_iff split: if_splits)

lemma check_request_same: "check_request q = Inr q' \<Longrightarrow> q' = q"
  by (auto simp: check_request_def bindR_Inr_iff split: if_splits)

lemma check_run_same: "check_run r = Inr r' \<Longrightarrow> r' = r"
  by (auto simp: check_run_def bindR_Inr_iff split: if_splits)

lemma check_row_same: "check_row v = Inr v' \<Longrightarrow> v' = v"
  by (auto simp: check_row_def bindR_Inr_iff split: if_splits)

lemma check_action_same: "check_action a = Inr a' \<Longrightarrow> a' = a"
  by (auto simp: check_action_def bindR_Inr_iff split: if_splits)

lemma check_session_same: "check_session v = Inr v' \<Longrightarrow> v' = v"
  by (auto simp: check_session_def bindR_Inr_iff split: if_splits)

lemmas check_same = check_request_same check_run_same check_row_same check_action_same check_session_same

definition accepted :: "('a \<Rightarrow> ops_exn + 'a) \<Rightarrow> 'a \<Rightarrow> bool" where
  "accepted check x \<longleftrightarrow> check x = Inr x"

lemma accepted_Inr: "(\<And>y. check x = Inr y \<Longrightarrow> y = x) \<Longrightarrow> check x = Inr y \<longleftrightarrow> accepted check x \<and> y = x"
  by (auto simp: accepted_def)

lemma check_Inr [result_simps]:
  "check_request q = Inr q' \<longleftrightarrow> accepted check_request q \<and> q' = q"
  "check_run r = Inr r' \<longleftrightarrow> accepted check_run r \<and> r' = r"
  "check_row v = Inr v' \<longleftrightarrow> accepted check_row v \<and> v' = v"
  "check_action a = Inr a' \<longleftrightarrow> accepted check_action a \<and> a' = a"
  "check_session w = Inr w' \<longleftrightarrow> accepted check_session w \<and> w' = w"
  by (rule accepted_Inr, erule check_same)+

text \<open>What the constructors guarantee of the texts that are read back later.\<close>

lemma accepted_request_texts:
  "accepted check_request q \<Longrightarrow> request_key_of q \<noteq> [] \<and> ident_plan (request_ident q) \<noteq> []"
  by (auto simp: accepted_def check_request_def check_request_identity_def bindR_Inr_iff result_simps
      record_text_ok_def request_key_of_def split: if_splits)

lemma accepted_request_claim:
  "accepted check_request q \<Longrightarrow> request_claim q = Some c \<Longrightarrow>
     request_state q = RequestClaimed \<and> 1 \<le> claim_generation c \<and> check_claim c = Inr c"
  by (auto simp: accepted_def check_request_def check_claim_def bindR_Inr_iff split: if_splits)

lemma accepted_run_key: "accepted check_run r \<Longrightarrow> is_canonical_run_identity (run_key r)"
  by (auto simp: accepted_def check_run_def bindR_Inr_iff result_simps split: if_splits)

lemma accepted_row_texts: "accepted check_row v \<Longrightarrow> row_event v \<noteq> [] \<and> 1 \<le> row_ordinal v"
  by (auto simp: accepted_def check_row_def bindR_Inr_iff result_simps record_text_ok_def split: if_splits)

section \<open>Tables read by key\<close>

lemma find_append_some: "find P xs = Some x \<Longrightarrow> find P (xs @ ys) = Some x"
  by (induction xs) auto

lemma find_append_none: "\<forall>x\<in>set xs. \<not> P x \<Longrightarrow> find P (xs @ ys) = find P ys"
  by (induction xs) auto

lemma find_replaced:
  "k r \<in> k ` set xs \<Longrightarrow> find (\<lambda>x. k x = k r) (map (\<lambda>x. if k x = k r then r else x) xs) = Some r"
  by (induction xs) auto

lemma find_replaced_other:
  "i \<noteq> k r \<Longrightarrow> find (\<lambda>x. k x = i) (map (\<lambda>x. if k x = k r then r else x) xs) = find (\<lambda>x. k x = i) xs"
  by (induction xs) auto

lemma find_row:
  "distinct (map k xs) \<Longrightarrow> x \<in> set xs \<Longrightarrow> find (\<lambda>y. k y = k x) xs = Some x"
  by (induction xs) (auto simp: image_iff)

lemma keys_replaced: "map k (map (\<lambda>x. if k x = k r then r else x) xs) = map k xs"
  by simp

locale row_table =
  fixes rows :: "ops_store \<Rightarrow> 'row list" and key :: "'row \<Rightarrow> string" and ok :: "'row \<Rightarrow> bool"
    and get :: "ops_store \<Rightarrow> string \<Rightarrow> ops_exn + 'row"
  assumes get_iff: "get s i = Inr r \<longleftrightarrow> find (\<lambda>x. key x = i) (rows s) = Some r \<and> ok r"
begin

lemma get_row: "get s i = Inr r \<Longrightarrow> key r = i \<and> r \<in> set (rows s) \<and> ok r"
  by (auto simp: get_iff find_Some_iff)

lemma get_cong: "rows s' = rows s \<Longrightarrow> get s' i = Inr r \<longleftrightarrow> get s i = Inr r"
  by (simp add: get_iff)

lemma get_appended: "get s i = Inr r \<Longrightarrow> rows s' = rows s @ xs \<Longrightarrow> get s' i = Inr r"
  by (simp add: get_iff find_append_some)

lemma get_fresh:
  "rows s' = rows s @ [r] \<Longrightarrow> key r \<notin> key ` set (rows s) \<Longrightarrow> ok r \<Longrightarrow> get s' (key r) = Inr r"
  by (subst get_iff, simp) (subst find_append_none, auto simp: image_iff)

lemma get_replaced:
  "rows s' = map (\<lambda>x. if key x = key r then r else x) (rows s) \<Longrightarrow> key r \<in> key ` set (rows s) \<Longrightarrow>
     ok r \<Longrightarrow> get s' (key r) = Inr r"
  by (simp add: get_iff find_replaced)

lemma get_replaced_other:
  "rows s' = map (\<lambda>x. if key x = key r then r else x) (rows s) \<Longrightarrow> i \<noteq> key r \<Longrightarrow>
     get s' i = Inr x \<longleftrightarrow> get s i = Inr x"
  by (simp add: get_iff find_replaced_other)

lemma get_member:
  "distinct (map key (rows s)) \<Longrightarrow> r \<in> set (rows s) \<Longrightarrow> ok r \<Longrightarrow> get s (key r) = Inr r"
  by (simp add: get_iff find_row)

end

interpretation requests: row_table db_requests request_key_of "accepted check_request" get_request
  by unfold_locales (auto simp: get_request_def result_simps split: option.splits)

interpretation runs: row_table db_runs run_key "accepted check_run" get_run
proof
  fix s :: ops_store and i r
  have "find (\<lambda>x. run_key x = i) (db_runs s) = Some r \<Longrightarrow> accepted check_run r \<Longrightarrow>
      is_canonical_run_identity i"
    by (auto simp: find_Some_iff dest: accepted_run_key)
  then show "get_run s i = Inr r \<longleftrightarrow>
      find (\<lambda>x. run_key x = i) (db_runs s) = Some r \<and> accepted check_run r"
    by (auto simp: get_run_def bindR_Inr_iff result_simps split: option.splits)
qed

interpretation events: row_table db_events row_event "accepted check_row" get_event
  by unfold_locales (auto simp: get_event_def result_simps split: option.splits)

interpretation sessions: row_table db_sessions session_id "accepted check_session" get_session
  by unfold_locales (auto simp: get_session_def result_simps split: option.splits)

text \<open>The finders of the service only rename a missing row.\<close>

lemma missing_as_Inr [result_simps]: "missing_as e r = Inr x \<longleftrightarrow> r = Inr x"
  by (auto simp: missing_as_def split: sum.splits ops_exn.splits)

lemma find_Inr [result_simps]:
  "find_request s i = Inr q \<longleftrightarrow> get_request s i = Inr q"
  "find_run s i = Inr r \<longleftrightarrow> get_run s i = Inr r"
  "find_open_session s i = Inr v \<longleftrightarrow> get_session s i = Inr v \<and> session_state v = SessionOpen"
  by (auto simp: find_request_def find_run_def find_open_session_def missing_as_Inr bindR_Inr_iff
      split: if_splits)

text \<open>The action recorded under an idempotency key of a session.\<close>

lemma recorded_action_Inr:
  "action_for_idempotency s i k = Inr x \<longleftrightarrow>
     (case find (\<lambda>a. action_session a = i \<and> action_key a = Some k) (db_actions s) of
        None \<Rightarrow> x = None | Some a \<Rightarrow> accepted check_action a \<and> x = Some a)"
  by (auto simp: action_for_idempotency_def bindR_Inr_iff result_simps split: option.splits)

lemma recorded_action_appended:
  "action_for_idempotency s i k = Inr (Some a) \<Longrightarrow> db_actions s' = db_actions s @ as \<Longrightarrow>
     action_for_idempotency s' i k = Inr (Some a)"
  by (auto simp: recorded_action_Inr find_append_some split: option.splits)

lemma recorded_action_fresh:
  "db_actions s' = db_actions s @ [a] \<Longrightarrow> \<not> list_ex (key_conflict a) (db_actions s) \<Longrightarrow>
     action_key a = Some k \<Longrightarrow> accepted check_action a \<Longrightarrow>
     action_for_idempotency s' (action_session a) k = Inr (Some a)"
  by (subst recorded_action_Inr, simp, subst find_append_none)
    (auto simp: key_conflict_def list_ex_iff)

section \<open>Operations that changed the store\<close>

lemma constraint_Inr [result_simps]: "constraint b name = Inr u \<longleftrightarrow> b"
  by (simp add: constraint_def requireR_Inr_iff)

lemma encode_timestamp_Inr [result_simps]: "encode_timestamp t = Inr u \<longleftrightarrow> canonical_utc t"
  by (simp add: encode_timestamp_def requireR_Inr_iff)

definition run_fits :: "activity_run \<Rightarrow> ops_store \<Rightarrow> bool" where
  "run_fits r s \<longleftrightarrow> run_row_ok r \<and> run_key r \<notin> run_key ` set (db_runs s) \<and>
     \<not> list_ex (active_conflict r) (db_runs s) \<and> \<not> list_ex (attempt_conflict r) (db_runs s) \<and>
     list_ex (request_of_run r) (db_requests s)"

lemma add_run_Inr:
  "add_run r s = Inr s' \<Longrightarrow> run_fits r s \<and> s' = s\<lparr>db_runs := db_runs s @ [r]\<rparr>"
  by (auto simp: add_run_def bindR_Inr_iff result_simps run_fits_def)

definition event_fits :: "activity_event \<Rightarrow> ops_store \<Rightarrow> bool" where
  "event_fits v s \<longleftrightarrow> row_event v \<notin> row_event ` set (db_events s) \<and> row_ordinal v \<le> max_row_ordinal \<and>
     event_shape_check v \<and> row_run v \<in> run_key ` set (db_runs s)"

lemma add_event_Inr:
  "add_event v s = Inr s' \<Longrightarrow> event_fits v s \<and> s' = s\<lparr>db_events := db_events s @ [v]\<rparr>"
  by (auto simp: add_event_def bindR_Inr_iff result_simps event_fits_def)

definition action_fits :: "operation_action \<Rightarrow> ops_store \<Rightarrow> bool" where
  "action_fits a s \<longleftrightarrow> action_id a \<notin> action_id ` set (db_actions s) \<and>
     action_ordinal a \<le> max_row_ordinal \<and> \<not> list_ex (key_conflict a) (db_actions s) \<and>
     action_session a \<in> session_id ` set (db_sessions s)"

lemma add_action_Inr:
  "add_action a s = Inr s' \<Longrightarrow> action_fits a s \<and> s' = s\<lparr>db_actions := db_actions s @ [a]\<rparr>"
  by (auto simp: add_action_def bindR_Inr_iff result_simps action_fits_def)

lemma next_event_ordinal_Inr:
  "next_event_ordinal s i = Inr n \<Longrightarrow> n = next_ordinal (map row_ordinal (events_of_run s i))"
  by (auto simp: next_event_ordinal_def bindR_Inr_iff split: if_splits)

lemma next_action_ordinal_Inr:
  "next_action_ordinal s i = Inr n \<Longrightarrow>
     n = next_ordinal (map action_ordinal (filter (\<lambda>a. action_session a = i) (db_actions s)))"
  by (auto simp: next_action_ordinal_def split: if_splits)

text \<open>A claim that succeeds replaces a queued request; one that finds none changes nothing.\<close>

definition claimed_as :: "string \<Rightarrow> (string \<Rightarrow> int \<Rightarrow> string) \<Rightarrow> string \<Rightarrow> int \<Rightarrow> execution_request \<Rightarrow>
    execution_request" where
  "claimed_as observed lease_end w seconds q = q\<lparr>request_state := RequestClaimed,
     request_claim := Some \<lparr>claim_worker = w, claim_generation = 1, claimed_at = observed,
       lease_expires_at = lease_end observed seconds\<rparr>\<rparr>"

lemma claim_request_Inr:
  "claim_request observed lease_end i w seconds s = Inr (Some q', s') \<Longrightarrow>
     \<exists>q. get_request s i = Inr q \<and> request_state q = RequestQueued \<and> 1 \<le> seconds \<and> seconds \<le> 3600 \<and>
       q' = claimed_as observed lease_end w seconds q \<and> accepted check_request q' \<and> s' = put_request q' s"
  by (auto simp: claim_request_def bindR_Inr_iff claimed_as_def check_Inr split: if_splits)

lemma compare_and_set_Inr:
  "compare_and_set_run_status i expected replacement a b s = Inr (found, s') \<Longrightarrow>
     (found = None \<and> s' = s) \<or>
     (\<exists>r r'. found = Some r' \<and> r \<in> set (db_runs s) \<and> run_key r = i \<and> run_state r = expected \<and>
        run_settled r = None \<and>
        r' = r\<lparr>run_state := replacement, run_started := coalesce a (run_started r),
          run_settled := coalesce (run_settled r) b\<rparr> \<and>
        run_row_ok r' \<and> accepted check_run r' \<and> \<not> list_ex (active_conflict r') (db_runs s) \<and>
        s' = put_run r' s)"
  unfolding compare_and_set_run_status_def Let_def
  by (auto simp: bindR_Inr_iff result_simps find_Some_iff split: option.splits)

end
