(* ===== verification/Run_Lifecycle_Laws.thy ===== *)
theory Run_Lifecycle_Laws
  imports Store_Laws
begin

text \<open>
  What a command of the run lifecycle that returns has done to the store, and why it can be sent
  again: the same command finds its action and returns the recorded outcome.
\<close>

section \<open>The common end of a command\<close>

lemma record_outcome_Inr:
  assumes "record_outcome env n q r k kind now evidence failure worker key fp s = Inr (res, s')"
  obtains v a where
    "v = lifecycle_event (env_ids env n) (run_key r)
       (next_ordinal (map row_ordinal (events_of_run s (run_key r)))) kind now evidence failure"
    "a = lifecycle_action (env_ids env (Suc n)) (ident_session (request_ident q))
       (next_ordinal (map action_ordinal
         (filter (\<lambda>b. action_session b = ident_session (request_ident q)) (db_actions s))))
       k worker (lifecycle_payload q r v) now key fp"
    "accepted check_row v" "accepted check_action a" "event_fits v s"
    "action_fits a (s\<lparr>db_events := db_events s @ [v]\<rparr>)"
    "s' = s\<lparr>db_events := db_events s @ [v], db_actions := db_actions s @ [a]\<rparr>"
    "res = \<lparr>result_request = q, result_run = r, result_event = v, result_action = a,
       result_replayed = False\<rparr>"
proof -
  from assms obtain n1 v s1 m a s2 where
    steps: "next_event_ordinal s (run_key r) = Inr n1"
      "check_row (lifecycle_event (env_ids env n) (run_key r) n1 kind now evidence failure) = Inr v"
      "add_event v s = Inr s1" "next_action_ordinal s1 (ident_session (request_ident q)) = Inr m"
      "check_action (lifecycle_action (env_ids env (Suc n)) (ident_session (request_ident q)) m k
         worker (lifecycle_payload q r v) now key fp) = Inr a"
      "add_action a s1 = Inr s2"
    and res: "res = \<lparr>result_request = q, result_run = r, result_event = v, result_action = a,
       result_replayed = False\<rparr>" "s' = s2"
    by (auto simp: record_outcome_def bindR_Inr_iff)
  have n1: "n1 = next_ordinal (map row_ordinal (events_of_run s (run_key r)))"
    using steps(1) by (rule next_event_ordinal_Inr)
  have s1: "event_fits v s" "s1 = s\<lparr>db_events := db_events s @ [v]\<rparr>"
    using add_event_Inr [OF steps(3)] by simp_all
  have m: "m = next_ordinal (map action_ordinal
      (filter (\<lambda>b. action_session b = ident_session (request_ident q)) (db_actions s)))"
    using next_action_ordinal_Inr [OF steps(4)] s1(2) by simp
  have s2: "action_fits a s1" "s2 = s1\<lparr>db_actions := db_actions s1 @ [a]\<rparr>"
    using add_action_Inr [OF steps(6)] by simp_all
  have v: "accepted check_row v"
      "v = lifecycle_event (env_ids env n) (run_key r) n1 kind now evidence failure"
    using steps(2) by (simp_all add: check_Inr)
  have a: "accepted check_action a" "a = lifecycle_action (env_ids env (Suc n))
      (ident_session (request_ident q)) m k worker (lifecycle_payload q r v) now key fp"
    using steps(5) by (simp_all add: check_Inr)
  show ?thesis
    by (rule that [of v a]) (use n1 s1 m s2 v a res in simp_all)
qed

section \<open>A claim\<close>

lemma runs_for_request_none:
  "runs_for_request s i = Inr [] \<longleftrightarrow> (\<forall>r\<in>set (db_runs s). run_request r \<noteq> i)"
proof -
  have "mapR check_run xs = Inr [] \<longleftrightarrow> xs = []" for xs
    by (cases xs) (auto simp: bindR_Inr_iff)
  then show ?thesis
    by (simp add: runs_for_request_def) (metis (mono_tags, lifting) filter_empty_conv length_0_conv length_sort)
qed

lemma claim_new_Inr:
  assumes "claim_new env i a seconds key fp locator s = Inr (res, s')"
  obtains q q' r where
    "get_request s i = Inr q" "request_state q = RequestQueued" "request_claim q = None"
    "\<forall>r\<in>set (db_runs s). run_request r \<noteq> i"
    "\<exists>w. get_session s (ident_session (request_ident q)) = Inr w \<and> session_state w = SessionOpen"
    "q' = claimed_as (env_observed env) (env_lease_end env) (authority_worker a) seconds q"
    "accepted check_request q'"
    "r = opened_run q' (env_ids env 0) (env_observed env)" "accepted check_run r"
    "run_fits r (put_request q' s)"
    "record_outcome env 1 q' r OpClaimRun Ev_RUN_OPENED (env_observed env)
       (BoundedEvidence [(''attempt'', PInt 1)]) None (authority_worker a) key fp
       ((put_request q' s)\<lparr>db_runs := db_runs s @ [r]\<rparr>) = Inr (res, s')"
proof -
  from assms obtain w q claimed s1 where
    w: "get_session s (ident_session (request_ident locator)) = Inr w" "session_state w = SessionOpen"
    and q: "get_request s i = Inr q" "ident_session (request_ident q) = session_id w"
      "request_state q = RequestQueued" "request_claim q = None" "runs_for_request s i = Inr []"
    and claim: "claim_request (env_observed env) (env_lease_end env) i (authority_worker a) seconds s =
        Inr (claimed, s1)"
    and opened: "open_claimed_run env (env_ids env 0) a key fp claimed s1 = Inr (res, s')"
    by (auto simp: claim_new_def bindR_Inr_iff find_Inr split: if_splits prod.splits)
  from opened obtain q' c r s2 where
    q': "claimed = Some q'" "request_claim q' = Some c"
    and r: "check_run (opened_run q' (env_ids env 0) (claimed_at c)) = Inr r" "add_run r s1 = Inr s2"
    and rec: "record_outcome env 1 q' r OpClaimRun Ev_RUN_OPENED (claimed_at c)
       (BoundedEvidence [(''attempt'', PInt 1)]) None (authority_worker a) key fp s2 = Inr (res, s')"
    by (auto simp: open_claimed_run_def bindR_Inr_iff split: option.splits if_splits)
  have q'q: "q' = claimed_as (env_observed env) (env_lease_end env) (authority_worker a) seconds q"
    "accepted check_request q'" "s1 = put_request q' s"
    using claim_request_Inr [OF claim [unfolded q'(1)]] q(1) by auto
  then have c: "claimed_at c = env_observed env"
    using q'(2) by (auto simp: claimed_as_def)
  have s2: "run_fits r s1" "s2 = s1\<lparr>db_runs := db_runs s1 @ [r]\<rparr>"
    using add_run_Inr [OF r(2)] by simp_all
  have w': "session_id w = ident_session (request_ident locator)"
    using sessions.get_row [OF w(1)] by simp
  show ?thesis
    by (rule that [OF q(1,3,4) _ _ q'q(1,2)])
      (use w w' q(2,5) r rec s2 q'q(3) c in \<open>simp_all add: runs_for_request_none check_Inr put_request_def\<close>)
qed

section \<open>A transition\<close>

lemma first_transition_Inr:
  "first_transition i sts replacement a b s = Inr (Some r', s') \<Longrightarrow>
     \<exists>r expected. expected \<in> set sts \<and> r \<in> set (db_runs s) \<and> run_key r = i \<and> run_state r = expected \<and>
       run_settled r = None \<and>
       r' = r\<lparr>run_state := replacement, run_started := coalesce a (run_started r),
         run_settled := coalesce (run_settled r) b\<rparr> \<and>
       run_row_ok r' \<and> accepted check_run r' \<and> \<not> list_ex (active_conflict r') (db_runs s) \<and>
       s' = put_run r' s"
proof (induction sts arbitrary: s)
  case (Cons st sts)
  from Cons.prems obtain found s1 where
    cas: "compare_and_set_run_status i st replacement a b s = Inr (found, s1)"
    and rest: "(case found of Some r \<Rightarrow> Inr (Some r, s1)
      | None \<Rightarrow> first_transition i sts replacement a b s1) = Inr (Some r', s')"
    by (auto simp: bindR_Inr_iff)
  show ?case
  proof (cases found)
    case None
    with compare_and_set_Inr [OF cas] have "s1 = s" by simp
    with None rest have "first_transition i sts replacement a b s = Inr (Some r', s')" by simp
    from Cons.IH [OF this] show ?thesis by auto
  next
    case (Some r2)
    with rest have "r2 = r'" "s1 = s'" by simp_all
    with compare_and_set_Inr [OF cas] Some show ?thesis by auto
  qed
qed simp

lemma transition_new_Inr:
  assumes "transition_new env c command rule fp i locator s = Inr (res, s')"
  obtains q r r0 r' where
    "get_request s i = Inr q" "get_run s (command_run c) = Inr r" "run_request r = request_key_of q"
    "\<exists>w. get_session s (ident_session (request_ident q)) = Inr w \<and> session_state w = SessionOpen"
    "require_worker_owns q (command_authority c) (command_fence c) = Inr ()"
    "r0 \<in> set (db_runs s)" "run_key r0 = command_run c" "run_state r0 \<in> set (rule_expected rule)"
    "run_settled r0 = None"
    "r' = r0\<lparr>run_state := rule_replacement rule,
       run_started := coalesce (if rule_started rule \<and> run_started r = None then Some (env_now env) else None)
         (run_started r0),
       run_settled := coalesce (run_settled r0) (if rule_settled rule then Some (env_now env) else None)\<rparr>"
    "run_row_ok r'" "accepted check_run r'" "\<not> list_ex (active_conflict r') (db_runs s)"
    "record_outcome env 0 q r' (rule_operation rule) (rule_event rule) (env_now env)
       (command_evidence command) (command_failure command) (authority_worker (command_authority c))
       (command_key c) fp (put_run r' s) = Inr (res, s')"
proof -
  from assms obtain w q r found s1 where
    w: "get_session s (ident_session (request_ident locator)) = Inr w" "session_state w = SessionOpen"
    and q: "get_request s i = Inr q" "get_run s (command_run c) = Inr r"
      "require_run_request_linkage r q = Inr ()" "ident_session (request_ident q) = session_id w"
      "require_worker_owns q (command_authority c) (command_fence c) = Inr ()"
    and first: "first_transition (run_key r) (rule_expected rule) (rule_replacement rule)
         (if rule_started rule \<and> run_started r = None then Some (env_now env) else None)
         (if rule_settled rule then Some (env_now env) else None) s = Inr (found, s1)"
    and rest: "(case found of
          None \<Rightarrow> Inl (RunLifecycleConflict ''activity run state rejected transition'')
        | Some r' \<Rightarrow> record_outcome env 0 q r' (rule_operation rule) (rule_event rule) (env_now env)
            (command_evidence command) (command_failure command)
            (authority_worker (command_authority c)) (command_key c) fp s1) = Inr (res, s')"
    unfolding transition_new_def
    by (fastforce simp: bindR_Inr_iff find_Inr split: if_splits)
  from rest obtain r' where r': "found = Some r'"
    and rec: "record_outcome env 0 q r' (rule_operation rule) (rule_event rule) (env_now env)
       (command_evidence command) (command_failure command) (authority_worker (command_authority c))
       (command_key c) fp s1 = Inr (res, s')"
    by (auto split: option.splits)
  from first_transition_Inr [OF first [unfolded r']] obtain r0 where
    r0: "r0 \<in> set (db_runs s)" "run_key r0 = run_key r" "run_state r0 \<in> set (rule_expected rule)"
      "run_settled r0 = None"
      "r' = r0\<lparr>run_state := rule_replacement rule,
       run_started := coalesce (if rule_started rule \<and> run_started r = None then Some (env_now env) else None)
         (run_started r0),
       run_settled := coalesce (run_settled r0) (if rule_settled rule then Some (env_now env) else None)\<rparr>"
      "run_row_ok r'" "accepted check_run r'" "\<not> list_ex (active_conflict r') (db_runs s)"
      "s1 = put_run r' s"
    by blast
  have keys: "session_id w = ident_session (request_ident locator)" "run_key r = command_run c"
    using sessions.get_row [OF w(1)] runs.get_row [OF q(2)] by simp_all
  show ?thesis
    by (rule that [OF q(1,2) _ _ q(5) r0(1) _ r0(3,4,5)])
      (use w keys q(3,4) r0 rec in \<open>simp_all add: require_run_request_linkage_def requireR_Inr_iff\<close>)
qed

section \<open>Replay\<close>

text \<open>The identity of a run, which no transition changes.\<close>

definition same_run :: "activity_run \<Rightarrow> activity_run \<Rightarrow> bool" where
  "same_run r r' \<longleftrightarrow> run_key r' = run_key r \<and> run_plan r' = run_plan r \<and> run_request r' = run_request r \<and>
     run_retry r' = run_retry r \<and> run_created r' = run_created r \<and> run_metadata r' = run_metadata r"

lemma same_run_refl [simp]: "same_run r r"
  by (simp add: same_run_def)

lemma same_run_trans: "same_run r s \<Longrightarrow> same_run s t \<Longrightarrow> same_run r t"
  by (simp add: same_run_def)

text \<open>The evidence of one recorded command, as far as the replay compares it.\<close>

definition congruent_evidence :: "execution_request \<Rightarrow> activity_run \<Rightarrow> activity_event \<Rightarrow> operation_action \<Rightarrow>
    lifecycle_operation \<Rightarrow> string \<Rightarrow> string \<Rightarrow> string \<Rightarrow> bool" where
  "congruent_evidence q r v a k worker key fp \<longleftrightarrow>
     action_session a = ident_session (request_ident q) \<and> action_type a = LifecycleAction k \<and>
     action_actor a = worker \<and> action_payload a = lifecycle_payload q r v \<and>
     action_key a = Some key \<and> action_intent a = Some fp \<and>
     lifecycle_result_for (LifecycleAction k) = Inr (run_state r, row_kind v) \<and>
     run_request r = request_key_of q \<and> run_plan r = ident_plan (request_ident q) \<and>
     row_run v = run_key r \<and> accepted check_request q \<and> accepted check_run r \<and> accepted check_row v \<and>
     request_state q = RequestClaimed"

lemma payload_lookups:
  "map_of (lifecycle_payload q r v) ''execution_request_id'' = Some (PStr (request_key_of q))"
  "map_of (lifecycle_payload q r v) ''plan_id'' = Some (PStr (ident_plan (request_ident q)))"
  "map_of (lifecycle_payload q r v) ''run_id'' = Some (PStr (run_key r))"
  "map_of (lifecycle_payload q r v) ''run_status'' = Some (PStr (run_status_value (run_state r)))"
  "map_of (lifecycle_payload q r v) ''event_id'' = Some (PStr (row_event v))"
  "map_of (lifecycle_payload q r v) ''event_type'' = Some (PStr (activity_event_kind_value (row_kind v)))"
  "map_of (lifecycle_payload q r v) ''event_ordinal'' = Some (PInt (row_ordinal v))"
  "request_claim q = Some c \<Longrightarrow>
     map_of (lifecycle_payload q r v) ''claim_generation'' = Some (PInt (claim_generation c))"
  by (simp_all add: lifecycle_payload_def)

lemma status_value_nonempty: "run_status_value st \<noteq> []" "activity_event_kind_value k \<noteq> []"
  by (cases st; simp) (cases k; simp)

lemma payload_reads:
  assumes "congruent_evidence q r v a k worker key fp"
  shows "payload_run_id (lifecycle_payload q r v) = Inr (run_key r)"
    "payload_text (lifecycle_payload q r v) ''execution_request_id'' = Inr (request_key_of q)"
    "payload_text (lifecycle_payload q r v) ''plan_id'' = Inr (ident_plan (request_ident q))"
    "payload_text (lifecycle_payload q r v) ''run_status'' = Inr (run_status_value (run_state r))"
    "payload_text (lifecycle_payload q r v) ''event_id'' = Inr (row_event v)"
    "payload_text (lifecycle_payload q r v) ''event_type'' = Inr (activity_event_kind_value (row_kind v))"
    "payload_positive_integer (lifecycle_payload q r v) ''event_ordinal'' = Inr (row_ordinal v)"
    "request_claim q = Some c \<Longrightarrow>
       payload_positive_integer (lifecycle_payload q r v) ''claim_generation'' = Inr (claim_generation c)"
proof -
  have ok: "accepted check_request q" "accepted check_run r" "accepted check_row v"
    using assms by (simp_all add: congruent_evidence_def)
  have "request_key_of q \<noteq> []" "ident_plan (request_ident q) \<noteq> []" "row_event v \<noteq> []" "\<not> row_ordinal v < 1"
    "is_canonical_run_identity (run_key r)"
    using accepted_request_texts [OF ok(1)] accepted_row_texts [OF ok(3)] accepted_run_key [OF ok(2)]
    by simp_all
  then show "payload_run_id (lifecycle_payload q r v) = Inr (run_key r)"
    "payload_text (lifecycle_payload q r v) ''execution_request_id'' = Inr (request_key_of q)"
    "payload_text (lifecycle_payload q r v) ''plan_id'' = Inr (ident_plan (request_ident q))"
    "payload_text (lifecycle_payload q r v) ''run_status'' = Inr (run_status_value (run_state r))"
    "payload_text (lifecycle_payload q r v) ''event_id'' = Inr (row_event v)"
    "payload_text (lifecycle_payload q r v) ''event_type'' = Inr (activity_event_kind_value (row_kind v))"
    "payload_positive_integer (lifecycle_payload q r v) ''event_ordinal'' = Inr (row_ordinal v)"
    by (simp_all add: payload_run_id_def payload_text_def payload_positive_integer_def payload_lookups
        status_value_nonempty make_run_id_def)
  show "payload_positive_integer (lifecycle_payload q r v) ''claim_generation'' = Inr (claim_generation c)"
    if c: "request_claim q = Some c"
    using accepted_request_claim [OF ok(1) c]
    by (simp add: payload_positive_integer_def payload_lookups(8) [OF c])
qed

lemma any_holds_none: "set ts \<subseteq> {Inr False} \<Longrightarrow> any_holds ts = Inr False"
  by (induction ts) auto

lemma replay_recorded:
  assumes "congruent_evidence q r v a k worker key fp" and "request_claim q = Some c"
    and "get_run s (run_key r) = Inr r'" and "same_run r r'" and "get_event s (row_event v) = Inr v"
    and "k = OpClaimRun \<Longrightarrow> claim_worker c = worker" and "locked = None \<or> locked = Some r'"
    and "expected = None \<or> expected = Some k"
    and "\<And>f. fence = Some f \<Longrightarrow> worker = lease_worker f \<and> claim_generation c = lease_generation f"
  shows "replay s q a fp locked expected fence =
     Inr \<lparr>result_request = q, result_run = r', result_event = v, result_action = a, result_replayed = True\<rparr>"
proof -
  have a: "action_session a = ident_session (request_ident q)" "action_type a = LifecycleAction k"
    "action_actor a = worker" "action_payload a = lifecycle_payload q r v" "action_intent a = Some fp"
    using assms(1) by (simp_all add: congruent_evidence_def)
  note reads = payload_reads [OF assms(1)] payload_reads(8) [OF assms(1,2)]
  have active: "claim_still_active q a = Inr ()"
    using assms(1,2,6) by (simp add: claim_still_active_def a reads congruent_evidence_def requireR_def)
  have "replay_incongruent q a r' v (run_key r) (run_state r) (row_kind v) expected fence = Inr False"
    unfolding replay_incongruent_def
    by (rule any_holds_none)
      (use assms in \<open>auto simp: a reads differs_def congruent_evidence_def same_run_def split: option.splits\<close>)
  with assms active show ?thesis
    by (auto simp: replay_def a reads congruent_evidence_def missing_as_def split: option.splits)
qed

end
