(* ===== verification/Run_Invariant.thy ===== *)
theory Run_Invariant
  imports Run_Lifecycle_Laws
begin

text \<open>
  The invariant of the store that the run lifecycle keeps: unique keys, at most one active run per
  request, and for every run a journal numbered from one whose status events form a path of
  the declared run machine that ends in the status of the run's row.
\<close>

section \<open>The invariant\<close>

text \<open>The status a run has after an event; \<open>None\<close> for the events that do not change it.\<close>

fun status_of_kind :: "activity_event_kind \<Rightarrow> run_status option" where
  "status_of_kind Ev_RUN_OPENED = Some RunClaimed"
| "status_of_kind Ev_RUN_STARTED = Some RunRunning"
| "status_of_kind Ev_RUN_PAUSED = Some RunPaused"
| "status_of_kind Ev_RUN_RESUMED = Some RunRunning"
| "status_of_kind Ev_RUN_SUCCEEDED = Some RunSucceeded"
| "status_of_kind Ev_RUN_FAILED = Some RunFailed"
| "status_of_kind Ev_RUN_CANCELLED = Some RunCancelled"
| "status_of_kind Ev_RUN_COMPENSATION_STARTED = Some RunCompensating"
| "status_of_kind Ev_RUN_COMPENSATION_SUCCEEDED = Some RunCompensated"
| "status_of_kind Ev_RUN_COMPENSATION_FAILED = Some RunPartiallyFailed"
| "status_of_kind Ev_RUN_UNCOMPENSATED_FAILURE_ACCEPTED = Some RunUncompensatedFailure"
| "status_of_kind k = None"

definition status_path :: "activity_event list \<Rightarrow> run_status list" where
  "status_path vs = List.map_filter (\<lambda>v. status_of_kind (row_kind v)) vs"

definition machine_path :: "run_status list \<Rightarrow> run_status \<Rightarrow> bool" where
  "machine_path p st \<longleftrightarrow> p \<noteq> [] \<and> hd p = RunClaimed \<and> last p = st \<and>
     successively (\<lambda>a b. (a, b) \<in> set declared_transitions) p"

definition numbered :: "int list \<Rightarrow> bool" where
  "numbered ns \<longleftrightarrow> ns = [1..int (length ns)]"

definition keys_unique :: "ops_store \<Rightarrow> bool" where
  "keys_unique s \<longleftrightarrow> distinct (map session_id (db_sessions s)) \<and>
     distinct (map request_key_of (db_requests s)) \<and> distinct (map run_key (db_runs s)) \<and>
     distinct (map row_event (db_events s)) \<and> distinct (map action_id (db_actions s))"

definition runs_sound :: "ops_store \<Rightarrow> bool" where
  "runs_sound s \<longleftrightarrow> (\<forall>r\<in>set (db_runs s). accepted check_run r \<and> run_row_ok r \<and>
     list_ex (request_of_run r) (db_requests s) \<and> \<not> list_ex (active_conflict r) (db_runs s))"

definition journal_sound :: "ops_store \<Rightarrow> bool" where
  "journal_sound s \<longleftrightarrow> (\<forall>v\<in>set (db_events s). row_run v \<in> run_key ` set (db_runs s)) \<and>
     (\<forall>r\<in>set (db_runs s). numbered (map row_ordinal (events_of_run s (run_key r))) \<and>
        machine_path (status_path (events_of_run s (run_key r))) (run_state r))"

definition session_actions :: "ops_store \<Rightarrow> string \<Rightarrow> operation_action list" where
  "session_actions s i = filter (\<lambda>a. action_session a = i) (db_actions s)"

definition actions_sound :: "ops_store \<Rightarrow> bool" where
  "actions_sound s \<longleftrightarrow> (\<forall>i. numbered (map action_ordinal (session_actions s i)) \<and>
     distinct (List.map_filter action_key (session_actions s i)))"

definition store_sound :: "ops_store \<Rightarrow> bool" where
  "store_sound s \<longleftrightarrow> keys_unique s \<and> runs_sound s \<and> journal_sound s \<and> actions_sound s"

section \<open>Numbers and paths\<close>

lemma fold_max_numbered: "numbered ns \<Longrightarrow> next_ordinal ns = int (length ns) + 1"
proof -
  have "fold max [1..int n] 0 = int n" for n
  proof (induction n)
    case (Suc n)
    have "[1..int (Suc n)] = [1..int n] @ [int (Suc n)]"
      using upto_rec2 [of 1 "int (Suc n)"] by simp
    with Suc show ?case by simp
  qed simp
  then show "numbered ns \<Longrightarrow> next_ordinal ns = int (length ns) + 1"
    unfolding numbered_def next_ordinal_def by metis
qed

lemma numbered_next: "numbered ns \<Longrightarrow> numbered (ns @ [next_ordinal ns])"
  using upto_rec2 [of 1 "int (Suc (length ns))"] by (simp add: fold_max_numbered) (simp add: numbered_def)

lemma numbered_first: "numbered [next_ordinal []]"
  by (simp add: numbered_def next_ordinal_def)

lemma status_path_append: "status_path (vs @ ws) = status_path vs @ status_path ws"
  by (simp add: status_path_def List.map_filter_def)

lemma status_path_one:
  "status_path [v] = (case status_of_kind (row_kind v) of None \<Rightarrow> [] | Some st \<Rightarrow> [st])"
  by (simp add: status_path_def List.map_filter_def split: option.splits)

lemma machine_path_step:
  "machine_path p st \<Longrightarrow> (st, st') \<in> set declared_transitions \<Longrightarrow> machine_path (p @ [st']) st'"
  by (auto simp: machine_path_def successively_append_iff)

lemma events_of_run_append:
  "db_events s' = db_events s @ [v] \<Longrightarrow>
     events_of_run s' i = events_of_run s i @ (if row_run v = i then [v] else [])"
  by (simp add: events_of_run_def)

lemma session_actions_append:
  "db_actions s' = db_actions s @ [a] \<Longrightarrow>
     session_actions s' i = session_actions s i @ (if action_session a = i then [a] else [])"
  by (simp add: session_actions_def)

lemma map_filter_append: "List.map_filter f (xs @ ys) = List.map_filter f xs @ List.map_filter f ys"
  by (simp add: List.map_filter_def)

section \<open>Appending an action\<close>

lemma actions_sound_append:
  assumes "actions_sound s" and "db_actions s' = db_actions s @ [a]"
    and "action_ordinal a = next_ordinal (map action_ordinal (session_actions s (action_session a)))"
    and "\<not> list_ex (key_conflict a) (db_actions s)"
  shows "actions_sound s'"
  unfolding actions_sound_def
proof
  fix i
  have old: "numbered (map action_ordinal (session_actions s i))"
    "distinct (List.map_filter action_key (session_actions s i))"
    using assms(1) by (simp_all add: actions_sound_def)
  have "k \<notin> set (List.map_filter action_key (session_actions s (action_session a)))"
    if "action_key a = Some k" for k
    using assms(4) that by (auto simp: list_ex_iff key_conflict_def session_actions_def List.map_filter_def)
  then show "numbered (map action_ordinal (session_actions s' i)) \<and>
      distinct (List.map_filter action_key (session_actions s' i))"
    using old numbered_next [OF old(1)] assms(3)
    by (auto simp: session_actions_append [OF assms(2)] map_filter_append List.map_filter_simps
        split: option.splits)
qed

section \<open>A status event of a run\<close>

text \<open>The row of a run moves by a declared transition and the journal gains the matching event.\<close>

lemma journal_sound_moved:
  assumes "journal_sound s" and "r0 \<in> set (db_runs s)" and "distinct (map run_key (db_runs s))"
    and "run_key r = run_key r0" and "(run_state r0, run_state r) \<in> set declared_transitions"
    and "status_of_kind (row_kind v) = Some (run_state r)" and "row_run v = run_key r"
    and "row_ordinal v = next_ordinal (map row_ordinal (events_of_run s (run_key r)))"
    and "db_runs s' = map (\<lambda>q. if run_key q = run_key r then r else q) (db_runs s)"
    and "db_events s' = db_events s @ [v]"
  shows "journal_sound s'"
proof -
  have keys: "run_key ` set (db_runs s') = run_key ` set (db_runs s)"
    unfolding assms(9) set_map image_image by (rule image_cong) simp_all
  have old: "numbered (map row_ordinal (events_of_run s (run_key q)))"
    "machine_path (status_path (events_of_run s (run_key q))) (run_state q)" if "q \<in> set (db_runs s)" for q
    using assms(1) that by (simp_all add: journal_sound_def)
  have "numbered (map row_ordinal (events_of_run s' (run_key q))) \<and>
      machine_path (status_path (events_of_run s' (run_key q))) (run_state q)"
    if q: "q \<in> set (db_runs s')" for q
  proof (cases "run_key q = run_key r")
    case True
    then have "q = r" using q assms(9) by (auto split: if_splits)
    have m: "machine_path (status_path (events_of_run s (run_key r))) (run_state r0)"
      using old(2) [OF assms(2)] by (simp add: assms(4))
    have n: "numbered (map row_ordinal (events_of_run s (run_key r)))"
      using old(1) [OF assms(2)] by (simp add: assms(4))
    show ?thesis
      using numbered_next [OF n] machine_path_step [OF m assms(5)]
      by (simp add: \<open>q = r\<close> events_of_run_append [OF assms(10)] assms(6-8) status_path_append status_path_one)
  next
    case False
    with q have "q \<in> set (db_runs s)" by (auto simp: assms(9) split: if_splits)
    from old [OF this] False show ?thesis
      by (simp add: events_of_run_append [OF assms(10)] assms(7))
  qed
  moreover have "row_run w \<in> run_key ` set (db_runs s')" if "w \<in> set (db_events s')" for w
    using that assms(1,2,4,7,10) unfolding keys journal_sound_def by auto
  ultimately show ?thesis by (simp add: journal_sound_def)
qed

lemma journal_sound_opened:
  assumes "journal_sound s" and "run_key r \<notin> run_key ` set (db_runs s)" and "run_state r = RunClaimed"
    and "row_kind v = Ev_RUN_OPENED" and "row_run v = run_key r"
    and "row_ordinal v = next_ordinal (map row_ordinal (events_of_run s (run_key r)))"
    and "db_runs s' = db_runs s @ [r]" and "db_events s' = db_events s @ [v]"
  shows "journal_sound s'"
proof -
  have none: "events_of_run s (run_key r) = []"
    using assms(1,2) unfolding journal_sound_def events_of_run_def filter_empty_conv by metis
  have "numbered (map row_ordinal (events_of_run s' (run_key q))) \<and>
      machine_path (status_path (events_of_run s' (run_key q))) (run_state q)"
    if q: "q \<in> set (db_runs s')" for q
  proof (cases "q = r")
    case True
    then show ?thesis
      using numbered_first by (simp add: events_of_run_append [OF assms(8)] none assms(3-6)
          status_path_one machine_path_def)
  next
    case False
    with q assms(2) have "q \<in> set (db_runs s)" "run_key q \<noteq> run_key r" by (auto simp: assms(7) image_iff)
    with assms(1) show ?thesis
      by (simp add: events_of_run_append [OF assms(8)] assms(5) journal_sound_def)
  qed
  with assms(1,5,7,8) show ?thesis by (auto simp: journal_sound_def)
qed

section \<open>The two commits\<close>

lemma map_key_replaced: "map k (map (\<lambda>x. if k x = k r then r else x) xs) = map k xs"
  by simp

lemma request_of_claimed:
  "request_key_of (claimed_as ob le w n q) = request_key_of q"
  "request_ident (claimed_as ob le w n q) = request_ident q"
  by (simp_all add: claimed_as_def request_key_of_def)

lemma request_of_run_replaced:
  "request_ident q' = request_ident q \<Longrightarrow> find (\<lambda>x. request_key_of x = i) xs = Some q \<Longrightarrow>
     distinct (map request_key_of xs) \<Longrightarrow>
     list_ex (request_of_run r) (map (\<lambda>x. if request_key_of x = request_key_of q' then q' else x) xs) =
     list_ex (request_of_run r) xs"
proof -
  assume q: "request_ident q' = request_ident q" "find (\<lambda>x. request_key_of x = i) xs = Some q"
    and d: "distinct (map request_key_of xs)"
  have "request_of_run r (if request_key_of x = request_key_of q' then q' else x) = request_of_run r x"
    if "x \<in> set xs" for x
  proof -
    have "q \<in> set xs" using q(2) by (auto simp: find_Some_iff)
    with d that have "x = q" if "request_key_of x = request_key_of q"
      using that by (auto simp: distinct_map dest: inj_onD)
    moreover have "request_key_of q' = request_key_of q" using q(1) by (simp add: request_key_of_def)
    ultimately show ?thesis using q(1) by (auto simp: request_of_run_def)
  qed
  then show ?thesis unfolding list_ex_iff set_map by (metis (no_types, lifting) image_iff)
qed

lemma store_sound_claimed:
  assumes "store_sound s" and "get_request s i = Inr q" and "request_ident q' = request_ident q"
    and "accepted check_run r" and "run_fits r (put_request q' s)" and "run_state r = RunClaimed"
    and "event_fits v s1" and "db_events s1 = db_events s"
    and "row_kind v = Ev_RUN_OPENED" and "row_run v = run_key r"
    and "row_ordinal v = next_ordinal (map row_ordinal (events_of_run s (run_key r)))"
    and "action_fits a s2" and "db_actions s2 = db_actions s"
    and "action_ordinal a = next_ordinal (map action_ordinal (session_actions s (action_session a)))"
    and "s' = (put_request q' s)\<lparr>db_runs := db_runs s @ [r], db_events := db_events s @ [v],
       db_actions := db_actions s @ [a]\<rparr>"
  shows "store_sound s'"
proof -
  have sound: "keys_unique s" "runs_sound s" "journal_sound s" "actions_sound s"
    using assms(1) by (simp_all add: store_sound_def)
  have fits: "run_row_ok r" "run_key r \<notin> run_key ` set (db_runs s)"
    "\<not> list_ex (active_conflict r) (db_runs s)"
    "list_ex (request_of_run r) (db_requests (put_request q' s))"
    using assms(5) by (simp_all add: run_fits_def put_request_def)
  have "keys_unique s'"
    using sound(1) fits(2) assms(7,8,12,13)
    by (simp add: keys_unique_def assms(15) put_request_def event_fits_def action_fits_def comp_def
        if_distrib [of request_key_of] cong: if_cong)
  moreover have "runs_sound s'"
  proof -
    have linked: "list_ex (request_of_run x) (db_requests s') = list_ex (request_of_run x) (db_requests s)" for x
      using request_of_run_replaced [OF assms(3), of i "db_requests s" x] assms(2) sound(1)
      by (simp add: assms(15) put_request_def requests.get_iff keys_unique_def)
    have "\<not> active_conflict x r" if "x \<in> set (db_runs s)" for x
      using fits(3) that by (auto simp: list_ex_iff active_conflict_def)
    with sound(2) fits assms(4) linked show ?thesis
      by (auto simp: runs_sound_def assms(15) put_request_def active_conflict_def)
  qed
  moreover have "journal_sound s'"
    by (rule journal_sound_opened [OF sound(3) fits(2) assms(6,9,10,11)]) (simp_all add: assms(15) put_request_def)
  moreover have "actions_sound s'"
    by (rule actions_sound_append [OF sound(4) _ assms(14)])
      (use assms(12,13,15) in \<open>simp_all add: action_fits_def put_request_def\<close>)
  ultimately show ?thesis by (simp add: store_sound_def)
qed

lemma store_sound_moved:
  assumes "store_sound s" and "r0 \<in> set (db_runs s)" and "same_run r0 r"
    and "run_row_ok r" and "accepted check_run r" and "\<not> list_ex (active_conflict r) (db_runs s)"
    and "(run_state r0, run_state r) \<in> set declared_transitions"
    and "status_of_kind (row_kind v) = Some (run_state r)" and "row_run v = run_key r"
    and "row_ordinal v = next_ordinal (map row_ordinal (events_of_run s (run_key r)))"
    and "event_fits v s1" and "db_events s1 = db_events s"
    and "action_fits a s2" and "db_actions s2 = db_actions s"
    and "action_ordinal a = next_ordinal (map action_ordinal (session_actions s (action_session a)))"
    and "s' = (put_run r s)\<lparr>db_events := db_events s @ [v], db_actions := db_actions s @ [a]\<rparr>"
  shows "store_sound s'"
proof -
  have sound: "keys_unique s" "runs_sound s" "journal_sound s" "actions_sound s"
    using assms(1) by (simp_all add: store_sound_def)
  have key: "run_key r = run_key r0" using assms(3) by (simp add: same_run_def)
  have "keys_unique s'"
    using sound(1) assms(11,12,13,14)
    by (simp add: keys_unique_def assms(16) put_run_def event_fits_def action_fits_def comp_def
        if_distrib [of run_key] cong: if_cong)
  moreover have "runs_sound s'"
  proof -
    have linked: "request_of_run r = request_of_run r0"
      using assms(3) by (auto simp: same_run_def request_of_run_def)
    have new: "\<not> active_conflict x r \<and> \<not> active_conflict r x" if "x \<in> set (db_runs s)" for x
      using assms(6) that by (auto simp: list_ex_iff active_conflict_def)
    have "\<not> active_conflict x y" if "x \<in> set (db_runs s')" "y \<in> set (db_runs s')" for x y
      using that new sound(2)
      by (auto simp: assms(16) put_run_def runs_sound_def list_ex_iff active_conflict_def split: if_splits)
    with sound(2) assms(2,4,5) linked show ?thesis
      by (auto simp: runs_sound_def assms(16) put_run_def list_ex_iff)
  qed
  moreover have "journal_sound s'"
    by (rule journal_sound_moved [OF sound(3) assms(2) _ key assms(7,8,9,10)])
      (use sound(1) in \<open>simp_all add: assms(16) put_run_def keys_unique_def\<close>)
  moreover have "actions_sound s'"
    by (rule actions_sound_append [OF sound(4) _ assms(15)])
      (use assms(13,14,16) in \<open>simp_all add: action_fits_def put_run_def\<close>)
  ultimately show ?thesis by (simp add: store_sound_def)
qed

end
