(* ===== verification/Run_Service.thy ===== *)
theory Run_Service
  imports Run_Invariant
begin

text \<open>
  The abstract service: \<open>commits\<close> is the step relation of the commands that change the store, and
  every command the detailed \<open>execute\<close> returns from is such a step or the replay of one. A sequence
  of transactions keeps the invariant of the store and every recorded outcome.
\<close>

section \<open>Commands by kind\<close>

fun operation_of :: "lifecycle_command \<Rightarrow> lifecycle_operation" where
  "operation_of (ClaimAndOpenRun i a n k) = OpClaimRun"
| "operation_of (StartRun c) = OpStartRun"
| "operation_of (PauseRun c v) = OpPauseRun"
| "operation_of (ResumeRun c) = OpResumeRun"
| "operation_of (CompleteRun c v) = OpCompleteRun"
| "operation_of (FailRun c f) = OpFailRun"
| "operation_of (CancelRun c v) = OpCancelRun"

fun idempotency_of :: "lifecycle_command \<Rightarrow> string" where
  "idempotency_of (ClaimAndOpenRun i a n k) = k"
| "idempotency_of (StartRun c) = command_key c"
| "idempotency_of (PauseRun c v) = command_key c"
| "idempotency_of (ResumeRun c) = command_key c"
| "idempotency_of (CompleteRun c v) = command_key c"
| "idempotency_of (FailRun c f) = command_key c"
| "idempotency_of (CancelRun c v) = command_key c"

lemma rule_of_command:
  assumes "rule_of command = Some rule" and "run_command_of command = Some c"
  shows "rule_operation rule = operation_of command" "command_key c = idempotency_of command"
    "command_authority c = command_worker command" "operation_of command \<noteq> OpClaimRun"
  using assms by (cases command; simp; fail | cases command; auto)+

lemma rule_of_result:
  assumes "rule_of command = Some rule"
  shows "lifecycle_result_for (LifecycleAction (rule_operation rule)) =
      Inr (rule_replacement rule, rule_event rule)"
    "status_of_kind (rule_event rule) = Some (rule_replacement rule)"
  using assms by (cases command; auto)+

lemma rule_of_declared:
  assumes "rule_of command = Some rule" and "st \<in> set (rule_expected rule)"
  shows "(st, rule_replacement rule) \<in> set declared_transitions"
proof -
  have rule: "rule = the (rule_of command)" using assms(1) by simp
  show ?thesis
  proof (cases command)
    case (ClaimAndOpenRun i a n k)
    with assms(1) show ?thesis by simp
  qed (use assms(2) in \<open>auto simp: rule declared_transitions_eq\<close>)
qed

section \<open>The step relation\<close>

definition outcome_rows :: "lifecycle_env \<Rightarrow> nat \<Rightarrow> execution_request \<Rightarrow> activity_run \<Rightarrow>
    lifecycle_operation \<Rightarrow> activity_event_kind \<Rightarrow> string \<Rightarrow> string \<Rightarrow> string \<Rightarrow> string \<Rightarrow> ops_store \<Rightarrow>
    activity_event \<Rightarrow> operation_action \<Rightarrow> bool" where
  "outcome_rows env n q r k kind now worker key fp s v a \<longleftrightarrow>
     row_event v = env_ids env n \<and> row_run v = run_key r \<and> row_kind v = kind \<and> occurred_at v = now \<and>
     row_ordinal v = next_ordinal (map row_ordinal (events_of_run s (run_key r))) \<and>
     a = lifecycle_action (env_ids env (Suc n)) (ident_session (request_ident q))
       (next_ordinal (map action_ordinal (session_actions s (ident_session (request_ident q)))))
       k worker (lifecycle_payload q r v) now key fp \<and>
     accepted check_row v \<and> accepted check_action a \<and> event_fits v s \<and>
     action_fits a (s\<lparr>db_events := db_events s @ [v]\<rparr>)"

definition session_open :: "ops_store \<Rightarrow> execution_request \<Rightarrow> bool" where
  "session_open s q \<longleftrightarrow> (\<exists>w. get_session s (ident_session (request_ident q)) = Inr w \<and>
     session_state w = SessionOpen)"

definition owns_claim :: "execution_request \<Rightarrow> run_command \<Rightarrow> bool" where
  "owns_claim q c \<longleftrightarrow> request_state q = RequestClaimed \<and>
     (\<exists>cl. request_claim q = Some cl \<and> claim_worker cl = lease_worker (command_fence c) \<and>
        claim_generation cl = lease_generation (command_fence c)) \<and>
     authority_worker (command_authority c) = lease_worker (command_fence c)"

inductive commits :: "lifecycle_env \<Rightarrow> lifecycle_command \<Rightarrow> ops_store \<Rightarrow> lifecycle_result \<Rightarrow> ops_store \<Rightarrow> bool"
  where
  claim: "\<lbrakk>get_request s i = Inr q; request_state q = RequestQueued;
     \<forall>r\<in>set (db_runs s). run_request r \<noteq> i; session_open s q;
     action_for_idempotency s (ident_session (request_ident q)) k = Inr None;
     q' = claimed_as (env_observed env) (env_lease_end env) (authority_worker a) seconds q;
     accepted check_request q'; r = opened_run q' (env_ids env 0) (env_observed env);
     accepted check_run r; run_fits r (put_request q' s);
     s1 = (put_request q' s)\<lparr>db_runs := db_runs s @ [r]\<rparr>;
     outcome_rows env 1 q' r OpClaimRun Ev_RUN_OPENED (env_observed env) (authority_worker a) k
       (command_fingerprint env (ClaimAndOpenRun i a seconds k)) s1 v act;
     s' = s1\<lparr>db_events := db_events s1 @ [v], db_actions := db_actions s1 @ [act]\<rparr>\<rbrakk> \<Longrightarrow>
     commits env (ClaimAndOpenRun i a seconds k) s
       \<lparr>result_request = q', result_run = r, result_event = v, result_action = act,
         result_replayed = False\<rparr> s'"
| move: "\<lbrakk>rule_of command = Some rule; run_command_of command = Some c;
     get_run s (command_run c) = Inr r; get_request s (run_request r) = Inr q; session_open s q;
     action_for_idempotency s (ident_session (request_ident q)) (command_key c) = Inr None;
     owns_claim q c; run_state r \<in> set (rule_expected rule); run_settled r = None;
     same_run r r'; run_state r' = rule_replacement rule;
     run_row_ok r'; accepted check_run r'; \<not> list_ex (active_conflict r') (db_runs s);
     s1 = put_run r' s;
     outcome_rows env 0 q r' (rule_operation rule) (rule_event rule) (env_now env)
       (authority_worker (command_authority c)) (command_key c) (command_fingerprint env command) s1 v act;
     s' = s1\<lparr>db_events := db_events s1 @ [v], db_actions := db_actions s1 @ [act]\<rparr>\<rbrakk> \<Longrightarrow>
     commits env command s
       \<lparr>result_request = q, result_run = r', result_event = v, result_action = act,
         result_replayed = False\<rparr> s'"

inductive_cases commitsE: "commits env command s res s'"

lemma commits_new: "commits env command s res s' \<Longrightarrow> \<not> result_replayed res"
  by (erule commitsE) simp_all

section \<open>The detailed service refines it\<close>

lemma outcome_rows_of:
  assumes "record_outcome env n q r k kind now evidence failure worker key fp s = Inr (res, s')"
  obtains v a where "outcome_rows env n q r k kind now worker key fp s v a"
    "s' = s\<lparr>db_events := db_events s @ [v], db_actions := db_actions s @ [a]\<rparr>"
    "res = \<lparr>result_request = q, result_run = r, result_event = v, result_action = a,
       result_replayed = False\<rparr>"
  using assms
  by (rule record_outcome_Inr)
    (rule that, auto simp: outcome_rows_def lifecycle_event_def session_actions_def)

lemma claim_fence_Inr: "claim_fence cl = Inr f \<Longrightarrow>
    f = \<lparr>lease_worker = claim_worker cl, lease_generation = claim_generation cl\<rparr>"
  by (auto simp: claim_fence_def check_lease_fence_def split: if_splits)

lemma claim_fence_accepted: "check_claim cl = Inr cl \<Longrightarrow>
    claim_fence cl = Inr \<lparr>lease_worker = claim_worker cl, lease_generation = claim_generation cl\<rparr>"
  by (auto simp: claim_fence_def check_lease_fence_def check_claim_def bindR_Inr_iff result_simps
      split: if_splits)

lemma require_worker_owns_Inr:
  "accepted check_request q \<Longrightarrow>
     require_worker_owns q (command_authority c) (command_fence c) = Inr u \<longleftrightarrow> owns_claim q c"
proof -
  assume q: "accepted check_request q"
  show ?thesis
  proof (cases "request_claim q")
    case (Some cl)
    with accepted_request_claim [OF q] have "check_claim cl = Inr cl" "request_state q = RequestClaimed"
      by simp_all
    then show ?thesis
      by (cases "command_fence c") (auto simp: require_worker_owns_def owns_claim_def Some claim_fence_accepted)
  qed (simp add: require_worker_owns_def owns_claim_def Let_def)
qed

lemma replay_replayed: "replay s q a fp locked expected fence = Inr res \<Longrightarrow> result_replayed res"
  by (auto simp: replay_def bindR_Inr_iff simp del: bindR_require split: prod.splits)

lemma claim_run_Inr:
  assumes "claim_run env i a seconds k s = Inr (res, s')"
  shows "result_replayed res \<and> s' = s \<or> commits env (ClaimAndOpenRun i a seconds k) s res s'"
proof -
  let ?fp = "command_fingerprint env (ClaimAndOpenRun i a seconds k)"
  from assms obtain locator existing where
    q: "get_request s i = Inr locator"
      "action_for_idempotency s (ident_session (request_ident locator)) k = Inr existing"
    and rest: "(case existing of
          Some prior \<Rightarrow> bindR (find_request s i) (\<lambda>q.
            bindR (replay s q prior ?fp None None None) (\<lambda>r. Inr (r, s)))
        | None \<Rightarrow> claim_new env i a seconds k ?fp locator s) = Inr (res, s')"
    by (auto simp: claim_run_def Let_def bindR_Inr_iff find_Inr)
  show ?thesis
  proof (cases existing)
    case (Some prior)
    with rest show ?thesis by (auto simp: bindR_Inr_iff dest: replay_replayed)
  next
    case None
    with rest have "claim_new env i a seconds k ?fp locator s = Inr (res, s')" by simp
    then show ?thesis
    proof (rule claim_new_Inr)
      fix q q' r
      assume c: "get_request s i = Inr q" "request_state q = RequestQueued"
        "\<forall>r\<in>set (db_runs s). run_request r \<noteq> i"
        "\<exists>w. get_session s (ident_session (request_ident q)) = Inr w \<and> session_state w = SessionOpen"
        "q' = claimed_as (env_observed env) (env_lease_end env) (authority_worker a) seconds q"
        "accepted check_request q'" "r = opened_run q' (env_ids env 0) (env_observed env)"
        "accepted check_run r" "run_fits r (put_request q' s)"
      assume "record_outcome env 1 q' r OpClaimRun Ev_RUN_OPENED (env_observed env)
       (BoundedEvidence [(''attempt'', PInt 1)]) None (authority_worker a) k ?fp
       ((put_request q' s)\<lparr>db_runs := db_runs s @ [r]\<rparr>) = Inr (res, s')"
      then obtain v act where "outcome_rows env 1 q' r OpClaimRun Ev_RUN_OPENED (env_observed env)
          (authority_worker a) k ?fp ((put_request q' s)\<lparr>db_runs := db_runs s @ [r]\<rparr>) v act"
        "s' = (put_request q' s)\<lparr>db_runs := db_runs s @ [r], db_events := db_events (put_request q' s) @ [v],
          db_actions := db_actions (put_request q' s) @ [act]\<rparr>"
        "res = \<lparr>result_request = q', result_run = r, result_event = v, result_action = act,
           result_replayed = False\<rparr>"
        by (rule outcome_rows_of) simp
      with c q None show ?thesis
        by (auto intro!: commits.claim [of s i] simp: session_open_def)
    qed
  qed
qed

lemma transition_run_Inr:
  assumes "transition_run env c command rule s = Inr (res, s')" and "rule_of command = Some rule"
    and "run_command_of command = Some c" and "keys_unique s"
  shows "result_replayed res \<and> s' = s \<or> commits env command s res s'"
proof -
  let ?fp = "command_fingerprint env command"
  from assms(1) obtain lr locator existing where
    l: "get_run s (command_run c) = Inr lr" "get_request s (run_request lr) = Inr locator"
      "action_for_idempotency s (ident_session (request_ident locator)) (command_key c) = Inr existing"
    and rest: "(case existing of Some prior \<Rightarrow> replay_transition c rule ?fp locator prior s
        | None \<Rightarrow> transition_new env c command rule ?fp (run_request lr) locator s) = Inr (res, s')"
    by (auto simp: transition_run_def Let_def bindR_Inr_iff find_Inr)
  show ?thesis
  proof (cases existing)
    case (Some prior)
    with rest show ?thesis
      by (auto simp: replay_transition_def bindR_Inr_iff split: if_splits dest: replay_replayed)
  next
    case None
    with rest have "transition_new env c command rule ?fp (run_request lr) locator s = Inr (res, s')" by simp
    then show ?thesis
    proof (rule transition_new_Inr)
      fix q r r0 r'
      assume c: "get_request s (run_request lr) = Inr q" "get_run s (command_run c) = Inr r"
        "\<exists>w. get_session s (ident_session (request_ident q)) = Inr w \<and> session_state w = SessionOpen"
        "require_worker_owns q (command_authority c) (command_fence c) = Inr ()"
        and r0: "r0 \<in> set (db_runs s)" "run_key r0 = command_run c" "run_state r0 \<in> set (rule_expected rule)"
        "run_settled r0 = None"
        and r': "r' = r0\<lparr>run_state := rule_replacement rule,
       run_started := coalesce (if rule_started rule \<and> run_started r = None then Some (env_now env) else None)
         (run_started r0),
       run_settled := coalesce (run_settled r0) (if rule_settled rule then Some (env_now env) else None)\<rparr>"
        and ok: "run_row_ok r'" "accepted check_run r'" "\<not> list_ex (active_conflict r') (db_runs s)"
        and rec: "record_outcome env 0 q r' (rule_operation rule) (rule_event rule) (env_now env)
       (command_evidence command) (command_failure command) (authority_worker (command_authority c))
       (command_key c) ?fp (put_run r' s) = Inr (res, s')"
      from rec obtain v act where rows: "outcome_rows env 0 q r' (rule_operation rule) (rule_event rule) (env_now env)
          (authority_worker (command_authority c)) (command_key c) ?fp (put_run r' s) v act"
        "s' = (put_run r' s)\<lparr>db_events := db_events (put_run r' s) @ [v],
          db_actions := db_actions (put_run r' s) @ [act]\<rparr>"
        "res = \<lparr>result_request = q, result_run = r', result_event = v, result_action = act,
           result_replayed = False\<rparr>"
        by (rule outcome_rows_of)
      have q: "locator = q" "lr = r" using l c by simp_all
      have "find (\<lambda>x. run_key x = command_run c) (db_runs s) = Some r0"
        using r0(1,2) assms(4) find_row [of run_key "db_runs s" r0] by (simp add: keys_unique_def)
      then have "r0 = r" using c(2) by (simp add: runs.get_iff)
      have same: "same_run r0 r'" "run_state r' = rule_replacement rule" by (simp_all add: r' same_run_def)
      have owns: "owns_claim q c"
        using c(4) requests.get_row [OF c(1)] by (simp add: require_worker_owns_Inr)
      from c(3) have so: "session_open s q" by (simp add: session_open_def)
      have "commits env command s \<lparr>result_request = q, result_run = r', result_event = v, result_action = act,
           result_replayed = False\<rparr> s'"
        by (rule commits.move [OF assms(2,3) l(1) [unfolded q(2)] l(2) [unfolded q] _ l(3) [unfolded q None] owns _ _ _ _ ok refl
              rows(1,2)])
          (use so r0(3,4) same \<open>r0 = r\<close> q in simp_all)
      then show ?thesis by (simp add: rows(3))
    qed
  qed
qed

theorem execute_refines_commits:
  assumes "execute env command s = Inr (res, s')" and "keys_unique s"
  shows "Scope_EXECUTION_OPERATE \<in> set (authority_scopes (command_worker command)) \<and>
     (result_replayed res \<and> s' = s \<or> commits env command s res s')"
proof -
  from assms(1) have scope: "Scope_EXECUTION_OPERATE \<in> set (authority_scopes (command_worker command))"
    and step: "(\<exists>i a n k. command = ClaimAndOpenRun i a n k \<and> claim_run env i a n k s = Inr (res, s')) \<or>
      (\<exists>c rule. run_command_of command = Some c \<and> rule_of command = Some rule \<and>
         transition_run env c command rule s = Inr (res, s'))"
    by (auto simp: execute_def require_operate_scope_def bindR_Inr_iff split: lifecycle_command.splits if_splits)
  with assms(2) show ?thesis by (auto dest: claim_run_Inr transition_run_Inr)
qed

end
