(* ===== verification/Run_History.thy ===== *)
theory Run_History
  imports Run_Service
begin

text \<open>
  One step of the lifecycle service in a history: it keeps the invariant, only extends the journal and
  the actions, and puts its outcome on record, so that the command sent again returns that outcome.
\<close>

section \<open>The invariant over one step\<close>

lemma commits_sound:
  assumes "commits env command s res s'" and "store_sound s"
  shows "store_sound s'"
  using assms(1)
proof cases
  case (claim i q k q' a seconds r s1 v act)
  note rows = claim(14) [unfolded outcome_rows_def]
  have s1: "db_events s1 = db_events s" "db_actions s1 = db_actions s"
    by (simp_all add: claim(13) put_request_def)
  then have "events_of_run s1 = events_of_run s" "session_actions s1 = session_actions s"
    by (simp_all add: events_of_run_def session_actions_def fun_eq_iff)
  with rows have ordinals: "row_ordinal v = next_ordinal (map row_ordinal (events_of_run s (run_key r)))"
    "action_ordinal act = next_ordinal (map action_ordinal (session_actions s (action_session act)))"
    by (simp_all add: lifecycle_action_def)
  have "request_ident q' = request_ident q" "run_state r = RunClaimed"
    by (simp_all add: claim(8,10) request_of_claimed opened_run_def)
  moreover have "event_fits v s1" "action_fits act (s1\<lparr>db_events := db_events s1 @ [v]\<rparr>)"
    "row_kind v = Ev_RUN_OPENED" "row_run v = run_key r"
    using rows by blast+
  moreover have "s' = (put_request q' s)\<lparr>db_runs := db_runs s @ [r], db_events := db_events s @ [v],
      db_actions := db_actions s @ [act]\<rparr>"
    by (simp add: claim(13,15) put_request_def)
  ultimately show ?thesis
    using store_sound_claimed [OF assms(2) claim(3) _ claim(11,12)] s1 ordinals by simp
next
  case (move rule c r q r' s1 v act)
  note rows = move(17) [unfolded outcome_rows_def]
  have "(run_state r, run_state r') \<in> set declared_transitions"
    using rule_of_declared [OF move(2,9)] by (simp add: move(12))
  moreover have "r \<in> set (db_runs s)" using runs.get_row [OF move(4)] by simp
  moreover have "status_of_kind (row_kind v) = Some (run_state r')"
    using rule_of_result(2) [OF move(2)] rows by (simp add: move(12))
  moreover have s1: "db_events s1 = db_events s" "db_actions s1 = db_actions s"
    by (simp_all add: move(16) put_run_def)
  then have "events_of_run s1 = events_of_run s" "session_actions s1 = session_actions s"
    by (simp_all add: events_of_run_def session_actions_def fun_eq_iff)
  with rows have ordinals: "row_ordinal v = next_ordinal (map row_ordinal (events_of_run s (run_key r')))"
    "action_ordinal act = next_ordinal (map action_ordinal (session_actions s (action_session act)))"
    by (simp_all add: lifecycle_action_def)
  moreover have "event_fits v s1" "action_fits act (s1\<lparr>db_events := db_events s1 @ [v]\<rparr>)" "row_run v = run_key r'"
    using rows by blast+
  moreover have "s' = (put_run r' s)\<lparr>db_events := db_events s @ [v], db_actions := db_actions s @ [act]\<rparr>"
    by (simp add: move(16,18) put_run_def)
  ultimately show ?thesis
    using store_sound_moved [OF assms(2) _ move(11,13,14,15)] s1 by simp
qed

section \<open>What a step keeps\<close>

definition extends :: "ops_store \<Rightarrow> ops_store \<Rightarrow> bool" where
  "extends s s' \<longleftrightarrow> db_sessions s' = db_sessions s \<and>
     (\<forall>i q. get_request s i = Inr q \<longrightarrow> request_state q = RequestClaimed \<longrightarrow> get_request s' i = Inr q) \<and>
     (\<forall>i r. get_run s i = Inr r \<longrightarrow> (\<exists>r'. get_run s' i = Inr r' \<and> same_run r r')) \<and>
     (\<exists>vs. db_events s' = db_events s @ vs) \<and> (\<exists>as. db_actions s' = db_actions s @ as)"

lemma commits_extends:
  assumes "commits env command s res s'" and "store_sound s"
  shows "extends s s'"
  using assms(1)
proof cases
  case (claim i q k q' a seconds r s1 v act)
  have key: "request_key_of q' = i" "request_key_of q = i"
    using requests.get_row [OF claim(3)] by (simp_all add: claim(8) request_of_claimed)
  have "get_request s' j = Inr p" if "get_request s j = Inr p" "request_state p = RequestClaimed" for j p
  proof -
    have "j \<noteq> i" using that claim(3,4) by auto
    then show ?thesis
      using requests.get_replaced_other [of s' q' s j p] that(1) key
      by (simp add: claim(13,15) put_request_def)
  qed
  moreover have "get_run s' j = Inr p" if "get_run s j = Inr p" for j p
    using runs.get_appended [OF that, of s' "[r]"] by (simp add: claim(13,15) put_request_def)
  ultimately show ?thesis
    by (auto simp: extends_def claim(13,15) put_request_def intro: same_run_refl)
next
  case (move rule c r q r' s1 v act)
  have key: "run_key r' = command_run c" "run_key r = command_run c"
    using runs.get_row [OF move(4)] move(11) by (simp_all add: same_run_def)
  have in_keys: "run_key r' \<in> run_key ` set (db_runs s)"
    using runs.get_row [OF move(4)] key by (metis imageI)
  have "\<exists>p'. get_run s' j = Inr p' \<and> same_run p p'" if "get_run s j = Inr p" for j p
  proof (cases "j = command_run c")
    case True
    with that move(4) have "p = r" by simp
    moreover have "get_run s' (run_key r') = Inr r'"
      using in_keys by (intro runs.get_replaced [of s' r' s]) (simp_all add: move(14,16,18) put_run_def)
    ultimately show ?thesis using True key move(11) by auto
  next
    case False
    with runs.get_replaced_other [of s' r' s j p] that key show ?thesis
      by (auto simp: move(16,18) put_run_def)
  qed
  moreover have "get_request s' j = Inr p" if "get_request s j = Inr p" for j p
    using requests.get_cong [of s' s j p] that by (simp add: move(16,18) put_run_def)
  ultimately show ?thesis by (auto simp: extends_def move(16,18) put_run_def)
qed

section \<open>Outcomes on record\<close>

definition holds_claim :: "lifecycle_command \<Rightarrow> lifecycle_result \<Rightarrow> bool" where
  "holds_claim command res \<longleftrightarrow>
     (case run_command_of command of
        Some c \<Rightarrow> command_run c = run_key (result_run res) \<and> owns_claim (result_request res) c
      | None \<Rightarrow> \<exists>a seconds k cl. command = ClaimAndOpenRun (request_key_of (result_request res)) a seconds k \<and>
          request_claim (result_request res) = Some cl \<and> claim_worker cl = authority_worker a)"

definition on_record :: "lifecycle_env \<Rightarrow> lifecycle_command \<Rightarrow> lifecycle_result \<Rightarrow> ops_store \<Rightarrow> bool" where
  "on_record env command res s \<longleftrightarrow>
     Scope_EXECUTION_OPERATE \<in> set (authority_scopes (command_worker command)) \<and>
     get_request s (request_key_of (result_request res)) = Inr (result_request res) \<and>
     (\<exists>r'. get_run s (run_key (result_run res)) = Inr r' \<and> same_run (result_run res) r') \<and>
     get_event s (row_event (result_event res)) = Inr (result_event res) \<and>
     action_for_idempotency s (ident_session (request_ident (result_request res)))
       (idempotency_of command) = Inr (Some (result_action res)) \<and>
     congruent_evidence (result_request res) (result_run res) (result_event res) (result_action res)
       (operation_of command) (authority_worker (command_worker command)) (idempotency_of command)
       (command_fingerprint env command) \<and>
     holds_claim command res"

lemma outcome_rows_recorded:
  assumes "outcome_rows env n q r k kind now worker key fp s v a"
    and "db_events s' = db_events s @ [v]" and "db_actions s' = db_actions s @ [a]"
    and "lifecycle_result_for (LifecycleAction k) = Inr (run_state r, kind)"
    and "run_request r = request_key_of q" and "run_plan r = ident_plan (request_ident q)"
    and "accepted check_request q" and "accepted check_run r" and "request_state q = RequestClaimed"
  shows "get_event s' (row_event v) = Inr v"
    "action_for_idempotency s' (ident_session (request_ident q)) key = Inr (Some a)"
    "congruent_evidence q r v a k worker key fp"
proof -
  note rows = assms(1) [unfolded outcome_rows_def event_fits_def action_fits_def, simplified]
  show "get_event s' (row_event v) = Inr v"
    by (rule events.get_fresh [OF assms(2)]) (use rows in blast)+
  have a: "action_session a = ident_session (request_ident q)" "action_key a = Some key"
    using rows by (simp_all add: lifecycle_action_def)
  show "action_for_idempotency s' (ident_session (request_ident q)) key = Inr (Some a)"
  proof -
    have fresh: "\<not> list_ex (key_conflict a) (db_actions s)"
      using rows by blast
    have "accepted check_action a" using rows by blast
    from recorded_action_fresh [OF assms(3) fresh a(2) this] show ?thesis by (simp only: a(1))
  qed
  show "congruent_evidence q r v a k worker key fp"
    using rows assms(4-9) by (simp add: congruent_evidence_def lifecycle_action_def)
qed

lemma commits_recorded:
  assumes "commits env command s res s'" and "store_sound s"
    and "Scope_EXECUTION_OPERATE \<in> set (authority_scopes (command_worker command))"
  shows "on_record env command res s'"
  using assms(1)
proof cases
  case (claim i q k q' a seconds r s1 v act)
  have key: "request_key_of q' = i" using requests.get_row [OF claim(3)] by (simp add: claim(8) request_of_claimed)
  have in_keys: "request_key_of q' \<in> request_key_of ` set (db_requests s)"
    using requests.get_row [OF claim(3)] key by (metis imageI)
  have r: "run_request r = request_key_of q'" "run_plan r = ident_plan (request_ident q')" "run_state r = RunClaimed"
    by (simp_all add: claim(10) opened_run_def)
  have q': "request_state q' = RequestClaimed" "\<exists>cl. request_claim q' = Some cl \<and> claim_worker cl = authority_worker a"
    by (simp_all add: claim(8) claimed_as_def)
  have "get_request s' (request_key_of q') = Inr q'"
    using in_keys claim(9)
    by (intro requests.get_replaced [of s' q' s]) (simp_all add: claim(13,15) put_request_def)
  moreover have "get_run s' (run_key r) = Inr r"
    using claim(11,12) by (intro runs.get_fresh [of s' s]) (simp_all add: claim(13,15) put_request_def run_fits_def)
  moreover have "get_event s' (row_event v) = Inr v"
    "action_for_idempotency s' (ident_session (request_ident q')) k = Inr (Some act)"
    "congruent_evidence q' r v act OpClaimRun (authority_worker a) k
       (command_fingerprint env (ClaimAndOpenRun i a seconds k))"
    by (rule outcome_rows_recorded [OF claim(14), of s']; use claim(9,11,15) r q' in simp)+
  ultimately show ?thesis
    using assms(3) key q'(2) by (auto simp: on_record_def claim(1,2) holds_claim_def)
next
  case (move rule c r q r' s1 v act)
  note cmd = rule_of_command [OF move(2,3)] and rule = rule_of_result [OF move(2)]
  have key: "run_key r' = command_run c" "run_key r = command_run c"
    using runs.get_row [OF move(4)] move(11) by (simp_all add: same_run_def)
  have q: "request_key_of q = run_request r" "accepted check_request q"
    using requests.get_row [OF move(5)] by simp_all
  have run: "r \<in> set (db_runs s)" using runs.get_row [OF move(4)] by simp
  have plan: "run_plan r = ident_plan (request_ident q)"
  proof -
    from run assms(2) obtain p where p: "p \<in> set (db_requests s)" "request_of_run r p"
      by (auto simp: store_sound_def runs_sound_def list_ex_iff)
    then have "request_key_of p = request_key_of q" by (simp add: request_of_run_def q)
    moreover have "q \<in> set (db_requests s)" using requests.get_row [OF move(5)] by simp
    ultimately have "p = q" using p(1) assms(2)
      by (auto simp: store_sound_def keys_unique_def distinct_map dest: inj_onD)
    with p(2) show ?thesis by (simp add: request_of_run_def)
  qed
  have claimed: "request_state q = RequestClaimed" using move(8) by (simp add: owns_claim_def)
  have r': "run_request r' = request_key_of q" "run_plan r' = ident_plan (request_ident q)"
    using move(11) q(1) plan by (simp_all add: same_run_def)
  have "get_request s' (request_key_of q) = Inr q"
    using requests.get_cong [of s' s "run_request r" q] move(5) q(1) by (simp add: move(16,18) put_run_def)
  moreover have "get_run s' (run_key r') = Inr r'"
    using imageI [OF run, of run_key] key
    by (intro runs.get_replaced [of s' r' s]) (simp_all add: move(14,16,18) put_run_def)
  moreover have "get_event s' (row_event v) = Inr v"
    "action_for_idempotency s' (ident_session (request_ident q)) (command_key c) = Inr (Some act)"
    "congruent_evidence q r' v act (rule_operation rule) (authority_worker (command_authority c)) (command_key c)
       (command_fingerprint env command)"
    by (rule outcome_rows_recorded [OF move(17), of s']; use move(12,14,18) rule(1) r' q(2) claimed in simp)+
  ultimately show ?thesis
    using assms(3) key(1) move(8) by (auto simp: on_record_def move(1,3) holds_claim_def cmd)
qed

section \<open>Sending a command again\<close>

definition again :: "activity_run \<Rightarrow> lifecycle_result \<Rightarrow> lifecycle_result" where
  "again r res = \<lparr>result_request = result_request res, result_run = r, result_event = result_event res,
     result_action = result_action res, result_replayed = True\<rparr>"

lemma recorded_replays:
  assumes "on_record env command res s" and "env_digest env' = env_digest env"
  shows "\<exists>r. get_run s (run_key (result_run res)) = Inr r \<and> same_run (result_run res) r \<and>
     execute env' command s = Inr (again r res, s)"
proof -
  let ?q = "result_request res" and ?r = "result_run res" and ?v = "result_event res" and ?a = "result_action res"
  obtain r where r: "get_run s (run_key ?r) = Inr r" "same_run ?r r"
    using assms(1) by (auto simp: on_record_def)
  have rec: "get_request s (request_key_of ?q) = Inr ?q" "get_event s (row_event ?v) = Inr ?v"
      "action_for_idempotency s (ident_session (request_ident ?q)) (idempotency_of command) = Inr (Some ?a)"
    and cong: "congruent_evidence ?q ?r ?v ?a (operation_of command) (authority_worker (command_worker command))
       (idempotency_of command) (command_fingerprint env command)"
    and claim: "holds_claim command res"
    and scope: "require_operate_scope (command_worker command) = Inr ()"
    using assms(1) by (simp_all add: on_record_def require_operate_scope_def requireR_def)
  have fp: "command_fingerprint env' command = command_fingerprint env command"
    using assms(2) by (simp add: command_fingerprint_def)
  have intent: "action_intent ?a = Some (command_fingerprint env command)"
    using cong by (simp add: congruent_evidence_def)
  have q: "find_request s (request_key_of ?q) = Inr ?q" using rec(1) by (simp add: find_Inr)
  have "execute env' command s = Inr (again r res, s)"
  proof (cases "run_command_of command")
    case None
    then obtain a seconds k cl where c: "command = ClaimAndOpenRun (request_key_of ?q) a seconds k"
      "request_claim ?q = Some cl" "claim_worker cl = authority_worker a"
      using claim by (auto simp: holds_claim_def)
    have "replay s ?q ?a (command_fingerprint env command) None None None = Inr (again r res)"
      unfolding again_def
      by (rule replay_recorded [OF cong c(2) r rec(2)]) (simp_all add: c(1,3))
    with rec(3) q scope c(1) show ?thesis
      by (simp add: execute_def claim_run_def fp [unfolded c(1)] Let_def)
  next
    case (Some c)
    obtain rule where rule: "rule_of command = Some rule"
      using Some by (cases command) simp_all
    note cmd = rule_of_command [OF rule Some]
    have own: "command_run c = run_key ?r" "owns_claim ?q c"
      using claim by (simp_all add: holds_claim_def Some)
    obtain cl where cl: "request_claim ?q = Some cl" "claim_worker cl = lease_worker (command_fence c)"
      "claim_generation cl = lease_generation (command_fence c)"
      "authority_worker (command_authority c) = lease_worker (command_fence c)"
      using own(2) by (auto simp: owns_claim_def)
    have locked: "find_run s (command_run c) = Inr r" using r(1) own(1) by (simp add: find_Inr)
    have req: "run_request r = request_key_of ?q"
      using r(2) cong by (simp add: same_run_def congruent_evidence_def)
    have owns: "require_worker_owns ?q (command_authority c) (command_fence c) = Inr ()"
      using own(2) cong by (simp add: require_worker_owns_Inr congruent_evidence_def)
    have "replay s ?q ?a (command_fingerprint env command) (Some r) (Some (operation_of command))
        (Some (command_fence c)) = Inr (again r res)"
      unfolding again_def
      by (rule replay_recorded [OF cong cl(1) r rec(2)]) (use cl(2-4) cmd in auto)
    with locked q req owns intent
    have "transition_run env' c command rule s = Inr (again r res, s)"
      using rec(3) by (simp add: transition_run_def replay_transition_def Let_def fp cmd
          require_run_request_linkage_def requireR_def)
    with scope rule Some show ?thesis
      by (cases command) (simp_all add: execute_def)
  qed
  with r show ?thesis by blast
qed

end
