(* ===== verification/Lease_Laws.thy ===== *)
theory Lease_Laws
  imports Retry_Service Run_History
begin

text \<open>
  What a recovery or a retry that returns has checked and written. \<open>recovers\<close> and \<open>retries\<close> are
  the steps of the abstract service, and the detailed interpreters refine them.
\<close>

section \<open>Readers\<close>

lemma invalid_as_Inr [result_simps]: "invalid_as e r = Inr x \<longleftrightarrow> r = Inr x"
  by (auto simp: invalid_as_def split: sum.splits ops_exn.splits)

lemma reading_Inr [result_simps]: "reading m i r = Inr x \<longleftrightarrow> r = Inr x"
  by (simp add: reading_def result_simps)

lemma read_Inr [result_simps]:
  "read_request s i = Inr q \<longleftrightarrow> get_request s i = Inr q"
  "read_latest_run s i = Inr r \<longleftrightarrow> get_latest_run_for_request s i = Inr r"
  "read_events s i = Inr vs \<longleftrightarrow> events_for_run s i = Inr vs"
  "read_open_session s i = Inr w \<longleftrightarrow> get_session s i = Inr w \<and> session_state w = SessionOpen"
  "read_run_of_request s i j = Inr r \<longleftrightarrow> get_run_for_request s i j = Inr r"
  by (auto simp: read_request_def read_latest_run_def read_events_def read_open_session_def
      read_run_of_request_def result_simps split: if_splits)

lemma lease_result_as_Inr: "lease_result_as v = Inr x \<longleftrightarrow> check_lease_result v = Inr x"
  by (auto simp: lease_result_as_def split: sum.splits ops_exn.splits)

lemma check_lease_result_same: "check_lease_result v = Inr x \<Longrightarrow> x = v"
  by (auto simp: check_lease_result_def bindR_Inr_iff)

lemma check_retry_result_same: "check_retry_result v = Inr x \<Longrightarrow> x = v"
  by (auto simp: check_retry_result_def bindR_Inr_iff)

lemma check_lease_recovery_same: "check_lease_recovery r = Inr x \<Longrightarrow> x = r"
  by (auto simp: check_lease_recovery_def bindR_Inr_iff split: if_splits)

text \<open>The latest run of a request has the greatest attempt.\<close>

lemma last_sort_key:
  assumes "rev (sort_key f xs) = x # ys"
  shows "x \<in> set xs \<and> (\<forall>y\<in>set xs. f y \<le> f x)"
proof -
  have sorted: "sort_key f xs = rev ys @ [x]" using assms by (metis rev_rev_ident rev.simps(2))
  then have set: "set xs = set (rev ys @ [x])" by (metis set_sort)
  have "sorted (map f (rev ys @ [x]))" using sorted by (metis sorted_sort_key)
  with set show ?thesis by (auto simp: sorted_append)
qed

lemma get_latest_Inr:
  assumes "get_latest_run_for_request s i = Inr r"
  shows "r \<in> set (db_runs s)" "run_request r = i" "accepted check_run r" "record_text_ok i"
    "\<And>q. q \<in> set (db_runs s) \<Longrightarrow> run_request q = i \<Longrightarrow> retry_attempt (run_retry q) \<le> retry_attempt (run_retry r)"
proof -
  from assms obtain ys where "rev (sort_key (\<lambda>r. retry_attempt (run_retry r))
      (filter (\<lambda>r. run_request r = i) (db_runs s))) = r # ys"
    and ok: "accepted check_run r" "record_text_ok i"
    by (auto simp: get_latest_run_for_request_def recovery_request_id_def check_Inr split: list.splits if_splits)
  from last_sort_key [OF this(1)] show "r \<in> set (db_runs s)" "run_request r = i"
    "\<And>q. q \<in> set (db_runs s) \<Longrightarrow> run_request q = i \<Longrightarrow> retry_attempt (run_retry q) \<le> retry_attempt (run_retry r)"
    by auto
  show "accepted check_run r" "record_text_ok i" by (fact ok)+
qed

lemma get_run_of_request_Inr:
  "get_run_for_request s i j = Inr r \<Longrightarrow>
     r \<in> set (db_runs s) \<and> run_request r = i \<and> run_key r = j \<and> accepted check_run r"
  by (auto simp: get_run_for_request_def recovery_request_id_def bindR_Inr_iff check_Inr find_Some_iff
      split: option.splits if_splits)

lemma observe_Inr:
  "observe_request_lease now s i = Inr ob \<Longrightarrow>
     \<exists>q c. get_request s i = Inr q \<and> request_claim q = Some c \<and> observed_request ob = q \<and>
       observed_at ob = now \<and> observed_expired ob = lease_expired (lease_expires_at c) now"
  by (auto simp: observe_request_lease_def bindR_Inr_iff split: option.splits)

section \<open>Steps\<close>

definition claim_of :: "execution_request \<Rightarrow> lease_fence \<Rightarrow> claim_identity \<Rightarrow> bool" where
  "claim_of q f c \<longleftrightarrow> request_state q = RequestClaimed \<and> request_claim q = Some c \<and>
     claim_worker c = lease_worker f \<and> claim_generation c = lease_generation f"

text \<open>The request after a recovery: a claim of the next generation, or none.\<close>

definition released :: "execution_request \<Rightarrow> execution_request" where
  "released q = q\<lparr>request_state := RequestAbandoned, request_claim := None\<rparr>"

definition reclaimed :: "execution_request \<Rightarrow> lease_fence \<Rightarrow> string \<Rightarrow> string \<Rightarrow> execution_request" where
  "reclaimed q f now lease_end = q\<lparr>request_claim := Some \<lparr>claim_worker = lease_worker f,
     claim_generation = lease_generation f, claimed_at = now, lease_expires_at = lease_end\<rparr>\<rparr>"

definition recovered_request :: "lease_command \<Rightarrow> string \<Rightarrow> execution_request \<Rightarrow> lease_fence option \<Rightarrow>
    execution_request \<Rightarrow> bool" where
  "recovered_request c now q f q' \<longleftrightarrow>
     (case lease_duration_of c of
        None \<Rightarrow> f = None \<and> q' = released q
      | Some n \<Rightarrow> \<exists>g lease_end. f = Some g \<and> 1 \<le> n \<and> n \<le> 3600 \<and> expires_at now n = Inr lease_end \<and>
          lease_generation g = lease_generation (target_fence (lease_target_of c)) + 1 \<and>
          lease_worker g = (case c of TakeOverClaim t w k \<Rightarrow> w | _ \<Rightarrow> lease_worker (target_fence (lease_target_of c))) \<and>
          q' = reclaimed q g now lease_end)"

definition appended_rows :: "activity_event \<Rightarrow> activity_event \<Rightarrow> operation_action \<Rightarrow> ops_store \<Rightarrow> bool" where
  "appended_rows d w a s \<longleftrightarrow> accepted check_row d \<and> accepted check_row w \<and> accepted check_action a \<and>
     event_fits d s \<and> event_fits w (s\<lparr>db_events := db_events s @ [d]\<rparr>) \<and>
     action_fits a (s\<lparr>db_events := db_events s @ [d, w]\<rparr>) \<and>
     action_ordinal a = next_ordinal (map action_ordinal (session_actions s (action_session a)))"

inductive recovers :: "lifecycle_env \<Rightarrow> lease_command \<Rightarrow> ops_store \<Rightarrow> lease_result \<Rightarrow> ops_store \<Rightarrow> bool"
  where
  recovers: "\<lbrakk>lease_target_of c = t; get_request s (target_request t) = Inr q; claim_of q (target_fence t) cl;
     lease_generation (target_fence t) < max_lease_generation; session_open s q;
     action_for_idempotency s (ident_session (request_ident q)) (target_key t) = Inr None;
     get_latest_run_for_request s (target_request t) = Inr r; run_key r = run_id_value (target_run t);
     run_plan r = ident_plan (request_ident q);
     run_state r = (case c of RenewActiveClaim t n \<Rightarrow> RunClaimed | _ \<Rightarrow> RunFailed);
     locked_recovery_approval s q = Inr p; events_for_run s (run_key r) = Inr vs;
     require_recovery_eligible_journal (lease_decision_kind c) (target_fence t) r (plan_body p) vs = Inr ();
     lease_expired (lease_expires_at cl) (env_observed env) = (case c of RenewActiveClaim t n \<Rightarrow> False | _ \<Rightarrow> True);
     recovered_request c (env_observed env) q f q'; accepted check_request q';
     d = recovery_event (env_ids env 0) (run_key r)
       (next_ordinal (map row_ordinal (events_of_run s (run_key r)))) (env_observed env)
       \<lparr>recovery_decision_kind = lease_decision_kind c, retained_run = target_run t,
         prior_fence = target_fence t, replacement_fence = f\<rparr>;
     w = plain_event (env_ids env 1) (run_key r) (row_ordinal d + 1)
       (the (consequence_kind (lease_decision_kind c))) (env_observed env) no_evidence;
     action_session a = ident_session (request_ident q); action_key a = Some (target_key t);
     action_intent a = Some (lease_fingerprint env c); action_actor a = recovery_actor (target_authority t);
     appended_rows d w a s;
     s' = (put_request q' s)\<lparr>db_events := db_events s @ [d, w], db_actions := db_actions s @ [a]\<rparr>\<rbrakk> \<Longrightarrow>
     recovers env c s \<lparr>lease_request = q', lease_run = r, lease_decision = d, lease_consequence = w,
       lease_action = a, lease_replayed = False\<rparr> s'"

inductive retries :: "lifecycle_env \<Rightarrow> lease_target \<Rightarrow> ops_store \<Rightarrow> retry_result \<Rightarrow> ops_store \<Rightarrow> bool"
  where
  retries: "\<lbrakk>get_request s (target_request t) = Inr q; claim_of q (target_fence t) cl; session_open s q;
     action_for_idempotency s (ident_session (request_ident q)) (target_key t) = Inr None;
     get_latest_run_for_request s (target_request t) = Inr p; run_key p = run_id_value (target_run t);
     run_plan p = ident_plan (request_ident q); run_state p = RunFailed;
     retry_attempt (run_retry p) < max_run_attempt;
     locked_recovery_approval s q = Inr plan; events_for_run s (run_key p) = Inr vs;
     require_recovery_eligible_journal ChooseRetryAsNewRun (target_fence t) p (plan_body plan) vs = Inr ();
     \<not> lease_expired (lease_expires_at cl) (env_observed env);
     r = retried_run q p (env_ids env 0) (env_observed env) metadata; accepted check_run r; run_fits r s;
     d = recovery_event (env_ids env 1) (run_key p)
       (next_ordinal (map row_ordinal (events_of_run s (run_key p)))) (env_observed env)
       \<lparr>recovery_decision_kind = ChooseRetryAsNewRun, retained_run = RunId (run_key p),
         prior_fence = target_fence t, replacement_fence = Some (target_fence t)\<rparr>;
     w = plain_event (env_ids env 2) (run_key r) 1 Ev_RUN_OPENED (env_observed env) metadata;
     action_session a = ident_session (request_ident q); action_key a = Some (target_key t);
     action_intent a = Some (retry_fingerprint env t); action_actor a = recovery_actor (target_authority t);
     appended_rows d w a (s\<lparr>db_runs := db_runs s @ [r]\<rparr>);
     s' = s\<lparr>db_runs := db_runs s @ [r], db_events := db_events s @ [d, w], db_actions := db_actions s @ [a]\<rparr>\<rbrakk> \<Longrightarrow>
     retries env t s \<lparr>retry_request = q, retry_prior = p, retry_run = r, retry_decision = d,
       retry_opened = w, retry_action = a, retry_replayed = False\<rparr> s'"

inductive_cases recoversE: "recovers env c s v s'"
inductive_cases retriesE: "retries env t s v s'"


section \<open>Writing a recovery\<close>

lemma request_by_key:
  "keys_unique s \<Longrightarrow> get_request s i = Inr q \<Longrightarrow> p \<in> set (db_requests s) \<Longrightarrow> request_key_of p = i \<Longrightarrow> p = q"
  using requests.get_row [of s i q] by (auto simp: keys_unique_def distinct_map dest: inj_onD)

lemma rotate_Inr:
  assumes "rotate_request_claim le i f g now n s = Inr (Some q', s')" and "keys_unique s"
    and "get_request s i = Inr q"
  shows "q' = reclaimed q g now (le now n)" "1 \<le> n" "n \<le> 3600" "s' = put_request q' s"
    "lease_generation g = lease_generation f + 1" "accepted check_request q'"
proof -
  obtain p where p: "find (claim_carries i f) (db_requests s) = Some p"
    using assms(1) by (cases "find (claim_carries i f) (db_requests s)")
      (simp_all add: rotate_request_claim_def bindR_Inr_iff split: if_splits)
  have "check_request (reclaimed p g now (le now n)) = Inr q'" and w: "1 \<le> n" "n \<le> 3600"
      "s' = put_request q' s" "lease_generation g = lease_generation f + 1"
    using assms(1) by (simp_all add: rotate_request_claim_def bindR_Inr_iff p reclaimed_def
        recovery_fence_pair_def split: if_splits)
  note w = this [unfolded check_Inr]
  from p have "p \<in> set (db_requests s)" "request_key_of p = i"
    by (auto simp: find_Some_iff claim_carries_def)
  with assms(2,3) have "p = q" by (blast intro: request_by_key)
  with w show "q' = reclaimed q g now (le now n)" "1 \<le> n" "n \<le> 3600" "s' = put_request q' s"
    "lease_generation g = lease_generation f + 1" "accepted check_request q'" by simp_all
qed

lemma abandon_Inr:
  assumes "abandon_request_claim i f now s = Inr (Some q', s')" and "keys_unique s"
    and "get_request s i = Inr q"
  shows "q' = released q" "s' = put_request q' s" "accepted check_request q'"
    "\<exists>cl. request_claim q = Some cl \<and> lease_expired (lease_expires_at cl) now"
proof -
  let ?P = "\<lambda>q. claim_carries i f q \<and>
      (case request_claim q of None \<Rightarrow> False | Some c \<Rightarrow> lease_expired (lease_expires_at c) now)"
  obtain p where p: "find ?P (db_requests s) = Some p"
    using assms(1) by (cases "find ?P (db_requests s)") (simp_all add: abandon_request_claim_def bindR_Inr_iff)
  have "check_request (released p) = Inr q'" "s' = put_request q' s"
    using assms(1) by (simp_all add: abandon_request_claim_def bindR_Inr_iff p released_def)
  note w = this [unfolded check_Inr]
  from p have "p \<in> set (db_requests s)" "request_key_of p = i"
    "\<exists>cl. request_claim p = Some cl \<and> lease_expired (lease_expires_at cl) now"
    by (auto simp: find_Some_iff claim_carries_def split: option.splits)
  moreover from this assms(2,3) have "p = q" by (blast intro: request_by_key)
  ultimately show "q' = released q" "s' = put_request q' s" "accepted check_request q'"
    "\<exists>cl. request_claim q = Some cl \<and> lease_expired (lease_expires_at cl) now" using w by simp_all
qed

lemma appended_rows_of:
  assumes "add_event d s = Inr s1" and "add_event w s1 = Inr s2" and "add_action a s2 = Inr s3"
    and "accepted check_row d" and "accepted check_row w" and "accepted check_action a"
    and "next_action_ordinal s (action_session a) = Inr (action_ordinal a)"
  shows "appended_rows d w a s" "s3 = s\<lparr>db_events := db_events s @ [d, w], db_actions := db_actions s @ [a]\<rparr>"
  using add_event_Inr [OF assms(1)] add_event_Inr [OF assms(2)] add_action_Inr [OF assms(3)] assms(4-6)
    next_action_ordinal_Inr [OF assms(7)]
  by (simp_all add: appended_rows_def session_actions_def)

lemma plan_lease_Inr:
  assumes "plan_lease_result env c q r now n m = Inr v"
  obtains f d w a where "replacement_of c = Inr f"
    "planned_request q c f now = Inr (lease_request v)"
    "d = recovery_event (env_ids env 0) (run_key r) n now
       \<lparr>recovery_decision_kind = lease_decision_kind c, retained_run = target_run (lease_target_of c),
         prior_fence = target_fence (lease_target_of c), replacement_fence = f\<rparr>"
    "w = plain_event (env_ids env 1) (run_key r) (n + 1)
       (the (consequence_kind (lease_decision_kind c))) now no_evidence"
    "action_session a = ident_session (request_ident q)" "action_ordinal a = m"
    "action_key a = Some (target_key (lease_target_of c))" "action_intent a = Some (lease_fingerprint env c)"
    "action_actor a = recovery_actor (target_authority (lease_target_of c))"
    "accepted check_row d" "accepted check_row w" "accepted check_action a"
    "v = \<lparr>lease_request = lease_request v, lease_run = r, lease_decision = d, lease_consequence = w,
       lease_action = a, lease_replayed = False\<rparr>"
proof -
  from assms obtain f q' recovery d w a where
    steps: "replacement_of c = Inr f" "planned_request q c f now = Inr q'"
      "check_lease_recovery \<lparr>recovery_decision_kind = lease_decision_kind c,
          retained_run = target_run (lease_target_of c), prior_fence = target_fence (lease_target_of c),
          replacement_fence = f\<rparr> = Inr recovery"
      "check_row (recovery_event (env_ids env 0) (run_key r) n now recovery) = Inr d"
      "check_row (plain_event (env_ids env 1) (run_key r) (n + 1)
          (the (consequence_kind (lease_decision_kind c))) now no_evidence) = Inr w"
      "check_action (recovery_action (env_ids env 2) (ident_session (request_ident q)) m
          (recovery_actor (target_authority (lease_target_of c)))
          (lease_payload q' r d w recovery (lease_duration_of c))
          now (target_key (lease_target_of c)) (lease_fingerprint env c)) = Inr a"
      "check_lease_result \<lparr>lease_request = q', lease_run = r, lease_decision = d, lease_consequence = w,
          lease_action = a, lease_replayed = False\<rparr> = Inr v"
    by (auto simp: plan_lease_result_def Let_def bindR_Inr_iff lease_result_as_Inr)
  have v: "v = \<lparr>lease_request = q', lease_run = r, lease_decision = d, lease_consequence = w,
          lease_action = a, lease_replayed = False\<rparr>"
    using check_lease_result_same [OF steps(7)] .
  show ?thesis
    by (rule that [of f d w a])
      (use steps check_lease_recovery_same [OF steps(3)] v in \<open>auto simp: check_Inr recovery_action_def\<close>)
qed


definition next_fence :: "lease_command \<Rightarrow> lease_fence" where
  "next_fence c = \<lparr>lease_worker = (case c of TakeOverClaim t w n \<Rightarrow> w
       | _ \<Rightarrow> lease_worker (target_fence (lease_target_of c))),
     lease_generation = lease_generation (target_fence (lease_target_of c)) + 1\<rparr>"

lemma check_lease_fence_same: "check_lease_fence f = Inr g \<Longrightarrow> g = f"
  by (auto simp: check_lease_fence_def split: if_splits)

lemma replacement_of_Inr:
  "replacement_of c = Inr f \<Longrightarrow>
     f = (case lease_duration_of c of None \<Rightarrow> None | Some n \<Rightarrow> Some (next_fence c))"
  by (cases c) (auto simp: next_fence_def bindR_Inr_iff dest: check_lease_fence_same)

lemma planned_request_Inr:
  assumes "planned_request q c f now = Inr q'" and "replacement_of c = Inr f"
  shows "accepted check_request q' \<and> (case lease_duration_of c of None \<Rightarrow> q' = released q
    | Some n \<Rightarrow> \<exists>lease_end. expires_at now n = Inr lease_end \<and> q' = reclaimed q (next_fence c) now lease_end)"
proof (cases "lease_duration_of c")
  case None
  with assms show ?thesis by (auto simp: planned_request_def check_Inr released_def split: option.splits)
next
  case (Some n)
  with replacement_of_Inr [OF assms(2)] have "f = Some (next_fence c)" by simp
  with assms(1) Some show ?thesis
    by (auto simp: planned_request_def bindR_Inr_iff check_Inr reclaimed_def dest: check_claim_same)
qed

lemma record_lease_Inr:
  assumes "record_lease_result env c v s = Inr (res, s')" and "keys_unique s"
    and "get_request s (target_request (lease_target_of c)) = Inr q"
    and "planned_request q c f now = Inr (lease_request v)" and "replacement_of c = Inr f"
    and "lease_decision v = recovery_event i rid n now r" and "replacement_fence r = f"
  shows "res = v" "recovered_request c now q f (lease_request v)"
    "\<exists>s1 s2 s3. s1 = put_request (lease_request v) s \<and> add_event (lease_decision v) s1 = Inr s2 \<and>
       add_event (lease_consequence v) s2 = Inr s3 \<and> add_action (lease_action v) s3 = Inr s'"
proof -
  from assms(1) obtain q' s1 s2 s3 where
    p: "persist_claim env c v s = Inr (q', s1)" "q' = lease_request v"
    and w: "add_event (lease_decision v) s1 = Inr s2" "add_event (lease_consequence v) s2 = Inr s3"
      "add_action (lease_action v) s3 = Inr s'" "res = v"
    by (auto simp: record_lease_result_def bindR_Inr_iff split: if_splits)
  note planned = planned_request_Inr [OF assms(4,5)] and f = replacement_of_Inr [OF assms(5)]
  have d: "occurred_at (lease_decision v) = now" "row_recovery (lease_decision v) = Some r"
    by (simp_all add: assms(6) recovery_event_def)
  have "s1 = put_request (lease_request v) s \<and> recovered_request c now q f (lease_request v)"
  proof (cases "lease_duration_of c")
    case None
    with p(1) have "abandon_request_claim (target_request (lease_target_of c))
        (target_fence (lease_target_of c)) now s = Inr (Some q', s1)"
      by (auto simp: persist_claim_def Let_def d bindR_Inr_iff split: option.splits)
    from abandon_Inr [OF this assms(2,3)] p(2) None f planned show ?thesis
      by (simp add: recovered_request_def)
  next
    case (Some n)
    with p(1) f have "rotate_request_claim (env_lease_end env) (target_request (lease_target_of c))
        (target_fence (lease_target_of c)) (next_fence c) now n s = Inr (Some q', s1)"
      by (auto simp: persist_claim_def Let_def d assms(7) bindR_Inr_iff split: option.splits)
    from rotate_Inr [OF this assms(2,3)] p(2) Some f planned show ?thesis
      by (auto simp: recovered_request_def next_fence_def)
  qed
  with w show "res = v" "recovered_request c now q f (lease_request v)"
    "\<exists>s1 s2 s3. s1 = put_request (lease_request v) s \<and> add_event (lease_decision v) s1 = Inr s2 \<and>
       add_event (lease_consequence v) s2 = Inr s3 \<and> add_action (lease_action v) s3 = Inr s'"
    by blast+
qed

section \<open>The interpreters refine the steps\<close>

lemma require_expiry_Inr:
  "require_expiry c b = Inr u \<longleftrightarrow> b = (case c of RenewActiveClaim t n \<Rightarrow> False | _ \<Rightarrow> True)"
  by (cases c) (auto simp: require_expiry_def)

lemma require_lease_state_Inr:
  "require_lease_state c q r = Inr u \<Longrightarrow>
     \<exists>cl. claim_of q (target_fence (lease_target_of c)) cl \<and>
       lease_generation (target_fence (lease_target_of c)) < max_lease_generation \<and>
       run_state r = (case c of RenewActiveClaim t n \<Rightarrow> RunClaimed | _ \<Rightarrow> RunFailed)"
  by (auto simp: require_lease_state_def Let_def bindR_Inr_iff claim_of_def split: if_splits option.splits
      dest!: claim_fence_Inr)

lemma next_ordinals:
  "next_event_ordinal s i = Inr n \<Longrightarrow> n = next_ordinal (map row_ordinal (events_of_run s i))"
  "next_action_ordinal s i = Inr m \<Longrightarrow> next_action_ordinal (put_request q s) i = Inr m"
  by (auto simp: next_event_ordinal_Inr next_action_ordinal_def put_request_def split: if_splits)

lemma recover_new_Inr:
  assumes "recover_new env c locator s = Inr (res, s')" and "keys_unique s"
    and "get_request s (target_request (lease_target_of c)) = Inr locator"
    and "action_for_idempotency s (ident_session (request_ident locator)) (target_key (lease_target_of c)) = Inr None"
  shows "recovers env c s res s'"
proof -
  let ?t = "lease_target_of c"
  from assms(1,3) obtain w r p vs ob n m v where
    so: "get_session s (ident_session (request_ident locator)) = Inr w" "session_state w = SessionOpen"
    and r: "get_latest_run_for_request s (target_request ?t) = Inr r"
    and guards: "require_locked_identity ?t locator locator r (session_id w) = Inr ()"
      "require_lease_state c locator r = Inr ()"
    and hist: "locked_recovery_approval s locator = Inr p" "events_for_run s (run_key r) = Inr vs"
      "require_recovery_eligible_journal (lease_decision_kind c) (target_fence ?t) r (plan_body p) vs = Inr ()"
    and ob: "observe_request_lease (env_observed env) s (request_key_of locator) = Inr ob"
      "observed_request ob = locator" "require_expiry c (observed_expired ob) = Inr ()"
    and nums: "next_event_ordinal s (run_key r) = Inr n"
      "next_action_ordinal s (ident_session (request_ident locator)) = Inr m"
    and plan: "plan_lease_result env c locator r (observed_at ob) n m = Inr v"
    and rec: "record_lease_result env c v s = Inr (res, s')"
    by (auto simp: recover_new_def Let_def bindR_Inr_iff read_Inr split: if_splits)
  from require_lease_state_Inr [OF guards(2)] obtain cl where
    cl: "claim_of locator (target_fence ?t) cl" "lease_generation (target_fence ?t) < max_lease_generation"
      "run_state r = (case c of RenewActiveClaim t n \<Rightarrow> RunClaimed | _ \<Rightarrow> RunFailed)" by blast
  have key: "request_key_of locator = target_request ?t" using requests.get_row [OF assms(3)] by simp
  have ob': "observed_at ob = env_observed env"
      "observed_expired ob = lease_expired (lease_expires_at cl) (env_observed env)"
    using observe_Inr [OF ob(1)] assms(3) cl(1) by (auto simp: key claim_of_def)
  have ids: "run_plan r = ident_plan (request_ident locator)" "run_key r = run_id_value (target_run ?t)"
    using guards(1) by (simp_all add: require_locked_identity_def split: if_splits)
  from plan obtain f d e a where
    v: "replacement_of c = Inr f" "planned_request locator c f (env_observed env) = Inr (lease_request v)"
      "d = recovery_event (env_ids env 0) (run_key r) n (env_observed env)
       \<lparr>recovery_decision_kind = lease_decision_kind c, retained_run = target_run ?t,
         prior_fence = target_fence ?t, replacement_fence = f\<rparr>"
      "e = plain_event (env_ids env 1) (run_key r) (n + 1)
       (the (consequence_kind (lease_decision_kind c))) (env_observed env) no_evidence"
      "action_session a = ident_session (request_ident locator)" "action_ordinal a = m"
      "action_key a = Some (target_key ?t)" "action_intent a = Some (lease_fingerprint env c)"
      "action_actor a = recovery_actor (target_authority ?t)"
      "accepted check_row d" "accepted check_row e" "accepted check_action a"
      "v = \<lparr>lease_request = lease_request v, lease_run = r, lease_decision = d, lease_consequence = e,
       lease_action = a, lease_replayed = False\<rparr>"
    unfolding ob'(1) by (rule plan_lease_Inr)
  have vd: "lease_decision v = d" "lease_consequence v = e" "lease_action v = a"
    by (subst v(13), simp)+
  note w = record_lease_Inr [OF rec assms(2,3) v(2,1) vd(1) [unfolded v(3)], simplified vd, simplified]
  from w(3) obtain s2 s3 where adds: "add_event d (put_request (lease_request v) s) = Inr s2"
    "add_event e s2 = Inr s3" "add_action a s3 = Inr s'" by blast
  have m: "next_action_ordinal (put_request (lease_request v) s) (action_session a) = Inr (action_ordinal a)"
    using next_ordinals(2) [OF nums(2)] by (simp add: v(5,6))
  note rows = appended_rows_of [OF adds v(10-12) m]
  have n: "n = next_ordinal (map row_ordinal (events_of_run s (run_key r)))" using nums(1) by (rule next_ordinals)
  have acc: "accepted check_request (lease_request v)" using planned_request_Inr [OF v(2,1)] by blast
  have fits: "appended_rows d e a s"
    using rows(1) by (simp add: appended_rows_def event_fits_def action_fits_def put_request_def session_actions_def)
  have e: "e = plain_event (env_ids env 1) (run_key r) (row_ordinal d + 1)
       (the (consequence_kind (lease_decision_kind c))) (env_observed env) no_evidence"
    by (simp add: v(3,4) recovery_event_def)
  have "recovers env c s \<lparr>lease_request = lease_request v, lease_run = r, lease_decision = d, lease_consequence = e,
       lease_action = a, lease_replayed = False\<rparr> s'"
    by (rule recovers.recovers [OF refl assms(3) cl(1,2) _ assms(4) r ids(2,1) cl(3) hist _ w(2) acc
          v(3) [unfolded n] e v(5,7,8,9) fits])
      (use so ob(3) ob'(2) rows(2) in \<open>auto simp: session_open_def require_expiry_Inr put_request_def\<close>)
  then show ?thesis using w(1) v(13) by simp
qed


lemma replay_recovery_Inr:
  "replay_recovery c locator a s = Inr v \<Longrightarrow> lease_replayed v \<and> lease_action v = a"
  by (auto simp: replay_recovery_def Let_def bindR_Inr_iff lease_result_as_Inr split: if_splits option.splits
      dest!: check_lease_result_same)

theorem recover_refines_recovers:
  assumes "recover env c s = Inr (v, s')" and "keys_unique s"
  shows "require_recovery_scope c = Inr () \<and> (lease_replayed v \<and> s' = s \<or> recovers env c s v s')"
proof -
  from assms(1) obtain locator existing where
    r: "require_recovery_scope c = Inr ()" "get_request s (target_request (lease_target_of c)) = Inr locator"
      "action_for_idempotency s (ident_session (request_ident locator)) (target_key (lease_target_of c)) = Inr existing"
    and rest: "(case existing of
        Some a \<Rightarrow>
          if action_intent a \<noteq> Some (lease_fingerprint env c)
          then Inl (RunLifecycleIdempotencyConflict
            ''idempotency key was reused with different recovery intent'')
          else bindR (replay_recovery c locator a s) (\<lambda>v. Inr (v, s))
      | None \<Rightarrow> recover_new env c locator s) = Inr (v, s')"
    by (auto simp: recover_def Let_def bindR_Inr_iff read_Inr invalid_as_Inr)
  show ?thesis
  proof (cases existing)
    case None
    with rest recover_new_Inr [of env c locator s v s'] r assms(2) show ?thesis by simp
  next
    case (Some a)
    with rest r(1) show ?thesis by (auto simp: bindR_Inr_iff split: if_splits dest: replay_recovery_Inr)
  qed
qed

lemma require_retry_state_Inr:
  "require_retry_state t locator q p latest sid = Inr u \<Longrightarrow>
     p = latest \<and> (\<exists>cl. claim_of q (target_fence t) cl) \<and> run_key p = run_id_value (target_run t) \<and>
     run_plan p = ident_plan (request_ident q) \<and> run_state p = RunFailed \<and>
     retry_attempt (run_retry p) < max_run_attempt"
  by (auto simp: require_retry_state_def Let_def bindR_Inr_iff claim_of_def split: if_splits option.splits
      dest!: claim_fence_Inr)

lemma plan_retry_Inr:
  assumes "plan_retry_result env t q p now n m = Inr v"
  obtains metadata r d w a where
    "r = retried_run q p (env_ids env 0) now metadata" "accepted check_run r"
    "d = recovery_event (env_ids env 1) (run_key p) n now
       \<lparr>recovery_decision_kind = ChooseRetryAsNewRun, retained_run = RunId (run_key p),
         prior_fence = target_fence t, replacement_fence = Some (target_fence t)\<rparr>"
    "w = plain_event (env_ids env 2) (run_key r) 1 Ev_RUN_OPENED now metadata"
    "action_session a = ident_session (request_ident q)" "action_ordinal a = m"
    "action_key a = Some (target_key t)" "action_intent a = Some (retry_fingerprint env t)"
    "action_actor a = recovery_actor (target_authority t)"
    "accepted check_row d" "accepted check_row w" "accepted check_action a"
    "v = \<lparr>retry_request = q, retry_prior = p, retry_run = r, retry_decision = d, retry_opened = w,
       retry_action = a, retry_replayed = False\<rparr>"
proof -
  from assms obtain metadata r recovery d w a where
    steps: "check_run (retried_run q p (env_ids env 0) now metadata) = Inr r"
      "check_lease_recovery \<lparr>recovery_decision_kind = ChooseRetryAsNewRun,
         retained_run = RunId (run_key p), prior_fence = target_fence t,
         replacement_fence = Some (target_fence t)\<rparr> = Inr recovery"
      "check_row (recovery_event (env_ids env 1) (run_key p) n now recovery) = Inr d"
      "check_row (plain_event (env_ids env 2) (run_key r) 1 Ev_RUN_OPENED now metadata) = Inr w"
      "check_action (recovery_action (env_ids env 3) (ident_session (request_ident q)) m
         (recovery_actor (target_authority t)) (retry_payload q p r d w recovery) now (target_key t)
         (retry_fingerprint env t)) = Inr a"
      "check_retry_result \<lparr>retry_request = q, retry_prior = p, retry_run = r, retry_decision = d,
         retry_opened = w, retry_action = a, retry_replayed = False\<rparr> = Inr v"
    by (auto simp: plan_retry_result_def bindR_Inr_iff)
  show ?thesis
    by (rule that [of r metadata d w a])
      (use steps check_lease_recovery_same [OF steps(2)] check_retry_result_same [OF steps(6)]
        in \<open>auto simp: check_Inr recovery_action_def\<close>)
qed

lemma retry_new_Inr:
  assumes "retry_new env t locator s = Inr (res, s')" and "keys_unique s"
    and "get_request s (target_request t) = Inr locator"
    and "action_for_idempotency s (ident_session (request_ident locator)) (target_key t) = Inr None"
  shows "retries env t s res s'"
proof -
  from assms(1,3) obtain w p latest plan vs ob n m v where
    so: "get_session s (ident_session (request_ident locator)) = Inr w" "session_state w = SessionOpen"
    and r: "get_run_for_request s (target_request t) (run_id_value (target_run t)) = Inr p"
      "get_latest_run_for_request s (target_request t) = Inr latest"
    and guard: "require_retry_state t locator locator p latest (session_id w) = Inr ()"
    and hist: "locked_recovery_approval s locator = Inr plan" "events_for_run s (run_key p) = Inr vs"
      "require_recovery_eligible_journal ChooseRetryAsNewRun (target_fence t) p (plan_body plan) vs = Inr ()"
    and ob: "observe_request_lease (env_observed env) s (request_key_of locator) = Inr ob"
      "observed_request ob = locator" "\<not> observed_expired ob"
    and nums: "next_event_ordinal s (run_key p) = Inr n"
      "next_action_ordinal s (ident_session (request_ident locator)) = Inr m"
    and planned: "plan_retry_result env t locator p (observed_at ob) n m = Inr v"
    and rec: "record_retry_result v s = Inr (res, s')"
    by (auto simp: retry_new_def bindR_Inr_iff read_Inr split: if_splits)
  from require_retry_state_Inr [OF guard] obtain cl where
    g: "latest = p" "claim_of locator (target_fence t) cl" "run_key p = run_id_value (target_run t)"
      "run_plan p = ident_plan (request_ident locator)" "run_state p = RunFailed"
      "retry_attempt (run_retry p) < max_run_attempt" by blast
  have key: "request_key_of locator = target_request t" using requests.get_row [OF assms(3)] by simp
  have ob': "observed_at ob = env_observed env"
      "observed_expired ob = lease_expired (lease_expires_at cl) (env_observed env)"
    using observe_Inr [OF ob(1)] assms(3) g(2) by (auto simp: key claim_of_def)
  from planned obtain metadata r d e a where
    v: "r = retried_run locator p (env_ids env 0) (env_observed env) metadata" "accepted check_run r"
      "d = recovery_event (env_ids env 1) (run_key p) n (env_observed env)
       \<lparr>recovery_decision_kind = ChooseRetryAsNewRun, retained_run = RunId (run_key p),
         prior_fence = target_fence t, replacement_fence = Some (target_fence t)\<rparr>"
      "e = plain_event (env_ids env 2) (run_key r) 1 Ev_RUN_OPENED (env_observed env) metadata"
      "action_session a = ident_session (request_ident locator)" "action_ordinal a = m"
      "action_key a = Some (target_key t)" "action_intent a = Some (retry_fingerprint env t)"
      "action_actor a = recovery_actor (target_authority t)"
      "accepted check_row d" "accepted check_row e" "accepted check_action a"
      "v = \<lparr>retry_request = locator, retry_prior = p, retry_run = r, retry_decision = d, retry_opened = e,
       retry_action = a, retry_replayed = False\<rparr>"
    unfolding ob'(1) by (rule plan_retry_Inr)
  from rec obtain s1 s2 s3 where adds: "add_run r s = Inr s1" "add_event d s1 = Inr s2"
    "add_event e s2 = Inr s3" "add_action a s3 = Inr s'" and res: "res = v"
    by (auto simp: record_retry_result_def bindR_Inr_iff v(13))
  have s1: "run_fits r s" "s1 = s\<lparr>db_runs := db_runs s @ [r]\<rparr>" using add_run_Inr [OF adds(1)] by simp_all
  have m: "next_action_ordinal s1 (action_session a) = Inr (action_ordinal a)"
    using nums(2) by (auto simp: v(5,6) s1(2) next_action_ordinal_def split: if_splits)
  note rows = appended_rows_of [OF adds(2-4) v(10-12) m]
  have n: "n = next_ordinal (map row_ordinal (events_of_run s (run_key p)))" using nums(1) by (rule next_ordinals)
  have "retries env t s \<lparr>retry_request = locator, retry_prior = p, retry_run = r, retry_decision = d,
       retry_opened = e, retry_action = a, retry_replayed = False\<rparr> s'"
    by (rule retries.retries [OF assms(3) g(2) _ assms(4) r(2) [unfolded g(1)] g(3-6) hist _
          v(1,2) s1(1) v(3) [unfolded n] v(4,5,7,8,9) rows(1) [unfolded s1(2)]])
      (use so ob(3) ob'(2) rows(2) in \<open>auto simp: session_open_def s1(2)\<close>)
  then show ?thesis by (simp add: res v(13))
qed

lemma retry_result_as_Inr: "retry_result_as v = Inr x \<longleftrightarrow> check_retry_result v = Inr x"
  by (auto simp: retry_result_as_def split: sum.splits ops_exn.splits)

lemma replay_retry_Inr:
  "replay_retry env t locator a s = Inr v \<Longrightarrow> retry_replayed v \<and> retry_action v = a"
  by (cases "payload_entry (action_payload a) ''run_id''";
      cases "payload_entry (action_payload a) ''decision_event_id''";
      cases "payload_entry (action_payload a) ''opened_event_id''")
    (auto simp: replay_retry_def bindR_Inr_iff retry_result_as_Inr dest!: check_retry_result_same)

theorem retry_refines_retries:
  assumes "retry_failed_run env t s = Inr (v, s')" and "keys_unique s"
  shows "AuthorityOperate \<in> set (recovery_scopes (target_authority t)) \<and>
     (retry_replayed v \<and> s' = s \<or> retries env t s v s')"
proof -
  from assms(1) obtain locator existing where
    r: "AuthorityOperate \<in> set (recovery_scopes (target_authority t))"
      "get_request s (target_request t) = Inr locator"
      "action_for_idempotency s (ident_session (request_ident locator)) (target_key t) = Inr existing"
    and rest: "(case existing of
       Some a \<Rightarrow>
         if action_intent a \<noteq> Some (retry_fingerprint env t)
         then Inl (RunLifecycleIdempotencyConflict ''idempotency key was reused with different retry intent'')
         else bindR (replay_retry env t locator a s) (\<lambda>v. Inr (v, s))
     | None \<Rightarrow> retry_new env t locator s) = Inr (v, s')"
    by (auto simp: retry_failed_run_def require_retry_scope_def bindR_Inr_iff read_Inr invalid_as_Inr
        split: if_splits)
  show ?thesis
  proof (cases existing)
    case None
    with rest retry_new_Inr [of env t locator s v s'] r assms(2) show ?thesis by simp
  next
    case (Some a)
    with rest r(1) show ?thesis by (auto simp: bindR_Inr_iff split: if_splits dest: replay_retry_Inr)
  qed
qed

end
