(* ===== verification/Lease_Invariant.thy ===== *)
theory Lease_Invariant
  imports Lease_Laws
begin

text \<open>
  Recovery and retry keep the invariant of the store. A second invariant says how the runs of a
  request are linked: attempts are unique, and each retry follows a failed run of the same request.
\<close>

section \<open>Events that do not change a run\<close>

lemma journal_sound_noted:
  assumes "journal_sound s" and "row_run v \<in> run_key ` set (db_runs s)"
    and "status_of_kind (row_kind v) = None"
    and "row_ordinal v = next_ordinal (map row_ordinal (events_of_run s (row_run v)))"
    and "db_runs s' = db_runs s" and "db_events s' = db_events s @ [v]"
  shows "journal_sound s'"
  using assms unfolding journal_sound_def
  by (auto simp: events_of_run_append status_path_append status_path_one status_path_def [of "[]"]
      List.map_filter_simps numbered_next)

lemma next_ordinal_again: "numbered ns \<Longrightarrow> next_ordinal (ns @ [next_ordinal ns]) = next_ordinal ns + 1"
  using fold_max_numbered [OF numbered_next] by (simp add: fold_max_numbered)

lemma consequence_status: "consequence_kind k = Some e \<Longrightarrow> status_of_kind e = None"
  by (cases k) auto

lemma lease_consequence: "consequence_kind (lease_decision_kind c) \<noteq> None"
  by (cases c) auto

lemma plain_fields [simp]:
  "row_event (plain_event i rid n k now v) = i" "row_run (plain_event i rid n k now v) = rid"
  "row_ordinal (plain_event i rid n k now v) = n" "row_kind (plain_event i rid n k now v) = k"
  "occurred_at (plain_event i rid n k now v) = now" "row_recovery (plain_event i rid n k now v) = None"
  by (simp_all add: plain_event_def)

lemma decision_fields [simp]:
  "row_event (recovery_event i rid n now r) = i" "row_run (recovery_event i rid n now r) = rid"
  "row_ordinal (recovery_event i rid n now r) = n"
  "row_kind (recovery_event i rid n now r) = Ev_RECOVERY_DECISION_RECORDED"
  "occurred_at (recovery_event i rid n now r) = now" "row_recovery (recovery_event i rid n now r) = Some r"
  by (simp_all add: recovery_event_def)

section \<open>A recovery\<close>

lemma recovered_ident:
  "recovered_request c now q f q' \<Longrightarrow> request_ident q' = request_ident q \<and> request_key_of q' = request_key_of q"
  by (auto simp: recovered_request_def released_def reclaimed_def request_key_of_def split: option.splits)

lemma runs_sound_requests:
  assumes "runs_sound s" and "db_runs s' = db_runs s"
    and "\<And>r. list_ex (request_of_run r) (db_requests s') = list_ex (request_of_run r) (db_requests s)"
  shows "runs_sound s'"
  using assms by (simp add: runs_sound_def)

lemma put_request_links:
  assumes "keys_unique s" and "get_request s i = Inr q" and "request_ident q' = request_ident q"
  shows "list_ex (request_of_run r) (db_requests (put_request q' s)) = list_ex (request_of_run r) (db_requests s)"
  using request_of_run_replaced [OF assms(3), of i "db_requests s" r] assms(1,2)
  by (simp add: put_request_def requests.get_iff keys_unique_def)

lemma put_request_keys:
  "map request_key_of (db_requests (put_request q s)) = map request_key_of (db_requests s)"
  by (simp add: put_request_def)

lemma recovers_sound:
  assumes "recovers env c s v s'" and "store_sound s"
  shows "store_sound s'"
  using assms(1)
proof cases
  case (recovers t q cl r p vs f q' d w a)
  have sound: "keys_unique s" "runs_sound s" "journal_sound s" "actions_sound s"
    using assms(2) by (simp_all add: store_sound_def)
  note rows = recovers(24) [unfolded appended_rows_def]
  have fits: "event_fits d s" "event_fits w (s\<lparr>db_events := db_events s @ [d]\<rparr>)"
    "action_fits a (s\<lparr>db_events := db_events s @ [d, w]\<rparr>)" using rows by blast+
  have s': "db_sessions s' = db_sessions s" "db_runs s' = db_runs s" "db_events s' = db_events s @ [d, w]"
    "db_actions s' = db_actions s @ [a]" "db_requests s' = db_requests (put_request q' s)"
    by (simp_all add: recovers(25) put_request_def)
  have r: "r \<in> set (db_runs s)" using get_latest_Inr [OF recovers(8)] by simp
  note ident = recovered_ident [OF recovers(16)]
  have "keys_unique s'"
    using sound(1) fits by (auto simp: keys_unique_def s' put_request_keys event_fits_def action_fits_def)
  moreover have "runs_sound s'"
    by (rule runs_sound_requests [OF sound(2) s'(2)])
      (simp add: s'(5) put_request_links [OF sound(1) recovers(3)] ident)
  moreover have "journal_sound s'"
  proof -
    let ?s1 = "s\<lparr>db_events := db_events s @ [d]\<rparr>"
    have num: "numbered (map row_ordinal (events_of_run s (run_key r)))"
      using sound(3) r by (simp add: journal_sound_def)
    have s1: "journal_sound ?s1"
      by (rule journal_sound_noted [OF sound(3)]) (use r recovers(18) in simp_all)
    have "status_of_kind (row_kind w) = None"
      using lease_consequence [of c] consequence_status by (force simp: recovers(19))
    then show ?thesis
      by (intro journal_sound_noted [OF s1, of w])
        (use r next_ordinal_again [OF num] in \<open>simp_all add: s' recovers(18,19) events_of_run_def\<close>)
  qed
  moreover have "actions_sound s'"
    by (rule actions_sound_append [OF sound(4) s'(4)]) (use rows fits(3) in \<open>simp_all add: action_fits_def\<close>)
  ultimately show ?thesis by (simp add: store_sound_def)
qed

section \<open>A retry\<close>

lemma retries_sound:
  assumes "retries env t s v s'" and "store_sound s"
  shows "store_sound s'"
  using assms(1)
proof cases
  case (retries q cl p plan vs r metadata d w a)
  have sound: "keys_unique s" "runs_sound s" "journal_sound s" "actions_sound s"
    using assms(2) by (simp_all add: store_sound_def)
  note rows = retries(24) [unfolded appended_rows_def]
  let ?s1 = "s\<lparr>db_runs := db_runs s @ [r]\<rparr>"
  have fits: "event_fits d ?s1" "event_fits w (?s1\<lparr>db_events := db_events ?s1 @ [d]\<rparr>)"
    "action_fits a (?s1\<lparr>db_events := db_events ?s1 @ [d, w]\<rparr>)" using rows by blast+
  have s': "db_sessions s' = db_sessions s" "db_runs s' = db_runs s @ [r]" "db_events s' = db_events s @ [d, w]"
    "db_actions s' = db_actions s @ [a]" "db_requests s' = db_requests s"
    by (simp_all add: retries(25))
  have p: "p \<in> set (db_runs s)" using get_latest_Inr [OF retries(6)] by simp
  have r: "run_row_ok r" "run_key r \<notin> run_key ` set (db_runs s)" "\<not> list_ex (active_conflict r) (db_runs s)"
    "list_ex (request_of_run r) (db_requests s)" "run_state r = RunClaimed"
    using retries(17) by (simp_all add: run_fits_def retries(15) retried_run_def)
  have "keys_unique s'"
    using sound(1) fits r(2) by (auto simp: keys_unique_def s' event_fits_def action_fits_def)
  moreover have "runs_sound s'"
  proof -
    have "\<not> active_conflict x r" if "x \<in> set (db_runs s)" for x
      using r(3) that by (auto simp: list_ex_iff active_conflict_def)
    with sound(2) r retries(16) show ?thesis
      by (auto simp: runs_sound_def s' active_conflict_def)
  qed
  moreover have "journal_sound s'"
  proof -
    let ?s2 = "s\<lparr>db_events := db_events s @ [d]\<rparr>"
    have s2: "journal_sound ?s2"
      by (rule journal_sound_noted [OF sound(3)]) (use p retries(18) in simp_all)
    have "run_key p \<noteq> run_key r" using p r(2) by (metis imageI)
    moreover have "row_run x \<noteq> run_key r" if "x \<in> set (db_events s)" for x
      using sound(3) r(2) that by (metis journal_sound_def)
    ultimately have "events_of_run ?s2 (run_key r) = []"
      by (auto simp: events_of_run_def filter_empty_conv retries(18))
    then show ?thesis
      by (intro journal_sound_opened [OF s2, of r w])
        (use r in \<open>simp_all add: s' retries(19) next_ordinal_def\<close>)
  qed
  moreover have "actions_sound s'"
    by (rule actions_sound_append [OF sound(4) s'(4)])
      (use rows fits(3) in \<open>simp_all add: action_fits_def session_actions_def\<close>)
  ultimately show ?thesis by (simp add: store_sound_def)
qed


section \<open>The chain of attempts\<close>

definition follows :: "activity_run \<Rightarrow> activity_run \<Rightarrow> bool" where
  "follows r p \<longleftrightarrow> prior_run (run_retry r) = Some (run_key p) \<and> run_request p = run_request r \<and>
     retry_attempt (run_retry r) = retry_attempt (run_retry p) + 1 \<and> run_state p = RunFailed"

definition first_attempt :: "activity_run \<Rightarrow> bool" where
  "first_attempt r \<longleftrightarrow> retry_attempt (run_retry r) = 1 \<and> prior_run (run_retry r) = None"

definition attempts_chained :: "ops_store \<Rightarrow> bool" where
  "attempts_chained s \<longleftrightarrow>
     (\<forall>r\<in>set (db_runs s). first_attempt r \<or> (\<exists>p\<in>set (db_runs s). follows r p)) \<and>
     (\<forall>r\<in>set (db_runs s). \<forall>q\<in>set (db_runs s). run_request q = run_request r \<longrightarrow>
        retry_attempt (run_retry q) = retry_attempt (run_retry r) \<longrightarrow> q = r)"

definition service_sound :: "ops_store \<Rightarrow> bool" where
  "service_sound s \<longleftrightarrow> store_sound s \<and> attempts_chained s"

lemma chained_runs: "attempts_chained s \<Longrightarrow> db_runs s' = db_runs s \<Longrightarrow> attempts_chained s'"
  by (simp add: attempts_chained_def)

lemma chained_appended:
  assumes "attempts_chained s" and "db_runs s' = db_runs s @ [r]"
    and "first_attempt r \<or> (\<exists>p\<in>set (db_runs s). follows r p)"
    and "\<And>q. q \<in> set (db_runs s) \<Longrightarrow> run_request q = run_request r \<Longrightarrow>
      retry_attempt (run_retry q) \<noteq> retry_attempt (run_retry r)"
  shows "attempts_chained s'"
proof -
  have old: "first_attempt x \<or> (\<exists>p\<in>set (db_runs s). follows x p)" if "x \<in> set (db_runs s)" for x
    using assms(1) that by (simp add: attempts_chained_def)
  have "y = x" if "x \<in> set (db_runs s')" "y \<in> set (db_runs s')" "run_request y = run_request x"
    "retry_attempt (run_retry y) = retry_attempt (run_retry x)" for x y
  proof -
    from that(1,2) consider "x \<in> set (db_runs s)" "y \<in> set (db_runs s)" | "x = r" "y \<in> set (db_runs s)"
      | "y = r" "x \<in> set (db_runs s)" | "x = r" "y = r" by (auto simp: assms(2))
    then show ?thesis
    proof cases
      case 1
      with assms(1) that(3,4) show ?thesis by (simp add: attempts_chained_def)
    next
      case 2
      with assms(4) [of y] that(3,4) show ?thesis by simp
    next
      case 3
      with assms(4) [of x] that(3,4) show ?thesis by simp
    qed simp
  qed
  with old assms(3) show ?thesis unfolding attempts_chained_def assms(2) by auto
qed

lemma chained_moved:
  assumes "attempts_chained s" and "r0 \<in> set (db_runs s)" and "same_run r0 r" and "run_state r0 \<noteq> RunFailed"
    and "distinct (map run_key (db_runs s))" and "db_runs s' = db_runs (put_run r s)"
  shows "attempts_chained s'"
proof -
  define g where "g x = (if run_key x = run_key r then r else x)" for x
  have key: "run_key r = run_key r0" using assms(3) by (simp add: same_run_def)
  have m: "x = r0" if "x \<in> set (db_runs s)" "run_key x = run_key r" for x
    using that assms(2,5) key by (auto simp: distinct_map dest: inj_onD)
  have set: "set (db_runs s') = g ` set (db_runs s)" by (simp add: assms(6) put_run_def g_def)
  have same: "run_retry (g x) = run_retry x \<and> run_request (g x) = run_request x \<and> run_key (g x) = run_key x"
    if "x \<in> set (db_runs s)" for x
    using m [OF that] assms(3) by (auto simp: same_run_def g_def)
  have linked: "first_attempt (g x) \<or> (\<exists>p\<in>set (db_runs s). follows (g x) (g p))" if x: "x \<in> set (db_runs s)" for x
  proof -
    from assms(1) x consider (one) "first_attempt x" | (linked) p where "p \<in> set (db_runs s)" "follows x p"
      by (auto simp: attempts_chained_def)
    then show ?thesis
    proof cases
      case one
      with same [OF x] show ?thesis by (simp add: first_attempt_def)
    next
      case (linked p)
      then have "p \<noteq> r0" using assms(4) by (auto simp: follows_def)
      with m [OF linked(1)] have p: "g p = p" by (auto simp: g_def)
      have "follows (g x) (g p)"
        using linked(2) same [OF x] unfolding follows_def p by metis
      with linked(1) show ?thesis by blast
    qed
  qed
  have unique: "g x = g y" if "x \<in> set (db_runs s)" "y \<in> set (db_runs s)"
      "run_request (g x) = run_request (g y)" "retry_attempt (run_retry (g x)) = retry_attempt (run_retry (g y))" for x y
  proof -
    have "x = y" using assms(1) that same [OF that(1)] same [OF that(2)] unfolding attempts_chained_def by metis
    then show ?thesis by simp
  qed
  show ?thesis
    unfolding attempts_chained_def set
  proof (intro conjI ballI impI)
    fix z assume "z \<in> g ` set (db_runs s)"
    then obtain x where x: "x \<in> set (db_runs s)" and z: "z = g x" by (rule imageE)
    from linked [OF x] show "first_attempt z \<or> (\<exists>p\<in>g ` set (db_runs s). follows z p)"
      unfolding z by (metis imageI)
  next
    fix z u assume "z \<in> g ` set (db_runs s)" "u \<in> g ` set (db_runs s)"
      and same: "run_request u = run_request z" "retry_attempt (run_retry u) = retry_attempt (run_retry z)"
    then obtain x y where "x \<in> set (db_runs s)" "y \<in> set (db_runs s)" and zu: "z = g x" "u = g y" by (elim imageE)
    from unique [OF this(2,1)] same show "u = z" unfolding zu by blast
  qed
qed

lemma rule_leaves_failed: "rule_of command = Some rule \<Longrightarrow> RunFailed \<notin> set (rule_expected rule)"
  by (cases command) auto

lemma commits_chained:
  assumes "commits env command s res s'" and "store_sound s" and "attempts_chained s"
  shows "attempts_chained s'"
  using assms(1)
proof cases
  case (claim i q k q' a seconds r s1 v act)
  have "request_key_of q' = i" using requests.get_row [OF claim(3)] by (simp add: claim(8) request_of_claimed)
  then have "run_request r = i" "first_attempt r"
    by (simp_all add: claim(10) opened_run_def first_attempt_def)
  with claim(5) show ?thesis
    by (intro chained_appended [OF assms(3), of s' r]) (auto simp: claim(13,15) put_request_def)
next
  case (move rule c r q r' s1 v act)
  have "run_state r \<noteq> RunFailed" using move(9) rule_leaves_failed [OF move(2)] by auto
  moreover have "r \<in> set (db_runs s)" using runs.get_row [OF move(4)] by simp
  ultimately show ?thesis
    using assms(2) by (intro chained_moved [OF assms(3) _ move(11)])
      (auto simp: store_sound_def keys_unique_def move(16,18))
qed

lemma retries_chained:
  assumes "retries env t s v s'" and "attempts_chained s"
  shows "attempts_chained s'"
  using assms(1)
proof cases
  case (retries q cl p plan vs r metadata d w a)
  note latest = get_latest_Inr [OF retries(6)]
  have q: "request_key_of q = target_request t" using requests.get_row [OF retries(2)] by simp
  have "follows r p" using latest(2) q retries(9) by (simp add: retries(15) retried_run_def follows_def)
  moreover have "retry_attempt (run_retry x) \<noteq> retry_attempt (run_retry r)"
    if "x \<in> set (db_runs s)" "run_request x = run_request r" for x
    using latest(5) [OF that(1)] that(2) q by (auto simp: retries(15) retried_run_def)
  ultimately show ?thesis
    using latest(1) by (intro chained_appended [OF assms(2), of s' r]) (auto simp: retries(25))
qed

end
