(* ===== verification/Step_Recording.thy ===== *)
theory Step_Recording
  imports Run_Lifecycle
begin

text \<open>
  The transactions in which the coordinator of \<open>operations/coordinator.py\<close> records the events of a
  step: the command and its checks, the guards under the locks of the request and of the run, and the
  event with the generation of the lease in its evidence.
\<close>

section \<open>The command\<close>

record execute_command =
  execute_as :: run_command
  max_effects :: int

definition check_execute_command :: "execute_command \<Rightarrow> ops_exn + execute_command" where
  "check_execute_command c = bindR (check_run_command (execute_as c)) (\<lambda>_.
     if max_effects c < 1
     then Inl (InvalidOperationCommand ''max_effects must be a positive integer'') else Inr c)"

section \<open>Guards\<close>

definition coordinator_run :: "ops_store \<Rightarrow> string \<Rightarrow> ops_exn + activity_run" where
  "coordinator_run s i =
     missing_as (ExecutionCoordinatorNotFound ''activity run was not found'') (get_run s i)"

definition coordinator_request :: "ops_store \<Rightarrow> string \<Rightarrow> ops_exn + execution_request" where
  "coordinator_request s i =
     missing_as (ExecutionCoordinatorNotFound ''execution request was not found'') (get_request s i)"

definition coordinator_scope :: "worker_authority \<Rightarrow> ops_exn + unit" where
  "coordinator_scope a = requireR (Scope_EXECUTION_OPERATE \<in> set (authority_scopes a))
     (ExecutionCoordinatorDenied ''scope execution:operate is missing'')"

definition coordinator_owns :: "execution_request \<Rightarrow> run_command \<Rightarrow> ops_exn + unit" where
  "coordinator_owns q c =
     bindR (coordinator_scope (command_authority c)) (\<lambda>_.
     let denied = Inl (ExecutionCoordinatorDenied ''worker does not own the execution request claim'') in
     if request_state q \<noteq> RequestClaimed then denied
     else case request_claim q of None \<Rightarrow> denied
       | Some cl \<Rightarrow> bindR (claim_fence cl) (\<lambda>owned.
           if owned \<noteq> command_fence c \<or>
              authority_worker (command_authority c) \<noteq> lease_worker (command_fence c)
           then denied else Inr ()))"

definition locked_request_and_run :: "ops_store \<Rightarrow> run_command \<Rightarrow>
    ops_exn + (execution_request \<times> activity_run)" where
  "locked_request_and_run s c =
     bindR (coordinator_run s (command_run c)) (\<lambda>locator.
     bindR (coordinator_request s (run_request locator)) (\<lambda>q.
     bindR (coordinator_run s (command_run c)) (\<lambda>r.
     if run_request r \<noteq> request_key_of q
     then Inl (ExecutionCoordinatorConflict ''activity run request linkage changed'')
     else bindR (coordinator_owns q c) (\<lambda>_. Inr (q, r)))))"

section \<open>Events of a step\<close>

definition step_evidence :: "lease_fence \<Rightarrow> bounded_evidence \<Rightarrow> ops_exn + bounded_evidence" where
  "step_evidence f details = make_evidence
     [(''claim_generation'', PInt (lease_generation f)), (''details'', PDict (evidence_value details))]"

definition step_row :: "string \<Rightarrow> string \<Rightarrow> int \<Rightarrow> activity_event_kind \<Rightarrow> string \<Rightarrow> string \<Rightarrow>
    bounded_evidence \<Rightarrow> failure_evidence option \<Rightarrow> activity_event" where
  "step_row i rid n k now activity evidence failure = \<lparr>row_event = i, row_run = rid, row_ordinal = n,
     row_kind = k, occurred_at = now, row_activity = Some activity, row_evidence = evidence,
     row_failure = failure, row_recovery = None\<rparr>"

text \<open>The part of a transaction after its guards: number the event, build it and append it.\<close>

definition append_step :: "lifecycle_env \<Rightarrow> run_command \<Rightarrow> activity_run \<Rightarrow> string \<Rightarrow>
    activity_event_kind \<Rightarrow> bounded_evidence \<Rightarrow> failure_evidence option \<Rightarrow> ops_store \<Rightarrow>
    ops_exn + (activity_event \<times> ops_store)" where
  "append_step env c r activity k evidence failure s =
     bindR (next_event_ordinal s (run_key r)) (\<lambda>n.
     bindR (check_row (step_row (env_ids env 0) (run_key r) n k (env_now env) activity evidence failure)) (\<lambda>v.
     bindR (add_event v s) (\<lambda>s1. Inr (v, s1))))"

definition require_running :: "activity_run \<Rightarrow> ops_exn + unit" where
  "require_running r = requireR (run_state r = RunRunning)
     (ExecutionCoordinatorConflict ''run is not executable'')"

text \<open>\<open>_record_step_event\<close>, called without observations.\<close>

definition record_step_event :: "lifecycle_env \<Rightarrow> run_command \<Rightarrow> string \<Rightarrow> activity_event_kind \<Rightarrow>
    bounded_evidence \<Rightarrow> failure_evidence option \<Rightarrow> ops_store \<Rightarrow> ops_exn + (activity_event \<times> ops_store)" where
  "record_step_event env c activity k evidence failure s =
     bindR (locked_request_and_run s c) (\<lambda>(q, r).
     bindR (require_running r) (\<lambda>_.
     bindR (next_event_ordinal s (run_key r)) (\<lambda>n.
     bindR (step_evidence (command_fence c) evidence) (\<lambda>bounded.
       append_step env c r activity k bounded failure s))))"

end
