(* ===== verification/Step_Laws.thy ===== *)
theory Step_Laws
  imports Step_Recording Run_Service
begin

text \<open>
  What a recorded step event guarantees: \<open>logs\<close> is the step of the abstract service, in which the
  holder of the current claim appends the next event of a running run, and nothing else changes.
\<close>

inductive logs :: "run_command \<Rightarrow> string \<Rightarrow> activity_event_kind \<Rightarrow> ops_store \<Rightarrow> activity_event \<Rightarrow>
    ops_store \<Rightarrow> bool" where
  logs: "\<lbrakk>get_run s (command_run c) = Inr r; get_request s (run_request r) = Inr q; owns_claim q c;
     Scope_EXECUTION_OPERATE \<in> set (authority_scopes (command_authority c)); run_state r = RunRunning;
     row_run v = run_key r; row_kind v = k; row_activity v = Some activity; row_recovery v = None;
     row_ordinal v = next_ordinal (map row_ordinal (events_of_run s (run_key r)));
     accepted check_row v; event_fits v s; s' = s\<lparr>db_events := db_events s @ [v]\<rparr>\<rbrakk> \<Longrightarrow>
     logs c activity k s v s'"

inductive_cases logsE: "logs c activity k s v s'"

lemma coordinator_finds [result_simps]:
  "coordinator_run s i = Inr r \<longleftrightarrow> get_run s i = Inr r"
  "coordinator_request s i = Inr q \<longleftrightarrow> get_request s i = Inr q"
  by (simp_all add: coordinator_run_def coordinator_request_def missing_as_Inr)

lemma coordinator_owns_Inr:
  assumes "accepted check_request q"
  shows "coordinator_owns q c = Inr u \<longleftrightarrow>
    Scope_EXECUTION_OPERATE \<in> set (authority_scopes (command_authority c)) \<and> owns_claim q c"
proof (cases "request_claim q")
  case (Some cl)
  with accepted_request_claim [OF assms] have "check_claim cl = Inr cl" "request_state q = RequestClaimed"
    by simp_all
  then show ?thesis
    by (cases "command_fence c")
      (auto simp: coordinator_owns_def coordinator_scope_def owns_claim_def Some claim_fence_accepted bindR_Inr_iff)
qed (auto simp: coordinator_owns_def coordinator_scope_def owns_claim_def Let_def bindR_Inr_iff)

lemma locked_Inr:
  "locked_request_and_run s c = Inr (q, r) \<longleftrightarrow>
     get_run s (command_run c) = Inr r \<and> get_request s (run_request r) = Inr q \<and> owns_claim q c \<and>
     Scope_EXECUTION_OPERATE \<in> set (authority_scopes (command_authority c))"
proof -
  have "request_key_of q = run_request r \<and> accepted check_request q"
    if "get_request s (run_request r) = Inr q"
    using requests.get_row [OF that] by simp
  then show ?thesis
    by (auto simp: locked_request_and_run_def bindR_Inr_iff result_simps coordinator_owns_Inr split: if_splits)
qed

lemma append_step_Inr:
  assumes "append_step env c r activity k evidence failure s = Inr (v, s')"
  shows "row_run v = run_key r \<and> row_kind v = k \<and> row_activity v = Some activity \<and> row_recovery v = None \<and>
     row_ordinal v = next_ordinal (map row_ordinal (events_of_run s (run_key r))) \<and>
     accepted check_row v \<and> event_fits v s \<and> s' = s\<lparr>db_events := db_events s @ [v]\<rparr> \<and>
     row_event v = env_ids env 0 \<and> occurred_at v = env_now env \<and> row_evidence v = evidence \<and> row_failure v = failure"
  using assms
  by (auto simp: append_step_def bindR_Inr_iff check_Inr step_row_def dest!: next_event_ordinal_Inr add_event_Inr)

lemma record_step_refines_logs:
  assumes "record_step_event env c activity k evidence failure s = Inr (v, s')"
  shows "logs c activity k s v s'"
proof -
  from assms obtain q r bounded where l: "locked_request_and_run s c = Inr (q, r)" and r: "run_state r = RunRunning"
    and a: "append_step env c r activity k bounded failure s = Inr (v, s')"
    by (auto simp: record_step_event_def bindR_Inr_iff require_running_def requireR_Inr_iff simp del: bindR_require)
  show ?thesis
    by (rule logs.logs [of s c r q]) (use l [unfolded locked_Inr] r append_step_Inr [OF a] in simp_all)
qed

lemma step_kind_status: "k \<in> set step_event_kinds \<Longrightarrow> status_of_kind k = None"
  by (auto simp: step_event_kinds_def)

lemma logged_kind:
  assumes "logs c activity k s v s'"
  shows "row_kind v \<in> set step_event_kinds" "status_of_kind (row_kind v) = None"
proof -
  from assms have "event_shape_check v" "row_activity v = Some activity"
    by (auto elim!: logsE simp: event_fits_def)
  then show "row_kind v \<in> set step_event_kinds" by (simp add: event_shape_check_def)
  then show "status_of_kind (row_kind v) = None" by (rule step_kind_status)
qed

end
