(* ===== verification/Service_History.thy ===== *)
theory Service_History
  imports Lease_Invariant Step_Laws Event_Sourcing
begin

text \<open>
  Histories of the services over one store: lifecycle commands, recoveries, retries and the
  coordinator's step events in any order, each committing or leaving the store as it was. The claim of a request only moves forward:
  its epoch never decreases, and a request whose epoch is the same is the same request.
\<close>

section \<open>Epochs\<close>

definition claim_epoch :: "execution_request \<Rightarrow> nat \<times> int" where
  "claim_epoch q =
     (if request_state q = RequestQueued then (0, 0)
      else if request_state q = RequestClaimed
      then (1, case request_claim q of None \<Rightarrow> 0 | Some c \<Rightarrow> claim_generation c)
      else (2, 0))"

definition later_claim :: "execution_request \<Rightarrow> execution_request \<Rightarrow> bool" where
  "later_claim q q' \<longleftrightarrow> request_ident q' = request_ident q \<and>
     (q' = q \<or> claim_epoch q < claim_epoch q')"

lemma later_claim_refl [simp]: "later_claim q q"
  by (simp add: later_claim_def)

lemma later_claim_trans: "later_claim q q' \<Longrightarrow> later_claim q' q'' \<Longrightarrow> later_claim q q''"
  by (auto simp: later_claim_def)

definition evolves :: "ops_store \<Rightarrow> ops_store \<Rightarrow> bool" where
  "evolves s s' \<longleftrightarrow> db_sessions s' = db_sessions s \<and>
     (\<forall>i q. get_request s i = Inr q \<longrightarrow> (\<exists>q'. get_request s' i = Inr q' \<and> later_claim q q')) \<and>
     (\<forall>i r. get_run s i = Inr r \<longrightarrow> (\<exists>r'. get_run s' i = Inr r' \<and> same_run r r')) \<and>
     (\<exists>vs. db_events s' = db_events s @ vs) \<and> (\<exists>as. db_actions s' = db_actions s @ as)"

lemma evolves_refl [simp]: "evolves s s"
  by (auto simp: evolves_def)

lemma evolves_trans:
  assumes "evolves s t" and "evolves t u"
  shows "evolves s u"
proof -
  have "\<exists>q'. get_request u i = Inr q' \<and> later_claim q q'" if "get_request s i = Inr q" for i q
    using assms that unfolding evolves_def by (meson later_claim_trans)
  moreover have "\<exists>r'. get_run u i = Inr r' \<and> same_run r r'" if "get_run s i = Inr r" for i r
    using assms that unfolding evolves_def by (meson same_run_trans)
  ultimately show ?thesis using assms by (fastforce simp: evolves_def)
qed

lemma evolves_request:
  "evolves s s' \<Longrightarrow> get_request s i = Inr q \<Longrightarrow> \<exists>q'. get_request s' i = Inr q' \<and> later_claim q q'"
  by (simp add: evolves_def)

lemma evolves_run:
  "evolves s s' \<Longrightarrow> get_run s i = Inr r \<Longrightarrow> \<exists>r'. get_run s' i = Inr r' \<and> same_run r r'"
  by (simp add: evolves_def)

section \<open>Each step moves forward\<close>

lemma replaced_request_evolves:
  assumes "get_request s i = Inr q" and "request_key_of q' = i" and "accepted check_request q'"
    and "later_claim q q'" and "db_requests s' = db_requests (put_request q' s)"
    and "get_request s j = Inr p"
  shows "\<exists>p'. get_request s' j = Inr p' \<and> later_claim p p'"
proof (cases "j = i")
  case True
  have "request_key_of q' \<in> request_key_of ` set (db_requests s)"
    using requests.get_row [OF assms(1)] assms(2) by (metis imageI)
  then have "get_request s' (request_key_of q') = Inr q'"
    by (intro requests.get_replaced) (use assms in \<open>simp_all add: put_request_def\<close>)
  with True assms(1,2,4,6) show ?thesis by auto
next
  case False
  with requests.get_replaced_other [of s' q' s j p] assms show ?thesis
    by (auto simp: put_request_def)
qed

lemma kept_requests: "db_requests s' = db_requests s \<Longrightarrow> get_request s j = Inr p \<Longrightarrow>
    \<exists>p'. get_request s' j = Inr p' \<and> later_claim p p'"
  using requests.get_cong [of s' s j p] by auto

lemma kept_runs: "db_runs s' = db_runs s @ rs \<Longrightarrow> get_run s j = Inr p \<Longrightarrow>
    \<exists>p'. get_run s' j = Inr p' \<and> same_run p p'"
  using runs.get_appended [of s j p s' rs] by auto

lemma commits_evolves:
  assumes "commits env command s res s'" and "store_sound s"
  shows "evolves s s'"
proof -
  have old: "extends s s'" using commits_extends [OF assms] .
  have "\<exists>p'. get_request s' j = Inr p' \<and> later_claim p p'" if "get_request s j = Inr p" for j p
    using assms(1)
  proof cases
    case (claim i q k q' a seconds r s1 v act)
    have "request_key_of q' = i" using requests.get_row [OF claim(3)] by (simp add: claim(8) request_of_claimed)
    moreover have "later_claim q q'"
      by (simp add: later_claim_def claim_epoch_def claim(4) claim(8) request_of_claimed) (simp add: claimed_as_def)
    ultimately show ?thesis
      by (rule replaced_request_evolves [OF claim(3) _ claim(9) _ _ that]) (simp add: claim(13,15))
  next
    case (move rule c r q r' s1 v act)
    then show ?thesis by (intro kept_requests [OF _ that]) (simp add: put_run_def)
  qed
  with old show ?thesis by (simp add: evolves_def extends_def)
qed

lemma recovered_later:
  assumes "recovered_request c now q f q'" and "claim_of q (target_fence (lease_target_of c)) cl"
  shows "later_claim q q' \<and> claim_epoch q < claim_epoch q'"
  using assms
  by (auto simp: recovered_request_def later_claim_def claim_of_def claim_epoch_def released_def reclaimed_def
      split: option.splits)

lemma recovers_evolves:
  assumes "recovers env c s v s'"
  shows "evolves s s'"
  using assms
proof cases
  case (recovers t q cl r p vs f q' d w a)
  have key: "request_key_of q' = target_request t"
    using recovered_ident [OF recovers(16)] requests.get_row [OF recovers(3)] by simp
  have later: "later_claim q q'" using recovered_later [OF recovers(16)] recovers(2,4) by simp
  have "\<exists>p'. get_request s' j = Inr p' \<and> later_claim p p'" if "get_request s j = Inr p" for j p
    by (rule replaced_request_evolves [OF recovers(3) key recovers(17) later _ that]) (simp add: recovers(25))
  moreover have "\<exists>x'. get_run s' j = Inr x' \<and> same_run x x'" if "get_run s j = Inr x" for j x
    by (rule kept_runs [OF _ that, of _ "[]"]) (simp add: recovers(25) put_request_def)
  ultimately show ?thesis by (simp add: evolves_def recovers(25) put_request_def)
qed

lemma retries_evolves:
  assumes "retries env t s v s'"
  shows "evolves s s'"
  using assms
proof cases
  case (retries q cl p plan vs r metadata d w a)
  have "\<exists>p'. get_request s' j = Inr p' \<and> later_claim p p'" if "get_request s j = Inr p" for j p
    by (rule kept_requests [OF _ that]) (simp add: retries(25))
  moreover have "\<exists>x'. get_run s' j = Inr x' \<and> same_run x x'" if "get_run s j = Inr x" for j x
    by (rule kept_runs [OF _ that, of _ "[r]"]) (simp add: retries(25))
  ultimately show ?thesis by (simp add: evolves_def retries(25))
qed

lemma logs_evolves:
  assumes "logs c activity k s v s'"
  shows "evolves s s'"
  using assms
proof cases
  case (logs r q)
  have "\<exists>p'. get_request s' j = Inr p' \<and> later_claim p p'" if "get_request s j = Inr p" for j p
    by (rule kept_requests [OF _ that]) (simp add: logs(13))
  moreover have "\<exists>x'. get_run s' j = Inr x' \<and> same_run x x'" if "get_run s j = Inr x" for j x
    by (rule kept_runs [OF _ that, of _ "[]"]) (simp add: logs(13))
  ultimately show ?thesis by (simp add: evolves_def logs(13))
qed

lemma logs_sound:
  assumes "logs c activity k s v s'" and "service_sound s"
  shows "service_sound s'"
  using assms(1)
proof cases
  case (logs r q)
  have sound: "keys_unique s" "runs_sound s" "journal_sound s" "actions_sound s" "attempts_chained s"
    using assms(2) by (simp_all add: service_sound_def store_sound_def)
  have "journal_sound s'"
    by (rule journal_sound_noted [OF sound(3)])
      (use logs logged_kind(2) [OF assms(1)] runs.get_row [OF logs(1)] in \<open>simp_all add: event_fits_def\<close>)
  moreover have "keys_unique s'"
    using sound(1) logs(12) by (auto simp: keys_unique_def logs(13) event_fits_def)
  moreover have "runs_sound s'" using sound(2) by (simp add: runs_sound_def logs(13))
  moreover have "actions_sound s'" using sound(4) by (simp add: actions_sound_def session_actions_def logs(13))
  moreover have "attempts_chained s'" by (rule chained_runs [OF sound(5)]) (simp add: logs(13))
  ultimately show ?thesis by (simp add: service_sound_def store_sound_def)
qed

section \<open>Histories\<close>

datatype service_call = CallLifecycle lifecycle_env lifecycle_command
  | CallRecovery lifecycle_env lease_command
  | CallRetry lifecycle_env lease_target
  | CallStep lifecycle_env run_command string activity_event_kind bounded_evidence "failure_evidence option"

inductive service_step :: "service_call \<Rightarrow> ops_store \<Rightarrow> ops_store \<Rightarrow> bool" where
  lifecycle: "commits env command s res s' \<Longrightarrow> service_step (CallLifecycle env command) s s'"
| recovery: "recovers env c s v s' \<Longrightarrow> service_step (CallRecovery env c) s s'"
| retry: "retries env t s w s' \<Longrightarrow> service_step (CallRetry env t) s s'"
| step: "logs c activity k s v s' \<Longrightarrow> service_step (CallStep env c activity k evidence failure) s s'"

inductive_cases service_stepE: "service_step call s s'"

fun serve_call :: "ops_store \<Rightarrow> service_call \<Rightarrow> ops_exn + ops_store" where
  "serve_call s (CallLifecycle env command) = (case execute env command s of Inr (res, s') \<Rightarrow> Inr s' | Inl e \<Rightarrow> Inr s)"
| "serve_call s (CallRecovery env c) = (case recover env c s of Inr (v, s') \<Rightarrow> Inr s' | Inl e \<Rightarrow> Inr s)"
| "serve_call s (CallRetry env t) = (case retry_failed_run env t s of Inr (v, s') \<Rightarrow> Inr s' | Inl e \<Rightarrow> Inr s)"
| "serve_call s (CallStep env c activity k evidence failure) =
     (case record_step_event env c activity k evidence failure s of Inr (v, s') \<Rightarrow> Inr s' | Inl e \<Rightarrow> Inr s)"

definition serve_calls :: "service_call list \<Rightarrow> ops_store \<Rightarrow> ops_store" where
  "serve_calls cs s = (case foldR serve_call s cs of Inr s' \<Rightarrow> s' | Inl e \<Rightarrow> s)"

lemma serve_call_step:
  assumes "keys_unique s" and "serve_call s call = Inr s'"
  shows "s' = s \<or> service_step call s s'"
proof (cases call)
  case (CallLifecycle env command)
  with assms execute_refines_commits show ?thesis
    by (fastforce split: sum.splits intro: service_step.lifecycle)
next
  case (CallRecovery env c)
  with assms recover_refines_recovers show ?thesis
    by (fastforce split: sum.splits intro: service_step.recovery)
next
  case (CallRetry env t)
  with assms retry_refines_retries show ?thesis
    by (fastforce split: sum.splits intro: service_step.retry)
next
  case (CallStep env c activity k evidence failure)
  with assms record_step_refines_logs show ?thesis
    by (fastforce split: sum.splits intro: service_step.step)
qed

lemma service_step_sound:
  "service_step call s s' \<Longrightarrow> service_sound s \<Longrightarrow> service_sound s' \<and> evolves s s'"
proof (erule service_stepE)
  fix env c v assume r: "recovers env c s v s'" and s: "service_sound s"
  have "db_runs s' = db_runs s" using r by cases (simp add: put_request_def)
  with r s show ?thesis
    by (auto simp: service_sound_def intro: recovers_sound recovers_evolves chained_runs)
next
  fix c activity k v env evidence failure assume "logs c activity k s v s'" and "service_sound s"
  then show ?thesis using logs_sound logs_evolves by blast
qed (auto simp: service_sound_def intro: commits_sound commits_chained commits_evolves retries_sound
    retries_chained retries_evolves)

interpretation services: event_fold serve_call service_sound
proof
  show "service_sound s'" if "service_sound s" "serve_call s call = Inr s'" for s call s'
    using serve_call_step [OF _ that(2)] service_step_sound that(1)
    by (auto simp: service_sound_def store_sound_def)
qed

lemma serve_calls_fold: "foldR serve_call s cs = Inr (serve_calls cs s)"
proof -
  have "\<exists>t. serve_call s c = Inr t" for s c by (cases c) (auto split: sum.splits)
  then have "\<exists>t. foldR serve_call s cs = Inr t" for s
    by (induction cs arbitrary: s) (force simp: bindR_Inr_iff)+
  then show ?thesis by (auto simp: serve_calls_def split: sum.splits) (metis Inl_Inr_False)
qed

lemma serve_calls_sound: "service_sound s \<Longrightarrow> service_sound (serve_calls cs s)"
  using services.fold_consistent serve_calls_fold by blast

lemma serve_calls_evolves: "service_sound s \<Longrightarrow> evolves s (serve_calls cs s)"
proof -
  assume s: "service_sound s"
  have step: "evolves s s'" if "service_sound s" "serve_call s call = Inr s'" for s call s'
    using serve_call_step [OF _ that(2)] service_step_sound that(1)
    by (auto simp: service_sound_def store_sound_def)
  show ?thesis
    by (rule services.fold_relates [OF step evolves_refl _ s serve_calls_fold]) (auto intro: evolves_trans)
qed

end
