(* ===== verification/Service_Records.thy ===== *)
theory Service_Records
  imports Service_History
begin

text \<open>
  Outcomes on record across all three services. As long as the claim of the request has not moved, a
  command that is sent again returns its first outcome; once a recovery has moved the claim, it is
  refused.
\<close>

section \<open>Recorded outcomes\<close>

definition recorded :: "lifecycle_env \<Rightarrow> lifecycle_command \<Rightarrow> lifecycle_result \<Rightarrow> ops_store \<Rightarrow> bool" where
  "recorded env command res s \<longleftrightarrow>
     Scope_EXECUTION_OPERATE \<in> set (authority_scopes (command_worker command)) \<and>
     (\<exists>q. get_request s (request_key_of (result_request res)) = Inr q \<and> later_claim (result_request res) q) \<and>
     (\<exists>r'. get_run s (run_key (result_run res)) = Inr r' \<and> same_run (result_run res) r') \<and>
     get_event s (row_event (result_event res)) = Inr (result_event res) \<and>
     action_for_idempotency s (ident_session (request_ident (result_request res)))
       (idempotency_of command) = Inr (Some (result_action res)) \<and>
     congruent_evidence (result_request res) (result_run res) (result_event res) (result_action res)
       (operation_of command) (authority_worker (command_worker command)) (idempotency_of command)
       (command_fingerprint env command) \<and>
     holds_claim command res"

lemma recorded_on_record:
  "recorded env command res s \<Longrightarrow>
     get_request s (request_key_of (result_request res)) = Inr (result_request res) \<Longrightarrow>
     on_record env command res s"
  by (simp add: recorded_def on_record_def)

lemma on_record_recorded: "on_record env command res s \<Longrightarrow> recorded env command res s"
  by (auto simp: recorded_def on_record_def)

lemma recorded_evolves:
  assumes r: "recorded env command res s" and e: "evolves s s'"
  shows "recorded env command res s'"
proof -
  let ?q = "result_request res" and ?r = "result_run res" and ?v = "result_event res" and ?a = "result_action res"
  have "\<exists>q. get_request s' (request_key_of ?q) = Inr q \<and> later_claim ?q q"
    using r e unfolding recorded_def evolves_def by (meson later_claim_trans)
  moreover have "\<exists>r'. get_run s' (run_key ?r) = Inr r' \<and> same_run ?r r'"
    using r e unfolding recorded_def evolves_def by (meson same_run_trans)
  moreover have "get_event s' (row_event ?v) = Inr ?v"
    using r e by (auto simp: recorded_def evolves_def intro: events.get_appended)
  moreover have "action_for_idempotency s' (ident_session (request_ident ?q)) (idempotency_of command) = Inr (Some ?a)"
    using r e by (auto simp: recorded_def evolves_def intro: recorded_action_appended)
  ultimately show ?thesis using r by (simp add: recorded_def)
qed

lemma service_sound_store: "service_sound s \<Longrightarrow> store_sound s" "service_sound s \<Longrightarrow> keys_unique s"
  by (simp_all add: service_sound_def store_sound_def)

lemma execute_new:
  assumes "store_sound s" and "execute env command s = Inr (res, s')" and "\<not> result_replayed res"
  shows "commits env command s res s'"
  using execute_refines_commits [OF assms(2)] assms(1,3) by (auto simp: store_sound_def)

lemma history_keeps_record:
  assumes "service_sound s" and "execute env command s = Inr (res, s')" and "\<not> result_replayed res"
  shows "recorded env command res (serve_calls cs s')" "service_sound (serve_calls cs s')"
proof -
  note s = service_sound_store [OF assms(1)]
  have c: "commits env command s res s'" by (rule execute_new [OF s(1) assms(2,3)])
  have "Scope_EXECUTION_OPERATE \<in> set (authority_scopes (command_worker command))"
    using execute_refines_commits [OF assms(2) s(2)] by blast
  note rec = on_record_recorded [OF commits_recorded [OF c s(1) this]]
  have sound: "service_sound s'" using service_step_sound [OF service_step.lifecycle [OF c] assms(1)] by blast
  show "recorded env command res (serve_calls cs s')"
    using rec serve_calls_evolves [OF sound] by (rule recorded_evolves)
  show "service_sound (serve_calls cs s')" using sound by (rule serve_calls_sound)
qed

section \<open>Owners\<close>

lemma replay_result: "replay s q a fp (Some r) expected fence = Inr res \<Longrightarrow>
    result_request res = q \<and> result_run res = r"
  by (auto simp: replay_def bindR_Inr_iff missing_as_Inr simp del: bindR_require split: prod.splits)

lemma returned_owner:
  assumes a: "store_sound s" "execute env command s = Inr (res, s')" "run_command_of command = Some c"
  shows "\<exists>r q. get_run s (command_run c) = Inr r \<and> get_request s (run_request r) = Inr q \<and>
    result_request res = q \<and> owns_claim q c"
proof -
  have keys: "keys_unique s" using a(1) by (simp add: store_sound_def)
  from execute_refines_commits [OF a(2) keys]
  consider (new) "commits env command s res s'" | (old) "result_replayed res" "s' = s"
    "\<not> commits env command s res s'" by blast
  then show ?thesis
  proof cases
    case new
    then show ?thesis by cases (use a(3) in auto)
  next
    case old
    from a(2,3) obtain rule where rule: "rule_of command = Some rule"
      "transition_run env c command rule s = Inr (res, s')"
      by (auto simp: execute_def require_operate_scope_def bindR_Inr_iff
          split: lifecycle_command.splits if_splits)
    from rule(2) obtain lr locator prior where
      l: "get_run s (command_run c) = Inr lr" "get_request s (run_request lr) = Inr locator"
      and p: "replay_transition c rule (command_fingerprint env command) locator prior s = Inr (res, s')"
      using old(1) transition_new_Inr by (fastforce simp: transition_run_def Let_def bindR_Inr_iff find_Inr
          split: option.splits elim!: transition_new_Inr record_outcome_Inr)
    have "request_key_of locator = run_request lr" using requests.get_row [OF l(2)] by simp
    with p l requests.get_row [OF l(2)] show ?thesis
      by (auto simp: replay_transition_def bindR_Inr_iff find_Inr require_worker_owns_Inr
          split: if_splits dest!: replay_result)
  qed
qed

lemma owns_epoch: "owns_claim q c \<Longrightarrow> claim_epoch q = (1, lease_generation (command_fence c))"
  by (auto simp: owns_claim_def claim_epoch_def)

lemma claimed_epoch: "request_state q = RequestClaimed \<Longrightarrow> request_claim q = Some cl \<Longrightarrow>
    claim_epoch q = (1, claim_generation cl)"
  by (simp add: claim_epoch_def)

text \<open>A claim that is sent again after its lease moved is refused.\<close>

lemma claim_replay_refused:
  assumes "recorded env (ClaimAndOpenRun i a n k) res s" and "get_request s i = Inr q"
    and "claim_epoch (result_request res) < claim_epoch q" and "env_digest env' = env_digest env"
  shows "execute env' (ClaimAndOpenRun i a n k) s =
    Inl (RunLifecycleConflict ''claim replay no longer has active authority'')"
proof -
  let ?command = "ClaimAndOpenRun i a n k" and ?q = "result_request res" and ?a = "result_action res"
  have fp: "command_fingerprint env' ?command = command_fingerprint env ?command"
    using assms(4) by (simp add: command_fingerprint_def)
  have cong: "congruent_evidence ?q (result_run res) (result_event res) ?a OpClaimRun (authority_worker a) k
      (command_fingerprint env ?command)"
    and act: "action_for_idempotency s (ident_session (request_ident ?q)) k = Inr (Some ?a)"
    and scope: "require_operate_scope a = Inr ()"
    and later: "get_request s (request_key_of ?q) = Inr q \<Longrightarrow> later_claim ?q q"
    and claim: "holds_claim ?command res"
    using assms(1) by (auto simp: recorded_def require_operate_scope_def requireR_def)
  from claim obtain cl where key: "request_key_of ?q = i" and cl: "request_claim ?q = Some cl"
    by (auto simp: holds_claim_def)
  have same: "request_ident q = request_ident ?q" using later assms(2) key by (simp add: later_claim_def)
  have "payload_positive_integer (action_payload ?a) ''claim_generation'' = Inr (claim_generation cl)"
    using payload_reads(8) [OF cong cl] cong by (simp add: congruent_evidence_def)
  moreover have "\<not> (request_state q = RequestClaimed \<and> (case request_claim q of None \<Rightarrow> False
      | Some c \<Rightarrow> claim_worker c = action_actor ?a \<and> claim_generation c = claim_generation cl))"
    using assms(3) cl cong by (auto simp: claim_epoch_def congruent_evidence_def split: option.splits)
  ultimately have active: "claim_still_active q ?a =
      Inl (RunLifecycleConflict ''claim replay no longer has active authority'')"
    using cong by (cases "request_claim q") (auto simp: claim_still_active_def congruent_evidence_def requireR_def)
  have "replay s q ?a (command_fingerprint env ?command) None None None =
      Inl (RunLifecycleConflict ''claim replay no longer has active authority'')"
    using cong by (simp add: replay_def active congruent_evidence_def requireR_def)
  moreover have "find_request s i = Inr q" using assms(2) by (simp add: find_Inr)
  ultimately show ?thesis using act scope same
    by (simp add: execute_def claim_run_def Let_def fp)
qed

text \<open>A run command that is sent again after the claim of its request moved is refused.\<close>

lemma run_replay_refused:
  assumes "recorded env command res s" and "run_command_of command = Some c" and "store_sound s"
    and "get_request s (request_key_of (result_request res)) = Inr q"
    and "claim_epoch (result_request res) < claim_epoch q"
  shows "\<exists>e. execute env' command s = Inl e"
proof (rule ccontr)
  assume "\<not> ?thesis"
  then obtain res' s' where e: "execute env' command s = Inr (res', s')"
    by (cases "execute env' command s") auto
  have own: "command_run c = run_key (result_run res)" "owns_claim (result_request res) c"
    using assms(1,2) by (simp_all add: recorded_def holds_claim_def)
  obtain r where r: "get_run s (run_key (result_run res)) = Inr r" "same_run (result_run res) r"
    "run_request (result_run res) = request_key_of (result_request res)"
    using assms(1) by (auto simp: recorded_def congruent_evidence_def)
  from returned_owner [OF assms(3) e assms(2)] r own(1) assms(4) have "owns_claim q c"
    by (auto simp: same_run_def)
  with own(2) owns_epoch assms(5) show False by fastforce
qed

text \<open>A command sent again replays its outcome until the claim moves, and is refused from then on.\<close>

lemma sent_again:
  assumes r: "recorded env command res s" and "service_sound s" and d: "env_digest env' = env_digest env"
  shows "\<exists>q. get_request s (request_key_of (result_request res)) = Inr q \<and>
    (if q = result_request res
     then \<exists>r. get_run s (run_key (result_run res)) = Inr r \<and> same_run (result_run res) r \<and>
       execute env' command s = Inr (again r res, s)
     else \<exists>e. execute env' command s = Inl e)"
proof -
  obtain q where q: "get_request s (request_key_of (result_request res)) = Inr q" "later_claim (result_request res) q"
    using r by (auto simp: recorded_def)
  show ?thesis
  proof (cases "q = result_request res")
    case True
    with recorded_replays [OF recorded_on_record [OF r] d] q(1) show ?thesis by simp
  next
    case False
    with q(2) have later: "claim_epoch (result_request res) < claim_epoch q" by (simp add: later_claim_def)
    have "\<exists>e. execute env' command s = Inl e"
    proof (cases "run_command_of command")
      case None
      with r obtain a n k where c: "command = ClaimAndOpenRun (request_key_of (result_request res)) a n k"
        by (auto simp: recorded_def holds_claim_def)
      show ?thesis using claim_replay_refused [OF r [unfolded c] q(1) later d] c by blast
    next
      case (Some c)
      from run_replay_refused [OF r Some service_sound_store(1) [OF assms(2)] q(1) later] show ?thesis by blast
    qed
    with q(1) False show ?thesis by simp
  qed
qed

lemma queued_epoch: "request_state q = RequestClaimed \<Longrightarrow> later_claim q q' \<Longrightarrow> request_state q' \<noteq> RequestQueued"
  by (auto simp: later_claim_def claim_epoch_def split: if_splits)

end
