(* ===== verification/Sample_Store.thy ===== *)
theory Sample_Store
  imports Run_Lifecycle Sample_Values
begin

text \<open>
  A concrete store with one open session and one queued request, and the commands of a run:
  claim, start, pause, resume and complete. Each step is evaluated.
\<close>

definition sample_session :: operation_session where
  "sample_session = \<lparr>session_id = ''session-1'', session_workspace = ''ws-1'', session_actor = ''ana'',
     session_title = ''deploy'', session_state = SessionOpen, session_created = ''2024-01-01T00:00:00Z'',
     session_closed_at = None, session_metadata = [], session_key = None, session_intent = None\<rparr>"

definition queued_request :: execution_request where
  "queued_request = \<lparr>request_ident = \<lparr>ident_request = ''req-1'', ident_workspace = ''ws-1'',
       ident_session = ''session-1'', ident_plan = ''plan-1''\<rparr>,
     request_state = RequestQueued, requested_by = ''ana'', requested_at = ''2024-01-01T00:00:01Z'',
     approval_request = ''apr-1'', approval_decision = ''apd-1'',
     request_idempotency = \<lparr>request_key = ''admit-1'', request_intent = ''fp''\<rparr>, request_claim = None\<rparr>"

definition sample_plan_row :: plan_row where
  "sample_plan_row = \<lparr>plan_key = ''plan-1'', plan_session = ''session-1'', plan_base_graph = ''graph-1'',
     plan_desired_graph = ''graph-2'', plan_status_of = PlanPlanned, plan_created = ''2024-01-01T00:00:00Z'',
     plan_body = sample_plan, plan_base_projection = Some ''proj-1'', plan_desired_projection = Some ''proj-2'',
     plan_revision = 1\<rparr>"

definition sample_approval :: approval_row where
  "sample_approval = \<lparr>approval_key = ''apr-1'', approval_session = ''session-1'',
     approval_subject_of = PlanSubject ''plan-1'', approval_by = ''ana'', approval_at = ''2024-01-01T00:00:00Z'',
     required_scope = Scope_PLAN_APPROVE, approval_max_risk = MEDIUM, approval_destructive = False,
     approval_comment = None, approval_idempotency = None, approval_intent = None\<rparr>"

definition sample_approval_decision :: decision_row where
  "sample_approval_decision = \<lparr>decision_key = ''apd-1'', decision_request = ''apr-1'', decision_actor = ''bob'',
     decision_answer = AnswerApproved, decision_scope = Scope_PLAN_APPROVE,
     decision_at = ''2024-01-01T00:00:00Z'', decision_comment = None, decision_idempotency = None,
     decision_intent = None\<rparr>"

definition queued_store :: ops_store where
  "queued_store = \<lparr>db_sessions = [sample_session], db_requests = [queued_request], db_runs = [],
     db_events = [], db_actions = [], db_plans = [sample_plan_row], db_approvals = [sample_approval],
     db_decisions = [sample_approval_decision]\<rparr>"

definition sample_ids :: "char \<Rightarrow> nat \<Rightarrow> string" where
  "sample_ids c n = c # ''-'' @ nat_text n"

definition sample_digest :: "string \<Rightarrow> string" where
  "sample_digest t = ''len-'' @ nat_text (length t)"

definition sample_env :: "char \<Rightarrow> string \<Rightarrow> lifecycle_env" where
  "sample_env c now = \<lparr>env_now = now, env_observed = now,
     env_lease_end = (\<lambda>t n. ''2024-01-01T02:00:00Z''), env_ids = sample_ids c, env_digest = sample_digest\<rparr>"

definition worker_a :: worker_authority where
  "worker_a = \<lparr>authority_worker = ''worker-a'', authority_scopes = [Scope_EXECUTION_OPERATE]\<rparr>"

definition fence_a :: lease_fence where
  "fence_a = \<lparr>lease_worker = ''worker-a'', lease_generation = 1\<rparr>"

definition sample_command :: "string \<Rightarrow> run_command" where
  "sample_command k = \<lparr>command_run = ''a-0'', command_authority = worker_a, command_fence = fence_a,
     command_key = k\<rparr>"

definition sample_claim :: lifecycle_command where
  "sample_claim = ClaimAndOpenRun ''req-1'' worker_a 600 ''claim-1''"

definition env_claim :: lifecycle_env where
  "env_claim = sample_env CHR ''a'' ''2024-01-01T00:01:00Z''"

definition env_start :: lifecycle_env where
  "env_start = sample_env CHR ''b'' ''2024-01-01T00:02:00Z''"

definition env_retry :: lifecycle_env where
  "env_retry = sample_env CHR ''c'' ''2024-01-01T00:03:00Z''"

text \<open>The store after the claim, and after the start.\<close>

definition claimed_request :: execution_request where
  "claimed_request = queued_request\<lparr>request_state := RequestClaimed,
     request_claim := Some \<lparr>claim_worker = ''worker-a'', claim_generation = 1,
       claimed_at = ''2024-01-01T00:01:00Z'', lease_expires_at = ''2024-01-01T02:00:00Z''\<rparr>\<rparr>"

definition claimed_run :: activity_run where
  "claimed_run = \<lparr>run_key = ''a-0'', run_plan = ''plan-1'', run_request = ''req-1'',
     run_retry = \<lparr>retry_attempt = 1, prior_run = None\<rparr>, run_state = RunClaimed,
     run_created = ''2024-01-01T00:01:00Z'', run_started = None, run_settled = None,
     run_metadata = BoundedEvidence [(''attempt'', PInt 1)]\<rparr>"

definition opened_event :: activity_event where
  "opened_event = \<lparr>row_event = ''a-1'', row_run = ''a-0'', row_ordinal = 1, row_kind = Ev_RUN_OPENED,
     occurred_at = ''2024-01-01T00:01:00Z'', row_activity = None,
     row_evidence = BoundedEvidence [(''attempt'', PInt 1)], row_failure = None, row_recovery = None\<rparr>"

definition claim_action :: operation_action where
  "claim_action = \<lparr>action_id = ''a-2'', action_session = ''session-1'', action_ordinal = 1,
     action_type = LifecycleAction OpClaimRun, action_actor = ''worker-a'',
     action_payload = [(''execution_request_id'', PStr ''req-1''), (''plan_id'', PStr ''plan-1''),
       (''run_id'', PStr ''a-0''), (''run_status'', PStr ''claimed''), (''event_id'', PStr ''a-1''),
       (''event_type'', PStr ''run_opened''), (''event_ordinal'', PInt 1), (''claim_generation'', PInt 1)],
     action_created = ''2024-01-01T00:01:00Z'', action_key = Some ''claim-1'',
     action_intent = Some ''len-96''\<rparr>"

definition claimed_store :: ops_store where
  "claimed_store = \<lparr>db_sessions = [sample_session], db_requests = [claimed_request],
     db_runs = [claimed_run], db_events = [opened_event], db_actions = [claim_action],
     db_plans = [sample_plan_row], db_approvals = [sample_approval], db_decisions = [sample_approval_decision]\<rparr>"

definition claim_result :: lifecycle_result where
  "claim_result = \<lparr>result_request = claimed_request, result_run = claimed_run,
     result_event = opened_event, result_action = claim_action, result_replayed = False\<rparr>"

definition started_run :: activity_run where
  "started_run = claimed_run\<lparr>run_state := RunRunning, run_started := Some ''2024-01-01T00:02:00Z''\<rparr>"

definition started_event :: activity_event where
  "started_event = \<lparr>row_event = ''b-0'', row_run = ''a-0'', row_ordinal = 2, row_kind = Ev_RUN_STARTED,
     occurred_at = ''2024-01-01T00:02:00Z'', row_activity = None, row_evidence = BoundedEvidence [],
     row_failure = None, row_recovery = None\<rparr>"

definition start_action :: operation_action where
  "start_action = \<lparr>action_id = ''b-1'', action_session = ''session-1'', action_ordinal = 2,
     action_type = LifecycleAction OpStartRun, action_actor = ''worker-a'',
     action_payload = [(''execution_request_id'', PStr ''req-1''), (''plan_id'', PStr ''plan-1''),
       (''run_id'', PStr ''a-0''), (''run_status'', PStr ''running''), (''event_id'', PStr ''b-0''),
       (''event_type'', PStr ''run_started''), (''event_ordinal'', PInt 2), (''claim_generation'', PInt 1)],
     action_created = ''2024-01-01T00:02:00Z'', action_key = Some ''start-1'',
     action_intent = Some ''len-82''\<rparr>"

definition started_store :: ops_store where
  "started_store = \<lparr>db_sessions = [sample_session], db_requests = [claimed_request],
     db_runs = [started_run], db_events = [opened_event, started_event],
     db_actions = [claim_action, start_action], db_plans = [sample_plan_row],
     db_approvals = [sample_approval], db_decisions = [sample_approval_decision]\<rparr>"

definition start_result :: lifecycle_result where
  "start_result = \<lparr>result_request = claimed_request, result_run = started_run,
     result_event = started_event, result_action = start_action, result_replayed = False\<rparr>"

text \<open>The store after the claimed run was cancelled instead.\<close>

definition cancelled_run :: activity_run where
  "cancelled_run = claimed_run\<lparr>run_state := RunCancelled, run_started := Some ''2024-01-01T00:02:00Z'',
     run_settled := Some ''2024-01-01T00:02:00Z''\<rparr>"

definition cancelled_event :: activity_event where
  "cancelled_event = started_event\<lparr>row_kind := Ev_RUN_CANCELLED\<rparr>"

definition cancel_action :: operation_action where
  "cancel_action = start_action\<lparr>action_type := LifecycleAction OpCancelRun,
     action_payload := [(''execution_request_id'', PStr ''req-1''), (''plan_id'', PStr ''plan-1''),
       (''run_id'', PStr ''a-0''), (''run_status'', PStr ''cancelled''), (''event_id'', PStr ''b-0''),
       (''event_type'', PStr ''run_cancelled''), (''event_ordinal'', PInt 2), (''claim_generation'', PInt 1)],
     action_key := Some ''cancel-1'', action_intent := Some ''len-97''\<rparr>"

definition cancelled_store :: ops_store where
  "cancelled_store = claimed_store\<lparr>db_runs := [cancelled_run],
     db_events := [opened_event, cancelled_event], db_actions := [claim_action, cancel_action]\<rparr>"

definition cancel_result :: lifecycle_result where
  "cancel_result = \<lparr>result_request = claimed_request, result_run = cancelled_run,
     result_event = cancelled_event, result_action = cancel_action, result_replayed = False\<rparr>"

section \<open>Evaluations\<close>

lemma sample_story_runs:
  "execute env_claim sample_claim queued_store = Inr (claim_result, claimed_store)"
  "execute env_start (StartRun (sample_command ''start-1'')) claimed_store = Inr (start_result, started_store)"
  "execute env_start (CancelRun (sample_command ''cancel-1'') no_evidence) claimed_store =
     Inr (cancel_result, cancelled_store)"
  "execute env_retry sample_claim claimed_store =
     Inr (claim_result\<lparr>result_replayed := True\<rparr>, claimed_store)"
  by code_simp+

lemmas sample_claim_runs = sample_story_runs(1)
  and sample_start_runs = sample_story_runs(2)
  and sample_cancel_runs = sample_story_runs(3)
  and sample_claim_replays = sample_story_runs(4)

end
