(* ===== verification/Sample_Recovery.thy ===== *)
theory Sample_Recovery
  imports Retry_Service Step_Recording Sample_Store
begin

text \<open>
  A failed run whose lease expires, and what its operators do: a takeover by another worker, the retry
  of the run under the new fence, and the start of the new run. Each step is evaluated.
\<close>

definition hex_sample :: "string \<Rightarrow> string" where
  "hex_sample t = (let d = nat_text (length t) in replicate (64 - length d) CHR ''0'' @ d)"

definition recovery_env :: "char \<Rightarrow> string \<Rightarrow> lifecycle_env" where
  "recovery_env c now = \<lparr>env_now = now, env_observed = now,
     env_lease_end = (\<lambda>t n. case expires_at t n of Inr e \<Rightarrow> e | Inl e \<Rightarrow> t),
     env_ids = sample_ids c, env_digest = hex_sample\<rparr>"

definition sample_failure :: failure_evidence where
  "sample_failure = \<lparr>failure_kind = FailureTerminal, failure_code = ''activity-step-failed'',
     failure_message = ''one or more planned activities failed'', failure_details = no_evidence\<rparr>"

definition step_event :: "string \<Rightarrow> string \<Rightarrow> int \<Rightarrow> activity_event_kind \<Rightarrow> failure_evidence option \<Rightarrow>
    activity_event" where
  "step_event i now n k f = \<lparr>row_event = i, row_run = ''a-0'', row_ordinal = n, row_kind = k,
     occurred_at = now, row_activity = Some ''start:db'',
     row_evidence = BoundedEvidence [(''claim_generation'', PInt 1), (''details'', PDict [])],
     row_failure = f, row_recovery = None\<rparr>"

definition failed_run :: activity_run where
  "failed_run = started_run\<lparr>run_state := RunFailed\<rparr>"

definition failed_event :: activity_event where
  "failed_event = \<lparr>row_event = ''f-0'', row_run = ''a-0'', row_ordinal = 5, row_kind = Ev_RUN_FAILED,
     occurred_at = ''2024-01-01T00:05:00Z'', row_activity = None, row_evidence = no_evidence,
     row_failure = Some sample_failure, row_recovery = None\<rparr>"

definition fail_action :: operation_action where
  "fail_action = \<lparr>action_id = ''f-1'', action_session = ''session-1'', action_ordinal = 3,
     action_type = LifecycleAction OpFailRun, action_actor = ''worker-a'',
     action_payload = [(''execution_request_id'', PStr ''req-1''), (''plan_id'', PStr ''plan-1''),
       (''run_id'', PStr ''a-0''), (''run_status'', PStr ''failed''), (''event_id'', PStr ''f-0''),
       (''event_type'', PStr ''run_failed''), (''event_ordinal'', PInt 5), (''claim_generation'', PInt 1)],
     action_created = ''2024-01-01T00:05:00Z'', action_key = Some ''fail-1'',
     action_intent = Some ''len-208''\<rparr>"

definition step_journal :: "activity_event list" where
  "step_journal = [opened_event, started_event,
     step_event ''d-0'' ''2024-01-01T00:03:00Z'' 3 Ev_STEP_STARTED None,
     step_event ''e-0'' ''2024-01-01T00:04:00Z'' 4 Ev_STEP_FAILED (Some sample_failure)]"

definition failed_journal :: "activity_event list" where
  "failed_journal = step_journal @ [failed_event]"

definition stepped_store :: ops_store where
  "stepped_store = started_store\<lparr>db_events := step_journal\<rparr>"

definition failed_store :: ops_store where
  "failed_store = started_store\<lparr>db_runs := [failed_run], db_events := failed_journal,
     db_actions := [claim_action, start_action, fail_action]\<rparr>"

definition fail_result :: lifecycle_result where
  "fail_result = \<lparr>result_request = claimed_request, result_run = failed_run, result_event = failed_event,
     result_action = fail_action, result_replayed = False\<rparr>"

definition started_step_store :: ops_store where
  "started_step_store = started_store\<lparr>db_events := butlast step_journal\<rparr>"

definition step_started_env :: lifecycle_env where
  "step_started_env = sample_env CHR ''d'' ''2024-01-01T00:03:00Z''"

definition step_failed_env :: lifecycle_env where
  "step_failed_env = sample_env CHR ''e'' ''2024-01-01T00:04:00Z''"

definition fail_env :: lifecycle_env where
  "fail_env = sample_env CHR ''f'' ''2024-01-01T00:05:00Z''"

definition sample_fail :: lifecycle_command where
  "sample_fail = FailRun (sample_command ''fail-1'') sample_failure"

definition operator :: recovery_authority where
  "operator = \<lparr>recovery_actor = ''oscar'', authority_reference = ''ticket-1'',
     recovery_scopes = [AuthorityAbandonClaim, AuthorityOperate, AuthorityRenewClaim, AuthorityTakeOverClaim]\<rparr>"

definition sample_target :: "lease_fence \<Rightarrow> string \<Rightarrow> lease_target" where
  "sample_target f k = \<lparr>target_request = ''req-1'', target_run = RunId ''a-0'', target_fence = f,
     target_authority = operator, target_key = k\<rparr>"

definition fence_b :: lease_fence where
  "fence_b = \<lparr>lease_worker = ''worker-b'', lease_generation = 2\<rparr>"

definition take_over :: lease_command where
  "take_over = TakeOverClaim (sample_target fence_a ''take-1'') ''worker-b'' 600"

definition env_expired :: lifecycle_env where
  "env_expired = recovery_env CHR ''t'' ''2024-01-01T03:00:00Z''"

definition env_linked :: lifecycle_env where
  "env_linked = recovery_env CHR ''u'' ''2024-01-01T03:05:00Z''"


text \<open>The store after the takeover.\<close>

definition taken_request :: execution_request where
  "taken_request = claimed_request\<lparr>request_claim := Some \<lparr>claim_worker = ''worker-b'', claim_generation = 2,
     claimed_at = ''2024-01-01T03:00:00Z'', lease_expires_at = ''2024-01-01T03:10:00Z''\<rparr>\<rparr>"

definition taken_recovery :: lease_recovery where
  "taken_recovery = \<lparr>recovery_decision_kind = ChooseTakeOverExpiredClaim, retained_run = RunId ''a-0'',
     prior_fence = fence_a, replacement_fence = Some fence_b\<rparr>"

definition taken_decision :: activity_event where
  "taken_decision = \<lparr>row_event = ''t-0'', row_run = ''a-0'', row_ordinal = 6,
     row_kind = Ev_RECOVERY_DECISION_RECORDED, occurred_at = ''2024-01-01T03:00:00Z'', row_activity = None,
     row_evidence = no_evidence, row_failure = None, row_recovery = Some taken_recovery\<rparr>"

definition taken_event :: activity_event where
  "taken_event = \<lparr>row_event = ''t-1'', row_run = ''a-0'', row_ordinal = 7, row_kind = Ev_REQUEST_CLAIM_TAKEN_OVER,
     occurred_at = ''2024-01-01T03:00:00Z'', row_activity = None, row_evidence = no_evidence,
     row_failure = None, row_recovery = None\<rparr>"

definition fence_json :: "string \<Rightarrow> int \<Rightarrow> py" where
  "fence_json w g = PDict [(''worker_id'', PStr w), (''generation'', PInt g)]"

definition taken_action :: operation_action where
  "taken_action = \<lparr>action_id = ''t-2'', action_session = ''session-1'', action_ordinal = 4,
     action_type = LifecycleAction OpRecordRecoveryDecision, action_actor = ''oscar'',
     action_payload = [(''execution_request_id'', PStr ''req-1''), (''plan_id'', PStr ''plan-1''),
       (''retained_run_id'', PStr ''a-0''), (''decision_event_id'', PStr ''t-0''),
       (''decision_event_kind'', PStr ''recovery_decision_recorded''), (''decision_event_ordinal'', PInt 6),
       (''consequence_event_id'', PStr ''t-1''),
       (''consequence_event_kind'', PStr ''request_claim_taken_over''), (''consequence_event_ordinal'', PInt 7),
       (''recovery'', PDict [(''decision'', PStr ''take-over-expired-claim''), (''retained_run_id'', PStr ''a-0''),
          (''prior_fence'', fence_json ''worker-a'' 1), (''replacement_fence'', fence_json ''worker-b'' 2)]),
       (''lease_duration_seconds'', PInt 600)],
     action_created = ''2024-01-01T03:00:00Z'', action_key = Some ''take-1'',
     action_intent = Some (replicate 61 CHR ''0'' @ ''248'')\<rparr>"

definition taken_store :: ops_store where
  "taken_store = failed_store\<lparr>db_requests := [taken_request],
     db_events := failed_journal @ [taken_decision, taken_event],
     db_actions := [claim_action, start_action, fail_action, taken_action]\<rparr>"

definition taken_result :: lease_result where
  "taken_result = \<lparr>lease_request = taken_request, lease_run = failed_run, lease_decision = taken_decision,
     lease_consequence = taken_event, lease_action = taken_action, lease_replayed = False\<rparr>"

text \<open>The store after the retry by the worker of the new fence.\<close>

definition second_run :: activity_run where
  "second_run = \<lparr>run_key = ''u-0'', run_plan = ''plan-1'', run_request = ''req-1'',
     run_retry = \<lparr>retry_attempt = 2, prior_run = Some ''a-0''\<rparr>, run_state = RunClaimed,
     run_created = ''2024-01-01T03:05:00Z'', run_started = None, run_settled = None,
     run_metadata = BoundedEvidence [(''attempt'', PInt 2), (''prior_run_id'', PStr ''a-0'')]\<rparr>"

definition retry_decided :: activity_event where
  "retry_decided = \<lparr>row_event = ''u-1'', row_run = ''a-0'', row_ordinal = 8,
     row_kind = Ev_RECOVERY_DECISION_RECORDED, occurred_at = ''2024-01-01T03:05:00Z'', row_activity = None,
     row_evidence = no_evidence, row_failure = None,
     row_recovery = Some \<lparr>recovery_decision_kind = ChooseRetryAsNewRun, retained_run = RunId ''a-0'',
       prior_fence = fence_b, replacement_fence = Some fence_b\<rparr>\<rparr>"

definition second_opened :: activity_event where
  "second_opened = \<lparr>row_event = ''u-2'', row_run = ''u-0'', row_ordinal = 1, row_kind = Ev_RUN_OPENED,
     occurred_at = ''2024-01-01T03:05:00Z'', row_activity = None, row_evidence = run_metadata second_run,
     row_failure = None, row_recovery = None\<rparr>"

definition retried_action :: operation_action where
  "retried_action = \<lparr>action_id = ''u-3'', action_session = ''session-1'', action_ordinal = 5,
     action_type = LifecycleAction OpRecordRecoveryDecision, action_actor = ''oscar'',
     action_payload = [(''execution_request_id'', PStr ''req-1''), (''plan_id'', PStr ''plan-1''),
       (''prior_run_id'', PStr ''a-0''), (''run_id'', PStr ''u-0''), (''prior_attempt'', PInt 1),
       (''attempt'', PInt 2), (''decision_event_id'', PStr ''u-1''),
       (''decision_event_kind'', PStr ''recovery_decision_recorded''), (''decision_event_ordinal'', PInt 8),
       (''opened_event_id'', PStr ''u-2''), (''opened_event_kind'', PStr ''run_opened''),
       (''opened_event_ordinal'', PInt 1),
       (''recovery'', PDict [(''decision'', PStr ''retry-as-new-run''), (''retained_run_id'', PStr ''a-0''),
          (''prior_fence'', fence_json ''worker-b'' 2), (''replacement_fence'', fence_json ''worker-b'' 2)])],
     action_created = ''2024-01-01T03:05:00Z'', action_key = Some ''retry-1'',
     action_intent = Some (replicate 61 CHR ''0'' @ ''181'')\<rparr>"

definition retried_store :: ops_store where
  "retried_store = taken_store\<lparr>db_runs := [failed_run, second_run],
     db_events := failed_journal @ [taken_decision, taken_event, retry_decided, second_opened],
     db_actions := [claim_action, start_action, fail_action, taken_action, retried_action]\<rparr>"

definition retried_result :: retry_result where
  "retried_result = \<lparr>retry_request = taken_request, retry_prior = failed_run, retry_run = second_run,
     retry_decision = retry_decided, retry_opened = second_opened, retry_action = retried_action,
     retry_replayed = False\<rparr>"

section \<open>Evaluations\<close>

lemma sample_recovery_runs:
  "record_step_event step_started_env (sample_command ''execute-1'') ''start:db'' Ev_STEP_STARTED no_evidence None
     started_store = Inr (step_event ''d-0'' ''2024-01-01T00:03:00Z'' 3 Ev_STEP_STARTED None, started_step_store)"
  "record_step_event step_failed_env (sample_command ''execute-1'') ''start:db'' Ev_STEP_FAILED no_evidence
     (Some sample_failure) started_step_store =
     Inr (step_event ''e-0'' ''2024-01-01T00:04:00Z'' 4 Ev_STEP_FAILED (Some sample_failure), stepped_store)"
  "execute fail_env sample_fail stepped_store = Inr (fail_result, failed_store)"
  "recover env_expired take_over failed_store = Inr (taken_result, taken_store)"
  "retry_failed_run env_linked (sample_target fence_b ''retry-1'') taken_store = Inr (retried_result, retried_store)"
  by code_simp+

lemmas sample_steps_run = sample_recovery_runs(1,2)
  and sample_fail_runs = sample_recovery_runs(3)
  and sample_take_over_runs = sample_recovery_runs(4)
  and sample_retry_runs = sample_recovery_runs(5)

end
