(* ===== verification/Sample_History.thy ===== *)
theory Sample_History
  imports Service_Records Sample_Recovery
begin

text \<open>
  The samples as one history of the services: the queued store is sound, and every later store of the
  samples is what the calls of the history leave.
\<close>

definition sample_story :: "service_call list" where
  "sample_story = [CallLifecycle env_claim sample_claim,
     CallLifecycle env_start (StartRun (sample_command ''start-1'')),
     CallStep step_started_env (sample_command ''execute-1'') ''start:db'' Ev_STEP_STARTED no_evidence None,
     CallStep step_failed_env (sample_command ''execute-1'') ''start:db'' Ev_STEP_FAILED no_evidence
       (Some sample_failure),
     CallLifecycle fail_env sample_fail, CallRecovery env_expired take_over,
     CallRetry env_linked (sample_target fence_b ''retry-1'')]"

lemma serve_calls_Cons:
  "serve_calls [] s = s" "serve_call s c = Inr t \<Longrightarrow> serve_calls (c # cs) s = serve_calls cs t"
  using serve_calls_fold [of t cs] by (simp_all add: serve_calls_def split: sum.splits)

lemma sample_calls:
  "serve_call queued_store (CallLifecycle env_claim sample_claim) = Inr claimed_store"
  "serve_call claimed_store (CallLifecycle env_start (StartRun (sample_command ''start-1''))) = Inr started_store"
  "serve_call started_store (CallStep step_started_env (sample_command ''execute-1'') ''start:db''
     Ev_STEP_STARTED no_evidence None) = Inr started_step_store"
  "serve_call started_step_store (CallStep step_failed_env (sample_command ''execute-1'') ''start:db''
     Ev_STEP_FAILED no_evidence (Some sample_failure)) = Inr stepped_store"
  "serve_call stepped_store (CallLifecycle fail_env sample_fail) = Inr failed_store"
  "serve_call failed_store (CallRecovery env_expired take_over) = Inr taken_store"
  "serve_call taken_store (CallRetry env_linked (sample_target fence_b ''retry-1'')) = Inr retried_store"
  "serve_call claimed_store (CallLifecycle env_start (CancelRun (sample_command ''cancel-1'') no_evidence)) =
     Inr cancelled_store"
  by (simp_all add: sample_claim_runs sample_start_runs sample_steps_run sample_fail_runs sample_take_over_runs
      sample_retry_runs sample_cancel_runs)

lemma sample_history:
  "serve_calls (take 1 sample_story) queued_store = claimed_store"
  "serve_calls (take 2 sample_story) queued_store = started_store"
  "serve_calls (take 5 sample_story) queued_store = failed_store"
  "serve_calls (take 6 sample_story) queued_store = taken_store"
  "serve_calls sample_story queued_store = retried_store"
  by (simp_all add: sample_story_def serve_calls_Cons(1) serve_calls_Cons(2) [OF sample_calls(1)]
      serve_calls_Cons(2) [OF sample_calls(2)] serve_calls_Cons(2) [OF sample_calls(3)]
      serve_calls_Cons(2) [OF sample_calls(4)] serve_calls_Cons(2) [OF sample_calls(5)]
      serve_calls_Cons(2) [OF sample_calls(6)] serve_calls_Cons(2) [OF sample_calls(7)] del: serve_call.simps)

lemma later_samples:
  "serve_calls (take 1 (drop 1 sample_story)) claimed_store = started_store"
  "serve_calls (take 5 (drop 1 sample_story)) claimed_store = taken_store"
  by (simp_all add: sample_story_def serve_calls_Cons(1)
      serve_calls_Cons(2) [OF sample_calls(2)] serve_calls_Cons(2) [OF sample_calls(3)]
      serve_calls_Cons(2) [OF sample_calls(4)] serve_calls_Cons(2) [OF sample_calls(5)]
      serve_calls_Cons(2) [OF sample_calls(6)] del: serve_call.simps)

lemma queued_store_sound: "service_sound queued_store"
  by (simp add: service_sound_def store_sound_def keys_unique_def runs_sound_def journal_sound_def
      actions_sound_def attempts_chained_def queued_store_def session_actions_def numbered_def
      List.map_filter_simps)

lemma sample_stores_sound:
  "service_sound claimed_store" "service_sound started_store" "service_sound failed_store"
  "service_sound taken_store" "service_sound retried_store"
  using serve_calls_sound [OF queued_store_sound] sample_history by metis+

lemma cancelled_store_sound: "service_sound cancelled_store"
  using serve_calls_sound [OF sample_stores_sound(1),
      of "[CallLifecycle env_start (CancelRun (sample_command ''cancel-1'') no_evidence)]"]
  by (simp add: serve_calls_Cons(1) serve_calls_Cons(2) [OF sample_calls(8)] del: serve_call.simps)

text \<open>A run that is paused and then fails.\<close>

definition paused_event :: activity_event where
  "paused_event = \<lparr>row_event = ''p-0'', row_run = ''a-0'', row_ordinal = 3, row_kind = Ev_RUN_PAUSED,
     occurred_at = ''2024-01-01T00:03:00Z'', row_activity = None, row_evidence = no_evidence,
     row_failure = None, row_recovery = None\<rparr>"

definition pause_action :: operation_action where
  "pause_action = \<lparr>action_id = ''p-1'', action_session = ''session-1'', action_ordinal = 3,
     action_type = LifecycleAction OpPauseRun, action_actor = ''worker-a'',
     action_payload = [(''execution_request_id'', PStr ''req-1''), (''plan_id'', PStr ''plan-1''),
       (''run_id'', PStr ''a-0''), (''run_status'', PStr ''paused''), (''event_id'', PStr ''p-0''),
       (''event_type'', PStr ''run_paused''), (''event_ordinal'', PInt 3), (''claim_generation'', PInt 1)],
     action_created = ''2024-01-01T00:03:00Z'', action_key = Some ''pause-1'',
     action_intent = Some ''len-96''\<rparr>"

definition paused_store :: ops_store where
  "paused_store = started_store\<lparr>db_runs := [started_run\<lparr>run_state := RunPaused\<rparr>],
     db_events := [opened_event, started_event, paused_event],
     db_actions := [claim_action, start_action, pause_action]\<rparr>"

definition halted_store :: ops_store where
  "halted_store = paused_store\<lparr>db_runs := [failed_run],
     db_events := [opened_event, started_event, paused_event, failed_event\<lparr>row_ordinal := 4\<rparr>],
     db_actions := [claim_action, start_action, pause_action, fail_action\<lparr>action_ordinal := 4,
       action_payload := [(''execution_request_id'', PStr ''req-1''), (''plan_id'', PStr ''plan-1''),
       (''run_id'', PStr ''a-0''), (''run_status'', PStr ''failed''), (''event_id'', PStr ''f-0''),
       (''event_type'', PStr ''run_failed''), (''event_ordinal'', PInt 4), (''claim_generation'', PInt 1)]\<rparr>]\<rparr>"

lemma sample_evaluations:
  "map_sum id snd (execute (sample_env CHR ''p'' ''2024-01-01T00:03:00Z'')
     (PauseRun (sample_command ''pause-1'') no_evidence) started_store) = Inr paused_store"
  "map_sum id snd (execute fail_env sample_fail paused_store) = Inr halted_store"
  "get_request started_store ''req-1'' = Inr claimed_request"
  "get_request failed_store ''req-1'' = Inr claimed_request"
  "get_request taken_store ''req-1'' = Inr taken_request"
  "get_run started_store ''a-0'' = Inr started_run"
  "get_run cancelled_store ''a-0'' = Inr cancelled_run"
  "get_run failed_store ''a-0'' = Inr failed_run"
  "get_run taken_store ''a-0'' = Inr failed_run"
  "get_latest_run_for_request halted_store ''req-1'' = Inr failed_run"
  "events_for_run halted_store ''a-0'' =
     Inr [opened_event, started_event, paused_event, failed_event\<lparr>row_ordinal := 4\<rparr>]"
  "check_request queued_request = Inr queued_request"
  "expires_at ''2024-01-01T03:00:00Z'' 600 = Inr ''2024-01-01T03:10:00Z''"
  "command_fingerprint env_retry (ClaimAndOpenRun ''req-1'' worker_a 60 ''claim-1'') = ''len-95''"
  "command_fingerprint env_claim sample_claim = ''len-96''"
  by code_simp+

lemmas sample_halts = sample_evaluations(1,2)
  and sample_rows = sample_evaluations(3,4,5,6,7,8,9)
  and halted_rows = sample_evaluations(10,11)
  and sample_fingerprints = sample_evaluations(14,15)

lemma halted_store_sound: "service_sound halted_store"
proof -
  have calls: "serve_call started_store (CallLifecycle (sample_env CHR ''p'' ''2024-01-01T00:03:00Z'')
      (PauseRun (sample_command ''pause-1'') no_evidence)) = Inr paused_store"
    "serve_call paused_store (CallLifecycle fail_env sample_fail) = Inr halted_store"
    using sample_halts by (auto split: sum.splits)
  show ?thesis
    using serve_calls_sound [OF sample_stores_sound(2), of "[CallLifecycle (sample_env CHR ''p'' ''2024-01-01T00:03:00Z'')
      (PauseRun (sample_command ''pause-1'') no_evidence), CallLifecycle fail_env sample_fail]"]
    by (simp only: serve_calls_Cons(1) serve_calls_Cons(2) [OF calls(1)] serve_calls_Cons(2) [OF calls(2)])
qed

end
