(* ===== verification/Lifecycle_Properties.thy ===== *)
theory Lifecycle_Properties
  imports Sample_History
begin

text \<open>Properties of the command service of the run lifecycle.\<close>

section \<open>Facts the properties share\<close>

text \<open>The contract of the canonical set that a command falls under.\<close>

lemma command_contract:
  assumes "rule_of command = Some rule"
  shows "\<exists>k\<in>set canonical_operations. operation_kind k = operation_of command \<and>
     result_run_status k = Some (rule_replacement rule) \<and> event_kinds k = [rule_event rule] \<and>
     set (rule_expected rule) \<subseteq> set (accepted_run_statuses k)"
proof -
  have rule: "rule = the (rule_of command)" using assms by simp
  show ?thesis
  proof (cases command)
    case (ClaimAndOpenRun i a n k)
    with assms show ?thesis by simp
  qed (simp_all add: rule canonical_operations_def)
qed

lemma settled_run_stays:
  assumes "service_step call s s'" and "get_run s i = Inr r" and "run_state r \<in> set settled_run_statuses"
  shows "get_run s' i = Inr r"
proof -
  have settled: "run_settled r \<noteq> None"
    using runs.get_row [OF assms(2)] assms(3)
    by (auto simp: accepted_def check_run_def bindR_Inr_iff validate_run_timing_def split: if_splits)
  have kept: ?thesis if "db_runs s' = db_runs s @ rs" for rs
    using runs.get_appended [OF assms(2) that] .
  from assms(1) show ?thesis
  proof cases
    case (lifecycle env command res)
    from lifecycle(2) show ?thesis
    proof cases
      case (claim j q k q' a seconds r' s1 v act)
      then show ?thesis by (intro kept [of "[r']"]) (simp add: put_request_def)
    next
      case (move rule c r0 q r' s1 v act)
      have "i \<noteq> run_key r'"
        using move(4,10,11) assms(2) settled runs.get_row [OF move(4)] by (auto simp: same_run_def)
      with runs.get_replaced_other [of s' r' s i r] assms(2) show ?thesis
        by (simp add: move(16,18) put_run_def)
    qed
  next
    case (recovery env c v)
    from recovery(2) show ?thesis by cases (intro kept [of "[]"], simp add: put_request_def)
  next
    case (retry env t v)
    from retry(2) show ?thesis by cases (intro kept, simp)
  next
    case (step c activity k v env evidence failure)
    from step(2) show ?thesis by cases (intro kept [of "[]"], simp)
  qed
qed

text \<open>Commands for the request or the run of a recorded outcome.\<close>

definition targets :: "lifecycle_command \<Rightarrow> lifecycle_result \<Rightarrow> bool" where
  "targets command res \<longleftrightarrow>
     (case run_command_of command of
        Some c \<Rightarrow> command_run c = run_key (result_run res)
      | None \<Rightarrow> \<exists>a n k. command = ClaimAndOpenRun (request_key_of (result_request res)) a n k)"

lemma recorded_refuses:
  assumes "recorded env command res s" and "idempotency_of other = idempotency_of command"
    and "targets other res" and "Scope_EXECUTION_OPERATE \<in> set (authority_scopes (command_worker other))"
    and "command_fingerprint env' other \<noteq> command_fingerprint env command"
  shows "execute env' other s = Inl (RunLifecycleIdempotencyConflict
     ''idempotency key was reused with different lifecycle intent'')"
proof -
  let ?q = "result_request res" and ?a = "result_action res"
  have scope: "require_operate_scope (command_worker other) = Inr ()"
    using assms(4) by (simp add: require_operate_scope_def requireR_def)
  obtain q where q: "find_request s (request_key_of ?q) = Inr q" "request_ident q = request_ident ?q"
    using assms(1) by (auto simp: recorded_def find_Inr later_claim_def)
  have rec: "action_intent ?a = Some (command_fingerprint env command)"
    "action_for_idempotency s (ident_session (request_ident q)) (idempotency_of other) = Inr (Some ?a)"
    using assms(1,2) q(2) by (simp_all add: recorded_def congruent_evidence_def)
  obtain r where r: "find_run s (run_key (result_run res)) = Inr r" "run_request r = request_key_of ?q"
    using assms(1) by (auto simp: recorded_def congruent_evidence_def find_Inr same_run_def)
  show ?thesis
  proof (cases "run_command_of other")
    case None
    with assms(3) obtain a n k where o: "other = ClaimAndOpenRun (request_key_of ?q) a n k"
      by (auto simp: targets_def)
    with rec q scope assms(5) show ?thesis
      by (simp add: execute_def claim_run_def Let_def replay_def)
  next
    case (Some c)
    obtain rule where rule: "rule_of other = Some rule" using Some by (cases other) simp_all
    have "transition_run env' c other rule s = Inl (RunLifecycleIdempotencyConflict
       ''idempotency key was reused with different lifecycle intent'')"
      using rec q r assms(3,5) rule_of_command(2) [OF rule Some] Some
      by (simp add: transition_run_def replay_transition_def Let_def targets_def)
    with scope rule Some show ?thesis by (cases other) (simp_all add: execute_def)
  qed
qed

section \<open>Properties\<close>

text \<open>
  C14: a command is carried out once: after it returned, and whatever the services do next, sending
  the same command again returns the recorded event and action and changes nothing, as long as the
  claim of the request is the one it ran under; once a recovery has moved that claim, it is refused.
\<close>

theorem command_is_exactly_once:
  "service_sound s \<Longrightarrow> execute env command s = Inr (res, s1) \<Longrightarrow> \<not> result_replayed res \<Longrightarrow>
   env_digest env' = env_digest env \<Longrightarrow> s2 = serve_calls cs s1 \<Longrightarrow>
     \<exists>q. get_request s2 (request_key_of (result_request res)) = Inr q \<and>
       (if q = result_request res
        then \<exists>r. get_run s2 (run_key (result_run res)) = Inr r \<and> same_run (result_run res) r \<and>
          execute env' command s2 = Inr (again r res, s2)
        else \<exists>e. execute env' command s2 = Inl e)"
  using history_keeps_record sent_again by blast

theorem command_is_exactly_once_witness:
  "(\<exists>r. execute env_retry sample_claim started_store = Inr (again r claim_result, started_store)) \<and>
   (\<exists>e. execute env_retry sample_claim taken_store = Inl e)"
proof -
  have calls: "started_store = serve_calls (take 1 (drop 1 sample_story)) claimed_store"
    "taken_store = serve_calls (take 5 (drop 1 sample_story)) claimed_store"
    by (simp_all only: later_samples)
  have d: "env_digest env_retry = env_digest env_claim" by (simp add: env_claim_def env_retry_def sample_env_def)
  have "\<not> result_replayed claim_result" by (simp add: claim_result_def)
  note once = command_is_exactly_once [OF queued_store_sound sample_claim_runs this d]
  have rows: "get_request started_store ''req-1'' = Inr claimed_request"
    "get_request taken_store ''req-1'' = Inr taken_request" by (rule sample_rows)+
  have q: "result_request claim_result = claimed_request" "request_key_of claimed_request = ''req-1''"
    "taken_request \<noteq> claimed_request"
    by (simp_all add: claim_result_def claimed_request_def taken_request_def request_key_of_def queued_request_def)
  from once [OF calls(1)] once [OF calls(2)] rows q show ?thesis by auto
qed

text \<open>
  C25: a command that returns either replays a recorded outcome and leaves the store as it
  is, or is a step of the abstract service; in both cases the worker has the operate scope.
\<close>

theorem service_implements_steps:
  "store_sound s \<Longrightarrow> execute env command s = Inr (res, s') \<Longrightarrow>
     Scope_EXECUTION_OPERATE \<in> set (authority_scopes (command_worker command)) \<and>
     (result_replayed res \<and> s' = s \<or> commits env command s res s')"
  using execute_refines_commits store_sound_def by blast

theorem service_implements_steps_witness: "commits env_claim sample_claim queued_store claim_result claimed_store"
  using service_implements_steps [OF service_sound_store(1) [OF queued_store_sound] sample_claim_runs]
  by (simp add: claim_result_def)

text \<open>
  C17: every transition of the service conforms to the published contract of its operation: the
  status it leaves is accepted there, and the status and the event are the declared ones.
\<close>

theorem transition_conforms_to_contract:
  "store_sound s \<Longrightarrow> execute env command s = Inr (res, s') \<Longrightarrow> \<not> result_replayed res \<Longrightarrow>
   run_command_of command = Some c \<Longrightarrow>
     \<exists>r k. get_run s (command_run c) = Inr r \<and> k \<in> set canonical_operations \<and>
       operation_kind k = operation_of command \<and> run_state r \<in> set (accepted_run_statuses k) \<and>
       result_run_status k = Some (run_state (result_run res)) \<and> event_kinds k = [row_kind (result_event res)]"
proof -
  assume a: "store_sound s" "execute env command s = Inr (res, s')" "\<not> result_replayed res"
    "run_command_of command = Some c"
  from execute_new [OF a(1-3)] show ?thesis
  proof cases
    case (move rule c' r q r' s1 v act)
    with command_contract [OF move(2)] a(4) show ?thesis
      by (fastforce simp: outcome_rows_def)
  qed (use a(4) in simp)
qed

theorem transition_conforms_to_contract_witness:
  "\<exists>k\<in>set canonical_operations. operation_kind k = OpStartRun \<and>
     result_run_status k = Some RunRunning \<and> event_kinds k = [Ev_RUN_STARTED]"
  using transition_conforms_to_contract [OF service_sound_store(1) [OF sample_stores_sound(1)] sample_start_runs,
      of "sample_command ''start-1''"]
  by (auto simp: start_result_def started_run_def started_event_def)

text \<open>
  C19: in every history of the services the row of a run is the projection of its journal: the events are
  numbered from one without gaps, and their statuses are a path of the declared run machine from
  claimed to the status in the row.
\<close>

theorem run_is_projection_of_journal:
  "service_sound s \<Longrightarrow> get_run (serve_calls cs s) i = Inr r \<Longrightarrow>
     numbered (map row_ordinal (events_of_run (serve_calls cs s) i)) \<and>
     machine_path (status_path (events_of_run (serve_calls cs s) i)) (run_state r)"
  using serve_calls_sound [of s cs] runs.get_row [of "serve_calls cs s" i r]
  by (auto simp: service_sound_def store_sound_def journal_sound_def)

theorem run_is_projection_of_journal_witness:
  "machine_path (status_path (events_of_run (serve_calls (take 5 sample_story) queued_store) ''a-0'')) RunFailed"
proof -
  have "get_run (serve_calls (take 5 sample_story) queued_store) ''a-0'' = Inr failed_run"
    unfolding sample_history by (rule sample_rows)
  from run_is_projection_of_journal [OF queued_store_sound this] show ?thesis
    by (simp add: failed_run_def)
qed

text \<open>
  C28: every history keeps the invariant of the store and only moves it forward, and in the store it
  leads to two active runs of one request are the same run, whatever recoveries and retries took place.
\<close>

theorem one_active_run_per_request:
  "service_sound s \<Longrightarrow>
     service_sound (serve_calls cs s) \<and> evolves s (serve_calls cs s) \<and>
     (\<forall>r\<in>set (db_runs (serve_calls cs s)). \<forall>q\<in>set (db_runs (serve_calls cs s)).
        run_request q = run_request r \<and> run_state r \<in> set active_run_statuses \<and>
        run_state q \<in> set active_run_statuses \<longrightarrow> q = r)"
proof -
  assume s: "service_sound s"
  have sound: "service_sound (serve_calls cs s)" using s by (rule serve_calls_sound)
  note store = sound [unfolded service_sound_def store_sound_def]
  have keys: "inj_on run_key (set (db_runs (serve_calls cs s)))"
    using store by (simp add: keys_unique_def distinct_map)
  have "q = r" if r: "r \<in> set (db_runs (serve_calls cs s))" "q \<in> set (db_runs (serve_calls cs s))"
    "run_request q = run_request r" "run_state r \<in> set active_run_statuses" "run_state q \<in> set active_run_statuses" for r q
  proof -
    have "\<not> active_conflict r q" using store r(1,2) by (auto simp: runs_sound_def list_ex_iff)
    with r have "run_key q = run_key r" by (simp add: active_conflict_def)
    with keys r(1,2) show ?thesis by (auto dest: inj_onD)
  qed
  with sound serve_calls_evolves [OF s] show ?thesis by blast
qed

theorem one_active_run_per_request_witness:
  "service_sound (serve_calls sample_story queued_store) \<and>
   filter (\<lambda>r. run_state r \<in> set active_run_statuses) (db_runs (serve_calls sample_story queued_store)) = [second_run]"
proof -
  have "filter (\<lambda>r. run_state r \<in> set active_run_statuses) (db_runs (serve_calls sample_story queued_store)) = [second_run]"
    unfolding sample_history
    by (simp add: retried_store_def second_run_def active_run_statuses_def failed_run_def)
  then show ?thesis using one_active_run_per_request [OF queued_store_sound] by blast
qed

text \<open>
  C15: a command for a run returns only to the worker that holds the claim: the fence it carries
  is the worker and generation of the current claim of the run's request.
\<close>

theorem returned_command_holds_claim:
  "store_sound s \<Longrightarrow> execute env command s = Inr (res, s') \<Longrightarrow> run_command_of command = Some c \<Longrightarrow>
     \<exists>r q. get_run s (command_run c) = Inr r \<and> get_request s (run_request r) = Inr q \<and>
       result_request res = q \<and> owns_claim q c"
  by (rule returned_owner)

theorem returned_command_holds_claim_witness: "owns_claim claimed_request (sample_command ''start-1'')"
  using returned_command_holds_claim [OF service_sound_store(1) [OF sample_stores_sound(1)] sample_start_runs,
      of "sample_command ''start-1''"]
  by (auto simp: start_result_def)

text \<open>
  C27: a request is claimed once: after a claim returned, a claim of the same request, by any worker
  and after any history of the services, never opens a second run.
\<close>

theorem request_is_claimed_once:
  "service_sound s \<Longrightarrow> execute env (ClaimAndOpenRun i a n k) s = Inr (res, s1) \<Longrightarrow>
   \<not> result_replayed res \<Longrightarrow>
   execute env' (ClaimAndOpenRun i a' n' k') (serve_calls cs s1) = Inr (res', s2) \<Longrightarrow>
     result_replayed res' \<and> s2 = serve_calls cs s1"
proof -
  assume a: "service_sound s" "execute env (ClaimAndOpenRun i a n k) s = Inr (res, s1)" "\<not> result_replayed res"
    and b: "execute env' (ClaimAndOpenRun i a' n' k') (serve_calls cs s1) = Inr (res', s2)"
  note rec = history_keeps_record [OF a, of cs]
  then obtain q where "get_request (serve_calls cs s1) i = Inr q" "request_state q \<noteq> RequestQueued"
    by (auto simp: recorded_def holds_claim_def congruent_evidence_def dest: queued_epoch)
  then have "\<not> commits env' (ClaimAndOpenRun i a' n' k') (serve_calls cs s1) res' s2"
    by (auto elim!: commitsE)
  with execute_refines_commits [OF b service_sound_store(2) [OF rec(2)]] show ?thesis by blast
qed

theorem request_is_claimed_once_witness:
  "\<exists>res. result_replayed res \<and> execute env_retry sample_claim claimed_store = Inr (res, claimed_store)"
proof -
  have "execute env_retry sample_claim (serve_calls [] claimed_store) =
      Inr (claim_result\<lparr>result_replayed := True\<rparr>, serve_calls [] claimed_store)"
    unfolding serve_calls_Cons by (rule sample_claim_replays)
  from this request_is_claimed_once [OF queued_store_sound sample_claim_runs [unfolded sample_claim_def] _
      this [unfolded sample_claim_def]] show ?thesis
    by (simp add: claim_result_def serve_calls_Cons)
qed

text \<open>
  C30: the status of a settled run is final: no history of the services changes the row of a run that
  has succeeded, was cancelled or whose compensation ended.
\<close>

theorem settled_run_is_final:
  "service_sound s \<Longrightarrow> get_run s i = Inr r \<Longrightarrow> run_state r \<in> set settled_run_statuses \<Longrightarrow>
     get_run (serve_calls cs s) i = Inr r"
proof -
  assume a: "service_sound s" "get_run s i = Inr r" "run_state r \<in> set settled_run_statuses"
  have step: "get_run s' i = Inr r" if "service_sound s" "get_run s i = Inr r" "serve_call s c = Inr s'" for s c s'
    using serve_call_step [OF service_sound_store(2) [OF that(1)] that(3)] that(2) settled_run_stays a(3) by blast
  show ?thesis
    by (rule services.fold_keeps [where K = "\<lambda>s. get_run s i = Inr r", OF step a(1,2) serve_calls_fold])
qed

theorem settled_run_is_final_witness:
  "get_run (serve_calls [CallLifecycle env_retry (StartRun (sample_command ''start-1''))] cancelled_store) ''a-0'' =
     Inr cancelled_run"
proof -
  have "get_run cancelled_store ''a-0'' = Inr cancelled_run" by (rule sample_rows)
  moreover have "run_state cancelled_run \<in> set settled_run_statuses"
    by (simp add: cancelled_run_def settled_run_statuses_def)
  ultimately show ?thesis by (rule settled_run_is_final [OF cancelled_store_sound])
qed

text \<open>
  C31: a key that was used is refused for another intent: after a command returned, a command of
  another fingerprint with the same key, for the same request or run and with the scope to operate,
  raises the idempotency conflict, in every later store. (The scope is checked before the key, and
  keys are looked up per session.)
\<close>

theorem reused_key_is_refused:
  "service_sound s \<Longrightarrow> execute env command s = Inr (res, s1) \<Longrightarrow> \<not> result_replayed res \<Longrightarrow>
   idempotency_of other = idempotency_of command \<Longrightarrow> targets other res \<Longrightarrow>
   Scope_EXECUTION_OPERATE \<in> set (authority_scopes (command_worker other)) \<Longrightarrow>
   command_fingerprint env' other \<noteq> command_fingerprint env command \<Longrightarrow>
     execute env' other (serve_calls cs s1) = Inl (RunLifecycleIdempotencyConflict
       ''idempotency key was reused with different lifecycle intent'')"
  using history_keeps_record recorded_refuses by blast

theorem reused_key_is_refused_witness:
  "execute env_retry (ClaimAndOpenRun ''req-1'' worker_a 60 ''claim-1'') taken_store =
     Inl (RunLifecycleIdempotencyConflict ''idempotency key was reused with different lifecycle intent'')"
proof -
  have "command_fingerprint env_retry (ClaimAndOpenRun ''req-1'' worker_a 60 ''claim-1'') = ''len-95''"
    "command_fingerprint env_claim sample_claim = ''len-96''" by (rule sample_fingerprints)+
  then have other: "command_fingerprint env_retry (ClaimAndOpenRun ''req-1'' worker_a 60 ''claim-1'') \<noteq>
    command_fingerprint env_claim sample_claim" by simp
  have "execute env_retry (ClaimAndOpenRun ''req-1'' worker_a 60 ''claim-1'')
      (serve_calls (take 5 (drop 1 sample_story)) claimed_store) =
     Inl (RunLifecycleIdempotencyConflict ''idempotency key was reused with different lifecycle intent'')"
    by (rule reused_key_is_refused [OF queued_store_sound sample_claim_runs])
      (use other in \<open>simp_all add: claim_result_def sample_claim_def targets_def worker_a_def
        claimed_request_def queued_request_def request_key_of_def\<close>)
  then show ?thesis by (simp only: later_samples)
qed

end
