(* ===== verification/Lease_Facts.thy ===== *)
theory Lease_Facts
  imports Service_Records
begin

text \<open>Facts on recoveries and retries that their properties share: epochs over histories, eligible
  journals, typed rows and the chain of attempts.\<close>

lemma find_by_key: "distinct (map f xs) \<Longrightarrow> x \<in> set xs \<Longrightarrow> find (\<lambda>y. f y = f x) xs = Some x"
  by (induction xs) force+

lemma recover_step:
  assumes "service_sound s" and "recover env c s = Inr (v, s')" and "\<not> lease_replayed v"
  shows "recovers env c s v s'"
  using recover_refines_recovers [OF assms(2) service_sound_store(2) [OF assms(1)]] assms(3) by blast

lemma retry_step:
  assumes "service_sound s" and "retry_failed_run env t s = Inr (v, s')" and "\<not> retry_replayed v"
  shows "retries env t s v s'"
  using retry_refines_retries [OF assms(2) service_sound_store(2) [OF assms(1)]] assms(3) by blast

text \<open>The epoch of the request after a recovery is later, in every history that follows.\<close>

lemma recovered_epoch:
  assumes "service_sound s" and "recovers env c s v s1"
    and "get_request (serve_calls cs s1) (target_request (lease_target_of c)) = Inr q"
  shows "(1, lease_generation (target_fence (lease_target_of c))) < claim_epoch q"
  using assms(2)
proof cases
  case (recovers t p cl r plan vs f q' d w a)
  have key: "request_key_of q' = target_request t" "request_key_of p = target_request t"
    using recovered_ident [OF recovers(16)] requests.get_row [OF recovers(3)] by simp_all
  have in_keys: "request_key_of q' \<in> request_key_of ` set (db_requests s)"
    using requests.get_row [OF recovers(3)] key by (metis imageI)
  have "get_request s1 (request_key_of q') = Inr q'"
    by (rule requests.get_replaced [OF _ in_keys recovers(17)]) (simp add: recovers(25) put_request_def)
  moreover have sound: "service_sound s1"
    using service_step_sound [OF service_step.recovery [OF assms(2)] assms(1)] by blast
  ultimately obtain q2 where "get_request (serve_calls cs s1) (target_request t) = Inr q2" "later_claim q' q2"
    using evolves_request [OF serve_calls_evolves] key(1) by metis
  with assms(3) recovers(2) have "later_claim q' q" by simp
  moreover have "claim_epoch p < claim_epoch q'" using recovered_later [OF recovers(16)] recovers(2,4) by simp
  moreover have "claim_epoch p = (1, lease_generation (target_fence t))"
    using recovers(4) by (simp add: claim_of_def claim_epoch_def)
  ultimately show ?thesis using recovers(2) by (auto simp: later_claim_def)
qed

text \<open>Events of a run that are not part of a recovery survive the scan for recovery pairs.\<close>

lemma strip_pairs_keeps:
  "strip_pairs c vs = Some (base, f) \<Longrightarrow> v \<in> set vs \<Longrightarrow> row_kind v \<notin> set recovery_event_kinds \<Longrightarrow> v \<in> set base"
proof (induction c vs arbitrary: base f rule: strip_pairs.induct)
  case (2 c u us)
  show ?case
  proof (cases "row_kind u = Ev_RECOVERY_DECISION_RECORDED")
    case False
    with 2 show ?thesis by (force split: if_splits)
  next
    case True
    with 2(3) obtain w ws r where us: "us = w # ws" and rest: "row_recovery u = Some r"
      "\<not> pair_rejected c u r w" "strip_pairs (c\<lparr>last_replacement := Some (replacement_fence r)\<rparr>) ws = Some (base, f)"
      by (auto split: list.splits option.splits if_splits)
    have "row_kind w \<in> set recovery_event_kinds"
      using rest(2) by (cases "recovery_decision_kind r") (auto simp: pair_rejected_def recovery_event_kinds_def)
    with 2(4,5) True us have "v \<in> set ws" by (auto simp: recovery_event_kinds_def)
    with 2(2) True us rest 2(5) show ?thesis by auto
  qed
qed simp

lemma guarded_choice:
  assumes "(if bad then Inl e else case found of None \<Rightarrow> Inl e
    | Some x \<Rightarrow> bindR (pr x) (\<lambda>j. if active then (if c x then Inl e1 else Inr ())
        else if d x then Inl e2 else bindR (eff j) (\<lambda>b. if b then Inl e3 else Inr ()))) = Inr ()"
  shows "\<exists>x j. found = Some x \<and> pr x = Inr j \<and> (if active then \<not> c x else \<not> d x \<and> eff j = Inr False)"
  using assms by (auto simp: bindR_Inr_iff split: if_splits option.splits)

lemma eligible_journal:
  assumes "require_recovery_eligible_journal k f r p vs = Inr ()"
  obtains base projection where "journal_without_recovery_pairs vs f = Some base"
    "project_base p base = Inr projection"
    "run_event_kinds base = (if k = ChooseRenewActiveClaim then [Ev_RUN_OPENED]
       else [Ev_RUN_OPENED, Ev_RUN_STARTED, Ev_RUN_FAILED])"
    "k \<noteq> ChooseRenewActiveClaim \<Longrightarrow> effect_unresolved projection = Inr False"
proof -
  from guarded_choice [OF assms [unfolded require_recovery_eligible_journal_def Let_def]]
  obtain base projection where j: "journal_without_recovery_pairs vs f = Some base"
      "project_base p base = Inr projection"
    and k: "if k = ChooseRenewActiveClaim
       then \<not> (list_ex (\<lambda>v. journal_kind_of (row_kind v) \<noteq> None) base \<or> run_event_kinds base \<noteq> [Ev_RUN_OPENED])
       else \<not> (k \<noteq> ChooseRetryAsNewRun \<and> consequence_kind k = None \<or>
         run_event_kinds base \<noteq> [Ev_RUN_OPENED, Ev_RUN_STARTED, Ev_RUN_FAILED]) \<and>
         effect_unresolved projection = Inr False"
    by (elim exE conjE) (rule that)
  show ?thesis
    by (rule that [OF j]) (use k in \<open>auto split: if_splits\<close>)
qed

lemma eligible_run_kinds:
  assumes "require_recovery_eligible_journal k f r p vs = Inr ()" and "v \<in> set vs"
    and "row_kind v \<in> {Ev_RUN_PAUSED, Ev_RUN_RESUMED}"
  shows False
proof -
  obtain base projection where b: "journal_without_recovery_pairs vs f = Some base"
      "run_event_kinds base = (if k = ChooseRenewActiveClaim then [Ev_RUN_OPENED]
         else [Ev_RUN_OPENED, Ev_RUN_STARTED, Ev_RUN_FAILED])"
    by (rule eligible_journal [OF assms(1)])
  from b(1) obtain g where "strip_pairs \<lparr>last_replacement = None, saw_opened = False, saw_started = False,
      saw_failed = False\<rparr> vs = Some (base, g)"
    by (auto simp: journal_without_recovery_pairs_def split: option.splits if_splits)
  from strip_pairs_keeps [OF this assms(2)] assms(3) have "v \<in> set base" by (auto simp: recovery_event_kinds_def)
  with assms(3) have "row_kind v \<in> set (run_event_kinds base)"
    by (auto simp: run_event_kinds_def)
  with b(2) assms(3) show False by (auto split: if_splits)
qed

text \<open>The rows of the store are values their constructors accept.\<close>

definition rows_typed :: "ops_store \<Rightarrow> bool" where
  "rows_typed s \<longleftrightarrow> (\<forall>q\<in>set (db_requests s). accepted check_request q) \<and>
     (\<forall>r\<in>set (db_runs s). accepted check_run r) \<and> (\<forall>v\<in>set (db_events s). accepted check_row v) \<and>
     (\<forall>a\<in>set (db_actions s). accepted check_action a)"

lemma rows_typed_put:
  "rows_typed s \<Longrightarrow> accepted check_request q \<Longrightarrow> rows_typed (put_request q s)"
  "rows_typed s \<Longrightarrow> accepted check_run r \<Longrightarrow> rows_typed (put_run r s)"
  by (auto simp: rows_typed_def put_request_def put_run_def)

lemma rows_typed_added:
  "rows_typed s \<Longrightarrow> db_requests s' = db_requests s \<Longrightarrow> db_runs s' = db_runs s @ rs \<Longrightarrow>
   db_events s' = db_events s @ vs \<Longrightarrow> db_actions s' = db_actions s @ as \<Longrightarrow>
   \<forall>r\<in>set rs. accepted check_run r \<Longrightarrow> \<forall>v\<in>set vs. accepted check_row v \<Longrightarrow>
   \<forall>a\<in>set as. accepted check_action a \<Longrightarrow> rows_typed s'"
  by (auto simp: rows_typed_def)

lemma outcome_rows_typed:
  "outcome_rows env n q r k kind now worker key fp s v a \<Longrightarrow> accepted check_row v \<and> accepted check_action a"
  unfolding outcome_rows_def by (elim conjE) (rule conjI)

lemma step_typed:
  assumes "service_step call s s'" and "rows_typed s"
  shows "rows_typed s'"
  using assms(1)
proof cases
  case (lifecycle env command res)
  from lifecycle(2) show ?thesis
  proof cases
    case (claim i q k q' a seconds r s1 v act)
    show ?thesis
      by (rule rows_typed_added [OF rows_typed_put(1) [OF assms(2) claim(9)], of s' "[r]" "[v]" "[act]"])
        (use claim(11) outcome_rows_typed [OF claim(14)] in \<open>simp_all add: claim(13,15) put_request_def\<close>)
  next
    case (move rule c r q r' s1 v act)
    show ?thesis
      by (rule rows_typed_added [OF rows_typed_put(2) [OF assms(2) move(14)], of s' "[]" "[v]" "[act]"])
        (use outcome_rows_typed [OF move(17)] in \<open>simp_all add: move(16,18) put_run_def\<close>)
  qed
next
  case (recovery env c v)
  from recovery(2) show ?thesis
  proof cases
    case (recovers t q cl r p vs f q' d w a)
    show ?thesis
      by (rule rows_typed_added [OF rows_typed_put(1) [OF assms(2) recovers(17)], of s' "[]" "[d, w]" "[a]"])
        (use recovers(24) in \<open>simp_all add: recovers(25) put_request_def appended_rows_def\<close>)
  qed
next
  case (retry env t v)
  from retry(2) show ?thesis
  proof cases
    case (retries q cl p plan vs r metadata d w a)
    show ?thesis
      by (rule rows_typed_added [OF assms(2), of s' "[r]" "[d, w]" "[a]"])
        (use retries(16,24) in \<open>simp_all add: retries(25) appended_rows_def\<close>)
  qed
next
  case (step c activity k v env evidence failure)
  from step(2) show ?thesis
    by cases (intro rows_typed_added [OF assms(2), of s' "[]" "[v]" "[]"], simp_all)
qed

lemma serve_calls_typed: "service_sound s \<Longrightarrow> rows_typed s \<Longrightarrow> rows_typed (serve_calls cs s)"
proof -
  assume a: "service_sound s" "rows_typed s"
  have step: "rows_typed s'" if "service_sound s" "rows_typed s" "serve_call s c = Inr s'" for s c s'
    using serve_call_step [OF service_sound_store(2) [OF that(1)] that(3)] that(2) step_typed by blast
  show ?thesis by (rule services.fold_keeps [where K = rows_typed, OF step a serve_calls_fold])
qed

text \<open>The attempts below the attempt of a run were made, in order, and failed.\<close>

lemma earlier_attempt:
  assumes c: "attempts_chained s" and "r \<in> set (db_runs s)"
  shows "\<forall>n\<ge>1. n < retry_attempt (run_retry r) \<longrightarrow>
    (\<exists>p\<in>set (db_runs s). run_request p = run_request r \<and> retry_attempt (run_retry p) = n \<and> run_state p = RunFailed)"
  using assms(2)
proof (induction "nat (retry_attempt (run_retry r))" arbitrary: r rule: less_induct)
  case less
  from c less(2) consider (one) "first_attempt r" | (linked) p where "p \<in> set (db_runs s)" "follows r p"
    unfolding attempts_chained_def by blast
  then show ?case
  proof cases
    case one
    then show ?thesis by (simp add: first_attempt_def)
  next
    case (linked p)
    note f = linked(2) [unfolded follows_def]
    show ?thesis
    proof (intro allI impI)
      fix n :: int assume n: "1 \<le> n" "n < retry_attempt (run_retry r)"
      show "\<exists>p\<in>set (db_runs s). run_request p = run_request r \<and> retry_attempt (run_retry p) = n \<and>
        run_state p = RunFailed"
      proof (cases "n = retry_attempt (run_retry p)")
        case True
        with linked(1) f show ?thesis by blast
      next
        case False
        with n f have "n < retry_attempt (run_retry p)" "nat (retry_attempt (run_retry p)) < nat (retry_attempt (run_retry r))"
          by simp_all
        with less(1) [OF this(2) linked(1)] n(1) f show ?thesis by auto
      qed
    qed
  qed
qed

end
