(* ===== verification/Lease_Properties.thy ===== *)
theory Lease_Properties
  imports Lease_Facts Sample_History
begin

text \<open>Properties of lease recovery, of the retry of failed runs and of recorded steps.\<close>



text \<open>
  C18: what a new recovery does: the request was claimed under the fence that the command names, its
  lease had expired (or had not, exactly when the decision is to renew an active claim), and afterwards it is
  released, or claimed for the same or the next worker under the next generation until a
  later time. Runs stay as they are, and two events and one action are appended.
\<close>

theorem recovery_effect:
  "service_sound s \<Longrightarrow> recover env c s = Inr (v, s') \<Longrightarrow> \<not> lease_replayed v \<Longrightarrow>
   t = lease_target_of c \<Longrightarrow>
     \<exists>q cl. get_request s (target_request t) = Inr q \<and> claim_of q (target_fence t) cl \<and>
       lease_expired (lease_expires_at cl) (env_observed env) = (lease_decision_kind c \<noteq> ChooseRenewActiveClaim) \<and>
       (case lease_duration_of c of
          None \<Rightarrow> get_request s' (target_request t) = Inr (released q)
        | Some n \<Rightarrow> \<exists>e. get_request s' (target_request t) = Inr (reclaimed q (next_fence c) (env_observed env) e) \<and>
            expires_at (env_observed env) n = Inr e \<and> \<not> lease_expired e (env_observed env)) \<and>
       db_runs s' = db_runs s \<and> db_events s' = db_events s @ [lease_decision v, lease_consequence v] \<and>
       db_actions s' = db_actions s @ [lease_action v]"
proof -
  assume a: "service_sound s" "recover env c s = Inr (v, s')" "\<not> lease_replayed v" "t = lease_target_of c"
  from recover_step [OF a(1-3)] show ?thesis
  proof cases
    case (recovers t' q cl r p vs f q' d w act)
    have key: "request_key_of q' = target_request t" "request_key_of q = target_request t"
      using recovered_ident [OF recovers(16)] requests.get_row [OF recovers(3)] recovers(2) a(4) by simp_all
    have in_keys: "request_key_of q' \<in> request_key_of ` set (db_requests s)"
      using requests.get_row [OF recovers(3)] key by (metis imageI)
    have got: "get_request s' (target_request t) = Inr q'"
      using requests.get_replaced [OF _ in_keys recovers(17), of s'] key
      by (simp add: recovers(25) put_request_def)
    have expired: "lease_expired (lease_expires_at cl) (env_observed env) =
        (lease_decision_kind c \<noteq> ChooseRenewActiveClaim)"
      using recovers(15) by (cases c) simp_all
    have new: "case lease_duration_of c of None \<Rightarrow> q' = released q
      | Some n \<Rightarrow> \<exists>e. q' = reclaimed q (next_fence c) (env_observed env) e \<and> expires_at (env_observed env) n = Inr e \<and>
          \<not> lease_expired e (env_observed env)"
    proof (cases "lease_duration_of c")
      case None
      with recovers(16) show ?thesis by (simp add: recovered_request_def)
    next
      case (Some n)
      with recovers(16) obtain g e where g: "1 \<le> n" "expires_at (env_observed env) n = Inr e"
        "lease_generation g = lease_generation (target_fence (lease_target_of c)) + 1"
        "lease_worker g = (case c of TakeOverClaim t w k \<Rightarrow> w | _ \<Rightarrow> lease_worker (target_fence (lease_target_of c)))"
        "q' = reclaimed q g (env_observed env) e"
        by (auto simp: recovered_request_def)
      have "g = next_fence c" using g(3,4) by (simp add: next_fence_def)
      moreover have "\<not> lease_expired e (env_observed env)"
        using expires_at_later(3) [OF g(2,1)] by (simp add: lease_expired_def)
      ultimately show ?thesis using Some g(2,5) by auto
    qed
    have "case lease_duration_of c of None \<Rightarrow> get_request s' (target_request t) = Inr (released q)
      | Some n \<Rightarrow> \<exists>e. get_request s' (target_request t) = Inr (reclaimed q (next_fence c) (env_observed env) e) \<and>
          expires_at (env_observed env) n = Inr e \<and> \<not> lease_expired e (env_observed env)"
      using new by (auto simp: got split: option.splits)
    moreover have "db_runs s' = db_runs s" "db_events s' = db_events s @ [d, w]" "db_actions s' = db_actions s @ [act]"
      by (simp_all add: recovers(25) put_request_def)
    ultimately show ?thesis using recovers(1-4) a(4) expired by auto
  qed
qed

theorem recovery_effect_witness:
  "get_request taken_store ''req-1'' = Inr (reclaimed claimed_request fence_b ''2024-01-01T03:00:00Z'' ''2024-01-01T03:10:00Z'')"
proof -
  have c: "lease_duration_of take_over = Some 600" "next_fence take_over = fence_b"
    "target_request (lease_target_of take_over) = ''req-1''" "env_observed env_expired = ''2024-01-01T03:00:00Z''"
    by (simp_all add: take_over_def next_fence_def fence_b_def sample_target_def fence_a_def env_expired_def recovery_env_def)
  have q: "get_request failed_store ''req-1'' = Inr claimed_request" by (rule sample_rows)
  note e = sample_evaluations(13)
  have "\<not> lease_replayed taken_result" by (simp add: taken_result_def)
  from recovery_effect [OF sample_stores_sound(3) sample_take_over_runs this refl] show ?thesis
    unfolding c option.case q e by auto
qed

text \<open>
  C16: a fence that a recovery replaced is excluded for good: in every later history no lifecycle
  command and no step event of a worker that still carries it is accepted for a run of the request.
\<close>

theorem stale_fence_is_excluded:
  "service_sound s \<Longrightarrow> recover env c s = Inr (v, s1) \<Longrightarrow> \<not> lease_replayed v \<Longrightarrow> s2 = serve_calls cs s1 \<Longrightarrow>
   command_fence rc = target_fence (lease_target_of c) \<Longrightarrow> get_run s2 (command_run rc) = Inr r \<Longrightarrow>
   run_request r = target_request (lease_target_of c) \<Longrightarrow> run_command_of command = Some rc \<Longrightarrow>
     (\<exists>e. execute env' command s2 = Inl e) \<and> (\<exists>e. record_step_event env' rc activity k details failure s2 = Inl e)"
proof -
  assume a: "service_sound s" "recover env c s = Inr (v, s1)" "\<not> lease_replayed v" "s2 = serve_calls cs s1"
    "command_fence rc = target_fence (lease_target_of c)" "get_run s2 (command_run rc) = Inr r"
    "run_request r = target_request (lease_target_of c)" "run_command_of command = Some rc"
  note step = recover_step [OF a(1-3)]
  have sound: "service_sound s2"
    using service_step_sound [OF service_step.recovery [OF step] a(1)] serve_calls_sound a(4) by blast
  have stale: "\<not> owns_claim q rc" if "get_request s2 (run_request r) = Inr q" for q
    using recovered_epoch [OF a(1) step] that owns_epoch a(4,5,7) by fastforce
  have "\<exists>e. execute env' command s2 = Inl e"
    using returned_owner [OF service_sound_store(1) [OF sound] _ a(8)] a(6) stale
    by (cases "execute env' command s2") force+
  moreover have "\<exists>e. record_step_event env' rc activity k details failure s2 = Inl e"
    using record_step_refines_logs [of env' rc activity k details failure s2] a(6) stale
    by (cases "record_step_event env' rc activity k details failure s2") (fastforce elim!: logsE)+
  ultimately show ?thesis ..
qed

theorem stale_fence_is_excluded_witness:
  "\<exists>e. execute fail_env sample_fail (serve_calls [] taken_store) = Inl e"
proof -
  have "get_run (serve_calls [] taken_store) ''a-0'' = Inr failed_run"
    unfolding serve_calls_Cons by (rule sample_rows)
  then show ?thesis
    using stale_fence_is_excluded [OF sample_stores_sound(3) sample_take_over_runs _ refl,
        of "sample_command ''fail-1''" "[]" failed_run sample_fail]
    by (auto simp: taken_result_def sample_command_def take_over_def sample_target_def failed_run_def
        started_run_def claimed_run_def sample_fail_def)
qed

text \<open>
  C20: a retry that is not a replay keeps the failed run and opens the next attempt of the same
  request under the claim that is still active, so the new run has the next number, links to the
  failed one and is claimed.
\<close>

theorem retry_opens_next_attempt:
  "service_sound s \<Longrightarrow> retry_failed_run env t s = Inr (v, s') \<Longrightarrow> \<not> retry_replayed v \<Longrightarrow>
     \<exists>q cl p r. get_request s (target_request t) = Inr q \<and> claim_of q (target_fence t) cl \<and>
       \<not> lease_expired (lease_expires_at cl) (env_observed env) \<and>
       p \<in> set (db_runs s) \<and> run_key p = run_id_value (target_run t) \<and> run_state p = RunFailed \<and>
       db_runs s' = db_runs s @ [r] \<and> run_state r = RunClaimed \<and> run_request r = target_request t \<and>
       run_plan r = run_plan p \<and> run_retry r = \<lparr>retry_attempt = retry_attempt (run_retry p) + 1,
         prior_run = Some (run_key p)\<rparr> \<and> db_requests s' = db_requests s"
proof -
  assume a: "service_sound s" "retry_failed_run env t s = Inr (v, s')" "\<not> retry_replayed v"
  from retry_step [OF a] show ?thesis
  proof cases
    case (retries q cl p plan vs r metadata d w act)
    have "p \<in> set (db_runs s)" using get_latest_Inr [OF retries(6)] by simp
    moreover have "request_key_of q = target_request t" using requests.get_row [OF retries(2)] by simp
    ultimately show ?thesis
      by (intro exI [of _ q] exI [of _ cl] exI [of _ p] exI [of _ r])
        (use retries(2,3,7-9,14) in \<open>simp_all add: retries(15,25) retried_run_def\<close>)
  qed
qed

theorem retry_opens_next_attempt_witness: "db_runs retried_store = [failed_run, second_run]"
proof -
  have "\<not> retry_replayed retried_result" by (simp add: retried_result_def)
  from retry_opens_next_attempt [OF sample_stores_sound(4) sample_retry_runs this]
  obtain r where "db_runs retried_store = db_runs taken_store @ [r]" by blast
  then show ?thesis by (simp add: retried_store_def taken_store_def failed_store_def)
qed

text \<open>
  C29: in every history the attempts of a request form a chain: below the attempt of a run every
  number from one on was an attempt of the same request that failed, and no two runs share a number.
\<close>

theorem attempts_form_a_chain:
  "service_sound s \<Longrightarrow> r \<in> set (db_runs (serve_calls cs s)) \<Longrightarrow> 1 \<le> n \<Longrightarrow> n < retry_attempt (run_retry r) \<Longrightarrow>
     \<exists>!p. p \<in> set (db_runs (serve_calls cs s)) \<and> run_request p = run_request r \<and>
       retry_attempt (run_retry p) = n \<and> run_state p = RunFailed"
proof -
  assume a: "service_sound s" "r \<in> set (db_runs (serve_calls cs s))" "1 \<le> n" "n < retry_attempt (run_retry r)"
  have c: "attempts_chained (serve_calls cs s)" using serve_calls_sound [OF a(1)] by (simp add: service_sound_def)
  from earlier_attempt [OF c a(2)] a(3,4) obtain p where p: "p \<in> set (db_runs (serve_calls cs s))"
    "run_request p = run_request r" "retry_attempt (run_retry p) = n" "run_state p = RunFailed" by blast
  show ?thesis
    by (rule ex1I [of _ p]) (use p c in \<open>auto simp: attempts_chained_def\<close>)
qed

theorem attempts_form_a_chain_witness: "\<exists>p\<in>set (db_runs retried_store). retry_attempt (run_retry p) = 1"
proof -
  have "second_run \<in> set (db_runs (serve_calls sample_story queued_store))"
    unfolding sample_history by (simp add: retried_store_def)
  from attempts_form_a_chain [OF queued_store_sound this, of 1] show ?thesis
    unfolding sample_history by (auto simp: second_run_def)
qed

text \<open>
  C21: a failed run is recovered, other than by renewing an active claim, only when its effects are
  settled: without the pairs of earlier recoveries, the saga of its journal has failed, nothing is in
  flight or uncertain, forward or in compensation, and no compensation was requested.
\<close>

theorem recovered_failure_is_settled:
  "service_sound s \<Longrightarrow> recover env c s = Inr (v, s') \<Longrightarrow> \<not> lease_replayed v \<Longrightarrow>
   lease_decision_kind c \<noteq> ChooseRenewActiveClaim \<Longrightarrow>
     \<exists>vs base p projection. events_for_run s (run_key (lease_run v)) = Inr vs \<and>
       journal_without_recovery_pairs vs (target_fence (lease_target_of c)) = Some base \<and>
       project_base p base = Inr projection \<and> saga_status (projected_state projection) = Inr SagaFailed \<and>
       \<not> compensation_requested (projected_state projection) \<and> in_flight projection = [] \<and>
       uncertain projection = [] \<and> compensation_in_flight projection = [] \<and> compensation_uncertain projection = []"
proof -
  assume a: "service_sound s" "recover env c s = Inr (v, s')" "\<not> lease_replayed v"
    and k: "lease_decision_kind c \<noteq> ChooseRenewActiveClaim"
  from recover_step [OF a] show ?thesis
  proof cases
    case (recovers t q cl r p vs f q' d w act)
    obtain base projection where b: "journal_without_recovery_pairs vs (target_fence t) = Some base"
      "project_base (plan_body p) base = Inr projection" "effect_unresolved projection = Inr False"
      using k by (rule_tac eligible_journal [OF recovers(14)]) blast
    from b(3) have "saga_status (projected_state projection) = Inr SagaFailed \<and>
       \<not> compensation_requested (projected_state projection) \<and> in_flight projection = [] \<and>
       uncertain projection = [] \<and> compensation_in_flight projection = [] \<and> compensation_uncertain projection = []"
      by (auto simp: effect_unresolved_def split: sum.splits)
    with b(1,2) recovers(1,2,13) show ?thesis by auto
  qed
qed

theorem recovered_failure_is_settled_witness:
  "\<exists>vs. events_for_run failed_store ''a-0'' = Inr vs \<and> (\<exists>base. journal_without_recovery_pairs vs fence_a = Some base)"
proof -
  have v: "\<not> lease_replayed taken_result" "lease_decision_kind take_over \<noteq> ChooseRenewActiveClaim"
    "run_key (lease_run taken_result) = ''a-0''" "target_fence (lease_target_of take_over) = fence_a"
    by (simp_all add: taken_result_def take_over_def failed_run_def started_run_def claimed_run_def sample_target_def)
  from recovered_failure_is_settled [OF sample_stores_sound(3) sample_take_over_runs v(1,2)] show ?thesis
    unfolding v(3,4) by blast
qed

text \<open>
  A run that was ever paused or resumed can neither be recovered nor retried: every recovery of
  its request and every retry of it is refused, although a paused run may fail and a failed run is
  what they exist for.
\<close>

theorem paused_run_is_never_recovered:
  "service_sound s \<Longrightarrow> get_latest_run_for_request s i = Inr r \<Longrightarrow> events_for_run s (run_key r) = Inr vs \<Longrightarrow>
   w \<in> set vs \<Longrightarrow> row_kind w \<in> {Ev_RUN_PAUSED, Ev_RUN_RESUMED} \<Longrightarrow>
   target_request (lease_target_of c) = i \<Longrightarrow> target_request t = i \<Longrightarrow>
     \<not> (\<exists>v s'. recover env c s = Inr (v, s') \<and> \<not> lease_replayed v) \<and>
     \<not> (\<exists>v s'. retry_failed_run env t s = Inr (v, s') \<and> \<not> retry_replayed v)"
proof (intro conjI notI; elim exE conjE)
  fix v s'
  assume a: "service_sound s" "get_latest_run_for_request s i = Inr r" "events_for_run s (run_key r) = Inr vs"
    "w \<in> set vs" "row_kind w \<in> {Ev_RUN_PAUSED, Ev_RUN_RESUMED}" "target_request (lease_target_of c) = i"
    and b: "recover env c s = Inr (v, s')" "\<not> lease_replayed v"
  from recover_step [OF a(1) b] show False
  proof cases
    case (recovers t q cl r' p vs' f q' d w' act)
    with a(2,3,6) have "require_recovery_eligible_journal (lease_decision_kind c) (target_fence t) r (plan_body p) vs = Inr ()"
      by auto
    from eligible_run_kinds [OF this a(4,5)] show False .
  qed
next
  fix v s'
  assume a: "service_sound s" "get_latest_run_for_request s i = Inr r" "events_for_run s (run_key r) = Inr vs"
    "w \<in> set vs" "row_kind w \<in> {Ev_RUN_PAUSED, Ev_RUN_RESUMED}" "target_request t = i"
    and b: "retry_failed_run env t s = Inr (v, s')" "\<not> retry_replayed v"
  from retry_step [OF a(1) b] show False
  proof cases
    case (retries q cl p plan vs' r' metadata d w' act)
    with a(2,3,6) have "require_recovery_eligible_journal ChooseRetryAsNewRun (target_fence t) r (plan_body plan) vs = Inr ()"
      by auto
    from eligible_run_kinds [OF this a(4,5)] show False .
  qed
qed

theorem paused_run_is_never_recovered_witness:
  "\<not> (\<exists>v s'. retry_failed_run env_start (sample_target fence_a ''retry-1'') halted_store = Inr (v, s') \<and>
     \<not> retry_replayed v)"
proof -
  have latest: "get_latest_run_for_request halted_store ''req-1'' = Inr failed_run" by (rule halted_rows)
  have journal: "events_for_run halted_store ''a-0'' =
      Inr [opened_event, started_event, paused_event, failed_event\<lparr>row_ordinal := 4\<rparr>]" by (rule halted_rows)
  have "run_key failed_run = ''a-0''" by (simp add: failed_run_def started_run_def claimed_run_def)
  note journal' = journal [folded this]
  have "row_kind paused_event \<in> {Ev_RUN_PAUSED, Ev_RUN_RESUMED}" by (simp add: paused_event_def)
  from paused_run_is_never_recovered [OF halted_store_sound latest journal' _ this,
      of "AbandonClaim (sample_target fence_a ''abandon-1'')" "sample_target fence_a ''retry-1''"]
  show ?thesis by (simp add: sample_target_def)
qed

text \<open>
  C35: a lease ends at a canonical time that is strictly later than the observation it counts from,
  for every duration that a command may carry.
\<close>

theorem lease_end_is_later:
  "make_lease_duration n = Inr m \<Longrightarrow> expires_at t m = Inr e \<Longrightarrow>
     1 \<le> m \<and> m \<le> 3600 \<and> canonical_utc t \<and> canonical_utc e \<and> instant_of t < instant_of e \<and> \<not> lease_expired e t"
  using expires_at_later [of t m e] by (auto simp: make_lease_duration_def lease_expired_def split: if_splits)

theorem lease_end_is_later_witness: "canonical_utc ''2024-02-29T00:00:30.000001Z''"
proof -
  have "make_lease_duration 60 = Inr 60" by (simp add: make_lease_duration_def)
  from lease_end_is_later [OF this expires_at_examples(1)] show ?thesis by blast
qed

text \<open>
  C32: a generation names one claim: if a request is claimed at two points of a history with the same
  generation, it is the same request with the same worker and lease, and the generation never
  goes down.
\<close>

theorem generation_names_one_claim:
  "service_sound s \<Longrightarrow> get_request s i = Inr q \<Longrightarrow> get_request (serve_calls cs s) i = Inr q' \<Longrightarrow>
   request_claim q = Some c \<Longrightarrow> request_claim q' = Some c' \<Longrightarrow>
     claim_generation c \<le> claim_generation c' \<and> (claim_generation c = claim_generation c' \<longrightarrow> q' = q)"
proof -
  assume a: "service_sound s" "get_request s i = Inr q" "get_request (serve_calls cs s) i = Inr q'"
    "request_claim q = Some c" "request_claim q' = Some c'"
  have "request_state q = RequestClaimed" "request_state q' = RequestClaimed"
    using accepted_request_claim requests.get_row [OF a(2)] requests.get_row [OF a(3)] a(4,5) by blast+
  then have "claim_epoch q = (1, claim_generation c)" "claim_epoch q' = (1, claim_generation c')"
    using claimed_epoch a(4,5) by simp_all
  moreover have "later_claim q q'" using evolves_request [OF serve_calls_evolves [OF a(1), of cs] a(2)] a(3) by auto
  ultimately show ?thesis using a(4,5) by (auto simp: later_claim_def)
qed

theorem generation_names_one_claim_witness:
  "\<exists>c c'. request_claim claimed_request = Some c \<and> request_claim taken_request = Some c' \<and>
     claim_generation c \<le> claim_generation c'"
proof -
  have "get_request failed_store ''req-1'' = Inr claimed_request"
    "get_request (serve_calls [CallRecovery env_expired take_over] failed_store) ''req-1'' = Inr taken_request"
    unfolding serve_calls_Cons(2) [OF sample_calls(6)] serve_calls_Cons(1) by (rule sample_rows)+
  from generation_names_one_claim [OF sample_stores_sound(3) this] show ?thesis
    by (simp add: claimed_request_def taken_request_def)
qed

text \<open>
  C33: \<open>_record_step_event\<close> of the coordinator records an event of a step only for the holder of the claim
  and only while the run is running, under the next number of its journal, and it writes nothing else.
  (The services that write step events of their own, for the start of an effect attempt and for the
  compensation of a failed run, are not modelled.)
\<close>

theorem step_events_belong_to_the_holder:
  "record_step_event env c activity k details failure s = Inr (v, s') \<Longrightarrow>
     \<exists>r q. get_run s (command_run c) = Inr r \<and> get_request s (run_request r) = Inr q \<and> owns_claim q c \<and>
       Scope_EXECUTION_OPERATE \<in> set (authority_scopes (command_authority c)) \<and> run_state r = RunRunning \<and>
       row_run v = run_key r \<and> row_activity v = Some activity \<and> row_kind v = k \<and> k \<in> set step_event_kinds \<and>
       row_ordinal v = next_ordinal (map row_ordinal (events_of_run s (run_key r))) \<and>
       s' = s\<lparr>db_events := db_events s @ [v]\<rparr>"
proof -
  assume a: "record_step_event env c activity k details failure s = Inr (v, s')"
  note l = record_step_refines_logs [OF a]
  from l logged_kind(1) [OF l] show ?thesis by (auto elim!: logsE)
qed

theorem step_events_belong_to_the_holder_witness: "owns_claim claimed_request (sample_command ''execute-1'')"
proof -
  have rows: "get_run started_store ''a-0'' = Inr started_run" "get_request started_store ''req-1'' = Inr claimed_request"
    by (rule sample_rows)+
  have "command_run (sample_command ''execute-1'') = ''a-0''" "run_request started_run = ''req-1''"
    by (simp_all add: sample_command_def started_run_def claimed_run_def)
  with rows step_events_belong_to_the_holder [OF sample_steps_run(1)] show ?thesis by auto
qed

text \<open>
  C34: the rows of the store stay well typed: in every history each row is a value that its
  constructor accepts, so reading a run and its journal returns the rows as they were written.
\<close>

theorem stored_rows_are_well_typed:
  "service_sound s \<Longrightarrow> rows_typed s \<Longrightarrow> r \<in> set (db_runs (serve_calls cs s)) \<Longrightarrow>
     rows_typed (serve_calls cs s) \<and> get_run (serve_calls cs s) (run_key r) = Inr r \<and>
     events_for_run (serve_calls cs s) (run_key r) =
       Inr (sort_key row_ordinal (events_of_run (serve_calls cs s) (run_key r)))"
proof -
  assume a: "service_sound s" "rows_typed s" "r \<in> set (db_runs (serve_calls cs s))"
  let ?s = "serve_calls cs s"
  have t: "rows_typed ?s" using a(1,2) by (rule serve_calls_typed)
  have keys: "keys_unique ?s" by (rule service_sound_store(2) [OF serve_calls_sound [OF a(1)]])
  have r: "accepted check_run r" using t a(3) by (simp add: rows_typed_def)
  then have run: "get_run ?s (run_key r) = Inr r"
    using keys a(3) find_by_key [of run_key "db_runs ?s" r] by (simp add: runs.get_iff keys_unique_def)
  have "mapR check_row vs = Inr vs" if "\<forall>v\<in>set vs. accepted check_row v" for vs
    using that by (induction vs) (simp_all add: accepted_def)
  moreover have "\<forall>v\<in>set (sort_key row_ordinal (events_of_run ?s (run_key r))). accepted check_row v"
    using t by (simp add: rows_typed_def events_of_run_def)
  moreover have "validate_run_id (run_key r) ''run_id'' = Inr ()"
    using run by (auto simp: get_run_def bindR_Inr_iff)
  ultimately have "events_for_run ?s (run_key r) = Inr (sort_key row_ordinal (events_of_run ?s (run_key r)))"
    by (simp add: events_for_run_def)
  with t run show ?thesis by blast
qed

theorem stored_rows_are_well_typed_witness: "\<exists>vs. events_for_run retried_store ''a-0'' = Inr vs"
proof -
  have typed: "rows_typed queued_store"
  proof -
    note sample_evaluations(12)
    then show ?thesis by (simp add: rows_typed_def queued_store_def accepted_def)
  qed
  have "failed_run \<in> set (db_runs (serve_calls sample_story queued_store))"
    unfolding sample_history by (simp add: retried_store_def)
  from stored_rows_are_well_typed [OF queued_store_sound typed this] show ?thesis
    unfolding sample_history by (auto simp: failed_run_def started_run_def claimed_run_def)
qed

end
