(* ===== verification/Capabilities.thy ===== *)
theory Capabilities
  imports Prelude
begin

text \<open>
  The capabilities a block advertises (\<open>capabilities.py\<close>) and the control route sets they point at
  (\<open>control_routes.py\<close>, the names of its table).
\<close>

section \<open>Route sets\<close>

datatype route_set_name = CommonStatus | Logs | Targets | Observers | Metrics | Circuit
  | TrafficEvidence | Faults | Cache | Loads | Discovery | NodeControlRoutes

primrec route_set_value :: "route_set_name \<Rightarrow> string" where
  "route_set_value CommonStatus = ''common-status''"
| "route_set_value Logs = ''logs''"
| "route_set_value Targets = ''targets''"
| "route_set_value Observers = ''observers''"
| "route_set_value Metrics = ''metrics''"
| "route_set_value Circuit = ''circuit''"
| "route_set_value TrafficEvidence = ''traffic-evidence''"
| "route_set_value Faults = ''faults''"
| "route_set_value Cache = ''cache''"
| "route_set_value Loads = ''loads''"
| "route_set_value Discovery = ''discovery''"
| "route_set_value NodeControlRoutes = ''node-control''"

definition control_route_sets :: "route_set_name list" where
  "control_route_sets = [CommonStatus, Logs, Targets, Observers, Metrics, Circuit, TrafficEvidence,
     Faults, Cache, Loads, Discovery, NodeControlRoutes]"

definition route_set_named :: "route_set_name \<Rightarrow> py_exn + route_set_name" where
  "route_set_named n = (case find (\<lambda>r. r = n) control_route_sets of
     None \<Rightarrow> Inl (KeyError (''unknown control route set '' @ route_set_value n)) | Some r \<Rightarrow> Inr r)"

lemma route_set_named_total: "route_set_named n = Inr n"
  by (cases n) (simp_all add: route_set_named_def control_route_sets_def)

section \<open>Capabilities\<close>

datatype capability_name = HealthCheckable | LogReadable | TargetMutable | Switchable | Drainable
  | ObserverMutable | MetricsReadable | Restartable | CircuitStateReadable | CircuitResettable
  | TrafficEvidenceReadable | FaultStateReadable | FaultMutable | CacheStateReadable | CachePurgeable
  | LoadStateReadable | LoadMutable | DiscoveryReadable | DiscoveryMutable | NodeControllable

primrec capability_value :: "capability_name \<Rightarrow> string" where
  "capability_value HealthCheckable = ''health-checkable''"
| "capability_value LogReadable = ''log-readable''"
| "capability_value TargetMutable = ''target-mutable''"
| "capability_value Switchable = ''switchable''"
| "capability_value Drainable = ''drainable''"
| "capability_value ObserverMutable = ''observer-mutable''"
| "capability_value MetricsReadable = ''metrics-readable''"
| "capability_value Restartable = ''restartable''"
| "capability_value CircuitStateReadable = ''circuit-state-readable''"
| "capability_value CircuitResettable = ''circuit-resettable''"
| "capability_value TrafficEvidenceReadable = ''traffic-evidence-readable''"
| "capability_value FaultStateReadable = ''fault-state-readable''"
| "capability_value FaultMutable = ''fault-mutable''"
| "capability_value CacheStateReadable = ''cache-state-readable''"
| "capability_value CachePurgeable = ''cache-purgeable''"
| "capability_value LoadStateReadable = ''load-state-readable''"
| "capability_value LoadMutable = ''load-mutable''"
| "capability_value DiscoveryReadable = ''discovery-readable''"
| "capability_value DiscoveryMutable = ''discovery-mutable''"
| "capability_value NodeControllable = ''node-controllable''"

text \<open>The module constants: label, description and route set of each capability.\<close>

primrec capability_entry :: "capability_name \<Rightarrow> string \<times> string \<times> route_set_name option" where
  "capability_entry HealthCheckable = (''Health'',
     ''Node exposes health and status state through the control protocol.'', Some CommonStatus)"
| "capability_entry LogReadable = (''Logs'', ''Node exposes deploy-readable logs.'', Some Logs)"
| "capability_entry TargetMutable = (''Targets'',
     ''Node can register or replace downstream targets.'', Some Targets)"
| "capability_entry Switchable = (''Switch'',
     ''Node can switch one active downstream target.'', Some Targets)"
| "capability_entry Drainable = (''Drain'',
     ''Node can mark a downstream target as draining.'', Some Targets)"
| "capability_entry ObserverMutable = (''Observers'',
     ''Node can register or replace observer side-channel targets.'', Some Observers)"
| "capability_entry MetricsReadable = (''Metrics'',
     ''Node exposes deploy-readable operational counters.'', Some Metrics)"
| "capability_entry Restartable = (''Restart'',
     ''Runtime owns enough lifecycle state to restart this node.'', None)"
| "capability_entry CircuitStateReadable = (''Circuit state'',
     ''Node exposes bounded circuit-breaker state.'', Some Circuit)"
| "capability_entry CircuitResettable = (''Reset circuit'',
     ''Node accepts an authenticated circuit reset signal.'', Some Circuit)"
| "capability_entry TrafficEvidenceReadable = (''Traffic evidence'',
     ''Node exposes bounded paginated HTTP traffic evidence.'', Some TrafficEvidence)"
| "capability_entry FaultStateReadable = (''Fault state'',
     ''Node exposes bounded test-only fault-injection state.'', Some Faults)"
| "capability_entry FaultMutable = (''Inject fault'',
     ''Node accepts strongly authenticated test-only fault activation.'', Some Faults)"
| "capability_entry CacheStateReadable = (''Cache state'',
     ''Node exposes bounded process-local HTTP cache state.'', Some Cache)"
| "capability_entry CachePurgeable = (''Purge cache'',
     ''Node accepts authenticated purge of ephemeral cache entries.'', Some Cache)"
| "capability_entry LoadStateReadable = (''Load runs'',
     ''Node exposes bounded aggregate evidence for test-only load runs.'', Some Loads)"
| "capability_entry LoadMutable = (''Run load'',
     ''Node can start and cancel bounded test-only load runs.'', Some Loads)"
| "capability_entry DiscoveryReadable = (''Discovery'',
     ''Node resolves bounded lease-backed service registrations.'', Some Discovery)"
| "capability_entry DiscoveryMutable = (''Register service'',
     ''Node accepts authenticated service registration lifecycle commands.'', Some Discovery)"
| "capability_entry NodeControllable = (''Node control'',
     ''Node exposes typed authenticated workload control variables.'', Some NodeControlRoutes)"

definition capability_route_set :: "capability_name \<Rightarrow> route_set_name option" where
  "capability_route_set c = (case capability_entry c of (l, d, r) \<Rightarrow> r)"

text \<open>\<open>Capability.as_descriptor\<close>; no capability of the table has a route path.\<close>

definition capability_descriptor :: "capability_name \<Rightarrow> (string \<times> py) list" where
  "capability_descriptor c = (case capability_entry c of (l, d, r) \<Rightarrow>
     [(''name'', PStr (capability_value c)), (''label'', PStr l), (''description'', PStr d)] @
     (case r of None \<Rightarrow> [] | Some s \<Rightarrow> [(''route_set'', PStr (route_set_value s))]))"

end
