(* ===== verification/Graph_Values.thy ===== *)
theory Graph_Values
  imports Resource_Lifecycle Plan_Syntax Capabilities Json_Text
begin

text \<open>
  The compiled graph of \<open>topology/graph.py\<close> with the values it holds: sockets and block specifications
  (\<open>algebra.py\<close>), environment bindings (\<open>environment.py\<close>), configuration artifacts, secret deliveries,
  public ingresses and delegation material. Leaf values are taken as constructed; the checks modelled
  are those of the constructors that compose them. A mapping is an association list with distinct keys.
\<close>

section \<open>Exceptions\<close>

datatype graph_identity_kind = NodeIdentity | EdgeIdentity | RuntimeIdentity | IngressIdentity
  | AuthorityIdentity

primrec identity_kind_value :: "graph_identity_kind \<Rightarrow> string" where
  "identity_kind_value NodeIdentity = ''node''"
| "identity_kind_value EdgeIdentity = ''edge''"
| "identity_kind_value RuntimeIdentity = ''runtime''"
| "identity_kind_value IngressIdentity = ''public-ingress''"
| "identity_kind_value AuthorityIdentity = ''delegation-authority''"

datatype topology_exn = GraphConstructionError graph_identity_kind string
  | TopologyValueError string | TopologyKeyError string
  | MalformedGraphDescriptor string | UnknownGraphVariant string | InvalidGraphReference string
  | LossyGraphDescriptor string
  | GraphValidationError string nat | DelegationAuthorityError string

text \<open>\<open>repr\<close> of a text: the quotes it chooses and the escapes of code points below 256.\<close>

definition repr_char :: "nat \<Rightarrow> char \<Rightarrow> string" where
  "repr_char quote c = (let n = char_code c in
     if n = 92 \<or> n = quote then [CHR 92, c]
     else if n = 10 then [CHR 92, CHR ''n''] else if n = 13 then [CHR 92, CHR ''r'']
     else if n = 9 then [CHR 92, CHR ''t'']
     else if n < 32 \<or> (127 \<le> n \<and> n \<le> 160) \<or> n = 173
     then [CHR 92, CHR ''x'', ''0123456789abcdef'' ! (n div 16), ''0123456789abcdef'' ! (n mod 16)]
     else [c])"

definition repr_text :: "string \<Rightarrow> string" where
  "repr_text s = (let quote = (if CHR 39 \<in> set s \<and> CHR 34 \<notin> set s then 34 else 39) in
     char_of quote # concat (map (repr_char quote) s) @ [char_of quote])"

text \<open>\<open>str\<close> of a tuple of texts, and \<open>", ".join(sorted(...)) or "<none>"\<close>.\<close>

definition repr_tuple :: "string list \<Rightarrow> string" where
  "repr_tuple xs = (case xs of [x] \<Rightarrow> ''('' @ repr_text x @ '',)''
     | _ \<Rightarrow> ''('' @ join_with '', '' (map repr_text xs) @ '')'')"

definition available_names :: "string list \<Rightarrow> string" where
  "available_names xs = (if xs = [] then ''<none>'' else join_with '', '' (sort xs))"

section \<open>Endpoints and environment bindings\<close>

datatype endpoint_address = LiteralAddress string | SecretReferenceAddress string

record endpoint =
  endpoint_at :: endpoint_address
  endpoint_protocol :: protocol
  endpoint_visibility :: endpoint_scope

definition endpoint_url :: "endpoint \<Rightarrow> string" where
  "endpoint_url e = (case endpoint_at e of LiteralAddress v \<Rightarrow> v | SecretReferenceAddress r \<Rightarrow> r)"

record public_binding =
  public_name :: string
  public_value :: string

record derived_binding =
  derived_name :: string
  derived_value :: string
  derived_edge :: string

section \<open>Secret deliveries\<close>

datatype secret_use_intent = ApplicationControlToken | CloudflareApiToken | CloudflareTunnelToken
  | DockerLocalSocketAccessMarker | DockerRemoteTlsCaCertificate | DockerRemoteTlsClientCertificate
  | DockerRemoteTlsClientKey | GatewayProbeSigningKey | OciPullCredential | PostgresPassword
  | GatewayNodeControlTransitSigningKey | WorkloadNodeControlSigningKey

primrec secret_intent_value :: "secret_use_intent \<Rightarrow> string" where
  "secret_intent_value ApplicationControlToken = ''application.control-token''"
| "secret_intent_value CloudflareApiToken = ''cloudflare.api-token''"
| "secret_intent_value CloudflareTunnelToken = ''cloudflare.tunnel-token''"
| "secret_intent_value DockerLocalSocketAccessMarker = ''docker.local-socket-access-marker''"
| "secret_intent_value DockerRemoteTlsCaCertificate = ''docker.remote-tls.ca-certificate''"
| "secret_intent_value DockerRemoteTlsClientCertificate = ''docker.remote-tls.client-certificate''"
| "secret_intent_value DockerRemoteTlsClientKey = ''docker.remote-tls.client-key''"
| "secret_intent_value GatewayProbeSigningKey = ''gateway.probe-signing-key''"
| "secret_intent_value OciPullCredential = ''oci.pull-credential''"
| "secret_intent_value PostgresPassword = ''postgres.password''"
| "secret_intent_value GatewayNodeControlTransitSigningKey = ''gateway.node-control-transit-signing-key''"
| "secret_intent_value WorkloadNodeControlSigningKey = ''workload.node-control-signing-key''"

text \<open>
  \<open>SecretDelivery\<close>: a reference is its identity text; the only file mode is \<open>0400\<close>, and a file may
  expose its path under an environment name.
\<close>

datatype secret_delivery = SecretEnvironmentDelivery string string secret_use_intent
  | SecretReferenceEnvironmentDelivery string string
  | SecretFileDelivery string string secret_use_intent "string option"

fun secret_delivery_sort_key :: "secret_delivery \<Rightarrow> string \<times> string \<times> string \<times> string \<times> string \<times> string" where
  "secret_delivery_sort_key (SecretEnvironmentDelivery name ref use) =
     (''environment'', name, ref, secret_intent_value use, [], [])"
| "secret_delivery_sort_key (SecretReferenceEnvironmentDelivery name ref) =
     (''environment-reference'', name, ref, [], [], [])"
| "secret_delivery_sort_key (SecretFileDelivery path ref use bind) =
     (''file'', path, ref, secret_intent_value use, ''0400'', case bind of None \<Rightarrow> [] | Some n \<Rightarrow> n)"

text \<open>The environment names a delivery binds, and the files it mounts.\<close>

fun delivered_names :: "secret_delivery \<Rightarrow> string list" where
  "delivered_names (SecretEnvironmentDelivery name ref use) = [name]"
| "delivered_names (SecretReferenceEnvironmentDelivery name ref) = [name]"
| "delivered_names (SecretFileDelivery path ref use bind) = (case bind of None \<Rightarrow> [] | Some n \<Rightarrow> [n])"

fun delivered_files :: "secret_delivery \<Rightarrow> string list" where
  "delivered_files (SecretFileDelivery path ref use bind) = [path]"
| "delivered_files d = []"

section \<open>Sockets\<close>

record requirement_socket =
  requirement_name :: string
  requirement_protocol :: protocol
  env_bindings :: "string list"
  is_required :: bool
  requirement_binding :: socket_binding
  requirement_deliveries :: "secret_delivery list"

definition make_requirement :: "requirement_socket \<Rightarrow> topology_exn + requirement_socket" where
  "make_requirement r =
     (let says = (\<lambda>m. TopologyValueError (''requirement socket '' @ repr_text (requirement_name r) @ m));
          deliveries = sort_key secret_delivery_sort_key (requirement_deliveries r);
          names = concat (map delivered_names deliveries);
          files = concat (map delivered_files deliveries) in
      if requirement_binding r = ENVIRONMENT \<and> env_bindings r = []
      then Inl (says '' needs at least one env binding'')
      else if requirement_binding r = RUNTIME_CONTROL \<and> env_bindings r \<noteq> []
      then Inl (TopologyValueError (''runtime-controlled requirement socket '' @
        repr_text (requirement_name r) @ '' cannot declare env bindings''))
      else if has_duplicates deliveries then Inl (says '' secret deliveries must be unique'')
      else if has_duplicates names then Inl (says '' secret environment targets must be unique'')
      else if set (env_bindings r) \<inter> set names \<noteq> {}
      then Inl (says '' public and secret environment targets must be distinct'')
      else if has_duplicates files then Inl (says '' secret file targets must be unique'')
      else Inr (r\<lparr>requirement_deliveries := deliveries\<rparr>))"

record provider_socket =
  provider_name :: string
  provider_protocol :: protocol

record block_sockets =
  requirements :: "requirement_socket list"
  providers :: "provider_socket list"

definition requirement_names :: "block_sockets \<Rightarrow> string list" where
  "requirement_names s = map requirement_name (requirements s)"

definition provider_names :: "block_sockets \<Rightarrow> string list" where
  "provider_names s = map provider_name (providers s)"

definition find_requirement :: "block_sockets \<Rightarrow> string \<Rightarrow> topology_exn + requirement_socket" where
  "find_requirement s n = (case find (\<lambda>r. requirement_name r = n) (requirements s) of
     Some r \<Rightarrow> Inr r
   | None \<Rightarrow> Inl (TopologyKeyError (''no requirement socket '' @ repr_text n @ ''; available: '' @
       repr_tuple (requirement_names s))))"

definition find_provider :: "block_sockets \<Rightarrow> string \<Rightarrow> topology_exn + provider_socket" where
  "find_provider s n = (case find (\<lambda>r. provider_name r = n) (providers s) of
     Some r \<Rightarrow> Inr r
   | None \<Rightarrow> Inl (TopologyKeyError (''no provider socket '' @ repr_text n @ ''; available: '' @
       repr_tuple (provider_names s))))"

section \<open>Block specifications\<close>

datatype verification_variant = HttpCheck | DnsResolveCheck | PostgresQueryCheck | RedisCheck
  | BrokerRoundTripCheck | ObjectStorageRoundTripCheck | SmtpAcceptanceCheck

text \<open>A verification check by its class, identity and socket, with the descriptor of the whole check.\<close>

record verification_check =
  check_variant :: verification_variant
  check_id :: string
  check_socket :: string
  check_body :: descriptor

primrec expected_protocols :: "verification_variant \<Rightarrow> protocol list" where
  "expected_protocols HttpCheck = [proto TCP HTTP]"
| "expected_protocols DnsResolveCheck = [proto TCP DNS, proto UDP DNS]"
| "expected_protocols PostgresQueryCheck = [proto TCP POSTGRES]"
| "expected_protocols RedisCheck = [proto TCP REDIS]"
| "expected_protocols BrokerRoundTripCheck = [proto TCP NATS, proto TCP AMQP, proto TCP KAFKA]"
| "expected_protocols ObjectStorageRoundTripCheck = [proto TCP S3]"
| "expected_protocols SmtpAcceptanceCheck = [proto TCP SMTP]"

record control_surface =
  surface_socket :: string
  surface_body :: descriptor

text \<open>\<open>BlockSpec\<close>, or a registered subclass of it by the name of its class.\<close>

record block_spec =
  spec_class :: string
  spec_role :: string
  spec_display :: "string option"
  spec_health :: "string option"
  spec_capabilities :: "capability_name list"
  spec_checks :: "verification_check list"
  spec_metadata :: "(string \<times> string) list"
  spec_surfaces :: "control_surface list"

definition max_node_control_surfaces :: nat where
  "max_node_control_surfaces = 16"

definition make_block_spec :: "block_spec \<Rightarrow> topology_exn + block_spec" where
  "make_block_spec s =
     (let surfaces = sort_key surface_socket (spec_surfaces s) in
      if length (spec_surfaces s) > max_node_control_surfaces
      then Inl (TopologyValueError ''block declares too many node-control surfaces'')
      else if has_duplicates (map surface_socket surfaces)
      then Inl (TopologyValueError ''block control surface sockets must be unique'')
      else if (NodeControllable \<in> set (spec_capabilities s)) \<noteq> (surfaces \<noteq> [])
      then Inl (TopologyValueError ''node-controllable capability and control surfaces must agree'')
      else Inr (s\<lparr>spec_surfaces := surfaces\<rparr>))"

section \<open>Configuration artifacts\<close>

datatype configuration_media_type = TextMedia | JsonMedia | YamlMedia | TomlMedia

primrec media_type_value :: "configuration_media_type \<Rightarrow> string" where
  "media_type_value TextMedia = ''text/plain''"
| "media_type_value JsonMedia = ''application/json''"
| "media_type_value YamlMedia = ''application/yaml''"
| "media_type_value TomlMedia = ''application/toml''"

datatype configuration_file_mode = OwnerReadOnly | ReadOnly

primrec file_mode_value :: "configuration_file_mode \<Rightarrow> string" where
  "file_mode_value OwnerReadOnly = ''0400''"
| "file_mode_value ReadOnly = ''0444''"

record configuration_artifact =
  artifact_id :: string
  artifact_path :: string
  artifact_media :: configuration_media_type
  artifact_content :: string
  artifact_mode :: configuration_file_mode
  artifact_source :: string
  artifact_digest :: string

text \<open>
  The fields the generated order and equality compare, in their order; the content is excluded.
\<close>

definition artifact_key :: "configuration_artifact \<Rightarrow> string \<times> string \<times> string \<times> string \<times> string \<times> string" where
  "artifact_key a = (artifact_id a, artifact_path a, media_type_value (artifact_media a),
     file_mode_value (artifact_mode a), artifact_source a, artifact_digest a)"

section \<open>Delegation\<close>

record delegation_public_key =
  public_key_id :: string
  public_key_pem :: string
  public_key_fingerprint :: string

record authority_binding =
  delegate_node :: string
  delegation_purpose :: delegation_key_purpose
  delegation_issuer :: string

definition binding_identity :: "authority_binding \<Rightarrow> string \<times> delegation_key_purpose" where
  "binding_identity b = (delegate_node b, delegation_purpose b)"

definition authority_key :: "authority_binding \<Rightarrow> string \<times> string \<times> string" where
  "authority_key b = (delegate_node b, delegation_key_purpose_value (delegation_purpose b), delegation_issuer b)"

record verifier_projection =
  projection_node :: string
  projection_purpose :: delegation_key_purpose
  projection_issuer :: string
  projection_audience :: string
  projection_key_id :: string
  projection_keys :: "delegation_public_key list"

definition projection_identity :: "verifier_projection \<Rightarrow> string \<times> delegation_key_purpose" where
  "projection_identity p = (projection_node p, projection_purpose p)"

section \<open>Public ingresses\<close>

datatype ingress_lifecycle = EphemeralIngress | RetainedIngress | ExternalIngress

primrec ingress_lifecycle_value :: "ingress_lifecycle \<Rightarrow> string" where
  "ingress_lifecycle_value EphemeralIngress = ''ephemeral''"
| "ingress_lifecycle_value RetainedIngress = ''retained''"
| "ingress_lifecycle_value ExternalIngress = ''external''"

text \<open>\<open>NamedPublicIngress\<close>; the only exposure is \<open>https\<close>.\<close>

record public_ingress =
  ingress_id :: string
  ingress_authority :: string
  ingress_node :: string
  ingress_socket :: string
  connector_node :: string
  ingress_hostname :: string
  ingress_life :: ingress_lifecycle

section \<open>Nodes, edges and runtimes\<close>

record graph_node =
  node_id :: string
  node_family :: block_family
  node_spec :: block_spec
  node_kind :: string
  node_runtime :: string
  node_sockets :: block_sockets
  node_endpoints :: "(string \<times> endpoint) list"
  node_public :: "public_binding list"
  node_derived :: "derived_binding list"
  node_metadata :: "(string \<times> py) list"
  node_lifecycle :: resource_lifecycle
  node_artifacts :: "configuration_artifact list"
  node_deliveries :: "secret_delivery list"
  node_projection :: "verifier_projection option"

definition environment_names :: "graph_node \<Rightarrow> string list" where
  "environment_names n = map public_name (node_public n) @ map derived_name (node_derived n) @
     concat (map delivered_names (node_deliveries n))"

definition make_node :: "graph_node \<Rightarrow> topology_exn + graph_node" where
  "make_node n =
     (if ''environment'' \<in> fst ` set (node_metadata n)
      then Inl (TopologyValueError ''node metadata must not contain environment values'')
      else if has_duplicates (map artifact_id (node_artifacts n))
      then Inl (TopologyValueError ''node configuration artifact identities must be unique'')
      else if has_duplicates (map artifact_path (node_artifacts n))
      then Inl (TopologyValueError ''node configuration artifact target paths must be unique'')
      else if has_duplicates (node_deliveries n)
      then Inl (TopologyValueError ''node secret deliveries must be unique'')
      else if has_duplicates (environment_names n)
      then Inl (TopologyValueError ''node environment binding names must be unique across sources'')
      else Inr n)"

definition node_endpoint :: "graph_node \<Rightarrow> string \<Rightarrow> topology_exn + endpoint" where
  "node_endpoint n name = (case map_of (node_endpoints n) name of
     Some e \<Rightarrow> Inr e
   | None \<Rightarrow> Inl (TopologyKeyError (''node '' @ repr_text (node_id n) @ '' has no endpoint '' @
       repr_text name @ ''; available: '' @ available_names (map fst (node_endpoints n)))))"

definition with_connection_material :: "graph_node \<Rightarrow> derived_binding list \<Rightarrow> secret_delivery list \<Rightarrow>
    topology_exn + graph_node" where
  "with_connection_material n bindings deliveries = make_node
     (n\<lparr>node_derived := node_derived n @ bindings, node_deliveries := node_deliveries n @ deliveries\<rparr>)"

record graph_edge =
  edge_id :: string
  edge_provider :: string
  edge_provider_socket :: string
  edge_consumer :: string
  edge_requirement :: string
  edge_protocol :: protocol
  edge_binding :: socket_binding
  edge_assignments :: "(string \<times> string) list"

record runtime_record =
  runtime_id :: string
  runtime_kind_of :: runtime_kind
  runtime_children :: "string list"
  runtime_metadata :: "(string \<times> string) list"
  runtime_lifecycle :: resource_lifecycle
  runtime_authority :: "string option"

section \<open>The graph\<close>

record deployment_graph =
  graph_name :: string
  graph_nodes :: "(string \<times> graph_node) list"
  graph_edges :: "(string \<times> graph_edge) list"
  graph_runtimes :: "(string \<times> runtime_record) list"
  graph_ingresses :: "public_ingress list"
  graph_authorities :: "authority_binding list"

text \<open>The first identity of a tuple that occurs in it more than once.\<close>

definition repeated_identity :: "'a list \<Rightarrow> 'a option" where
  "repeated_identity xs = find (\<lambda>x. 1 < length (filter (\<lambda>y. y = x) xs)) xs"

definition make_graph :: "deployment_graph \<Rightarrow> topology_exn + deployment_graph" where
  "make_graph g = (case repeated_identity (map ingress_id (graph_ingresses g)) of
     Some i \<Rightarrow> Inl (GraphConstructionError IngressIdentity i)
   | None \<Rightarrow>
     (let bindings = sort_key authority_key (graph_authorities g) in
      case repeated_identity (map binding_identity bindings) of
        Some (n, p) \<Rightarrow> Inl (GraphConstructionError AuthorityIdentity
          (n @ '':'' @ delegation_key_purpose_value p))
      | None \<Rightarrow> Inr (g\<lparr>graph_authorities := bindings\<rparr>)))"

definition find_node :: "deployment_graph \<Rightarrow> string \<Rightarrow> topology_exn + graph_node" where
  "find_node g i = (case map_of (graph_nodes g) i of
     Some n \<Rightarrow> Inr n
   | None \<Rightarrow> Inl (TopologyKeyError (''missing node '' @ repr_text i @ ''; available: '' @
       available_names (map fst (graph_nodes g)))))"

definition add_node :: "graph_node \<Rightarrow> deployment_graph \<Rightarrow> topology_exn + deployment_graph" where
  "add_node n g = (if node_id n \<in> fst ` set (graph_nodes g)
     then Inl (GraphConstructionError NodeIdentity (node_id n))
     else make_graph (g\<lparr>graph_nodes := AList.update (node_id n) n (graph_nodes g)\<rparr>))"

definition add_edge :: "graph_edge \<Rightarrow> deployment_graph \<Rightarrow> topology_exn + deployment_graph" where
  "add_edge e g = (if edge_id e \<in> fst ` set (graph_edges g)
     then Inl (GraphConstructionError EdgeIdentity (edge_id e))
     else make_graph (g\<lparr>graph_edges := AList.update (edge_id e) e (graph_edges g)\<rparr>))"

definition add_runtime :: "runtime_record \<Rightarrow> deployment_graph \<Rightarrow> topology_exn + deployment_graph" where
  "add_runtime r g = (if runtime_id r \<in> fst ` set (graph_runtimes g)
     then Inl (GraphConstructionError RuntimeIdentity (runtime_id r))
     else make_graph (g\<lparr>graph_runtimes := AList.update (runtime_id r) r (graph_runtimes g)\<rparr>))"

definition add_public_ingress :: "public_ingress \<Rightarrow> deployment_graph \<Rightarrow> topology_exn + deployment_graph" where
  "add_public_ingress i g = (if ingress_id i \<in> ingress_id ` set (graph_ingresses g)
     then Inl (GraphConstructionError IngressIdentity (ingress_id i))
     else make_graph (g\<lparr>graph_ingresses := sort_key ingress_id (graph_ingresses g @ [i])\<rparr>))"

definition update_node :: "graph_node \<Rightarrow> deployment_graph \<Rightarrow> topology_exn + deployment_graph" where
  "update_node n g = (if node_id n \<notin> fst ` set (graph_nodes g)
     then Inl (TopologyKeyError (''cannot update missing node '' @ repr_text (node_id n)))
     else make_graph (g\<lparr>graph_nodes := AList.update (node_id n) n (graph_nodes g)\<rparr>))"

end
