(* ===== verification/Graph_Descriptors.thy ===== *)
theory Graph_Descriptors
  imports Graph_Values
begin

text \<open>
  The descriptors of the compiled graph: \<open>descriptor()\<close> of the values of \<open>topology/graph.py\<close> and of the
  values they hold, and the redaction of secret-shaped keys of \<open>topology/changes.py\<close>.
\<close>

section \<open>Redaction\<close>

definition redacted :: py where
  "redacted = PStr ''<redacted>''"

definition secret_marked :: "string \<Rightarrow> bool" where
  "secret_marked k \<longleftrightarrow> list_ex (\<lambda>m. occurs_in m (map lower_char k))
     [''secret'', ''token'', ''password'', ''private_key'', ''credential'', ''api_key'']"

fun redact_value :: "string \<Rightarrow> py \<Rightarrow> py"
  and redact_items :: "string \<Rightarrow> py list \<Rightarrow> py list"
  and redact_entries :: "(string \<times> py) list \<Rightarrow> (string \<times> py) list" where
  "redact_value k v = (if secret_marked k then redacted else case v of
       PDict d \<Rightarrow> PDict (sort_key fst (redact_entries d))
     | PList xs \<Rightarrow> PList (redact_items k xs)
     | _ \<Rightarrow> v)"
| "redact_items k [] = []"
| "redact_items k (x # xs) = redact_value k x # redact_items k xs"
| "redact_entries [] = []"
| "redact_entries ((k, v) # d) = (k, redact_value k v) # redact_entries d"

definition redact_mapping :: "descriptor \<Rightarrow> descriptor" where
  "redact_mapping d = sort_key fst (redact_entries d)"

section \<open>Leaves\<close>

definition protocol_py :: "protocol \<Rightarrow> py" where
  "protocol_py p = PDict (protocol_descriptor p)"

definition lifecycle_py :: "resource_lifecycle \<Rightarrow> py" where
  "lifecycle_py l = PDict (lifecycle_descriptor l)"

definition texts_py :: "string list \<Rightarrow> py" where
  "texts_py xs = PList (map PStr xs)"

text \<open>A mapping of texts to texts, in the order of its keys.\<close>

definition text_mapping :: "(string \<times> string) list \<Rightarrow> py" where
  "text_mapping d = PDict (map (\<lambda>(k, v). (k, PStr v)) (sort_key fst d))"

primrec address_descriptor :: "endpoint_address \<Rightarrow> descriptor" where
  "address_descriptor (LiteralAddress v) = [(''kind'', PStr ''literal''), (''value'', PStr v)]"
| "address_descriptor (SecretReferenceAddress r) =
     [(''kind'', PStr ''secret-reference''), (''secret_ref'', PStr r)]"

definition endpoint_descriptor :: "endpoint \<Rightarrow> descriptor" where
  "endpoint_descriptor e =
     [(''address'', PDict (address_descriptor (endpoint_at e))),
      (''protocol'', protocol_py (endpoint_protocol e)),
      (''scope'', PStr (endpoint_scope_value (endpoint_visibility e)))]"

datatype environment_binding = PublicStatic public_binding | SocketDerived derived_binding

primrec binding_name :: "environment_binding \<Rightarrow> string" where
  "binding_name (PublicStatic b) = public_name b"
| "binding_name (SocketDerived b) = derived_name b"

primrec binding_kind :: "environment_binding \<Rightarrow> string" where
  "binding_kind (PublicStatic b) = ''public-static''"
| "binding_kind (SocketDerived b) = ''socket-derived''"

primrec environment_binding_descriptor :: "environment_binding \<Rightarrow> descriptor" where
  "environment_binding_descriptor (PublicStatic b) =
     [(''kind'', PStr ''public-static''), (''name'', PStr (public_name b)),
      (''value'', PStr (public_value b))]"
| "environment_binding_descriptor (SocketDerived b) =
     [(''kind'', PStr ''socket-derived''), (''name'', PStr (derived_name b)),
      (''value'', PStr (derived_value b)), (''edge_id'', PStr (derived_edge b))]"

definition node_bindings :: "graph_node \<Rightarrow> environment_binding list" where
  "node_bindings n = map PublicStatic (node_public n) @ map SocketDerived (node_derived n)"

fun delivery_descriptor :: "secret_delivery \<Rightarrow> descriptor" where
  "delivery_descriptor (SecretEnvironmentDelivery name ref use) =
     [(''kind'', PStr ''environment''), (''environment_name'', PStr name), (''reference_id'', PStr ref),
      (''intent'', PStr (secret_intent_value use))]"
| "delivery_descriptor (SecretReferenceEnvironmentDelivery name ref) =
     [(''kind'', PStr ''environment-reference''), (''environment_name'', PStr name),
      (''reference_id'', PStr ref)]"
| "delivery_descriptor (SecretFileDelivery path ref use bind) =
     [(''kind'', PStr ''file''), (''target_path'', PStr path), (''reference_id'', PStr ref),
      (''intent'', PStr (secret_intent_value use)), (''file_mode'', PStr ''0400''),
      (''path_binding'', py_optional (\<lambda>n. PDict [(''environment_name'', PStr n)]) bind)]"

definition artifact_descriptor :: "configuration_artifact \<Rightarrow> descriptor" where
  "artifact_descriptor a =
     [(''artifact_id'', PStr (artifact_id a)), (''target_path'', PStr (artifact_path a)),
      (''media_type'', PStr (media_type_value (artifact_media a))), (''content'', PStr (artifact_content a)),
      (''content_digest'', PStr (artifact_digest a)),
      (''file_mode'', PStr (file_mode_value (artifact_mode a))),
      (''source_digest'', PStr (artifact_source a))]"

section \<open>Sockets and block specifications\<close>

definition requirement_descriptor :: "requirement_socket \<Rightarrow> descriptor" where
  "requirement_descriptor r =
     [(''protocol'', protocol_py (requirement_protocol r)),
      (''binding'', PStr (socket_binding_value (requirement_binding r))),
      (''env_bindings'', texts_py (env_bindings r)), (''required'', PBool (is_required r))] @
     (if requirement_deliveries r = [] then []
      else [(''secret_deliveries'',
        PList (map (\<lambda>d. PDict (delivery_descriptor d)) (requirement_deliveries r)))])"

definition verification_descriptor :: "verification_check list \<Rightarrow> descriptor" where
  "verification_descriptor cs = [(''checks'', PList (map (\<lambda>c. PDict (check_body c)) cs))]"

text \<open>The descriptor of a generic block specification, the one \<open>GenericBlockSpecCodec\<close> encodes.\<close>

definition spec_descriptor :: "block_spec \<Rightarrow> descriptor" where
  "spec_descriptor s =
     [(''variant'', PStr ''block''), (''role_id'', PStr (spec_role s)),
      (''display_name'', py_optional PStr (spec_display s)),
      (''health_path'', py_optional PStr (spec_health s)),
      (''capabilities'', texts_py (map capability_value (spec_capabilities s))),
      (''verification'', PDict (verification_descriptor (spec_checks s))),
      (''metadata'', text_mapping (spec_metadata s))] @
     (if spec_surfaces s = [] then []
      else [(''control_surfaces'', PList (map (\<lambda>c. PDict (surface_body c)) (spec_surfaces s)))])"

section \<open>Delegation and ingresses\<close>

definition public_key_descriptor :: "delegation_public_key \<Rightarrow> descriptor" where
  "public_key_descriptor k =
     [(''key_id'', PStr (public_key_id k)), (''algorithm'', PStr ''ed25519''),
      (''fingerprint_sha256'', PStr (public_key_fingerprint k))]"

definition projection_descriptor :: "verifier_projection \<Rightarrow> descriptor" where
  "projection_descriptor p =
     [(''delegate_node_id'', PStr (projection_node p)),
      (''purpose'', PStr (delegation_key_purpose_value (projection_purpose p))),
      (''issuer'', PStr (projection_issuer p)), (''audience'', PStr (projection_audience p)),
      (''projection_id'', PStr (projection_key_id p)),
      (''public_keys'', PList (map (\<lambda>k. PDict (public_key_descriptor k @
         [(''public_key_pem'', PStr (public_key_pem k))])) (projection_keys p)))]"

definition authority_descriptor :: "authority_binding \<Rightarrow> descriptor" where
  "authority_descriptor b =
     [(''delegate_node_id'', PStr (delegate_node b)),
      (''purpose'', PStr (delegation_key_purpose_value (delegation_purpose b))),
      (''issuer'', PStr (delegation_issuer b))]"

definition reference_descriptor :: "string \<Rightarrow> descriptor" where
  "reference_descriptor r = [(''reference_id'', PStr r)]"

definition ingress_descriptor :: "public_ingress \<Rightarrow> descriptor" where
  "ingress_descriptor i =
     [(''ingress_id'', PStr (ingress_id i)),
      (''authority_ref'', PDict (reference_descriptor (ingress_authority i))),
      (''target'', PDict [(''node_id'', PStr (ingress_node i)),
         (''provider_socket'', PStr (ingress_socket i))]),
      (''connector_node_id'', PStr (connector_node i)), (''hostname'', PStr (ingress_hostname i)),
      (''exposure'', PStr ''https''), (''lifecycle'', PStr (ingress_lifecycle_value (ingress_life i)))]"

section \<open>Nodes, edges and runtimes\<close>

definition node_descriptor :: "graph_node \<Rightarrow> descriptor" where
  "node_descriptor n =
     [(''node_id'', PStr (node_id n)), (''block_family'', PStr (block_family_value (node_family n))),
      (''block_spec'', PDict (spec_descriptor (node_spec n))), (''kind'', PStr (node_kind n)),
      (''runtime_id'', PStr (node_runtime n)),
      (''endpoints'', PDict (map (\<lambda>(k, e). (k, PDict (endpoint_descriptor e)))
         (sort_key fst (node_endpoints n)))),
      (''environment_bindings'', PList (map (\<lambda>b. PDict (environment_binding_descriptor b))
         (sort_key (\<lambda>b. (binding_name b, binding_kind b)) (node_bindings n)))),
      (''requirements'', PDict (AList.updates (map requirement_name (requirements (node_sockets n)))
         (map (\<lambda>r. PDict (requirement_descriptor r)) (requirements (node_sockets n))) [])),
      (''providers'', PDict (AList.updates (map provider_name (providers (node_sockets n)))
         (map (\<lambda>p. PDict [(''protocol'', protocol_py (provider_protocol p))])
           (providers (node_sockets n))) [])),
      (''metadata'', PDict (node_metadata n)), (''lifecycle'', lifecycle_py (node_lifecycle n)),
      (''configuration_artifacts'', PList (map (\<lambda>a. PDict (artifact_descriptor a))
         (sort_key artifact_key (node_artifacts n)))),
      (''secret_deliveries'', PList (map (\<lambda>d. PDict (delivery_descriptor d))
         (sort_key secret_delivery_sort_key (node_deliveries n))))] @
     (case node_projection n of None \<Rightarrow> []
      | Some p \<Rightarrow> [(''delegation_verifier_projection'', PDict (projection_descriptor p))])"

definition edge_descriptor :: "graph_edge \<Rightarrow> descriptor" where
  "edge_descriptor e =
     [(''edge_id'', PStr (edge_id e)),
      (''provider'', PDict [(''role'', PStr (edge_provider e)), (''socket'', PStr (edge_provider_socket e))]),
      (''consumer'', PDict [(''role'', PStr (edge_consumer e)), (''requirement'', PStr (edge_requirement e))]),
      (''protocol'', protocol_py (edge_protocol e)),
      (''binding'', PStr (socket_binding_value (edge_binding e))),
      (''env_assignments'', text_mapping (edge_assignments e))]"

definition runtime_descriptor :: "runtime_record \<Rightarrow> descriptor" where
  "runtime_descriptor r =
     [(''kind'', PStr (runtime_kind_value (runtime_kind_of r))),
      (''children'', texts_py (runtime_children r)),
      (''authority_ref'', py_optional (\<lambda>a. PDict (reference_descriptor a)) (runtime_authority r)),
      (''metadata'', PDict (map (\<lambda>(k, v). (k, PStr v)) (runtime_metadata r))),
      (''lifecycle'', lifecycle_py (runtime_lifecycle r))]"

end
