(* ===== verification/Graph_Changes.thy ===== *)
theory Graph_Changes
  imports Graph_Descriptors
begin

text \<open>
  The closed data of structural changes, \<open>topology/changes.py\<close>: the values a change shows before and
  after, the five forms of a change, the difference of two graphs, and their redacted descriptors. The
  hexadecimal SHA-256 of a text is the parameter \<open>digest\<close>.
\<close>

section \<open>Subjects\<close>

primrec structural_field_value :: "structural_field \<Rightarrow> string" where
  "structural_field_value GRAPH_NAME = ''graph-name''"
| "structural_field_value RUNTIME_KIND = ''runtime-kind''"
| "structural_field_value RUNTIME_CONTAINMENT = ''runtime-containment''"
| "structural_field_value RUNTIME_AUTHORITY = ''runtime-authority''"
| "structural_field_value RUNTIME_METADATA = ''runtime-metadata''"
| "structural_field_value BLOCK_FAMILY = ''block-family''"
| "structural_field_value BLOCK_SPECIFICATION = ''block-specification''"
| "structural_field_value IMPLEMENTATION_KIND = ''implementation-kind''"
| "structural_field_value RUNTIME_MEMBERSHIP = ''runtime-membership''"
| "structural_field_value SOCKET_CONTRACT = ''socket-contract''"
| "structural_field_value ENDPOINT = ''endpoint''"
| "structural_field_value PUBLIC_ENVIRONMENT = ''public-environment''"
| "structural_field_value SOCKET_ENVIRONMENT = ''socket-environment''"
| "structural_field_value NODE_METADATA = ''node-metadata''"
| "structural_field_value CONFIGURATION_ARTIFACTS = ''configuration-artifacts''"
| "structural_field_value SECRET_DELIVERIES = ''secret-deliveries''"
| "structural_field_value DELEGATION_AUTHORITIES = ''delegation-authorities''"
| "structural_field_value DELEGATION_VERIFIER_PROJECTION = ''delegation-verifier-projection''"
| "structural_field_value RESOURCE_LIFECYCLE = ''resource-lifecycle''"

primrec owner_descriptor :: "diff_owner \<Rightarrow> descriptor" where
  "owner_descriptor GraphSubject = [(''kind'', PStr ''graph'')]"
| "owner_descriptor (RuntimeSubject i) = [(''kind'', PStr ''runtime''), (''runtime_id'', PStr i)]"
| "owner_descriptor (NodeSubject i) = [(''kind'', PStr ''node''), (''node_id'', PStr i)]"
| "owner_descriptor (PublicIngressSubject i) =
     [(''kind'', PStr ''public-ingress''), (''ingress_id'', PStr i)]"

primrec change_subject_descriptor :: "diff_subject \<Rightarrow> descriptor" where
  "change_subject_descriptor (OwnerSubject w) = owner_descriptor w"
| "change_subject_descriptor (EdgeSubject i) = [(''kind'', PStr ''edge''), (''edge_id'', PStr i)]"
| "change_subject_descriptor (FieldSubject w f k) =
     [(''owner'', PDict (owner_descriptor w)), (''field'', PStr (structural_field_value f))] @
     (case k of None \<Rightarrow> [] | Some n \<Rightarrow> [(''key'', PStr n)])"

section \<open>Values\<close>

datatype diff_value = TextValue string
  | StringTupleValue "string list"
  | MetadataValue descriptor
  | EnvironmentBindingsValue "environment_binding list"
  | ConfigurationArtifactsValue "configuration_artifact list"
  | SecretDeliveriesValue "secret_delivery list"
  | ProjectionValue "verifier_projection option"
  | EndpointValue endpoint
  | SocketContractValue block_sockets
  | BlockSpecValue block_spec descriptor
  | RuntimeValue runtime_record
  | NodeValue graph_node descriptor
  | EdgeValue graph_edge
  | PublicIngressValue public_ingress

definition bindings_value :: "environment_binding list \<Rightarrow> py" where
  "bindings_value bs = PList (map (\<lambda>b. PDict ([(''kind'', PStr (binding_kind b)),
       (''name'', PStr (binding_name b)), (''value'', redacted)] @
       (case b of PublicStatic p \<Rightarrow> [] | SocketDerived d \<Rightarrow> [(''edge_id'', PStr (derived_edge d))])))
     (sort_key binding_name bs))"

definition artifacts_value :: "configuration_artifact list \<Rightarrow> py" where
  "artifacts_value xs = PList (map (\<lambda>a. PDict (artifact_descriptor a)) (sort_key artifact_key xs))"

definition redacted_delivery :: "(string \<Rightarrow> string) \<Rightarrow> secret_delivery \<Rightarrow> descriptor" where
  "redacted_delivery digest d =
     (let shown = delivery_descriptor d;
          printed = (case map_of shown ''reference_id'' of
            Some (PStr r) \<Rightarrow> AList.update ''reference_fingerprint'' (PStr (digest r)) shown
          | _ \<Rightarrow> shown) in
      AList.update ''reference_id'' redacted printed)"

definition deliveries_value :: "(string \<Rightarrow> string) \<Rightarrow> secret_delivery list \<Rightarrow> py" where
  "deliveries_value digest ds = PList (map (\<lambda>d. PDict (redacted_delivery digest d))
     (sort_key secret_delivery_sort_key ds))"

definition projection_value :: "verifier_projection option \<Rightarrow> py" where
  "projection_value v = py_optional (\<lambda>p. PDict
     [(''delegate_node_id'', PStr (projection_node p)),
      (''purpose'', PStr (delegation_key_purpose_value (projection_purpose p))),
      (''issuer'', PStr (projection_issuer p)), (''audience'', PStr (projection_audience p)),
      (''projection_id'', PStr (projection_key_id p)),
      (''public_keys'', PList (map (\<lambda>k. PDict (public_key_descriptor k)) (projection_keys p)))]) v"

definition endpoint_value :: "endpoint \<Rightarrow> py" where
  "endpoint_value e = PDict
     [(''address'', PDict (case endpoint_at e of
         LiteralAddress v \<Rightarrow> [(''kind'', PStr ''literal''), (''value'', PStr v)]
       | SecretReferenceAddress r \<Rightarrow> [(''kind'', PStr ''secret-reference''), (''secret_ref'', redacted)])),
      (''protocol'', protocol_py (endpoint_protocol e)),
      (''scope'', PStr (endpoint_scope_value (endpoint_visibility e)))]"

definition providers_value :: "block_sockets \<Rightarrow> py" where
  "providers_value s = PList (map (\<lambda>p. PDict [(''name'', PStr (provider_name p)),
     (''protocol'', protocol_py (provider_protocol p))]) (sort_key provider_name (providers s)))"

definition requirements_value :: "block_sockets \<Rightarrow> py" where
  "requirements_value s = PList (map (\<lambda>r. PDict ([(''name'', PStr (requirement_name r)),
      (''protocol'', protocol_py (requirement_protocol r)),
      (''binding'', PStr (socket_binding_value (requirement_binding r))),
      (''env_bindings'', texts_py (env_bindings r)), (''required'', PBool (is_required r))] @
     (if requirement_deliveries r = [] then []
      else [(''secret_deliveries'',
        PList (map (\<lambda>d. PDict (delivery_descriptor d)) (requirement_deliveries r)))])))
     (sort_key requirement_name (requirements s)))"

definition runtime_value :: "runtime_record \<Rightarrow> py" where
  "runtime_value r = PDict
     [(''runtime_id'', PStr (runtime_id r)), (''kind'', PStr (runtime_kind_value (runtime_kind_of r))),
      (''children'', texts_py (runtime_children r)),
      (''metadata'', PDict (redact_mapping (map (\<lambda>(k, v). (k, PStr v)) (runtime_metadata r)))),
      (''lifecycle'', lifecycle_py (runtime_lifecycle r))]"

definition node_value :: "(string \<Rightarrow> string) \<Rightarrow> graph_node \<Rightarrow> descriptor \<Rightarrow> py" where
  "node_value digest n encoded = PDict
     [(''node_id'', PStr (node_id n)), (''block_family'', PStr (block_family_value (node_family n))),
      (''block_spec'', PDict (redact_mapping encoded)), (''kind'', PStr (node_kind n)),
      (''runtime_id'', PStr (node_runtime n)),
      (''providers'', providers_value (node_sockets n)),
      (''requirements'', requirements_value (node_sockets n)),
      (''endpoints'', PDict (map (\<lambda>(k, e). (k, endpoint_value e)) (sort_key fst (node_endpoints n)))),
      (''environment_bindings'', bindings_value (node_bindings n)),
      (''metadata'', PDict (redact_mapping (node_metadata n))),
      (''lifecycle'', lifecycle_py (node_lifecycle n)),
      (''configuration_artifacts'', artifacts_value (node_artifacts n)),
      (''secret_deliveries'', deliveries_value digest (node_deliveries n)),
      (''delegation_verifier_projection'', projection_value (node_projection n))]"

definition edge_value :: "graph_edge \<Rightarrow> py" where
  "edge_value e = PDict
     [(''edge_id'', PStr (edge_id e)),
      (''provider'', PDict [(''node_id'', PStr (edge_provider e)), (''socket'', PStr (edge_provider_socket e))]),
      (''consumer'', PDict [(''node_id'', PStr (edge_consumer e)), (''socket'', PStr (edge_requirement e))]),
      (''protocol'', protocol_py (edge_protocol e)),
      (''binding'', PStr (socket_binding_value (edge_binding e))),
      (''env_assignments'', PDict (map (\<lambda>n. (n, redacted)) (sort (map fst (edge_assignments e)))))]"

fun diff_value_py :: "(string \<Rightarrow> string) \<Rightarrow> diff_value \<Rightarrow> py" where
  "diff_value_py digest (TextValue s) = PStr s"
| "diff_value_py digest (StringTupleValue xs) = texts_py xs"
| "diff_value_py digest (MetadataValue d) = PDict (redact_mapping d)"
| "diff_value_py digest (EnvironmentBindingsValue bs) = bindings_value bs"
| "diff_value_py digest (ConfigurationArtifactsValue xs) = artifacts_value xs"
| "diff_value_py digest (SecretDeliveriesValue ds) = deliveries_value digest ds"
| "diff_value_py digest (ProjectionValue p) = projection_value p"
| "diff_value_py digest (EndpointValue e) = endpoint_value e"
| "diff_value_py digest (SocketContractValue s) =
     PDict [(''providers'', providers_value s), (''requirements'', requirements_value s)]"
| "diff_value_py digest (BlockSpecValue s encoded) = PDict (redact_mapping encoded)"
| "diff_value_py digest (RuntimeValue r) = runtime_value r"
| "diff_value_py digest (NodeValue n encoded) = node_value digest n encoded"
| "diff_value_py digest (EdgeValue e) = edge_value e"
| "diff_value_py digest (PublicIngressValue i) = PDict (ingress_descriptor i)"

section \<open>Changes\<close>

datatype unsupported_reason = RuntimeKindTransition | ImplementationKindTransition

primrec unsupported_value :: "unsupported_reason \<Rightarrow> string" where
  "unsupported_value RuntimeKindTransition = ''runtime-kind-transition''"
| "unsupported_value ImplementationKindTransition = ''implementation-kind-transition''"

datatype ambiguity_reason = BlockSpecLanguageMismatch | NodeIdentityReused

primrec ambiguity_value :: "ambiguity_reason \<Rightarrow> string" where
  "ambiguity_value BlockSpecLanguageMismatch = ''block-spec-language-mismatch''"
| "ambiguity_value NodeIdentityReused = ''node-identity-reused''"

datatype structural_change = AddedChange diff_subject diff_value
  | RemovedChange diff_subject diff_value
  | ModifiedChange diff_subject diff_value diff_value
  | UnsupportedChange diff_subject diff_value diff_value unsupported_reason
  | AmbiguousChange diff_subject ambiguity_reason "diff_value option" "diff_value option"

primrec change_subject :: "structural_change \<Rightarrow> diff_subject" where
  "change_subject (AddedChange s a) = s"
| "change_subject (RemovedChange s b) = s"
| "change_subject (ModifiedChange s b a) = s"
| "change_subject (UnsupportedChange s b a r) = s"
| "change_subject (AmbiguousChange s r b a) = s"

primrec change_form :: "structural_change \<Rightarrow> string" where
  "change_form (AddedChange s a) = ''added''"
| "change_form (RemovedChange s b) = ''removed''"
| "change_form (ModifiedChange s b a) = ''modified''"
| "change_form (UnsupportedChange s b a r) = ''unsupported''"
| "change_form (AmbiguousChange s r b a) = ''ambiguous''"

primrec change_details :: "(string \<Rightarrow> string) \<Rightarrow> structural_change \<Rightarrow> descriptor" where
  "change_details digest (AddedChange s a) = [(''after'', diff_value_py digest a)]"
| "change_details digest (RemovedChange s b) = [(''before'', diff_value_py digest b)]"
| "change_details digest (ModifiedChange s b a) =
     [(''before'', diff_value_py digest b), (''after'', diff_value_py digest a)]"
| "change_details digest (UnsupportedChange s b a r) = [(''reason'', PStr (unsupported_value r)),
     (''before'', diff_value_py digest b), (''after'', diff_value_py digest a)]"
| "change_details digest (AmbiguousChange s r b a) = [(''reason'', PStr (ambiguity_value r))] @
     (case b of None \<Rightarrow> [] | Some v \<Rightarrow> [(''before'', diff_value_py digest v)]) @
     (case a of None \<Rightarrow> [] | Some v \<Rightarrow> [(''after'', diff_value_py digest v)])"

definition change_descriptor :: "(string \<Rightarrow> string) \<Rightarrow> structural_change \<Rightarrow> descriptor" where
  "change_descriptor digest c =
     [(''form'', PStr (change_form c)), (''subject'', PDict (change_subject_descriptor (change_subject c)))] @
     change_details digest c"

record graph_diff =
  diff_current :: string
  diff_desired :: string
  diff_changes :: "structural_change list"

definition diff_empty :: "graph_diff \<Rightarrow> bool" where
  "diff_empty d \<longleftrightarrow> diff_changes d = []"

definition diff_descriptor :: "(string \<Rightarrow> string) \<Rightarrow> graph_diff \<Rightarrow> descriptor" where
  "diff_descriptor digest d =
     [(''current_graph_name'', PStr (diff_current d)), (''desired_graph_name'', PStr (diff_desired d)),
      (''changes'', PList (map (\<lambda>c. PDict (change_descriptor digest c)) (diff_changes d)))]"

definition diff_summary :: "graph_diff \<Rightarrow> string" where
  "diff_summary d = (if diff_empty d then ''no changes'' else
     (let counts = fold (\<lambda>c counts. AList.update (change_form c)
           ((case map_of counts (change_form c) of None \<Rightarrow> 0 | Some n \<Rightarrow> n) + 1) counts)
         (diff_changes d) ([] :: (string \<times> nat) list) in
      join_with '', '' (map (\<lambda>f. f @ '': '' @ (case map_of counts f of None \<Rightarrow> [] | Some n \<Rightarrow> nat_text n))
        (sort (map fst counts)))))"

end
