(* ===== verification/Graph_Validation.thy ===== *)
theory Graph_Validation
  imports Graph_Changes
begin

text \<open>
  The codec of a graph, as far as it encodes (\<open>topology/codec.py\<close>), and the validation of a compiled
  topology (\<open>topology/validation.py\<close>). A block specification of a registered class is encoded by its own
  codec, a function of the model. The decoder, which validation runs on the encoded graph, is a
  function of the codec too. Protocols are compared as values: each has one canonical instance.
\<close>

section \<open>The codec\<close>

record spec_codec =
  variant_name :: string
  variant_class :: string
  variant_codec :: string
  variant_encode :: "block_spec \<Rightarrow> topology_exn + descriptor"

record graph_codec =
  codec_variants :: "spec_codec list"
  codec_decode :: "descriptor \<Rightarrow> topology_exn + deployment_graph"

definition generic_spec_codec :: spec_codec where
  "generic_spec_codec = \<lparr>variant_name = ''block'', variant_class = ''BlockSpec'',
     variant_codec = ''GenericBlockSpecCodec'', variant_encode = \<lambda>s. Inr (spec_descriptor s)\<rparr>"

definition register_variant :: "spec_codec list \<Rightarrow> spec_codec \<Rightarrow> topology_exn + spec_codec list" where
  "register_variant known c =
     (if variant_name c \<in> variant_name ` set known
      then Inl (TopologyValueError (''duplicate block spec variant '' @ repr_text (variant_name c)))
      else if variant_class c \<in> variant_class ` set known
      then Inl (TopologyValueError (''duplicate block spec type '' @ variant_class c))
      else Inr (known @ [c]))"

definition make_codec :: "spec_codec list \<Rightarrow> (descriptor \<Rightarrow> topology_exn + deployment_graph) \<Rightarrow>
    topology_exn + graph_codec" where
  "make_codec extra decode = bindR (foldR register_variant [] (generic_spec_codec # extra)) (\<lambda>known.
     Inr \<lparr>codec_variants = known, codec_decode = decode\<rparr>)"

definition encode_block_spec :: "graph_codec \<Rightarrow> block_spec \<Rightarrow> topology_exn + descriptor" where
  "encode_block_spec codec s = (case find (\<lambda>c. variant_class c = spec_class s) (codec_variants codec) of
     Some c \<Rightarrow> variant_encode c s
   | None \<Rightarrow> Inl (UnknownGraphVariant (''unregistered block spec type '' @ spec_class s)))"

definition codec_language :: "graph_codec \<Rightarrow> (string \<times> string \<times> string) list" where
  "codec_language codec = sort_key fst
     (map (\<lambda>c. (variant_name c, variant_class c, variant_codec c)) (codec_variants codec))"

definition supports_same_block_specs :: "graph_codec \<Rightarrow> graph_codec \<Rightarrow> bool" where
  "supports_same_block_specs a b \<longleftrightarrow> codec_language a = codec_language b"

definition encode_node :: "graph_codec \<Rightarrow> graph_node \<Rightarrow> topology_exn + descriptor" where
  "encode_node codec n = bindR (encode_block_spec codec (node_spec n)) (\<lambda>spec.
     Inr (AList.update ''block_spec'' (PDict spec) (node_descriptor n)))"

section \<open>References inside a graph\<close>

text \<open>\<open>str\<close> of an exception: a key error shows the representation of its message.\<close>

fun exn_text :: "topology_exn \<Rightarrow> string" where
  "exn_text (TopologyKeyError m) = repr_text m"
| "exn_text (TopologyValueError m) = m"
| "exn_text (MalformedGraphDescriptor m) = m"
| "exn_text (UnknownGraphVariant m) = m"
| "exn_text (InvalidGraphReference m) = m"
| "exn_text (LossyGraphDescriptor m) = m"
| "exn_text (DelegationAuthorityError m) = m"
| "exn_text (GraphConstructionError k i) =
     ''cannot add duplicate '' @ identity_kind_value k @ '' identity '' @ repr_text i"
| "exn_text (GraphValidationError n c) =
     ''graph '' @ repr_text n @ '' has '' @ nat_text c @ '' validation errors''"

definition invalid_reference :: "topology_exn + 'a \<Rightarrow> topology_exn + 'a" where
  "invalid_reference r = (case r of
     Inl (TopologyKeyError m) \<Rightarrow> Inl (InvalidGraphReference (exn_text (TopologyKeyError m)))
   | _ \<Rightarrow> r)"

definition own_child :: "deployment_graph \<Rightarrow> string \<Rightarrow> (string \<times> string) list \<Rightarrow> string \<Rightarrow>
    topology_exn + (string \<times> string) list" where
  "own_child g i owners child =
     (if child \<notin> fst ` set (graph_nodes g)
      then Inl (InvalidGraphReference (''runtime '' @ repr_text i @ '' references missing node '' @
        repr_text child))
      else if child \<in> fst ` set owners
      then Inl (InvalidGraphReference (''node '' @ repr_text child @ '' belongs to multiple runtimes''))
      else Inr (owners @ [(child, i)]))"

definition check_runtime_reference :: "deployment_graph \<Rightarrow> (string \<times> string) list \<Rightarrow>
    string \<times> runtime_record \<Rightarrow> topology_exn + (string \<times> string) list" where
  "check_runtime_reference g owners item = (case item of (i, r) \<Rightarrow>
     if i \<noteq> runtime_id r
     then Inl (InvalidGraphReference ''runtime map key does not match runtime_id'')
     else foldR (own_child g i) owners (runtime_children r))"

definition check_endpoint_reference :: "graph_node \<Rightarrow> string \<Rightarrow> unit \<Rightarrow> string \<times> endpoint \<Rightarrow>
    topology_exn + unit" where
  "check_endpoint_reference n i u item = (case item of (name, e) \<Rightarrow>
     bindR (find_provider (node_sockets n) name) (\<lambda>p.
       requireR (provider_protocol p = endpoint_protocol e) (InvalidGraphReference
         (''endpoint '' @ i @ ''.'' @ name @ '' protocol does not match provider''))))"

definition check_node_reference :: "deployment_graph \<Rightarrow> (string \<times> string) list \<Rightarrow> unit \<Rightarrow>
    string \<times> graph_node \<Rightarrow> topology_exn + unit" where
  "check_node_reference g owners u item = (case item of (i, n) \<Rightarrow>
     if i \<noteq> node_id n \<or> spec_role (node_spec n) \<noteq> i
     then Inl (InvalidGraphReference (''node identity mismatch for '' @ repr_text i))
     else if node_runtime n \<notin> fst ` set (graph_runtimes g)
     then Inl (InvalidGraphReference (''node '' @ repr_text i @ '' references missing runtime '' @
       repr_text (node_runtime n)))
     else if map_of owners i \<noteq> Some (node_runtime n)
     then Inl (InvalidGraphReference (''node '' @ repr_text i @ '' is not owned by runtime '' @
       repr_text (node_runtime n)))
     else foldR (check_endpoint_reference n i) () (node_endpoints n))"

definition edge_provider_of :: "deployment_graph \<Rightarrow> graph_edge \<Rightarrow> topology_exn + provider_socket" where
  "edge_provider_of g e = bindR (find_node g (edge_provider e)) (\<lambda>n.
     find_provider (node_sockets n) (edge_provider_socket e))"

definition edge_requirement_of :: "deployment_graph \<Rightarrow> graph_edge \<Rightarrow> topology_exn + requirement_socket" where
  "edge_requirement_of g e = bindR (find_node g (edge_consumer e)) (\<lambda>n.
     find_requirement (node_sockets n) (edge_requirement e))"

definition check_edge_reference :: "deployment_graph \<Rightarrow> unit \<Rightarrow> string \<times> graph_edge \<Rightarrow> topology_exn + unit" where
  "check_edge_reference g u item = (case item of (i, e) \<Rightarrow>
     if i \<noteq> edge_id e
     then Inl (InvalidGraphReference (''edge key does not match edge_id '' @ repr_text i))
     else bindR (invalid_reference (edge_provider_of g e)) (\<lambda>p.
       bindR (invalid_reference (edge_requirement_of g e)) (\<lambda>r.
         requireR (provider_protocol p = edge_protocol e \<and> requirement_protocol r = edge_protocol e)
           (InvalidGraphReference (''edge '' @ repr_text i @ '' has incompatible protocol'')))))"

definition check_ingress_reference :: "deployment_graph \<Rightarrow> unit \<Rightarrow> public_ingress \<Rightarrow> topology_exn + unit" where
  "check_ingress_reference g u i =
     bindR (invalid_reference (find_node g (ingress_node i))) (\<lambda>target.
     bindR (invalid_reference (find_provider (node_sockets target) (ingress_socket i))) (\<lambda>_.
     bindR (invalid_reference (find_node g (connector_node i))) (\<lambda>connector.
       requireR (node_runtime connector = node_runtime target) (InvalidGraphReference
         (''public ingress '' @ repr_text (ingress_id i) @ '' connector must share target runtime'')))))"

definition check_authority_reference :: "deployment_graph \<Rightarrow> unit \<Rightarrow> authority_binding \<Rightarrow>
    topology_exn + unit" where
  "check_authority_reference g u b =
     bindR (invalid_reference (find_node g (delegate_node b))) (\<lambda>n.
       case node_projection n of None \<Rightarrow> Inr ()
       | Some p \<Rightarrow> requireR (projection_identity p = binding_identity b \<and> projection_issuer p = delegation_issuer b)
           (InvalidGraphReference ''delegation verifier projection does not match authored binding''))"

definition check_projection_reference :: "deployment_graph \<Rightarrow> unit \<Rightarrow> string \<times> graph_node \<Rightarrow>
    topology_exn + unit" where
  "check_projection_reference g u item = (case node_projection (snd item) of None \<Rightarrow> Inr ()
     | Some p \<Rightarrow> requireR (projection_identity p \<in> binding_identity ` set (graph_authorities g))
         (InvalidGraphReference ''delegation verifier projection requires an authored binding''))"

definition check_references :: "deployment_graph \<Rightarrow> topology_exn + unit" where
  "check_references g =
     (if \<not> non_blank (graph_name g) then Inl (MalformedGraphDescriptor ''graph name must not be empty'')
      else bindR (foldR (check_runtime_reference g) [] (graph_runtimes g)) (\<lambda>owners.
        bindR (foldR (check_node_reference g owners) () (graph_nodes g)) (\<lambda>_.
        bindR (foldR (check_edge_reference g) () (graph_edges g)) (\<lambda>_.
        bindR (foldR (check_ingress_reference g) () (graph_ingresses g)) (\<lambda>_.
        bindR (foldR (check_authority_reference g) () (graph_authorities g)) (\<lambda>_.
          foldR (check_projection_reference g) () (graph_nodes g)))))))"

definition encode_graph :: "graph_codec \<Rightarrow> deployment_graph \<Rightarrow> topology_exn + descriptor" where
  "encode_graph codec g =
     bindR (mapR (\<lambda>(i, n). bindR (encode_node codec n) (\<lambda>d. Inr (i, PDict d)))
       (sort_key fst (graph_nodes g))) (\<lambda>nodes.
     bindR (check_references g) (\<lambda>_. Inr
       ([(''name'', PStr (graph_name g)),
         (''runtimes'', PDict (map (\<lambda>(i, r). (i, PDict (runtime_descriptor r)))
            (sort_key fst (graph_runtimes g)))),
         (''nodes'', PDict nodes),
         (''edges'', PDict (map (\<lambda>(i, e). (i, PDict (edge_descriptor e))) (sort_key fst (graph_edges g)))),
         (''public_ingresses'', PList (map (\<lambda>i. PDict (ingress_descriptor i))
            (sort_key ingress_id (graph_ingresses g))))] @
        (if graph_authorities g = [] then [] else [(''delegation_authorities'',
          PList (map (\<lambda>b. PDict (authority_descriptor b)) (graph_authorities g)))]))))"

section \<open>Findings\<close>

datatype validation_severity = SeverityError | SeverityWarning

primrec severity_value :: "validation_severity \<Rightarrow> string" where
  "severity_value SeverityError = ''error''"
| "severity_value SeverityWarning = ''warning''"

datatype validation_code = InvalidDescriptor | MissingRuntime | RuntimeOwnership | MissingProviderEndpoint
  | UndeclaredProviderEndpoint | EndpointProtocolMismatch | MissingRequiredConnection
  | UnconnectedOptionalSocket | MultipleRequirementConnections | EdgeReference | EdgeProtocolMismatch
  | EdgeBindingMismatch | ControlRouteSet | NodeControlSurface | DuplicateProviderSocket
  | DuplicateRequirementSocket | EdgeEnvBindings | ConsumerEnvironment | VerificationProvider
  | VerificationProtocol | SelfConnection

primrec validation_code_value :: "validation_code \<Rightarrow> string" where
  "validation_code_value InvalidDescriptor = ''invalid-descriptor''"
| "validation_code_value MissingRuntime = ''missing-runtime''"
| "validation_code_value RuntimeOwnership = ''runtime-ownership''"
| "validation_code_value MissingProviderEndpoint = ''missing-provider-endpoint''"
| "validation_code_value UndeclaredProviderEndpoint = ''undeclared-provider-endpoint''"
| "validation_code_value EndpointProtocolMismatch = ''endpoint-protocol''"
| "validation_code_value MissingRequiredConnection = ''missing-required-connection''"
| "validation_code_value UnconnectedOptionalSocket = ''unconnected-optional-socket''"
| "validation_code_value MultipleRequirementConnections = ''multiple-requirement-connections''"
| "validation_code_value EdgeReference = ''edge-reference''"
| "validation_code_value EdgeProtocolMismatch = ''edge-protocol''"
| "validation_code_value EdgeBindingMismatch = ''edge-binding''"
| "validation_code_value ControlRouteSet = ''control-route-set''"
| "validation_code_value NodeControlSurface = ''node-control-surface''"
| "validation_code_value DuplicateProviderSocket = ''duplicate-provider-socket''"
| "validation_code_value DuplicateRequirementSocket = ''duplicate-requirement-socket''"
| "validation_code_value EdgeEnvBindings = ''edge-env-bindings''"
| "validation_code_value ConsumerEnvironment = ''consumer-environment''"
| "validation_code_value VerificationProvider = ''verification-provider''"
| "validation_code_value VerificationProtocol = ''verification-protocol''"
| "validation_code_value SelfConnection = ''self-connection''"

datatype socket_direction = ProviderDirection | RequirementDirection

primrec socket_direction_value :: "socket_direction \<Rightarrow> string" where
  "socket_direction_value ProviderDirection = ''provider''"
| "socket_direction_value RequirementDirection = ''requirement''"

datatype validation_subject = AboutElement diff_subject | SocketSubject string string socket_direction

primrec validation_subject_items :: "validation_subject \<Rightarrow> descriptor" where
  "validation_subject_items (AboutElement s) = change_subject_descriptor s"
| "validation_subject_items (SocketSubject n k d) =
     [(''kind'', PStr ''socket''), (''node_id'', PStr n), (''socket_name'', PStr k),
      (''direction'', PStr (socket_direction_value d))]"

record validation_finding =
  finding_code :: validation_code
  finding_severity :: validation_severity
  finding_subject :: validation_subject
  finding_message :: string

definition finding_descriptor :: "validation_finding \<Rightarrow> descriptor" where
  "finding_descriptor f =
     [(''code'', PStr (validation_code_value (finding_code f))),
      (''severity'', PStr (severity_value (finding_severity f))),
      (''subject'', PDict (validation_subject_items (finding_subject f))),
      (''message'', PStr (finding_message f))]"

definition error_finding :: "validation_code \<Rightarrow> validation_subject \<Rightarrow> string \<Rightarrow> validation_finding" where
  "error_finding code subject message = \<lparr>finding_code = code, finding_severity = SeverityError,
     finding_subject = subject, finding_message = message\<rparr>"

definition runtime_at :: "string \<Rightarrow> validation_subject" where
  "runtime_at i = AboutElement (OwnerSubject (RuntimeSubject i))"

definition node_at :: "string \<Rightarrow> validation_subject" where
  "node_at i = AboutElement (OwnerSubject (NodeSubject i))"

definition edge_at :: "string \<Rightarrow> validation_subject" where
  "edge_at i = AboutElement (EdgeSubject i)"

text \<open>\<open>str(sorted(subject.items()))\<close>; the values of a subject's descriptor are texts.\<close>

definition item_repr :: "string \<times> py \<Rightarrow> string" where
  "item_repr kv = (case kv of (k, v) \<Rightarrow>
     ''('' @ repr_text k @ '', '' @ (case v of PStr s \<Rightarrow> repr_text s | _ \<Rightarrow> json_text v) @ '')'')"

definition finding_key :: "validation_finding \<Rightarrow> string \<times> string \<times> string \<times> string" where
  "finding_key f = (severity_value (finding_severity f), validation_code_value (finding_code f),
     ''['' @ join_with '', '' (map item_repr (sort_key fst (validation_subject_items (finding_subject f)))) @ '']'',
     finding_message f)"

section \<open>Validation of runtimes and edges\<close>

text \<open>
  \<open>owners.get(node)\<close>: the runtimes that name the node as a child, and \<open>requirement_edges.get(...)\<close>: the
  edges into a requirement, both in the order of their sorted dictionaries.
\<close>

definition node_owners :: "deployment_graph \<Rightarrow> string \<Rightarrow> string list" where
  "node_owners g n = concat (map (\<lambda>(i, r). map (\<lambda>c. i) (filter (\<lambda>c. c = n) (runtime_children r)))
     (sort_key fst (graph_runtimes g)))"

definition connected_edges :: "deployment_graph \<Rightarrow> string \<Rightarrow> string \<Rightarrow> string list" where
  "connected_edges g n k = map fst (filter (\<lambda>(i, e). edge_consumer e = n \<and> edge_requirement e = k)
     (sort_key fst (graph_edges g)))"

definition runtime_findings :: "deployment_graph \<Rightarrow> string \<times> runtime_record \<Rightarrow> validation_finding list" where
  "runtime_findings g item = (case item of (i, r) \<Rightarrow>
     map (\<lambda>c. error_finding RuntimeOwnership (runtime_at i) (''runtime references missing node '' @ repr_text c))
       (filter (\<lambda>c. c \<notin> fst ` set (graph_nodes g)) (runtime_children r)))"

definition edge_members :: "deployment_graph \<Rightarrow> graph_edge \<Rightarrow>
    topology_exn + graph_node \<times> graph_node \<times> provider_socket \<times> requirement_socket" where
  "edge_members g e =
     bindR (find_node g (edge_provider e)) (\<lambda>pn.
     bindR (find_node g (edge_consumer e)) (\<lambda>cn.
     bindR (find_provider (node_sockets pn) (edge_provider_socket e)) (\<lambda>p.
     bindR (find_requirement (node_sockets cn) (edge_requirement e)) (\<lambda>r. Inr (pn, cn, p, r)))))"

definition finding_if :: "bool \<Rightarrow> validation_code \<Rightarrow> validation_subject \<Rightarrow> string \<Rightarrow> validation_finding list" where
  "finding_if b code subject message = (if b then [error_finding code subject message] else [])"

definition socket_values :: "graph_node \<Rightarrow> string \<Rightarrow> string option" where
  "socket_values n = dict_of derived_name derived_value (node_derived n)"

definition edge_findings :: "deployment_graph \<Rightarrow> string \<times> graph_edge \<Rightarrow> validation_finding list" where
  "edge_findings g item = (case item of (i, e) \<Rightarrow> (case edge_members g e of
       Inl x \<Rightarrow> [error_finding EdgeReference (edge_at i) (exn_text x)]
     | Inr (pn, cn, p, r) \<Rightarrow>
         finding_if (edge_provider e = edge_consumer e) SelfConnection (edge_at i)
           ''a node cannot satisfy its own requirement socket'' @
         finding_if (provider_protocol p \<noteq> edge_protocol e \<or> requirement_protocol r \<noteq> edge_protocol e)
           EdgeProtocolMismatch (edge_at i) ''edge protocol does not match both connected sockets'' @
         finding_if (requirement_binding r \<noteq> edge_binding e) EdgeBindingMismatch (edge_at i)
           ''edge binding does not match the consumer requirement contract'' @
         finding_if (fst ` set (edge_assignments e) \<noteq> set (env_bindings r)) EdgeEnvBindings (edge_at i)
           ''edge assignments must exactly cover requirement environment bindings'' @
         finding_if (case map_of (node_endpoints pn) (provider_name p) of None \<Rightarrow> False
             | Some x \<Rightarrow> list_ex (\<lambda>(n, v). v \<noteq> endpoint_url x) (edge_assignments e)) EdgeEnvBindings (edge_at i)
           ''edge assignment values must equal the provider endpoint address'' @
         finding_if (list_ex (\<lambda>(n, v). socket_values cn n \<noteq> Some v) (edge_assignments e))
           ConsumerEnvironment (edge_at i) ''consumer environment must contain the edge assignments'' @
         finding_if (list_ex (\<lambda>b. derived_edge b \<noteq> i \<and> derived_name b \<in> fst ` set (edge_assignments e))
             (node_derived cn)) ConsumerEnvironment (edge_at i)
           ''consumer socket environment must retain its producing edge''))"

section \<open>Validation of nodes\<close>

definition environment_findings :: "deployment_graph \<Rightarrow> string \<Rightarrow> graph_node \<Rightarrow> validation_finding list" where
  "environment_findings g i n = concat (map (\<lambda>b. finding_if (case map_of (graph_edges g) (derived_edge b) of
       None \<Rightarrow> True
     | Some e \<Rightarrow> edge_consumer e \<noteq> i \<or> map_of (edge_assignments e) (derived_name b) \<noteq> Some (derived_value b))
       ConsumerEnvironment (node_at i) ''socket environment binding must identify its exact producing edge'')
     (node_derived n))"

definition repeated_names :: "string list \<Rightarrow> string list" where
  "repeated_names xs = sort (remdups (filter (\<lambda>x. 1 < length (filter (\<lambda>y. y = x) xs)) xs))"

definition membership_findings :: "deployment_graph \<Rightarrow> string \<Rightarrow> graph_node \<Rightarrow> validation_finding list" where
  "membership_findings g i n =
     finding_if (node_runtime n \<notin> fst ` set (graph_runtimes g)) MissingRuntime (node_at i)
       (''node references missing runtime '' @ repr_text (node_runtime n)) @
     finding_if (node_owners g i \<noteq> [node_runtime n]) RuntimeOwnership (node_at i)
       ''node must belong to exactly its declared runtime''"

definition socket_findings :: "string \<Rightarrow> graph_node \<Rightarrow> validation_finding list" where
  "socket_findings i n =
     map (\<lambda>k. error_finding DuplicateProviderSocket (SocketSubject i k ProviderDirection)
       ''provider socket name must be unique within its node'') (repeated_names (provider_names (node_sockets n))) @
     map (\<lambda>k. error_finding DuplicateRequirementSocket (SocketSubject i k RequirementDirection)
       ''requirement socket name must be unique within its node'')
       (repeated_names (requirement_names (node_sockets n))) @
     map (\<lambda>k. error_finding UndeclaredProviderEndpoint (SocketSubject i k ProviderDirection)
       ''compiled endpoint has no declared provider socket'')
       (sort (filter (\<lambda>k. k \<notin> set (provider_names (node_sockets n))) (map fst (node_endpoints n)))) @
     concat (map (\<lambda>p. case map_of (node_endpoints n) (provider_name p) of
         None \<Rightarrow> [error_finding MissingProviderEndpoint (SocketSubject i (provider_name p) ProviderDirection)
           ''provider socket has no compiled endpoint'']
       | Some x \<Rightarrow> finding_if (endpoint_protocol x \<noteq> provider_protocol p) EndpointProtocolMismatch
           (SocketSubject i (provider_name p) ProviderDirection)
           ''endpoint protocol does not match provider socket'') (providers (node_sockets n)))"

definition connection_findings :: "deployment_graph \<Rightarrow> string \<Rightarrow> graph_node \<Rightarrow> validation_finding list" where
  "connection_findings g i n = concat (map (\<lambda>r.
     let subject = SocketSubject i (requirement_name r) RequirementDirection;
         connected = connected_edges g i (requirement_name r) in
     if 1 < length connected
     then [error_finding MultipleRequirementConnections subject
       ''requirement socket has multiple provider connections'']
     else if connected = [] \<and> is_required r
     then [error_finding MissingRequiredConnection subject ''required socket is not connected'']
     else if connected = []
     then [\<lparr>finding_code = UnconnectedOptionalSocket, finding_severity = SeverityWarning,
       finding_subject = subject, finding_message = ''optional socket is not connected''\<rparr>]
     else []) (requirements (node_sockets n)))"

definition capability_findings :: "string \<Rightarrow> graph_node \<Rightarrow> validation_finding list" where
  "capability_findings i n = concat (map (\<lambda>c. case capability_route_set c of None \<Rightarrow> []
     | Some r \<Rightarrow> (case route_set_named r of Inr x \<Rightarrow> []
         | Inl x \<Rightarrow> [error_finding ControlRouteSet (node_at i)
             (''capability references unknown route set '' @ repr_text (route_set_value r))]))
     (spec_capabilities (node_spec n)))"

definition surface_findings :: "string \<Rightarrow> graph_node \<Rightarrow> validation_finding list" where
  "surface_findings i n = concat (map (\<lambda>s.
     case find_provider (node_sockets n) (surface_socket s) of
       Inl x \<Rightarrow> [error_finding NodeControlSurface (SocketSubject i (surface_socket s) ProviderDirection)
         ''node-control surface references a missing provider socket'']
     | Inr p \<Rightarrow> finding_if (provider_protocol p \<noteq> proto TCP HTTP) NodeControlSurface
         (SocketSubject i (surface_socket s) ProviderDirection)
         ''node-control surface provider socket must use HTTP'') (spec_surfaces (node_spec n)))"

definition check_findings :: "string \<Rightarrow> graph_node \<Rightarrow> validation_finding list" where
  "check_findings i n = concat (map (\<lambda>c.
     case find_provider (node_sockets n) (check_socket c) of
       Inl x \<Rightarrow> [error_finding VerificationProvider (SocketSubject i (check_socket c) ProviderDirection)
         (''verification check '' @ repr_text (check_id c) @ '' references a missing provider socket'')]
     | Inr p \<Rightarrow> finding_if (provider_protocol p \<notin> set (expected_protocols (check_variant c)))
         VerificationProtocol (SocketSubject i (check_socket c) ProviderDirection)
         (''verification check '' @ repr_text (check_id c) @ '' is incompatible with the provider protocol''))
     (spec_checks (node_spec n)))"

definition node_findings :: "deployment_graph \<Rightarrow> string \<times> graph_node \<Rightarrow> validation_finding list" where
  "node_findings g item = (case item of (i, n) \<Rightarrow>
     environment_findings g i n @ membership_findings g i n @ socket_findings i n @
     connection_findings g i n @ capability_findings i n @ surface_findings i n @ check_findings i n)"

section \<open>Validated graphs\<close>

definition graph_findings :: "deployment_graph \<Rightarrow> validation_finding list" where
  "graph_findings g =
     concat (map (runtime_findings g) (sort_key fst (graph_runtimes g))) @
     concat (map (edge_findings g) (sort_key fst (graph_edges g))) @
     concat (map (node_findings g) (sort_key fst (graph_nodes g)))"

text \<open>The exceptions \<open>(GraphDescriptorError, KeyError)\<close>.\<close>

fun descriptor_error :: "topology_exn \<Rightarrow> bool" where
  "descriptor_error (TopologyKeyError m) = True"
| "descriptor_error (MalformedGraphDescriptor m) = True"
| "descriptor_error (UnknownGraphVariant m) = True"
| "descriptor_error (InvalidGraphReference m) = True"
| "descriptor_error (LossyGraphDescriptor m) = True"
| "descriptor_error x = False"

definition codec_findings :: "graph_codec \<Rightarrow> deployment_graph \<Rightarrow> topology_exn + validation_finding list" where
  "codec_findings codec g = (case bindR (encode_graph codec g) (codec_decode codec) of
     Inr x \<Rightarrow> Inr []
   | Inl x \<Rightarrow> if descriptor_error x
       then Inr [error_finding InvalidDescriptor (AboutElement (OwnerSubject GraphSubject)) (exn_text x)]
       else Inl x)"

record validated_graph =
  validated_value :: deployment_graph
  validated_findings :: "validation_finding list"
  validated_codec :: graph_codec

definition validate_graph :: "graph_codec \<Rightarrow> deployment_graph \<Rightarrow> topology_exn + validated_graph" where
  "validate_graph codec g = bindR (codec_findings codec g) (\<lambda>more.
     Inr \<lparr>validated_value = g, validated_findings = sort_key finding_key (graph_findings g @ more),
       validated_codec = codec\<rparr>)"

definition graph_errors :: "validated_graph \<Rightarrow> validation_finding list" where
  "graph_errors v = filter (\<lambda>f. finding_severity f = SeverityError) (validated_findings v)"

definition graph_warnings :: "validated_graph \<Rightarrow> validation_finding list" where
  "graph_warnings v = filter (\<lambda>f. finding_severity f = SeverityWarning) (validated_findings v)"

definition graph_is_valid :: "validated_graph \<Rightarrow> bool" where
  "graph_is_valid v \<longleftrightarrow> \<not> list_ex (\<lambda>f. finding_severity f = SeverityError) (validated_findings v)"

definition require_valid :: "validated_graph \<Rightarrow> topology_exn + deployment_graph" where
  "require_valid v = (if \<not> graph_is_valid v
     then Inl (GraphValidationError (graph_name (validated_value v)) (length (graph_errors v)))
     else Inr (validated_value v))"

definition validated_descriptor :: "validated_graph \<Rightarrow> descriptor" where
  "validated_descriptor v =
     [(''graph_name'', PStr (graph_name (validated_value v))), (''valid'', PBool (graph_is_valid v)),
      (''findings'', PList (map (\<lambda>f. PDict (finding_descriptor f)) (validated_findings v)))]"

end
