(* ===== verification/Graph_Diff.thy ===== *)
theory Graph_Diff
  imports Graph_Validation
begin

text \<open>
  The structural comparison of two validated graphs, \<open>topology/diff.py\<close>: what was added, removed and
  modified, in the order of the rank of the form and of the JSON texts of subject and change.
\<close>

section \<open>Equality of values\<close>

text \<open>
  Python's \<open>==\<close> on descriptor values: mappings are equal up to order, and \<open>True == 1 == 1.0\<close>. A number is
  compared by the text of the float it equals, which for an integer below 10^16 is \<open>n.0\<close>.
\<close>

definition number_text :: "int \<Rightarrow> string" where
  "number_text n = int_text n @ ''.0''"

fun normal_py :: "py \<Rightarrow> py"
  and normal_items :: "py list \<Rightarrow> py list"
  and normal_entries :: "(string \<times> py) list \<Rightarrow> (string \<times> py) list" where
  "normal_py (PBool b) = PFloat (number_text (if b then 1 else 0))"
| "normal_py (PInt n) = PFloat (number_text n)"
| "normal_py (PList xs) = PList (normal_items xs)"
| "normal_py (PDict d) = PDict (sort_key fst (normal_entries d))"
| "normal_py v = v"
| "normal_items [] = []"
| "normal_items (x # xs) = normal_py x # normal_items xs"
| "normal_entries [] = []"
| "normal_entries ((k, v) # d) = (k, normal_py v) # normal_entries d"

definition same_value :: "descriptor \<Rightarrow> descriptor \<Rightarrow> bool" where
  "same_value a b \<longleftrightarrow> normal_py (PDict a) = normal_py (PDict b)"

definition same_mapping :: "(string \<times> 'a) list \<Rightarrow> (string \<times> 'a) list \<Rightarrow> bool" where
  "same_mapping a b \<longleftrightarrow> sort_key fst a = sort_key fst b"

definition same_spec :: "block_spec \<Rightarrow> block_spec \<Rightarrow> bool" where
  "same_spec a b \<longleftrightarrow> same_mapping (spec_metadata a) (spec_metadata b) \<and>
     a\<lparr>spec_metadata := []\<rparr> = b\<lparr>spec_metadata := []\<rparr>"

definition same_edge :: "graph_edge \<Rightarrow> graph_edge \<Rightarrow> bool" where
  "same_edge a b \<longleftrightarrow> same_mapping (edge_assignments a) (edge_assignments b) \<and>
     a\<lparr>edge_assignments := []\<rparr> = b\<lparr>edge_assignments := []\<rparr>"

section \<open>Keyed comparison\<close>

text \<open>
  The loops over \<open>sorted(desired - current)\<close>, \<open>sorted(current - desired)\<close> and \<open>sorted(current & desired)\<close>
  of two mappings.
\<close>

definition entries_at :: "(string \<times> 'a) list \<Rightarrow> (string \<Rightarrow> 'a \<Rightarrow> 'c list) \<Rightarrow> string list \<Rightarrow> 'c list" where
  "entries_at d f ks = concat (map (\<lambda>k. case map_of d k of None \<Rightarrow> [] | Some v \<Rightarrow> f k v) (sort ks))"

definition keyed_changes :: "(string \<Rightarrow> 'a \<Rightarrow> 'c list) \<Rightarrow> (string \<Rightarrow> 'a \<Rightarrow> 'c list) \<Rightarrow>
    (string \<Rightarrow> 'a \<Rightarrow> 'a \<Rightarrow> 'c list) \<Rightarrow> (string \<times> 'a) list \<Rightarrow> (string \<times> 'a) list \<Rightarrow> 'c list" where
  "keyed_changes added removed common current desired =
     entries_at desired added (filter (\<lambda>k. k \<notin> fst ` set current) (map fst desired)) @
     entries_at current removed (filter (\<lambda>k. k \<notin> fst ` set desired) (map fst current)) @
     entries_at current (\<lambda>k b. case map_of desired k of None \<Rightarrow> [] | Some a \<Rightarrow> common k b a)
       (filter (\<lambda>k. k \<in> fst ` set desired) (map fst current))"

definition modified_if :: "bool \<Rightarrow> diff_subject \<Rightarrow> diff_value \<Rightarrow> diff_value \<Rightarrow> structural_change list" where
  "modified_if b s before after = (if b then [ModifiedChange s before after] else [])"

section \<open>Runtimes\<close>

definition authority_value :: "runtime_record \<Rightarrow> diff_value" where
  "authority_value r = MetadataValue
     [(''authority_ref'', py_optional (\<lambda>a. PDict (reference_descriptor a)) (runtime_authority r))]"

definition text_metadata :: "(string \<times> string) list \<Rightarrow> diff_value" where
  "text_metadata d = MetadataValue (map (\<lambda>(k, v). (k, PStr v)) d)"

definition runtime_changes :: "string \<Rightarrow> runtime_record \<Rightarrow> runtime_record \<Rightarrow> structural_change list" where
  "runtime_changes i b a = (let at = (\<lambda>f. FieldSubject (RuntimeSubject i) f None) in
     (if runtime_kind_of b \<noteq> runtime_kind_of a
      then [UnsupportedChange (at RUNTIME_KIND) (TextValue (runtime_kind_value (runtime_kind_of b)))
        (TextValue (runtime_kind_value (runtime_kind_of a))) RuntimeKindTransition] else []) @
     modified_if (runtime_children b \<noteq> runtime_children a) (at RUNTIME_CONTAINMENT)
       (StringTupleValue (runtime_children b)) (StringTupleValue (runtime_children a)) @
     modified_if (runtime_authority b \<noteq> runtime_authority a) (at RUNTIME_AUTHORITY)
       (authority_value b) (authority_value a) @
     modified_if (\<not> same_mapping (runtime_metadata b) (runtime_metadata a)) (at RUNTIME_METADATA)
       (text_metadata (runtime_metadata b)) (text_metadata (runtime_metadata a)) @
     modified_if (runtime_lifecycle b \<noteq> runtime_lifecycle a) (at RESOURCE_LIFECYCLE)
       (MetadataValue (lifecycle_descriptor (runtime_lifecycle b)))
       (MetadataValue (lifecycle_descriptor (runtime_lifecycle a))))"

definition diff_runtimes :: "deployment_graph \<Rightarrow> deployment_graph \<Rightarrow> structural_change list" where
  "diff_runtimes current desired = keyed_changes
     (\<lambda>i r. [AddedChange (OwnerSubject (RuntimeSubject i)) (RuntimeValue r)])
     (\<lambda>i r. [RemovedChange (OwnerSubject (RuntimeSubject i)) (RuntimeValue r)])
     runtime_changes (graph_runtimes current) (graph_runtimes desired)"

section \<open>Nodes\<close>

definition endpoint_changes :: "string \<Rightarrow> graph_node \<Rightarrow> graph_node \<Rightarrow> structural_change list" where
  "endpoint_changes i b a = (let at = (\<lambda>k. FieldSubject (NodeSubject i) ENDPOINT (Some k)) in keyed_changes
     (\<lambda>k e. [AddedChange (at k) (EndpointValue e)])
     (\<lambda>k e. [RemovedChange (at k) (EndpointValue e)])
     (\<lambda>k x y. modified_if (x \<noteq> y) (at k) (EndpointValue x) (EndpointValue y))
     (node_endpoints b) (node_endpoints a))"

definition encoded_node :: "graph_codec \<Rightarrow> graph_node \<Rightarrow> topology_exn + diff_value" where
  "encoded_node codec n = bindR (encode_block_spec codec (node_spec n)) (\<lambda>d. Inr (NodeValue n d))"

definition encoded_spec :: "graph_codec \<Rightarrow> block_spec \<Rightarrow> topology_exn + diff_value" where
  "encoded_spec codec s = bindR (encode_block_spec codec s) (\<lambda>d. Inr (BlockSpecValue s d))"

definition spec_changes :: "graph_codec \<Rightarrow> string \<Rightarrow> graph_node \<Rightarrow> graph_node \<Rightarrow>
    (topology_exn + structural_change) list" where
  "spec_changes codec i b a = (if same_spec (node_spec b) (node_spec a) then []
     else [bindR (encoded_spec codec (node_spec b)) (\<lambda>x. bindR (encoded_spec codec (node_spec a)) (\<lambda>y.
       Inr (ModifiedChange (FieldSubject (NodeSubject i) BLOCK_SPECIFICATION None) x y)))])"

definition placement_changes :: "string \<Rightarrow> graph_node \<Rightarrow> graph_node \<Rightarrow> structural_change list" where
  "placement_changes i b a = (let at = (\<lambda>f. FieldSubject (NodeSubject i) f None) in
     (if node_kind b \<noteq> node_kind a
      then [UnsupportedChange (at IMPLEMENTATION_KIND) (TextValue (node_kind b)) (TextValue (node_kind a))
        ImplementationKindTransition] else []) @
     modified_if (node_runtime b \<noteq> node_runtime a) (at RUNTIME_MEMBERSHIP)
       (TextValue (node_runtime b)) (TextValue (node_runtime a)))"

definition content_changes :: "string \<Rightarrow> graph_node \<Rightarrow> graph_node \<Rightarrow> structural_change list" where
  "content_changes i b a = (let at = (\<lambda>f. FieldSubject (NodeSubject i) f None) in
     modified_if (node_sockets b \<noteq> node_sockets a) (at SOCKET_CONTRACT)
       (SocketContractValue (node_sockets b)) (SocketContractValue (node_sockets a)) @
     endpoint_changes i b a @
     modified_if (node_public b \<noteq> node_public a) (at PUBLIC_ENVIRONMENT)
       (EnvironmentBindingsValue (map PublicStatic (node_public b)))
       (EnvironmentBindingsValue (map PublicStatic (node_public a))) @
     modified_if (node_derived b \<noteq> node_derived a) (at SOCKET_ENVIRONMENT)
       (EnvironmentBindingsValue (map SocketDerived (node_derived b)))
       (EnvironmentBindingsValue (map SocketDerived (node_derived a))) @
     modified_if (\<not> same_value (node_metadata b) (node_metadata a)) (at NODE_METADATA)
       (MetadataValue (node_metadata b)) (MetadataValue (node_metadata a)) @
     modified_if (map artifact_key (node_artifacts b) \<noteq> map artifact_key (node_artifacts a))
       (at CONFIGURATION_ARTIFACTS) (ConfigurationArtifactsValue (node_artifacts b))
       (ConfigurationArtifactsValue (node_artifacts a)) @
     modified_if (node_deliveries b \<noteq> node_deliveries a) (at SECRET_DELIVERIES)
       (SecretDeliveriesValue (node_deliveries b)) (SecretDeliveriesValue (node_deliveries a)) @
     modified_if (node_projection b \<noteq> node_projection a) (at DELEGATION_VERIFIER_PROJECTION)
       (ProjectionValue (node_projection b)) (ProjectionValue (node_projection a)) @
     modified_if (node_lifecycle b \<noteq> node_lifecycle a) (at RESOURCE_LIFECYCLE)
       (MetadataValue (lifecycle_descriptor (node_lifecycle b)))
       (MetadataValue (lifecycle_descriptor (node_lifecycle a))))"

definition node_changes :: "graph_codec \<Rightarrow> string \<Rightarrow> graph_node \<Rightarrow> graph_node \<Rightarrow>
    (topology_exn + structural_change) list" where
  "node_changes codec i b a =
     (if node_family b \<noteq> node_family a
      then [bindR (encoded_node codec b) (\<lambda>x. bindR (encoded_node codec a) (\<lambda>y.
        Inr (AmbiguousChange (OwnerSubject (NodeSubject i)) NodeIdentityReused (Some x) (Some y))))]
      else map Inr (placement_changes i b a) @ spec_changes codec i b a @ map Inr (content_changes i b a))"

definition diff_nodes :: "graph_codec \<Rightarrow> deployment_graph \<Rightarrow> deployment_graph \<Rightarrow>
    topology_exn + structural_change list" where
  "diff_nodes codec current desired = mapR (\<lambda>c. c) (keyed_changes
     (\<lambda>i n. [bindR (encoded_node codec n) (\<lambda>v. Inr (AddedChange (OwnerSubject (NodeSubject i)) v))])
     (\<lambda>i n. [bindR (encoded_node codec n) (\<lambda>v. Inr (RemovedChange (OwnerSubject (NodeSubject i)) v))])
     (node_changes codec) (graph_nodes current) (graph_nodes desired))"

section \<open>Edges, ingresses and authorities\<close>

definition diff_edges :: "deployment_graph \<Rightarrow> deployment_graph \<Rightarrow> structural_change list" where
  "diff_edges current desired = keyed_changes
     (\<lambda>i e. [AddedChange (EdgeSubject i) (EdgeValue e)])
     (\<lambda>i e. [RemovedChange (EdgeSubject i) (EdgeValue e)])
     (\<lambda>i x y. modified_if (\<not> same_edge x y) (EdgeSubject i) (EdgeValue x) (EdgeValue y))
     (graph_edges current) (graph_edges desired)"

definition ingress_entries :: "deployment_graph \<Rightarrow> (string \<times> public_ingress) list" where
  "ingress_entries g = map (\<lambda>i. (ingress_id i, i)) (graph_ingresses g)"

definition diff_public_ingresses :: "deployment_graph \<Rightarrow> deployment_graph \<Rightarrow> structural_change list" where
  "diff_public_ingresses current desired =
     (let at = (\<lambda>i. OwnerSubject (PublicIngressSubject i)) in keyed_changes
     (\<lambda>i e. [AddedChange (at i) (PublicIngressValue e)])
     (\<lambda>i e. [RemovedChange (at i) (PublicIngressValue e)])
     (\<lambda>i x y. modified_if (x \<noteq> y) (at i) (PublicIngressValue x) (PublicIngressValue y))
     (ingress_entries current) (ingress_entries desired))"

definition authorities_value :: "authority_binding list \<Rightarrow> diff_value" where
  "authorities_value bs = MetadataValue
     [(''bindings'', PList (map (\<lambda>b. PDict (authority_descriptor b)) bs))]"

definition diff_authorities :: "deployment_graph \<Rightarrow> deployment_graph \<Rightarrow> structural_change list" where
  "diff_authorities current desired = modified_if (graph_authorities current \<noteq> graph_authorities desired)
     (FieldSubject GraphSubject DELEGATION_AUTHORITIES None)
     (authorities_value (graph_authorities current)) (authorities_value (graph_authorities desired))"

section \<open>The difference of two graphs\<close>

primrec change_rank :: "structural_change \<Rightarrow> nat" where
  "change_rank (AddedChange s a) = 0"
| "change_rank (ModifiedChange s b a) = 1"
| "change_rank (UnsupportedChange s b a r) = 2"
| "change_rank (AmbiguousChange s r b a) = 3"
| "change_rank (RemovedChange s b) = 4"

definition change_key :: "(string \<Rightarrow> string) \<Rightarrow> structural_change \<Rightarrow> nat \<times> string \<times> string" where
  "change_key digest c = (change_rank c, json_spaced (PDict (change_subject_descriptor (change_subject c))),
     json_spaced (PDict (change_descriptor digest c)))"

definition raw_changes :: "graph_codec \<Rightarrow> deployment_graph \<Rightarrow> deployment_graph \<Rightarrow>
    topology_exn + structural_change list" where
  "raw_changes codec current desired = bindR (diff_nodes codec current desired) (\<lambda>nodes. Inr
     (modified_if (graph_name current \<noteq> graph_name desired) (FieldSubject GraphSubject GRAPH_NAME None)
        (TextValue (graph_name current)) (TextValue (graph_name desired)) @
      diff_runtimes current desired @ nodes @ diff_edges current desired @
      diff_public_ingresses current desired @ diff_authorities current desired))"

definition diff_graphs :: "(string \<Rightarrow> string) \<Rightarrow> validated_graph \<Rightarrow> validated_graph \<Rightarrow>
    topology_exn + graph_diff" where
  "diff_graphs digest current desired =
     bindR (require_valid current) (\<lambda>cur. bindR (require_valid desired) (\<lambda>des.
     if \<not> supports_same_block_specs (validated_codec current) (validated_codec desired)
     then Inr \<lparr>diff_current = graph_name cur, diff_desired = graph_name des,
       diff_changes = [AmbiguousChange (OwnerSubject GraphSubject) BlockSpecLanguageMismatch None None]\<rparr>
     else bindR (raw_changes (validated_codec current) cur des) (\<lambda>changes.
       Inr \<lparr>diff_current = graph_name cur, diff_desired = graph_name des,
         diff_changes = sort_key (change_key digest) changes\<rparr>)))"

end
