(* ===== verification/Diff_Laws.thy ===== *)
theory Diff_Laws
  imports Graph_Diff
begin

text \<open>
  What the difference of two graphs shows: every change is a fact about the two graphs, the difference
  is empty exactly for the same graph, and it does not depend on the order of the dictionaries.
\<close>

section \<open>Lists of results\<close>

lemma mapR_id_Inr: "mapR (\<lambda>c. c) rs = Inr ys \<longleftrightarrow> rs = map Inr ys"
  by (induction rs arbitrary: ys) (auto simp: bindR_Inr_iff Cons_eq_map_conv)

lemma Inr_bindR_iff: "Inr b = bindR r f \<longleftrightarrow> (\<exists>a. r = Inr a \<and> f a = Inr b)"
  using bindR_Inr_iff [of r f b] by (simp add: eq_commute)

section \<open>Keyed comparison\<close>

lemma key_known: "k \<in> fst ` set d \<longleftrightarrow> (\<exists>v. map_of d k = Some v)"
  using map_of_eq_None_iff [of d k] by auto

lemma set_entries_at:
  "c \<in> set (entries_at d f ks) \<longleftrightarrow> (\<exists>k v. k \<in> set ks \<and> map_of d k = Some v \<and> c \<in> set (f k v))"
proof -
  have "c \<in> set (case map_of d k of None \<Rightarrow> [] | Some v \<Rightarrow> f k v) \<longleftrightarrow>
      (\<exists>v. map_of d k = Some v \<and> c \<in> set (f k v))" for k
    by (cases "map_of d k") simp_all
  then show ?thesis by (simp add: entries_at_def Bex_def)
qed

lemma in_keyed_changes:
  "c \<in> set (keyed_changes added removed common b a) \<longleftrightarrow>
     (\<exists>k v. map_of a k = Some v \<and> map_of b k = None \<and> c \<in> set (added k v)) \<or>
     (\<exists>k v. map_of b k = Some v \<and> map_of a k = None \<and> c \<in> set (removed k v)) \<or>
     (\<exists>k v w. map_of b k = Some v \<and> map_of a k = Some w \<and> c \<in> set (common k v w))"
proof -
  have "c \<in> set (case map_of a k of None \<Rightarrow> [] | Some w \<Rightarrow> common k v w) \<longleftrightarrow>
      (\<exists>w. map_of a k = Some w \<and> c \<in> set (common k v w))" for k v
    by (cases "map_of a k") simp_all
  then show ?thesis
    unfolding keyed_changes_def set_append Un_iff set_entries_at
    by (simp add: key_known image_iff [symmetric] conj_commute conj_left_commute cong: conj_cong)
      blast
qed

lemma modified_if_simps [simp]: "modified_if True s b a = [ModifiedChange s b a]" "modified_if False s b a = []"
  by (simp_all add: modified_if_def)

lemma in_modified_if: "c \<in> set (modified_if x s b a) \<longleftrightarrow> x \<and> c = ModifiedChange s b a"
  by (auto simp: modified_if_def)

lemma modified_if_Nil: "modified_if x s b a = [] \<longleftrightarrow> \<not> x"
  by (simp add: modified_if_def)

lemma keyed_changes_Nil:
  assumes "\<And>k v. added k v \<noteq> []" and "\<And>k v. removed k v \<noteq> []"
  shows "keyed_changes added removed common b a = [] \<longleftrightarrow>
    (\<forall>k. rel_option (\<lambda>v w. common k v w = []) (map_of b k) (map_of a k))" (is "?empty \<longleftrightarrow> ?same")
proof
  assume ?empty
  then have none: "c \<notin> set (keyed_changes added removed common b a)" for c by simp
  show ?same
  proof
    fix k
    consider "map_of b k = None" "map_of a k = None"
      | v where "map_of b k = None" "map_of a k = Some v"
      | v where "map_of b k = Some v" "map_of a k = None"
      | v w where "map_of b k = Some v" "map_of a k = Some w" by (cases "map_of b k"; cases "map_of a k") auto
    then show "rel_option (\<lambda>v w. common k v w = []) (map_of b k) (map_of a k)"
    proof cases
      case (2 v)
      then show ?thesis using none [of "hd (added k v)"] assms(1) [of k v] unfolding in_keyed_changes
        by (metis list.set_sel(1))
    next
      case (3 v)
      then show ?thesis using none [of "hd (removed k v)"] assms(2) [of k v] unfolding in_keyed_changes
        by (metis list.set_sel(1))
    next
      case (4 v w)
      then have "common k v w = []" using none unfolding in_keyed_changes by (metis list.set_sel(1))
      with 4 show ?thesis by simp
    qed simp
  qed
next
  assume same: ?same
  have "c \<notin> set (keyed_changes added removed common b a)" for c
  proof
    assume "c \<in> set (keyed_changes added removed common b a)"
    then consider k v where "map_of a k = Some v" "map_of b k = None"
      | k v where "map_of b k = Some v" "map_of a k = None"
      | k v w where "map_of b k = Some v" "map_of a k = Some w" "c \<in> set (common k v w)"
      unfolding in_keyed_changes by blast
    then show False
    proof cases
      case (1 k v) then show False using spec [OF same, of k] by simp
    next
      case (2 k v) then show False using spec [OF same, of k] by simp
    next
      case (3 k v w) then show False using spec [OF same, of k] by simp
    qed
  qed
  then show ?empty by (meson last_in_set)
qed

section \<open>The value of a subject\<close>

text \<open>What a graph holds at the subject of a change.\<close>

definition runtime_field_value :: "runtime_record \<Rightarrow> structural_field \<Rightarrow> diff_value option" where
  "runtime_field_value r f = (case f of
     RUNTIME_KIND \<Rightarrow> Some (TextValue (runtime_kind_value (runtime_kind_of r)))
   | RUNTIME_CONTAINMENT \<Rightarrow> Some (StringTupleValue (runtime_children r))
   | RUNTIME_AUTHORITY \<Rightarrow> Some (authority_value r)
   | RUNTIME_METADATA \<Rightarrow> Some (text_metadata (runtime_metadata r))
   | RESOURCE_LIFECYCLE \<Rightarrow> Some (MetadataValue (lifecycle_descriptor (runtime_lifecycle r)))
   | _ \<Rightarrow> None)"

definition node_field_value :: "graph_codec \<Rightarrow> graph_node \<Rightarrow> structural_field \<Rightarrow> string option \<Rightarrow>
    diff_value option" where
  "node_field_value codec n f k = (case f of
     IMPLEMENTATION_KIND \<Rightarrow> Some (TextValue (node_kind n))
   | RUNTIME_MEMBERSHIP \<Rightarrow> Some (TextValue (node_runtime n))
   | BLOCK_SPECIFICATION \<Rightarrow> (case encoded_spec codec (node_spec n) of Inl x \<Rightarrow> None | Inr v \<Rightarrow> Some v)
   | SOCKET_CONTRACT \<Rightarrow> Some (SocketContractValue (node_sockets n))
   | ENDPOINT \<Rightarrow> Option.bind k (\<lambda>name. map_option EndpointValue (map_of (node_endpoints n) name))
   | PUBLIC_ENVIRONMENT \<Rightarrow> Some (EnvironmentBindingsValue (map PublicStatic (node_public n)))
   | SOCKET_ENVIRONMENT \<Rightarrow> Some (EnvironmentBindingsValue (map SocketDerived (node_derived n)))
   | NODE_METADATA \<Rightarrow> Some (MetadataValue (node_metadata n))
   | CONFIGURATION_ARTIFACTS \<Rightarrow> Some (ConfigurationArtifactsValue (node_artifacts n))
   | SECRET_DELIVERIES \<Rightarrow> Some (SecretDeliveriesValue (node_deliveries n))
   | DELEGATION_VERIFIER_PROJECTION \<Rightarrow> Some (ProjectionValue (node_projection n))
   | RESOURCE_LIFECYCLE \<Rightarrow> Some (MetadataValue (lifecycle_descriptor (node_lifecycle n)))
   | _ \<Rightarrow> None)"

definition graph_field_value :: "deployment_graph \<Rightarrow> structural_field \<Rightarrow> diff_value option" where
  "graph_field_value g f = (case f of
     GRAPH_NAME \<Rightarrow> Some (TextValue (graph_name g))
   | DELEGATION_AUTHORITIES \<Rightarrow> Some (authorities_value (graph_authorities g))
   | _ \<Rightarrow> None)"

definition subject_value :: "graph_codec \<Rightarrow> deployment_graph \<Rightarrow> diff_subject \<Rightarrow> diff_value option" where
  "subject_value codec g s = (case s of
     OwnerSubject GraphSubject \<Rightarrow> None
   | OwnerSubject (RuntimeSubject i) \<Rightarrow> map_option RuntimeValue (map_of (graph_runtimes g) i)
   | OwnerSubject (NodeSubject i) \<Rightarrow> Option.bind (map_of (graph_nodes g) i) (\<lambda>n.
       case encoded_node codec n of Inl x \<Rightarrow> None | Inr v \<Rightarrow> Some v)
   | OwnerSubject (PublicIngressSubject i) \<Rightarrow> map_option PublicIngressValue (map_of (ingress_entries g) i)
   | EdgeSubject i \<Rightarrow> map_option EdgeValue (map_of (graph_edges g) i)
   | FieldSubject GraphSubject f k \<Rightarrow> graph_field_value g f
   | FieldSubject (RuntimeSubject i) f k \<Rightarrow> Option.bind (map_of (graph_runtimes g) i) (\<lambda>r. runtime_field_value r f)
   | FieldSubject (NodeSubject i) f k \<Rightarrow> Option.bind (map_of (graph_nodes g) i) (\<lambda>n. node_field_value codec n f k)
   | FieldSubject (PublicIngressSubject i) f k \<Rightarrow> None)"

primrec reported :: "graph_codec \<Rightarrow> deployment_graph \<Rightarrow> deployment_graph \<Rightarrow> structural_change \<Rightarrow> bool" where
  "reported codec cur des (AddedChange s a) \<longleftrightarrow>
     subject_value codec cur s = None \<and> subject_value codec des s = Some a"
| "reported codec cur des (RemovedChange s b) \<longleftrightarrow>
     subject_value codec cur s = Some b \<and> subject_value codec des s = None"
| "reported codec cur des (ModifiedChange s b a) \<longleftrightarrow>
     subject_value codec cur s = Some b \<and> subject_value codec des s = Some a"
| "reported codec cur des (UnsupportedChange s b a r) \<longleftrightarrow>
     subject_value codec cur s = Some b \<and> subject_value codec des s = Some a"
| "reported codec cur des (AmbiguousChange s r b a) \<longleftrightarrow> b \<noteq> None \<and> a \<noteq> None \<and>
     subject_value codec cur s = b \<and> subject_value codec des s = a"

lemma encoded_node_Inr: "encoded_node codec n = Inr v \<Longrightarrow>
    \<exists>x. v = NodeValue n x \<and> encode_block_spec codec (node_spec n) = Inr x"
  by (auto simp: encoded_node_def bindR_Inr_iff)

lemma runtime_changes_reported:
  assumes "map_of (graph_runtimes cur) i = Some b" "map_of (graph_runtimes des) i = Some a"
    and "c \<in> set (runtime_changes i b a)"
  shows "reported codec cur des c"
  using assms by (auto simp: runtime_changes_def Let_def in_modified_if subject_value_def
      runtime_field_value_def split: if_splits)

lemma endpoint_changes_reported:
  assumes "map_of (graph_nodes cur) i = Some b" "map_of (graph_nodes des) i = Some a"
    and "c \<in> set (endpoint_changes i b a)"
  shows "reported codec cur des c"
  using assms by (auto simp: endpoint_changes_def Let_def in_keyed_changes in_modified_if subject_value_def
      node_field_value_def)

lemma node_changes_reported:
  assumes "map_of (graph_nodes cur) i = Some b" "map_of (graph_nodes des) i = Some a"
    and "Inr c \<in> set (node_changes codec i b a)"
  shows "reported codec cur des c"
proof (cases "node_family b \<noteq> node_family a")
  case True
  then show ?thesis using assms
    by (auto simp: node_changes_def subject_value_def Inr_bindR_iff bindR_Inr_iff)
next
  case False
  with assms(3) consider "c \<in> set (placement_changes i b a)" | "Inr c \<in> set (spec_changes codec i b a)"
    | "c \<in> set (content_changes i b a)" by (auto simp: node_changes_def)
  then show ?thesis
  proof cases
    case 1
    with assms(1,2) show ?thesis
      by (auto simp: placement_changes_def Let_def in_modified_if subject_value_def node_field_value_def
          split: if_splits)
  next
    case 2
    with assms(1,2) show ?thesis
      by (auto simp: spec_changes_def subject_value_def node_field_value_def Inr_bindR_iff bindR_Inr_iff split: if_splits)
  next
    case 3
    then have "c \<in> set (endpoint_changes i b a) \<or> reported codec cur des c"
      using assms(1,2)
      by (auto simp: content_changes_def Let_def in_modified_if subject_value_def node_field_value_def)
    with assms(1,2) endpoint_changes_reported show ?thesis by blast
  qed
qed

lemma diff_nodes_Inr:
  "diff_nodes codec cur des = Inr cs \<longleftrightarrow> keyed_changes
     (\<lambda>i n. [bindR (encoded_node codec n) (\<lambda>v. Inr (AddedChange (OwnerSubject (NodeSubject i)) v))])
     (\<lambda>i n. [bindR (encoded_node codec n) (\<lambda>v. Inr (RemovedChange (OwnerSubject (NodeSubject i)) v))])
     (node_changes codec) (graph_nodes cur) (graph_nodes des) = map Inr cs"
  by (simp add: diff_nodes_def mapR_id_Inr)

lemma diff_nodes_reported:
  assumes "diff_nodes codec cur des = Inr cs" and "c \<in> set cs"
  shows "reported codec cur des c"
proof -
  have "Inr c \<in> set (map Inr cs :: (topology_exn + structural_change) list)" using assms(2) by simp
  then show ?thesis unfolding assms(1) [unfolded diff_nodes_Inr, symmetric] in_keyed_changes
    by (auto simp: Inr_bindR_iff bindR_Inr_iff subject_value_def intro: node_changes_reported)
qed

lemma raw_changes_reported:
  assumes "raw_changes codec cur des = Inr cs" and "c \<in> set cs"
  shows "reported codec cur des c"
proof -
  obtain ns where ns: "diff_nodes codec cur des = Inr ns"
    and cs: "c \<in> set (modified_if (graph_name cur \<noteq> graph_name des) (FieldSubject GraphSubject GRAPH_NAME None)
        (TextValue (graph_name cur)) (TextValue (graph_name des))) \<or> c \<in> set (diff_runtimes cur des) \<or>
      c \<in> set ns \<or> c \<in> set (diff_edges cur des) \<or> c \<in> set (diff_public_ingresses cur des) \<or>
      c \<in> set (diff_authorities cur des)"
    using assms by (auto simp: raw_changes_def bindR_Inr_iff)
  then consider "c \<in> set (diff_runtimes cur des)" | "c \<in> set ns" | "c \<in> set (diff_edges cur des)"
    | "c \<in> set (diff_public_ingresses cur des)" | "reported codec cur des c"
    by (auto simp: diff_authorities_def in_modified_if subject_value_def graph_field_value_def)
  then show ?thesis
  proof cases
    case 1
    then show ?thesis
      by (auto simp: diff_runtimes_def in_keyed_changes subject_value_def intro: runtime_changes_reported)
  next
    case 2
    then show ?thesis using diff_nodes_reported ns by blast
  next
    case 3
    then show ?thesis by (auto simp: diff_edges_def in_keyed_changes in_modified_if subject_value_def)
  next
    case 4
    then show ?thesis
      by (auto simp: diff_public_ingresses_def Let_def in_keyed_changes in_modified_if subject_value_def)
  qed
qed

section \<open>The same graph\<close>

text \<open>Equality of graphs up to the order of their dictionaries, as the code compares their values.\<close>

definition same_runtime :: "runtime_record \<Rightarrow> runtime_record \<Rightarrow> bool" where
  "same_runtime b a \<longleftrightarrow> runtime_kind_of b = runtime_kind_of a \<and> runtime_children b = runtime_children a \<and>
     runtime_authority b = runtime_authority a \<and> same_mapping (runtime_metadata b) (runtime_metadata a) \<and>
     runtime_lifecycle b = runtime_lifecycle a"

definition same_node :: "graph_node \<Rightarrow> graph_node \<Rightarrow> bool" where
  "same_node b a \<longleftrightarrow> node_family b = node_family a \<and> node_kind b = node_kind a \<and>
     node_runtime b = node_runtime a \<and> same_spec (node_spec b) (node_spec a) \<and>
     node_sockets b = node_sockets a \<and> map_of (node_endpoints b) = map_of (node_endpoints a) \<and>
     node_public b = node_public a \<and> node_derived b = node_derived a \<and>
     same_value (node_metadata b) (node_metadata a) \<and>
     map artifact_key (node_artifacts b) = map artifact_key (node_artifacts a) \<and>
     node_deliveries b = node_deliveries a \<and> node_projection b = node_projection a \<and>
     node_lifecycle b = node_lifecycle a"

definition same_graph :: "deployment_graph \<Rightarrow> deployment_graph \<Rightarrow> bool" where
  "same_graph b a \<longleftrightarrow> graph_name b = graph_name a \<and>
     (\<forall>i. rel_option same_runtime (map_of (graph_runtimes b) i) (map_of (graph_runtimes a) i)) \<and>
     (\<forall>i. rel_option same_node (map_of (graph_nodes b) i) (map_of (graph_nodes a) i)) \<and>
     (\<forall>i. rel_option same_edge (map_of (graph_edges b) i) (map_of (graph_edges a) i)) \<and>
     map_of (ingress_entries b) = map_of (ingress_entries a) \<and>
     graph_authorities b = graph_authorities a"

lemma runtime_changes_Nil: "runtime_changes i b a = [] \<longleftrightarrow> same_runtime b a"
  by (auto simp: runtime_changes_def Let_def modified_if_Nil same_runtime_def)

lemma keyed_equal:
  "(\<forall>k. rel_option (\<lambda>v w. modified_if (v \<noteq> w) (at k) (f v) (f w) = []) (map_of b k) (map_of a k)) \<longleftrightarrow>
     map_of b = map_of a"
proof -
  have "rel_option (\<lambda>v w. modified_if (v \<noteq> w) s (f v) (f w) = []) x y \<longleftrightarrow> x = y" for s x y
    by (cases x; cases y) (auto simp: modified_if_Nil)
  then show ?thesis by (simp add: fun_eq_iff)
qed

lemma endpoint_changes_Nil: "endpoint_changes i b a = [] \<longleftrightarrow> map_of (node_endpoints b) = map_of (node_endpoints a)"
  by (simp add: endpoint_changes_def Let_def keyed_changes_Nil keyed_equal)

lemma node_changes_Nil: "node_changes codec i b a = [] \<longleftrightarrow> same_node b a"
  by (auto simp: node_changes_def placement_changes_def spec_changes_def content_changes_def Let_def
      modified_if_Nil endpoint_changes_Nil same_node_def)

lemma raw_changes_Nil:
  assumes "raw_changes codec cur des = Inr cs"
  shows "cs = [] \<longleftrightarrow> same_graph cur des"
proof -
  obtain ns where ns: "diff_nodes codec cur des = Inr ns"
    and cs: "cs = modified_if (graph_name cur \<noteq> graph_name des) (FieldSubject GraphSubject GRAPH_NAME None)
        (TextValue (graph_name cur)) (TextValue (graph_name des)) @ diff_runtimes cur des @
      ns @ diff_edges cur des @ diff_public_ingresses cur des @ diff_authorities cur des"
    using assms by (auto simp: raw_changes_def bindR_Inr_iff)
  have "ns = [] \<longleftrightarrow> map Inr ns = ([] :: (topology_exn + structural_change) list)" by simp
  then have nodes: "ns = [] \<longleftrightarrow>
      (\<forall>i. rel_option same_node (map_of (graph_nodes cur) i) (map_of (graph_nodes des) i))"
    unfolding ns [unfolded diff_nodes_Inr, symmetric] by (simp add: keyed_changes_Nil node_changes_Nil)
  have runtimes: "diff_runtimes cur des = [] \<longleftrightarrow>
      (\<forall>i. rel_option same_runtime (map_of (graph_runtimes cur) i) (map_of (graph_runtimes des) i))"
    by (simp add: diff_runtimes_def keyed_changes_Nil runtime_changes_Nil)
  have edges: "diff_edges cur des = [] \<longleftrightarrow>
      (\<forall>i. rel_option same_edge (map_of (graph_edges cur) i) (map_of (graph_edges des) i))"
    by (simp add: diff_edges_def keyed_changes_Nil modified_if_Nil)
  have ingresses: "diff_public_ingresses cur des = [] \<longleftrightarrow>
      map_of (ingress_entries cur) = map_of (ingress_entries des)"
    by (simp add: diff_public_ingresses_def Let_def keyed_changes_Nil keyed_equal)
  show ?thesis
    by (auto simp: cs nodes runtimes edges ingresses diff_authorities_def modified_if_Nil same_graph_def)
qed

lemma sort_key_empty: "sort_key f xs = [] \<longleftrightarrow> xs = []" "[] = sort_key f xs \<longleftrightarrow> xs = []"
  by (metis length_0_conv length_sort)+

lemma diff_graphs_Inr:
  "diff_graphs digest cur des = Inr d \<longleftrightarrow> graph_is_valid cur \<and> graph_is_valid des \<and>
     diff_current d = graph_name (validated_value cur) \<and> diff_desired d = graph_name (validated_value des) \<and>
     (if supports_same_block_specs (validated_codec cur) (validated_codec des)
      then \<exists>cs. raw_changes (validated_codec cur) (validated_value cur) (validated_value des) = Inr cs \<and>
        diff_changes d = sort_key (change_key digest) cs
      else diff_changes d = [AmbiguousChange (OwnerSubject GraphSubject) BlockSpecLanguageMismatch None None])"
  by (cases d) (auto simp: diff_graphs_def require_valid_def bindR_Inr_iff)

lemma diff_empty_iff:
  assumes "diff_graphs digest cur des = Inr d"
  shows "diff_empty d \<longleftrightarrow> supports_same_block_specs (validated_codec cur) (validated_codec des) \<and>
    same_graph (validated_value cur) (validated_value des)"
  using assms by (auto simp: diff_graphs_Inr diff_empty_def sort_key_empty raw_changes_Nil split: if_splits)

lemma diff_changes_reported:
  assumes "diff_graphs digest cur des = Inr d"
    and "supports_same_block_specs (validated_codec cur) (validated_codec des)" and "c \<in> set (diff_changes d)"
  shows "reported (validated_codec cur) (validated_value cur) (validated_value des) c"
  using assms by (auto simp: diff_graphs_Inr intro: raw_changes_reported)

section \<open>The order of the dictionaries\<close>

lemma entries_at_order:
  assumes "map_of d = map_of d'" and "mset ks = mset ks'"
  shows "entries_at d f ks = entries_at d' f ks'"
proof -
  have "sort ks = sort ks'" using assms(2) by (metis properties_for_sort mset_sort sorted_sort)
  then show ?thesis by (simp add: entries_at_def assms(1))
qed

lemma reordered_dict:
  assumes "mset d = mset d'" and "distinct (map fst d)"
  shows "map_of d = map_of d'" and "fst ` set d = fst ` set d'"
    and "mset (filter P (map fst d)) = mset (filter P (map fst d'))"
proof -
  have keys: "mset (map fst d) = mset (map fst d')" using assms(1) by (metis mset_map)
  then have "distinct (map fst d')" using assms(2) by (metis mset_eq_imp_distinct_iff)
  then show "map_of d = map_of d'" using assms mset_eq_setD [OF assms(1)] by (metis map_of_inject_set)
  show "fst ` set d = fst ` set d'" using mset_eq_setD [OF assms(1)] by simp
  show "mset (filter P (map fst d)) = mset (filter P (map fst d'))" using keys by (metis mset_filter)
qed

lemma keyed_changes_order:
  assumes "mset b = mset b'" "mset a = mset a'" and "distinct (map fst b)" "distinct (map fst a)"
  shows "keyed_changes added removed common b a = keyed_changes added removed common b' a'"
proof -
  note b = reordered_dict [OF assms(1,3)] and a = reordered_dict [OF assms(2,4)]
  show ?thesis unfolding keyed_changes_def b(1,2) a(1,2)
    by (intro arg_cong2 [where f = append] entries_at_order a(1,3) b(1,3) refl)
qed

definition reordered :: "deployment_graph \<Rightarrow> deployment_graph \<Rightarrow> bool" where
  "reordered g h \<longleftrightarrow> graph_name g = graph_name h \<and> mset (graph_nodes g) = mset (graph_nodes h) \<and>
     mset (graph_edges g) = mset (graph_edges h) \<and> mset (graph_runtimes g) = mset (graph_runtimes h) \<and>
     graph_ingresses g = graph_ingresses h \<and> graph_authorities g = graph_authorities h"

definition proper_dicts :: "deployment_graph \<Rightarrow> bool" where
  "proper_dicts g \<longleftrightarrow> distinct (map fst (graph_nodes g)) \<and> distinct (map fst (graph_edges g)) \<and>
     distinct (map fst (graph_runtimes g)) \<and> distinct (map fst (ingress_entries g)) \<and>
     (\<forall>n\<in>snd ` set (graph_nodes g). distinct (map fst (node_endpoints n)))"

lemma raw_changes_order:
  assumes "reordered cur cur'" "reordered des des'" and "proper_dicts cur" "proper_dicts des"
  shows "raw_changes codec cur des = raw_changes codec cur' des'"
proof -
  note r = assms(1,2) [unfolded reordered_def] and p = assms(3,4) [unfolded proper_dicts_def]
  have "ingress_entries cur = ingress_entries cur'" "ingress_entries des = ingress_entries des'"
    using r by (simp_all add: ingress_entries_def)
  then have "diff_nodes codec cur des = diff_nodes codec cur' des'" "diff_runtimes cur des = diff_runtimes cur' des'"
    "diff_edges cur des = diff_edges cur' des'" "diff_public_ingresses cur des = diff_public_ingresses cur' des'"
    "diff_authorities cur des = diff_authorities cur' des'"
    using r p unfolding diff_nodes_def diff_runtimes_def diff_edges_def diff_public_ingresses_def Let_def
      diff_authorities_def
    by (simp_all add: keyed_changes_order [of _ "graph_nodes cur'" _ "graph_nodes des'"]
      keyed_changes_order [of _ "graph_runtimes cur'" _ "graph_runtimes des'"]
      keyed_changes_order [of _ "graph_edges cur'" _ "graph_edges des'"])
  then show ?thesis using r by (simp add: raw_changes_def)
qed

end
