(* ===== verification/Diff_Mirror.thy ===== *)
theory Diff_Mirror
  imports Diff_Laws
begin

text \<open>
  The difference of the swapped graphs is the mirror image of the difference: what was added is removed,
  and before and after change places.
\<close>

primrec mirror :: "structural_change \<Rightarrow> structural_change" where
  "mirror (AddedChange s a) = RemovedChange s a"
| "mirror (RemovedChange s b) = AddedChange s b"
| "mirror (ModifiedChange s b a) = ModifiedChange s a b"
| "mirror (UnsupportedChange s b a r) = UnsupportedChange s a b r"
| "mirror (AmbiguousChange s r b a) = AmbiguousChange s r a b"

lemma mirror_mirror: "mirror (mirror c) = c"
  by (cases c) simp_all

section \<open>Keyed comparison\<close>

lemma entries_at_mset: "image_mset M (mset (entries_at d f ks)) = mset (entries_at d (\<lambda>k v. map M (f k v)) ks)"
proof -
  have "map M (case map_of d k of None \<Rightarrow> [] | Some v \<Rightarrow> f k v) =
      (case map_of d k of None \<Rightarrow> [] | Some v \<Rightarrow> map M (f k v))" for k
    by (cases "map_of d k") simp_all
  then show ?thesis by (simp add: entries_at_def map_concat comp_def flip: mset_map)
qed

lemma mset_concat_cong:
  assumes "\<And>k. k \<in> set ks \<Longrightarrow> mset (f k) = image_mset M (mset (g k))"
  shows "mset (concat (map f ks)) = image_mset M (mset (concat (map g ks)))"
  using assms by (induction ks) simp_all

lemma common_keys:
  fixes b :: "(string \<times> 'a) list" and a :: "(string \<times> 'b) list"
  assumes "distinct (map fst b)" and "distinct (map fst a)"
  shows "sort (filter (\<lambda>k. k \<in> fst ` set a) (map fst b)) = sort (filter (\<lambda>k. k \<in> fst ` set b) (map fst a))"
  by (rule sorted_distinct_set_unique) (use assms in auto)

lemma keyed_mirror:
  fixes b a :: "(string \<times> 'a) list"
  assumes "distinct (map fst b)" and "distinct (map fst a)"
    and added: "\<And>k v. map M (added k v) = removed k v" and removed: "\<And>k v. map M (removed k v) = added k v"
    and common: "\<And>k v w. map_of b k = Some v \<Longrightarrow> map_of a k = Some w \<Longrightarrow>
      mset (common k w v) = image_mset M (mset (common k v w))"
  shows "mset (keyed_changes added removed common a b) =
    image_mset M (mset (keyed_changes added removed common b a))"
proof -
  let ?both = "\<lambda>d e. entries_at d (\<lambda>k v. case map_of e k of None \<Rightarrow> [] | Some w \<Rightarrow> common k v w)
     (filter (\<lambda>k. k \<in> fst ` set e) (map fst d))"
  have "mset (?both a b) = image_mset M (mset (?both b a))"
    unfolding entries_at_def common_keys [OF assms(1,2), symmetric]
  proof (rule mset_concat_cong)
    fix k assume "k \<in> set (sort (filter (\<lambda>k. k \<in> fst ` set a) (map fst b)))"
    then obtain v w where "map_of b k = Some v" "map_of a k = Some w"
      using key_known [of k b] key_known [of k a] by auto
    with common show "mset (case map_of a k of None \<Rightarrow> [] | Some v \<Rightarrow>
          case map_of b k of None \<Rightarrow> [] | Some w \<Rightarrow> common k v w) =
        image_mset M (mset (case map_of b k of None \<Rightarrow> [] | Some v \<Rightarrow>
          case map_of a k of None \<Rightarrow> [] | Some w \<Rightarrow> common k v w))" by simp
  qed
  then show ?thesis
    by (simp add: keyed_changes_def entries_at_mset added removed del: mset_map)
qed

lemma modified_mirror:
  "modified_if x s a b = map mirror (modified_if x s b a)"
  by (simp add: modified_if_def)

section \<open>Elements of the graph\<close>

lemma runtime_changes_mirror: "runtime_changes i a b = map mirror (runtime_changes i b a)"
  by (auto simp: runtime_changes_def Let_def modified_if_def same_mapping_def)

lemma endpoint_changes_mirror:
  assumes "distinct (map fst (node_endpoints b))" and "distinct (map fst (node_endpoints a))"
  shows "mset (endpoint_changes i a b) = image_mset mirror (mset (endpoint_changes i b a))"
  unfolding endpoint_changes_def Let_def
  by (rule keyed_mirror) (use assms in \<open>auto simp: modified_if_def\<close>)

lemma content_changes_mirror:
  assumes "distinct (map fst (node_endpoints b))" and "distinct (map fst (node_endpoints a))"
  shows "mset (content_changes i a b) = image_mset mirror (mset (content_changes i b a))"
  by (simp add: content_changes_def Let_def endpoint_changes_mirror [OF assms] modified_if_def
      same_value_def eq_commute)

lemma placement_changes_mirror: "placement_changes i a b = map mirror (placement_changes i b a)"
  by (auto simp: placement_changes_def Let_def modified_if_def)

text \<open>On a result, the mirror of the change it holds.\<close>

abbreviation mirror_result :: "topology_exn + structural_change \<Rightarrow> topology_exn + structural_change" where
  "mirror_result \<equiv> map_sum (\<lambda>x. x) mirror"

lemma same_spec_sym: "same_spec a b = same_spec b a"
  by (auto simp: same_spec_def same_mapping_def)

lemma spec_changes_mirror:
  assumes "\<And>x. Inl x \<notin> set (spec_changes codec i b a)"
  shows "spec_changes codec i a b = map mirror_result (spec_changes codec i b a)"
proof (cases "same_spec (node_spec b) (node_spec a)")
  case False
  obtain v w where "encoded_spec codec (node_spec b) = Inr v" "encoded_spec codec (node_spec a) = Inr w"
    using assms False by (cases "encoded_spec codec (node_spec b)"; cases "encoded_spec codec (node_spec a)")
      (auto simp: spec_changes_def)
  with False show ?thesis by (simp add: spec_changes_def same_spec_sym [of "node_spec a"])
qed (simp add: spec_changes_def same_spec_sym [of "node_spec a"])

lemma node_changes_mirror:
  assumes "distinct (map fst (node_endpoints b))" and "distinct (map fst (node_endpoints a))"
    and "\<And>x. Inl x \<notin> set (node_changes codec i b a)"
  shows "mset (node_changes codec i a b) = image_mset mirror_result (mset (node_changes codec i b a))"
proof (cases "node_family b = node_family a")
  case True
  then have "spec_changes codec i a b = map mirror_result (spec_changes codec i b a)"
    using assms(3) by (intro spec_changes_mirror) (auto simp: node_changes_def)
  moreover have "image_mset Inr (image_mset mirror M) = image_mset mirror_result (image_mset Inr M)" for M
    by (simp add: image_mset.compositionality comp_def)
  ultimately show ?thesis using True
    by (simp add: node_changes_def placement_changes_mirror [of i a b] content_changes_mirror [OF assms(1,2)]
        image_mset.compositionality comp_def)
next
  case False
  obtain v w where "encoded_node codec b = Inr v" "encoded_node codec a = Inr w"
    using assms(3) False by (cases "encoded_node codec b"; cases "encoded_node codec a")
      (auto simp: node_changes_def)
  with False show ?thesis by (auto simp: node_changes_def)
qed

section \<open>Graphs\<close>

lemma all_Inr: "(\<forall>x. Inl x \<notin> set rs) \<longleftrightarrow> (\<exists>ys. rs = map Inr ys)"
proof
  assume "\<forall>x. Inl x \<notin> set rs"
  then show "\<exists>ys. rs = map Inr ys"
  proof (induction rs)
    case (Cons r rs)
    then obtain ys where "rs = map Inr ys" by auto
    moreover obtain y where "r = Inr y" using Cons.prems by (cases r) auto
    ultimately show ?case by (intro exI [of _ "y # ys"]) simp
  qed simp
qed auto

lemma encoded_mirror: "map_sum (\<lambda>x. x) mirror (bindR (encoded_node codec n) (\<lambda>v. Inr (f v))) =
    bindR (encoded_node codec n) (\<lambda>v. Inr (mirror (f v)))"
  by (cases "encoded_node codec n") simp_all

lemma diff_nodes_mirror:
  assumes "proper_dicts cur" "proper_dicts des" and "diff_nodes codec cur des = Inr ns"
  shows "\<exists>ms. diff_nodes codec des cur = Inr ms \<and> mset ms = image_mset mirror (mset ns)"
proof -
  let ?diff = "\<lambda>b a. keyed_changes
     (\<lambda>i n. [bindR (encoded_node codec n) (\<lambda>v. Inr (AddedChange (OwnerSubject (NodeSubject i)) v))])
     (\<lambda>i n. [bindR (encoded_node codec n) (\<lambda>v. Inr (RemovedChange (OwnerSubject (NodeSubject i)) v))])
     (node_changes codec) (graph_nodes b) (graph_nodes a)"
  have ns: "?diff cur des = map Inr ns" using assms(3) by (simp add: diff_nodes_Inr)
  have "mset (?diff des cur) = image_mset mirror_result (mset (?diff cur des))"
  proof (rule keyed_mirror)
    fix i b a assume at: "map_of (graph_nodes cur) i = Some b" "map_of (graph_nodes des) i = Some a"
    then have "set (node_changes codec i b a) \<subseteq> set (?diff cur des)" unfolding in_keyed_changes [abs_def] by (auto simp: in_keyed_changes)
    then have "Inl x \<notin> set (node_changes codec i b a)" for x using ns by auto
    moreover have "distinct (map fst (node_endpoints b))" "distinct (map fst (node_endpoints a))"
      using assms(1,2) at by (auto simp: proper_dicts_def dest!: map_of_SomeD)
    ultimately show "mset (node_changes codec i a b) = image_mset mirror_result (mset (node_changes codec i b a))"
      by (intro node_changes_mirror)
  qed (use assms(1,2) in \<open>auto simp: proper_dicts_def encoded_mirror\<close>)
  then have m: "mset (?diff des cur) = image_mset Inr (image_mset mirror (mset ns))"
    by (simp add: ns image_mset.compositionality comp_def)
  then have "Inl x \<notin> set (?diff des cur)" for x
    by (metis (no_types, lifting) image_iff set_image_mset set_mset_mset sum.distinct(1))
  then obtain ms where "?diff des cur = map Inr ms" using all_Inr by blast
  moreover have "mset ms = image_mset mirror (mset ns)"
    using arg_cong [OF m, of "image_mset projr"]
    by (simp add: calculation image_mset.compositionality comp_def)
  ultimately show ?thesis by (auto simp: diff_nodes_Inr)
qed

lemma raw_changes_mirror:
  assumes "proper_dicts cur" "proper_dicts des" and "raw_changes codec cur des = Inr cs"
  shows "\<exists>ds. raw_changes codec des cur = Inr ds \<and> mset ds = image_mset mirror (mset cs)"
proof -
  obtain ns where ns: "diff_nodes codec cur des = Inr ns"
    and cs: "cs = modified_if (graph_name cur \<noteq> graph_name des) (FieldSubject GraphSubject GRAPH_NAME None)
        (TextValue (graph_name cur)) (TextValue (graph_name des)) @ diff_runtimes cur des @
      ns @ diff_edges cur des @ diff_public_ingresses cur des @ diff_authorities cur des"
    using assms(3) by (auto simp: raw_changes_def bindR_Inr_iff)
  obtain ms where ms: "diff_nodes codec des cur = Inr ms" "mset ms = image_mset mirror (mset ns)"
    using diff_nodes_mirror [OF assms(1,2) ns] by blast
  note d = assms(1,2) [unfolded proper_dicts_def]
  have "mset (diff_runtimes des cur) = image_mset mirror (mset (diff_runtimes cur des))"
    unfolding diff_runtimes_def
    by (rule keyed_mirror) (use d in \<open>auto simp: runtime_changes_mirror [symmetric] simp flip: mset_map\<close>)
  moreover have "mset (diff_edges des cur) = image_mset mirror (mset (diff_edges cur des))"
    unfolding diff_edges_def
    by (rule keyed_mirror) (use d in \<open>auto simp: modified_if_def same_edge_def same_mapping_def\<close>)
  moreover have "mset (diff_public_ingresses des cur) = image_mset mirror (mset (diff_public_ingresses cur des))"
    unfolding diff_public_ingresses_def Let_def
    by (rule keyed_mirror) (use d in \<open>auto simp: modified_if_def\<close>)
  ultimately show ?thesis
    by (simp add: raw_changes_def ms cs diff_authorities_def modified_if_def eq_commute)
qed

lemma diff_graphs_mirror:
  assumes "proper_dicts (validated_value cur)" "proper_dicts (validated_value des)"
    and "validated_codec cur = validated_codec des" and "diff_graphs digest cur des = Inr d"
  shows "\<exists>d'. diff_graphs digest des cur = Inr d' \<and>
    mset (diff_changes d') = image_mset mirror (mset (diff_changes d))"
proof -
  obtain cs where cs: "raw_changes (validated_codec cur) (validated_value cur) (validated_value des) = Inr cs"
      "diff_changes d = sort_key (change_key digest) cs" and valid: "graph_is_valid cur" "graph_is_valid des"
    using assms(3,4) by (auto simp: diff_graphs_Inr supports_same_block_specs_def split: if_splits)
  obtain ds where ds: "raw_changes (validated_codec cur) (validated_value des) (validated_value cur) = Inr ds"
      "mset ds = image_mset mirror (mset cs)"
    using raw_changes_mirror [OF assms(1,2) cs(1)] by blast
  then have "diff_graphs digest des cur = Inr \<lparr>diff_current = graph_name (validated_value des),
      diff_desired = graph_name (validated_value cur), diff_changes = sort_key (change_key digest) ds\<rparr>"
    using valid assms(3) by (simp add: diff_graphs_Inr supports_same_block_specs_def)
  with ds(2) cs(2) show ?thesis by simp
qed

end

