(* ===== verification/Validation_Laws.thy ===== *)
theory Validation_Laws
  imports Graph_Validation
begin

text \<open>
  What a valid graph is, declaratively: a specification of sound runtimes, edges and nodes, and the
  proof that the findings of the validation are errors exactly when it is violated.
\<close>

section \<open>Sound graphs\<close>

text \<open>\<open>item \<in> set d\<close> as a binding of a dictionary.\<close>

definition sound_edge :: "deployment_graph \<Rightarrow> string \<Rightarrow> graph_edge \<Rightarrow> bool" where
  "sound_edge g i e \<longleftrightarrow> (\<exists>pn cn p r.
     find_node g (edge_provider e) = Inr pn \<and> find_node g (edge_consumer e) = Inr cn \<and>
     find_provider (node_sockets pn) (edge_provider_socket e) = Inr p \<and>
     find_requirement (node_sockets cn) (edge_requirement e) = Inr r \<and>
     edge_provider e \<noteq> edge_consumer e \<and>
     provider_protocol p = edge_protocol e \<and> requirement_protocol r = edge_protocol e \<and>
     requirement_binding r = edge_binding e \<and>
     fst ` set (edge_assignments e) = set (env_bindings r) \<and>
     (\<forall>x n v. map_of (node_endpoints pn) (provider_name p) = Some x \<longrightarrow> (n, v) \<in> set (edge_assignments e) \<longrightarrow>
        v = endpoint_url x) \<and>
     (\<forall>n v. (n, v) \<in> set (edge_assignments e) \<longrightarrow> socket_values cn n = Some v) \<and>
     (\<forall>b\<in>set (node_derived cn). derived_name b \<in> fst ` set (edge_assignments e) \<longrightarrow> derived_edge b = i))"

definition sound_environment :: "deployment_graph \<Rightarrow> string \<Rightarrow> graph_node \<Rightarrow> bool" where
  "sound_environment g i n \<longleftrightarrow> (\<forall>b\<in>set (node_derived n). \<exists>e. map_of (graph_edges g) (derived_edge b) = Some e \<and>
     edge_consumer e = i \<and> map_of (edge_assignments e) (derived_name b) = Some (derived_value b))"

text \<open>A node is a child, once, of its own runtime and of no other.\<close>

definition sound_membership :: "deployment_graph \<Rightarrow> string \<Rightarrow> graph_node \<Rightarrow> bool" where
  "sound_membership g i n \<longleftrightarrow> node_runtime n \<in> fst ` set (graph_runtimes g) \<and>
     (\<forall>(j, r)\<in>set (graph_runtimes g). count_list (runtime_children r) i = (if j = node_runtime n then 1 else 0))"

definition sound_sockets :: "graph_node \<Rightarrow> bool" where
  "sound_sockets n \<longleftrightarrow> distinct (provider_names (node_sockets n)) \<and> distinct (requirement_names (node_sockets n)) \<and>
     fst ` set (node_endpoints n) \<subseteq> set (provider_names (node_sockets n)) \<and>
     (\<forall>p\<in>set (providers (node_sockets n)). \<exists>x. map_of (node_endpoints n) (provider_name p) = Some x \<and>
        endpoint_protocol x = provider_protocol p)"

definition edges_into :: "deployment_graph \<Rightarrow> string \<Rightarrow> string \<Rightarrow> nat" where
  "edges_into g i k = length (filter (\<lambda>(j, e). edge_consumer e = i \<and> edge_requirement e = k) (graph_edges g))"

definition sound_connections :: "deployment_graph \<Rightarrow> string \<Rightarrow> graph_node \<Rightarrow> bool" where
  "sound_connections g i n \<longleftrightarrow> (\<forall>r\<in>set (requirements (node_sockets n)).
     edges_into g i (requirement_name r) \<le> 1 \<and> (is_required r \<longrightarrow> edges_into g i (requirement_name r) = 1))"

definition sound_contracts :: "graph_node \<Rightarrow> bool" where
  "sound_contracts n \<longleftrightarrow>
     (\<forall>s\<in>set (spec_surfaces (node_spec n)). \<exists>p. find_provider (node_sockets n) (surface_socket s) = Inr p \<and>
        provider_protocol p = proto TCP HTTP) \<and>
     (\<forall>c\<in>set (spec_checks (node_spec n)). \<exists>p. find_provider (node_sockets n) (check_socket c) = Inr p \<and>
        provider_protocol p \<in> set (expected_protocols (check_variant c)))"

definition sound_graph :: "deployment_graph \<Rightarrow> bool" where
  "sound_graph g \<longleftrightarrow>
     (\<forall>(i, r)\<in>set (graph_runtimes g). set (runtime_children r) \<subseteq> fst ` set (graph_nodes g)) \<and>
     (\<forall>(i, e)\<in>set (graph_edges g). sound_edge g i e) \<and>
     (\<forall>(i, n)\<in>set (graph_nodes g). sound_environment g i n \<and> sound_membership g i n \<and> sound_sockets n \<and>
        sound_connections g i n \<and> sound_contracts n)"

section \<open>Findings that are errors\<close>

definition error_free :: "validation_finding list \<Rightarrow> bool" where
  "error_free fs \<longleftrightarrow> (\<forall>f\<in>set fs. finding_severity f \<noteq> SeverityError)"

lemma error_free_simps [simp]:
  "error_free []" "error_free (f # fs) \<longleftrightarrow> finding_severity f \<noteq> SeverityError \<and> error_free fs"
  "error_free (fs @ gs) \<longleftrightarrow> error_free fs \<and> error_free gs"
  "error_free (concat (map found xs)) \<longleftrightarrow> (\<forall>x\<in>set xs. error_free (found x))"
  "error_free (sort_key k fs) \<longleftrightarrow> error_free fs"
  by (auto simp: error_free_def)

lemma error_finding_severity [simp]: "finding_severity (error_finding c s m) = SeverityError"
  by (simp add: error_finding_def)

lemma finding_if_free [simp]: "error_free (finding_if b c s m) \<longleftrightarrow> \<not> b"
  by (simp add: finding_if_def)

lemma map_error_free [simp]: "error_free (map (\<lambda>x. error_finding (c x) (s x) (m x)) xs) \<longleftrightarrow> xs = []"
  by (cases xs) simp_all

lemma runtime_free: "error_free (runtime_findings g (i, r)) \<longleftrightarrow> set (runtime_children r) \<subseteq> fst ` set (graph_nodes g)"
  by (auto simp: runtime_findings_def filter_empty_conv)

lemma edge_members_Inr:
  "edge_members g e = Inr (pn, cn, p, r) \<longleftrightarrow> find_node g (edge_provider e) = Inr pn \<and>
     find_node g (edge_consumer e) = Inr cn \<and> find_provider (node_sockets pn) (edge_provider_socket e) = Inr p \<and>
     find_requirement (node_sockets cn) (edge_requirement e) = Inr r"
  by (auto simp: edge_members_def bindR_Inr_iff)

lemma edge_free: "error_free (edge_findings g (i, e)) \<longleftrightarrow> sound_edge g i e"
proof (cases "edge_members g e")
  case (Inl x)
  have "\<not> sound_edge g i e"
  proof
    assume "sound_edge g i e"
    then obtain pn cn p r where "edge_members g e = Inr (pn, cn, p, r)"
      unfolding sound_edge_def edge_members_Inr by blast
    with Inl show False by simp
  qed
  with Inl show ?thesis by (simp add: edge_findings_def)
next
  case (Inr m)
  obtain pn cn p r where m: "m = (pn, cn, p, r)" by (cases m) auto
  note members = Inr [unfolded m edge_members_Inr]
  show ?thesis using Inr members unfolding m sound_edge_def
    by (simp add: edge_findings_def list_ex_iff Ball_def split: option.split) blast
qed

lemma environment_free: "error_free (environment_findings g i n) \<longleftrightarrow> sound_environment g i n"
  by (auto simp: environment_findings_def sound_environment_def split: option.splits)

lemma repeated_empty: "repeated_names xs = [] \<longleftrightarrow> distinct xs"
proof -
  have "repeated_names xs = [] \<longleftrightarrow> set (repeated_names xs) = {}" by simp
  also have "\<dots> \<longleftrightarrow> (\<forall>x\<in>set xs. count_list xs x \<le> 1)"
    by (auto simp: repeated_names_def count_list_eq_length_filter eq_commute not_less)
  also have "\<dots> \<longleftrightarrow> distinct xs"
  proof
    assume "\<forall>x\<in>set xs. count_list xs x \<le> 1"
    then show "distinct xs" by (induction xs) (auto simp: count_list_0_iff split: if_splits)
  qed (induction xs; force simp: count_list_0_iff)
  finally show ?thesis .
qed

text \<open>The owners of a node, one entry for each time a runtime names it.\<close>

lemma concat_replicate_one:
  assumes "distinct (map fst xs)"
  shows "concat (map (\<lambda>(j, k). replicate k j) xs) = [t] \<longleftrightarrow>
    t \<in> fst ` set xs \<and> (\<forall>(j, k)\<in>set xs. k = (if j = t then 1 else (0 :: nat)))"
  using assms
proof (induction xs)
  case (Cons x xs)
  obtain j k where x: "x = (j, k)" by force
  have fresh: "j \<notin> fst ` set xs" using Cons.prems x by simp
  have none: "concat (map (\<lambda>(j, k). replicate k j) xs) = [] \<longleftrightarrow> (\<forall>(j, k)\<in>set xs. k = 0)" by auto
  consider "k = 0" | "k = 1" | m where "k = Suc (Suc m)" by (metis One_nat_def not0_implies_Suc)
  then show ?case
  proof cases
    case 1
    then show ?thesis using Cons.IH Cons.prems by (auto simp: x)
  next
    case 2
    have "concat (map (\<lambda>(j, k). replicate k j) (x # xs)) = [t] \<longleftrightarrow> j = t \<and> (\<forall>(j, k)\<in>set xs. k = 0)"
      using none 2 by (auto simp: x)
    moreover have "(case y of (j', k') \<Rightarrow> k' = (if j' = j then 1 else 0)) = (case y of (j', k') \<Rightarrow> k' = 0)"
      if "y \<in> set xs" for y
    proof -
      have "fst y \<noteq> j" using that fresh by (metis imageI)
      then show ?thesis by (simp add: case_prod_unfold)
    qed
    ultimately show ?thesis using 2 by (cases "j = t") (simp_all add: x cong: ball_cong)
  next
    case (3 m)
    then show ?thesis by (auto simp: x)
  qed
qed simp

lemma owners_counted: "map (\<lambda>c. j) (filter (\<lambda>c. c = i) cs) = replicate (count_list cs i) j"
  by (induction cs) auto

lemma node_owners_counted:
  "node_owners g i = concat (map (\<lambda>(j, k). replicate k j)
     (map (\<lambda>(j, r). (j, count_list (runtime_children r) i)) (sort_key fst (graph_runtimes g))))"
  by (simp add: node_owners_def owners_counted comp_def case_prod_unfold)

lemma membership_free:
  assumes "distinct (map fst (graph_runtimes g))"
  shows "error_free (membership_findings g i n) \<longleftrightarrow> sound_membership g i n"
proof -
  let ?xs = "map (\<lambda>(j, r). (j, count_list (runtime_children r) i)) (sort_key fst (graph_runtimes g))"
  have keys: "map fst ?xs = map fst (sort_key fst (graph_runtimes g))" by (simp add: comp_def split_beta)
  have "distinct (map fst ?xs)"
    unfolding keys using assms by (metis mset_eq_imp_distinct_iff mset_map mset_sort)
  from concat_replicate_one [OF this, of "node_runtime n"]
  have owners: "node_owners g i = [node_runtime n] \<longleftrightarrow> node_runtime n \<in> fst ` set ?xs \<and>
      (\<forall>(j, k)\<in>set ?xs. k = (if j = node_runtime n then 1 else 0))"
    by (simp only: node_owners_counted)
  have "fst ` set ?xs = fst ` set (graph_runtimes g)" by (simp add: image_image case_prod_unfold)
  moreover have "(\<forall>(j, k)\<in>set ?xs. k = (if j = node_runtime n then 1 else 0)) \<longleftrightarrow>
      (\<forall>(j, r)\<in>set (graph_runtimes g). count_list (runtime_children r) i = (if j = node_runtime n then 1 else 0))"
    by (simp add: case_prod_unfold)
  ultimately have "node_owners g i = [node_runtime n] \<longleftrightarrow> node_runtime n \<in> fst ` set (graph_runtimes g) \<and>
      (\<forall>(j, r)\<in>set (graph_runtimes g). count_list (runtime_children r) i = (if j = node_runtime n then 1 else 0))"
    by (simp only: owners)
  then show ?thesis by (auto simp: membership_findings_def sound_membership_def)
qed

lemma endpoint_free:
  "error_free (case m of None \<Rightarrow> [error_finding c s t] | Some x \<Rightarrow> finding_if (P x) c' s' t') \<longleftrightarrow>
     (\<exists>x. m = Some x \<and> \<not> P x)"
  by (cases m) simp_all

lemma socket_free: "error_free (socket_findings i n) \<longleftrightarrow> sound_sockets n"
proof -
  have "sort (filter (\<lambda>k. k \<notin> set xs) ks) = [] \<longleftrightarrow> set ks \<subseteq> set xs" for ks xs :: "string list"
    by (auto simp: filter_empty_conv simp flip: set_empty)
  then show ?thesis by (simp add: socket_findings_def sound_sockets_def repeated_empty endpoint_free)
qed

lemma connected_counted: "length (connected_edges g i k) = edges_into g i k"
proof -
  let ?P = "\<lambda>(j, e). edge_consumer e = i \<and> edge_requirement e = k"
  have "mset (filter ?P (sort_key fst (graph_edges g))) = mset (filter ?P (graph_edges g))" by (simp add: mset_filter)
  then have "length (filter ?P (sort_key fst (graph_edges g))) = length (filter ?P (graph_edges g))" by (rule mset_eq_length)
  then show ?thesis by (simp add: connected_edges_def edges_into_def)
qed

lemma connection_free: "error_free (connection_findings g i n) \<longleftrightarrow> sound_connections g i n"
proof -
  have none: "connected_edges g i k = [] \<longleftrightarrow> edges_into g i k = 0" for k using connected_counted [of g i k] by auto
  have each: "error_free (if 1 < edges_into g i k then [error_finding c s m]
      else if edges_into g i k = 0 \<and> b then [error_finding c' s m']
      else if edges_into g i k = 0 then [f] else []) \<longleftrightarrow>
      edges_into g i k \<le> 1 \<and> (b \<longrightarrow> edges_into g i k = 1)"
    if "finding_severity f = SeverityWarning" for k c c' s m m' b f
    using that by auto
  show ?thesis
    unfolding connection_findings_def sound_connections_def Let_def connected_counted none error_free_simps
    by (intro ball_cong refl each) simp
qed

lemma capability_free: "capability_findings i n = []"
  by (auto simp: capability_findings_def route_set_named_total split: option.split)

lemma provider_free:
  "error_free (case find_provider s k of Inl x \<Rightarrow> [error_finding c u m] | Inr p \<Rightarrow> finding_if (P p) c' u' m') \<longleftrightarrow>
     (\<exists>p. find_provider s k = Inr p \<and> \<not> P p)"
  by (cases "find_provider s k") simp_all

lemma contracts_free: "error_free (surface_findings i n) \<and> error_free (check_findings i n) \<longleftrightarrow> sound_contracts n"
  by (simp add: surface_findings_def check_findings_def sound_contracts_def provider_free)

lemma findings_sound:
  assumes "distinct (map fst (graph_runtimes g))"
  shows "error_free (graph_findings g) \<longleftrightarrow> sound_graph g"
proof -
  have "error_free (node_findings g (i, n)) \<longleftrightarrow> sound_environment g i n \<and> sound_membership g i n \<and> sound_sockets n \<and>
      sound_connections g i n \<and> sound_contracts n" for i n
    using contracts_free [of i n] by (simp add: node_findings_def environment_free membership_free [OF assms] socket_free
        connection_free capability_free)
  then show ?thesis
    unfolding graph_findings_def sound_graph_def error_free_simps set_sort
    by (simp add: case_prod_unfold runtime_free [of g "fst x" "snd x" for x, simplified]
        edge_free [of g "fst x" "snd x" for x, simplified] Ball_def)
qed

lemma valid_iff:
  assumes "validate_graph codec g = Inr v" and "distinct (map fst (graph_runtimes g))"
  shows "graph_is_valid v \<longleftrightarrow> sound_graph g \<and> (\<exists>h. bindR (encode_graph codec g) (codec_decode codec) = Inr h)"
proof -
  obtain more where more: "codec_findings codec g = Inr more"
    and v: "validated_findings v = sort_key finding_key (graph_findings g @ more)"
    using assms(1) by (auto simp: validate_graph_def bindR_Inr_iff)
  have "error_free more \<longleftrightarrow> (\<exists>h. bindR (encode_graph codec g) (codec_decode codec) = Inr h)"
    using more by (auto simp: codec_findings_def split: sum.splits if_splits)
  moreover have "graph_is_valid v \<longleftrightarrow> error_free (validated_findings v)"
    by (auto simp: graph_is_valid_def error_free_def list_ex_iff)
  ultimately show ?thesis using findings_sound [OF assms(2)] by (simp add: v)
qed

end
