(* ===== verification/Plan_Compiler.thy ===== *)
theory Plan_Compiler
  imports Plan_Order Graph_Diff
begin

text \<open>
  The compiler from a structural difference to an activity plan, \<open>planning/compiler.py\<close>. A draft is
  shared by the list of drafts and the dictionaries that name it, so a dictionary holds its position
  in the list. The hexadecimal SHA-256 of a text is the parameter \<open>digest\<close>.
\<close>

section \<open>Drafts\<close>

record activity_draft =
  draft_id :: activity_id
  draft_operation :: activity_operation
  draft_risk :: risk_level
  draft_impact :: activity_impact
  draft_dependencies :: "activity_id list"

definition finish_draft :: "activity_draft \<Rightarrow> planned_activity" where
  "finish_draft d = make_activity (draft_id d) (draft_operation d)
     (map ActivityDependency (sort (draft_dependencies d))) (draft_risk d) (draft_impact d)"

definition change_token :: "(string \<Rightarrow> string) \<Rightarrow> structural_change \<Rightarrow> string" where
  "change_token digest c = take 16 (digest (json_text (PDict (change_descriptor digest c))))"

definition changes_token :: "(string \<Rightarrow> string) \<Rightarrow> structural_change list \<Rightarrow> string" where
  "changes_token digest cs =
     take 16 (digest (json_text (PList (map (\<lambda>c. PDict (change_descriptor digest c)) cs))))"

definition token_draft :: "string \<Rightarrow> string \<Rightarrow> activity_operation \<Rightarrow> risk_level \<Rightarrow> activity_impact \<Rightarrow>
    py_exn + activity_draft" where
  "token_draft token label oper r im = bindR (make_activity_id (label @ '':'' @ token)) (\<lambda>i.
     Inr \<lparr>draft_id = i, draft_operation = oper, draft_risk = r, draft_impact = im,
       draft_dependencies = []\<rparr>)"

definition after_draft :: "activity_draft \<Rightarrow> activity_draft \<Rightarrow> activity_draft" where
  "after_draft p d = d\<lparr>draft_dependencies := List.insert (draft_id p) (draft_dependencies d)\<rparr>"

definition review_draft :: "(string \<Rightarrow> string) \<Rightarrow> structural_change \<Rightarrow> review_reason \<Rightarrow>
    py_exn + activity_draft list" where
  "review_draft digest c reason = bindR (token_draft (change_token digest c) ''review-change''
     (ReviewChange (ChangeTarget (change_subject c)) reason) HIGH NON_DESTRUCTIVE) (\<lambda>d. Inr [d])"

section \<open>Activities of one change\<close>

definition one_draft :: "(string \<Rightarrow> string) \<Rightarrow> structural_change \<Rightarrow> string \<Rightarrow> py_exn + 't \<Rightarrow>
    ('t \<Rightarrow> activity_operation) \<Rightarrow> risk_level \<Rightarrow> activity_impact \<Rightarrow> py_exn + activity_draft" where
  "one_draft digest c label target oper r im =
     bindR target (\<lambda>t. token_draft (change_token digest c) label (oper t) r im)"

definition compile_added_node :: "(string \<Rightarrow> string) \<Rightarrow> structural_change \<Rightarrow> string \<Rightarrow> graph_node \<Rightarrow>
    py_exn + activity_draft list" where
  "compile_added_node digest c i n =
     (if lc_ownership (node_lifecycle n) \<noteq> OWNED then Inr []
      else bindR (one_draft digest c ''start-node'' (make_node_target i) StartNode LOW NON_DESTRUCTIVE) (\<lambda>start.
        bindR (one_draft digest c ''wait-healthy'' (make_node_target i) WaitForHealthy MEDIUM NON_DESTRUCTIVE)
          (\<lambda>healthy. Inr [start, after_draft start healthy])))"

definition compile_removed_node :: "(string \<Rightarrow> string) \<Rightarrow> structural_change \<Rightarrow> string \<Rightarrow> graph_node \<Rightarrow>
    py_exn + activity_draft list" where
  "compile_removed_node digest c i n =
     (if lc_ownership (node_lifecycle n) \<noteq> OWNED then Inr []
      else bindR (one_draft digest c ''stop-node'' (make_node_target i) StopNode HIGH DISRUPTIVE) (\<lambda>stop.
        if lc_compute (node_lifecycle n) = RETAINED then Inr [stop]
        else bindR (one_draft digest c ''remove-node-resource'' (make_node_target i) RemoveNodeResource HIGH
          DESTRUCTIVE) (\<lambda>remove. Inr [stop, after_draft stop remove])))"

definition compile_removed_runtime :: "(string \<Rightarrow> string) \<Rightarrow> structural_change \<Rightarrow> string \<Rightarrow> runtime_record \<Rightarrow>
    py_exn + activity_draft list" where
  "compile_removed_runtime digest c i r =
     (if lc_ownership (runtime_lifecycle r) \<noteq> OWNED then Inr []
      else bindR (one_draft digest c ''stop-runtime'' (make_runtime_target i) StopRuntime HIGH DISRUPTIVE) (\<lambda>stop.
        if lc_compute (runtime_lifecycle r) = RETAINED then Inr [stop]
        else bindR (one_draft digest c ''remove-runtime-resource'' (make_runtime_target i)
          RemoveRuntimeResource HIGH DESTRUCTIVE) (\<lambda>remove. Inr [stop, after_draft stop remove])))"

definition compile_added :: "(string \<Rightarrow> string) \<Rightarrow> structural_change \<Rightarrow> diff_subject \<Rightarrow> diff_value \<Rightarrow>
    py_exn + activity_draft list" where
  "compile_added digest c s v = (case (s, v) of
     (OwnerSubject (RuntimeSubject i), RuntimeValue r) \<Rightarrow>
       if lc_ownership (runtime_lifecycle r) \<noteq> OWNED then Inr []
       else bindR (one_draft digest c ''start-runtime'' (make_runtime_target i) StartRuntime LOW NON_DESTRUCTIVE)
         (\<lambda>d. Inr [d])
   | (OwnerSubject (NodeSubject i), NodeValue n x) \<Rightarrow> compile_added_node digest c i n
   | (EdgeSubject i, EdgeValue e) \<Rightarrow>
       if edge_binding e = ENVIRONMENT then Inr []
       else bindR (one_draft digest c ''add-connection'' (make_socket_connection_target i) AddSocketConnection
         MEDIUM NON_DESTRUCTIVE) (\<lambda>d. Inr [d])
   | (OwnerSubject (PublicIngressSubject i), PublicIngressValue g) \<Rightarrow>
       bindR (one_draft digest c ''allocate-public-ingress'' (make_public_ingress_target i)
         AllocatePublicIngress MEDIUM NON_DESTRUCTIVE) (\<lambda>d. Inr [d])
   | _ \<Rightarrow> review_draft digest c UNSUPPORTED_CHANGE)"

definition compile_removed :: "(string \<Rightarrow> string) \<Rightarrow> structural_change \<Rightarrow> diff_subject \<Rightarrow> diff_value \<Rightarrow>
    py_exn + activity_draft list" where
  "compile_removed digest c s v = (case (s, v) of
     (OwnerSubject (RuntimeSubject i), RuntimeValue r) \<Rightarrow> compile_removed_runtime digest c i r
   | (OwnerSubject (NodeSubject i), NodeValue n x) \<Rightarrow> compile_removed_node digest c i n
   | (EdgeSubject i, EdgeValue e) \<Rightarrow>
       if edge_binding e = ENVIRONMENT then Inr []
       else bindR (one_draft digest c ''remove-connection'' (make_socket_connection_target i)
         RemoveSocketConnection HIGH DISRUPTIVE) (\<lambda>d. Inr [d])
   | (OwnerSubject (PublicIngressSubject i), PublicIngressValue g) \<Rightarrow>
       bindR (one_draft digest c ''remove-public-ingress'' (make_public_ingress_target i)
         RemovePublicIngress HIGH DISRUPTIVE) (\<lambda>d. Inr [d])
   | _ \<Rightarrow> review_draft digest c UNSUPPORTED_CHANGE)"

definition environment_edge :: "diff_value \<Rightarrow> bool" where
  "environment_edge v = (case v of EdgeValue e \<Rightarrow> edge_binding e = ENVIRONMENT | _ \<Rightarrow> False)"

definition is_edge_value :: "diff_value \<Rightarrow> bool" where
  "is_edge_value v = (case v of EdgeValue e \<Rightarrow> True | _ \<Rightarrow> False)"

definition compile_modified :: "(string \<Rightarrow> string) \<Rightarrow> structural_change \<Rightarrow> diff_subject \<Rightarrow> diff_value \<Rightarrow>
    diff_value \<Rightarrow> py_exn + activity_draft list" where
  "compile_modified digest c s before after = (case s of
     EdgeSubject i \<Rightarrow>
       if is_edge_value before \<and> is_edge_value after \<and> (environment_edge before \<or> environment_edge after)
       then Inr []
       else if is_edge_value after
       then bindR (one_draft digest c ''switch-connection'' (make_socket_connection_target i)
         SwitchSocketConnection HIGH DISRUPTIVE) (\<lambda>d. Inr [d])
       else review_draft digest c UNSUPPORTED_CHANGE
   | FieldSubject GraphSubject f k \<Rightarrow> Inr []
   | _ \<Rightarrow> review_draft digest c UNSUPPORTED_CHANGE)"

definition compile_change :: "(string \<Rightarrow> string) \<Rightarrow> structural_change \<Rightarrow> py_exn + activity_draft list" where
  "compile_change digest c = (case c of
     AddedChange s v \<Rightarrow> compile_added digest c s v
   | RemovedChange s v \<Rightarrow> compile_removed digest c s v
   | ModifiedChange s b a \<Rightarrow> compile_modified digest c s b a
   | UnsupportedChange s b a r \<Rightarrow> review_draft digest c UNSUPPORTED_CHANGE
   | AmbiguousChange s r b a \<Rightarrow> review_draft digest c AMBIGUOUS_CHANGE)"

text \<open>The node or runtime whose reconciliation a change of a field asks for.\<close>

definition field_owner :: "diff_subject \<Rightarrow> diff_owner option" where
  "field_owner s = (case s of
     FieldSubject w f k \<Rightarrow> if f = RESOURCE_LIFECYCLE then None
       else (case w of NodeSubject i \<Rightarrow> Some w | RuntimeSubject i \<Rightarrow> Some w | _ \<Rightarrow> None)
   | _ \<Rightarrow> None)"

definition reconciliation_owner :: "structural_change \<Rightarrow> diff_owner option" where
  "reconciliation_owner c = (case c of
     AddedChange s a \<Rightarrow> field_owner s
   | ModifiedChange s b a \<Rightarrow> field_owner s
   | RemovedChange s b \<Rightarrow> field_owner s
   | _ \<Rightarrow> None)"

section \<open>The pass over the changes\<close>

record compile_state =
  drafts :: "activity_draft list"
  start_runtime :: "(string \<times> nat) list"
  stop_runtime :: "(string \<times> nat) list"
  remove_runtime :: "(string \<times> nat) list"
  start_node :: "(string \<times> nat) list"
  healthy_node :: "(string \<times> nat) list"
  stop_node :: "(string \<times> nat) list"
  remove_node :: "(string \<times> nat) list"
  allocate_ingress :: "(string \<times> nat) list"
  remove_ingress :: "(string \<times> nat) list"
  reconcile_node :: "(string \<times> nat) list"
  added_ingresses :: "(string \<times> public_ingress) list"
  removed_ingresses :: "(string \<times> public_ingress) list"
  removed_node_runtime :: "(string \<times> string) list"
  removed_edges :: "(string \<times> nat option \<times> graph_edge) list"
  modified_edges :: "(string \<times> nat option \<times> graph_edge \<times> graph_edge) list"
  node_reconciliations :: "(string \<times> structural_change list) list"
  runtime_reconciliations :: "(string \<times> structural_change list) list"

definition empty_compile :: compile_state where
  "empty_compile = \<lparr>drafts = [], start_runtime = [], stop_runtime = [], remove_runtime = [],
     start_node = [], healthy_node = [], stop_node = [], remove_node = [], allocate_ingress = [],
     remove_ingress = [], reconcile_node = [], added_ingresses = [], removed_ingresses = [],
     removed_node_runtime = [], removed_edges = [], modified_edges = [], node_reconciliations = [],
     runtime_reconciliations = []\<rparr>"

text \<open>The edges and ingresses the second pass looks at.\<close>

definition note_change :: "structural_change \<Rightarrow> compile_state \<Rightarrow> compile_state" where
  "note_change c st = (case c of
     RemovedChange (EdgeSubject i) (EdgeValue e) \<Rightarrow>
       if edge_binding e = ENVIRONMENT
       then st\<lparr>removed_edges := AList.update i (None, e) (removed_edges st)\<rparr> else st
   | ModifiedChange (EdgeSubject i) (EdgeValue b) (EdgeValue a) \<Rightarrow>
       if edge_binding b = ENVIRONMENT \<or> edge_binding a = ENVIRONMENT
       then st\<lparr>modified_edges := AList.update i (None, b, a) (modified_edges st)\<rparr> else st
   | AddedChange (OwnerSubject (PublicIngressSubject i)) (PublicIngressValue g) \<Rightarrow>
       st\<lparr>added_ingresses := AList.update i g (added_ingresses st)\<rparr>
   | RemovedChange (OwnerSubject (PublicIngressSubject i)) (PublicIngressValue g) \<Rightarrow>
       st\<lparr>removed_ingresses := AList.update i g (removed_ingresses st)\<rparr>
   | _ \<Rightarrow> st)"

text \<open>\<open>d.setdefault(key, []).append(change)\<close>.\<close>

definition append_at :: "string \<Rightarrow> 'a \<Rightarrow> (string \<times> 'a list) list \<Rightarrow> (string \<times> 'a list) list" where
  "append_at k c d = AList.update k ((case map_of d k of None \<Rightarrow> [] | Some cs \<Rightarrow> cs) @ [c]) d"

definition removed_runtime_of :: "structural_change \<Rightarrow> string option" where
  "removed_runtime_of c = (case c of RemovedChange s (NodeValue n x) \<Rightarrow> Some (node_runtime n) | _ \<Rightarrow> None)"

definition register_edge :: "structural_change \<Rightarrow> string \<Rightarrow> nat \<Rightarrow> compile_state \<Rightarrow> compile_state" where
  "register_edge c i p st = (case c of
     RemovedChange s (EdgeValue e) \<Rightarrow> st\<lparr>removed_edges := AList.update i (Some p, e) (removed_edges st)\<rparr>
   | _ \<Rightarrow> st)"

definition register_switch :: "structural_change \<Rightarrow> string \<Rightarrow> nat \<Rightarrow> compile_state \<Rightarrow> compile_state" where
  "register_switch c i p st = (case c of
     ModifiedChange s (EdgeValue b) (EdgeValue a) \<Rightarrow>
       st\<lparr>modified_edges := AList.update i (Some p, b, a) (modified_edges st)\<rparr>
   | _ \<Rightarrow> st)"

definition register_draft :: "structural_change \<Rightarrow> activity_draft \<Rightarrow> compile_state \<Rightarrow> compile_state" where
  "register_draft c d st = (let p = length (drafts st); st' = st\<lparr>drafts := drafts st @ [d]\<rparr> in
     case draft_operation d of
       StartRuntime (RuntimeTarget i) \<Rightarrow> st'\<lparr>start_runtime := AList.update i p (start_runtime st)\<rparr>
     | StopRuntime (RuntimeTarget i) \<Rightarrow> st'\<lparr>stop_runtime := AList.update i p (stop_runtime st)\<rparr>
     | RemoveRuntimeResource (RuntimeTarget i) \<Rightarrow> st'\<lparr>remove_runtime := AList.update i p (remove_runtime st)\<rparr>
     | StartNode (NodeTarget i) \<Rightarrow> st'\<lparr>start_node := AList.update i p (start_node st)\<rparr>
     | WaitForHealthy (NodeTarget i) \<Rightarrow> st'\<lparr>healthy_node := AList.update i p (healthy_node st)\<rparr>
     | StopNode (NodeTarget i) \<Rightarrow> st'\<lparr>stop_node := AList.update i p (stop_node st),
         removed_node_runtime := (case removed_runtime_of c of None \<Rightarrow> removed_node_runtime st
           | Some r \<Rightarrow> AList.update i r (removed_node_runtime st))\<rparr>
     | RemoveNodeResource (NodeTarget i) \<Rightarrow> st'\<lparr>remove_node := AList.update i p (remove_node st)\<rparr>
     | RemoveSocketConnection (SocketConnectionTarget i) \<Rightarrow> register_edge c i p st'
     | AllocatePublicIngress (PublicIngressActivityTarget i) \<Rightarrow>
         st'\<lparr>allocate_ingress := AList.update i p (allocate_ingress st)\<rparr>
     | RemovePublicIngress (PublicIngressActivityTarget i) \<Rightarrow>
         st'\<lparr>remove_ingress := AList.update i p (remove_ingress st)\<rparr>
     | SwitchSocketConnection (SocketConnectionTarget i) \<Rightarrow> register_switch c i p st'
     | _ \<Rightarrow> st')"

definition collect_change :: "(string \<Rightarrow> string) \<Rightarrow> compile_state \<Rightarrow> structural_change \<Rightarrow> py_exn + compile_state" where
  "collect_change digest st c = (let noted = note_change c st in
     case reconciliation_owner c of
       Some (NodeSubject i) \<Rightarrow>
         Inr (noted\<lparr>node_reconciliations := append_at i c (node_reconciliations noted)\<rparr>)
     | Some (RuntimeSubject i) \<Rightarrow>
         Inr (noted\<lparr>runtime_reconciliations := append_at i c (runtime_reconciliations noted)\<rparr>)
     | _ \<Rightarrow> bindR (compile_change digest c) (\<lambda>created. Inr (fold (register_draft c) created noted)))"

section \<open>Reconciliation\<close>

definition reconcile_one_node :: "(string \<Rightarrow> string) \<Rightarrow> compile_state \<Rightarrow> string \<times> structural_change list \<Rightarrow>
    py_exn + compile_state" where
  "reconcile_one_node digest st item = (case item of (i, cs) \<Rightarrow>
     bindR (bindR (make_node_target i) (\<lambda>t. token_draft (changes_token digest cs) ''reconcile-node''
       (ReconcileNode t) MEDIUM DISRUPTIVE)) (\<lambda>reconcile.
     bindR (bindR (make_node_target i) (\<lambda>t. token_draft (changes_token digest cs) ''wait-healthy''
       (WaitForHealthy t) MEDIUM NON_DESTRUCTIVE)) (\<lambda>healthy.
       let p = length (drafts st) in
       Inr (st\<lparr>drafts := drafts st @ [reconcile, after_draft reconcile healthy],
         reconcile_node := AList.update i p (reconcile_node st),
         healthy_node := AList.update i (Suc p) (healthy_node st)\<rparr>))))"

definition reconcile_one_runtime :: "(string \<Rightarrow> string) \<Rightarrow> compile_state \<Rightarrow> string \<times> structural_change list \<Rightarrow>
    py_exn + compile_state" where
  "reconcile_one_runtime digest st item = (case item of (i, cs) \<Rightarrow>
     bindR (bindR (make_runtime_target i) (\<lambda>t. token_draft (changes_token digest cs) ''reconcile-runtime''
       (ReconcileRuntime t) MEDIUM DISRUPTIVE)) (\<lambda>reconcile.
       Inr (st\<lparr>drafts := drafts st @ [reconcile]\<rparr>)))"

section \<open>Dependencies\<close>

text \<open>\<open>successor.dependencies.add(predecessor.activity_id)\<close>, on positions of drafts.\<close>

definition add_dependency :: "nat \<Rightarrow> nat \<Rightarrow> compile_state \<Rightarrow> compile_state" where
  "add_dependency later earlier st = (if later < length (drafts st) \<and> earlier < length (drafts st)
     then st\<lparr>drafts := (drafts st)[later := after_draft (drafts st ! earlier) (drafts st ! later)]\<rparr>
     else st)"

definition link :: "nat option \<Rightarrow> nat option \<Rightarrow> compile_state \<Rightarrow> compile_state" where
  "link later earlier st = (case (later, earlier) of
     (Some s, Some p) \<Rightarrow> add_dependency s p st | _ \<Rightarrow> st)"

text \<open>\<open>start_node[node_id].dependencies.add(...)\<close>: the subscript raises.\<close>

definition link_start :: "string \<Rightarrow> nat option \<Rightarrow> compile_state \<Rightarrow> py_exn + compile_state" where
  "link_start i earlier st = (case earlier of None \<Rightarrow> Inr st
     | Some p \<Rightarrow> (case map_of (start_node st) i of None \<Rightarrow> Inl (KeyError i)
         | Some s \<Rightarrow> Inr (add_dependency s p st)))"

definition or_else :: "'a option \<Rightarrow> 'a option \<Rightarrow> 'a option" where
  "or_else a b = (case a of None \<Rightarrow> b | Some x \<Rightarrow> Some x)"

text \<open>\<open>matching[0]\<close>: the first draft whose identity contains the token of the change.\<close>

definition first_matching :: "(string \<Rightarrow> string) \<Rightarrow> structural_change \<Rightarrow> compile_state \<Rightarrow> nat option" where
  "first_matching digest c st = find (\<lambda>p. occurs_in (change_token digest c)
     (activity_id_value (draft_id (drafts st ! p)))) [0..<length (drafts st)]"

definition added_node_dependencies :: "string \<Rightarrow> graph_node \<Rightarrow> compile_state \<Rightarrow> py_exn + compile_state" where
  "added_node_dependencies i n st =
     bindR (link_start i (map_of (start_runtime st) (node_runtime n)) st) (\<lambda>st.
       foldR (\<lambda>st (k, g). if connector_node g \<noteq> i then Inr st
         else link_start i (map_of (allocate_ingress st) k) st) st (added_ingresses st))"

definition added_ingress_dependencies :: "string \<Rightarrow> public_ingress \<Rightarrow> compile_state \<Rightarrow> compile_state" where
  "added_ingress_dependencies k g st = (let allocate = map_of (allocate_ingress st) k in
     link (map_of (start_node st) (connector_node g)) allocate
       (link allocate (map_of (reconcile_node st) (ingress_node g))
         (link allocate (map_of (healthy_node st) (ingress_node g)) st)))"

definition edge_health_dependencies :: "nat \<Rightarrow> graph_edge \<Rightarrow> compile_state \<Rightarrow> compile_state" where
  "edge_health_dependencies m e st = fold (\<lambda>n st. link (Some m) (map_of (healthy_node st) n) st)
     [edge_provider e, edge_consumer e] st"

definition added_edge_dependencies :: "(string \<Rightarrow> string) \<Rightarrow> structural_change \<Rightarrow> graph_edge \<Rightarrow>
    compile_state \<Rightarrow> compile_state" where
  "added_edge_dependencies digest c e st = (case first_matching digest c st of
     None \<Rightarrow> link (or_else (map_of (start_node st) (edge_consumer e)) (map_of (reconcile_node st) (edge_consumer e)))
       (map_of (healthy_node st) (edge_provider e)) st
   | Some m \<Rightarrow> edge_health_dependencies m e st)"

definition modified_edge_dependencies :: "(string \<Rightarrow> string) \<Rightarrow> structural_change \<Rightarrow> graph_edge \<Rightarrow>
    compile_state \<Rightarrow> compile_state" where
  "modified_edge_dependencies digest c e st = (case first_matching digest c st of
     None \<Rightarrow> link (map_of (reconcile_node st) (edge_consumer e)) (map_of (healthy_node st) (edge_provider e)) st
   | Some m \<Rightarrow> edge_health_dependencies m e st)"

definition removed_ingress_step :: "string \<Rightarrow> string \<times> public_ingress \<Rightarrow> compile_state \<Rightarrow> compile_state" where
  "removed_ingress_step i item st = (case item of (k, g) \<Rightarrow>
     if i \<noteq> ingress_node g \<and> i \<noteq> connector_node g then st
     else if i = connector_node g
     then link (map_of (remove_ingress st) k) (map_of (stop_node st) i) st
     else link (map_of (stop_node st) i) (map_of (remove_ingress st) k) st)"

definition removed_edge_step :: "string \<Rightarrow> string \<times> nat option \<times> graph_edge \<Rightarrow> compile_state \<Rightarrow> compile_state" where
  "removed_edge_step i item st = (case item of (k, remove, e) \<Rightarrow>
     if i \<noteq> edge_provider e \<and> i \<noteq> edge_consumer e then st
     else if remove \<noteq> None then link (map_of (stop_node st) i) remove st
     else if i = edge_provider e
     then link (map_of (stop_node st) i) (map_of (reconcile_node st) (edge_consumer e)) st
     else st)"

definition modified_edge_step :: "string \<Rightarrow> string \<times> nat option \<times> graph_edge \<times> graph_edge \<Rightarrow>
    compile_state \<Rightarrow> compile_state" where
  "modified_edge_step i item st = (case item of (k, switch, b, a) \<Rightarrow>
     if i \<in> {edge_provider b, edge_consumer b} \<and> i \<notin> {edge_provider a, edge_consumer a}
     then (if switch \<noteq> None then link (map_of (stop_node st) i) switch st
       else if i = edge_provider b
       then link (map_of (stop_node st) i) (map_of (reconcile_node st) (edge_consumer a)) st
       else st)
     else st)"

definition removed_node_dependencies :: "string \<Rightarrow> compile_state \<Rightarrow> compile_state" where
  "removed_node_dependencies i st =
     (if i \<notin> fst ` set (stop_node st) then st
      else fold (modified_edge_step i) (modified_edges st)
        (fold (removed_edge_step i) (removed_edges st)
          (fold (removed_ingress_step i) (removed_ingresses st) st)))"

definition removed_runtime_dependencies :: "string \<Rightarrow> compile_state \<Rightarrow> compile_state" where
  "removed_runtime_dependencies i st = (case map_of (stop_runtime st) i of None \<Rightarrow> st
     | Some stop \<Rightarrow> link (map_of (remove_runtime st) i) (Some stop)
         (fold (\<lambda>(n, r) st. if r = i
             then link (Some stop) (or_else (map_of (remove_node st) n) (map_of (stop_node st) n)) st else st)
           (removed_node_runtime st) st))"

definition add_dependencies :: "(string \<Rightarrow> string) \<Rightarrow> compile_state \<Rightarrow> structural_change \<Rightarrow>
    py_exn + compile_state" where
  "add_dependencies digest st c = (case c of
     AddedChange (OwnerSubject (NodeSubject i)) (NodeValue n x) \<Rightarrow> added_node_dependencies i n st
   | AddedChange (OwnerSubject (PublicIngressSubject k)) (PublicIngressValue g) \<Rightarrow>
       Inr (added_ingress_dependencies k g st)
   | AddedChange (EdgeSubject i) (EdgeValue e) \<Rightarrow> Inr (added_edge_dependencies digest c e st)
   | ModifiedChange (EdgeSubject i) b (EdgeValue e) \<Rightarrow> Inr (modified_edge_dependencies digest c e st)
   | RemovedChange (OwnerSubject (NodeSubject i)) (NodeValue n x) \<Rightarrow> Inr (removed_node_dependencies i st)
   | RemovedChange (OwnerSubject (RuntimeSubject i)) v \<Rightarrow> Inr (removed_runtime_dependencies i st)
   | _ \<Rightarrow> Inr st)"

definition move_dependencies :: "string \<Rightarrow> structural_change \<Rightarrow> compile_state \<Rightarrow> compile_state" where
  "move_dependencies i c st = (case c of
     ModifiedChange (FieldSubject w RUNTIME_MEMBERSHIP k) (TextValue b) (TextValue a) \<Rightarrow>
       link (map_of (stop_runtime st) b) (map_of (reconcile_node st) i)
         (link (map_of (reconcile_node st) i) (map_of (start_runtime st) a) st)
   | _ \<Rightarrow> st)"

definition membership_dependencies :: "compile_state \<Rightarrow> compile_state" where
  "membership_dependencies st = fold (\<lambda>(i, cs). fold (move_dependencies i) cs) (node_reconciliations st) st"

section \<open>Compilation\<close>

definition collect_changes :: "(string \<Rightarrow> string) \<Rightarrow> structural_change list \<Rightarrow> py_exn + compile_state" where
  "collect_changes digest cs =
     bindR (foldR (collect_change digest) empty_compile cs) (\<lambda>st.
     bindR (foldR (reconcile_one_node digest) st (sort_key fst (node_reconciliations st))) (\<lambda>st.
       foldR (reconcile_one_runtime digest) st (sort_key fst (runtime_reconciliations st))))"

definition compile_drafts :: "(string \<Rightarrow> string) \<Rightarrow> structural_change list \<Rightarrow> py_exn + activity_draft list" where
  "compile_drafts digest cs =
     bindR (collect_changes digest cs) (\<lambda>st.
     bindR (foldR (add_dependencies digest) st cs) (\<lambda>st.
       Inr (drafts (membership_dependencies st))))"

definition compile_activity_plan :: "(string \<Rightarrow> string) \<Rightarrow> graph_diff \<Rightarrow> plan_error + activity_plan" where
  "compile_activity_plan digest d = (case compile_drafts digest (diff_changes d) of
     Inl x \<Rightarrow> Inl (PlanRaised x)
   | Inr ds \<Rightarrow> make_plan (map finish_draft ds))"

end
