(* ===== verification/Compile_Laws.thy ===== *)
theory Compile_Laws
  imports Plan_Compiler Diff_Laws
begin

text \<open>
  The drafts the compiler creates, in closed form: each change, and each group of changes that is
  reconciled, is a source of operations, and a source with its token determines its drafts.
\<close>

section \<open>Operations of a change\<close>

primrec operation_label :: "activity_operation \<Rightarrow> string" where
  "operation_label (StartNode t) = ''start-node''"
| "operation_label (StopNode t) = ''stop-node''"
| "operation_label (RemoveNodeResource t) = ''remove-node-resource''"
| "operation_label (WaitForHealthy t) = ''wait-healthy''"
| "operation_label (AddSocketConnection t) = ''add-connection''"
| "operation_label (SwitchSocketConnection t) = ''switch-connection''"
| "operation_label (RemoveSocketConnection t) = ''remove-connection''"
| "operation_label (AllocatePublicIngress t) = ''allocate-public-ingress''"
| "operation_label (RemovePublicIngress t) = ''remove-public-ingress''"
| "operation_label (ReconcileNode t) = ''reconcile-node''"
| "operation_label (ReconcileRuntime t) = ''reconcile-runtime''"
| "operation_label (StartRuntime t) = ''start-runtime''"
| "operation_label (StopRuntime t) = ''stop-runtime''"
| "operation_label (RemoveRuntimeResource t) = ''remove-runtime-resource''"
| "operation_label (DestroyDataResource t) = ''destroy-data-resource''"
| "operation_label (ReviewChange t r) = ''review-change''"

primrec operation_risk :: "activity_operation \<Rightarrow> risk_level" where
  "operation_risk (StartNode t) = LOW"
| "operation_risk (StopNode t) = HIGH"
| "operation_risk (RemoveNodeResource t) = HIGH"
| "operation_risk (WaitForHealthy t) = MEDIUM"
| "operation_risk (AddSocketConnection t) = MEDIUM"
| "operation_risk (SwitchSocketConnection t) = HIGH"
| "operation_risk (RemoveSocketConnection t) = HIGH"
| "operation_risk (AllocatePublicIngress t) = MEDIUM"
| "operation_risk (RemovePublicIngress t) = HIGH"
| "operation_risk (ReconcileNode t) = MEDIUM"
| "operation_risk (ReconcileRuntime t) = MEDIUM"
| "operation_risk (StartRuntime t) = LOW"
| "operation_risk (StopRuntime t) = HIGH"
| "operation_risk (RemoveRuntimeResource t) = HIGH"
| "operation_risk (DestroyDataResource t) = CRITICAL"
| "operation_risk (ReviewChange t r) = HIGH"

primrec operation_impact :: "activity_operation \<Rightarrow> activity_impact" where
  "operation_impact (StartNode t) = NON_DESTRUCTIVE"
| "operation_impact (StopNode t) = DISRUPTIVE"
| "operation_impact (RemoveNodeResource t) = DESTRUCTIVE"
| "operation_impact (WaitForHealthy t) = NON_DESTRUCTIVE"
| "operation_impact (AddSocketConnection t) = NON_DESTRUCTIVE"
| "operation_impact (SwitchSocketConnection t) = DISRUPTIVE"
| "operation_impact (RemoveSocketConnection t) = DISRUPTIVE"
| "operation_impact (AllocatePublicIngress t) = NON_DESTRUCTIVE"
| "operation_impact (RemovePublicIngress t) = DISRUPTIVE"
| "operation_impact (ReconcileNode t) = DISRUPTIVE"
| "operation_impact (ReconcileRuntime t) = DISRUPTIVE"
| "operation_impact (StartRuntime t) = NON_DESTRUCTIVE"
| "operation_impact (StopRuntime t) = DISRUPTIVE"
| "operation_impact (RemoveRuntimeResource t) = DESTRUCTIVE"
| "operation_impact (DestroyDataResource t) = DESTRUCTIVE"
| "operation_impact (ReviewChange t r) = NON_DESTRUCTIVE"

text \<open>Whether the target of an operation has an identity that is not blank.\<close>

fun operation_named :: "activity_operation \<Rightarrow> bool" where
  "operation_named (StartNode (NodeTarget i)) = non_blank i"
| "operation_named (StopNode (NodeTarget i)) = non_blank i"
| "operation_named (RemoveNodeResource (NodeTarget i)) = non_blank i"
| "operation_named (WaitForHealthy (NodeTarget i)) = non_blank i"
| "operation_named (ReconcileNode (NodeTarget i)) = non_blank i"
| "operation_named (AddSocketConnection (SocketConnectionTarget i)) = non_blank i"
| "operation_named (SwitchSocketConnection (SocketConnectionTarget i)) = non_blank i"
| "operation_named (RemoveSocketConnection (SocketConnectionTarget i)) = non_blank i"
| "operation_named (AllocatePublicIngress (PublicIngressActivityTarget i)) = non_blank i"
| "operation_named (RemovePublicIngress (PublicIngressActivityTarget i)) = non_blank i"
| "operation_named (ReconcileRuntime (RuntimeTarget i)) = non_blank i"
| "operation_named (StartRuntime (RuntimeTarget i)) = non_blank i"
| "operation_named (StopRuntime (RuntimeTarget i)) = non_blank i"
| "operation_named (RemoveRuntimeResource (RuntimeTarget i)) = non_blank i"
| "operation_named oper = True"

abbreviation review_of :: "structural_change \<Rightarrow> review_reason \<Rightarrow> activity_operation" where
  "review_of c reason \<equiv> ReviewChange (ChangeTarget (change_subject c)) reason"

definition added_operations :: "structural_change \<Rightarrow> diff_subject \<Rightarrow> diff_value \<Rightarrow> activity_operation list" where
  "added_operations c s v = (case (s, v) of
     (OwnerSubject (RuntimeSubject i), RuntimeValue r) \<Rightarrow>
       if lc_ownership (runtime_lifecycle r) \<noteq> OWNED then [] else [StartRuntime (RuntimeTarget i)]
   | (OwnerSubject (NodeSubject i), NodeValue n x) \<Rightarrow> if lc_ownership (node_lifecycle n) \<noteq> OWNED then []
       else [StartNode (NodeTarget i), WaitForHealthy (NodeTarget i)]
   | (EdgeSubject i, EdgeValue e) \<Rightarrow> if edge_binding e = ENVIRONMENT then []
       else [AddSocketConnection (SocketConnectionTarget i)]
   | (OwnerSubject (PublicIngressSubject i), PublicIngressValue g) \<Rightarrow>
       [AllocatePublicIngress (PublicIngressActivityTarget i)]
   | _ \<Rightarrow> [review_of c UNSUPPORTED_CHANGE])"

definition removed_operations :: "structural_change \<Rightarrow> diff_subject \<Rightarrow> diff_value \<Rightarrow> activity_operation list" where
  "removed_operations c s v = (case (s, v) of
     (OwnerSubject (RuntimeSubject i), RuntimeValue r) \<Rightarrow>
       if lc_ownership (runtime_lifecycle r) \<noteq> OWNED then []
       else if lc_compute (runtime_lifecycle r) = RETAINED then [StopRuntime (RuntimeTarget i)]
       else [StopRuntime (RuntimeTarget i), RemoveRuntimeResource (RuntimeTarget i)]
   | (OwnerSubject (NodeSubject i), NodeValue n x) \<Rightarrow> if lc_ownership (node_lifecycle n) \<noteq> OWNED then []
       else if lc_compute (node_lifecycle n) = RETAINED then [StopNode (NodeTarget i)]
       else [StopNode (NodeTarget i), RemoveNodeResource (NodeTarget i)]
   | (EdgeSubject i, EdgeValue e) \<Rightarrow> if edge_binding e = ENVIRONMENT then []
       else [RemoveSocketConnection (SocketConnectionTarget i)]
   | (OwnerSubject (PublicIngressSubject i), PublicIngressValue g) \<Rightarrow>
       [RemovePublicIngress (PublicIngressActivityTarget i)]
   | _ \<Rightarrow> [review_of c UNSUPPORTED_CHANGE])"

definition modified_operations :: "structural_change \<Rightarrow> diff_subject \<Rightarrow> diff_value \<Rightarrow> diff_value \<Rightarrow>
    activity_operation list" where
  "modified_operations c s before after = (case s of
     EdgeSubject i \<Rightarrow>
       if is_edge_value before \<and> is_edge_value after \<and> (environment_edge before \<or> environment_edge after) then []
       else if is_edge_value after then [SwitchSocketConnection (SocketConnectionTarget i)]
       else [review_of c UNSUPPORTED_CHANGE]
   | FieldSubject GraphSubject f k \<Rightarrow> []
   | _ \<Rightarrow> [review_of c UNSUPPORTED_CHANGE])"

definition change_operations :: "structural_change \<Rightarrow> activity_operation list" where
  "change_operations c = (case c of
     AddedChange s v \<Rightarrow> added_operations c s v
   | RemovedChange s v \<Rightarrow> removed_operations c s v
   | ModifiedChange s b a \<Rightarrow> modified_operations c s b a
   | UnsupportedChange s b a r \<Rightarrow> [review_of c UNSUPPORTED_CHANGE]
   | AmbiguousChange s r b a \<Rightarrow> [review_of c AMBIGUOUS_CHANGE])"

section \<open>Drafts of a source\<close>

definition operation_id :: "string \<Rightarrow> activity_operation \<Rightarrow> activity_id" where
  "operation_id token oper = ActivityId (operation_label oper @ '':'' @ token)"

definition standard_draft :: "string \<Rightarrow> activity_operation \<Rightarrow> activity_id list \<Rightarrow> activity_draft" where
  "standard_draft token oper deps = \<lparr>draft_id = operation_id token oper, draft_operation = oper,
     draft_risk = operation_risk oper, draft_impact = operation_impact oper, draft_dependencies = deps\<rparr>"

text \<open>Each operation of a source but the first waits for the one before it.\<close>

fun chain_drafts :: "string \<Rightarrow> activity_id list \<Rightarrow> activity_operation list \<Rightarrow> activity_draft list" where
  "chain_drafts token deps [] = []"
| "chain_drafts token deps (oper # opers) =
     standard_draft token oper deps # chain_drafts token [operation_id token oper] opers"

definition canonical_source :: "string \<times> activity_operation list \<Rightarrow> bool" where
  "canonical_source src \<longleftrightarrow> (\<forall>oper\<in>set (snd src). operation_named oper \<and>
     is_canonical_activity_identity (operation_label oper @ '':'' @ fst src))"

definition source_drafts :: "string \<times> activity_operation list \<Rightarrow> activity_draft list" where
  "source_drafts src = chain_drafts (fst src) [] (snd src)"

lemma token_draft_Inr:
  "token_draft token label oper r im = Inr d \<longleftrightarrow> is_canonical_activity_identity (label @ '':'' @ token) \<and>
     d = \<lparr>draft_id = ActivityId (label @ '':'' @ token), draft_operation = oper, draft_risk = r,
       draft_impact = im, draft_dependencies = []\<rparr>"
  by (auto simp: token_draft_def make_activity_id_def)

lemma make_target_Inr:
  "make_node_target i = Inr t \<longleftrightarrow> non_blank i \<and> t = NodeTarget i"
  "make_runtime_target i = Inr r \<longleftrightarrow> non_blank i \<and> r = RuntimeTarget i"
  "make_socket_connection_target i = Inr s \<longleftrightarrow> non_blank i \<and> s = SocketConnectionTarget i"
  "make_public_ingress_target i = Inr g \<longleftrightarrow> non_blank i \<and> g = PublicIngressActivityTarget i"
  by (auto simp: make_node_target_def make_runtime_target_def make_socket_connection_target_def
      make_public_ingress_target_def)

lemmas draft_simps = bindR_Inr_iff one_draft_def token_draft_Inr make_target_Inr source_drafts_def
  canonical_source_def standard_draft_def operation_id_def after_draft_def

lemma review_draft_Inr:
  "review_draft digest c reason = Inr ds \<longleftrightarrow>
     canonical_source (change_token digest c, [review_of c reason]) \<and>
     ds = source_drafts (change_token digest c, [review_of c reason])"
  by (auto simp: review_draft_def draft_simps)

lemma compile_added_Inr:
  "compile_added digest c s v = Inr ds \<longleftrightarrow> canonical_source (change_token digest c, added_operations c s v) \<and>
     ds = source_drafts (change_token digest c, added_operations c s v)"
proof (cases s)
  case (OwnerSubject w)
  then show ?thesis
    by (cases w; cases v) (auto simp: compile_added_def added_operations_def compile_added_node_def
        review_draft_Inr draft_simps)
next
  case (EdgeSubject i)
  then show ?thesis
    by (cases v) (auto simp: compile_added_def added_operations_def review_draft_Inr draft_simps)
next
  case (FieldSubject w f k)
  then show ?thesis
    by (cases v) (auto simp: compile_added_def added_operations_def review_draft_Inr)
qed

lemma compile_removed_Inr:
  "compile_removed digest c s v = Inr ds \<longleftrightarrow> canonical_source (change_token digest c, removed_operations c s v) \<and>
     ds = source_drafts (change_token digest c, removed_operations c s v)"
proof (cases s)
  case (OwnerSubject w)
  then show ?thesis
    by (cases w; cases v) (auto simp: compile_removed_def removed_operations_def compile_removed_node_def
        compile_removed_runtime_def review_draft_Inr draft_simps)
next
  case (EdgeSubject i)
  then show ?thesis
    by (cases v) (auto simp: compile_removed_def removed_operations_def review_draft_Inr draft_simps)
next
  case (FieldSubject w f k)
  then show ?thesis
    by (cases v) (auto simp: compile_removed_def removed_operations_def review_draft_Inr)
qed

lemma compile_modified_Inr:
  "compile_modified digest c s b a = Inr ds \<longleftrightarrow>
     canonical_source (change_token digest c, modified_operations c s b a) \<and>
     ds = source_drafts (change_token digest c, modified_operations c s b a)"
  unfolding compile_modified_def modified_operations_def
  by (cases s; simp add: review_draft_Inr split: diff_owner.split) (auto simp: draft_simps)

definition change_source :: "(string \<Rightarrow> string) \<Rightarrow> structural_change \<Rightarrow> string \<times> activity_operation list" where
  "change_source digest c = (change_token digest c, change_operations c)"

lemma compile_change_Inr:
  "compile_change digest c = Inr ds \<longleftrightarrow> canonical_source (change_source digest c) \<and>
     ds = source_drafts (change_source digest c)"
  by (cases c) (simp_all add: compile_change_def change_source_def change_operations_def compile_added_Inr
      compile_removed_Inr compile_modified_Inr review_draft_Inr)

section \<open>All sources of a plan\<close>

definition node_groups :: "structural_change list \<Rightarrow> (string \<times> structural_change list) list" where
  "node_groups cs = fold (\<lambda>c d. case reconciliation_owner c of
     Some (NodeSubject i) \<Rightarrow> append_at i c d | _ \<Rightarrow> d) cs []"

definition runtime_groups :: "structural_change list \<Rightarrow> (string \<times> structural_change list) list" where
  "runtime_groups cs = fold (\<lambda>c d. case reconciliation_owner c of
     Some (RuntimeSubject i) \<Rightarrow> append_at i c d | _ \<Rightarrow> d) cs []"

definition node_source :: "(string \<Rightarrow> string) \<Rightarrow> string \<times> structural_change list \<Rightarrow>
    string \<times> activity_operation list" where
  "node_source digest item = (changes_token digest (snd item),
     [ReconcileNode (NodeTarget (fst item)), WaitForHealthy (NodeTarget (fst item))])"

definition runtime_source :: "(string \<Rightarrow> string) \<Rightarrow> string \<times> structural_change list \<Rightarrow>
    string \<times> activity_operation list" where
  "runtime_source digest item = (changes_token digest (snd item), [ReconcileRuntime (RuntimeTarget (fst item))])"

definition plain_changes :: "structural_change list \<Rightarrow> structural_change list" where
  "plain_changes cs = filter (\<lambda>c. reconciliation_owner c = None) cs"

definition plan_sources :: "(string \<Rightarrow> string) \<Rightarrow> structural_change list \<Rightarrow>
    (string \<times> activity_operation list) list" where
  "plan_sources digest cs = map (change_source digest) (plain_changes cs) @
     map (node_source digest) (sort_key fst (node_groups cs)) @
     map (runtime_source digest) (sort_key fst (runtime_groups cs))"

lemma owner_shape:
  "reconciliation_owner c = Some w \<Longrightarrow> (\<exists>i. w = NodeSubject i) \<or> (\<exists>i. w = RuntimeSubject i)"
  by (auto simp: reconciliation_owner_def field_owner_def split: structural_change.splits diff_subject.splits
      diff_owner.splits if_splits)

lemma note_change_fields [simp]:
  "drafts (note_change c st) = drafts st"
  "node_reconciliations (note_change c st) = node_reconciliations st"
  "runtime_reconciliations (note_change c st) = runtime_reconciliations st"
  by (auto simp: note_change_def split: structural_change.splits diff_subject.splits diff_owner.splits
      diff_value.splits)

lemma register_draft_fields [simp]:
  "drafts (register_draft c d st) = drafts st @ [d]"
  "node_reconciliations (register_draft c d st) = node_reconciliations st"
  "runtime_reconciliations (register_draft c d st) = runtime_reconciliations st"
  by (auto simp: register_draft_def register_edge_def register_switch_def Let_def
      split: activity_operation.split node_target.split runtime_target.split socket_connection_target.split
        public_ingress_target.split structural_change.split diff_value.split)

lemma fold_register_fields [simp]:
  "drafts (fold (register_draft c) ds st) = drafts st @ ds"
  "node_reconciliations (fold (register_draft c) ds st) = node_reconciliations st"
  "runtime_reconciliations (fold (register_draft c) ds st) = runtime_reconciliations st"
  by (induction ds arbitrary: st) simp_all

lemma collect_change_Inr:
  "collect_change digest st c = Inr st' \<longleftrightarrow> (case reconciliation_owner c of
     Some (NodeSubject i) \<Rightarrow>
       st' = (note_change c st)\<lparr>node_reconciliations := append_at i c (node_reconciliations st)\<rparr>
   | Some (RuntimeSubject i) \<Rightarrow>
       st' = (note_change c st)\<lparr>runtime_reconciliations := append_at i c (runtime_reconciliations st)\<rparr>
   | _ \<Rightarrow> canonical_source (change_source digest c) \<and>
       st' = fold (register_draft c) (source_drafts (change_source digest c)) (note_change c st))"
  by (auto simp: collect_change_def Let_def bindR_Inr_iff compile_change_Inr split: option.split diff_owner.split)

lemma collect_change_fields:
  assumes "collect_change digest st c = Inr st'"
  shows "drafts st' = drafts st @ (if reconciliation_owner c = None then source_drafts (change_source digest c) else [])"
    and "node_reconciliations st' = (case reconciliation_owner c of
      Some (NodeSubject i) \<Rightarrow> append_at i c (node_reconciliations st) | _ \<Rightarrow> node_reconciliations st)"
    and "runtime_reconciliations st' = (case reconciliation_owner c of
      Some (RuntimeSubject i) \<Rightarrow> append_at i c (runtime_reconciliations st) | _ \<Rightarrow> runtime_reconciliations st)"
    and "reconciliation_owner c = None \<longrightarrow> canonical_source (change_source digest c)"
  using assms owner_shape [of c] unfolding collect_change_Inr
  by (auto split: option.splits diff_owner.splits)

lemma collect_loop:
  assumes "foldR (collect_change digest) st cs = Inr st'"
  shows "drafts st' = drafts st @ concat (map source_drafts (map (change_source digest) (plain_changes cs)))"
    and "node_reconciliations st' = fold (\<lambda>c d. case reconciliation_owner c of
      Some (NodeSubject i) \<Rightarrow> append_at i c d | _ \<Rightarrow> d) cs (node_reconciliations st)"
    and "runtime_reconciliations st' = fold (\<lambda>c d. case reconciliation_owner c of
      Some (RuntimeSubject i) \<Rightarrow> append_at i c d | _ \<Rightarrow> d) cs (runtime_reconciliations st)"
    and "list_all canonical_source (map (change_source digest) (plain_changes cs))"
  using assms
proof (induction cs arbitrary: st)
  case (Cons c cs)
  {
    case 1
    then show ?case using Cons.IH(1) by (auto simp: bindR_Inr_iff collect_change_fields plain_changes_def)
  next
    case 2
    then show ?case using Cons.IH(2) by (auto simp: bindR_Inr_iff collect_change_fields split: option.split diff_owner.split)
  next
    case 3
    then show ?case using Cons.IH(3) by (auto simp: bindR_Inr_iff collect_change_fields split: option.split diff_owner.split)
  next
    case 4
    then show ?case using Cons.IH(4) collect_change_fields(4) by (fastforce simp: bindR_Inr_iff plain_changes_def)
  }
qed (simp_all add: plain_changes_def)

lemma collect_total:
  assumes "list_all canonical_source (map (change_source digest) (plain_changes cs))"
  shows "\<exists>st'. foldR (collect_change digest) st cs = Inr st'"
  using assms
proof (induction cs arbitrary: st)
  case (Cons c cs)
  have "\<exists>st'. collect_change digest st c = Inr st'"
    using Cons.prems owner_shape [of c] unfolding collect_change_Inr
    by (cases "reconciliation_owner c") (auto simp: plain_changes_def)
  with Cons show ?case by (auto simp: plain_changes_def split: if_splits)
qed simp

lemma reconcile_node_Inr:
  "reconcile_one_node digest st item = Inr st' \<longleftrightarrow> canonical_source (node_source digest item) \<and>
     st' = st\<lparr>drafts := drafts st @ source_drafts (node_source digest item),
       reconcile_node := AList.update (fst item) (length (drafts st)) (reconcile_node st),
       healthy_node := AList.update (fst item) (Suc (length (drafts st))) (healthy_node st)\<rparr>"
  by (cases item) (auto simp: reconcile_one_node_def draft_simps node_source_def Let_def)

lemma reconcile_runtime_Inr:
  "reconcile_one_runtime digest st item = Inr st' \<longleftrightarrow> canonical_source (runtime_source digest item) \<and>
     st' = st\<lparr>drafts := drafts st @ source_drafts (runtime_source digest item)\<rparr>"
  by (cases item) (auto simp: reconcile_one_runtime_def draft_simps runtime_source_def)

lemma reconcile_nodes_loop:
  "foldR (reconcile_one_node digest) st items = Inr st' \<Longrightarrow>
     drafts st' = drafts st @ concat (map source_drafts (map (node_source digest) items)) \<and>
     runtime_reconciliations st' = runtime_reconciliations st \<and>
     node_reconciliations st' = node_reconciliations st \<and>
     list_all canonical_source (map (node_source digest) items)"
  by (induction items arbitrary: st) (auto simp: bindR_Inr_iff reconcile_node_Inr)

lemma reconcile_nodes_total:
  "list_all canonical_source (map (node_source digest) items) \<Longrightarrow>
     \<exists>st'. foldR (reconcile_one_node digest) st items = Inr st'"
  by (induction items arbitrary: st) (auto simp: bindR_Inr_iff reconcile_node_Inr)

lemma reconcile_runtimes_loop:
  "foldR (reconcile_one_runtime digest) st items = Inr st' \<Longrightarrow>
     st' = st\<lparr>drafts := drafts st @ concat (map source_drafts (map (runtime_source digest) items))\<rparr> \<and>
     list_all canonical_source (map (runtime_source digest) items)"
proof (induction items arbitrary: st)
  case (Cons item items)
  then have c: "canonical_source (runtime_source digest item)"
    and "foldR (reconcile_one_runtime digest)
      (st\<lparr>drafts := drafts st @ source_drafts (runtime_source digest item)\<rparr>) items = Inr st'"
    by (auto simp: bindR_Inr_iff reconcile_runtime_Inr)
  from Cons.IH [OF this(2)] c show ?case by simp
qed simp

lemma reconcile_runtimes_total:
  "list_all canonical_source (map (runtime_source digest) items) \<Longrightarrow>
     \<exists>st'. foldR (reconcile_one_runtime digest) st items = Inr st'"
  by (induction items arbitrary: st) (auto simp: bindR_Inr_iff reconcile_runtime_Inr)

lemma collect_changes_Inr:
  assumes "collect_changes digest cs = Inr st"
  shows "drafts st = concat (map source_drafts (plan_sources digest cs))"
    and "node_reconciliations st = node_groups cs"
    and "list_all canonical_source (plan_sources digest cs)"
proof -
  obtain st1 st2 where 1: "foldR (collect_change digest) empty_compile cs = Inr st1"
    and 2: "foldR (reconcile_one_node digest) st1 (sort_key fst (node_reconciliations st1)) = Inr st2"
    and 3: "foldR (reconcile_one_runtime digest) st2 (sort_key fst (runtime_reconciliations st2)) = Inr st"
    using assms by (auto simp: collect_changes_def bindR_Inr_iff)
  note l1 = collect_loop [OF 1] and l2 = reconcile_nodes_loop [OF 2] and l3 = reconcile_runtimes_loop [OF 3]
  have groups: "node_reconciliations st1 = node_groups cs" "runtime_reconciliations st1 = runtime_groups cs"
    using l1(2,3) by (simp_all add: node_groups_def runtime_groups_def empty_compile_def)
  show "drafts st = concat (map source_drafts (plan_sources digest cs))"
    using l1(1) l2 l3 groups by (simp add: plan_sources_def empty_compile_def)
  show "node_reconciliations st = node_groups cs" using l2 l3 groups by simp
  show "list_all canonical_source (plan_sources digest cs)"
    using l1(4) l2 l3 groups by (simp add: plan_sources_def)
qed

lemma collect_changes_total:
  assumes "list_all canonical_source (plan_sources digest cs)"
  shows "\<exists>st. collect_changes digest cs = Inr st"
proof -
  obtain st1 where 1: "foldR (collect_change digest) empty_compile cs = Inr st1"
    using collect_total assms by (fastforce simp: plan_sources_def)
  have groups: "node_reconciliations st1 = node_groups cs" "runtime_reconciliations st1 = runtime_groups cs"
    using collect_loop(2,3) [OF 1] by (simp_all add: node_groups_def runtime_groups_def empty_compile_def)
  obtain st2 where 2: "foldR (reconcile_one_node digest) st1 (sort_key fst (node_groups cs)) = Inr st2"
    using reconcile_nodes_total assms by (fastforce simp: plan_sources_def)
  obtain st3 where "foldR (reconcile_one_runtime digest) st2 (sort_key fst (runtime_groups cs)) = Inr st3"
    using reconcile_runtimes_total assms by (fastforce simp: plan_sources_def)
  then show ?thesis using 1 2 groups reconcile_nodes_loop [OF 2] by (simp add: collect_changes_def bindR_Inr_iff)
qed

section \<open>The operations of a plan\<close>

lemma append_at_keys: "fst ` set (append_at k c d) = insert k (fst ` set d)"
  unfolding append_at_def set_map [symmetric] update_keys by auto

lemma groups_keys:
  "i \<in> fst ` set (fold (\<lambda>c d. case reconciliation_owner c of Some (NodeSubject i) \<Rightarrow> append_at i c d | _ \<Rightarrow> d) cs d) \<longleftrightarrow>
     i \<in> fst ` set d \<or> (\<exists>c\<in>set cs. reconciliation_owner c = Some (NodeSubject i))"
  "i \<in> fst ` set (fold (\<lambda>c d. case reconciliation_owner c of Some (RuntimeSubject i) \<Rightarrow> append_at i c d | _ \<Rightarrow> d) cs d) \<longleftrightarrow>
     i \<in> fst ` set d \<or> (\<exists>c\<in>set cs. reconciliation_owner c = Some (RuntimeSubject i))"
  by (induction cs arbitrary: d) (auto simp: append_at_keys split: option.split diff_owner.split)

lemma node_groups_keys:
  "i \<in> fst ` set (node_groups cs) \<longleftrightarrow> (\<exists>c\<in>set cs. reconciliation_owner c = Some (NodeSubject i))"
  by (simp add: node_groups_def groups_keys)

lemma runtime_groups_keys:
  "i \<in> fst ` set (runtime_groups cs) \<longleftrightarrow> (\<exists>c\<in>set cs. reconciliation_owner c = Some (RuntimeSubject i))"
  by (simp add: runtime_groups_def groups_keys)

text \<open>The operations a list of changes asks for.\<close>

definition asked_operation :: "structural_change list \<Rightarrow> activity_operation \<Rightarrow> bool" where
  "asked_operation cs oper \<longleftrightarrow>
     (\<exists>c\<in>set cs. reconciliation_owner c = None \<and> oper \<in> set (change_operations c)) \<or>
     (\<exists>c\<in>set cs. \<exists>i. reconciliation_owner c = Some (NodeSubject i) \<and>
        oper \<in> {ReconcileNode (NodeTarget i), WaitForHealthy (NodeTarget i)}) \<or>
     (\<exists>c\<in>set cs. \<exists>i. reconciliation_owner c = Some (RuntimeSubject i) \<and>
        oper = ReconcileRuntime (RuntimeTarget i))"

lemma chain_drafts_operations: "map draft_operation (chain_drafts token deps opers) = opers"
  by (induction opers arbitrary: deps) (simp_all add: standard_draft_def)

lemma source_drafts_operations: "map draft_operation (source_drafts src) = snd src"
  by (simp add: source_drafts_def chain_drafts_operations)

lemma plan_sources_operations:
  "oper \<in> set (concat (map snd (plan_sources digest cs))) \<longleftrightarrow> asked_operation cs oper"
proof -
  have keys: "(\<exists>x\<in>set d. P (fst x)) \<longleftrightarrow> (\<exists>i\<in>fst ` set d. P i)" for d :: "('k \<times> 'v) list" and P by auto
  have "oper \<in> set (concat (map snd (map (node_source digest) (sort_key fst (node_groups cs))))) \<longleftrightarrow>
      (\<exists>i\<in>fst ` set (node_groups cs). oper \<in> {ReconcileNode (NodeTarget i), WaitForHealthy (NodeTarget i)})"
    by (auto simp: node_source_def)
  moreover have "oper \<in> set (concat (map snd (map (runtime_source digest) (sort_key fst (runtime_groups cs))))) \<longleftrightarrow>
      (\<exists>i\<in>fst ` set (runtime_groups cs). oper = ReconcileRuntime (RuntimeTarget i))"
    by (auto simp: runtime_source_def)
  moreover have "oper \<in> set (concat (map snd (map (change_source digest) (plain_changes cs)))) \<longleftrightarrow>
      (\<exists>c\<in>set cs. reconciliation_owner c = None \<and> oper \<in> set (change_operations c))"
    by (auto simp: change_source_def plain_changes_def)
  ultimately show ?thesis
    unfolding plan_sources_def asked_operation_def map_append concat_append set_append Un_iff
    by (auto simp: Bex_def node_groups_keys runtime_groups_keys)
qed

end
