(* ===== verification/Compile_Order.thy ===== *)
theory Compile_Order
  imports Compile_Laws
begin

text \<open>
  The dependencies of a compiled plan: which operation may come to wait for which, and that the second
  pass of the compiler adds such dependencies only.
\<close>

section \<open>Which change asks for which operation\<close>

lemmas operation_tables = change_operations_def added_operations_def removed_operations_def
  modified_operations_def is_edge_value_def environment_edge_def

lemma added_inv:
  assumes "oper \<in> set (added_operations c s v)"
  shows "(\<exists>i r. s = OwnerSubject (RuntimeSubject i) \<and> v = RuntimeValue r \<and>
      lc_ownership (runtime_lifecycle r) = OWNED \<and> oper = StartRuntime (RuntimeTarget i)) \<or>
    (\<exists>i n x. s = OwnerSubject (NodeSubject i) \<and> v = NodeValue n x \<and> lc_ownership (node_lifecycle n) = OWNED \<and>
      (oper = StartNode (NodeTarget i) \<or> oper = WaitForHealthy (NodeTarget i))) \<or>
    (\<exists>i e. s = EdgeSubject i \<and> v = EdgeValue e \<and> edge_binding e \<noteq> ENVIRONMENT \<and>
      oper = AddSocketConnection (SocketConnectionTarget i)) \<or>
    (\<exists>i g. s = OwnerSubject (PublicIngressSubject i) \<and> v = PublicIngressValue g \<and>
      oper = AllocatePublicIngress (PublicIngressActivityTarget i)) \<or>
    oper = review_of c UNSUPPORTED_CHANGE"
  using assms unfolding added_operations_def
  by (cases s; cases v; auto split: diff_owner.splits if_splits)

lemma removed_inv:
  assumes "oper \<in> set (removed_operations c s v)"
  shows "(\<exists>i r. s = OwnerSubject (RuntimeSubject i) \<and> v = RuntimeValue r \<and>
      lc_ownership (runtime_lifecycle r) = OWNED \<and> (oper = StopRuntime (RuntimeTarget i) \<or>
      lc_compute (runtime_lifecycle r) \<noteq> RETAINED \<and> oper = RemoveRuntimeResource (RuntimeTarget i))) \<or>
    (\<exists>i n x. s = OwnerSubject (NodeSubject i) \<and> v = NodeValue n x \<and> lc_ownership (node_lifecycle n) = OWNED \<and>
      (oper = StopNode (NodeTarget i) \<or>
      lc_compute (node_lifecycle n) \<noteq> RETAINED \<and> oper = RemoveNodeResource (NodeTarget i))) \<or>
    (\<exists>i e. s = EdgeSubject i \<and> v = EdgeValue e \<and> edge_binding e \<noteq> ENVIRONMENT \<and>
      oper = RemoveSocketConnection (SocketConnectionTarget i)) \<or>
    (\<exists>i g. s = OwnerSubject (PublicIngressSubject i) \<and> v = PublicIngressValue g \<and>
      oper = RemovePublicIngress (PublicIngressActivityTarget i)) \<or>
    oper = review_of c UNSUPPORTED_CHANGE"
  using assms unfolding removed_operations_def
  by (cases s; cases v; auto split: diff_owner.splits if_splits)

lemma modified_inv:
  assumes "oper \<in> set (modified_operations c s b a)"
  shows "(\<exists>i e. s = EdgeSubject i \<and> a = EdgeValue e \<and> edge_binding e \<noteq> ENVIRONMENT \<and>
      oper = SwitchSocketConnection (SocketConnectionTarget i)) \<or> 
    (\<exists>i e. s = EdgeSubject i \<and> a = EdgeValue e \<and> \<not> is_edge_value b \<and>
      oper = SwitchSocketConnection (SocketConnectionTarget i)) \<or> oper = review_of c UNSUPPORTED_CHANGE"
  using assms unfolding modified_operations_def
  by (cases s; cases a) (auto simp: is_edge_value_def environment_edge_def split: diff_owner.splits if_splits)

lemma operations_of_change:
  "StartRuntime (RuntimeTarget i) \<in> set (change_operations c) \<Longrightarrow>
     \<exists>r. c = AddedChange (OwnerSubject (RuntimeSubject i)) (RuntimeValue r) \<and> lc_ownership (runtime_lifecycle r) = OWNED"
  "StopRuntime (RuntimeTarget i) \<in> set (change_operations c) \<Longrightarrow>
     \<exists>r. c = RemovedChange (OwnerSubject (RuntimeSubject i)) (RuntimeValue r) \<and> lc_ownership (runtime_lifecycle r) = OWNED"
  "RemoveRuntimeResource (RuntimeTarget i) \<in> set (change_operations c) \<Longrightarrow>
     \<exists>r. c = RemovedChange (OwnerSubject (RuntimeSubject i)) (RuntimeValue r) \<and>
       lc_ownership (runtime_lifecycle r) = OWNED \<and> lc_compute (runtime_lifecycle r) \<noteq> RETAINED"
  "StartNode (NodeTarget i) \<in> set (change_operations c) \<Longrightarrow>
     \<exists>n x. c = AddedChange (OwnerSubject (NodeSubject i)) (NodeValue n x) \<and> lc_ownership (node_lifecycle n) = OWNED"
  "WaitForHealthy (NodeTarget i) \<in> set (change_operations c) \<Longrightarrow>
     \<exists>n x. c = AddedChange (OwnerSubject (NodeSubject i)) (NodeValue n x) \<and> lc_ownership (node_lifecycle n) = OWNED"
  "StopNode (NodeTarget i) \<in> set (change_operations c) \<Longrightarrow>
     \<exists>n x. c = RemovedChange (OwnerSubject (NodeSubject i)) (NodeValue n x) \<and> lc_ownership (node_lifecycle n) = OWNED"
  "RemoveNodeResource (NodeTarget i) \<in> set (change_operations c) \<Longrightarrow>
     \<exists>n x. c = RemovedChange (OwnerSubject (NodeSubject i)) (NodeValue n x) \<and>
       lc_ownership (node_lifecycle n) = OWNED \<and> lc_compute (node_lifecycle n) \<noteq> RETAINED"
  "AddSocketConnection (SocketConnectionTarget i) \<in> set (change_operations c) \<Longrightarrow>
     \<exists>e. c = AddedChange (EdgeSubject i) (EdgeValue e) \<and> edge_binding e \<noteq> ENVIRONMENT"
  "RemoveSocketConnection (SocketConnectionTarget i) \<in> set (change_operations c) \<Longrightarrow>
     \<exists>e. c = RemovedChange (EdgeSubject i) (EdgeValue e) \<and> edge_binding e \<noteq> ENVIRONMENT"
  "SwitchSocketConnection (SocketConnectionTarget i) \<in> set (change_operations c) \<Longrightarrow>
     \<exists>b e. c = ModifiedChange (EdgeSubject i) b (EdgeValue e)"
  "AllocatePublicIngress (PublicIngressActivityTarget i) \<in> set (change_operations c) \<Longrightarrow>
     \<exists>g. c = AddedChange (OwnerSubject (PublicIngressSubject i)) (PublicIngressValue g)"
  "RemovePublicIngress (PublicIngressActivityTarget i) \<in> set (change_operations c) \<Longrightarrow>
     \<exists>g. c = RemovedChange (OwnerSubject (PublicIngressSubject i)) (PublicIngressValue g)"
  "ReconcileNode t \<notin> set (change_operations c)"
  "ReconcileRuntime u \<notin> set (change_operations c)"
  "DestroyDataResource v \<notin> set (change_operations c)"
  by (cases c; auto simp: change_operations_def dest!: added_inv removed_inv modified_inv)+

section \<open>Which operation may wait for which\<close>

text \<open>\<open>precedes digest cs p s\<close>: the activity of \<open>s\<close> may come to depend on the one of \<open>p\<close>.\<close>

inductive precedes :: "(string \<Rightarrow> string) \<Rightarrow> structural_change list \<Rightarrow> activity_operation \<Rightarrow>
    activity_operation \<Rightarrow> bool" for digest cs where
  started: "precedes digest cs (StartNode t) (WaitForHealthy t)"
| reconciled: "precedes digest cs (ReconcileNode t) (WaitForHealthy t)"
| stopped_node: "precedes digest cs (StopNode t) (RemoveNodeResource t)"
| stopped_runtime: "precedes digest cs (StopRuntime u) (RemoveRuntimeResource u)"
| runtime_first: "AddedChange (OwnerSubject (NodeSubject i)) (NodeValue n x) \<in> set cs \<Longrightarrow>
    precedes digest cs (StartRuntime (RuntimeTarget (node_runtime n))) (StartNode (NodeTarget i))"
| ingress_before_connector: "AddedChange (OwnerSubject (PublicIngressSubject k)) (PublicIngressValue g) \<in> set cs \<Longrightarrow>
    precedes digest cs (AllocatePublicIngress (PublicIngressActivityTarget k)) (StartNode (NodeTarget (connector_node g)))"
| target_before_ingress: "AddedChange (OwnerSubject (PublicIngressSubject k)) (PublicIngressValue g) \<in> set cs \<Longrightarrow>
    oper = WaitForHealthy (NodeTarget (ingress_node g)) \<or> oper = ReconcileNode (NodeTarget (ingress_node g)) \<Longrightarrow>
    precedes digest cs oper (AllocatePublicIngress (PublicIngressActivityTarget k))"
| provider_first: "AddedChange (EdgeSubject k) (EdgeValue e) \<in> set cs \<Longrightarrow>
    change_operations (AddedChange (EdgeSubject k) (EdgeValue e)) = [] \<Longrightarrow>
    oper = StartNode (NodeTarget (edge_consumer e)) \<or> oper = ReconcileNode (NodeTarget (edge_consumer e)) \<Longrightarrow>
    precedes digest cs (WaitForHealthy (NodeTarget (edge_provider e))) oper"
| changed_provider_first: "ModifiedChange (EdgeSubject k) b (EdgeValue e) \<in> set cs \<Longrightarrow>
    change_operations (ModifiedChange (EdgeSubject k) b (EdgeValue e)) = [] \<Longrightarrow>
    precedes digest cs (WaitForHealthy (NodeTarget (edge_provider e))) (ReconcileNode (NodeTarget (edge_consumer e)))"
| endpoints_first: "c \<in> set cs \<Longrightarrow> (\<exists>k. c = AddedChange (EdgeSubject k) (EdgeValue e)) \<or>
    (\<exists>k b. c = ModifiedChange (EdgeSubject k) b (EdgeValue e)) \<Longrightarrow> n \<in> {edge_provider e, edge_consumer e} \<Longrightarrow>
    src \<in> set (plan_sources digest cs) \<Longrightarrow> oper \<in> set (snd src) \<Longrightarrow>
    occurs_in (change_token digest c) (activity_id_value (operation_id (fst src) oper)) \<Longrightarrow>
    precedes digest cs (WaitForHealthy (NodeTarget n)) oper"
| connector_before_ingress: "RemovedChange (OwnerSubject (PublicIngressSubject k)) (PublicIngressValue g) \<in> set cs \<Longrightarrow>
    precedes digest cs (StopNode (NodeTarget (connector_node g))) (RemovePublicIngress (PublicIngressActivityTarget k))"
| ingress_before_target: "RemovedChange (OwnerSubject (PublicIngressSubject k)) (PublicIngressValue g) \<in> set cs \<Longrightarrow>
    ingress_node g \<noteq> connector_node g \<Longrightarrow>
    precedes digest cs (RemovePublicIngress (PublicIngressActivityTarget k)) (StopNode (NodeTarget (ingress_node g)))"
| disconnected: "RemovedChange (EdgeSubject k) (EdgeValue e) \<in> set cs \<Longrightarrow> n \<in> {edge_provider e, edge_consumer e} \<Longrightarrow>
    precedes digest cs (RemoveSocketConnection (SocketConnectionTarget k)) (StopNode (NodeTarget n))"
| consumer_reconciled: "RemovedChange (EdgeSubject k) (EdgeValue e) \<in> set cs \<Longrightarrow>
    precedes digest cs (ReconcileNode (NodeTarget (edge_consumer e))) (StopNode (NodeTarget (edge_provider e)))"
| switched: "ModifiedChange (EdgeSubject k) (EdgeValue b) (EdgeValue a) \<in> set cs \<Longrightarrow>
    n \<in> {edge_provider b, edge_consumer b} \<Longrightarrow>
    precedes digest cs (SwitchSocketConnection (SocketConnectionTarget k)) (StopNode (NodeTarget n))"
| consumer_moved: "ModifiedChange (EdgeSubject k) (EdgeValue b) (EdgeValue a) \<in> set cs \<Longrightarrow>
    precedes digest cs (ReconcileNode (NodeTarget (edge_consumer a))) (StopNode (NodeTarget (edge_provider b)))"
| nodes_before_runtime: "RemovedChange (OwnerSubject (NodeSubject i)) (NodeValue n x) \<in> set cs \<Longrightarrow>
    oper = RemoveNodeResource (NodeTarget i) \<or> oper = StopNode (NodeTarget i) \<Longrightarrow>
    precedes digest cs oper (StopRuntime (RuntimeTarget (node_runtime n)))"
| moved_in: "ModifiedChange (FieldSubject (NodeSubject i) RUNTIME_MEMBERSHIP k) (TextValue b) (TextValue a) \<in> set cs \<Longrightarrow>
    precedes digest cs (StartRuntime (RuntimeTarget a)) (ReconcileNode (NodeTarget i))"
| moved_out: "ModifiedChange (FieldSubject (NodeSubject i) RUNTIME_MEMBERSHIP k) (TextValue b) (TextValue a) \<in> set cs \<Longrightarrow>
    precedes digest cs (ReconcileNode (NodeTarget i)) (StopRuntime (RuntimeTarget b))"

section \<open>Positions of drafts\<close>

definition op_at :: "activity_draft list \<Rightarrow> nat \<Rightarrow> activity_operation" where
  "op_at ds p = draft_operation (ds ! p)"

definition dict_ok :: "activity_draft list \<Rightarrow> (string \<times> nat) list \<Rightarrow> (string \<Rightarrow> activity_operation) \<Rightarrow> bool" where
  "dict_ok ds d mk \<longleftrightarrow> (\<forall>i p. (i, p) \<in> set d \<longrightarrow> p < length ds \<and> op_at ds p = mk i)"

text \<open>The dictionaries hold positions of drafts of their operation, and the values of the changes.\<close>

definition dicts_typed :: "structural_change list \<Rightarrow> compile_state \<Rightarrow> bool" where
  "dicts_typed cs st \<longleftrightarrow>
     dict_ok (drafts st) (start_runtime st) (\<lambda>i. StartRuntime (RuntimeTarget i)) \<and>
     dict_ok (drafts st) (stop_runtime st) (\<lambda>i. StopRuntime (RuntimeTarget i)) \<and>
     dict_ok (drafts st) (remove_runtime st) (\<lambda>i. RemoveRuntimeResource (RuntimeTarget i)) \<and>
     dict_ok (drafts st) (start_node st) (\<lambda>i. StartNode (NodeTarget i)) \<and>
     dict_ok (drafts st) (healthy_node st) (\<lambda>i. WaitForHealthy (NodeTarget i)) \<and>
     dict_ok (drafts st) (stop_node st) (\<lambda>i. StopNode (NodeTarget i)) \<and>
     dict_ok (drafts st) (remove_node st) (\<lambda>i. RemoveNodeResource (NodeTarget i)) \<and>
     dict_ok (drafts st) (allocate_ingress st) (\<lambda>i. AllocatePublicIngress (PublicIngressActivityTarget i)) \<and>
     dict_ok (drafts st) (remove_ingress st) (\<lambda>i. RemovePublicIngress (PublicIngressActivityTarget i)) \<and>
     dict_ok (drafts st) (reconcile_node st) (\<lambda>i. ReconcileNode (NodeTarget i))"

definition values_typed :: "structural_change list \<Rightarrow> compile_state \<Rightarrow> bool" where
  "values_typed cs st \<longleftrightarrow>
     (\<forall>k g. (k, g) \<in> set (added_ingresses st) \<longrightarrow>
       AddedChange (OwnerSubject (PublicIngressSubject k)) (PublicIngressValue g) \<in> set cs) \<and>
     (\<forall>k g. (k, g) \<in> set (removed_ingresses st) \<longrightarrow>
       RemovedChange (OwnerSubject (PublicIngressSubject k)) (PublicIngressValue g) \<in> set cs) \<and>
     (\<forall>i r. (i, r) \<in> set (removed_node_runtime st) \<longrightarrow>
       (\<exists>n x. RemovedChange (OwnerSubject (NodeSubject i)) (NodeValue n x) \<in> set cs \<and> node_runtime n = r)) \<and>
     (\<forall>i gs c. (i, gs) \<in> set (node_reconciliations st) \<longrightarrow> c \<in> set gs \<longrightarrow>
       c \<in> set cs \<and> reconciliation_owner c = Some (NodeSubject i))"

definition edges_typed :: "structural_change list \<Rightarrow> compile_state \<Rightarrow> bool" where
  "edges_typed cs st \<longleftrightarrow>
     (\<forall>k q e. (k, q, e) \<in> set (removed_edges st) \<longrightarrow> RemovedChange (EdgeSubject k) (EdgeValue e) \<in> set cs \<and>
       (\<forall>p. q = Some p \<longrightarrow> p < length (drafts st) \<and> op_at (drafts st) p = RemoveSocketConnection (SocketConnectionTarget k))) \<and>
     (\<forall>k q b a. (k, q, b, a) \<in> set (modified_edges st) \<longrightarrow>
       ModifiedChange (EdgeSubject k) (EdgeValue b) (EdgeValue a) \<in> set cs \<and>
       (\<forall>p. q = Some p \<longrightarrow> p < length (drafts st) \<and> op_at (drafts st) p = SwitchSocketConnection (SocketConnectionTarget k)))"

lemma in_update: "x \<in> set (AList.update k v d) \<Longrightarrow> x = (k, v) \<or> x \<in> set d"
  by (induction d) (auto split: if_splits)

lemma op_at_append [simp]: "p < length ds \<Longrightarrow> op_at (ds @ es) p = op_at ds p"
  by (simp add: op_at_def nth_append)

lemma op_at_last [simp]: "op_at (ds @ [x]) (length ds) = draft_operation x"
  by (simp add: op_at_def)

lemma dict_ok_grow [intro]: "dict_ok ds d mk \<Longrightarrow> dict_ok (ds @ es) d mk"
  by (force simp: dict_ok_def)

lemma dict_ok_update [intro]:
  "dict_ok ds d mk \<Longrightarrow> draft_operation x = mk i \<Longrightarrow> dict_ok (ds @ [x]) (AList.update i (length ds) d) mk"
  by (fastforce simp: dict_ok_def op_at_def nth_append dest: in_update)

lemma dict_ok_Nil [simp]: "dict_ok ds [] mk"
  by (simp add: dict_ok_def)

section \<open>The first pass\<close>

lemma register_edge_dicts [simp]:
  "dicts_typed cs (register_edge c i p st) \<longleftrightarrow> dicts_typed cs st"
  "dicts_typed cs (register_switch c i p st) \<longleftrightarrow> dicts_typed cs st"
  by (auto simp: dicts_typed_def register_edge_def register_switch_def split: structural_change.split diff_value.split)

lemma register_dicts:
  assumes "dicts_typed cs st"
  shows "dicts_typed cs (register_draft c d st)"
proof -
  have "dicts_typed cs (st\<lparr>drafts := drafts st @ [d]\<rparr>)"
    using assms by (simp add: dicts_typed_def dict_ok_grow)
  then show ?thesis
    unfolding register_draft_def Let_def
    by (cases "draft_operation d"; simp split: node_target.split runtime_target.split
        socket_connection_target.split public_ingress_target.split)
      (use assms in \<open>simp_all add: dicts_typed_def dict_ok_grow dict_ok_update\<close>)
qed

lemma note_dicts: "dicts_typed cs (note_change c st) \<longleftrightarrow> dicts_typed cs st"
  unfolding dicts_typed_def note_change_def
  by (auto split: structural_change.split diff_subject.split diff_owner.split diff_value.split)

lemma note_values:
  assumes "values_typed cs st" and "c \<in> set cs"
  shows "values_typed cs (note_change c st)"
  using assms unfolding values_typed_def note_change_def
  by (cases c) (auto split: diff_subject.split diff_owner.split diff_value.split dest: in_update)

lemma note_edges:
  assumes "edges_typed cs st" and "c \<in> set cs"
  shows "edges_typed cs (note_change c st)"
  using assms unfolding edges_typed_def note_change_def
  by (cases c) (auto split: diff_subject.split diff_owner.split diff_value.split dest: in_update)

lemma register_values:
  assumes "values_typed cs st" and "c \<in> set cs" and "draft_operation d \<in> set (change_operations c)"
  shows "values_typed cs (register_draft c d st)"
proof (cases "draft_operation d")
  case (StopNode t)
  then obtain i where t: "draft_operation d = StopNode (NodeTarget i)" by (cases t) auto
  with assms(3) obtain n x where "c = RemovedChange (OwnerSubject (NodeSubject i)) (NodeValue n x)"
    using operations_of_change(6) by metis
  with assms(1,2) t show ?thesis
    by (auto simp: values_typed_def register_draft_def removed_runtime_of_def dest!: in_update)
qed (use assms(1) in \<open>auto simp: values_typed_def register_draft_def register_edge_def register_switch_def Let_def
    split: node_target.split runtime_target.split socket_connection_target.split public_ingress_target.split
      structural_change.split diff_value.split\<close>)

lemma edges_typed_grow:
  assumes "edges_typed cs st" and "drafts st' = drafts st @ ds"
    and "removed_edges st' = removed_edges st" and "modified_edges st' = modified_edges st"
  shows "edges_typed cs st'"
  using assms unfolding edges_typed_def by fastforce

lemma register_edges:
  assumes "edges_typed cs st" and "c \<in> set cs" and "draft_operation d \<in> set (change_operations c)"
  shows "edges_typed cs (register_draft c d st)"
proof -
  have grown: "edges_typed cs (st\<lparr>drafts := drafts st @ [d]\<rparr>)" by (rule edges_typed_grow [OF assms(1)]) auto
  show ?thesis
  proof (cases "draft_operation d")
    case (RemoveSocketConnection t)
    then obtain i where t: "draft_operation d = RemoveSocketConnection (SocketConnectionTarget i)" by (cases t) auto
    with assms(3) obtain e where "c = RemovedChange (EdgeSubject i) (EdgeValue e)"
      using operations_of_change(9) by metis
    with assms(2) t grown show ?thesis
      by (auto simp: edges_typed_def register_draft_def register_edge_def Let_def dest!: in_update)
  next
    case (SwitchSocketConnection t)
    then obtain i where t: "draft_operation d = SwitchSocketConnection (SocketConnectionTarget i)" by (cases t) auto
    with assms(3) obtain b e where "c = ModifiedChange (EdgeSubject i) b (EdgeValue e)"
      using operations_of_change(10) by metis
    with assms(2) t grown show ?thesis
      by (auto simp: edges_typed_def register_draft_def register_switch_def Let_def
          split: diff_value.split dest!: in_update)
  qed (auto simp: register_draft_def Let_def split: node_target.split runtime_target.split
      public_ingress_target.split intro: edges_typed_grow [OF assms(1)])
qed

definition typed :: "structural_change list \<Rightarrow> compile_state \<Rightarrow> bool" where
  "typed cs st \<longleftrightarrow> dicts_typed cs st \<and> values_typed cs st \<and> edges_typed cs st"

lemma typed_empty: "typed cs empty_compile"
  by (simp add: typed_def dicts_typed_def values_typed_def edges_typed_def empty_compile_def)

lemma fold_register_typed:
  assumes "typed cs st" and "c \<in> set cs" and "set (map draft_operation ds) \<subseteq> set (change_operations c)"
  shows "typed cs (fold (register_draft c) ds st)"
  using assms(1,3)
proof (induction ds arbitrary: st)
  case (Cons d ds)
  then have "typed cs (register_draft c d st)"
    using assms(2) by (simp add: typed_def register_dicts register_values register_edges)
  with Cons show ?case by simp
qed simp

lemma append_at_in:
  assumes "(i, gs) \<in> set (append_at k c d)" and "c' \<in> set gs"
  shows "i = k \<and> c' = c \<or> (\<exists>hs. (i, hs) \<in> set d \<and> c' \<in> set hs)"
proof -
  from assms(1) consider "i = k" "gs = (case map_of d k of None \<Rightarrow> [] | Some cs \<Rightarrow> cs) @ [c]" | "(i, gs) \<in> set d"
    by (auto simp: append_at_def dest!: in_update)
  then show ?thesis using assms(2) by cases (auto split: option.splits dest: map_of_SomeD)
qed

lemma collect_change_typed:
  assumes "typed cs st" and "c \<in> set cs" and "collect_change digest st c = Inr st'"
  shows "typed cs st'"
proof -
  have noted: "typed cs (note_change c st)"
    using assms(1,2) by (simp add: typed_def note_dicts note_values note_edges)
  show ?thesis
  proof (cases "reconciliation_owner c")
    case None
    then have "st' = fold (register_draft c) (source_drafts (change_source digest c)) (note_change c st)"
      using assms(3) by (simp add: collect_change_Inr)
    moreover have "set (map draft_operation (source_drafts (change_source digest c))) \<subseteq> set (change_operations c)"
      unfolding source_drafts_operations by (simp add: change_source_def)
    ultimately show ?thesis using fold_register_typed [OF noted assms(2)] by blast
  next
    case (Some w)
    then consider i where "w = NodeSubject i" | i where "w = RuntimeSubject i" using owner_shape by blast
    then show ?thesis
    proof cases
      case (1 i)
      then have st': "st' = (note_change c st)\<lparr>node_reconciliations := append_at i c (node_reconciliations st)\<rparr>"
        using assms(3) Some by (simp add: collect_change_Inr)
      have "c' \<in> set cs \<and> reconciliation_owner c' = Some (NodeSubject j)"
        if "(j, gs) \<in> set (append_at i c (node_reconciliations st))" "c' \<in> set gs" for j gs c'
        using append_at_in [OF that] assms(1,2) Some 1 by (auto simp: typed_def values_typed_def)
      with noted show ?thesis
        unfolding st' by (auto simp: typed_def dicts_typed_def values_typed_def edges_typed_def)
    next
      case (2 i)
      then have "st' = (note_change c st)\<lparr>runtime_reconciliations := append_at i c (runtime_reconciliations st)\<rparr>"
        using assms(3) Some by (simp add: collect_change_Inr)
      with noted show ?thesis by (simp add: typed_def dicts_typed_def values_typed_def edges_typed_def)
    qed
  qed
qed

lemma foldR_preserves:
  assumes "foldR f st xs = Inr st'" and "I st"
    and "\<And>x st st'. x \<in> set xs \<Longrightarrow> I st \<Longrightarrow> f st x = Inr st' \<Longrightarrow> I st'"
  shows "I st'"
  using assms by (induction xs arbitrary: st) (auto simp: bindR_Inr_iff)

lemma dict_ok_pair [intro]:
  assumes "dict_ok ds d mk"
  shows "draft_operation x = mk i \<Longrightarrow> dict_ok (ds @ [x, y]) (AList.update i (length ds) d) mk"
    and "draft_operation y = mk i \<Longrightarrow> dict_ok (ds @ [x, y]) (AList.update i (Suc (length ds)) d) mk"
proof -
  show "dict_ok (ds @ [x, y]) (AList.update i (length ds) d) mk" if "draft_operation x = mk i"
    using dict_ok_grow [OF dict_ok_update [OF assms that], of "[y]"] by simp
  show "dict_ok (ds @ [x, y]) (AList.update i (Suc (length ds)) d) mk" if "draft_operation y = mk i"
    using dict_ok_update [OF dict_ok_grow [OF assms, of "[x]"] that] by simp
qed

lemma reconcile_node_typed:
  assumes "typed cs st" and "reconcile_one_node digest st item = Inr st'"
  shows "typed cs st'"
proof -
  obtain x y where s: "source_drafts (node_source digest item) = [x, y]"
    "draft_operation x = ReconcileNode (NodeTarget (fst item))"
    "draft_operation y = WaitForHealthy (NodeTarget (fst item))"
    by (simp add: source_drafts_def node_source_def standard_draft_def)
  have st': "st' = st\<lparr>drafts := drafts st @ [x, y],
      reconcile_node := AList.update (fst item) (length (drafts st)) (reconcile_node st),
      healthy_node := AList.update (fst item) (Suc (length (drafts st))) (healthy_node st)\<rparr>"
    using assms(2) s(1) by (simp add: reconcile_node_Inr)
  have "edges_typed cs st'"
    by (rule edges_typed_grow [of cs st]) (use assms(1) st' in \<open>simp_all add: typed_def\<close>)
  moreover have "dicts_typed cs st'"
    using assms(1) s(2,3) unfolding st' by (simp add: typed_def dicts_typed_def dict_ok_grow dict_ok_pair)
  ultimately show ?thesis using assms(1) st' by (simp add: typed_def values_typed_def)
qed

lemma reconcile_runtime_typed:
  assumes "typed cs st" and "reconcile_one_runtime digest st item = Inr st'"
  shows "typed cs st'"
proof -
  have st': "st' = st\<lparr>drafts := drafts st @ source_drafts (runtime_source digest item)\<rparr>"
    using assms(2) by (simp add: reconcile_runtime_Inr)
  have "edges_typed cs st'"
    by (rule edges_typed_grow [of cs st]) (use assms(1) st' in \<open>simp_all add: typed_def\<close>)
  then show ?thesis using assms(1) st' by (simp add: typed_def values_typed_def dicts_typed_def dict_ok_grow)
qed

text \<open>Every draft comes from a source of the plan.\<close>

definition sourced :: "(string \<Rightarrow> string) \<Rightarrow> structural_change list \<Rightarrow> compile_state \<Rightarrow> bool" where
  "sourced digest cs st \<longleftrightarrow> (\<forall>d\<in>set (drafts st). \<exists>src\<in>set (plan_sources digest cs).
     draft_operation d \<in> set (snd src) \<and> draft_id d = operation_id (fst src) (draft_operation d))"

definition covered :: "(string \<Rightarrow> string) \<Rightarrow> structural_change list \<Rightarrow> compile_state \<Rightarrow> bool" where
  "covered digest cs st \<longleftrightarrow> (\<forall>src\<in>set (plan_sources digest cs). \<forall>oper\<in>set (snd src).
     \<exists>p<length (drafts st). op_at (drafts st) p = oper \<and> draft_id (drafts st ! p) = operation_id (fst src) oper)"

lemma chain_drafts_covered:
  "oper \<in> set opers \<Longrightarrow> \<exists>d\<in>set (chain_drafts token deps opers). draft_operation d = oper \<and>
     draft_id d = operation_id token oper"
  by (induction opers arbitrary: deps) (auto simp: standard_draft_def)

lemma chain_drafts_sourced:
  "d \<in> set (chain_drafts token deps opers) \<Longrightarrow>
     draft_operation d \<in> set opers \<and> draft_id d = operation_id token (draft_operation d)"
  by (induction opers arbitrary: deps) (auto simp: standard_draft_def)

lemma collect_changes_typed:
  assumes "collect_changes digest cs = Inr st"
  shows "typed cs st" and "sourced digest cs st" and "covered digest cs st"
proof -
  obtain st1 st2 where 1: "foldR (collect_change digest) empty_compile cs = Inr st1"
    and 2: "foldR (reconcile_one_node digest) st1 (sort_key fst (node_reconciliations st1)) = Inr st2"
    and 3: "foldR (reconcile_one_runtime digest) st2 (sort_key fst (runtime_reconciliations st2)) = Inr st"
    using assms by (auto simp: collect_changes_def bindR_Inr_iff)
  have "typed cs st1" by (rule foldR_preserves [where I = "typed cs", OF 1 typed_empty]) (rule collect_change_typed)
  then have "typed cs st2" by (rule foldR_preserves [where I = "typed cs", OF 2]) (rule reconcile_node_typed)
  then show "typed cs st" by (rule foldR_preserves [where I = "typed cs", OF 3]) (rule reconcile_runtime_typed)
  show "sourced digest cs st"
    unfolding sourced_def collect_changes_Inr(1) [OF assms]
    by (auto simp: source_drafts_def dest!: chain_drafts_sourced)
  show "covered digest cs st" unfolding covered_def
  proof (intro ballI)
    fix src oper assume src: "src \<in> set (plan_sources digest cs)" "oper \<in> set (snd src)"
    then obtain d where "d \<in> set (source_drafts src)" "draft_operation d = oper" "draft_id d = operation_id (fst src) oper"
      using chain_drafts_covered unfolding source_drafts_def by blast
    with src(1) have "d \<in> set (drafts st)" using collect_changes_Inr(1) [OF assms] by auto
    with \<open>draft_operation d = oper\<close> \<open>draft_id d = _\<close> show "\<exists>p<length (drafts st). op_at (drafts st) p = oper \<and>
        draft_id (drafts st ! p) = operation_id (fst src) oper"
      by (auto simp: op_at_def in_set_conv_nth)
  qed
qed

section \<open>Adding dependencies\<close>

text \<open>\<open>linked R st st'\<close>: the second state adds dependencies allowed by \<open>R\<close> to the drafts of the first.\<close>

inductive linked :: "(activity_operation \<Rightarrow> activity_operation \<Rightarrow> bool) \<Rightarrow> compile_state \<Rightarrow> compile_state \<Rightarrow> bool"
  for R where
  linked_refl: "linked R st st"
| linked_step: "linked R st st' \<Longrightarrow> s < length (drafts st') \<Longrightarrow> p < length (drafts st') \<Longrightarrow>
    R (op_at (drafts st') p) (op_at (drafts st') s) \<Longrightarrow> linked R st (add_dependency s p st')"

lemma linked_trans: "linked R b c \<Longrightarrow> linked R a b \<Longrightarrow> linked R a c"
  by (induction rule: linked.induct) (auto intro: linked.intros)

definition draft_head :: "activity_draft \<Rightarrow> activity_id \<times> activity_operation \<times> risk_level \<times> activity_impact" where
  "draft_head d = (draft_id d, draft_operation d, draft_risk d, draft_impact d)"

lemma after_draft_head [simp]: "draft_head (after_draft p d) = draft_head d"
  by (simp add: draft_head_def after_draft_def)

lemma add_dependency_frame:
  "\<exists>ds. add_dependency s p st = st\<lparr>drafts := ds\<rparr> \<and> map draft_head ds = map draft_head (drafts st)"
proof (cases "s < length (drafts st) \<and> p < length (drafts st)")
  case True
  then have "map draft_head ((drafts st)[s := after_draft (drafts st ! p) (drafts st ! s)]) = map draft_head (drafts st)"
    by (simp add: map_update list_update_same_conv)
  with True show ?thesis by (auto simp: add_dependency_def)
qed (force simp: add_dependency_def)

lemma linked_frame:
  "linked R st st' \<Longrightarrow> \<exists>ds. st' = st\<lparr>drafts := ds\<rparr> \<and> map draft_head ds = map draft_head (drafts st)"
proof (induction rule: linked.induct)
  case (linked_refl st)
  show ?case by (rule exI [of _ "drafts st"]) simp
next
  case (linked_step st st' s p)
  then show ?case using add_dependency_frame [of s p st'] by auto
qed

lemma heads_views:
  assumes "map draft_head ds = map draft_head es"
  shows "length ds = length es" and "op_at ds p = op_at es p \<or> \<not> p < length es"
    and "map draft_id ds = map draft_id es" and "map draft_operation ds = map draft_operation es"
proof -
  show l: "length ds = length es" using assms by (metis length_map)
  show "map draft_id ds = map draft_id es" "map draft_operation ds = map draft_operation es"
    using arg_cong [OF assms, of "map fst"] arg_cong [OF assms, of "map (\<lambda>h. fst (snd h))"]
    by (simp_all add: draft_head_def comp_def)
  then show "op_at ds p = op_at es p \<or> \<not> p < length es"
    using l by (metis nth_map op_at_def)
qed

lemma linked_typed:
  assumes "linked R st st'" and "typed cs st"
  shows "typed cs st'"
proof -
  obtain ds where ds: "st' = st\<lparr>drafts := ds\<rparr>" "map draft_head ds = map draft_head (drafts st)"
    using linked_frame [OF assms(1)] by blast
  note v = heads_views [OF ds(2)]
  have "dict_ok (drafts st) d mk \<Longrightarrow> dict_ok ds d mk" for d mk using v(1,2) unfolding dict_ok_def by metis
  moreover have "edges_typed cs st'" using assms(2) v(1,2) ds(1)
    unfolding typed_def edges_typed_def by simp metis
  ultimately show ?thesis using assms(2) ds(1) by (simp add: typed_def dicts_typed_def values_typed_def)
qed

lemma linked_at:
  assumes "linked R st st'" and "p < length (drafts st)"
  shows "p < length (drafts st') \<and> op_at (drafts st') p = op_at (drafts st) p \<and>
    draft_id (drafts st' ! p) = draft_id (drafts st ! p)"
proof -
  obtain ds where ds: "st' = st\<lparr>drafts := ds\<rparr>" "map draft_head ds = map draft_head (drafts st)"
    using linked_frame [OF assms(1)] by blast
  note v = heads_views [OF ds(2)]
  from v(3) assms(2) v(1) have "draft_id (ds ! p) = draft_id (drafts st ! p)" by (metis nth_map)
  with v(1,2) assms(2) ds(1) show ?thesis by auto
qed

lemma linked_fields:
  assumes "linked R st st'"
  shows "start_runtime st' = start_runtime st" "stop_runtime st' = stop_runtime st"
    "remove_runtime st' = remove_runtime st" "start_node st' = start_node st"
    "healthy_node st' = healthy_node st" "stop_node st' = stop_node st" "remove_node st' = remove_node st"
    "allocate_ingress st' = allocate_ingress st" "remove_ingress st' = remove_ingress st"
    "reconcile_node st' = reconcile_node st" "added_ingresses st' = added_ingresses st"
    "removed_ingresses st' = removed_ingresses st" "removed_node_runtime st' = removed_node_runtime st"
    "removed_edges st' = removed_edges st" "modified_edges st' = modified_edges st"
    "node_reconciliations st' = node_reconciliations st" "length (drafts st') = length (drafts st)"
proof -
  obtain ds where ds: "st' = st\<lparr>drafts := ds\<rparr>" "map draft_head ds = map draft_head (drafts st)"
    using linked_frame [OF assms] by blast
  show "start_runtime st' = start_runtime st" "stop_runtime st' = stop_runtime st"
    "remove_runtime st' = remove_runtime st" "start_node st' = start_node st"
    "healthy_node st' = healthy_node st" "stop_node st' = stop_node st" "remove_node st' = remove_node st"
    "allocate_ingress st' = allocate_ingress st" "remove_ingress st' = remove_ingress st"
    "reconcile_node st' = reconcile_node st" "added_ingresses st' = added_ingresses st"
    "removed_ingresses st' = removed_ingresses st" "removed_node_runtime st' = removed_node_runtime st"
    "removed_edges st' = removed_edges st" "modified_edges st' = modified_edges st"
    "node_reconciliations st' = node_reconciliations st" "length (drafts st') = length (drafts st)"
    by (simp_all add: ds(1) heads_views(1) [OF ds(2)])
qed

text \<open>A state that the second pass has reached from \<open>st\<close>, and the positions it may connect.\<close>

definition allowed :: "(activity_operation \<Rightarrow> activity_operation \<Rightarrow> bool) \<Rightarrow> compile_state \<Rightarrow> nat option \<Rightarrow>
    nat option \<Rightarrow> bool" where
  "allowed R st s p \<longleftrightarrow> (\<forall>a b. s = Some a \<longrightarrow> p = Some b \<longrightarrow> a < length (drafts st) \<and> b < length (drafts st) \<and>
     R (op_at (drafts st) b) (op_at (drafts st) a))"

lemma linked_add:
  assumes "linked R st st'" and "allowed R st (Some a) (Some b)"
  shows "linked R st (add_dependency a b st')"
proof -
  have a: "a < length (drafts st)" "b < length (drafts st)" "R (op_at (drafts st) b) (op_at (drafts st) a)"
    using assms(2) by (auto simp: allowed_def)
  then show ?thesis
    using linked_at [OF assms(1) a(1)] linked_at [OF assms(1) a(2)] assms(1) by (intro linked_step) auto
qed

lemma linked_link:
  assumes "linked R st st'" and "allowed R st s p"
  shows "linked R st (link s p st')"
  using assms by (cases s; cases p) (auto simp: link_def intro: linked_add)

lemma linked_fold:
  assumes "linked R st st'" and "\<And>x st'. x \<in> set xs \<Longrightarrow> linked R st st' \<Longrightarrow> linked R st (f x st')"
  shows "linked R st (fold f xs st')"
  using assms by (induction xs arbitrary: st') simp_all

lemma linked_foldR:
  assumes "linked R st st'" and "foldR f st' xs = Inr st1"
    and "\<And>x st' st''. x \<in> set xs \<Longrightarrow> linked R st st' \<Longrightarrow> f st' x = Inr st'' \<Longrightarrow> linked R st st''"
  shows "linked R st st1"
  by (rule foldR_preserves [where I = "linked R st", OF assms(2,1)]) (rule assms(3))

lemma linked_start:
  assumes "linked R st st'" and "allowed R st (map_of (start_node st) i) p" and "link_start i p st' = Inr st''"
  shows "linked R st st''"
  using assms by (auto simp: link_start_def linked_fields(4) split: option.splits intro: linked_add)

section \<open>The second pass\<close>

lemma dict_lookup: "dict_ok ds d mk \<Longrightarrow> map_of d i = Some p \<Longrightarrow> p < length ds \<and> op_at ds p = mk i"
  by (auto simp: dict_ok_def dest!: map_of_SomeD)

lemma typed_lookup:
  assumes "typed cs st"
  shows "map_of (start_runtime st) i = Some p \<Longrightarrow> p < length (drafts st) \<and> op_at (drafts st) p = StartRuntime (RuntimeTarget i)"
    and "map_of (stop_runtime st) i = Some p \<Longrightarrow> p < length (drafts st) \<and> op_at (drafts st) p = StopRuntime (RuntimeTarget i)"
    and "map_of (remove_runtime st) i = Some p \<Longrightarrow> p < length (drafts st) \<and> op_at (drafts st) p = RemoveRuntimeResource (RuntimeTarget i)"
    and "map_of (start_node st) i = Some p \<Longrightarrow> p < length (drafts st) \<and> op_at (drafts st) p = StartNode (NodeTarget i)"
    and "map_of (healthy_node st) i = Some p \<Longrightarrow> p < length (drafts st) \<and> op_at (drafts st) p = WaitForHealthy (NodeTarget i)"
    and "map_of (stop_node st) i = Some p \<Longrightarrow> p < length (drafts st) \<and> op_at (drafts st) p = StopNode (NodeTarget i)"
    and "map_of (remove_node st) i = Some p \<Longrightarrow> p < length (drafts st) \<and> op_at (drafts st) p = RemoveNodeResource (NodeTarget i)"
    and "map_of (allocate_ingress st) i = Some p \<Longrightarrow> p < length (drafts st) \<and> op_at (drafts st) p = AllocatePublicIngress (PublicIngressActivityTarget i)"
    and "map_of (remove_ingress st) i = Some p \<Longrightarrow> p < length (drafts st) \<and> op_at (drafts st) p = RemovePublicIngress (PublicIngressActivityTarget i)"
    and "map_of (reconcile_node st) i = Some p \<Longrightarrow> p < length (drafts st) \<and> op_at (drafts st) p = ReconcileNode (NodeTarget i)"
  by (insert assms, unfold typed_def dicts_typed_def, (elim conjE, erule (1) dict_lookup)+)

lemma connector_step_linked:
  assumes l: "linked (precedes digest cs) st st1" and t: "typed cs st" and item: "(k, g) \<in> set (added_ingresses st)"
    and f: "(if connector_node g \<noteq> i then Inr st1 else link_start i (map_of (allocate_ingress st1) k) st1) = Inr st2"
  shows "linked (precedes digest cs) st st2"
proof -
  have "AddedChange (OwnerSubject (PublicIngressSubject k)) (PublicIngressValue g) \<in> set cs"
    using t item by (auto simp: typed_def values_typed_def)
  note p = ingress_before_connector [OF this]
  show ?thesis
  proof (cases "connector_node g = i")
    case True
    then have "link_start i (map_of (allocate_ingress st1) k) st1 = Inr st2" using f by simp
    with l _ show ?thesis by (rule linked_start)
      (use p True in \<open>auto simp: allowed_def linked_fields(8) [OF l] dest!: typed_lookup [OF t]\<close>)
  qed (use f l in simp)
qed

lemma connector_loop_linked:
  assumes l: "linked (precedes digest cs) st st1" and t: "typed cs st"
    and "foldR (\<lambda>st (k, g). if connector_node g \<noteq> i then Inr st
         else link_start i (map_of (allocate_ingress st) k) st) st1 (added_ingresses st) = Inr st''"
  shows "linked (precedes digest cs) st st''"
proof (rule linked_foldR [OF l assms(3)])
  fix item st2 st3
  assume item: "item \<in> set (added_ingresses st)" and l2: "linked (precedes digest cs) st st2"
    and f: "(case item of (k, g) \<Rightarrow> if connector_node g \<noteq> i then Inr st2
       else link_start i (map_of (allocate_ingress st2) k) st2) = Inr st3"
  obtain k g where kg: "item = (k, g)" by force
  show "linked (precedes digest cs) st st3"
    by (rule connector_step_linked [OF l2 t item [unfolded kg] f [unfolded kg prod.case]])
qed

lemma added_node_linked:
  assumes "linked (precedes digest cs) st st'" and t: "typed cs st"
    and "AddedChange (OwnerSubject (NodeSubject i)) (NodeValue n x) \<in> set cs"
    and "added_node_dependencies i n st' = Inr st''"
  shows "linked (precedes digest cs) st st''"
proof -
  obtain st1 where 1: "link_start i (map_of (start_runtime st') (node_runtime n)) st' = Inr st1"
    and 2: "foldR (\<lambda>st (k, g). if connector_node g \<noteq> i then Inr st
         else link_start i (map_of (allocate_ingress st) k) st) st1 (added_ingresses st1) = Inr st''"
    using assms(4) by (auto simp: added_node_dependencies_def bindR_Inr_iff)
  have l1: "linked (precedes digest cs) st st1"
    using assms(1) _ 1 by (rule linked_start)
      (use runtime_first [OF assms(3)] in \<open>auto simp: allowed_def linked_fields(1) [OF assms(1)] dest!: typed_lookup [OF t]\<close>)
  show ?thesis by (rule connector_loop_linked [OF l1 t 2 [unfolded linked_fields(11) [OF l1]]])
qed

lemma added_ingress_linked:
  assumes l: "linked (precedes digest cs) st st'" and t: "typed cs st"
    and c: "AddedChange (OwnerSubject (PublicIngressSubject k)) (PublicIngressValue g) \<in> set cs"
  shows "linked (precedes digest cs) st (added_ingress_dependencies k g st')"
  unfolding added_ingress_dependencies_def Let_def linked_fields [OF l]
  by (intro linked_link l; use target_before_ingress [OF c] ingress_before_connector [OF c]
    in \<open>auto simp: allowed_def dest!: typed_lookup [OF t]\<close>)

lemma first_matching_at:
  assumes "linked R st st'" and "sourced digest cs st" and "first_matching digest c st' = Some m"
  shows "m < length (drafts st) \<and> (\<exists>src\<in>set (plan_sources digest cs). op_at (drafts st) m \<in> set (snd src) \<and>
    occurs_in (change_token digest c) (activity_id_value (operation_id (fst src) (op_at (drafts st) m))))"
proof -
  have m: "m < length (drafts st')" "occurs_in (change_token digest c) (activity_id_value (draft_id (drafts st' ! m)))"
    using assms(3) by (auto simp: first_matching_def find_Some_iff)
  then have l: "m < length (drafts st)" using linked_fields(17) [OF assms(1)] by simp
  then obtain src where "src \<in> set (plan_sources digest cs)" "op_at (drafts st) m \<in> set (snd src)"
    "draft_id (drafts st ! m) = operation_id (fst src) (op_at (drafts st) m)"
    using assms(2) nth_mem [OF l] unfolding sourced_def op_at_def by blast
  moreover have "draft_id (drafts st' ! m) = draft_id (drafts st ! m)" using linked_at [OF assms(1) l] by simp
  ultimately show ?thesis using m(2) l by auto
qed

lemma edge_health_linked:
  assumes l: "linked (precedes digest cs) st st'" and t: "typed cs st" and s: "sourced digest cs st"
    and "c \<in> set cs" "(\<exists>k. c = AddedChange (EdgeSubject k) (EdgeValue e)) \<or>
      (\<exists>k b. c = ModifiedChange (EdgeSubject k) b (EdgeValue e))"
    and "first_matching digest c st' = Some m"
  shows "linked (precedes digest cs) st (edge_health_dependencies m e st')"
proof -
  obtain src where src: "m < length (drafts st)" "src \<in> set (plan_sources digest cs)"
    "op_at (drafts st) m \<in> set (snd src)"
    "occurs_in (change_token digest c) (activity_id_value (operation_id (fst src) (op_at (drafts st) m)))"
    using first_matching_at [OF l s assms(6)] by blast
  note p = endpoints_first [OF assms(4,5) _ src(2-4)]
  show ?thesis unfolding edge_health_dependencies_def
  proof (rule linked_fold [OF l])
    fix n st1 assume n: "n \<in> set [edge_provider e, edge_consumer e]" and l1: "linked (precedes digest cs) st st1"
    show "linked (precedes digest cs) st (link (Some m) (map_of (healthy_node st1) n) st1)"
      using p n src(1) by (intro linked_link l1) (auto simp: allowed_def linked_fields [OF l1] dest!: typed_lookup [OF t])
  qed
qed

lemma occurs_in_suffix: "occurs_in t (xs @ t)"
proof (induction xs)
  case Nil
  then show ?case by (cases t) simp_all
qed simp

lemma no_match:
  assumes "linked R st st'" and "covered digest cs st" and "c \<in> set cs" "reconciliation_owner c = None"
    and "first_matching digest c st' = None"
  shows "change_operations c = []"
proof (rule ccontr)
  assume "change_operations c \<noteq> []"
  then obtain oper where oper: "oper \<in> set (snd (change_source digest c))"
    by (metis change_source_def last_in_set snd_conv)
  have "change_source digest c \<in> set (plan_sources digest cs)"
    using assms(3,4) by (simp add: plan_sources_def plain_changes_def)
  then obtain p where p: "p < length (drafts st)" "draft_id (drafts st ! p) = operation_id (change_token digest c) oper"
    using assms(2) oper unfolding covered_def by (metis change_source_def fst_conv)
  then have "draft_id (drafts st' ! p) = operation_id (change_token digest c) oper" "p < length (drafts st')"
    using linked_at [OF assms(1) p(1)] by simp_all
  moreover have "occurs_in (change_token digest c) (activity_id_value (operation_id (change_token digest c) oper))"
    using occurs_in_suffix [of "change_token digest c" "operation_label oper @ '':''"] by (simp add: operation_id_def)
  ultimately show False using assms(5) by (auto simp: first_matching_def find_None_iff)
qed

lemma or_else_Some: "or_else a b = Some x \<longleftrightarrow> a = Some x \<or> (a = None \<and> b = Some x)"
  by (cases a) (auto simp: or_else_def)

lemma added_edge_linked:
  assumes l: "linked (precedes digest cs) st st'" and t: "typed cs st" and s: "sourced digest cs st" and v: "covered digest cs st"
    and c: "AddedChange (EdgeSubject k) (EdgeValue e) \<in> set cs"
  shows "linked (precedes digest cs) st
    (added_edge_dependencies digest (AddedChange (EdgeSubject k) (EdgeValue e)) e st')"
proof (cases "first_matching digest (AddedChange (EdgeSubject k) (EdgeValue e)) st'")
  case None
  have "change_operations (AddedChange (EdgeSubject k) (EdgeValue e)) = []"
    by (rule no_match [OF l v c _ None]) (simp add: reconciliation_owner_def field_owner_def)
  note p = provider_first [OF c this]
  from None show ?thesis unfolding added_edge_dependencies_def using p
    by (auto simp: linked_fields [OF l] allowed_def or_else_Some intro!: linked_link l dest!: typed_lookup [OF t])
next
  case (Some m)
  then show ?thesis using edge_health_linked [OF l t s c _ Some] by (simp add: added_edge_dependencies_def)
qed

lemma modified_edge_linked:
  assumes l: "linked (precedes digest cs) st st'" and t: "typed cs st" and s: "sourced digest cs st" and v: "covered digest cs st"
    and c: "ModifiedChange (EdgeSubject k) b (EdgeValue e) \<in> set cs"
  shows "linked (precedes digest cs) st
    (modified_edge_dependencies digest (ModifiedChange (EdgeSubject k) b (EdgeValue e)) e st')"
proof (cases "first_matching digest (ModifiedChange (EdgeSubject k) b (EdgeValue e)) st'")
  case None
  have "change_operations (ModifiedChange (EdgeSubject k) b (EdgeValue e)) = []"
    by (rule no_match [OF l v c _ None]) (simp add: reconciliation_owner_def field_owner_def)
  note p = changed_provider_first [OF c this]
  from None show ?thesis unfolding modified_edge_dependencies_def using p
    by (auto simp: linked_fields [OF l] allowed_def intro!: linked_link l dest!: typed_lookup [OF t])
next
  case (Some m)
  then show ?thesis using edge_health_linked [OF l t s c _ Some] by (simp add: modified_edge_dependencies_def)
qed

lemma removed_node_linked:
  assumes l: "linked (precedes digest cs) st st'" and t: "typed cs st"
  shows "linked (precedes digest cs) st (removed_node_dependencies i st')"
proof -
  have 1: "linked (precedes digest cs) st (removed_ingress_step i item st1)"
    if "item \<in> set (removed_ingresses st)" and l1: "linked (precedes digest cs) st st1" for item st1
  proof -
    obtain k g where kg: "item = (k, g)" by force
    have "RemovedChange (OwnerSubject (PublicIngressSubject k)) (PublicIngressValue g) \<in> set cs"
      using t that(1) kg by (auto simp: typed_def values_typed_def)
    then show ?thesis using connector_before_ingress ingress_before_target
      by (auto simp: removed_ingress_step_def kg linked_fields [OF l1] allowed_def intro!: linked_link l1
          dest!: typed_lookup [OF t])
  qed
  have 2: "linked (precedes digest cs) st (removed_edge_step i item st1)"
    if "item \<in> set (removed_edges st)" and l1: "linked (precedes digest cs) st st1" for item st1
  proof -
    obtain k q e where kq: "item = (k, q, e)" by (cases item) auto
    have c: "RemovedChange (EdgeSubject k) (EdgeValue e) \<in> set cs"
      and q: "\<And>p. q = Some p \<Longrightarrow> p < length (drafts st) \<and> op_at (drafts st) p = RemoveSocketConnection (SocketConnectionTarget k)"
      using t that(1) kq by (auto simp: typed_def edges_typed_def)
    show ?thesis using disconnected [OF c] consumer_reconciled [OF c] q
      by (auto simp: removed_edge_step_def kq linked_fields [OF l1] allowed_def intro!: linked_link l1
          dest!: typed_lookup [OF t])
  qed
  have 3: "linked (precedes digest cs) st (modified_edge_step i item st1)"
    if "item \<in> set (modified_edges st)" and l1: "linked (precedes digest cs) st st1" for item st1
  proof -
    obtain k q b a where kq: "item = (k, q, b, a)" by (cases item) auto
    have c: "ModifiedChange (EdgeSubject k) (EdgeValue b) (EdgeValue a) \<in> set cs"
      and q: "\<And>p. q = Some p \<Longrightarrow> p < length (drafts st) \<and> op_at (drafts st) p = SwitchSocketConnection (SocketConnectionTarget k)"
      using t that(1) kq by (auto simp: typed_def edges_typed_def)
    show ?thesis using switched [OF c] consumer_moved [OF c] q
      by (auto simp: modified_edge_step_def kq linked_fields [OF l1] allowed_def intro!: linked_link l1
          dest!: typed_lookup [OF t])
  qed
  show ?thesis unfolding removed_node_dependencies_def linked_fields [OF l]
    by (auto intro!: linked_fold l 1 2 3)
qed

lemma node_runtime_step_linked:
  assumes l1: "linked (precedes digest cs) st st1" and t: "typed cs st"
    and "map_of (stop_runtime st) i = Some stop" and "(n, r) \<in> set (removed_node_runtime st)"
  shows "linked (precedes digest cs) st (if r = i
    then link (Some stop) (or_else (map_of (remove_node st1) n) (map_of (stop_node st1) n)) st1 else st1)"
proof -
  obtain m x where "RemovedChange (OwnerSubject (NodeSubject n)) (NodeValue m x) \<in> set cs" "node_runtime m = r"
    using t assms(4) unfolding typed_def values_typed_def by blast
  then show ?thesis using nodes_before_runtime typed_lookup(2) [OF t assms(3)]
    by (auto simp: linked_fields [OF l1] allowed_def or_else_Some intro!: linked_link l1 dest!: typed_lookup [OF t])
qed

lemma remove_runtime_linked:
  assumes l: "linked (precedes digest cs) st st'" and t: "typed cs st" and "map_of (stop_runtime st) i = Some stop"
  shows "linked (precedes digest cs) st (link (map_of (remove_runtime st) i) (Some stop) st')"
  using typed_lookup(2) [OF t assms(3)] stopped_runtime
  by (auto simp: allowed_def intro!: linked_link l dest!: typed_lookup [OF t])

lemma removed_runtime_linked:
  assumes l: "linked (precedes digest cs) st st'" and t: "typed cs st"
  shows "linked (precedes digest cs) st (removed_runtime_dependencies i st')"
proof (cases "map_of (stop_runtime st) i")
  case (Some stop)
  have "linked (precedes digest cs) st (fold (\<lambda>(n, r) st. if r = i
      then link (Some stop) (or_else (map_of (remove_node st) n) (map_of (stop_node st) n)) st else st)
      (removed_node_runtime st) st')"
    by (rule linked_fold [OF l]) (auto simp only: split_beta fst_conv snd_conv intro!: node_runtime_step_linked [OF _ t Some])
  then show ?thesis using remove_runtime_linked [OF _ t Some]
    by (simp add: removed_runtime_dependencies_def linked_fields [OF l] Some)
qed (simp add: removed_runtime_dependencies_def linked_fields [OF l] l)

lemma add_dependencies_linked:
  assumes l: "linked (precedes digest cs) st st'" and t: "typed cs st" and s: "sourced digest cs st"
    and v: "covered digest cs st" and c: "c \<in> set cs" and "add_dependencies digest st' c = Inr st''"
  shows "linked (precedes digest cs) st st''"
  using assms(6) added_node_linked [OF l t] added_ingress_linked [OF l t] added_edge_linked [OF l t s v]
    modified_edge_linked [OF l t s v] removed_node_linked [OF l t] removed_runtime_linked [OF l t] l c
  unfolding add_dependencies_def
  by (auto split: structural_change.splits diff_subject.splits diff_owner.splits diff_value.splits)

lemma membership_linked:
  assumes l: "linked (precedes digest cs) st st'" and t: "typed cs st"
  shows "linked (precedes digest cs) st (membership_dependencies st')"
  unfolding membership_dependencies_def linked_fields [OF l]
proof (rule linked_fold [OF l])
  fix item st1 assume item: "item \<in> set (node_reconciliations st)" and l1: "linked (precedes digest cs) st st1"
  obtain i gs where gs: "item = (i, gs)" by force
  have "linked (precedes digest cs) st (fold (move_dependencies i) gs st1)"
  proof (rule linked_fold [OF l1])
    fix c st2 assume c: "c \<in> set gs" and l2: "linked (precedes digest cs) st st2"
    have cs: "c \<in> set cs" "reconciliation_owner c = Some (NodeSubject i)"
      using t item gs c by (auto simp: typed_def values_typed_def)
    show "linked (precedes digest cs) st (move_dependencies i c st2)"
    proof (cases "\<exists>w k b a. c = ModifiedChange (FieldSubject w RUNTIME_MEMBERSHIP k) (TextValue b) (TextValue a)")
      case True
      then obtain w k b a where "c = ModifiedChange (FieldSubject w RUNTIME_MEMBERSHIP k) (TextValue b) (TextValue a)"
        by blast
      moreover from this cs(2) have "w = NodeSubject i"
        by (auto simp: reconciliation_owner_def field_owner_def split: diff_owner.splits)
      ultimately show ?thesis using cs(1) moved_in moved_out
        by (auto simp: move_dependencies_def linked_fields [OF l2] allowed_def intro!: linked_link l2
            dest!: typed_lookup [OF t])
    next
      case False
      then have "move_dependencies i c st2 = st2"
        unfolding move_dependencies_def
        by (auto split: structural_change.splits diff_subject.splits structural_field.splits diff_value.splits)
      with l2 show ?thesis by simp
    qed
  qed
  then show "linked (precedes digest cs) st ((case item of (i, cs) \<Rightarrow> fold (move_dependencies i) cs) st1)"
    by (simp add: gs)
qed

end
