(* ===== verification/Compile_Results.thy ===== *)
theory Compile_Results
  imports Compile_Order
begin

text \<open>
  What the compiler returns: the operations of a plan, where its dependencies come from, and when the
  plan is accepted.
\<close>

section \<open>Compiled drafts\<close>

lemma compile_drafts_Inr:
  assumes "compile_drafts digest cs = Inr ds"
  shows "\<exists>st st' st''. collect_changes digest cs = Inr st \<and> foldR (add_dependencies digest) st cs = Inr st' \<and>
    linked (precedes digest cs) st st' \<and> linked (precedes digest cs) st st'' \<and> st'' = membership_dependencies st' \<and>
    drafts st'' = ds"
proof -
  obtain st st' where st: "collect_changes digest cs = Inr st" and st': "foldR (add_dependencies digest) st cs = Inr st'"
    and ds: "ds = drafts (membership_dependencies st')"
    using assms by (auto simp: compile_drafts_def bindR_Inr_iff)
  note t = collect_changes_typed [OF st]
  have l: "linked (precedes digest cs) st st'"
    by (rule linked_foldR [OF linked_refl st']) (rule add_dependencies_linked [OF _ t])
  with st st' ds membership_linked [OF l t(1)] show ?thesis by blast
qed

lemma linked_operations:
  "linked R st st' \<Longrightarrow> map draft_operation (drafts st') = map draft_operation (drafts st) \<and>
     map draft_head (drafts st') = map draft_head (drafts st)"
proof -
  assume "linked R st st'"
  then obtain ds where ds: "st' = st\<lparr>drafts := ds\<rparr>" "map draft_head ds = map draft_head (drafts st)"
    using linked_frame by blast
  show ?thesis using ds heads_views(4) [OF ds(2)] by simp
qed

lemma compile_drafts_operations:
  assumes "compile_drafts digest cs = Inr ds"
  shows "map draft_operation ds = concat (map snd (plan_sources digest cs))"
proof -
  obtain st st'' where st: "collect_changes digest cs = Inr st" "linked (precedes digest cs) st st''" "drafts st'' = ds"
    using compile_drafts_Inr [OF assms] by blast
  have "map draft_operation (concat (map source_drafts srcs)) = concat (map snd srcs)" for srcs
    by (induction srcs) (simp_all add: source_drafts_operations)
  then show ?thesis using linked_operations [OF st(2)] st(3) collect_changes_Inr(1) [OF st(1)] by simp
qed

lemma chain_drafts_graded:
  "d \<in> set (chain_drafts token deps opers) \<Longrightarrow> draft_risk d = operation_risk (draft_operation d) \<and>
     draft_impact d = operation_impact (draft_operation d)"
  by (induction opers arbitrary: deps) (auto simp: standard_draft_def)

lemma compile_drafts_graded:
  assumes "compile_drafts digest cs = Inr ds" and "d \<in> set ds"
  shows "draft_risk d = operation_risk (draft_operation d)" and "draft_impact d = operation_impact (draft_operation d)"
    and "\<exists>src\<in>set (plan_sources digest cs). draft_operation d \<in> set (snd src) \<and>
      draft_id d = operation_id (fst src) (draft_operation d)"
proof -
  obtain st st'' where st: "collect_changes digest cs = Inr st" "linked (precedes digest cs) st st''" "drafts st'' = ds"
    using compile_drafts_Inr [OF assms(1)] by blast
  have "draft_head d \<in> draft_head ` set (drafts st)"
    using linked_operations [OF st(2)] assms(2) st(3) by (metis image_eqI set_map)
  then obtain e where e: "e \<in> set (drafts st)" "draft_head d = draft_head e" by blast
  then have "draft_risk e = operation_risk (draft_operation e) \<and> draft_impact e = operation_impact (draft_operation e)"
    unfolding collect_changes_Inr(1) [OF st(1)] by (auto simp: source_drafts_def dest: chain_drafts_graded)
  then show "draft_risk d = operation_risk (draft_operation d)" "draft_impact d = operation_impact (draft_operation d)"
    using e(2) by (simp_all add: draft_head_def)
  show "\<exists>src\<in>set (plan_sources digest cs). draft_operation d \<in> set (snd src) \<and>
      draft_id d = operation_id (fst src) (draft_operation d)"
    using collect_changes_typed(2) [OF st(1)] e by (auto simp: sourced_def draft_head_def)
qed

section \<open>Dependencies\<close>

definition deps_at :: "activity_draft list \<Rightarrow> nat \<Rightarrow> activity_id list" where
  "deps_at ds p = draft_dependencies (ds ! p)"

definition deps_from :: "(activity_operation \<Rightarrow> activity_operation \<Rightarrow> bool) \<Rightarrow> activity_draft list \<Rightarrow> bool" where
  "deps_from R ds \<longleftrightarrow> (\<forall>j<length ds. distinct (deps_at ds j) \<and> (\<forall>x\<in>set (deps_at ds j).
     \<exists>i<length ds. draft_id (ds ! i) = x \<and> R (op_at ds i) (op_at ds j)))"

lemma add_dependency_deps:
  assumes "deps_from R (drafts st)" and "s < length (drafts st)" "p < length (drafts st)"
    and "R (op_at (drafts st) p) (op_at (drafts st) s)"
  shows "deps_from R (drafts (add_dependency s p st))"
  unfolding deps_from_def
proof (intro allI impI conjI ballI)
  let ?ds = "drafts (add_dependency s p st)"
  have ds: "?ds = (drafts st)[s := after_draft (drafts st ! p) (drafts st ! s)]"
    using assms(2,3) by (simp add: add_dependency_def)
  have same: "op_at ?ds q = op_at (drafts st) q" "draft_id (?ds ! q) = draft_id (drafts st ! q)" for q
    using assms(2) by (cases "q = s"; simp add: ds op_at_def after_draft_def)+
  have deps: "deps_at ?ds q = (if q = s then List.insert (draft_id (drafts st ! p)) (deps_at (drafts st) s)
      else deps_at (drafts st) q)" for q
    using assms(2) by (simp add: ds deps_at_def after_draft_def)
  fix j assume "j < length ?ds"
  then have j: "j < length (drafts st)" by (simp add: ds)
  show "distinct (deps_at ?ds j)" using assms(1) j by (simp add: deps deps_from_def)
  fix x assume "x \<in> set (deps_at ?ds j)"
  then consider "x \<in> set (deps_at (drafts st) j)" | "j = s" "x = draft_id (drafts st ! p)"
    by (auto simp: deps split: if_splits)
  then show "\<exists>i<length ?ds. draft_id (?ds ! i) = x \<and> R (op_at ?ds i) (op_at ?ds j)"
  proof cases
    case 1
    then show ?thesis using assms(1) j by (auto simp: deps_from_def same) (simp add: ds)
  next
    case 2
    then show ?thesis using assms(3,4) by (intro exI [of _ p]) (simp add: same, simp add: ds)
  qed
qed

lemma linked_deps:
  assumes "linked R st st'" and "deps_from R (drafts st)"
  shows "deps_from R (drafts st')"
  using assms by (induction rule: linked.induct) (auto intro: add_dependency_deps)

lemma linked_grows:
  assumes "linked R st st'" and "j < length (drafts st)"
  shows "set (deps_at (drafts st) j) \<subseteq> set (deps_at (drafts st') j)"
  using assms
proof (induction rule: linked.induct)
  case (linked_step st st' s p)
  have "set (deps_at (drafts st') j) \<subseteq> set (deps_at (drafts (add_dependency s p st')) j)"
    by (auto simp: add_dependency_def deps_at_def after_draft_def nth_list_update)
  with linked_step show ?case by blast
qed simp

text \<open>The drafts of one source depend on each other only.\<close>

lemma source_shape:
  assumes "src \<in> set (plan_sources digest cs)"
  shows "length (snd src) \<le> 2" and "\<And>a b. snd src = [a, b] \<Longrightarrow> precedes digest cs a b"
proof -
  have two: "length (change_operations c) \<le> 2" and ab: "\<And>a b. change_operations c = [a, b] \<Longrightarrow> precedes digest cs a b" for c
    by (cases c; auto simp: change_operations_def added_operations_def removed_operations_def
        modified_operations_def intro: precedes.intros split: diff_subject.splits diff_owner.splits
          diff_value.splits if_splits)+
  show "length (snd src) \<le> 2" "\<And>a b. snd src = [a, b] \<Longrightarrow> precedes digest cs a b"
    using assms two ab by (auto simp: plan_sources_def change_source_def node_source_def runtime_source_def
        intro: precedes.intros)
qed

lemma deps_from_set:
  "deps_from R ds \<longleftrightarrow> (\<forall>d\<in>set ds. distinct (draft_dependencies d) \<and> (\<forall>x\<in>set (draft_dependencies d).
     \<exists>e\<in>set ds. draft_id e = x \<and> R (draft_operation e) (draft_operation d)))"
  by (simp add: deps_from_def deps_at_def op_at_def all_set_conv_all_nth Bex_def in_set_conv_nth) metis

lemma deps_from_source:
  assumes "length (snd src) \<le> 2" and "\<And>a b. snd src = [a, b] \<Longrightarrow> R a b"
  shows "deps_from R (source_drafts src)"
proof -
  consider "snd src = []" | a where "snd src = [a]" | a b where "snd src = [a, b]"
    using assms(1) by (cases "snd src"; cases "tl (snd src)") (auto simp: length_Suc_conv)
  then show ?thesis
    by cases (auto simp: deps_from_set source_drafts_def standard_draft_def intro: assms(2))
qed

lemma deps_from_sources:
  assumes "\<And>src. src \<in> set srcs \<Longrightarrow> deps_from R (source_drafts src)"
  shows "deps_from R (concat (map source_drafts srcs))"
  using assms unfolding deps_from_set by (fastforce simp: deps_from_set)

lemma compile_drafts_deps:
  assumes "compile_drafts digest cs = Inr ds"
  shows "deps_from (precedes digest cs) ds"
proof -
  obtain st st'' where st: "collect_changes digest cs = Inr st" "linked (precedes digest cs) st st''" "drafts st'' = ds"
    using compile_drafts_Inr [OF assms] by blast
  have "deps_from (precedes digest cs) (drafts st)"
    unfolding collect_changes_Inr(1) [OF st(1)]
    by (intro deps_from_sources deps_from_source) (use source_shape in auto)
  with linked_deps [OF st(2)] st(3) show ?thesis by simp
qed

section \<open>Acceptance\<close>

lemma finish_fields [simp]:
  "activity_id (finish_draft d) = draft_id d" "operation (finish_draft d) = draft_operation d"
  "risk (finish_draft d) = draft_risk d" "impact (finish_draft d) = draft_impact d"
  by (simp_all add: finish_draft_def)

lemma finish_predecessors: "mset (predecessors (finish_draft d)) = mset (draft_dependencies d)"
  by (simp add: finish_draft_def make_activity_def predecessors_def image_mset.compositionality comp_def)

lemma finish_predecessors_set [simp]:
  "set (predecessors (finish_draft d)) = set (draft_dependencies d)"
  "distinct (predecessors (finish_draft d)) = distinct (draft_dependencies d)"
  using mset_eq_setD [OF finish_predecessors] mset_eq_imp_distinct_iff [OF finish_predecessors] by blast+

lemma graded_safe:
  "draft_risk d = operation_risk (draft_operation d) \<Longrightarrow> draft_impact d = operation_impact (draft_operation d) \<Longrightarrow>
     safe_activity (finish_draft d)"
  by (cases "draft_operation d") (simp_all add: safe_activity_def)

lemma compiled_composition:
  assumes "compile_drafts digest cs = Inr ds"
  shows "valid_composition (map finish_draft ds) \<longleftrightarrow> distinct (map draft_id ds) \<and> acyclic (depends (map finish_draft ds))"
proof
  assume r: "distinct (map draft_id ds) \<and> acyclic (depends (map finish_draft ds))"
  have "distinct (draft_dependencies d) \<and> set (draft_dependencies d) \<subseteq> draft_id ` set ds - {draft_id d}"
    if d: "d \<in> set ds" for d
  proof -
    have "(draft_id d, draft_id d) \<in> depends (map finish_draft ds)" if "draft_id d \<in> set (draft_dependencies d)"
      using d that by (force simp: depends_def)
    then have "draft_id d \<notin> set (draft_dependencies d)" using r by (meson acyclic_def r_into_trancl')
    with d show ?thesis using compile_drafts_deps [OF assms] by (fastforce simp: deps_from_set)
  qed
  with r graded_safe compile_drafts_graded [OF assms] show "valid_composition (map finish_draft ds)"
    by (auto simp: valid_composition_def comp_def image_image)
qed (auto simp: valid_composition_def comp_def)

lemma compile_accepts:
  assumes "compile_drafts digest (diff_changes d) = Inr ds"
  shows "(\<exists>p. compile_activity_plan digest d = Inr p) \<longleftrightarrow>
    distinct (map draft_id ds) \<and> acyclic (depends (map finish_draft ds))"
  using make_plan_accepts compiled_composition [OF assms] by (simp add: compile_activity_plan_def assms)

lemma compiled_plan:
  assumes "compile_activity_plan digest d = Inr p"
  shows "\<exists>ds. compile_drafts digest (diff_changes d) = Inr ds \<and> mset (activities p) = mset (map finish_draft ds) \<and>
    ordered_from {} (activities p) \<and> distinct (map draft_id ds)"
proof -
  obtain ds where ds: "compile_drafts digest (diff_changes d) = Inr ds" and p: "make_plan (map finish_draft ds) = Inr p"
    using assms by (auto simp: compile_activity_plan_def split: sum.splits)
  with make_plan_correct [OF p] show ?thesis by (auto simp: valid_composition_def comp_def)
qed

lemma plan_has_operation:
  assumes "compile_activity_plan digest d = Inr p"
  shows "(\<exists>a\<in>set (activities p). operation a = oper) \<longleftrightarrow> asked_operation (diff_changes d) oper"
proof -
  obtain ds where ds: "compile_drafts digest (diff_changes d) = Inr ds"
    and p: "mset (activities p) = mset (map finish_draft ds)" using compiled_plan [OF assms] by blast
  have "operation ` set (activities p) = set (map draft_operation ds)"
    using mset_eq_setD [OF p] by (simp add: image_image)
  also have "\<dots> = set (concat (map snd (plan_sources digest (diff_changes d))))"
    using compile_drafts_operations [OF ds] by simp
  finally have "oper \<in> operation ` set (activities p) \<longleftrightarrow> asked_operation (diff_changes d) oper"
    by (simp only: plan_sources_operations)
  then show ?thesis by (auto simp: image_iff)
qed

lemma plan_graded:
  assumes "compile_activity_plan digest d = Inr p" and "a \<in> set (activities p)"
  shows "risk a = operation_risk (operation a)" and "impact a = operation_impact (operation a)"
    and "x \<in> set (predecessors a) \<Longrightarrow> \<exists>b\<in>set (activities p). activity_id b = x \<and>
      precedes digest (diff_changes d) (operation b) (operation a)"
proof -
  obtain ds where ds: "compile_drafts digest (diff_changes d) = Inr ds"
    and p: "mset (activities p) = mset (map finish_draft ds)" using compiled_plan [OF assms(1)] by blast
  then obtain e where e: "e \<in> set ds" "a = finish_draft e" using assms(2) mset_eq_setD [OF p] by auto
  show "risk a = operation_risk (operation a)" "impact a = operation_impact (operation a)"
    using compile_drafts_graded(1,2) [OF ds e(1)] e(2) by simp_all
  show "\<exists>b\<in>set (activities p). activity_id b = x \<and> precedes digest (diff_changes d) (operation b) (operation a)"
    if "x \<in> set (predecessors a)"
    using compile_drafts_deps [OF ds] e that mset_eq_setD [OF p] by (force simp: deps_from_set)
qed

end
