(* ===== verification/Compile_Success.thy ===== *)
theory Compile_Success
  imports Compile_Results
begin

text \<open>
  The dependencies a compiled plan must have, and conditions under which a plan is compiled: the tokens
  of the changes differ, nothing that is not owned has to be started, and neither the startup nor the
  teardown of nodes is circular.
\<close>

section \<open>The dictionaries name every draft\<close>

fun index_of :: "compile_state \<Rightarrow> activity_operation \<Rightarrow> bool" where
  "index_of st (StartRuntime (RuntimeTarget i)) \<longleftrightarrow> i \<in> fst ` set (start_runtime st)"
| "index_of st (StopRuntime (RuntimeTarget i)) \<longleftrightarrow> i \<in> fst ` set (stop_runtime st)"
| "index_of st (StartNode (NodeTarget i)) \<longleftrightarrow> i \<in> fst ` set (start_node st)"
| "index_of st (WaitForHealthy (NodeTarget i)) \<longleftrightarrow> i \<in> fst ` set (healthy_node st)"
| "index_of st (StopNode (NodeTarget i)) \<longleftrightarrow> i \<in> fst ` set (stop_node st) \<and> i \<in> fst ` set (removed_node_runtime st)"
| "index_of st (RemoveNodeResource (NodeTarget i)) \<longleftrightarrow> i \<in> fst ` set (remove_node st)"
| "index_of st (AllocatePublicIngress (PublicIngressActivityTarget i)) \<longleftrightarrow> i \<in> fst ` set (allocate_ingress st)"
| "index_of st oper \<longleftrightarrow> True"

definition indexed :: "compile_state \<Rightarrow> bool" where
  "indexed st \<longleftrightarrow> (\<forall>d\<in>set (drafts st). index_of st (draft_operation d))"

definition index_keys :: "compile_state \<Rightarrow> (string set) list" where
  "index_keys st = [fst ` set (start_runtime st), fst ` set (stop_runtime st), fst ` set (start_node st),
     fst ` set (healthy_node st), fst ` set (stop_node st), fst ` set (removed_node_runtime st),
     fst ` set (remove_node st), fst ` set (allocate_ingress st)]"

lemma index_mono:
  assumes "index_of st oper" and "list_all2 (\<subseteq>) (index_keys st) (index_keys st')"
  shows "index_of st' oper"
  using assms by (cases "(st, oper)" rule: index_of.cases) (auto simp: index_keys_def)

lemma register_keys: "list_all2 (\<subseteq>) (index_keys st) (index_keys (register_draft c d st))"
  unfolding register_draft_def Let_def
  by (cases "draft_operation d"; simp split: node_target.split runtime_target.split
      socket_connection_target.split public_ingress_target.split)
    (auto simp: index_keys_def register_edge_def register_switch_def dom_update
      split: option.split structural_change.split diff_value.split)

lemma register_index:
  assumes "draft_operation d \<in> set (change_operations c)"
  shows "index_of (register_draft c d st) (draft_operation d)"
proof (cases "\<exists>i. draft_operation d = StopNode (NodeTarget i)")
  case True
  then obtain i where i: "draft_operation d = StopNode (NodeTarget i)" by blast
  with assms obtain n x where "c = RemovedChange (OwnerSubject (NodeSubject i)) (NodeValue n x)"
    using operations_of_change(6) by metis
  with i show ?thesis by (simp add: register_draft_def Let_def removed_runtime_of_def dom_update)
next
  case False
  then show ?thesis
    by (cases "(st, draft_operation d)" rule: index_of.cases)
      (auto simp: register_draft_def Let_def dom_update)
qed

lemma fold_register_indexed:
  assumes "indexed st" and "set (map draft_operation ds) \<subseteq> set (change_operations c)"
  shows "indexed (fold (register_draft c) ds st)"
  using assms
proof (induction ds arbitrary: st)
  case (Cons d ds)
  have "indexed (register_draft c d st)"
    using Cons.prems register_index [of d c st] index_mono [OF _ register_keys]
    by (auto simp: indexed_def)
  with Cons show ?case by simp
qed simp

lemma note_index: "index_of (note_change c st) oper \<longleftrightarrow> index_of st oper"
  by (cases "(st, oper)" rule: index_of.cases)
    (auto simp: note_change_def split: structural_change.split diff_subject.split diff_owner.split diff_value.split)

lemma collect_change_indexed:
  assumes "indexed st" and "collect_change digest st c = Inr st'"
  shows "indexed st'"
proof -
  have noted: "indexed (note_change c st)" using assms(1) by (simp add: indexed_def note_index)
  show ?thesis
  proof (cases "reconciliation_owner c")
    case None
    then have "st' = fold (register_draft c) (source_drafts (change_source digest c)) (note_change c st)"
      using assms(2) by (simp add: collect_change_Inr)
    moreover have "set (map draft_operation (source_drafts (change_source digest c))) \<subseteq> set (change_operations c)"
      unfolding source_drafts_operations by (simp add: change_source_def)
    ultimately show ?thesis using fold_register_indexed [OF noted] by blast
  next
    case (Some w)
    have keys: "index_keys (s\<lparr>node_reconciliations := y\<rparr>) = index_keys s"
      "index_keys (s\<lparr>runtime_reconciliations := y\<rparr>) = index_keys s" for s y
      by (simp_all add: index_keys_def)
    have "drafts st' = drafts (note_change c st) \<and> index_keys st' = index_keys (note_change c st)"
      using assms(2) Some owner_shape [OF Some] by (auto simp: collect_change_Inr keys)
    with noted index_mono show ?thesis by (auto simp: indexed_def list_all2_refl)
  qed
qed

lemma collect_changes_indexed:
  assumes "collect_changes digest cs = Inr st"
  shows "indexed st"
proof -
  obtain st1 st2 where 1: "foldR (collect_change digest) empty_compile cs = Inr st1"
    and 2: "foldR (reconcile_one_node digest) st1 (sort_key fst (node_reconciliations st1)) = Inr st2"
    and 3: "foldR (reconcile_one_runtime digest) st2 (sort_key fst (runtime_reconciliations st2)) = Inr st"
    using assms by (auto simp: collect_changes_def bindR_Inr_iff)
  have "indexed empty_compile" by (simp add: indexed_def empty_compile_def)
  then have "indexed st1" by (rule foldR_preserves [where I = indexed, OF 1]) (rule collect_change_indexed)
  then have "indexed st2"
  proof (rule foldR_preserves [where I = indexed, OF 2])
    fix item s s' assume s: "indexed s" and "reconcile_one_node digest s item = Inr s'"
    then have s': "s' = s\<lparr>drafts := drafts s @ source_drafts (node_source digest item),
       reconcile_node := AList.update (fst item) (length (drafts s)) (reconcile_node s),
       healthy_node := AList.update (fst item) (Suc (length (drafts s))) (healthy_node s)\<rparr>"
      by (simp add: reconcile_node_Inr)
    have "list_all2 (\<subseteq>) (index_keys s) (index_keys s')" by (auto simp: s' index_keys_def dom_update)
    then show "indexed s'" using s index_mono
      by (auto simp: indexed_def s' source_drafts_def node_source_def standard_draft_def dom_update)
  qed
  then show "indexed st"
  proof (rule foldR_preserves [where I = indexed, OF 3])
    fix item s s' assume s: "indexed s" and "reconcile_one_runtime digest s item = Inr s'"
    then have s': "s' = s\<lparr>drafts := drafts s @ source_drafts (runtime_source digest item)\<rparr>"
      by (simp add: reconcile_runtime_Inr)
    then have "list_all2 (\<subseteq>) (index_keys s) (index_keys s')" by (simp add: index_keys_def)
    then show "indexed s'" using s index_mono
      by (auto simp: indexed_def s' source_drafts_def runtime_source_def standard_draft_def)
  qed
qed

section \<open>Dependencies that are added\<close>

definition depends_on :: "activity_draft list \<Rightarrow> activity_operation \<Rightarrow> activity_operation \<Rightarrow> bool" where
  "depends_on ds s p \<longleftrightarrow> (\<exists>a<length ds. \<exists>b<length ds. op_at ds a = s \<and> op_at ds b = p \<and>
     draft_id (ds ! b) \<in> set (deps_at ds a))"

lemma linked_depends:
  assumes "linked R st st'" and "depends_on (drafts st) s p"
  shows "depends_on (drafts st') s p"
proof -
  from assms(2) obtain a b where ab: "a < length (drafts st)" "b < length (drafts st)"
    "op_at (drafts st) a = s" "op_at (drafts st) b = p" "draft_id (drafts st ! b) \<in> set (deps_at (drafts st) a)"
    unfolding depends_on_def by blast
  then have "op_at (drafts st') a = s" "op_at (drafts st') b = p"
    "draft_id (drafts st' ! b) \<in> set (deps_at (drafts st') a)" "a < length (drafts st')" "b < length (drafts st')"
    using linked_at [OF assms(1) ab(1)] linked_at [OF assms(1) ab(2)] linked_grows [OF assms(1) ab(1)] by auto
  then show ?thesis unfolding depends_on_def by blast
qed

lemma link_depends:
  assumes "linked R st st'" and "a < length (drafts st)" "b < length (drafts st)"
  shows "depends_on (drafts (link (Some a) (Some b) st')) (op_at (drafts st) a) (op_at (drafts st) b)"
proof -
  let ?ds = "drafts (add_dependency a b st')"
  note l = linked_at [OF assms(1,2)] linked_at [OF assms(1,3)]
  have ds: "?ds = (drafts st')[a := after_draft (drafts st' ! b) (drafts st' ! a)]"
    using l by (simp add: add_dependency_def)
  have "op_at ?ds a = op_at (drafts st) a" "op_at ?ds b = op_at (drafts st) b" "a < length ?ds" "b < length ?ds"
    using l unfolding ds by (cases "a = b"; simp add: op_at_def after_draft_def)+
  moreover have "draft_id (?ds ! b) \<in> set (deps_at ?ds a)"
    using l unfolding ds by (cases "a = b") (simp_all add: deps_at_def after_draft_def)
  ultimately show ?thesis unfolding depends_on_def link_def by auto
qed

text \<open>A step of the second pass that connects two drafts leaves them connected in the result.\<close>

lemma compile_step:
  assumes "compile_drafts digest cs = Inr ds" and "c \<in> set cs"
  obtains st st1 st2 st3 where "collect_changes digest cs = Inr st" "linked (precedes digest cs) st st1"
    "add_dependencies digest st1 c = Inr st2" "linked (precedes digest cs) st2 st3" "drafts st3 = ds"
    "linked (precedes digest cs) st st2"
proof -
  obtain st st' where st: "collect_changes digest cs = Inr st" and st': "foldR (add_dependencies digest) st cs = Inr st'"
    and ds: "ds = drafts (membership_dependencies st')"
    using assms(1) by (auto simp: compile_drafts_def bindR_Inr_iff)
  note t = collect_changes_typed [OF st]
  obtain pre post where split: "cs = pre @ c # post" using assms(2) by (meson split_list)
  then obtain st1 st2 where f: "foldR (add_dependencies digest) st pre = Inr st1" "add_dependencies digest st1 c = Inr st2"
    "foldR (add_dependencies digest) st2 post = Inr st'"
    using st' by (auto simp: foldR_append bindR_Inr_iff)
  have 1: "linked (precedes digest cs) st st1"
    by (rule linked_foldR [OF linked_refl f(1)]) (rule add_dependencies_linked [OF _ t], auto simp: split)
  have 2: "linked (precedes digest cs) st st2" by (rule add_dependencies_linked [OF 1 t assms(2) f(2)])
  have typed2: "typed cs st2" by (rule linked_typed [OF 2 t(1)])
  have heads: "map draft_head (drafts st2) = map draft_head (drafts st)" using linked_operations [OF 2] by blast
  have t2: "sourced digest cs st2" "covered digest cs st2"
    using t(2,3) heads linked_at [OF 2] linked_fields(17) [OF 2] unfolding sourced_def covered_def op_at_def
    by (simp_all add: all_set_conv_all_nth) (metis (no_types, lifting))+
  have "linked (precedes digest cs) st2 st'"
    by (rule linked_foldR [OF linked_refl f(3)]) (rule add_dependencies_linked [OF _ typed2 t2], auto simp: split)
  then have "linked (precedes digest cs) st2 (membership_dependencies st')" by (rule membership_linked) (rule typed2)
  with st 1 2 f(2) ds that show ?thesis by blast
qed

section \<open>Tokens\<close>

text \<open>
  The digest is the hexadecimal text of a SHA-256, and the tokens of the sources of a plan differ.
\<close>

definition tokens_apart :: "(string \<Rightarrow> string) \<Rightarrow> structural_change list \<Rightarrow> bool" where
  "tokens_apart digest cs \<longleftrightarrow> (\<forall>s. is_fingerprint (digest s)) \<and> distinct (map fst (plan_sources digest cs))"

lemma occurs_in_split: "occurs_in t s \<longleftrightarrow> (\<exists>pre post. s = pre @ t @ post)"
proof (induction s)
  case (Cons c s)
  have "take (length t) (c # s) = t \<longleftrightarrow> (\<exists>post. c # s = t @ post)"
    by (metis append_eq_conv_conj append_take_drop_id)
  moreover have "(\<exists>pre post. c # s = pre @ t @ post) \<longleftrightarrow>
      (\<exists>post. c # s = t @ post) \<or> (\<exists>pre post. s = pre @ t @ post)"
    by (metis (no_types, lifting) Cons_eq_append_conv append_Cons append_Nil)
  ultimately show ?case using Cons by simp
qed simp

text \<open>\<open>short_runs k s\<close>: after \<open>k\<close> hexadecimal digits, the text has no run of sixteen of them.\<close>

fun short_runs :: "nat \<Rightarrow> string \<Rightarrow> bool" where
  "short_runs k [] \<longleftrightarrow> True"
| "short_runs k (c # cs) \<longleftrightarrow> (if hex_digit c then k < 15 \<and> short_runs (Suc k) cs else short_runs 0 cs)"

lemma short_runs_prefix: "short_runs k (t @ post) \<Longrightarrow> list_all hex_digit t \<Longrightarrow> k + length t \<le> max k 15"
  by (induction t arbitrary: k) force+

lemma short_runs_mono: "short_runs k s \<Longrightarrow> short_runs 0 s"
proof -
  have "short_runs k s \<Longrightarrow> j \<le> k \<Longrightarrow> short_runs j s" for j
    by (induction k s arbitrary: j rule: short_runs.induct) (auto split: if_splits)
  then show "short_runs k s \<Longrightarrow> short_runs 0 s" by simp
qed

lemma short_runs_drop: "short_runs k (pre @ s) \<Longrightarrow> short_runs 0 s"
proof (induction pre arbitrary: k)
  case Nil
  then show ?case using short_runs_mono by simp
qed (auto split: if_splits)

lemma label_short_runs: "short_runs 0 (operation_label oper @ '':'')"
  by (cases oper) (simp_all add: hex_digit_def char_code_def)

lemma token_in_identity:
  assumes "occurs_in t (operation_label oper @ '':'' @ u)" and "length t = 16" "list_all hex_digit t" "length u = 16"
  shows "t = u"
proof -
  let ?label = "operation_label oper @ '':''"
  obtain pre post where s: "?label @ u = pre @ t @ post"
    using assms(1) unfolding occurs_in_split by auto
  then obtain us where us: "?label = pre @ us \<and> us @ u = t @ post \<or> ?label @ us = pre \<and> u = us @ t @ post"
    unfolding append_eq_append_conv2 by blast
  show ?thesis
  proof (cases "?label = pre @ us \<and> us @ u = t @ post \<and> us \<noteq> []")
    case True
    then have split: "?label = pre @ us" "us @ u = t @ post" "us \<noteq> []" by blast+
    have "last us = CHR '':''" using split(1,3) by (metis last_appendR last_snoc)
    then have last: "\<not> hex_digit (last us)" by (simp add: hex_digit_def char_code_def)
    have "\<not> length us \<le> 16"
    proof
      assume short: "length us \<le> 16"
      have "us = take (length us) (us @ u)" by simp
      also have "\<dots> = take (length us) t" unfolding split(2) using short assms(2) by simp
      finally have "set us \<subseteq> set t" by (metis set_take_subset)
      with last_in_set [OF split(3)] assms(3) last show False by (auto simp: list_all_iff)
    qed
    then have "take 16 us = take 16 (us @ u)" by simp
    also have "\<dots> = t" unfolding split(2) using assms(2) by simp
    finally have "us = t @ drop 16 us" by (metis append_take_drop_id)
    moreover have "short_runs 0 us" using short_runs_drop [of 0 pre us] label_short_runs [of oper] unfolding split(1) by blast
    ultimately have "short_runs 0 (t @ drop 16 us)" by simp
    from short_runs_prefix [OF this assms(3)] assms(2) show ?thesis by simp
  next
    case False
    then have "u = t @ post \<or> u = us @ t @ post" using us by auto
    then show ?thesis using assms(2,4) by auto
  qed
qed

lemma token_shape:
  assumes "\<forall>s. is_fingerprint (digest s)" and "src \<in> set (plan_sources digest cs)"
  shows "length (fst src) = 16" and "list_all hex_digit (fst src)"
proof -
  obtain s where "fst src = take 16 (digest s)"
    using assms(2) by (auto simp: plan_sources_def change_source_def node_source_def runtime_source_def
        change_token_def changes_token_def)
  moreover have "length (digest s) = 64" "list_all hex_digit (digest s)" using assms(1) by (auto simp: is_fingerprint_def)
  ultimately show "length (fst src) = 16" "list_all hex_digit (fst src)"
    by (auto simp: list_all_iff dest: in_set_takeD)
qed

text \<open>With tokens that differ, only the drafts of a change carry its token.\<close>

lemma distinct_fst:
  assumes "distinct (map fst xs)" and "x \<in> set xs" "y \<in> set xs" "fst x = fst y"
  shows "x = y"
  using assms by (metis distinct_map inj_onD)

lemma own_token:
  assumes apart: "tokens_apart digest cs" and c: "c \<in> set cs" "reconciliation_owner c = None"
    and src: "src \<in> set (plan_sources digest cs)"
    and "occurs_in (change_token digest c) (activity_id_value (operation_id (fst src) oper))"
  shows "src = change_source digest c"
proof -
  have own: "change_source digest c \<in> set (plan_sources digest cs)"
    using c by (simp add: plan_sources_def plain_changes_def)
  note shape = token_shape [OF conjunct1 [OF apart [unfolded tokens_apart_def]]]
  have own_shape: "length (change_token digest c) = 16" "list_all hex_digit (change_token digest c)"
    using shape [OF own] by (simp_all add: change_source_def)
  have "occurs_in (change_token digest c) (operation_label oper @ '':'' @ fst src)"
    using assms(5) by (simp add: operation_id_def)
  from token_in_identity [OF this own_shape shape(1) [OF src]]
  have "fst src = fst (change_source digest c)" by (simp add: change_source_def)
  then show ?thesis using distinct_fst [OF conjunct2 [OF apart [unfolded tokens_apart_def]] src own] by blast
qed

lemma no_token:
  assumes apart: "tokens_apart digest cs" and c: "c \<in> set cs" "reconciliation_owner c = None"
    and "change_operations c = []" and l: "linked R st st'" and s: "sourced digest cs st"
  shows "first_matching digest c st' = None"
proof (rule ccontr)
  assume "first_matching digest c st' \<noteq> None"
  then obtain m where "first_matching digest c st' = Some m" by blast
  from first_matching_at [OF l s this] obtain src where "src \<in> set (plan_sources digest cs)"
    "op_at (drafts st) m \<in> set (snd src)"
    "occurs_in (change_token digest c) (activity_id_value (operation_id (fst src) (op_at (drafts st) m)))" by blast
  with own_token [OF apart c] have "op_at (drafts st) m \<in> set (snd (change_source digest c))" by metis
  with assms(4) show False by (simp add: change_source_def)
qed

section \<open>Dependencies that a plan has\<close>

lemma asked_indexed:
  assumes "collect_changes digest cs = Inr st" and "asked_operation cs oper"
  shows "index_of st oper"
proof -
  obtain src where "src \<in> set (plan_sources digest cs)" "oper \<in> set (snd src)"
    using assms(2) plan_sources_operations [of oper digest cs] by auto
  then obtain p where "p < length (drafts st)" "op_at (drafts st) p = oper"
    using collect_changes_typed(3) [OF assms(1)] unfolding covered_def by blast
  then show ?thesis using collect_changes_indexed [OF assms(1)] by (auto simp: indexed_def op_at_def)
qed

lemma draft_asked:
  assumes "collect_changes digest cs = Inr st" and "p < length (drafts st)"
  shows "asked_operation cs (op_at (drafts st) p)"
  using collect_changes_typed(2) [OF assms(1)] nth_mem [OF assms(2)]
  unfolding sourced_def op_at_def plan_sources_operations [symmetric, of cs _ digest] by auto

lemma key_position: "i \<in> fst ` set d \<Longrightarrow> \<exists>p. map_of d i = Some p"
  by (simp add: key_known)

text \<open>The consumer of an environment edge starts after its provider is healthy.\<close>

lemma provider_depends:
  assumes ds: "compile_drafts digest cs = Inr ds" and apart: "tokens_apart digest cs"
    and c: "AddedChange (EdgeSubject k) (EdgeValue e) \<in> set cs" and "edge_binding e = ENVIRONMENT"
    and asked: "asked_operation cs (StartNode (NodeTarget (edge_consumer e)))"
      "asked_operation cs (WaitForHealthy (NodeTarget (edge_provider e)))"
  shows "depends_on ds (StartNode (NodeTarget (edge_consumer e))) (WaitForHealthy (NodeTarget (edge_provider e)))"
proof -
  obtain st st1 st2 st3 where st: "collect_changes digest cs = Inr st" "linked (precedes digest cs) st st1"
    "add_dependencies digest st1 (AddedChange (EdgeSubject k) (EdgeValue e)) = Inr st2"
    "linked (precedes digest cs) st2 st3" "drafts st3 = ds" by (rule compile_step [OF ds c])
  note t = collect_changes_typed [OF st(1)]
  obtain a b where ab: "map_of (start_node st) (edge_consumer e) = Some a" "map_of (healthy_node st) (edge_provider e) = Some b"
    using key_position [OF asked_indexed [OF st(1) asked(1), unfolded index_of.simps]]
      key_position [OF asked_indexed [OF st(1) asked(2), unfolded index_of.simps]] by blast
  note at = typed_lookup(4) [OF t(1) ab(1)] typed_lookup(5) [OF t(1) ab(2)]
  have "first_matching digest (AddedChange (EdgeSubject k) (EdgeValue e)) st1 = None"
    by (rule no_token [OF apart c _ _ st(2) t(2)])
      (simp_all add: reconciliation_owner_def field_owner_def change_operations_def added_operations_def assms(4))
  then have "st2 = link (Some a) (Some b) st1"
    using st(3) ab by (simp add: add_dependencies_def added_edge_dependencies_def linked_fields [OF st(2)] or_else_def)
  with link_depends [OF st(2)] at have "depends_on (drafts st2) (StartNode (NodeTarget (edge_consumer e)))
      (WaitForHealthy (NodeTarget (edge_provider e)))" by metis
  with linked_depends [OF st(4)] st(5) show ?thesis by simp
qed

text \<open>A node starts after the runtime it lives in.\<close>

lemma runtime_depends:
  assumes ds: "compile_drafts digest cs = Inr ds"
    and c: "AddedChange (OwnerSubject (NodeSubject i)) (NodeValue n x) \<in> set cs"
    and asked: "asked_operation cs (StartNode (NodeTarget i))"
      "asked_operation cs (StartRuntime (RuntimeTarget (node_runtime n)))"
  shows "depends_on ds (StartNode (NodeTarget i)) (StartRuntime (RuntimeTarget (node_runtime n)))"
proof -
  obtain st st1 st2 st3 where st: "collect_changes digest cs = Inr st" "linked (precedes digest cs) st st1"
    "add_dependencies digest st1 (AddedChange (OwnerSubject (NodeSubject i)) (NodeValue n x)) = Inr st2"
    "linked (precedes digest cs) st2 st3" "drafts st3 = ds" by (rule compile_step [OF ds c])
  note t = collect_changes_typed [OF st(1)]
  obtain a b where ab: "map_of (start_node st) i = Some a" "map_of (start_runtime st) (node_runtime n) = Some b"
    using key_position [OF asked_indexed [OF st(1) asked(1), unfolded index_of.simps]]
      key_position [OF asked_indexed [OF st(1) asked(2), unfolded index_of.simps]] by blast
  note at = typed_lookup(4) [OF t(1) ab(1)] typed_lookup(1) [OF t(1) ab(2)]
  let ?st = "link (Some a) (Some b) st1"
  have loop: "foldR (\<lambda>st (k, g). if connector_node g \<noteq> i then Inr st
      else link_start i (map_of (allocate_ingress st) k) st) ?st (added_ingresses ?st) = Inr st2"
    using st(3) ab by (simp add: add_dependencies_def added_node_dependencies_def linked_fields [OF st(2)] link_start_def link_def)
  have l: "linked (precedes digest cs) st ?st"
    using at runtime_first [OF c] by (intro linked_link st(2)) (simp add: allowed_def)
  have "linked (precedes digest cs) ?st st2"
    by (rule connector_loop_linked [OF linked_refl linked_typed [OF l t(1)] loop])
  moreover have "depends_on (drafts ?st) (StartNode (NodeTarget i)) (StartRuntime (RuntimeTarget (node_runtime n)))"
    using link_depends [OF st(2)] at by metis
  ultimately show ?thesis using linked_depends [OF st(4)] linked_depends st(5) by metis
qed

text \<open>A runtime stops after its nodes are gone.\<close>

lemma fold_depends:
  assumes "x \<in> set xs" and "linked R st st'"
    and "\<And>x st'. x \<in> set xs \<Longrightarrow> linked R st st' \<Longrightarrow> linked R st' (f x st')"
    and "\<And>st'. linked R st st' \<Longrightarrow> depends_on (drafts (f x st')) s p"
  shows "depends_on (drafts (fold f xs st')) s p"
proof -
  obtain pre post where xs: "xs = pre @ x # post" using assms(1) by (meson split_list)
  have step: "linked R st (f y st1)" if "y \<in> set xs" "linked R st st1" for y st1
    using assms(3) [OF that] that(2) by (rule linked_trans)
  have pre: "linked R st (fold f pre st')" by (rule linked_fold [OF assms(2)]) (rule step, simp_all add: xs)
  then have l: "linked R st (f x (fold f pre st'))" using step assms(1) by blast
  have "linked R st st2 \<and> linked R (f x (fold f pre st')) st2"
    if "st2 = fold f ys (f x (fold f pre st'))" "set ys \<subseteq> set xs" for ys st2
    using that
  proof (induction ys arbitrary: st2 rule: rev_induct)
    case Nil
    then show ?case using l linked_refl by simp
  next
    case (snoc y ys)
    then have 1: "linked R st (fold f ys (f x (fold f pre st')))"
      "linked R (f x (fold f pre st')) (fold f ys (f x (fold f pre st')))" by auto
    then show ?case using snoc.prems assms(3) [OF _ 1(1), of y] linked_trans by (metis comp_apply fold_Cons fold_Nil fold_append id_apply list.set_intros(1) set_append subsetD UnI2)
  qed
  then have "linked R (f x (fold f pre st')) (fold f post (f x (fold f pre st')))" using xs by auto
  from linked_depends [OF this assms(4) [OF pre]] show ?thesis by (simp add: xs)
qed

definition removal_end :: "string \<Rightarrow> graph_node \<Rightarrow> activity_operation" where
  "removal_end i n = (if lc_compute (node_lifecycle n) = RETAINED then StopNode (NodeTarget i)
     else RemoveNodeResource (NodeTarget i))"

text \<open>A list of changes in which a removed subject has one value.\<close>

definition removed_once :: "structural_change list \<Rightarrow> bool" where
  "removed_once cs \<longleftrightarrow> (\<forall>s v v'. RemovedChange s v \<in> set cs \<longrightarrow> RemovedChange s v' \<in> set cs \<longrightarrow> v = v')"

lemma reported_once:
  assumes "\<forall>c\<in>set cs. reported codec cur des c"
  shows "removed_once cs"
  unfolding removed_once_def
proof (intro allI impI)
  fix s v v' assume "RemovedChange s v \<in> set cs" "RemovedChange s v' \<in> set cs"
  from this [THEN bspec [OF assms]] show "v = v'" by simp
qed

lemma removed_node_entry:
  assumes st: "collect_changes digest cs = Inr st" and once: "removed_once cs"
    and c: "RemovedChange (OwnerSubject (NodeSubject i)) (NodeValue n x) \<in> set cs"
    and owned: "lc_ownership (node_lifecycle n) = OWNED"
  shows "(i, node_runtime n) \<in> set (removed_node_runtime st)"
    and "\<exists>p. or_else (map_of (remove_node st) i) (map_of (stop_node st) i) = Some p \<and> p < length (drafts st) \<and>
      op_at (drafts st) p = removal_end i n"
proof -
  note t = collect_changes_typed [OF st]
  have plain: "reconciliation_owner (RemovedChange (OwnerSubject (NodeSubject i)) (NodeValue n x)) = None"
    by (simp add: reconciliation_owner_def field_owner_def)
  have asked: "asked_operation cs oper"
    if "oper \<in> set (change_operations (RemovedChange (OwnerSubject (NodeSubject i)) (NodeValue n x)))" for oper
    unfolding asked_operation_def using c plain that by blast
  have stop: "asked_operation cs (StopNode (NodeTarget i))"
    by (rule asked) (simp add: change_operations_def removed_operations_def owned)
  have key: "i \<in> fst ` set (stop_node st)" "i \<in> fst ` set (removed_node_runtime st)"
    using asked_indexed [OF st stop] by simp_all
  obtain p where p: "map_of (stop_node st) i = Some p" using key_position [OF key(1)] by blast
  from key(2) obtain r where r: "(i, r) \<in> set (removed_node_runtime st)" by auto
  then obtain m y where "RemovedChange (OwnerSubject (NodeSubject i)) (NodeValue m y) \<in> set cs" "node_runtime m = r"
    using t(1) unfolding typed_def values_typed_def by blast
  with once c have "r = node_runtime n" unfolding removed_once_def by blast
  with r show "(i, node_runtime n) \<in> set (removed_node_runtime st)" by simp
  show "\<exists>p. or_else (map_of (remove_node st) i) (map_of (stop_node st) i) = Some p \<and> p < length (drafts st) \<and>
      op_at (drafts st) p = removal_end i n"
  proof (cases "map_of (remove_node st) i")
    case None
    have "lc_compute (node_lifecycle n) = RETAINED"
    proof (rule ccontr)
      assume kept: "lc_compute (node_lifecycle n) \<noteq> RETAINED"
      have "asked_operation cs (RemoveNodeResource (NodeTarget i))"
        by (rule asked) (simp add: change_operations_def removed_operations_def owned kept)
      from asked_indexed [OF st this] have "i \<in> fst ` set (remove_node st)" by simp
      with None show False by (auto simp: key_known)
    qed
    then show ?thesis using None p typed_lookup(6) [OF t(1) p] by (simp add: or_else_def removal_end_def)
  next
    case (Some q)
    note at = typed_lookup(7) [OF t(1) Some]
    then have "asked_operation cs (RemoveNodeResource (NodeTarget i))" using draft_asked [OF st] by metis
    then obtain c' where "c' \<in> set cs" "RemoveNodeResource (NodeTarget i) \<in> set (change_operations c')"
      by (auto simp: asked_operation_def)
    with operations_of_change(7) obtain m y where "RemovedChange (OwnerSubject (NodeSubject i)) (NodeValue m y) \<in> set cs"
      "lc_compute (node_lifecycle m) \<noteq> RETAINED" by metis
    with once c have "lc_compute (node_lifecycle n) \<noteq> RETAINED" unfolding removed_once_def by blast
    then show ?thesis using Some at by (simp add: or_else_def removal_end_def)
  qed
qed

lemma teardown_depends:
  assumes ds: "compile_drafts digest cs = Inr ds" and once: "removed_once cs"
    and c: "RemovedChange (OwnerSubject (NodeSubject i)) (NodeValue n x) \<in> set cs" "lc_ownership (node_lifecycle n) = OWNED"
    and u: "RemovedChange (OwnerSubject (RuntimeSubject (node_runtime n))) v \<in> set cs"
    and asked: "asked_operation cs (StopRuntime (RuntimeTarget (node_runtime n)))"
  shows "depends_on ds (StopRuntime (RuntimeTarget (node_runtime n))) (removal_end i n)"
proof -
  let ?r = "node_runtime n"
  obtain st st1 st2 st3 where st: "collect_changes digest cs = Inr st" "linked (precedes digest cs) st st1"
    "add_dependencies digest st1 (RemovedChange (OwnerSubject (RuntimeSubject ?r)) v) = Inr st2"
    "linked (precedes digest cs) st2 st3" "drafts st3 = ds" by (rule compile_step [OF ds u])
  note t = collect_changes_typed(1) [OF st(1)]
  obtain stop where stop: "map_of (stop_runtime st) ?r = Some stop"
    using key_position [OF asked_indexed [OF st(1) asked, unfolded index_of.simps]] by blast
  obtain p where p: "or_else (map_of (remove_node st) i) (map_of (stop_node st) i) = Some p" "p < length (drafts st)"
    "op_at (drafts st) p = removal_end i n" using removed_node_entry(2) [OF st(1) once c] by blast
  let ?f = "\<lambda>(m, r) st. if r = ?r then link (Some stop) (or_else (map_of (remove_node st) m) (map_of (stop_node st) m)) st
    else st"
  have st2: "st2 = link (map_of (remove_runtime st) ?r) (Some stop) (fold ?f (removed_node_runtime st) st1)"
    using st(3) stop by (simp add: add_dependencies_def removed_runtime_dependencies_def linked_fields [OF st(2)])
  have 1: "linked (precedes digest cs) st' (?f item st')"
    if "item \<in> set (removed_node_runtime st)" and l: "linked (precedes digest cs) st st'" for item st'
    using node_runtime_step_linked [OF linked_refl linked_typed [OF l t], of ?r stop "fst item" "snd item"] that stop
    by (simp add: linked_fields [OF l] split_beta)
  have dep: "depends_on (drafts (fold ?f (removed_node_runtime st) st1)) (StopRuntime (RuntimeTarget ?r)) (removal_end i n)"
  proof (rule fold_depends [OF removed_node_entry(1) [OF st(1) once c] st(2) 1])
    fix st' assume l: "linked (precedes digest cs) st st'"
    show "depends_on (drafts (?f (i, ?r) st')) (StopRuntime (RuntimeTarget ?r)) (removal_end i n)"
      using link_depends [OF l _ p(2), of stop] typed_lookup(2) [OF t stop] p
      by (simp add: linked_fields [OF l])
  qed
  have l: "linked (precedes digest cs) st (fold ?f (removed_node_runtime st) st1)"
    by (rule linked_fold [OF st(2)]) (rule linked_trans [OF 1])
  have rest: "linked (precedes digest cs) (fold ?f (removed_node_runtime st) st1) st2"
    using remove_runtime_linked [OF linked_refl linked_typed [OF l t], of ?r stop, unfolded linked_fields(2,3) [OF l], OF stop]
    by (simp only: st2)
  from linked_depends [OF st(4) linked_depends [OF rest dep]] show ?thesis by (simp only: st(5))
qed

section \<open>Dependencies of the plan\<close>

text \<open>Some activity of the first operation names an activity of the second as its predecessor.\<close>

definition plan_waits :: "activity_plan \<Rightarrow> activity_operation \<Rightarrow> activity_operation \<Rightarrow> bool" where
  "plan_waits p s q \<longleftrightarrow> (\<exists>a\<in>set (activities p). \<exists>b\<in>set (activities p). operation a = s \<and> operation b = q \<and>
     activity_id b \<in> set (predecessors a))"

lemma plan_waits_iff:
  assumes "mset (activities p) = mset (map finish_draft ds)" and "depends_on ds s q"
  shows "plan_waits p s q"
proof -
  obtain a b where ab: "a < length ds" "b < length ds" "draft_operation (ds ! a) = s" "draft_operation (ds ! b) = q"
    "draft_id (ds ! b) \<in> set (draft_dependencies (ds ! a))"
    using assms(2) by (auto simp: depends_on_def op_at_def deps_at_def)
  have "set (activities p) = finish_draft ` set ds" using mset_eq_setD [OF assms(1)] by simp
  then have "finish_draft (ds ! a) \<in> set (activities p)" "finish_draft (ds ! b) \<in> set (activities p)"
    using ab(1,2) by simp_all
  with ab show ?thesis unfolding plan_waits_def by (metis finish_fields(1,2) finish_predecessors_set(1))
qed

end
