(* ===== verification/Compile_Accepted.thy ===== *)
theory Compile_Accepted
  imports Compile_Success
begin

text \<open>
  When a plan is compiled: the tokens of its sources differ, every target has a name, nothing that is
  not owned has to be started, and the startup and the teardown of nodes are not circular. The proof
  ranks the operations of the plan so that every dependency goes up.
\<close>

section \<open>Which node starts before which\<close>

definition set_up :: "structural_change list \<Rightarrow> string \<Rightarrow> bool" where
  "set_up cs i \<longleftrightarrow> asked_operation cs (StartNode (NodeTarget i)) \<or> asked_operation cs (ReconcileNode (NodeTarget i))"

definition edge_startup :: "structural_change list \<Rightarrow> structural_change \<Rightarrow> graph_edge \<Rightarrow> (diff_owner \<times> diff_owner) list" where
  "edge_startup cs c e = (if change_operations c = [] \<and> asked_operation cs (WaitForHealthy (NodeTarget (edge_provider e)))
       \<and> set_up cs (edge_consumer e)
     then [(NodeSubject (edge_provider e), NodeSubject (edge_consumer e))] else [])"

text \<open>The pairs of nodes and ingresses of which the first has to be up before the second.\<close>

definition startup_pairs :: "structural_change list \<Rightarrow> (diff_owner \<times> diff_owner) list" where
  "startup_pairs cs = concat (map (\<lambda>c. case c of
     AddedChange (EdgeSubject k) (EdgeValue e) \<Rightarrow> edge_startup cs c e
   | ModifiedChange (EdgeSubject k) b (EdgeValue e) \<Rightarrow> edge_startup cs c e
   | AddedChange (OwnerSubject (PublicIngressSubject k)) (PublicIngressValue g) \<Rightarrow>
       (if asked_operation cs (WaitForHealthy (NodeTarget (ingress_node g))) \<or> set_up cs (ingress_node g)
        then [(NodeSubject (ingress_node g), PublicIngressSubject k)] else []) @
       (if asked_operation cs (StartNode (NodeTarget (connector_node g)))
        then [(PublicIngressSubject k, NodeSubject (connector_node g))] else [])
   | _ \<Rightarrow> []) cs)"

definition teardown_pairs :: "structural_change list \<Rightarrow> (diff_owner \<times> diff_owner) list" where
  "teardown_pairs cs = concat (map (\<lambda>c. case c of
     RemovedChange (OwnerSubject (PublicIngressSubject k)) (PublicIngressValue g) \<Rightarrow>
       (if asked_operation cs (StopNode (NodeTarget (connector_node g)))
        then [(NodeSubject (connector_node g), PublicIngressSubject k)] else []) @
       (if ingress_node g \<noteq> connector_node g \<and> asked_operation cs (StopNode (NodeTarget (ingress_node g)))
        then [(PublicIngressSubject k, NodeSubject (ingress_node g))] else [])
   | _ \<Rightarrow> []) cs)"

section \<open>Ranks\<close>

definition depth :: "('a \<times> 'a) set \<Rightarrow> 'a \<Rightarrow> nat" where
  "depth r x = card {y. (y, x) \<in> r\<^sup>+}"

lemma depth_less:
  assumes "finite r" "acyclic r" and xy: "(x, y) \<in> r"
  shows "depth r x < depth r y"
  unfolding depth_def
proof (rule psubset_card_mono)
  have "{z. (z, y) \<in> r\<^sup>+} \<subseteq> fst ` (r\<^sup>+)" by force
  then show "finite {z. (z, y) \<in> r\<^sup>+}" using assms(1) finite_trancl finite_imageI finite_subset by metis
  have "x \<in> {z. (z, y) \<in> r\<^sup>+}" "x \<notin> {z. (z, x) \<in> r\<^sup>+}" using xy assms(2) by (auto simp: acyclic_def)
  moreover have "{z. (z, x) \<in> r\<^sup>+} \<subseteq> {z. (z, y) \<in> r\<^sup>+}" using xy by (auto intro: trancl_into_trancl)
  ultimately show "{z. (z, x) \<in> r\<^sup>+} \<subset> {z. (z, y) \<in> r\<^sup>+}" by blast
qed

text \<open>The phase of an operation, and its place inside a phase.\<close>

fun operation_rank :: "(diff_owner \<Rightarrow> nat) \<Rightarrow> (diff_owner \<Rightarrow> nat) \<Rightarrow> activity_operation \<Rightarrow> nat \<times> nat" where
  "operation_rank up down (StartNode (NodeTarget i)) = (1, 2 * up (NodeSubject i))"
| "operation_rank up down (ReconcileNode (NodeTarget i)) = (1, 2 * up (NodeSubject i))"
| "operation_rank up down (WaitForHealthy (NodeTarget i)) = (1, 2 * up (NodeSubject i) + 1)"
| "operation_rank up down (AllocatePublicIngress (PublicIngressActivityTarget k)) = (1, 2 * up (PublicIngressSubject k))"
| "operation_rank up down (AddSocketConnection t) = (2, 0)"
| "operation_rank up down (SwitchSocketConnection t) = (2, 0)"
| "operation_rank up down (RemoveSocketConnection t) = (2, 0)"
| "operation_rank up down (StopNode (NodeTarget i)) = (3, down (NodeSubject i))"
| "operation_rank up down (RemovePublicIngress (PublicIngressActivityTarget k)) = (3, down (PublicIngressSubject k))"
| "operation_rank up down (RemoveNodeResource t) = (4, 0)"
| "operation_rank up down (StopRuntime t) = (5, 0)"
| "operation_rank up down (RemoveRuntimeResource t) = (6, 0)"
| "operation_rank up down oper = (0, 0)"

definition plan_rank :: "structural_change list \<Rightarrow> activity_operation \<Rightarrow> nat \<times> nat" where
  "plan_rank cs = operation_rank (depth (set (startup_pairs cs))) (depth (set (teardown_pairs cs)))"

definition orders_agree :: "structural_change list \<Rightarrow> bool" where
  "orders_agree cs \<longleftrightarrow> acyclic (set (startup_pairs cs)) \<and> acyclic (set (teardown_pairs cs))"

lemma startup_less:
  "orders_agree cs \<Longrightarrow> (a, b) \<in> set (startup_pairs cs) \<Longrightarrow>
     depth (set (startup_pairs cs)) a < depth (set (startup_pairs cs)) b"
  by (simp add: orders_agree_def depth_less)

lemma teardown_less:
  "orders_agree cs \<Longrightarrow> (a, b) \<in> set (teardown_pairs cs) \<Longrightarrow>
     depth (set (teardown_pairs cs)) a < depth (set (teardown_pairs cs)) b"
  by (simp add: orders_agree_def depth_less)

lemma startup_members:
  "AddedChange (EdgeSubject k) (EdgeValue e) \<in> set cs \<Longrightarrow>
     p \<in> set (edge_startup cs (AddedChange (EdgeSubject k) (EdgeValue e)) e) \<Longrightarrow> p \<in> set (startup_pairs cs)"
  "ModifiedChange (EdgeSubject k) b (EdgeValue e) \<in> set cs \<Longrightarrow>
     p \<in> set (edge_startup cs (ModifiedChange (EdgeSubject k) b (EdgeValue e)) e) \<Longrightarrow> p \<in> set (startup_pairs cs)"
  "AddedChange (OwnerSubject (PublicIngressSubject i)) (PublicIngressValue g) \<in> set cs \<Longrightarrow>
     asked_operation cs (WaitForHealthy (NodeTarget (ingress_node g))) \<or> set_up cs (ingress_node g) \<Longrightarrow>
     (NodeSubject (ingress_node g), PublicIngressSubject i) \<in> set (startup_pairs cs)"
  "AddedChange (OwnerSubject (PublicIngressSubject i)) (PublicIngressValue g) \<in> set cs \<Longrightarrow>
     asked_operation cs (StartNode (NodeTarget (connector_node g))) \<Longrightarrow>
     (PublicIngressSubject i, NodeSubject (connector_node g)) \<in> set (startup_pairs cs)"
  by (simp_all add: startup_pairs_def) (rule bexI; force)+

lemma teardown_members:
  "RemovedChange (OwnerSubject (PublicIngressSubject i)) (PublicIngressValue g) \<in> set cs \<Longrightarrow>
     asked_operation cs (StopNode (NodeTarget (connector_node g))) \<Longrightarrow>
     (NodeSubject (connector_node g), PublicIngressSubject i) \<in> set (teardown_pairs cs)"
  "RemovedChange (OwnerSubject (PublicIngressSubject i)) (PublicIngressValue g) \<in> set cs \<Longrightarrow>
     ingress_node g \<noteq> connector_node g \<Longrightarrow> asked_operation cs (StopNode (NodeTarget (ingress_node g))) \<Longrightarrow>
     (PublicIngressSubject i, NodeSubject (ingress_node g)) \<in> set (teardown_pairs cs)"
  by (simp_all add: teardown_pairs_def) (rule bexI; force)+

lemma edge_operations:
  assumes "(\<exists>k. c = AddedChange (EdgeSubject k) (EdgeValue e)) \<or> (\<exists>k b. c = ModifiedChange (EdgeSubject k) b (EdgeValue e))"
    and "oper \<in> set (change_operations c)"
  shows "(\<exists>t. oper = AddSocketConnection t) \<or> (\<exists>t. oper = SwitchSocketConnection t)" and "reconciliation_owner c = None"
  using assms by (auto simp: change_operations_def added_operations_def modified_operations_def is_edge_value_def
      reconciliation_owner_def field_owner_def split: if_splits)

lemma precedes_rank:
  assumes "precedes digest cs p s" and "asked_operation cs p" "asked_operation cs s"
    and apart: "tokens_apart digest cs" and agree: "orders_agree cs"
  shows "plan_rank cs p < plan_rank cs s"
  using assms(1)
proof cases
  case (started t)
  then show ?thesis by (cases t) (simp add: plan_rank_def)
next
  case (reconciled t)
  then show ?thesis by (cases t) (simp add: plan_rank_def)
next
  case (stopped_node t)
  then show ?thesis by (cases t) (simp add: plan_rank_def)
next
  case (ingress_before_connector k g)
  then show ?thesis using startup_less [OF agree startup_members(4)] assms(2,3) by (simp add: plan_rank_def)
next
  case (target_before_ingress k g)
  then have "(NodeSubject (ingress_node g), PublicIngressSubject k) \<in> set (startup_pairs cs)"
    using assms(2) by (intro startup_members(3)) (auto simp: set_up_def)
  from startup_less [OF agree this] target_before_ingress show ?thesis by (auto simp: plan_rank_def)
next
  case (provider_first k e)
  then have "(NodeSubject (edge_provider e), NodeSubject (edge_consumer e)) \<in> set (startup_pairs cs)"
    using assms(2,3) by (intro startup_members(1)) (auto simp: edge_startup_def set_up_def)
  from startup_less [OF agree this] provider_first show ?thesis by (auto simp: plan_rank_def)
next
  case (changed_provider_first k b e)
  then have "(NodeSubject (edge_provider e), NodeSubject (edge_consumer e)) \<in> set (startup_pairs cs)"
    using assms(2,3) by (intro startup_members(2)) (auto simp: edge_startup_def set_up_def)
  from startup_less [OF agree this] changed_provider_first show ?thesis by (auto simp: plan_rank_def)
next
  case (endpoints_first c e n src)
  have "reconciliation_owner c = None" using endpoints_first(3) by (auto simp: reconciliation_owner_def field_owner_def)
  then have "src = change_source digest c" by (rule own_token [OF apart endpoints_first(2) _ endpoints_first(5,7)])
  then have "s \<in> set (change_operations c)" using endpoints_first(6) by (simp add: change_source_def)
  from edge_operations(1) [OF endpoints_first(3) this] endpoints_first(1) show ?thesis by (auto simp: plan_rank_def)
next
  case (connector_before_ingress k g)
  then show ?thesis using teardown_less [OF agree teardown_members(1)] assms(2,3) by (simp add: plan_rank_def)
next
  case (ingress_before_target k g)
  then show ?thesis using teardown_less [OF agree teardown_members(2)] assms(2,3) by (simp add: plan_rank_def)
qed (auto simp: plan_rank_def)

section \<open>Identities\<close>

lemma source_labels: "src \<in> set (plan_sources digest cs) \<Longrightarrow> distinct (map operation_label (snd src))"
proof -
  have "distinct (map operation_label (change_operations c))" for c
    by (cases c) (auto simp: change_operations_def added_operations_def removed_operations_def modified_operations_def
        split: diff_subject.split diff_owner.split diff_value.split)
  then show "src \<in> set (plan_sources digest cs) \<Longrightarrow> distinct (map operation_label (snd src))"
    by (auto simp: plan_sources_def change_source_def node_source_def runtime_source_def)
qed

lemma chain_drafts_ids: "map draft_id (chain_drafts token deps opers) = map (operation_id token) opers"
  by (induction opers arbitrary: deps) (simp_all add: standard_draft_def)

lemma operation_id_token: "operation_id t p = operation_id u q \<Longrightarrow> length t = length u \<Longrightarrow> t = u"
  by (simp add: operation_id_def)

lemma source_ids_distinct:
  assumes "distinct (map fst srcs)" and "\<And>src. src \<in> set srcs \<Longrightarrow> length (fst src) = 16"
    and "\<And>src. src \<in> set srcs \<Longrightarrow> distinct (map operation_label (snd src))"
  shows "distinct (concat (map (\<lambda>src. map (operation_id (fst src)) (snd src)) srcs))"
  using assms
proof (induction srcs)
  case (Cons src srcs)
  have "distinct (map (operation_id (fst src)) (snd src))"
    using Cons.prems(3) [of src] by (simp add: distinct_map operation_id_def inj_on_def)
  moreover have "operation_id (fst src) p \<noteq> operation_id (fst src') q" if "src' \<in> set srcs" for src' p q
  proof
    assume "operation_id (fst src) p = operation_id (fst src') q"
    then have "fst src = fst src'" using Cons.prems(2) that by (intro operation_id_token) simp_all
    with Cons.prems(1) that show False by (metis distinct.simps(2) imageI list.simps(9) list.set_map)
  qed
  ultimately show ?case using Cons by auto
qed simp

lemma compile_ids_distinct:
  assumes "compile_drafts digest cs = Inr ds" and apart: "tokens_apart digest cs"
  shows "distinct (map draft_id ds)"
proof -
  obtain st st'' where st: "collect_changes digest cs = Inr st" "linked (precedes digest cs) st st''" "drafts st'' = ds"
    using compile_drafts_Inr [OF assms(1)] by blast
  have "map fst (map draft_head ds) = map fst (map draft_head (drafts st))" using linked_operations [OF st(2)] st(3) by metis
  then have "map draft_id ds = map draft_id (drafts st)" by (simp add: draft_head_def comp_def)
  also have "\<dots> = concat (map (\<lambda>src. map (operation_id (fst src)) (snd src)) (plan_sources digest cs))"
    unfolding collect_changes_Inr(1) [OF st(1)] by (simp add: map_concat comp_def source_drafts_def chain_drafts_ids)
  finally have ids: "map draft_id ds = concat (map (\<lambda>src. map (operation_id (fst src)) (snd src)) (plan_sources digest cs))" .
  note a = apart [unfolded tokens_apart_def]
  show ?thesis unfolding ids
    by (rule source_ids_distinct [OF conjunct2 [OF a] token_shape(1) [OF conjunct1 [OF a]] source_labels])
qed

lemma hex_identity: "hex_digit c \<Longrightarrow> identity_char c"
  by (auto simp: hex_digit_def identity_char_def is_alnum_def Let_def)

lemma token_canonical:
  assumes "length t = 16" and "list_all hex_digit t"
  shows "is_canonical_activity_identity (operation_label oper @ '':'' @ t)"
proof -
  have "list_all identity_char t" using assms(2) hex_identity by (auto simp: list_all_iff)
  then show ?thesis using assms(1)
    by (cases oper) (simp_all add: is_canonical_activity_identity_def is_alnum_def identity_char_def char_code_def Let_def)
qed

section \<open>No missing start\<close>

text \<open>
  \<open>start_node[node_id]\<close> is read for every added node whose runtime starts or that connects an added
  ingress; only an owned node has a start.
\<close>

definition connects :: "string \<Rightarrow> structural_change \<Rightarrow> bool" where
  "connects i c = (case c of
     AddedChange (OwnerSubject (PublicIngressSubject k)) (PublicIngressValue g) \<Rightarrow> connector_node g = i
   | _ \<Rightarrow> False)"

definition start_known :: "structural_change list \<Rightarrow> structural_change \<Rightarrow> bool" where
  "start_known cs c = (case c of
     AddedChange (OwnerSubject (NodeSubject i)) (NodeValue n x) \<Rightarrow> lc_ownership (node_lifecycle n) = OWNED \<or>
       \<not> asked_operation cs (StartRuntime (RuntimeTarget (node_runtime n))) \<and> \<not> list_ex (connects i) cs
   | _ \<Rightarrow> True)"

lemma asked_here:
  "c \<in> set cs \<Longrightarrow> reconciliation_owner c = None \<Longrightarrow> oper \<in> set (change_operations c) \<Longrightarrow> asked_operation cs oper"
  by (auto simp: asked_operation_def)

lemma link_start_total:
  assumes "linked R st st'" and "\<exists>s. map_of (start_node st) i = Some s"
  shows "\<exists>st''. link_start i p st' = Inr st''"
  using assms(2) linked_fields(4) [OF assms(1)] by (auto simp: link_start_def split: option.split)

lemma added_node_total:
  assumes st: "collect_changes digest cs = Inr st" and l: "linked (precedes digest cs) st st'"
    and c: "AddedChange (OwnerSubject (NodeSubject i)) (NodeValue n x) \<in> set cs"
    and known: "start_known cs (AddedChange (OwnerSubject (NodeSubject i)) (NodeValue n x))"
  shows "\<exists>st''. added_node_dependencies i n st' = Inr st''"
proof (cases "lc_ownership (node_lifecycle n) = OWNED")
  case True
  note t = collect_changes_typed(1) [OF st]
  have "asked_operation cs (StartNode (NodeTarget i))"
    by (rule asked_here [OF c]) (simp_all add: reconciliation_owner_def field_owner_def change_operations_def
        added_operations_def True)
  from key_position [OF asked_indexed [OF st this, unfolded index_of.simps]]
  have key: "\<exists>s. map_of (start_node st) i = Some s" .
  obtain st1 where 1: "link_start i (map_of (start_runtime st') (node_runtime n)) st' = Inr st1"
    using link_start_total [OF l key] by blast
  have l1: "linked (precedes digest cs) st st1"
    using l _ 1 by (rule linked_start)
      (use runtime_first [OF c] in \<open>auto simp: allowed_def linked_fields(1) [OF l] dest!: typed_lookup [OF t]\<close>)
  have total: "\<exists>st''. foldR (\<lambda>st (k, g). if connector_node g \<noteq> i then Inr st
         else link_start i (map_of (allocate_ingress st) k) st) st1 xs = Inr st''"
    if "\<exists>s. map_of (start_node st1) i = Some s" for xs st1
    using that
  proof (induction xs arbitrary: st1)
    case (Cons item xs)
    obtain k g where item: "item = (k, g)" by force
    obtain s where s: "map_of (start_node st1) i = Some s" using Cons.prems by blast
    have "\<exists>st2. (if connector_node g \<noteq> i then Inr st1 else link_start i (map_of (allocate_ingress st1) k) st1) =
        Inr st2 \<and> start_node st2 = start_node st1"
      using s by (auto simp: link_start_def add_dependency_def split: option.split)
    with Cons.IH Cons.prems show ?case by (auto simp: item bindR_Inr_iff)
  qed simp
  from total [of st1 "added_ingresses st1"] key 1 show ?thesis
    by (simp add: added_node_dependencies_def bindR_Inr_iff linked_fields(4) [OF l1])
next
  case False
  note t = collect_changes_typed(1) [OF st]
  have "map_of (start_runtime st) (node_runtime n) = None"
  proof (rule ccontr)
    assume "map_of (start_runtime st) (node_runtime n) \<noteq> None"
    then obtain p where "map_of (start_runtime st) (node_runtime n) = Some p" by blast
    from typed_lookup(1) [OF t this] draft_asked [OF st]
    have "asked_operation cs (StartRuntime (RuntimeTarget (node_runtime n)))" by metis
    with known False show False by (simp add: start_known_def)
  qed
  moreover have "connector_node g \<noteq> i" if "(k, g) \<in> set (added_ingresses st)" for k g
  proof -
    have "AddedChange (OwnerSubject (PublicIngressSubject k)) (PublicIngressValue g) \<in> set cs"
      using t that by (auto simp: typed_def values_typed_def)
    with known False show ?thesis by (auto simp: start_known_def list_ex_iff connects_def)
  qed
  then have "foldR (\<lambda>st (k, g). if connector_node g \<noteq> i then Inr st
         else link_start i (map_of (allocate_ingress st) k) st) st' xs = Inr st'"
    if "set xs \<subseteq> set (added_ingresses st)" for xs
    using that by (induction xs) auto
  ultimately show ?thesis
    by (auto simp: added_node_dependencies_def linked_fields [OF l] link_start_def)
qed

section \<open>Compilation succeeds\<close>

lemma add_dependencies_total:
  assumes st: "collect_changes digest cs = Inr st" and "linked (precedes digest cs) st st'"
    and "c \<in> set cs" "start_known cs c"
  shows "\<exists>st''. add_dependencies digest st' c = Inr st''"
  using added_node_total [OF st assms(2)] assms(3,4)
  by (auto simp: add_dependencies_def split: structural_change.split diff_subject.split diff_owner.split diff_value.split)

lemma second_pass_total:
  assumes st: "collect_changes digest cs = Inr st" and "linked (precedes digest cs) st st'"
    and "set xs \<subseteq> set cs" "\<forall>c\<in>set cs. start_known cs c"
  shows "\<exists>st''. foldR (add_dependencies digest) st' xs = Inr st''"
  using assms(2,3)
proof (induction xs arbitrary: st')
  case (Cons c xs)
  then have c: "c \<in> set cs" "start_known cs c" using assms(4) by auto
  obtain st1 where 1: "add_dependencies digest st' c = Inr st1"
    using add_dependencies_total [OF st Cons.prems(1) c] by (elim exE)
  then have "linked (precedes digest cs) st st1"
    by (rule add_dependencies_linked [OF Cons.prems(1) collect_changes_typed [OF st] c(1)])
  with Cons 1 show ?case by (auto simp: bindR_Inr_iff)
qed simp

lemma sources_canonical:
  assumes apart: "tokens_apart digest cs" and "\<forall>oper. asked_operation cs oper \<longrightarrow> operation_named oper"
  shows "list_all canonical_source (plan_sources digest cs)"
proof -
  note shape = token_shape [OF conjunct1 [OF apart [unfolded tokens_apart_def]]]
  have "canonical_source src" if src: "src \<in> set (plan_sources digest cs)" for src
  proof -
    have "operation_named oper" if "oper \<in> set (snd src)" for oper
      using assms(2) plan_sources_operations [of oper digest cs] that src by auto
    then show ?thesis using token_canonical [OF shape [OF src]] by (simp add: canonical_source_def)
  qed
  then show ?thesis by (simp add: list_all_iff)
qed

lemma compile_drafts_total:
  assumes apart: "tokens_apart digest cs" and "\<forall>oper. asked_operation cs oper \<longrightarrow> operation_named oper"
    and "\<forall>c\<in>set cs. start_known cs c"
  shows "\<exists>ds. compile_drafts digest cs = Inr ds"
proof -
  obtain st where st: "collect_changes digest cs = Inr st"
    using collect_changes_total [OF sources_canonical [OF assms(1,2)]] by blast
  then show ?thesis using second_pass_total [OF st linked_refl subset_refl assms(3)]
    by (auto simp: compile_drafts_def)
qed

lemma drafts_acyclic:
  assumes ds: "compile_drafts digest cs = Inr ds" and apart: "tokens_apart digest cs" and agree: "orders_agree cs"
  shows "acyclic (depends (map finish_draft ds))"
proof -
  let ?oper = "\<lambda>x. the (map_of (map (\<lambda>d. (draft_id d, draft_operation d)) ds) x)"
  have asked: "asked_operation cs (draft_operation d)" if "d \<in> set ds" for d
    using compile_drafts_graded(3) [OF ds that] plan_sources_operations [of "draft_operation d" digest cs] by auto
  have oper: "?oper (draft_id d) = draft_operation d" if "d \<in> set ds" for d
  proof -
    have "distinct (map fst (map (\<lambda>d. (draft_id d, draft_operation d)) ds))"
      using compile_ids_distinct [OF ds apart] by (simp add: comp_def)
    from map_of_eq_Some_iff [OF this, of "draft_id d" "draft_operation d"] that show ?thesis by auto
  qed
  have "plan_rank cs (?oper x) < plan_rank cs (?oper y)" if "(x, y) \<in> depends (map finish_draft ds)" for x y
  proof -
    from that obtain d where d: "d \<in> set ds" "y = draft_id d" "x \<in> set (draft_dependencies d)"
      by (auto simp: depends_def)
    with compile_drafts_deps [OF ds] obtain e where e: "e \<in> set ds" "draft_id e = x"
      "precedes digest cs (draft_operation e) (draft_operation d)" unfolding deps_from_set by blast
    from precedes_rank [OF e(3) asked [OF e(1)] asked [OF d(1)] apart agree] oper d(1,2) e(1,2) show ?thesis by auto
  qed
  then have "acyclic ((depends (map finish_draft ds))\<inverse>)"
    by (intro acyclicI_order [where f = "\<lambda>x. plan_rank cs (?oper x)"]) simp
  then show ?thesis by simp
qed

lemma compile_succeeds:
  assumes "tokens_apart digest (diff_changes d)"
    and "\<forall>oper. asked_operation (diff_changes d) oper \<longrightarrow> operation_named oper"
    and "\<forall>c\<in>set (diff_changes d). start_known (diff_changes d) c" and "orders_agree (diff_changes d)"
  shows "\<exists>p. compile_activity_plan digest d = Inr p"
proof -
  obtain ds where ds: "compile_drafts digest (diff_changes d) = Inr ds"
    using compile_drafts_total [OF assms(1-3)] by blast
  with compile_accepts [OF ds] compile_ids_distinct [OF ds assms(1)] drafts_acyclic [OF ds assms(1,4)] show ?thesis by simp
qed

section \<open>A missing start raises\<close>

text \<open>Every added ingress is in the dictionary of added ingresses.\<close>

definition ingress_keys :: "compile_state \<Rightarrow> string set" where
  "ingress_keys st = fst ` set (added_ingresses st)"

lemma register_ingress_keys: "ingress_keys (fold (register_draft c) ds st) = ingress_keys st"
proof -
  have "added_ingresses (register_draft c d st) = added_ingresses st" for d st
    by (auto simp: register_draft_def register_edge_def register_switch_def Let_def
        split: activity_operation.split node_target.split runtime_target.split socket_connection_target.split
          public_ingress_target.split structural_change.split diff_value.split)
  then have "added_ingresses (fold (register_draft c) ds st) = added_ingresses st" by (induction ds arbitrary: st) simp_all
  then show ?thesis by (simp add: ingress_keys_def)
qed

lemma note_ingress_keys:
  "ingress_keys st \<subseteq> ingress_keys (note_change c st)"
  "c = AddedChange (OwnerSubject (PublicIngressSubject k)) (PublicIngressValue g) \<Longrightarrow> k \<in> ingress_keys (note_change c st)"
  by (auto simp: note_change_def ingress_keys_def dom_update
      split: structural_change.split diff_subject.split diff_owner.split diff_value.split)

lemma collect_change_keys:
  assumes "collect_change digest st c = Inr st'"
  shows "ingress_keys st' = ingress_keys (note_change c st)"
proof (cases "reconciliation_owner c")
  case None
  with assms show ?thesis by (simp add: collect_change_Inr register_ingress_keys)
next
  case (Some w)
  with assms owner_shape [OF Some] show ?thesis by (auto simp: collect_change_Inr ingress_keys_def)
qed

lemma collect_loop_keys:
  assumes "foldR (collect_change digest) st cs = Inr st'"
  shows "ingress_keys st \<subseteq> ingress_keys st'"
    and "AddedChange (OwnerSubject (PublicIngressSubject k)) (PublicIngressValue g) \<in> set cs \<Longrightarrow> k \<in> ingress_keys st'"
  using assms
proof (induction cs arbitrary: st)
  case (Cons c cs)
  {
    case 1
    then obtain st1 where "collect_change digest st c = Inr st1" "foldR (collect_change digest) st1 cs = Inr st'"
      by (auto simp: bindR_Inr_iff)
    with Cons.IH(1) collect_change_keys note_ingress_keys(1) show ?case by blast
  next
    case 2
    then obtain st1 where st1: "collect_change digest st c = Inr st1" "foldR (collect_change digest) st1 cs = Inr st'"
      by (auto simp: bindR_Inr_iff)
    show ?case
    proof (cases "c = AddedChange (OwnerSubject (PublicIngressSubject k)) (PublicIngressValue g)")
      case True
      then have "k \<in> ingress_keys st1" using note_ingress_keys(2) collect_change_keys [OF st1(1)] by blast
      with Cons.IH(1) [OF st1(2)] show ?thesis by blast
    next
      case False
      with 2(1) Cons.IH(2) [OF _ st1(2)] show ?thesis by auto
    qed
  }
qed simp_all

lemma collect_changes_keys:
  assumes "collect_changes digest cs = Inr st"
    and "AddedChange (OwnerSubject (PublicIngressSubject k)) (PublicIngressValue g) \<in> set cs"
  shows "k \<in> ingress_keys st"
proof -
  obtain st1 st2 where 1: "foldR (collect_change digest) empty_compile cs = Inr st1"
    and 2: "foldR (reconcile_one_node digest) st1 (sort_key fst (node_reconciliations st1)) = Inr st2"
    and 3: "foldR (reconcile_one_runtime digest) st2 (sort_key fst (runtime_reconciliations st2)) = Inr st"
    using assms(1) by (auto simp: collect_changes_def bindR_Inr_iff)
  have "k \<in> ingress_keys st1" by (rule collect_loop_keys(2) [OF 1 assms(2)])
  then have "k \<in> ingress_keys st2"
    by (rule foldR_preserves [where I = "\<lambda>s. k \<in> ingress_keys s", OF 2]) (simp add: reconcile_node_Inr ingress_keys_def)
  then show ?thesis
    by (rule foldR_preserves [where I = "\<lambda>s. k \<in> ingress_keys s", OF 3]) (simp add: reconcile_runtime_Inr ingress_keys_def)
qed

definition added_once :: "structural_change list \<Rightarrow> bool" where
  "added_once cs \<longleftrightarrow> (\<forall>s v v'. AddedChange s v \<in> set cs \<longrightarrow> AddedChange s v' \<in> set cs \<longrightarrow> v = v')"

lemma foldR_step:
  assumes "foldR f st xs = Inr st'" and "x \<in> set xs" and "I st"
    and "\<And>x st st'. x \<in> set xs \<Longrightarrow> I st \<Longrightarrow> f st x = Inr st' \<Longrightarrow> I st'"
  shows "\<exists>s s'. I s \<and> f s x = Inr s'"
  using assms
proof (induction xs arbitrary: st)
  case (Cons y xs)
  from Cons.prems(1) obtain st1 where 1: "f st y = Inr st1" "foldR f st1 xs = Inr st'" by (auto simp: bindR_Inr_iff)
  show ?case
  proof (cases "x = y")
    case True
    with 1 Cons.prems(3) show ?thesis by blast
  next
    case False
    have I: "I st1" by (rule Cons.prems(4) [OF _ Cons.prems(3) 1(1)]) simp
    have x: "x \<in> set xs" using False Cons.prems(2) by simp
    show ?thesis by (rule Cons.IH [OF 1(2) x I Cons.prems(4) [OF list.set_intros(2)]])
  qed
qed simp

lemma connects_inv:
  assumes "connects i c"
  shows "\<exists>k g. c = AddedChange (OwnerSubject (PublicIngressSubject k)) (PublicIngressValue g) \<and> connector_node g = i"
proof (cases c)
  case (AddedChange s v)
  with assms show ?thesis by (cases s; cases v) (auto simp: connects_def split: diff_owner.splits)
qed (use assms in \<open>simp_all add: connects_def\<close>)

lemma start_unknown:
  assumes "\<not> start_known cs c"
  shows "\<exists>i n x. c = AddedChange (OwnerSubject (NodeSubject i)) (NodeValue n x) \<and>
    lc_ownership (node_lifecycle n) \<noteq> OWNED \<and>
    (asked_operation cs (StartRuntime (RuntimeTarget (node_runtime n))) \<or> list_ex (connects i) cs)"
proof (cases c)
  case (AddedChange s v)
  with assms show ?thesis by (cases s; cases v) (auto simp: start_known_def split: diff_owner.splits)
qed (use assms in \<open>simp_all add: start_known_def\<close>)

lemma unowned_start_raises:
  assumes once: "added_once cs" and c: "c \<in> set cs" and "\<not> start_known cs c"
  shows "\<nexists>ds. compile_drafts digest cs = Inr ds"
proof
  assume "\<exists>ds. compile_drafts digest cs = Inr ds"
  then obtain ds where ds: "compile_drafts digest cs = Inr ds" by blast
  obtain i n x where cn: "c = AddedChange (OwnerSubject (NodeSubject i)) (NodeValue n x)"
    and unowned: "lc_ownership (node_lifecycle n) \<noteq> OWNED"
    and why: "asked_operation cs (StartRuntime (RuntimeTarget (node_runtime n))) \<or> list_ex (connects i) cs"
    using start_unknown [OF assms(3)] by blast
  obtain st st1 st2 st3 where st: "collect_changes digest cs = Inr st" "linked (precedes digest cs) st st1"
    "add_dependencies digest st1 c = Inr st2" "linked (precedes digest cs) st2 st3" "drafts st3 = ds"
    "linked (precedes digest cs) st st2" by (rule compile_step [OF ds c])
  note t = collect_changes_typed(1) [OF st(1)]
  have none: "map_of (start_node st) i = None"
  proof (rule ccontr)
    assume "map_of (start_node st) i \<noteq> None"
    then obtain p where "map_of (start_node st) i = Some p" by blast
    from typed_lookup(4) [OF t this] draft_asked [OF st(1)] have "asked_operation cs (StartNode (NodeTarget i))" by metis
    then obtain c' where "c' \<in> set cs" "StartNode (NodeTarget i) \<in> set (change_operations c')"
      by (auto simp: asked_operation_def)
    with operations_of_change(4) obtain m y where "AddedChange (OwnerSubject (NodeSubject i)) (NodeValue m y) \<in> set cs"
      "lc_ownership (node_lifecycle m) = OWNED" by metis
    with once c cn unowned show False unfolding added_once_def by blast
  qed
  have starts: "start_node s = start_node st" if "linked (precedes digest cs) st s" for s by (rule linked_fields(4) [OF that])
  from st(3) obtain st4 where 1: "link_start i (map_of (start_runtime st1) (node_runtime n)) st1 = Inr st4"
    and 2: "foldR (\<lambda>st (k, g). if connector_node g \<noteq> i then Inr st
         else link_start i (map_of (allocate_ingress st) k) st) st4 (added_ingresses st4) = Inr st2"
    by (auto simp: cn add_dependencies_def added_node_dependencies_def bindR_Inr_iff)
  from 1 none starts [OF st(2)] have no_runtime: "map_of (start_runtime st) (node_runtime n) = None" and 4: "st4 = st1"
    by (auto simp: link_start_def linked_fields(1) [OF st(2)] split: option.splits)
  have "\<not> asked_operation cs (StartRuntime (RuntimeTarget (node_runtime n)))"
    using asked_indexed [OF st(1)] no_runtime by (fastforce simp: key_known)
  with why obtain k g where g: "AddedChange (OwnerSubject (PublicIngressSubject k)) (PublicIngressValue g) \<in> set cs"
    and i: "connector_node g = i"
    by (auto simp: list_ex_iff dest: connects_inv)
  obtain g' where g': "(k, g') \<in> set (added_ingresses st)" using collect_changes_keys [OF st(1) g] by (auto simp: ingress_keys_def)
  then have "AddedChange (OwnerSubject (PublicIngressSubject k)) (PublicIngressValue g') \<in> set cs"
    using t by (auto simp: typed_def values_typed_def)
  with once g have "g' = g" unfolding added_once_def by blast
  with g' have item: "(k, g) \<in> set (added_ingresses st)" by simp
  have "\<exists>s s'. linked (precedes digest cs) st s \<and> (case (k, g) of (k, g) \<Rightarrow>
      if connector_node g \<noteq> i then Inr s else link_start i (map_of (allocate_ingress s) k) s) = Inr s'"
  proof (rule foldR_step [where I = "linked (precedes digest cs) st", OF 2])
    show "(k, g) \<in> set (added_ingresses st4)" using item by (simp add: 4 linked_fields(11) [OF st(2)])
    show "linked (precedes digest cs) st st4" by (simp add: 4 st(2))
    fix y s s' assume y: "y \<in> set (added_ingresses st4)" and s: "linked (precedes digest cs) st s"
      and f: "(case y of (k, g) \<Rightarrow>
        if connector_node g \<noteq> i then Inr s else link_start i (map_of (allocate_ingress s) k) s) = Inr s'"
    obtain k' h where "y = (k', h)" by force
    with y f show "linked (precedes digest cs) st s'"
      by (intro connector_step_linked [OF s t, of k' h]) (simp_all add: 4 linked_fields(11) [OF st(2)])
  qed
  then obtain s s' where s: "linked (precedes digest cs) st s"
    "(if connector_node g \<noteq> i then Inr s else link_start i (map_of (allocate_ingress s) k) s) = Inr s'" by auto
  have "asked_operation cs (AllocatePublicIngress (PublicIngressActivityTarget k))"
    by (rule asked_here [OF g]) (simp_all add: reconciliation_owner_def field_owner_def change_operations_def
        added_operations_def)
  from key_position [OF asked_indexed [OF st(1) this, unfolded index_of.simps]]
  have "map_of (allocate_ingress s) k \<noteq> None" using linked_fields(8) [OF s(1)] by auto
  with s none starts [OF s(1)] i show False by (auto simp: link_start_def split: option.splits)
qed

end
