(* ===== verification/Topology_Laws.thy ===== *)
theory Topology_Laws
  imports Compile_Accepted
begin

text \<open>
  From two graphs to the operations of a plan: which elements a difference adds and removes, and what
  every operation of a compiled plan says of the two graphs.
\<close>

section \<open>The elements of a graph\<close>

fun element :: "diff_subject \<Rightarrow> bool" where
  "element (OwnerSubject GraphSubject) \<longleftrightarrow> False"
| "element (OwnerSubject w) \<longleftrightarrow> True"
| "element (EdgeSubject i) \<longleftrightarrow> True"
| "element (FieldSubject w f k) \<longleftrightarrow> False"

fun present :: "deployment_graph \<Rightarrow> diff_subject \<Rightarrow> bool" where
  "present g (OwnerSubject (RuntimeSubject i)) \<longleftrightarrow> i \<in> fst ` set (graph_runtimes g)"
| "present g (OwnerSubject (NodeSubject i)) \<longleftrightarrow> i \<in> fst ` set (graph_nodes g)"
| "present g (OwnerSubject (PublicIngressSubject i)) \<longleftrightarrow> i \<in> ingress_id ` set (graph_ingresses g)"
| "present g (EdgeSubject i) \<longleftrightarrow> i \<in> fst ` set (graph_edges g)"
| "present g s \<longleftrightarrow> False"

lemma ingress_key: "i \<in> ingress_id ` set (graph_ingresses g) \<longleftrightarrow> (\<exists>v. map_of (ingress_entries g) i = Some v)"
  unfolding key_known [symmetric] by (auto simp: ingress_entries_def image_iff)

lemma raw_members:
  assumes "raw_changes codec cur des = Inr cs"
  shows "c \<in> set cs \<longleftrightarrow> c \<in> set (modified_if (graph_name cur \<noteq> graph_name des) (FieldSubject GraphSubject GRAPH_NAME None)
        (TextValue (graph_name cur)) (TextValue (graph_name des))) \<or> c \<in> set (diff_runtimes cur des) \<or>
      Inr c \<in> set (keyed_changes
        (\<lambda>i n. [bindR (encoded_node codec n) (\<lambda>v. Inr (AddedChange (OwnerSubject (NodeSubject i)) v))])
        (\<lambda>i n. [bindR (encoded_node codec n) (\<lambda>v. Inr (RemovedChange (OwnerSubject (NodeSubject i)) v))])
        (node_changes codec) (graph_nodes cur) (graph_nodes des)) \<or> c \<in> set (diff_edges cur des) \<or>
      c \<in> set (diff_public_ingresses cur des) \<or> c \<in> set (diff_authorities cur des)"
proof -
  obtain ns where ns: "diff_nodes codec cur des = Inr ns"
    and cs: "cs = modified_if (graph_name cur \<noteq> graph_name des) (FieldSubject GraphSubject GRAPH_NAME None)
        (TextValue (graph_name cur)) (TextValue (graph_name des)) @ diff_runtimes cur des @
      ns @ diff_edges cur des @ diff_public_ingresses cur des @ diff_authorities cur des"
    using assms by (auto simp: raw_changes_def bindR_Inr_iff)
  have "c \<in> set ns \<longleftrightarrow> (Inr c :: topology_exn + structural_change) \<in> set (map Inr ns)" by auto
  then show ?thesis unfolding cs set_append Un_iff ns [unfolded diff_nodes_Inr] by blast
qed

text \<open>The owner of the changes inside one runtime, node, edge or ingress.\<close>

fun about :: "diff_owner \<Rightarrow> diff_subject \<Rightarrow> bool" where
  "about w (FieldSubject v f k) \<longleftrightarrow> v = w"
| "about w s \<longleftrightarrow> False"

lemma runtime_changes_about: "c \<in> set (runtime_changes i b a) \<Longrightarrow> about (RuntimeSubject i) (change_subject c)"
  by (auto simp: runtime_changes_def Let_def in_modified_if split: if_splits)

lemma node_changes_about:
  "Inr c \<in> set (node_changes codec i b a) \<Longrightarrow>
     about (NodeSubject i) (change_subject c) \<or> (\<exists>r x y. c = AmbiguousChange (OwnerSubject (NodeSubject i)) r x y)"
  by (auto simp: node_changes_def placement_changes_def spec_changes_def content_changes_def endpoint_changes_def
      Let_def in_modified_if in_keyed_changes Inr_bindR_iff bindR_Inr_iff split: if_splits)

lemma element_not_about: "element s \<Longrightarrow> \<not> about w s"
  by (cases s) auto

lemma owner_changes:
  assumes "c = AddedChange s v \<or> c = RemovedChange s v" and "element s"
  shows "c \<notin> set (runtime_changes i b a)" "Inr c \<notin> set (node_changes codec i m n)"
    "c \<notin> set (modified_if x t y z)" "c \<notin> set (diff_authorities cur des)"
  using assms runtime_changes_about [of c i b a] node_changes_about [of c codec i m n] element_not_about [of s]
  by (auto simp: in_modified_if diff_authorities_def)

lemmas keyed_diffs = diff_runtimes_def diff_edges_def diff_public_ingresses_def Let_def in_keyed_changes

lemma node_held:
  "subject_value codec g (OwnerSubject (NodeSubject i)) = Some v \<longleftrightarrow>
     (\<exists>n. map_of (graph_nodes g) i = Some n \<and> encoded_node codec n = Inr v)"
proof -
  have "(case encoded_node codec n of Inl x \<Rightarrow> None | Inr v \<Rightarrow> Some v) = Some v \<longleftrightarrow> encoded_node codec n = Inr v" for n
    by (cases "encoded_node codec n") simp_all
  then show ?thesis by (simp add: subject_value_def bind_eq_Some_conv)
qed

lemma added_exactly:
  assumes "raw_changes codec cur des = Inr cs" and "element s"
  shows "AddedChange s v \<in> set cs \<longleftrightarrow> \<not> present cur s \<and> subject_value codec des s = Some v"
proof -
  note o = owner_changes [OF disjI1 [OF refl] assms(2)]
  show ?thesis
  proof (cases s)
    case (OwnerSubject w)
    show ?thesis
    proof (cases "\<exists>i. w = NodeSubject i")
      case True
      then show ?thesis using OwnerSubject o unfolding raw_members [OF assms(1)] keyed_diffs
        by (auto simp: node_held key_known Inr_bindR_iff bindR_Inr_iff)
    next
      case False
      then show ?thesis using OwnerSubject assms(2) o unfolding raw_members [OF assms(1)] keyed_diffs
        by (cases w) (auto simp: subject_value_def key_known ingress_key Inr_bindR_iff bindR_Inr_iff)
    qed
  next
    case (EdgeSubject i)
    then show ?thesis using o unfolding raw_members [OF assms(1)] keyed_diffs
      by (auto simp: subject_value_def key_known Inr_bindR_iff bindR_Inr_iff)
  qed (use assms(2) in simp)
qed

lemma removed_exactly:
  assumes "raw_changes codec cur des = Inr cs" and "element s"
  shows "RemovedChange s v \<in> set cs \<longleftrightarrow> \<not> present des s \<and> subject_value codec cur s = Some v"
proof -
  note o = owner_changes [OF disjI2 [OF refl] assms(2)]
  show ?thesis
  proof (cases s)
    case (OwnerSubject w)
    show ?thesis
    proof (cases "\<exists>i. w = NodeSubject i")
      case True
      then show ?thesis using OwnerSubject o unfolding raw_members [OF assms(1)] keyed_diffs
        by (auto simp: node_held key_known Inr_bindR_iff bindR_Inr_iff)
    next
      case False
      then show ?thesis using OwnerSubject assms(2) o unfolding raw_members [OF assms(1)] keyed_diffs
        by (cases w) (auto simp: subject_value_def key_known ingress_key Inr_bindR_iff bindR_Inr_iff)
    qed
  next
    case (EdgeSubject i)
    then show ?thesis using o unfolding raw_members [OF assms(1)] keyed_diffs
      by (auto simp: subject_value_def key_known Inr_bindR_iff bindR_Inr_iff)
  qed (use assms(2) in simp)
qed

lemma field_of_common:
  assumes "raw_changes codec cur des = Inr cs" and "c \<in> set cs" and "change_subject c = FieldSubject w f k"
  shows "w = GraphSubject \<or> present cur (OwnerSubject w) \<and> present des (OwnerSubject w)"
  using assms(2,3) unfolding raw_members [OF assms(1)] keyed_diffs
  by (auto simp: in_modified_if diff_authorities_def key_known Inr_bindR_iff bindR_Inr_iff
      dest!: runtime_changes_about node_changes_about)

lemma edge_modified:
  assumes "raw_changes codec cur des = Inr cs" and "ModifiedChange (EdgeSubject k) x y \<in> set cs"
  shows "present cur (EdgeSubject k) \<and> present des (EdgeSubject k)"
  using assms(2) unfolding raw_members [OF assms(1)] keyed_diffs
  by (auto simp: in_modified_if diff_authorities_def key_known Inr_bindR_iff bindR_Inr_iff
      dest!: runtime_changes_about node_changes_about)

section \<open>What a plan may do\<close>

abbreviation runtime_element :: "string \<Rightarrow> diff_subject" where
  "runtime_element i \<equiv> OwnerSubject (RuntimeSubject i)"

abbreviation node_element :: "string \<Rightarrow> diff_subject" where
  "node_element i \<equiv> OwnerSubject (NodeSubject i)"

abbreviation ingress_element :: "string \<Rightarrow> diff_subject" where
  "ingress_element i \<equiv> OwnerSubject (PublicIngressSubject i)"

text \<open>The node or runtime of a graph that the deployment owns; its compute resource is kept if it is retained.\<close>

definition owns_node :: "deployment_graph \<Rightarrow> string \<Rightarrow> graph_node \<Rightarrow> bool" where
  "owns_node g i n \<longleftrightarrow> map_of (graph_nodes g) i = Some n \<and> lc_ownership (node_lifecycle n) = OWNED"

definition owns_runtime :: "deployment_graph \<Rightarrow> string \<Rightarrow> runtime_record \<Rightarrow> bool" where
  "owns_runtime g i r \<longleftrightarrow> map_of (graph_runtimes g) i = Some r \<and> lc_ownership (runtime_lifecycle r) = OWNED"

fun permitted :: "deployment_graph \<Rightarrow> deployment_graph \<Rightarrow> activity_operation \<Rightarrow> bool" where
  "permitted cur des (StartRuntime (RuntimeTarget i)) \<longleftrightarrow> \<not> present cur (runtime_element i) \<and> (\<exists>r. owns_runtime des i r)"
| "permitted cur des (StopRuntime (RuntimeTarget i)) \<longleftrightarrow> \<not> present des (runtime_element i) \<and> (\<exists>r. owns_runtime cur i r)"
| "permitted cur des (RemoveRuntimeResource (RuntimeTarget i)) \<longleftrightarrow> \<not> present des (runtime_element i) \<and>
     (\<exists>r. owns_runtime cur i r \<and> lc_compute (runtime_lifecycle r) \<noteq> RETAINED)"
| "permitted cur des (StartNode (NodeTarget i)) \<longleftrightarrow> \<not> present cur (node_element i) \<and> (\<exists>n. owns_node des i n)"
| "permitted cur des (StopNode (NodeTarget i)) \<longleftrightarrow> \<not> present des (node_element i) \<and> (\<exists>n. owns_node cur i n)"
| "permitted cur des (RemoveNodeResource (NodeTarget i)) \<longleftrightarrow> \<not> present des (node_element i) \<and>
     (\<exists>n. owns_node cur i n \<and> lc_compute (node_lifecycle n) \<noteq> RETAINED)"
| "permitted cur des (WaitForHealthy (NodeTarget i)) \<longleftrightarrow> present des (node_element i)"
| "permitted cur des (ReconcileNode (NodeTarget i)) \<longleftrightarrow> present cur (node_element i) \<and> present des (node_element i)"
| "permitted cur des (ReconcileRuntime (RuntimeTarget i)) \<longleftrightarrow>
     present cur (runtime_element i) \<and> present des (runtime_element i)"
| "permitted cur des (AddSocketConnection (SocketConnectionTarget k)) \<longleftrightarrow> \<not> present cur (EdgeSubject k) \<and>
     (\<exists>e. map_of (graph_edges des) k = Some e \<and> edge_binding e \<noteq> ENVIRONMENT)"
| "permitted cur des (RemoveSocketConnection (SocketConnectionTarget k)) \<longleftrightarrow> \<not> present des (EdgeSubject k) \<and>
     (\<exists>e. map_of (graph_edges cur) k = Some e \<and> edge_binding e \<noteq> ENVIRONMENT)"
| "permitted cur des (SwitchSocketConnection (SocketConnectionTarget k)) \<longleftrightarrow>
     present cur (EdgeSubject k) \<and> present des (EdgeSubject k)"
| "permitted cur des (AllocatePublicIngress (PublicIngressActivityTarget k)) \<longleftrightarrow>
     \<not> present cur (ingress_element k) \<and> present des (ingress_element k)"
| "permitted cur des (RemovePublicIngress (PublicIngressActivityTarget k)) \<longleftrightarrow>
     present cur (ingress_element k) \<and> \<not> present des (ingress_element k)"
| "permitted cur des (DestroyDataResource t) \<longleftrightarrow> False"
| "permitted cur des (ReviewChange t r) \<longleftrightarrow> True"

lemma encoded_value: "encoded_node codec m = Inr (NodeValue n x) \<Longrightarrow> m = n"
  by (auto simp: encoded_node_def bindR_Inr_iff)

lemma held_node: "subject_value codec g (node_element i) = Some (NodeValue n x) \<Longrightarrow> map_of (graph_nodes g) i = Some n"
  by (auto simp: node_held dest: encoded_value)

lemma held_value:
  "subject_value codec g (runtime_element i) = Some (RuntimeValue r) \<longleftrightarrow> map_of (graph_runtimes g) i = Some r"
  "subject_value codec g (EdgeSubject k) = Some (EdgeValue e) \<longleftrightarrow> map_of (graph_edges g) k = Some e"
  "subject_value codec g (ingress_element k) = Some (PublicIngressValue j) \<longleftrightarrow> map_of (ingress_entries g) k = Some j"
  by (auto simp: subject_value_def)

lemma known_present:
  "map_of (graph_edges g) k = Some e \<Longrightarrow> present g (EdgeSubject k)"
  "map_of (graph_nodes g) i = Some n \<Longrightarrow> present g (node_element i)"
  "map_of (ingress_entries g) k = Some j \<Longrightarrow> present g (ingress_element k)"
  by (auto simp: key_known ingress_key)

lemma element_changes:
  assumes raw: "raw_changes codec cur des = Inr cs"
  shows "AddedChange (runtime_element i) (RuntimeValue r) \<in> set cs \<Longrightarrow>
      \<not> present cur (runtime_element i) \<and> map_of (graph_runtimes des) i = Some r"
    and "RemovedChange (runtime_element i) (RuntimeValue r) \<in> set cs \<Longrightarrow>
      \<not> present des (runtime_element i) \<and> map_of (graph_runtimes cur) i = Some r"
    and "AddedChange (node_element i) (NodeValue n x) \<in> set cs \<Longrightarrow>
      \<not> present cur (node_element i) \<and> map_of (graph_nodes des) i = Some n"
    and "RemovedChange (node_element i) (NodeValue n x) \<in> set cs \<Longrightarrow>
      \<not> present des (node_element i) \<and> map_of (graph_nodes cur) i = Some n"
    and "AddedChange (EdgeSubject i) (EdgeValue e) \<in> set cs \<Longrightarrow>
      \<not> present cur (EdgeSubject i) \<and> map_of (graph_edges des) i = Some e"
    and "RemovedChange (EdgeSubject i) (EdgeValue e) \<in> set cs \<Longrightarrow>
      \<not> present des (EdgeSubject i) \<and> map_of (graph_edges cur) i = Some e"
    and "AddedChange (ingress_element i) (PublicIngressValue j) \<in> set cs \<Longrightarrow>
      \<not> present cur (ingress_element i) \<and> map_of (ingress_entries des) i = Some j"
    and "RemovedChange (ingress_element i) (PublicIngressValue j) \<in> set cs \<Longrightarrow>
      \<not> present des (ingress_element i) \<and> map_of (ingress_entries cur) i = Some j"
  using added_exactly [OF raw] removed_exactly [OF raw] held_node
  by (fastforce simp: held_value simp del: present.simps)+

lemma change_permitted:
  assumes raw: "raw_changes codec cur des = Inr cs" and c: "c \<in> set cs" and oper: "oper \<in> set (change_operations c)"
  shows "permitted cur des oper"
  using oper c
  by (cases "(cur, des, oper)" rule: permitted.cases)
    (auto simp: owns_node_def owns_runtime_def operations_of_change(13-15) known_present simp del: present.simps
      dest!: operations_of_change(1-12) element_changes [OF raw] edge_modified [OF raw])

lemma owner_subject: "reconciliation_owner c = Some w \<Longrightarrow> \<exists>f k. change_subject c = FieldSubject w f k"
  by (auto simp: reconciliation_owner_def field_owner_def split: structural_change.splits
      diff_subject.splits diff_owner.splits if_splits)

lemma asked_cong: "set es = set cs \<Longrightarrow> asked_operation es = asked_operation cs"
  by (intro ext) (simp add: asked_operation_def)

lemma asked_permitted:
  assumes raw: "raw_changes codec cur des = Inr cs" and asked: "asked_operation cs oper"
  shows "permitted cur des oper"
proof -
  have owner: "present cur (OwnerSubject w) \<and> present des (OwnerSubject w)"
    if "c \<in> set cs" "reconciliation_owner c = Some w" for c w
  proof -
    from owner_subject [OF that(2)] field_of_common [OF raw that(1)] owner_shape [OF that(2)] show ?thesis by blast
  qed
  from asked consider c where "c \<in> set cs" "oper \<in> set (change_operations c)"
    | c i where "c \<in> set cs" "reconciliation_owner c = Some (NodeSubject i)"
      "oper = ReconcileNode (NodeTarget i) \<or> oper = WaitForHealthy (NodeTarget i)"
    | c i where "c \<in> set cs" "reconciliation_owner c = Some (RuntimeSubject i)" "oper = ReconcileRuntime (RuntimeTarget i)"
    unfolding asked_operation_def by blast
  then show ?thesis
  proof cases
    case 1
    then show ?thesis by (rule change_permitted [OF raw])
  next
    case (2 c i)
    from owner [OF this(1,2)] this(3) show ?thesis by (auto simp del: present.simps)
  next
    case (3 c i)
    from owner [OF this(1,2)] this(3) show ?thesis by (simp del: present.simps)
  qed
qed

section \<open>From the graphs to the changes\<close>

lemma diff_raw:
  assumes "diff_graphs digest cur des = Inr d" and "supports_same_block_specs (validated_codec cur) (validated_codec des)"
  shows "\<exists>cs. raw_changes (validated_codec cur) (validated_value cur) (validated_value des) = Inr cs \<and>
    set (diff_changes d) = set cs"
  using assms by (auto simp: diff_graphs_Inr)

lemma reported_added_once:
  assumes "\<forall>c\<in>set cs. reported codec cur des c"
  shows "added_once cs"
  unfolding added_once_def
proof (intro allI impI)
  fix s v v' assume "AddedChange s v \<in> set cs" "AddedChange s v' \<in> set cs"
  from this [THEN bspec [OF assms]] show "v = v'" by simp
qed

lemma raw_once:
  assumes "raw_changes codec cur des = Inr cs" and "set es = set cs"
  shows "added_once es" and "removed_once es"
proof -
  have r: "\<forall>c\<in>set es. reported codec cur des c" using raw_changes_reported [OF assms(1)] assms(2) by simp
  show "added_once es" "removed_once es" by (rule reported_added_once [OF r], rule reported_once [OF r])
qed

lemma added_node_change:
  assumes raw: "raw_changes codec cur des = Inr cs" and "map_of (graph_nodes des) i = Some n" "\<not> present cur (node_element i)"
  shows "\<exists>x. AddedChange (node_element i) (NodeValue n x) \<in> set cs"
proof -
  obtain ns where ns: "diff_nodes codec cur des = Inr ns" using raw by (auto simp: raw_changes_def bindR_Inr_iff)
  let ?r = "bindR (encoded_node codec n) (\<lambda>v. Inr (AddedChange (node_element i) v))"
  have "map_of (graph_nodes cur) i = None" using assms(3) by (simp add: key_known)
  with assms(2) have "?r \<in> set (map Inr ns)" unfolding ns [unfolded diff_nodes_Inr, symmetric] in_keyed_changes by auto
  then obtain v where v: "encoded_node codec n = Inr v" by (auto simp: Inr_bindR_iff eq_commute)
  then obtain x where "v = NodeValue n x" by (auto simp: encoded_node_def bindR_Inr_iff)
  with v have "subject_value codec des (node_element i) = Some (NodeValue n x)" using assms(2) by (simp add: node_held)
  with added_exactly [OF raw, of "node_element i"] assms(3) show ?thesis by auto
qed

lemma removed_node_change:
  assumes raw: "raw_changes codec cur des = Inr cs" and "map_of (graph_nodes cur) i = Some n" "\<not> present des (node_element i)"
  shows "\<exists>x. RemovedChange (node_element i) (NodeValue n x) \<in> set cs"
proof -
  obtain ns where ns: "diff_nodes codec cur des = Inr ns" using raw by (auto simp: raw_changes_def bindR_Inr_iff)
  let ?r = "bindR (encoded_node codec n) (\<lambda>v. Inr (RemovedChange (node_element i) v))"
  have "map_of (graph_nodes des) i = None" using assms(3) by (simp add: key_known)
  with assms(2) have "?r \<in> set (map Inr ns)" unfolding ns [unfolded diff_nodes_Inr, symmetric] in_keyed_changes by auto
  then obtain v where v: "encoded_node codec n = Inr v" by (auto simp: Inr_bindR_iff eq_commute)
  then obtain x where "v = NodeValue n x" by (auto simp: encoded_node_def bindR_Inr_iff)
  with v have "subject_value codec cur (node_element i) = Some (NodeValue n x)" using assms(2) by (simp add: node_held)
  with removed_exactly [OF raw, of "node_element i"] assms(3) show ?thesis by auto
qed

lemma added_element_change:
  assumes raw: "raw_changes codec cur des = Inr cs"
  shows "map_of (graph_runtimes des) i = Some r \<Longrightarrow> \<not> present cur (runtime_element i) \<Longrightarrow>
      AddedChange (runtime_element i) (RuntimeValue r) \<in> set cs"
    and "map_of (graph_edges des) k = Some e \<Longrightarrow> \<not> present cur (EdgeSubject k) \<Longrightarrow>
      AddedChange (EdgeSubject k) (EdgeValue e) \<in> set cs"
    and "map_of (ingress_entries des) k = Some g \<Longrightarrow> \<not> present cur (ingress_element k) \<Longrightarrow>
      AddedChange (ingress_element k) (PublicIngressValue g) \<in> set cs"
    and "map_of (graph_runtimes cur) i = Some r \<Longrightarrow> \<not> present des (runtime_element i) \<Longrightarrow>
      RemovedChange (runtime_element i) (RuntimeValue r) \<in> set cs"
  by (simp_all add: added_exactly [OF raw] removed_exactly [OF raw] held_value)

lemma plain_owner: "element s \<Longrightarrow> reconciliation_owner (AddedChange s v) = None \<and> reconciliation_owner (RemovedChange s v) = None"
  by (cases s) (simp_all add: reconciliation_owner_def field_owner_def)

lemma added_node_asked:
  assumes raw: "raw_changes codec cur des = Inr cs" and "set es = set cs" and own: "owns_node des i n" "\<not> present cur (node_element i)"
  shows "asked_operation es (StartNode (NodeTarget i))" and "asked_operation es (WaitForHealthy (NodeTarget i))"
proof -
  obtain x where c: "AddedChange (node_element i) (NodeValue n x) \<in> set es"
    using added_node_change [OF raw _ own(2)] own(1) assms(2) by (auto simp: owns_node_def)
  show "asked_operation es (StartNode (NodeTarget i))" "asked_operation es (WaitForHealthy (NodeTarget i))"
    by (rule asked_here [OF c]; use own(1) in \<open>simp add: plain_owner change_operations_def added_operations_def owns_node_def\<close>)+
qed

lemma added_runtime_asked:
  assumes raw: "raw_changes codec cur des = Inr cs" and "set es = set cs"
    and own: "owns_runtime des i r" "\<not> present cur (runtime_element i)"
  shows "asked_operation es (StartRuntime (RuntimeTarget i))"
proof -
  have c: "AddedChange (runtime_element i) (RuntimeValue r) \<in> set es"
    using added_element_change(1) [OF raw _ own(2)] own(1) assms(2) by (simp add: owns_runtime_def)
  show ?thesis
    by (rule asked_here [OF c]; use own(1) in \<open>simp add: plain_owner change_operations_def added_operations_def owns_runtime_def\<close>)
qed

lemma removed_runtime_asked:
  assumes raw: "raw_changes codec cur des = Inr cs" and "set es = set cs"
    and own: "owns_runtime cur i r" "\<not> present des (runtime_element i)"
  shows "asked_operation es (StopRuntime (RuntimeTarget i))" and "RemovedChange (runtime_element i) (RuntimeValue r) \<in> set es"
proof -
  show c: "RemovedChange (runtime_element i) (RuntimeValue r) \<in> set es"
    using added_element_change(4) [OF raw _ own(2)] own(1) assms(2) by (simp add: owns_runtime_def)
  show "asked_operation es (StopRuntime (RuntimeTarget i))"
    by (rule asked_here [OF c]; use own(1) in \<open>simp add: plain_owner change_operations_def removed_operations_def owns_runtime_def\<close>)
qed

section \<open>Named subjects\<close>

fun owner_named :: "diff_owner \<Rightarrow> bool" where
  "owner_named GraphSubject \<longleftrightarrow> True"
| "owner_named (RuntimeSubject i) \<longleftrightarrow> non_blank i"
| "owner_named (NodeSubject i) \<longleftrightarrow> non_blank i"
| "owner_named (PublicIngressSubject i) \<longleftrightarrow> non_blank i"

fun subject_named :: "diff_subject \<Rightarrow> bool" where
  "subject_named (OwnerSubject w) \<longleftrightarrow> owner_named w"
| "subject_named (EdgeSubject i) \<longleftrightarrow> non_blank i"
| "subject_named (FieldSubject w f k) \<longleftrightarrow> owner_named w"

lemma asked_named:
  assumes "asked_operation cs oper" and named: "\<forall>c\<in>set cs. subject_named (change_subject c)"
  shows "operation_named oper"
proof -
  have here: "operation_named oper" if "oper \<in> set (change_operations c)" "subject_named (change_subject c)" for c
    using that by (cases oper rule: operation_named.cases) (auto dest!: operations_of_change(1-12) simp: operations_of_change(13-15))
  have owner: "owner_named w" if "c \<in> set cs" "reconciliation_owner c = Some w" for c w
    using owner_subject [OF that(2)] named that(1) by force
  from assms(1) show ?thesis unfolding asked_operation_def using here named by (auto dest: owner)
qed

end
