(* ===== verification/Sample_Graph.thy ===== *)
theory Sample_Graph
  imports Topology_Laws
begin

text \<open>
  Sample graphs and their differences, the inputs of the witnesses on differences and plans: the
  application \<open>app\<close> connects to the database \<open>db\<close> in the runtime \<open>dock\<close>; another database is
  attached.
\<close>

definition sample_spec :: "string \<Rightarrow> block_spec" where
  "sample_spec role = \<lparr>spec_class = ''BlockSpec'', spec_role = role, spec_display = None, spec_health = None,
     spec_capabilities = [], spec_checks = [], spec_metadata = [], spec_surfaces = []\<rparr>"

definition owned :: "resource_lifecycle" where
  "owned = \<lparr>lc_ownership = OWNED, lc_compute = EPHEMERAL, lc_data = []\<rparr>"

definition attached :: "resource_lifecycle" where
  "attached = \<lparr>lc_ownership = ATTACHED, lc_compute = RETAINED, lc_data = []\<rparr>"

definition sample_node :: "string \<Rightarrow> string \<Rightarrow> block_family \<Rightarrow> graph_node" where
  "sample_node i r f = \<lparr>node_id = i, node_family = f, node_spec = sample_spec i, node_kind = ''k'',
     node_runtime = r, node_sockets = \<lparr>requirements = [], providers = []\<rparr>, node_endpoints = [],
     node_public = [], node_derived = [], node_metadata = [], node_lifecycle = owned,
     node_artifacts = [], node_deliveries = [], node_projection = None\<rparr>"

definition pg_endpoint :: endpoint where
  "pg_endpoint = \<lparr>endpoint_at = LiteralAddress ''pg://db'', endpoint_protocol = proto TCP POSTGRES,
     endpoint_visibility = PRIVATE\<rparr>"

definition db_node :: graph_node where
  "db_node = (sample_node ''db'' ''dock'' DATA)
     \<lparr>node_sockets := \<lparr>requirements = [], providers = [\<lparr>provider_name = ''pg'', provider_protocol = proto TCP POSTGRES\<rparr>]\<rparr>,
      node_endpoints := [(''pg'', pg_endpoint)]\<rparr>"

definition app_node :: graph_node where
  "app_node = (sample_node ''app'' ''dock'' APPLICATION)
     \<lparr>node_sockets := \<lparr>requirements = [\<lparr>requirement_name = ''data'', requirement_protocol = proto TCP POSTGRES,
         env_bindings = [''DB''], is_required = True, requirement_binding = ENVIRONMENT,
         requirement_deliveries = []\<rparr>], providers = []\<rparr>,
      node_derived := [\<lparr>derived_name = ''DB'', derived_value = ''pg://db'', derived_edge = ''e''\<rparr>]\<rparr>"

definition app_edge :: graph_edge where
  "app_edge = \<lparr>edge_id = ''e'', edge_provider = ''db'', edge_provider_socket = ''pg'', edge_consumer = ''app'',
     edge_requirement = ''data'', edge_protocol = proto TCP POSTGRES, edge_binding = ENVIRONMENT,
     edge_assignments = [(''DB'', ''pg://db'')]\<rparr>"

definition sample_runtime :: "string \<Rightarrow> string list \<Rightarrow> runtime_record" where
  "sample_runtime i cs = \<lparr>runtime_id = i, runtime_kind_of = DOCKER, runtime_children = cs, runtime_metadata = [],
     runtime_lifecycle = owned, runtime_authority = None\<rparr>"

definition desired_graph :: deployment_graph where
  "desired_graph = \<lparr>graph_name = ''g'', graph_nodes = [(''app'', app_node), (''db'', db_node)],
     graph_edges = [(''e'', app_edge)],
     graph_runtimes = [(''dock'', sample_runtime ''dock'' [''db'', ''app''])], graph_ingresses = [],
     graph_authorities = []\<rparr>"

definition sample_codec :: graph_codec where
  "sample_codec = \<lparr>codec_variants = [generic_spec_codec],
     codec_decode = \<lambda>d. Inr \<lparr>graph_name = ''g'', graph_nodes = [], graph_edges = [], graph_runtimes = [],
       graph_ingresses = [], graph_authorities = []\<rparr>\<rparr>"

text \<open>
  A function in the place of SHA-256: the hexadecimal codes of the last characters, filled up with
  zeros to 64 digits.
\<close>

definition sample_digest :: "string \<Rightarrow> string" where
  "sample_digest s = take 64 (concat (map (\<lambda>c. [hex_char (char_code c mod 16), hex_char (char_code c div 16 mod 16)])
     (take 8 (rev s))) @ replicate 64 CHR ''0'')"

lemma sample_digest_fingerprint: "is_fingerprint (sample_digest s)"
proof -
  have "list_all hex_digit (map hex_char [0..<16])" by code_simp
  then have "hex_digit (hex_char n)" if "n < 16" for n using that by (auto simp: list_all_iff)
  then have "hex_digit (hex_char (n mod 16))" for n by simp
  then show ?thesis by (auto simp: is_fingerprint_def sample_digest_def list_all_iff hex_digit_def char_code_def
      dest!: in_set_takeD)
qed

lemma sample_digest_end: "8 \<le> length s \<Longrightarrow> sample_digest (pre @ s) = sample_digest s"
  by (simp add: sample_digest_def)

definition validated :: "deployment_graph \<Rightarrow> validated_graph" where
  "validated g = (case validate_graph sample_codec g of Inr v \<Rightarrow> v
     | Inl x \<Rightarrow> \<lparr>validated_value = g, validated_findings = [], validated_codec = sample_codec\<rparr>)"

text \<open>A graph without nodes, and one whose new runtime holds an attached node.\<close>

definition empty_graph :: deployment_graph where
  "empty_graph = \<lparr>graph_name = ''g'', graph_nodes = [], graph_edges = [], graph_runtimes = [],
     graph_ingresses = [], graph_authorities = []\<rparr>"

definition attached_graph :: deployment_graph where
  "attached_graph = empty_graph\<lparr>graph_nodes := [(''db'', db_node\<lparr>node_lifecycle := attached\<rparr>)],
     graph_runtimes := [(''dock'', sample_runtime ''dock'' [''db''])]\<rparr>"

section \<open>The end of a JSON text\<close>

text \<open>The entry of the last key stands at the end of the text of a dictionary.\<close>

lemma json_entries_map: "json_entries sep colon d = map (\<lambda>(k, v). (k, json_dump sep colon v)) d"
  by (induction d) auto

lemma join_with_end: "\<exists>pre. join_with sep (xs @ [x]) = pre @ x"
proof (induction sep "xs @ [x]" arbitrary: xs rule: join_with.induct)
  case (2 sep y)
  then show ?case by simp
next
  case (3 sep y z ys)
  then obtain us where us: "xs = y # us" "z # ys = us @ [x]" by (cases xs) auto
  from 3(1) [OF us(2)] obtain pre where "join_with sep (us @ [x]) = pre @ x" by blast
  then have "join_with sep (xs @ [x]) = (y @ sep @ pre) @ x" using us by (cases us) auto
  then show ?case by blast
qed simp

lemma json_dump_end:
  assumes "distinct (map fst d)" and "(k, v) \<in> set d" and "\<forall>e\<in>set d. fst e \<le> k"
  shows "\<exists>pre. json_dump sep colon (PDict d) = pre @ json_string k @ colon @ json_dump sep colon v @ ''}''"
proof -
  let ?e = "sort_key fst (json_entries sep colon d)"
  have keys: "fst ` set ?e = fst ` set d" by (force simp: json_entries_map)
  have "(k, json_dump sep colon v) \<in> set ?e" using assms(2) by (force simp: json_entries_map)
  then obtain us vs where e: "?e = us @ (k, json_dump sep colon v) # vs" by (meson split_list)
  have "distinct (map fst (json_entries sep colon d))"
    using assms(1) by (simp add: json_entries_map comp_def case_prod_unfold)
  then have "distinct (map fst ?e)" by (metis mset_map mset_sort mset_eq_imp_distinct_iff)
  moreover have "sorted (map fst ?e)" by simp
  moreover have "fst x \<le> k" if "x \<in> set vs" for x
  proof -
    have "fst x \<in> fst ` set d" unfolding keys [symmetric] e using that by simp
    then show ?thesis using assms(3) by auto
  qed
  ultimately have "vs = []" unfolding e by (cases vs) (fastforce simp: sorted_append)+
  with join_with_end [of sep "map (\<lambda>(k, t). json_string k @ colon @ t) us" "json_string k @ colon @ json_dump sep colon v"]
  show ?thesis by (auto simp: e)
qed

definition subject_end :: "structural_change \<Rightarrow> string" where
  "subject_end c = json_string ''subject'' @ '':'' @ json_text (PDict (change_subject_descriptor (change_subject c))) @ ''}''"

lemma change_text_end: "\<exists>pre. json_text (PDict (change_descriptor digest c)) = pre @ subject_end c"
  unfolding json_text_def subject_end_def
proof (rule json_dump_end)
  show "distinct (map fst (change_descriptor digest c))"
    by (cases c) (simp_all add: change_descriptor_def split: option.split)
  show "(''subject'', PDict (change_subject_descriptor (change_subject c))) \<in> set (change_descriptor digest c)"
    by (simp add: change_descriptor_def)
  have "list_all (\<lambda>k. k \<le> ''subject'') [''form'', ''subject'', ''after'', ''before'', ''reason'']" by code_simp
  then show "\<forall>e\<in>set (change_descriptor digest c). fst e \<le> ''subject''"
    by (cases c) (auto simp: change_descriptor_def split: option.split)
qed

lemma sample_token: "change_token sample_digest c = take 16 (sample_digest (subject_end c))"
proof -
  obtain pre where "json_text (PDict (change_descriptor sample_digest c)) = pre @ subject_end c"
    using change_text_end by blast
  moreover have "8 \<le> length (subject_end c)" using json_plain_char [of "CHR ''s''"] json_plain_char [of "CHR ''u''"]
      json_plain_char [of "CHR ''b''"] json_plain_char [of "CHR ''j''"]
    by (simp add: subject_end_def json_string_def)
  ultimately show ?thesis by (simp add: change_token_def sample_digest_end)
qed

text \<open>The tokens of changes that are not reconciled differ if the ends of their texts do.\<close>

lemma plain_tokens:
  assumes "mset es = mset cs" and "list_all (\<lambda>c. reconciliation_owner c = None) cs"
    and "distinct (map (\<lambda>c. take 16 (sample_digest (subject_end c))) cs)"
  shows "tokens_apart sample_digest es"
proof -
  have "set es = set cs" using assms(1) by (rule mset_eq_setD)
  then have plain: "reconciliation_owner c = None" if "c \<in> set es" for c using that assms(2) by (simp add: list_all_iff)
  have "fold (\<lambda>c d. case reconciliation_owner c of Some (NodeSubject i) \<Rightarrow> append_at i c d | _ \<Rightarrow> d) es [] = []"
    "fold (\<lambda>c d. case reconciliation_owner c of Some (RuntimeSubject i) \<Rightarrow> append_at i c d | _ \<Rightarrow> d) es [] = []"
    using plain by (induction es) simp_all
  then have "plan_sources sample_digest es = map (change_source sample_digest) es"
    using plain by (simp add: plan_sources_def node_groups_def runtime_groups_def plain_changes_def)
  then have "map fst (plan_sources sample_digest es) = map (\<lambda>c. take 16 (sample_digest (subject_end c))) es"
    by (simp add: change_source_def comp_def sample_token)
  moreover have "distinct (map (\<lambda>c. take 16 (sample_digest (subject_end c))) es)"
    using assms(1,3) by (metis mset_eq_imp_distinct_iff mset_map)
  ultimately show ?thesis by (simp add: tokens_apart_def sample_digest_fingerprint)
qed

section \<open>What depends on the set of changes only\<close>

lemma start_known_cong:
  assumes "set es = set cs"
  shows "start_known es = start_known cs"
proof (rule ext)
  have "list_ex p es = list_ex p cs" for p using assms by (simp add: list_ex_iff)
  note same = asked_cong [OF assms] this
  show "start_known es c = start_known cs c" for c unfolding start_known_def same ..
qed

lemma orders_agree_cong:
  assumes "set es = set cs"
  shows "orders_agree es = orders_agree cs"
proof -
  have "set_up es = set_up cs" by (intro ext) (simp add: set_up_def asked_cong [OF assms])
  note same = asked_cong [OF assms] this
  have "edge_startup es = edge_startup cs" by (intro ext) (simp add: edge_startup_def same)
  note same = same this
  have "set (startup_pairs es) = set (startup_pairs cs)" unfolding startup_pairs_def same using assms by simp
  moreover have "set (teardown_pairs es) = set (teardown_pairs cs)" unfolding teardown_pairs_def same using assms by simp
  ultimately show ?thesis by (simp add: orders_agree_def)
qed

text \<open>For evaluation.\<close>

lemma asked_code [code]:
  "asked_operation cs oper \<longleftrightarrow> list_ex (\<lambda>c. case reconciliation_owner c of
     None \<Rightarrow> list_ex (\<lambda>x. x = oper) (change_operations c)
   | Some (NodeSubject i) \<Rightarrow> oper = ReconcileNode (NodeTarget i) \<or> oper = WaitForHealthy (NodeTarget i)
   | Some (RuntimeSubject i) \<Rightarrow> oper = ReconcileRuntime (RuntimeTarget i)
   | Some w \<Rightarrow> False) cs"
proof -
  have "(case reconciliation_owner c of
     None \<Rightarrow> list_ex (\<lambda>x. x = oper) (change_operations c)
   | Some (NodeSubject i) \<Rightarrow> oper = ReconcileNode (NodeTarget i) \<or> oper = WaitForHealthy (NodeTarget i)
   | Some (RuntimeSubject i) \<Rightarrow> oper = ReconcileRuntime (RuntimeTarget i)
   | Some w \<Rightarrow> False) \<longleftrightarrow> reconciliation_owner c = None \<and> oper \<in> set (change_operations c) \<or>
     (\<exists>i. reconciliation_owner c = Some (NodeSubject i) \<and> oper \<in> {ReconcileNode (NodeTarget i), WaitForHealthy (NodeTarget i)}) \<or>
     (\<exists>i. reconciliation_owner c = Some (RuntimeSubject i) \<and> oper = ReconcileRuntime (RuntimeTarget i))" for c
    by (auto simp: list_ex_iff split: option.split diff_owner.split)
  then show ?thesis by (auto simp: asked_operation_def list_ex_iff)
qed

section \<open>The samples evaluated\<close>

lemma samples_validate:
  "case validate_graph sample_codec empty_graph of Inl x \<Rightarrow> False | Inr v \<Rightarrow> graph_is_valid v"
  "case validate_graph sample_codec desired_graph of Inl x \<Rightarrow> False | Inr v \<Rightarrow> graph_is_valid v"
  "case validate_graph sample_codec attached_graph of Inl x \<Rightarrow> False | Inr v \<Rightarrow> graph_is_valid v"
  by code_simp+

lemma validated_Inr:
  assumes "case validate_graph sample_codec g of Inl x \<Rightarrow> False | Inr v \<Rightarrow> graph_is_valid v"
  shows "validate_graph sample_codec g = Inr (validated g)" and "graph_is_valid (validated g)"
  using assms by (auto simp: validated_def split: sum.splits)

lemma validated_fields [simp]: "validated_value (validated g) = g" "validated_codec (validated g) = sample_codec"
  by (auto simp: validated_def validate_graph_def bindR_Inr_iff split: sum.split)

lemmas samples_valid [simp] = samples_validate [THEN validated_Inr(2)]

lemmas samples_validated = samples_validate [THEN validated_Inr(1)]

lemma sample_language [simp]: "supports_same_block_specs sample_codec sample_codec"
  by (simp add: supports_same_block_specs_def)

definition sample_changes :: "deployment_graph \<Rightarrow> deployment_graph \<Rightarrow> structural_change list" where
  "sample_changes cur des = (case raw_changes sample_codec cur des of Inr cs \<Rightarrow> cs | Inl x \<Rightarrow> [])"

definition sample_diff :: "deployment_graph \<Rightarrow> deployment_graph \<Rightarrow> graph_diff" where
  "sample_diff cur des = \<lparr>diff_current = graph_name cur, diff_desired = graph_name des,
     diff_changes = sort_key (change_key sample_digest) (sample_changes cur des)\<rparr>"

lemma sample_raw:
  "raw_changes sample_codec empty_graph desired_graph = Inr (sample_changes empty_graph desired_graph)"
  "raw_changes sample_codec desired_graph empty_graph = Inr (sample_changes desired_graph empty_graph)"
  "raw_changes sample_codec empty_graph attached_graph = Inr (sample_changes empty_graph attached_graph)"
  "raw_changes sample_codec desired_graph desired_graph = Inr (sample_changes desired_graph desired_graph)"
proof -
  have r: "raw_changes sample_codec cur des = Inr (sample_changes cur des)"
    if "case raw_changes sample_codec cur des of Inl x \<Rightarrow> False | Inr cs \<Rightarrow> True" for cur des
    using that by (cases "raw_changes sample_codec cur des") (simp_all add: sample_changes_def)
  show
    "raw_changes sample_codec empty_graph desired_graph = Inr (sample_changes empty_graph desired_graph)"
    "raw_changes sample_codec desired_graph empty_graph = Inr (sample_changes desired_graph empty_graph)"
    "raw_changes sample_codec empty_graph attached_graph = Inr (sample_changes empty_graph attached_graph)"
    "raw_changes sample_codec desired_graph desired_graph = Inr (sample_changes desired_graph desired_graph)"
    by (rule r; code_simp)+
qed

lemma sample_diff_Inr:
  assumes "graph_is_valid (validated cur)" "graph_is_valid (validated des)"
    and "raw_changes sample_codec cur des = Inr (sample_changes cur des)"
  shows "diff_graphs sample_digest (validated cur) (validated des) = Inr (sample_diff cur des)"
  using assms by (simp add: diff_graphs_Inr sample_diff_def)

lemma sample_diffs:
  "diff_graphs sample_digest (validated empty_graph) (validated desired_graph) = Inr (sample_diff empty_graph desired_graph)"
  "diff_graphs sample_digest (validated desired_graph) (validated empty_graph) = Inr (sample_diff desired_graph empty_graph)"
  "diff_graphs sample_digest (validated empty_graph) (validated attached_graph) = Inr (sample_diff empty_graph attached_graph)"
  "diff_graphs sample_digest (validated desired_graph) (validated desired_graph) = Inr (sample_diff desired_graph desired_graph)"
  by (rule sample_diff_Inr [OF _ _ sample_raw(1)], simp_all, rule sample_diff_Inr [OF _ _ sample_raw(2)], simp_all,
      rule sample_diff_Inr [OF _ _ sample_raw(3)], simp_all, rule sample_diff_Inr [OF _ _ sample_raw(4)], simp_all)

lemma sample_diff_changes:
  "mset (diff_changes (sample_diff cur des)) = mset (sample_changes cur des)"
  "set (diff_changes (sample_diff cur des)) = set (sample_changes cur des)"
  by (simp_all add: sample_diff_def)

text \<open>What makes a sample difference compile.\<close>

definition sample_ready :: "structural_change list \<Rightarrow> bool" where
  "sample_ready cs \<longleftrightarrow> list_all (\<lambda>c. reconciliation_owner c = None \<and> subject_named (change_subject c) \<and> start_known cs c) cs \<and>
     distinct (map (\<lambda>c. take 16 (sample_digest (subject_end c))) cs)"

lemma samples_ready:
  "sample_ready (sample_changes empty_graph desired_graph)"
  "sample_ready (sample_changes desired_graph empty_graph)"
  by code_simp+

lemma sample_orders:
  "startup_pairs (sample_changes empty_graph desired_graph) = [(NodeSubject ''db'', NodeSubject ''app'')]"
  "teardown_pairs (sample_changes empty_graph desired_graph) = []"
  "startup_pairs (sample_changes desired_graph empty_graph) = []"
  "teardown_pairs (sample_changes desired_graph empty_graph) = []"
  by code_simp+

lemma ready_diff:
  assumes "sample_ready (sample_changes cur des)"
  shows "tokens_apart sample_digest (diff_changes (sample_diff cur des))"
    and "\<forall>c\<in>set (diff_changes (sample_diff cur des)). subject_named (change_subject c)"
    and "\<forall>c\<in>set (diff_changes (sample_diff cur des)). start_known (diff_changes (sample_diff cur des)) c"
  using assms start_known_cong [OF sample_diff_changes(2)] plain_tokens [OF sample_diff_changes(1)]
  by (simp_all add: sample_ready_def sample_diff_changes(2) list_all_iff)

lemma samples_agree:
  "orders_agree (diff_changes (sample_diff empty_graph desired_graph))"
  "orders_agree (diff_changes (sample_diff desired_graph empty_graph))"
proof -
  have one: "acyclic {(a, b)}" if "a \<noteq> b" for a b :: diff_owner
    using that by (intro acyclicI_order [where f = "\<lambda>w. if w = a then 1 else (0::nat)"]) simp
  show "orders_agree (diff_changes (sample_diff empty_graph desired_graph))"
    "orders_agree (diff_changes (sample_diff desired_graph empty_graph))"
    unfolding orders_agree_cong [OF sample_diff_changes(2)]
    by (simp_all add: orders_agree_def sample_orders one acyclic_def [of "{}"])
qed

lemma sample_compiles:
  assumes "sample_ready (sample_changes cur des)" and "orders_agree (diff_changes (sample_diff cur des))"
  shows "\<exists>p. compile_activity_plan sample_digest (sample_diff cur des) = Inr p"
  using asked_named [OF _ ready_diff(2) [OF assms(1)]]
  by (intro compile_succeeds [OF ready_diff(1) [OF assms(1)] _ ready_diff(3) [OF assms(1)] assms(2)]) blast

definition sample_plan_of :: "deployment_graph \<Rightarrow> deployment_graph \<Rightarrow> activity_plan" where
  "sample_plan_of cur des = (case compile_activity_plan sample_digest (sample_diff cur des) of
     Inr p \<Rightarrow> p | Inl x \<Rightarrow> ActivityPlan [])"

definition started_plan :: activity_plan where
  "started_plan = sample_plan_of empty_graph desired_graph"

definition stopped_plan :: activity_plan where
  "stopped_plan = sample_plan_of desired_graph empty_graph"

lemma sample_plans:
  "compile_activity_plan sample_digest (sample_diff empty_graph desired_graph) = Inr started_plan"
  "compile_activity_plan sample_digest (sample_diff desired_graph empty_graph) = Inr stopped_plan"
  using sample_compiles [OF samples_ready(1) samples_agree(1)] sample_compiles [OF samples_ready(2) samples_agree(2)]
  by (auto simp: started_plan_def stopped_plan_def sample_plan_of_def)

end
