(* ===== verification/Topology_Properties.thy ===== *)
theory Topology_Properties
  imports Diff_Mirror Validation_Laws Sample_Graph
begin

text \<open>
  Properties of the way from two graphs to a plan: validation, difference and compilation. Each is stated
  over the model's definitions and rests on the lemmas of the component.
\<close>

section \<open>Validation\<close>

text \<open>
  C11: the validation of a graph decides its soundness: the result is valid exactly if the graph is sound
  and its encoding decodes.
\<close>

theorem validation_decides_soundness:
  assumes "validate_graph codec g = Inr v" and "distinct (map fst (graph_runtimes g))"
  shows "graph_is_valid v \<longleftrightarrow> sound_graph g \<and> (\<exists>h. bindR (encode_graph codec g) (codec_decode codec) = Inr h)"
  using assms by (rule valid_iff)

theorem validation_decides_soundness_witness: "sound_graph desired_graph"
proof -
  have "distinct (map fst (graph_runtimes desired_graph))" by (simp add: desired_graph_def)
  from validation_decides_soundness [OF samples_validated(2) this] show ?thesis by simp
qed

section \<open>Difference\<close>

text \<open>
  C10: the difference of two valid graphs is empty exactly if they are described in the same language and
  agree in everything but the order of their dictionaries.
\<close>

theorem empty_difference:
  assumes "diff_graphs digest cur des = Inr d"
  shows "diff_empty d \<longleftrightarrow> supports_same_block_specs (validated_codec cur) (validated_codec des) \<and>
    same_graph (validated_value cur) (validated_value des)"
  using assms by (rule diff_empty_iff)

theorem empty_difference_witness:
  "diff_empty (sample_diff desired_graph desired_graph) \<and> \<not> diff_empty (sample_diff empty_graph desired_graph)"
proof
  show "diff_empty (sample_diff desired_graph desired_graph)"
    unfolding empty_difference [OF sample_diffs(4)]
    by (simp add: same_graph_def option.rel_refl same_runtime_def same_node_def same_edge_def same_mapping_def
        same_spec_def same_value_def)
  show "\<not> diff_empty (sample_diff empty_graph desired_graph)"
    unfolding empty_difference [OF sample_diffs(1)]
    by (simp add: same_graph_def empty_graph_def desired_graph_def exI [of _ "''dock''"])
qed

text \<open>
  C9: if the graphs are described in the same language, their difference reports the runtimes, nodes,
  ingresses and edges that only the desired graph has as added, those that only the current graph has as
  removed, each with its value, and nothing else as added or removed among them. If the languages differ it
  holds the one ambiguous change that says so.
\<close>

theorem difference_of_elements:
  assumes "diff_graphs digest cur des = Inr d" and "element s"
  shows "if supports_same_block_specs (validated_codec cur) (validated_codec des)
    then (AddedChange s v \<in> set (diff_changes d) \<longleftrightarrow> \<not> present (validated_value cur) s \<and>
        subject_value (validated_codec cur) (validated_value des) s = Some v) \<and>
      (RemovedChange s v \<in> set (diff_changes d) \<longleftrightarrow> \<not> present (validated_value des) s \<and>
        subject_value (validated_codec cur) (validated_value cur) s = Some v)
    else diff_changes d = [AmbiguousChange (OwnerSubject GraphSubject) BlockSpecLanguageMismatch None None]"
proof (cases "supports_same_block_specs (validated_codec cur) (validated_codec des)")
  case True
  with diff_raw [OF assms(1) True] added_exactly [OF _ assms(2)] removed_exactly [OF _ assms(2)]
  show ?thesis by auto
next
  case False
  with assms(1) show ?thesis by (simp add: diff_graphs_Inr)
qed

theorem difference_of_elements_witness:
  "AddedChange (EdgeSubject ''e'') (EdgeValue app_edge) \<in> set (diff_changes (sample_diff empty_graph desired_graph))"
  using difference_of_elements [OF sample_diffs(1), of "EdgeSubject ''e''" "EdgeValue app_edge"]
  by (simp add: subject_value_def empty_graph_def desired_graph_def)

text \<open>
  C37: the difference of the swapped graphs is the mirror image: added and removed, before and after change
  places, and nothing else changes.
\<close>

theorem swapped_difference:
  assumes "proper_dicts (validated_value cur)" "proper_dicts (validated_value des)"
    and "validated_codec cur = validated_codec des" and "diff_graphs digest cur des = Inr d"
  shows "\<exists>d'. diff_graphs digest des cur = Inr d' \<and>
    mset (diff_changes d') = image_mset mirror (mset (diff_changes d))"
  using assms by (rule diff_graphs_mirror)

theorem swapped_difference_witness:
  "mset (diff_changes (sample_diff desired_graph empty_graph)) =
     image_mset mirror (mset (diff_changes (sample_diff empty_graph desired_graph)))"
proof -
  have "proper_dicts (validated_value (validated empty_graph))" "proper_dicts (validated_value (validated desired_graph))"
    by (simp_all add: proper_dicts_def empty_graph_def desired_graph_def ingress_entries_def db_node_def app_node_def
        sample_node_def)
  from swapped_difference [OF this _ sample_diffs(1)] sample_diffs(2) show ?thesis by auto
qed

section \<open>Compilation\<close>

text \<open>
  C8: the activities of a compiled plan carry exactly the operations the changes ask for, each with the
  risk and the impact of its kind, and a predecessor of an activity is an activity that the changes order
  before it.
\<close>

theorem plan_of_changes:
  assumes "compile_activity_plan digest d = Inr p"
  shows "((\<exists>a\<in>set (activities p). operation a = oper) \<longleftrightarrow> asked_operation (diff_changes d) oper) \<and>
    (\<forall>a\<in>set (activities p). risk a = operation_risk (operation a) \<and> impact a = operation_impact (operation a) \<and>
      (\<forall>x\<in>set (predecessors a). \<exists>b\<in>set (activities p). activity_id b = x \<and>
        precedes digest (diff_changes d) (operation b) (operation a)))"
  using plan_has_operation [OF assms] plan_graded [OF assms] by blast

theorem plan_of_changes_witness:
  "(\<exists>a\<in>set (activities started_plan). operation a = StartNode (NodeTarget ''db'')) \<and>
   \<not> (\<exists>a\<in>set (activities started_plan). operation a = StopNode (NodeTarget ''db''))"
proof -
  have "asked_operation (sample_changes empty_graph desired_graph) (StartNode (NodeTarget ''db''))"
    "\<not> asked_operation (sample_changes empty_graph desired_graph) (StopNode (NodeTarget ''db''))" by code_simp+
  with plan_of_changes [OF sample_plans(1)] show ?thesis by (simp add: asked_cong [OF sample_diff_changes(2)])
qed

text \<open>
  C7: a plan compiled from the difference of two graphs of the same language does only what their ownership permits: it starts what the desired graph owns
  and the current graph does not have, stops and removes what the current graph owns and the desired graph
  does not have, removes no retained compute resource and destroys no data.
\<close>

theorem plan_is_permitted:
  assumes "diff_graphs digest cur des = Inr d" and "supports_same_block_specs (validated_codec cur) (validated_codec des)"
    and "compile_activity_plan digest d = Inr p" and "a \<in> set (activities p)"
  shows "permitted (validated_value cur) (validated_value des) (operation a)"
proof -
  obtain cs where cs: "raw_changes (validated_codec cur) (validated_value cur) (validated_value des) = Inr cs"
    "set (diff_changes d) = set cs" using diff_raw [OF assms(1,2)] by blast
  have "asked_operation cs (operation a)"
    using plan_has_operation [OF assms(3), of "operation a"] assms(4) asked_cong [OF cs(2)] by auto
  then show ?thesis by (rule asked_permitted [OF cs(1)])
qed

theorem plan_is_permitted_witness:
  "list_all (\<lambda>a. permitted desired_graph empty_graph (operation a)) (activities stopped_plan)"
  using plan_is_permitted [OF sample_diffs(2) _ sample_plans(2)] by (simp add: list_all_iff)

text \<open>
  C4: compilation succeeds if the tokens of the changes differ, the subjects are named, no node that is not
  owned is put into a runtime that is started or behind an ingress that is allocated, and neither the startup
  nor the teardown of the nodes is circular.
\<close>

theorem compilation_succeeds:
  assumes "tokens_apart digest (diff_changes d)"
    and "\<forall>c\<in>set (diff_changes d). subject_named (change_subject c)"
    and "\<forall>c\<in>set (diff_changes d). start_known (diff_changes d) c" and "orders_agree (diff_changes d)"
  shows "\<exists>p. compile_activity_plan digest d = Inr p"
  using asked_named [OF _ assms(2)] by (intro compile_succeeds [OF assms(1) _ assms(3,4)]) blast

theorem compilation_succeeds_witness:
  "\<exists>p. compile_activity_plan sample_digest (sample_diff empty_graph desired_graph) = Inr p"
  using ready_diff [OF samples_ready(1)] samples_agree(1) by (rule compilation_succeeds)

text \<open>
  C36: a node that is added (in the same language) but not owned, in a runtime that the plan would start or as the connector of an
  added ingress, makes the compilation raise, although both graphs are valid.
\<close>

theorem unowned_node_raises:
  assumes "diff_graphs digest cur des = Inr d" and "supports_same_block_specs (validated_codec cur) (validated_codec des)"
    and "map_of (graph_nodes (validated_value des)) i = Some n" "\<not> present (validated_value cur) (node_element i)"
    and "lc_ownership (node_lifecycle n) \<noteq> OWNED"
    and "\<not> present (validated_value cur) (runtime_element (node_runtime n)) \<and>
        (\<exists>r. owns_runtime (validated_value des) (node_runtime n) r) \<or>
      (\<exists>k g. map_of (ingress_entries (validated_value des)) k = Some g \<and> connector_node g = i \<and>
        \<not> present (validated_value cur) (ingress_element k))"
  shows "\<exists>x. compile_activity_plan digest d = Inl (PlanRaised x)"
proof -
  obtain cs where cs: "raw_changes (validated_codec cur) (validated_value cur) (validated_value des) = Inr cs"
    "set (diff_changes d) = set cs" using diff_raw [OF assms(1,2)] by blast
  obtain x where c: "AddedChange (node_element i) (NodeValue n x) \<in> set (diff_changes d)"
    using added_node_change [OF cs(1) assms(3,4)] cs(2) by blast
  from assms(6) have "asked_operation (diff_changes d) (StartRuntime (RuntimeTarget (node_runtime n))) \<or>
      list_ex (connects i) (diff_changes d)"
  proof
    assume "\<not> present (validated_value cur) (runtime_element (node_runtime n)) \<and>
        (\<exists>r. owns_runtime (validated_value des) (node_runtime n) r)"
    with added_runtime_asked [OF cs] show ?thesis by blast
  next
    assume "\<exists>k g. map_of (ingress_entries (validated_value des)) k = Some g \<and> connector_node g = i \<and>
        \<not> present (validated_value cur) (ingress_element k)"
    then obtain k g where g: "map_of (ingress_entries (validated_value des)) k = Some g" "connector_node g = i"
      "\<not> present (validated_value cur) (ingress_element k)" by blast
    from added_element_change(3) [OF cs(1) g(1,3)] cs(2) g(2) show ?thesis
      by (auto simp: list_ex_iff connects_def intro!: bexI)
  qed
  with assms(5) have "\<not> start_known (diff_changes d) (AddedChange (node_element i) (NodeValue n x))"
    by (simp add: start_known_def)
  with unowned_start_raises [OF raw_once(1) [OF cs] c] show ?thesis
    by (cases "compile_drafts digest (diff_changes d)") (simp_all add: compile_activity_plan_def)
qed

theorem unowned_node_raises_witness:
  "\<exists>x. compile_activity_plan sample_digest (sample_diff empty_graph attached_graph) = Inl (PlanRaised x)"
  by (rule unowned_node_raises [OF sample_diffs(3), where i = "''db''" and n = "db_node\<lparr>node_lifecycle := attached\<rparr>"])
    (simp_all add: attached_graph_def empty_graph_def db_node_def sample_node_def sample_runtime_def attached_def
      owned_def owns_runtime_def)

section \<open>Order\<close>

text \<open>
  C5: in a plan compiled from the difference of two graphs of the same language a new owned node starts after the new owned runtime it lives in, and after the health
  of the new owned node that provides one of its new environment edges.
\<close>

theorem startup_order:
  assumes "diff_graphs digest cur des = Inr d" and "supports_same_block_specs (validated_codec cur) (validated_codec des)"
    and "compile_activity_plan digest d = Inr p"
    and node: "owns_node (validated_value des) i n" "\<not> present (validated_value cur) (node_element i)"
  shows "(\<forall>r. owns_runtime (validated_value des) (node_runtime n) r \<longrightarrow>
      \<not> present (validated_value cur) (runtime_element (node_runtime n)) \<longrightarrow>
      plan_waits p (StartNode (NodeTarget i)) (StartRuntime (RuntimeTarget (node_runtime n)))) \<and>
    (\<forall>k e m. tokens_apart digest (diff_changes d) \<longrightarrow>
      map_of (graph_edges (validated_value des)) k = Some e \<and> \<not> present (validated_value cur) (EdgeSubject k) \<and>
      edge_binding e = ENVIRONMENT \<and> edge_consumer e = i \<and> owns_node (validated_value des) (edge_provider e) m \<and>
      \<not> present (validated_value cur) (node_element (edge_provider e)) \<longrightarrow>
      plan_waits p (StartNode (NodeTarget i)) (WaitForHealthy (NodeTarget (edge_provider e))))"
proof -
  obtain cs where cs: "raw_changes (validated_codec cur) (validated_value cur) (validated_value des) = Inr cs"
    "set (diff_changes d) = set cs" using diff_raw [OF assms(1,2)] by blast
  obtain ds where ds: "compile_drafts digest (diff_changes d) = Inr ds" "mset (activities p) = mset (map finish_draft ds)"
    using compiled_plan [OF assms(3)] by blast
  note start = added_node_asked(1) [OF cs node]
  have runtime: "plan_waits p (StartNode (NodeTarget i)) (StartRuntime (RuntimeTarget (node_runtime n)))"
    if "owns_runtime (validated_value des) (node_runtime n) r"
      "\<not> present (validated_value cur) (runtime_element (node_runtime n))" for r
  proof -
    obtain x where "AddedChange (node_element i) (NodeValue n x) \<in> set (diff_changes d)"
      using added_node_change [OF cs(1) _ node(2)] node(1) cs(2) by (auto simp: owns_node_def)
    from runtime_depends [OF ds(1) this start added_runtime_asked [OF cs that]]
    show ?thesis by (rule plan_waits_iff [OF ds(2)])
  qed
  have provider: "plan_waits p (StartNode (NodeTarget i)) (WaitForHealthy (NodeTarget (edge_provider e)))"
    if "map_of (graph_edges (validated_value des)) k = Some e" "\<not> present (validated_value cur) (EdgeSubject k)"
      "edge_binding e = ENVIRONMENT" "edge_consumer e = i" "owns_node (validated_value des) (edge_provider e) m"
      "\<not> present (validated_value cur) (node_element (edge_provider e))" "tokens_apart digest (diff_changes d)" for k e m
  proof -
    have edge: "AddedChange (EdgeSubject k) (EdgeValue e) \<in> set (diff_changes d)"
      using added_element_change(2) [OF cs(1) that(1,2)] cs(2) by simp
    from provider_depends [OF ds(1) that(7) edge that(3), unfolded that(4), OF start added_node_asked(2) [OF cs that(5,6)]]
    show ?thesis by (rule plan_waits_iff [OF ds(2)])
  qed
  from runtime provider show ?thesis by blast
qed

theorem startup_order_witness:
  "plan_waits started_plan (StartNode (NodeTarget ''app'')) (StartRuntime (RuntimeTarget ''dock'')) \<and>
   plan_waits started_plan (StartNode (NodeTarget ''app'')) (WaitForHealthy (NodeTarget ''db''))"
proof -
  have app: "owns_node (validated_value (validated desired_graph)) ''app'' app_node"
    and db: "owns_node (validated_value (validated desired_graph)) ''db'' db_node"
    and dock: "owns_runtime (validated_value (validated desired_graph)) ''dock'' (sample_runtime ''dock'' [''db'', ''app''])"
    by (simp_all add: owns_node_def owns_runtime_def desired_graph_def app_node_def db_node_def sample_node_def
        sample_runtime_def owned_def)
  have new: "\<not> present (validated_value (validated empty_graph)) s" for s
    by (cases "(empty_graph, s)" rule: present.cases) (simp_all add: empty_graph_def)
  have language: "supports_same_block_specs (validated_codec (validated empty_graph)) (validated_codec (validated desired_graph))"
    by simp
  note order = startup_order [OF sample_diffs(1) language sample_plans(1) app new]
  have home: "node_runtime app_node = ''dock''" by (simp add: app_node_def sample_node_def)
  have "plan_waits started_plan (StartNode (NodeTarget ''app'')) (StartRuntime (RuntimeTarget ''dock''))"
    by (rule conjunct1 [OF order, unfolded home, rule_format, OF dock new])
  moreover have "plan_waits started_plan (StartNode (NodeTarget ''app'')) (WaitForHealthy (NodeTarget ''db''))"
  proof -
    have "map_of (graph_edges (validated_value (validated desired_graph))) ''e'' = Some app_edge"
      by (simp add: desired_graph_def)
    moreover have "edge_binding app_edge = ENVIRONMENT" "edge_consumer app_edge = ''app''" "edge_provider app_edge = ''db''"
      by (simp_all add: app_edge_def)
    ultimately show ?thesis
      using conjunct2 [OF order, rule_format, OF ready_diff(1) [OF samples_ready(1)], of "''e''" app_edge db_node] new db
      by (simp del: present.simps)
  qed
  ultimately show ?thesis ..
qed

text \<open>
  C6: in a plan compiled from the difference of two graphs of the same language an owned runtime that goes is stopped after the removal of every owned node of it that
  goes, or after the stop of the node if its compute resource is retained.
\<close>

theorem teardown_order:
  assumes "diff_graphs digest cur des = Inr d" and "supports_same_block_specs (validated_codec cur) (validated_codec des)"
    and "compile_activity_plan digest d = Inr p"
    and node: "owns_node (validated_value cur) i n" "\<not> present (validated_value des) (node_element i)"
    and "owns_runtime (validated_value cur) (node_runtime n) r"
      "\<not> present (validated_value des) (runtime_element (node_runtime n))"
  shows "plan_waits p (StopRuntime (RuntimeTarget (node_runtime n)))
    (if lc_compute (node_lifecycle n) = RETAINED then StopNode (NodeTarget i) else RemoveNodeResource (NodeTarget i))"
proof -
  obtain cs where cs: "raw_changes (validated_codec cur) (validated_value cur) (validated_value des) = Inr cs"
    "set (diff_changes d) = set cs" using diff_raw [OF assms(1,2)] by blast
  obtain ds where ds: "compile_drafts digest (diff_changes d) = Inr ds" "mset (activities p) = mset (map finish_draft ds)"
    using compiled_plan [OF assms(3)] by blast
  obtain x where c: "RemovedChange (node_element i) (NodeValue n x) \<in> set (diff_changes d)"
    using removed_node_change [OF cs(1) _ node(2)] node(1) cs(2) by (auto simp: owns_node_def)
  have "lc_ownership (node_lifecycle n) = OWNED" using node(1) by (simp add: owns_node_def)
  from teardown_depends [OF ds(1) raw_once(2) [OF cs] c this removed_runtime_asked(2) [OF cs assms(6,7)]
      removed_runtime_asked(1) [OF cs assms(6,7)]]
  show ?thesis unfolding removal_end_def by (rule plan_waits_iff [OF ds(2)])
qed

theorem teardown_order_witness:
  "plan_waits stopped_plan (StopRuntime (RuntimeTarget ''dock'')) (RemoveNodeResource (NodeTarget ''db''))"
proof -
  have "plan_waits stopped_plan (StopRuntime (RuntimeTarget (node_runtime db_node)))
    (if lc_compute (node_lifecycle db_node) = RETAINED then StopNode (NodeTarget ''db'')
     else RemoveNodeResource (NodeTarget ''db''))"
    by (rule teardown_order [OF sample_diffs(2) _ sample_plans(2), where r = "sample_runtime ''dock'' [''db'', ''app'']"])
      (simp_all add: owns_node_def owns_runtime_def desired_graph_def db_node_def sample_node_def sample_runtime_def
        owned_def empty_graph_def)
  then show ?thesis by (simp add: db_node_def sample_node_def owned_def)
qed

end
