(* ===== verification/Spec2Isabelle.thy ===== *)
theory Spec2Isabelle
  imports Plan_Properties Saga_Properties Recovery_Properties Contract_Properties Lifecycle_Properties
    Lease_Properties Topology_Properties
begin

text \<open>
  Verification library for the core of control-plane-kit: the topology graphs and their
  difference, the compiler of a difference to an activity plan, the saga that runs the plan, the journal it is reconstructed from, the attempts of its effects, the
  contracts of the run lifecycle, and the command service that carries runs through it over
  the durable store. File names are relative to
  \<open>src/control-plane-kit-core/src/control_plane_kit_core\<close> (core) and to
  \<open>src/control-plane-kit-operations/src/control_plane_kit_operations\<close> (operations).

  \<^bold>\<open>The program.\<close> A deployment is a graph of runtimes, nodes, edges between their sockets and public
  ingresses. A graph is validated; two valid graphs, the current and the desired one, are compared,
  and their difference is compiled to a plan, a set of typed activities with dependencies: what the
  deployment owns is started, stopped, removed or reconciled in an order that respects runtimes,
  environment edges and ingresses. A run of a plan is a saga: a state per step that evolves by immutable
  events, with compensation in reverse completion order. The durable journal of a run is
  folded to that state, from which a schedule is derived: what is ready, running, waiting or
  blocked, and what may be compensated. Each effect of an activity is an attempt with a
  fence, an outcome and, when the outcome was uncertain, a recovery decision. The lifecycle
  contracts declare which operation takes a run from which status to which; the operations
  package implements them as commands over a store: a worker claims an admitted request under
  a lease with a generation (the fence), opens a run and moves it, every command with an idempotency
  key and every transition with an event in the journal of the run. The lease expires; an operator
  renews, takes over or abandons the claim of a failed run under the next generation, and a failed
  run is retried as a new run of the same request.

  \<^bold>\<open>Conventions.\<close> A frozen dataclass is a record (or a datatype with one constructor), its
  \<open>__post_init__\<close> the function \<open>make_x\<close> or \<open>check_x\<close>; a \<open>StrEnum\<close> is a datatype with a function
  to its text; a union is a datatype. A call that may raise returns a sum, \<open>Inl\<close> of the
  exception with its message; \<open>bindR\<close> sequences. A dictionary is an association list or a map, a
  property is a function. Checks by \<open>isinstance\<close> are the types of the logic and are not repeated,
  except where a parser meets an untyped value (type \<open>py\<close>). Python integers are \<open>int\<close>, with the
  bounds the code checks written out. Characters have 8 bits, so a text is always encodable.

  \<^item> \<open>Prelude\<close>: calls that may raise, Python texts, dictionaries and values.
  \<^item> \<open>Primitives\<close>, \<open>Resource_Lifecycle\<close>: core \<open>types.py\<close>, the identities, \<open>lifecycle.py\<close>, with the
    round trips of the protocols.
  \<^item> \<open>Plan_Syntax\<close>, \<open>Plan_Validation\<close>, \<open>Plan_Order\<close>: core \<open>planning/activity_plan.py\<close>. The
    operations and their compensation; \<open>_validate_composition\<close> with the depth-first cycle search,
    proved to decide acyclicity; \<open>_topological_order\<close>, proved to return an ordered permutation.
    The locale \<open>dependency_order\<close> collects what schedules need from a plan.
  \<^item> \<open>Json_Text\<close>, \<open>Capabilities\<close>, \<open>Graph_Values\<close>, \<open>Graph_Descriptors\<close>, \<open>Graph_Changes\<close>: canonical JSON,
    core \<open>capabilities.py\<close> and \<open>control_routes.py\<close>, the values of a graph (\<open>algebra.py\<close>, \<open>topology/graph.py\<close>
    and the modules of their parts), their descriptors, and \<open>topology/changes.py\<close> with the redaction.
  \<^item> \<open>Graph_Validation\<close>, \<open>Graph_Diff\<close>: the encoder of \<open>topology/codec.py\<close> with its reference checks (the
    decoder is a parameter), \<open>topology/validation.py\<close>, \<open>topology/diff.py\<close>.
  \<^item> \<open>Plan_Compiler\<close>: core \<open>planning/compiler.py\<close>. A draft is named by its position in the list of drafts, so
    that the dictionaries of the code are dictionaries of positions.
  \<^item> \<open>Validation_Laws\<close>, \<open>Diff_Laws\<close>, \<open>Diff_Mirror\<close>: soundness of a graph, stated apart from the validation;
    when a difference is empty, what it reports, and its mirror image.
  \<^item> \<open>Compile_Laws\<close>, \<open>Compile_Order\<close>, \<open>Compile_Results\<close>, \<open>Compile_Success\<close>, \<open>Compile_Accepted\<close>,
    \<open>Topology_Laws\<close>: the operations a list of changes asks for, the relation \<open>precedes\<close> that every dependency
    respects, the dependencies that are always there, ranks that make them acyclic, and the way back from a
    plan to the two graphs.
  \<^item> \<open>Sample_Graph\<close>: sample graphs with a function in the place of SHA-256.
  \<^item> \<open>Saga_Program\<close>, \<open>Saga_State\<close>: core \<open>planning/saga.py\<close>, programs, \<open>decide\<close> and \<open>evolve\<close>.
  \<^item> \<open>Event_Sourcing\<close>: the locales \<open>event_fold\<close> and \<open>event_sourced\<close>, the contract between a
    component that evolves by events and what replays it; the saga and the effect attempts
    are its instances.
  \<^item> \<open>Saga_Laws\<close>, \<open>Saga_Replay\<close>: the abstract saga machine (an inductive step relation), the
    refinement of \<open>evolve\<close>, the invariants of every replay.
  \<^item> \<open>Saga_Schedule\<close>, \<open>Schedule_Blocked\<close>, \<open>Schedule_Laws\<close>, \<open>Schedule_Progress\<close>:
    \<open>derive_schedule\<close>, the blocking fixpoint against an inductive definition of being stuck, the
    lane-by-lane specification, progress and finiteness.
  \<^item> \<open>Saga_Journal\<close>, \<open>Journal_Laws\<close>: \<open>project_activity_journal\<close> and its invariants.
  \<^item> \<open>Bounded_Values\<close>, \<open>Effect_Recovery\<close>, \<open>Recovery_Laws\<close>: core \<open>operations/recovery.py\<close>, the
    attempt machine, its refinement, and the codecs (locale \<open>descriptor_codec\<close>).
  \<^item> \<open>Run_Vocabulary\<close>, \<open>Run_Contract\<close>, \<open>Contract_Tables\<close>, \<open>Contract_Laws\<close>: core
    \<open>operations/lifecycle.py\<close>: the closed vocabularies (locale \<open>closed_enum\<close>), the contract
    classes, the canonical tables, validity and completeness.
  \<^item> \<open>Policy_Scopes\<close>, \<open>Canonical_Time\<close>: core \<open>policies.py\<close> (the scopes) and operations \<open>_temporal.py\<close>.
  \<^item> \<open>Operation_Records\<close>, \<open>Operation_Rows\<close>: operations \<open>records.py\<close>, \<open>execution_leases.py\<close>,
    \<open>activity_journal.py\<close>: bounded evidence and its canonical text, fences, claims, and the rows of
    requests, runs, events, sessions and actions with the checks of their constructors.
  \<^item> \<open>Execution_Store\<close>: operations \<open>postgres/execution.py\<close> and \<open>postgres/activity_history.py\<close> as far
    as the lifecycle calls them, with the constraints of \<open>postgres/current_schema.sql\<close>.
  \<^item> \<open>Run_Lifecycle\<close>: operations \<open>lifecycle.py\<close>, the command service.
  \<^item> \<open>Approval_Records\<close>: core \<open>approval_subjects.py\<close> and the rows of plans and approvals.
  \<^item> \<open>Lease_Time\<close>: canonical times as instants, expiry, and the end of a lease.
  \<^item> \<open>Lease_Store\<close>, \<open>Lease_Recovery\<close>, \<open>Run_Retry\<close>, \<open>Lease_Support\<close>, \<open>Lease_Service\<close>,
    \<open>Retry_Service\<close>: operations \<open>execution_lease_recovery.py\<close>, \<open>activity_run_retry.py\<close>,
    \<open>_execution_lease_recovery_support.py\<close> and the two interpreters.
  \<^item> \<open>Step_Recording\<close>: the step events of operations \<open>coordinator.py\<close>.
  \<^item> \<open>Store_Laws\<close>, \<open>Run_Lifecycle_Laws\<close>, \<open>Run_Invariant\<close>, \<open>Run_Service\<close>, \<open>Run_History\<close>: reading a table
    after it changed (locale \<open>row_table\<close>), what a command that returned has done, the invariant
    of the store, the abstract service as a step relation and its refinement.
  \<^item> \<open>Step_Laws\<close>, \<open>Lease_Laws\<close>, \<open>Lease_Invariant\<close>: the same for step events, recoveries and retries.
  \<^item> \<open>Service_History\<close>, \<open>Service_Records\<close>, \<open>Lease_Facts\<close>: histories of all these services in any
    order (an instance of \<open>event_fold\<close>), the epochs of a claim, the outcomes on record, and what
    the properties share.
  \<^item> \<open>Sample_Store\<close>, \<open>Sample_Recovery\<close>, \<open>Sample_History\<close>: a concrete store and the commands of one
    history, evaluated: claim, start, two steps, failure, takeover and retry.
  \<^item> \<open>Sample_Values\<close>: concrete plans, states and journals for the witnesses.
  \<^item> \<open>Plan_Properties\<close>, \<open>Saga_Properties\<close>, \<open>Recovery_Properties\<close>, \<open>Contract_Properties\<close>,
    \<open>Lifecycle_Properties\<close>, \<open>Lease_Properties\<close>, \<open>Topology_Properties\<close>, and this theory: the properties, numbered C1 onwards.

  \<^bold>\<open>Termination and bounds.\<close> The loop over the retries of a replayed
  run has its Python bound, the number of actions of the session, as fuel; no other definition uses
  fuel. The cycle search terminates because the
  path and visited sets grow inside the dictionary, the topological loop because a
  round removes its ready activities, the blocking loop because a changing pass
  blocks one more activity. An accepted saga history has at most four events per step and
  two more (C40). The abstract machines have no bounds of their own.

  \<^bold>\<open>Transactions.\<close> A transaction of the service is one step: it commits the store its command
  returns, or leaves the store when the command raises. Row locks and advisory locks serialise
  the transactions of a request, so interleavings of statements within transactions are not
  modelled. A row is the record it encodes. The clock, the clock and interval arithmetic of
  the database, the generator of identities and SHA-256 are parameters of a command.

  \<^bold>\<open>Histories.\<close> The histories of the service properties consist of the commands of the run lifecycle,
  lease recoveries, retries and the step events of the coordinator. The compensation of a failed run
  (\<open>failed_run_compensation.py\<close>), the effect-attempt services and their step events are not commands of them.

  \<^bold>\<open>Not modelled.\<close> The decoder of graph descriptors, the authoring language of deployments
  (\<open>topology/compiler.py\<close>), recovery planning and the codec of plans. Other PostgreSQL stores (SQL run by a
  database), HTTP and MCP servers, runtime effects, and the catalogues of products, secrets and node
  control, which are input and output or data. Floating point numbers in evidence; in a graph a number
  equals another if the texts of their floats are equal, which is Python's equality for integers below 10^16
  and for floats other than the negative zero.
\<close>

section \<open>Plan, saga and schedule together\<close>

text \<open>
  C1: everything a schedule calls ready can be started: its predecessors have succeeded and
  \<open>decide\<close> answers the start command with exactly the start event.
\<close>

theorem ready_work_is_accepted:
  "evidence_of p s \<Longrightarrow> derive_schedule p s = Inr d \<Longrightarrow> a \<in> set (ready d) \<Longrightarrow>
     decide s (StartSagaStep (step_of_activity a)) = Inr [SagaStepStarted (step_of_activity a)] \<and>
     (\<forall>i\<in>set (predecessors a). status_at s (activity_step_id i) = Some SUCCEEDED)"
  using ready_accepted in_open_lane(1) by blast

theorem ready_work_is_accepted_witness:
  "decide sample_state (StartSagaStep (step_of_activity start_api)) =
     Inr [SagaStepStarted (step_of_activity start_api)]"
  using ready_work_is_accepted [OF sample_evidence sample_derived, of start_api]
  by (simp add: sample_schedule_def)

text \<open>
  C2: a schedule never deadlocks on its own dependencies: when something waits, something
  else is ready or running.
\<close>

theorem waiting_work_moves:
  "evidence_of p s \<Longrightarrow> derive_schedule p s = Inr d \<Longrightarrow> waiting d \<noteq> [] \<Longrightarrow>
     ready d \<noteq> [] \<or> running d \<noteq> []"
  by (rule waiting_moves)

theorem waiting_work_moves_witness: "ready sample_schedule @ running sample_schedule \<noteq> []"
  using waiting_work_moves [OF sample_evidence sample_derived] by (simp add: sample_schedule_def)

text \<open>
  C24: every history that replays from the initial state of a plan has a schedule, and its
  lanes partition the plan.
\<close>

theorem schedule_of_every_history:
  "is_plan p \<Longrightarrow> evolve_all (initial_for_plan p) es = Inr s \<Longrightarrow>
     evidence_of p s \<and>
     (\<exists>d. derive_schedule p s = Inr d \<and>
       mset (activities p) = mset (ready d) + mset (waiting d) + mset (map held_activity (blocked d)) +
         mset (running d) + mset (succeeded d) + mset (failed d) + mset (compensating d) +
         mset (compensated d) + mset (compensation_failed d))"
  unfolding evolve_all_foldR using replay_evidence derive_schedule_correct schedule_partition by meson

theorem schedule_of_every_history_witness:
  "\<exists>d. derive_schedule sample_plan failed_state = Inr d"
proof -
  have "evolve_all (initial_for_plan sample_plan)
      [SagaStepStarted db, SagaStepSucceeded db, SagaStepStarted api, SagaStepFailed api] = Inr failed_state"
    by code_simp
  from schedule_of_every_history [OF sample_is_plan this] show ?thesis by blast
qed

text \<open>
  A pending activity is blocked exactly when the whole plan is held (by a review or by
  the overall status) or it is stuck behind a failed activity; every blocked entry carries
  the matching reason and predecessors.
\<close>

theorem blocked_work_has_reason:
  "evidence_of p s \<Longrightarrow> derive_schedule p s = Inr d \<Longrightarrow>
     g = global_block_reason (status_of s) (review_ids (activities p) \<noteq> []) \<Longrightarrow>
     map held_activity (blocked d) = filter (blocked_at (status_by_id s) (activities p) g) (activities p) \<and>
     (\<forall>h\<in>set (blocked d). reason_ok (status_by_id s) (activities p) g h)"
  using derive_schedule_spec by (fastforce simp: schedule_spec_def Let_def plan_block_def [abs_def])

theorem blocked_work_has_reason_witness:
  "\<exists>d. derive_schedule sample_plan failed_state = Inr d \<and>
     map held_activity (blocked d) = [wait_api] \<and>
     (\<forall>h\<in>set (blocked d). reason_ok (status_by_id failed_state) (activities sample_plan) (Some SAGA_FAILED) h)"
proof -
  have d: "derive_schedule sample_plan failed_state = Inr failed_schedule" by (rule failed_derived)
  have "global_block_reason (status_of failed_state) (review_ids (activities sample_plan) \<noteq> []) =
      Some SAGA_FAILED" by code_simp
  from blocked_work_has_reason [OF failed_evidence d this [symmetric]]
  have "\<forall>h\<in>set (blocked failed_schedule).
      reason_ok (status_by_id failed_state) (activities sample_plan) (Some SAGA_FAILED) h" by blast
  moreover have "map held_activity (blocked failed_schedule) = [wait_api]"
    by (simp add: failed_schedule_def)
  ultimately show ?thesis using d by (intro exI [of _ failed_schedule] conjI)
qed

text \<open>
  An accepted activity journal always has a schedule: its projection is evidence for
  the plan, and what the schedule calls running is what the projection has running.
\<close>

theorem journal_has_schedule:
  "is_plan p \<Longrightarrow> project_activity_journal p es = Inr r \<Longrightarrow>
     evidence_of p (projected_state r) \<and>
     (\<exists>d. derive_schedule p (projected_state r) = Inr d \<and>
        (\<forall>e\<in>set (in_flight r). \<exists>a\<in>set (running d). event_activity e = Some (activity_id_value (activity_id a))))"
  using project_evidence journal_in_flight_runs by blast

theorem journal_has_schedule_witness:
  "\<exists>d. derive_schedule sample_plan (projected_state sample_projection) = Inr d \<and>
     (\<exists>a\<in>set (running d). Some ''start:api'' = Some (activity_id_value (activity_id a)))"
proof -
  have "api_started \<in> set (in_flight sample_projection)"
    "event_activity api_started = Some ''start:api''" by (simp_all add: sample_projection_def sample_entries)
  with journal_has_schedule [OF sample_is_plan sample_projected] show ?thesis by metis
qed

text \<open>
  A schedule that is not terminal offers progress: some command is accepted.
\<close>

theorem unfinished_schedule_progresses:
  "evidence_of p s \<Longrightarrow> derive_schedule p s = Inr d \<Longrightarrow> \<not> terminal d \<Longrightarrow> \<exists>c v. decide s c = Inr [v]"
  by (rule schedule_progress)

theorem unfinished_schedule_progresses_witness: "\<exists>c v. decide sample_state c = Inr [v]"
  by (rule unfinished_schedule_progresses [OF sample_evidence sample_derived])
    (simp add: terminal_def sample_schedule_def)

text \<open>
  The first activity a schedule offers for compensation is the one whose compensation
  \<open>decide\<close> accepts.
\<close>

theorem undo_head_is_accepted:
  "evidence_of p s \<Longrightarrow> derive_schedule p s = Inr d \<Longrightarrow> compensation_ready d = a # as \<Longrightarrow>
     decide s (BeginSagaCompensation (step_of_activity a)) =
       Inr [SagaCompensationStarted (step_of_activity a)]"
  by (rule undo_head_accepted)

theorem undo_head_is_accepted_witness:
  "decide failed_state (BeginSagaCompensation (step_of_activity start_db)) =
     Inr [SagaCompensationStarted (step_of_activity start_db)]"
  by (rule undo_head_is_accepted [OF failed_evidence failed_derived, where as = "[]"])
    (simp add: failed_schedule_def)

text \<open>
  A successful schedule means that every step of the saga has succeeded.
\<close>

theorem successful_means_succeeded:
  "evidence_of p s \<Longrightarrow> derive_schedule p s = Inr d \<Longrightarrow> successful d \<Longrightarrow> i \<in> set (step_ids s) \<Longrightarrow>
     status_at s i = Some SUCCEEDED"
  by (rule successful_all)

theorem successful_means_succeeded_witness: "status_at done_state api = Some SUCCEEDED"
proof (rule successful_means_succeeded [OF done_evidence done_derived])
  show "successful done_schedule" by (simp add: successful_def terminal_def done_schedule_def empty_schedule_def)
  show "api \<in> set (step_ids done_state)" by code_simp
qed

end
